(* ===== verification/Prelude.thy ===== *)
theory Prelude
  imports Main "HOL-Library.Word"
begin

text \<open>
  Shared vocabulary of the development: machine integers, the Rust string operations the code
  uses, decimal and hexadecimal rendering, association lists in the order of a Rust
  \<open>BTreeMap\<close>, and the list and option lemmas the components share.

  Strings are UTF-8 byte sequences (\<open>string\<close>, a list of 8-bit characters), so \<open>length\<close> is
  Rust's \<open>str::len\<close>. Trimming follows the Unicode \<open>White_Space\<close> property on the UTF-8
  encoding of its 25 code points.
\<close>

type_synonym u16 = "16 word"
type_synonym u32 = "32 word"
type_synonym i32 = "32 word"
type_synonym u64 = "64 word"
type_synonym uuid = "128 word"
type_synonym timestamp = int

text \<open>
  A \<open>timestamp\<close> is a \<open>DateTime<Utc>\<close> in nanoseconds since the epoch. Every function of the
  code that reads \<open>Utc::now()\<close> takes the reading as an argument.
\<close>

named_theorems str_simps \<open>evaluation of the string operations\<close>

section \<open>Characters\<close>

abbreviation byte :: "char \<Rightarrow> nat" where
  "byte c \<equiv> of_char c"

definition is_ascii_digit :: "char \<Rightarrow> bool" where
  [str_simps]: "is_ascii_digit c \<longleftrightarrow> 48 \<le> byte c \<and> byte c \<le> 57"

definition is_ascii_lowercase :: "char \<Rightarrow> bool" where
  [str_simps]: "is_ascii_lowercase c \<longleftrightarrow> 97 \<le> byte c \<and> byte c \<le> 122"

definition is_ascii_uppercase :: "char \<Rightarrow> bool" where
  [str_simps]: "is_ascii_uppercase c \<longleftrightarrow> 65 \<le> byte c \<and> byte c \<le> 90"

definition is_ascii_alphabetic :: "char \<Rightarrow> bool" where
  [str_simps]: "is_ascii_alphabetic c \<longleftrightarrow> is_ascii_lowercase c \<or> is_ascii_uppercase c"

definition is_ascii_alphanumeric :: "char \<Rightarrow> bool" where
  [str_simps]: "is_ascii_alphanumeric c \<longleftrightarrow> is_ascii_alphabetic c \<or> is_ascii_digit c"

definition is_ascii_control :: "char \<Rightarrow> bool" where
  [str_simps]: "is_ascii_control c \<longleftrightarrow> byte c < 32 \<or> byte c = 127"

definition ascii_lower :: "char \<Rightarrow> char" where
  [str_simps]: "ascii_lower c = (if is_ascii_uppercase c then char_of (byte c + 32) else c)"

definition to_ascii_lowercase :: "string \<Rightarrow> string" where
  [str_simps]: "to_ascii_lowercase s = map ascii_lower s"

definition eq_ignore_ascii_case :: "string \<Rightarrow> string \<Rightarrow> bool" where
  [str_simps]: "eq_ignore_ascii_case a b \<longleftrightarrow> to_ascii_lowercase a = to_ascii_lowercase b"

lemma ascii_lower_idem [simp]: "ascii_lower (ascii_lower c) = ascii_lower c"
  by (simp add: ascii_lower_def is_ascii_uppercase_def)

lemma to_ascii_lowercase_idem [simp]:
  "to_ascii_lowercase (to_ascii_lowercase s) = to_ascii_lowercase s"
  by (simp add: to_ascii_lowercase_def)

lemma to_ascii_lowercase_append [simp]:
  "to_ascii_lowercase (a @ b) = to_ascii_lowercase a @ to_ascii_lowercase b"
  by (simp add: to_ascii_lowercase_def)

section \<open>Prefixes, suffixes and substrings\<close>

definition starts_with :: "string \<Rightarrow> string \<Rightarrow> bool" where
  [str_simps]: "starts_with s p \<longleftrightarrow> take (length p) s = p"

definition ends_with :: "string \<Rightarrow> string \<Rightarrow> bool" where
  [str_simps]: "ends_with s p \<longleftrightarrow> starts_with (rev s) (rev p)"

definition strip_prefix :: "string \<Rightarrow> string \<Rightarrow> string option" where
  [str_simps]: "strip_prefix s p = (if starts_with s p then Some (drop (length p) s) else None)"

definition strip_suffix :: "string \<Rightarrow> string \<Rightarrow> string option" where
  [str_simps]: "strip_suffix s p =
     (if ends_with s p then Some (take (length s - length p) s) else None)"

fun str_contains :: "string \<Rightarrow> string \<Rightarrow> bool" where
  "str_contains [] p = (p = [])"
| "str_contains (c # s) p = (starts_with (c # s) p \<or> str_contains s p)"

lemma starts_with_iff: "starts_with s p \<longleftrightarrow> (\<exists>t. s = p @ t)"
proof
  assume "starts_with s p"
  then show "\<exists>t. s = p @ t"
    by (metis append_take_drop_id starts_with_def)
qed (auto simp: starts_with_def)

lemma ends_with_iff: "ends_with s p \<longleftrightarrow> (\<exists>t. s = t @ p)"
proof -
  have "ends_with s p \<longleftrightarrow> (\<exists>t. rev s = rev p @ t)"
    by (simp add: ends_with_def starts_with_iff)
  also have "\<dots> \<longleftrightarrow> (\<exists>t. s = t @ p)"
    by (metis rev_append rev_rev_ident)
  finally show ?thesis .
qed

lemma strip_prefix_Some: "strip_prefix s p = Some t \<longleftrightarrow> s = p @ t"
  by (auto simp: strip_prefix_def starts_with_iff)

lemma strip_suffix_Some: "strip_suffix s p = Some t \<longleftrightarrow> s = t @ p"
  by (auto simp: strip_suffix_def ends_with_iff)

lemma str_contains_iff: "str_contains s p \<longleftrightarrow> (\<exists>a b. s = a @ p @ b)"
proof (induction s)
  case Nil
  then show ?case by simp
next
  case (Cons c s)
  have "(\<exists>a b. c # s = a @ p @ b) \<longleftrightarrow> (\<exists>b. c # s = p @ b) \<or> (\<exists>a b. s = a @ p @ b)"
    by (metis append_Cons append_Nil neq_Nil_conv list.inject)
  with Cons.IH show ?case by (simp add: starts_with_iff)
qed

section \<open>Trimming\<close>

text \<open>
  \<open>ws_len\<close> is the number of bytes of the white-space code point a UTF-8 string starts with
  (0 when it does not start with one); \<open>ws_len_rev\<close> is the same on the reversed bytes.
\<close>

fun ws_len_bytes :: "nat list \<Rightarrow> nat" where
  "ws_len_bytes (a # b # c # _) =
     (if (9 \<le> a \<and> a \<le> 13) \<or> a = 32 then 1
      else if a = 194 \<and> (b = 133 \<or> b = 160) then 2
      else if a = 225 \<and> b = 154 \<and> c = 128 then 3
      else if a = 226 \<and> b = 128 \<and> ((128 \<le> c \<and> c \<le> 138) \<or> c = 168 \<or> c = 169 \<or> c = 175) then 3
      else if a = 226 \<and> b = 129 \<and> c = 159 then 3
      else if a = 227 \<and> b = 128 \<and> c = 128 then 3
      else 0)"
| "ws_len_bytes [a, b] =
     (if (9 \<le> a \<and> a \<le> 13) \<or> a = 32 then 1
      else if a = 194 \<and> (b = 133 \<or> b = 160) then 2 else 0)"
| "ws_len_bytes [a] = (if (9 \<le> a \<and> a \<le> 13) \<or> a = 32 then 1 else 0)"
| "ws_len_bytes [] = 0"

definition ws_len :: "string \<Rightarrow> nat" where
  "ws_len s = ws_len_bytes (map byte (take 3 s))"

definition ws_len_rev :: "string \<Rightarrow> nat" where
  "ws_len_rev s =
     (if ws_len (take 1 s) = 1 then 1
      else if ws_len (rev (take 2 s)) = 2 then 2
      else if ws_len (rev (take 3 s)) = 3 then 3 else 0)"

lemma ws_len_Nil [simp]: "ws_len [] = 0" "ws_len_rev [] = 0"
  by (simp_all add: ws_len_def ws_len_rev_def)

function trim_start :: "string \<Rightarrow> string" where
  "trim_start s = (if 0 < ws_len s then trim_start (drop (ws_len s) s) else s)"
  by pat_completeness auto
termination
proof (relation "measure length")
  fix s :: string
  assume "0 < ws_len s"
  moreover from this have "s \<noteq> []" by auto
  ultimately show "(drop (ws_len s) s, s) \<in> measure length" by (cases s) auto
qed auto

function trim_rev :: "string \<Rightarrow> string" where
  "trim_rev s = (if 0 < ws_len_rev s then trim_rev (drop (ws_len_rev s) s) else s)"
  by pat_completeness auto
termination
proof (relation "measure length")
  fix s :: string
  assume "0 < ws_len_rev s"
  moreover from this have "s \<noteq> []" by auto
  ultimately show "(drop (ws_len_rev s) s, s) \<in> measure length" by (cases s) auto
qed auto

declare trim_start.simps [simp del] trim_rev.simps [simp del]

definition trim_end :: "string \<Rightarrow> string" where
  "trim_end s = rev (trim_rev (rev s))"

definition trim :: "string \<Rightarrow> string" where
  "trim s = trim_start (trim_end s)"

text \<open>\<open>str::trim\<close> starts at both ends; on valid UTF-8 trimming the end first gives the same.\<close>

lemma trim_start_suffix: "\<exists>p. s = p @ trim_start s"
proof (induction s rule: trim_start.induct)
  case (1 s)
  show ?case
  proof (cases "0 < ws_len s")
    case True
    with "1.IH" obtain p where "drop (ws_len s) s = p @ trim_start (drop (ws_len s) s)" by blast
    then have "s = (take (ws_len s) s @ p) @ trim_start (drop (ws_len s) s)"
      by (metis append.assoc append_take_drop_id)
    moreover from True have "trim_start s = trim_start (drop (ws_len s) s)"
      by (subst trim_start.simps) simp
    ultimately show ?thesis by metis
  next
    case False
    then show ?thesis by (subst trim_start.simps) simp
  qed
qed

lemma trim_rev_suffix: "\<exists>p. s = p @ trim_rev s"
proof (induction s rule: trim_rev.induct)
  case (1 s)
  show ?case
  proof (cases "0 < ws_len_rev s")
    case True
    with "1.IH" obtain p where "drop (ws_len_rev s) s = p @ trim_rev (drop (ws_len_rev s) s)"
      by blast
    then have "s = (take (ws_len_rev s) s @ p) @ trim_rev (drop (ws_len_rev s) s)"
      by (metis append.assoc append_take_drop_id)
    moreover from True have "trim_rev s = trim_rev (drop (ws_len_rev s) s)"
      by (subst trim_rev.simps) simp
    ultimately show ?thesis by metis
  next
    case False
    then show ?thesis by (subst trim_rev.simps) simp
  qed
qed

lemma trim_infix: "\<exists>p q. s = p @ trim s @ q"
proof -
  obtain q where q: "rev s = q @ trim_rev (rev s)" using trim_rev_suffix by blast
  then have "rev (rev s) = rev (q @ trim_rev (rev s))" by (rule arg_cong)
  then have "s = trim_end s @ rev q" by (simp add: trim_end_def)
  moreover obtain p where "trim_end s = p @ trim s"
    using trim_start_suffix [of "trim_end s"] by (auto simp: trim_def)
  ultimately show ?thesis by (metis append.assoc)
qed

lemma trim_Nil [simp]: "trim [] = []"
  by (simp add: trim_def trim_end_def trim_rev.simps trim_start.simps)

lemma set_trim: "set (trim s) \<subseteq> set s"
  using trim_infix [of s] by (metis Un_iff set_append subsetI)

definition trim_end_matches :: "char \<Rightarrow> string \<Rightarrow> string" where
  [str_simps]: "trim_end_matches c s = rev (dropWhile (\<lambda>x. x = c) (rev s))"

definition trim_start_matches :: "char \<Rightarrow> string \<Rightarrow> string" where
  [str_simps]: "trim_start_matches c s = dropWhile (\<lambda>x. x = c) s"

definition trim_matches :: "char \<Rightarrow> string \<Rightarrow> string" where
  [str_simps]: "trim_matches c s = trim_end_matches c (trim_start_matches c s)"

lemma trim_end_matches_prefix: "\<exists>t. s = trim_end_matches c s @ t \<and> set t \<subseteq> {c}"
proof -
  let ?w = "takeWhile (\<lambda>x. x = c) (rev s)"
  have "rev s = ?w @ dropWhile (\<lambda>x. x = c) (rev s)" by simp
  then have "s = trim_end_matches c s @ rev ?w"
    unfolding trim_end_matches_def by (metis rev_append rev_rev_ident)
  moreover have "set (rev ?w) \<subseteq> {c}" by (auto dest: set_takeWhileD)
  ultimately show ?thesis by blast
qed

lemma last_trim_end_matches: "trim_end_matches c s \<noteq> [] \<Longrightarrow> last (trim_end_matches c s) \<noteq> c"
  unfolding trim_end_matches_def last_rev rev_is_Nil_conv by (rule hd_dropWhile)

lemma length_trim_end_matches: "length (trim_end_matches c s) \<le> length s"
  unfolding trim_end_matches_def length_rev by (metis length_dropWhile_le length_rev)

lemma set_trim_end_matches: "set (trim_end_matches c s) \<subseteq> set s"
  unfolding trim_end_matches_def set_rev by (metis set_dropWhileD set_rev subsetI)

lemma hd_trim_start_matches:
  "trim_start_matches c s \<noteq> [] \<Longrightarrow> hd (trim_start_matches c s) \<noteq> c"
  unfolding trim_start_matches_def by (rule hd_dropWhile)

section \<open>Splitting, joining and replacing\<close>

fun split_char :: "char \<Rightarrow> string \<Rightarrow> string list" where
  "split_char d [] = [[]]"
| "split_char d (c # s) =
     (if c = d then [] # split_char d s
      else (case split_char d s of [] \<Rightarrow> [[c]] | w # ws \<Rightarrow> (c # w) # ws))"

fun rsplit_once :: "char \<Rightarrow> string \<Rightarrow> (string \<times> string) option" where
  "rsplit_once d [] = None"
| "rsplit_once d (c # s) =
     (case rsplit_once d s of
        Some (a, b) \<Rightarrow> Some (c # a, b)
      | None \<Rightarrow> (if c = d then Some ([], s) else None))"

lemma rsplit_once_None: "rsplit_once d s = None \<longleftrightarrow> d \<notin> set s"
  by (induction s) (auto split: option.splits)

lemma rsplit_once_Some: "rsplit_once d s = Some (a, b) \<longleftrightarrow> s = a @ d # b \<and> d \<notin> set b"
proof (induction s arbitrary: a b)
  case Nil
  then show ?case by simp
next
  case (Cons c s)
  show ?case
  proof (cases "rsplit_once d s")
    case None
    then have "d \<notin> set s" by (simp add: rsplit_once_None)
    with None show ?thesis by (cases a) auto
  next
    case (Some p)
    obtain a' b' where p: "p = (a', b')" by (cases p)
    with Some have s: "s = a' @ d # b'" "d \<notin> set b'" using Cons.IH by auto
    have uniq: "s = x @ d # y \<Longrightarrow> d \<notin> set y \<Longrightarrow> x = a' \<and> y = b'" for x y
      using Cons.IH [of x y] Some p by simp
    have lhs: "rsplit_once d (c # s) = Some (c # a', b')" using Some p by simp
    show ?thesis
    proof
      assume "rsplit_once d (c # s) = Some (a, b)"
      with lhs s show "c # s = a @ d # b \<and> d \<notin> set b" by auto
    next
      assume r: "c # s = a @ d # b \<and> d \<notin> set b"
      show "rsplit_once d (c # s) = Some (a, b)"
      proof (cases a)
        case Nil
        with r have "s = b" by simp
        with r s(1) show ?thesis by auto
      next
        case (Cons e a'')
        with r have "e = c" "s = a'' @ d # b" by auto
        with uniq r have "a'' = a' \<and> b = b'" by blast
        with lhs Cons \<open>e = c\<close> show ?thesis by simp
      qed
    qed
  qed
qed

fun join :: "string \<Rightarrow> string list \<Rightarrow> string" where
  "join sep [] = []"
| "join sep [w] = w"
| "join sep (w # v # ws) = w @ sep @ join sep (v # ws)"

text \<open>\<open>str::replace\<close> with a non-empty pattern: left to right, non-overlapping.\<close>

function str_replace :: "string \<Rightarrow> string \<Rightarrow> string \<Rightarrow> string" where
  "str_replace pat new [] = []"
| "str_replace pat new (c # s) =
     (if pat \<noteq> [] \<and> starts_with (c # s) pat
      then new @ str_replace pat new (drop (length pat) (c # s))
      else c # str_replace pat new s)"
  by pat_completeness auto
termination
  by (relation "measure (\<lambda>(p, n, s). length s)") auto

section \<open>Rendering numbers\<close>

definition digit_char :: "nat \<Rightarrow> char" where
  "digit_char d = char_of (if d < 10 then 48 + d else 87 + d)"

fun show_nat :: "nat \<Rightarrow> string" where
  "show_nat n = (if n < 10 then [digit_char n] else show_nat (n div 10) @ [digit_char (n mod 10)])"

declare show_nat.simps [simp del]

definition show_int :: "int \<Rightarrow> string" where
  "show_int n = (if n < 0 then CHR ''-'' # show_nat (nat (- n)) else show_nat (nat n))"

fun hex_digits :: "nat \<Rightarrow> nat \<Rightarrow> string" where
  "hex_digits 0 n = []"
| "hex_digits (Suc k) n = hex_digits k (n div 16) @ [digit_char (n mod 16)]"

lemma length_hex_digits [simp]: "length (hex_digits k n) = k"
  by (induction k arbitrary: n) auto

definition is_hex_lower :: "char \<Rightarrow> bool" where
  "is_hex_lower c \<longleftrightarrow> is_ascii_digit c \<or> (97 \<le> byte c \<and> byte c \<le> 102)"

lemma is_hex_lower_digit_char: "d < 16 \<Longrightarrow> is_hex_lower (digit_char d)"
  by (simp add: is_hex_lower_def digit_char_def is_ascii_digit_def)

lemma hex_digits_hex: "c \<in> set (hex_digits k n) \<Longrightarrow> is_hex_lower c"
  by (induction k arbitrary: n) (auto simp: is_hex_lower_digit_char)

lemma show_nat_digits: "\<forall>c \<in> set (show_nat n). is_ascii_digit c"
proof (induction n rule: show_nat.induct)
  case (1 n)
  have d: "is_ascii_digit (digit_char (n mod 10))" "n < 10 \<Longrightarrow> is_ascii_digit (digit_char n)"
    by (simp_all add: digit_char_def is_ascii_digit_def)
  from "1.IH" d show ?case by (subst show_nat.simps) auto
qed

lemma show_nat_not_Nil [simp]: "show_nat n \<noteq> []"
  by (subst show_nat.simps) simp

section \<open>Association lists with distinct keys\<close>

text \<open>
  A \<open>BTreeMap<String, String>\<close> is a partial map where its order is never observed, and an
  association list where it is. \<open>alist_put\<close> overwrites in place or appends.
\<close>

fun alist_put :: "'k \<Rightarrow> 'v \<Rightarrow> ('k \<times> 'v) list \<Rightarrow> ('k \<times> 'v) list" where
  "alist_put k v [] = [(k, v)]"
| "alist_put k v ((k', v') # ps) = (if k = k' then (k, v) # ps else (k', v') # alist_put k v ps)"

lemma map_of_alist_put [simp]: "map_of (alist_put k v ps) = (map_of ps)(k \<mapsto> v)"
  by (induction ps) (auto simp: fun_eq_iff)

section \<open>Results\<close>

text \<open>\<open>Result<T, E>\<close> is \<open>E + T\<close>; \<open>ok_or\<close>, \<open>and_then\<close> and \<open>unwrap_or\<close> as in the code.\<close>

definition ok_or :: "'e \<Rightarrow> 'a option \<Rightarrow> 'e + 'a" where
  "ok_or e x = (case x of None \<Rightarrow> Inl e | Some a \<Rightarrow> Inr a)"

definition result_bind :: "'e + 'a \<Rightarrow> ('a \<Rightarrow> 'e + 'b) \<Rightarrow> 'e + 'b" where
  "result_bind m f = (case m of Inl e \<Rightarrow> Inl e | Inr a \<Rightarrow> f a)"

definition unwrap_or :: "'a \<Rightarrow> 'a option \<Rightarrow> 'a" where
  "unwrap_or d x = (case x of None \<Rightarrow> d | Some a \<Rightarrow> a)"

definition is_some_and :: "'a option \<Rightarrow> ('a \<Rightarrow> bool) \<Rightarrow> bool" where
  "is_some_and x p = (case x of None \<Rightarrow> False | Some a \<Rightarrow> p a)"

lemma result_bind_simps [simp]:
  "result_bind (Inl e) f = Inl e" "result_bind (Inr a) f = f a"
  by (simp_all add: result_bind_def)

lemma result_bind_Inr: "result_bind m f = Inr b \<longleftrightarrow> (\<exists>a. m = Inr a \<and> f a = Inr b)"
  by (cases m) auto

lemma result_bind_Inl: "result_bind m f = Inl e \<longleftrightarrow> m = Inl e \<or> (\<exists>a. m = Inr a \<and> f a = Inl e)"
  by (cases m) auto

lemma ok_or_simps [simp]: "ok_or e None = Inl e" "ok_or e (Some a) = Inr a"
  by (simp_all add: ok_or_def)

lemma unwrap_or_simps [simp]: "unwrap_or d None = d" "unwrap_or d (Some a) = a"
  by (simp_all add: unwrap_or_def)

lemma is_some_and_simps [simp]: "is_some_and None p = False" "is_some_and (Some a) p = p a"
  by (simp_all add: is_some_and_def)

lemma is_some_and_iff: "is_some_and x p \<longleftrightarrow> (\<exists>a. x = Some a \<and> p a)"
  by (cases x) auto

section \<open>Validators that collect errors\<close>

text \<open>
  The validators of the custom resource push messages onto a vector in order and return it when
  it is not empty: \<open>err_if\<close> is one push, \<open>errs_of\<close> the errors of a nested validator that
  \<open>extend\<close> adds, and \<open>finish\<close> the final test.
\<close>

definition err_if :: "bool \<Rightarrow> 'e \<Rightarrow> 'e list" where
  "err_if c e = (if c then [e] else [])"

definition errs_of :: "'e list + unit \<Rightarrow> 'e list" where
  "errs_of r = (case r of Inl es \<Rightarrow> es | Inr _ \<Rightarrow> [])"

definition finish :: "'e list \<Rightarrow> 'e list + unit" where
  "finish es = (if es = [] then Inr () else Inl es)"

definition on_some :: "'a option \<Rightarrow> ('a \<Rightarrow> 'e list) \<Rightarrow> 'e list" where
  "on_some x f = (case x of None \<Rightarrow> [] | Some a \<Rightarrow> f a)"

lemma err_if_Nil [simp]: "err_if c e = [] \<longleftrightarrow> \<not> c"
  by (simp add: err_if_def)

lemma finish_Inr [simp]: "finish es = Inr u \<longleftrightarrow> es = []"
  by (simp add: finish_def)

lemma errs_of_finish [simp]: "errs_of (finish es) = es"
  by (simp add: errs_of_def finish_def)

lemma on_some_Nil [simp]: "on_some x f = [] \<longleftrightarrow> (\<forall>a. x = Some a \<longrightarrow> f a = [])"
  by (cases x) (simp_all add: on_some_def)

lemma errs_of_Nil: "(\<And>es. r = Inl es \<Longrightarrow> es \<noteq> []) \<Longrightarrow> errs_of r = [] \<longleftrightarrow> r = Inr ()"
  by (cases r) (auto simp: errs_of_def)

end
