(* ===== verification/Domain.thy ===== *)
theory Domain
  imports Prelude
begin

text \<open>
  The domain types of the control plane: \<open>crates/reinhardt-cloud-types/src/agent.rs\<close>,
  \<open>build.rs\<close> and \<open>log.rs\<close>, and the error type of \<open>crates/reinhardt-cloud-core/src/error.rs\<close>.
  A 64-bit float is its bit pattern (no operation of the model computes with it), a JSON
  value is a type parameter.
\<close>

type_synonym f64 = "64 word"

section \<open>API errors\<close>

datatype api_error =
    Unauthorized string
  | Forbidden string
  | NotFound string
  | BadRequest string
  | Internal string

fun status_code :: "api_error \<Rightarrow> nat" where
  "status_code (Unauthorized _) = 401"
| "status_code (Forbidden _) = 403"
| "status_code (NotFound _) = 404"
| "status_code (BadRequest _) = 400"
| "status_code (Internal _) = 500"

section \<open>Secrets\<close>

datatype secret_string = SecretString (expose_secret: string)

definition redacted :: string where
  "redacted = ''[REDACTED]''"

definition secret_debug :: "secret_string \<Rightarrow> string" where
  "secret_debug s = redacted"

definition secret_serialize :: "secret_string \<Rightarrow> string" where
  "secret_serialize s = redacted"

definition secret_deserialize :: "string \<Rightarrow> string + secret_string" where
  "secret_deserialize value =
     (if value = redacted
      then Inl ''refusing to deserialize a redacted secret placeholder''
      else Inr (SecretString value))"

section \<open>Agents\<close>

record agent_info =
  info_agent_id :: uuid
  info_cluster_name :: string
  info_node_name :: string
  info_version :: string
  info_last_seen :: timestamp

datatype agent_command =
    Deploy string string u32
  | Rollback string u32
  | Scale string u32
  | Restart string
  | ApplyProject string string
  | ApplyGitCredentialsSecret string string string secret_string

datatype agent_event =
    Connected uuid string timestamp
  | DeployStatus string bool string timestamp
  | Heartbeat uuid timestamp
  | AgentError string timestamp
  | CommandStatus string string bool string timestamp

record deploy_status_report =
  dsr_project_name :: string
  dsr_success :: bool
  dsr_message :: string
  dsr_reported_at :: timestamp

record agent_health =
  health_agent_id :: uuid
  health_healthy :: bool
  health_cpu_usage_percent :: f64
  health_memory_usage_percent :: f64
  health_pod_count :: u32
  health_reported_at :: timestamp

section \<open>Builds\<close>

record env_var =
  env_key :: string
  env_value :: string

record build_request =
  req_project_name :: string
  req_image :: string
  req_env_vars :: "env_var list"
  req_dockerfile :: "string option"
  req_context_path :: "string option"

datatype build_phase = Queued | Pulling | Building | Pushing | Finalizing

fun build_phase_display :: "build_phase \<Rightarrow> string" where
  "build_phase_display Queued = ''queued''"
| "build_phase_display Pulling = ''pulling''"
| "build_phase_display Building = ''building''"
| "build_phase_display Pushing = ''pushing''"
| "build_phase_display Finalizing = ''finalizing''"

datatype build_event =
    BuildLog string timestamp
  | PhaseChange build_phase timestamp
  | ArtifactReady string string timestamp
  | BuildError string timestamp
  | Complete bool timestamp

record build_status =
  bs_build_id :: uuid
  bs_project_name :: string
  bs_phase :: build_phase
  bs_completed :: bool
  bs_success :: "bool option"
  bs_started_at :: timestamp
  bs_completed_at :: "timestamp option"

text \<open>
  The derived order of \<open>BuildPhase\<close>'s declaration, used by the invariants that say a build
  only moves forward.
\<close>

fun phase_rank :: "build_phase \<Rightarrow> nat" where
  "phase_rank Queued = 0"
| "phase_rank Pulling = 1"
| "phase_rank Building = 2"
| "phase_rank Pushing = 3"
| "phase_rank Finalizing = 4"

lemma phase_rank_inj: "phase_rank a = phase_rank b \<longleftrightarrow> a = b"
  by (cases a; cases b) simp_all

instantiation build_phase :: linorder
begin

definition less_eq_build_phase :: "build_phase \<Rightarrow> build_phase \<Rightarrow> bool" where
  "less_eq_build_phase a b \<longleftrightarrow> phase_rank a \<le> phase_rank b"

definition less_build_phase :: "build_phase \<Rightarrow> build_phase \<Rightarrow> bool" where
  "less_build_phase a b \<longleftrightarrow> phase_rank a < phase_rank b"

instance
  by standard (auto simp: less_eq_build_phase_def less_build_phase_def phase_rank_inj)

end

section \<open>Logs\<close>

datatype log_level = Debug | Info | Warn | Error

fun level_rank :: "log_level \<Rightarrow> nat" where
  "level_rank Debug = 0"
| "level_rank Info = 1"
| "level_rank Warn = 2"
| "level_rank Error = 3"

lemma level_rank_inj: "level_rank a = level_rank b \<longleftrightarrow> a = b"
  by (cases a; cases b) simp_all

text \<open>\<open>#[derive(PartialOrd, Ord)]\<close> orders the levels as they are declared.\<close>

instantiation log_level :: linorder
begin

definition less_eq_log_level :: "log_level \<Rightarrow> log_level \<Rightarrow> bool" where
  "less_eq_log_level a b \<longleftrightarrow> level_rank a \<le> level_rank b"

definition less_log_level :: "log_level \<Rightarrow> log_level \<Rightarrow> bool" where
  "less_log_level a b \<longleftrightarrow> level_rank a < level_rank b"

instance
  by standard (auto simp: less_eq_log_level_def less_log_level_def level_rank_inj)

end

record 'json log_entry =
  le_timestamp :: timestamp
  le_level :: log_level
  le_source :: string
  le_message :: string
  le_metadata :: "'json option"

record log_filter =
  lf_source :: "string option"
  lf_namespace :: "string option"
  lf_min_level :: "log_level option"
  lf_since :: "timestamp option"
  lf_until :: "timestamp option"
  lf_search :: "string option"
  lf_deployment_id :: "string option"

definition empty_log_filter :: log_filter where
  "empty_log_filter =
     \<lparr>lf_source = None, lf_namespace = None, lf_min_level = None, lf_since = None,
      lf_until = None, lf_search = None, lf_deployment_id = None\<rparr>"

end
