(* ===== verification/Pagination.thy ===== *)
theory Pagination
  imports Prelude
begin

text \<open>
  \<open>crates/reinhardt-cloud-core/src/pagination.rs\<close>: page parameters and the paginated response,
  with 64-bit unsigned arithmetic.
\<close>

definition DEFAULT_PAGE :: u64 where "DEFAULT_PAGE = 1"

definition DEFAULT_PAGE_SIZE :: u64 where "DEFAULT_PAGE_SIZE = 20"

definition MAX_PAGE_SIZE :: u64 where "MAX_PAGE_SIZE = 100"

record pagination_params =
  pp_page :: "u64 option"
  pp_page_size :: "u64 option"

definition page :: "pagination_params \<Rightarrow> u64" where
  "page p = max (unwrap_or DEFAULT_PAGE (pp_page p)) 1"

definition page_size :: "pagination_params \<Rightarrow> u64" where
  "page_size p = min (max (unwrap_or DEFAULT_PAGE_SIZE (pp_page_size p)) 1) MAX_PAGE_SIZE"

definition saturating_mul :: "u64 \<Rightarrow> u64 \<Rightarrow> u64" where
  "saturating_mul a b = (if unat a * unat b < 2 ^ 64 then a * b else - 1)"

definition offset :: "pagination_params \<Rightarrow> u64" where
  "offset p = saturating_mul (page p - 1) (page_size p)"

definition div_ceil :: "u64 \<Rightarrow> u64 \<Rightarrow> u64" where
  "div_ceil a b = (let d = a div b; r = a mod b in if r > 0 then d + 1 else d)"

record 'a paginated_response =
  pr_items :: "'a list"
  pr_total :: u64
  pr_page :: u64
  pr_page_size :: u64
  pr_total_pages :: u64

definition paginated_response_new ::
  "'a list \<Rightarrow> u64 \<Rightarrow> pagination_params \<Rightarrow> 'a paginated_response" where
  "paginated_response_new items tot params =
     (let ps = page_size params;
          total_pages = (if tot = 0 then 0 else div_ceil tot ps)
      in \<lparr>pr_items = items, pr_total = tot, pr_page = page params,
          pr_page_size = ps, pr_total_pages = total_pages\<rparr>)"

section \<open>Bounds\<close>

lemma page_ge_1: "1 \<le> page p"
  by (simp add: page_def)

lemma page_size_bounds: "1 \<le> page_size p \<and> page_size p \<le> 100"
  by (simp add: page_size_def MAX_PAGE_SIZE_def)

lemma unat_page: "1 \<le> unat (page p)"
  using page_ge_1 [of p] by (simp add: word_le_nat_alt)

lemma unat_page_size: "1 \<le> unat (page_size p)" "unat (page_size p) \<le> 100"
  using page_size_bounds [of p] by (simp_all add: word_le_nat_alt)

lemma unat_saturating_mul: "unat (saturating_mul a b) = min (unat a * unat b) (2 ^ 64 - 1)"
proof (cases "unat a * unat b < 2 ^ 64")
  case True
  then have "unat (a * b) = unat a * unat b"
    by (simp add: unat_word_ariths)
  with True show ?thesis by (simp add: saturating_mul_def)
next
  case False
  have "unat (- 1 :: u64) = 2 ^ 64 - 1" by (simp add: unsigned_minus_1_eq_mask mask_eq_exp_minus_1)
  with False show ?thesis by (simp add: saturating_mul_def)
qed

lemma unat_offset: "unat (offset p) = min ((unat (page p) - 1) * unat (page_size p)) (2 ^ 64 - 1)"
proof -
  have "unat (page p - 1) = unat (page p) - 1"
    using page_ge_1 [of p] by (simp add: unat_sub)
  then show ?thesis by (simp add: offset_def unat_saturating_mul)
qed

lemma div_mult_add_less: "r < (b::nat) \<Longrightarrow> (b * q + r) div b = q"
  by simp

lemma unat_div_ceil:
  assumes "0 < unat b"
  shows "unat (div_ceil a b) = (unat a + unat b - 1) div unat b"
proof -
  let ?a = "unat a" and ?b = "unat b"
  have a: "?a < 2 ^ 64" using unsigned_less [of a] by simp
  have dm: "?a = ?b * (?a div ?b) + ?a mod ?b" by simp
  have ceil: "(?a + ?b - 1) div ?b = ?a div ?b + (if 0 < ?a mod ?b then 1 else 0)"
  proof (cases "?a mod ?b = 0")
    case True
    with dm assms have "?a + ?b - 1 = ?b * (?a div ?b) + (?b - 1)" by simp
    moreover have "?b - 1 < ?b" using assms by simp
    ultimately have "(?a + ?b - 1) div ?b = ?a div ?b" by (simp only: div_mult_add_less)
    with True show ?thesis by simp
  next
    case False
    with dm have "?a + ?b - 1 = (?b * (?a div ?b) + ?b) + (?a mod ?b - 1)" by linarith
    then have "?a + ?b - 1 = ?b * (?a div ?b + 1) + (?a mod ?b - 1)" by simp
    moreover have "?a mod ?b - 1 < ?b" using assms by (meson less_imp_diff_less mod_less_divisor)
    ultimately show ?thesis using False by (simp only: div_mult_add_less) simp
  qed
  have r: "(0 < a mod b) = (0 < ?a mod ?b)"
    by (simp add: word_less_nat_alt unat_mod)
  have d: "unat (a div b) = ?a div ?b" by (simp add: unat_div)
  have "0 < ?a mod ?b \<Longrightarrow> ?a div ?b + 1 < 2 ^ 64"
  proof -
    assume pos: "0 < ?a mod ?b"
    then have "?b \<noteq> 1" by auto
    with assms have "2 \<le> ?b" by simp
    then have "?a div ?b \<le> ?a div 2" by (simp add: div_le_mono2)
    with a show ?thesis by simp
  qed
  then have "0 < ?a mod ?b \<Longrightarrow> unat (a div b + 1) = ?a div ?b + 1"
    by (simp add: unat_word_ariths d)
  with ceil r d show ?thesis by (simp add: div_ceil_def Let_def)
qed

section \<open>Pages partition a list\<close>

definition page_slice :: "pagination_params \<Rightarrow> 'a list \<Rightarrow> 'a list" where
  "page_slice p xs = take (unat (page_size p)) (drop (unat (offset p)) xs)"

lemma length_page_slice: "length (page_slice p xs) \<le> 100"
  using unat_page_size(2) [of p] by (simp add: page_slice_def)

end
