(* ===== verification/LogContract.thy ===== *)
theory LogContract
  imports Prelude
begin

text \<open>
  The contract both in-process log stores provide to the log services: a bounded store that
  keeps the newest records in arrival order and forwards every record to the live-tail
  subscribers. \<open>LogBuffer\<close> (\<open>reinhardt-cloud-core\<close>) and \<open>InMemoryLogService\<close>
  (\<open>reinhardt-cloud-telemetry\<close>) interpret it.
\<close>

definition keep_last :: "nat option \<Rightarrow> 'a list \<Rightarrow> 'a list" where
  "keep_last c xs = (case c of None \<Rightarrow> xs | Some n \<Rightarrow> drop (length xs - n) xs)"

lemma keep_last_simps [simp]:
  "keep_last None xs = xs" "keep_last (Some n) xs = drop (length xs - n) xs"
  by (simp_all add: keep_last_def)

lemma keep_last_append: "keep_last c (keep_last c xs @ ys) = keep_last c (xs @ ys)"
proof (cases c)
  case (Some n)
  then show ?thesis by (cases "length xs \<le> n") (simp_all add: add.commute)
qed simp

lemma keep_last_bound: "length (keep_last (Some n) xs) \<le> n"
  by simp

lemma keep_last_suffix: "\<exists>ys. xs = ys @ keep_last c xs"
  by (cases c) (auto intro: append_take_drop_id [symmetric])

fun push_all :: "('e \<Rightarrow> 's \<Rightarrow> 's) \<Rightarrow> 'e list \<Rightarrow> 's \<Rightarrow> 's" where
  "push_all f [] s = s"
| "push_all f (e # es) s = push_all f es (f e s)"

locale ring_log =
  fixes push1 :: "'e \<Rightarrow> 's \<Rightarrow> 's"
    and contents :: "'s \<Rightarrow> 'e list"
    and sent :: "'s \<Rightarrow> 'e list"
    and cap :: "'s \<Rightarrow> nat option"
    and invar :: "'s \<Rightarrow> bool"
  assumes contents_push1: "invar s \<Longrightarrow> contents (push1 e s) = keep_last (cap s) (contents s @ [e])"
    and sent_push1: "sent (push1 e s) = sent s @ [e]"
    and cap_push1: "cap (push1 e s) = cap s"
    and invar_push1: "invar s \<Longrightarrow> invar (push1 e s)"
    and invar_bound: "invar s \<Longrightarrow> contents s = keep_last (cap s) (contents s)"
begin

lemma cap_push_all: "cap (push_all push1 es s) = cap s"
  by (induction es arbitrary: s) (simp_all add: cap_push1)

lemma invar_push_all: "invar s \<Longrightarrow> invar (push_all push1 es s)"
  by (induction es arbitrary: s) (simp_all add: invar_push1)

lemma sent_push_all: "sent (push_all push1 es s) = sent s @ es"
  by (induction es arbitrary: s) (simp_all add: sent_push1)

lemma contents_push_all:
  "invar s \<Longrightarrow> contents (push_all push1 es s) = keep_last (cap s) (contents s @ es)"
proof (induction es arbitrary: s)
  case Nil
  then show ?case using invar_bound by simp
next
  case (Cons e es)
  then have "contents (push_all push1 (e # es) s)
      = keep_last (cap s) (keep_last (cap s) (contents s @ [e]) @ es)"
    by (simp add: invar_push1 cap_push1 contents_push1)
  then show ?case by (simp add: keep_last_append)
qed

lemma contents_from_empty:
  "invar s \<Longrightarrow> contents s = [] \<Longrightarrow> contents (push_all push1 es s) = keep_last (cap s) es"
  by (simp add: contents_push_all)

lemma contents_bound:
  "invar s \<Longrightarrow> cap s = Some n \<Longrightarrow> length (contents (push_all push1 es s)) \<le> n"
  by (simp add: contents_push_all)

end

end
