(* ===== verification/LogBuffer.thy ===== *)
theory LogBuffer
  imports Domain Pagination LogContract
begin

text \<open>
  \<open>crates/reinhardt-cloud-core/src/services/log\<close>: the in-memory ring buffer (\<open>buffer.rs\<close>) and
  the local log service on top of it (\<open>local.rs\<close>). The broadcast channel is tokio's; the model
  records the calls to \<open>broadcast_tx.send\<close> in \<open>lb_sent\<close> and takes what a subscriber receives
  as a list of \<open>recv\<close> results.
\<close>

definition DEFAULT_CAPACITY :: nat where "DEFAULT_CAPACITY = 10000"

record 'j log_buffer =
  lb_entries :: "'j log_entry list"
  lb_capacity :: nat
  lb_sent :: "'j log_entry list"

definition log_buffer_new :: "nat \<Rightarrow> 'j log_buffer" where
  "log_buffer_new capacity = \<lparr>lb_entries = [], lb_capacity = capacity, lb_sent = []\<rparr>"

definition log_buffer_default :: "'j log_buffer" where
  "log_buffer_default = log_buffer_new DEFAULT_CAPACITY"

text \<open>One iteration of the loop of \<open>push\<close>.\<close>

definition push_entry :: "'j log_entry \<Rightarrow> 'j log_buffer \<Rightarrow> 'j log_buffer" where
  "push_entry e b =
     (let b1 = b\<lparr>lb_sent := lb_sent b @ [e]\<rparr>;
          b2 = b1\<lparr>lb_entries := lb_entries b1 @ [e]\<rparr>
      in if length (lb_entries b2) > lb_capacity b2
         then b2\<lparr>lb_entries := tl (lb_entries b2)\<rparr>
         else b2)"

fun push :: "'j log_entry list \<Rightarrow> 'j log_buffer \<Rightarrow> 'j log_buffer" where
  "push [] b = b"
| "push (e # es) b = push es (push_entry e b)"

definition matches_filter :: "'j log_entry \<Rightarrow> log_filter \<Rightarrow> bool" where
  "matches_filter entry f =
     (if is_some_and (lf_source f) (\<lambda>source. le_source entry \<noteq> source) then False
      else if is_some_and (lf_min_level f) (\<lambda>min_level. le_level entry < min_level) then False
      else if is_some_and (lf_since f) (\<lambda>since. le_timestamp entry < since) then False
      else if is_some_and (lf_until f) (\<lambda>until. le_timestamp entry > until) then False
      else if is_some_and (lf_search f) (\<lambda>search. \<not> str_contains (le_message entry) search) then False
      else if is_some_and (lf_deployment_id f) (\<lambda>did. le_source entry \<noteq> did) then False
      else True)"

definition query :: "log_filter \<Rightarrow> 'j log_buffer \<Rightarrow> 'j log_entry list" where
  "query f b = filter (\<lambda>entry. matches_filter entry f) (lb_entries b)"

definition log_buffer_len :: "'j log_buffer \<Rightarrow> nat" where
  "log_buffer_len b = length (lb_entries b)"

definition log_buffer_is_empty :: "'j log_buffer \<Rightarrow> bool" where
  "log_buffer_is_empty b \<longleftrightarrow> lb_entries b = []"

section \<open>The local log service\<close>

definition push_logs :: "'j log_entry list \<Rightarrow> 'j log_buffer \<Rightarrow> (api_error + unit) \<times> 'j log_buffer" where
  "push_logs entries b = (Inr (), push entries b)"

datatype 'e recv = RecvOk 'e | Lagged nat | Closed

fun tail_logs :: "log_filter \<Rightarrow> 'j log_entry recv list \<Rightarrow> 'j log_entry list" where
  "tail_logs f [] = []"
| "tail_logs f (RecvOk entry # rs) =
     (if matches_filter entry f then entry # tail_logs f rs else tail_logs f rs)"
| "tail_logs f (Lagged n # rs) = tail_logs f rs"
| "tail_logs f (Closed # rs) = []"

definition list_logs ::
  "log_filter \<Rightarrow> pagination_params \<Rightarrow> 'j log_buffer \<Rightarrow> api_error + 'j log_entry paginated_response" where
  "list_logs f pagination b =
     (let all = query f b;
          tot = of_nat (length all);
          off = unat (offset pagination);
          ps = unat (page_size pagination);
          items = take ps (drop off all)
      in Inr (paginated_response_new items tot pagination))"

section \<open>The buffer keeps the contract\<close>

definition log_buffer_wf :: "'j log_buffer \<Rightarrow> bool" where
  "log_buffer_wf b \<longleftrightarrow> length (lb_entries b) \<le> lb_capacity b"

lemma log_buffer_new_wf: "log_buffer_wf (log_buffer_new c)"
  by (simp add: log_buffer_wf_def log_buffer_new_def)

lemma push_push_all: "push es b = push_all push_entry es b"
  by (induction es arbitrary: b) simp_all

lemma push_entry_simps:
  "lb_capacity (push_entry e b) = lb_capacity b"
  "lb_sent (push_entry e b) = lb_sent b @ [e]"
  by (simp_all add: push_entry_def Let_def)

lemma push_entry_entries:
  assumes "log_buffer_wf b"
  shows "lb_entries (push_entry e b) = keep_last (Some (lb_capacity b)) (lb_entries b @ [e])"
proof (cases "length (lb_entries b) = lb_capacity b")
  case True
  then show ?thesis by (cases "lb_entries b") (simp_all add: push_entry_def Let_def)
next
  case False
  with assms show ?thesis by (simp add: push_entry_def Let_def log_buffer_wf_def)
qed

interpretation lb: ring_log push_entry lb_entries lb_sent "\<lambda>b. Some (lb_capacity b)" log_buffer_wf
proof unfold_locales
  fix s :: "'a log_buffer" and e
  assume wf: "log_buffer_wf s"
  show "lb_entries (push_entry e s) = keep_last (Some (lb_capacity s)) (lb_entries s @ [e])"
    using wf by (rule push_entry_entries)
  then show "log_buffer_wf (push_entry e s)"
    unfolding log_buffer_wf_def push_entry_simps by (metis keep_last_bound)
  show "lb_entries s = keep_last (Some (lb_capacity s)) (lb_entries s)"
    using wf by (simp add: log_buffer_wf_def)
qed (simp_all add: push_entry_simps)

lemma matches_filter_iff:
  "matches_filter e f \<longleftrightarrow>
     (lf_source f = None \<or> lf_source f = Some (le_source e))
   \<and> (\<forall>l. lf_min_level f = Some l \<longrightarrow> l \<le> le_level e)
   \<and> (\<forall>t. lf_since f = Some t \<longrightarrow> t \<le> le_timestamp e)
   \<and> (\<forall>t. lf_until f = Some t \<longrightarrow> le_timestamp e \<le> t)
   \<and> (\<forall>s. lf_search f = Some s \<longrightarrow> str_contains (le_message e) s)
   \<and> (lf_deployment_id f = None \<or> lf_deployment_id f = Some (le_source e))"
proof -
  have opt: "is_some_and x p \<longleftrightarrow> \<not> (\<forall>a. x = Some a \<longrightarrow> \<not> p a)" for x :: "'b option" and p
    by (cases x) auto
  have eq: "(\<forall>a. x = Some a \<longrightarrow> b = a) \<longleftrightarrow> x = None \<or> x = Some b" for x :: "'b option" and b
    by (cases x) auto
  show ?thesis
    unfolding matches_filter_def opt eq not_not not_less by simp
qed

lemma tail_logs_append:
  "Closed \<notin> set rs \<Longrightarrow> tail_logs f (rs @ rs') = tail_logs f rs @ tail_logs f rs'"
  by (induction f rs rule: tail_logs.induct) auto

lemma tail_logs_received:
  "tail_logs f (map RecvOk es) = filter (\<lambda>e. matches_filter e f) es"
  by (induction es) auto

section \<open>Pages partition the query\<close>

lemma concat_chunks:
  "concat (map (\<lambda>i. take k (drop ((i - 1) * k) xs)) [1..<Suc n]) = take (n * k) xs"
proof (induction n)
  case 0
  then show ?case by simp
next
  case (Suc n)
  have "take (n * k) xs @ take k (drop (n * k) xs) = take (Suc n * k) xs"
    by (metis add.commute mult_Suc take_add)
  with Suc show ?case by simp
qed

definition page_params :: "u64 option \<Rightarrow> nat \<Rightarrow> pagination_params" where
  "page_params sz i = \<lparr>pp_page = Some (of_nat i), pp_page_size = sz\<rparr>"

definition eff_size :: "u64 option \<Rightarrow> nat" where
  "eff_size sz = unat (min (max (unwrap_or DEFAULT_PAGE_SIZE sz) 1) MAX_PAGE_SIZE)"

lemma unat_page_size_params [simp]: "unat (page_size (page_params sz i)) = eff_size sz"
  by (simp add: page_params_def page_size_def eff_size_def)

lemma eff_size_pos: "1 \<le> eff_size sz"
  using unat_page_size(1) [of "page_params sz 1"] by simp

lemma unat_page_params:
  assumes "1 \<le> i" "i < 2 ^ 64"
  shows "unat (page (page_params sz i)) = i"
proof -
  have i: "unat (of_nat i :: u64) = i" using assms by (simp add: unat_of_nat)
  then have "1 \<le> (of_nat i :: u64)" using assms by (simp add: word_le_nat_alt)
  then have "max (of_nat i :: u64) 1 = of_nat i" by (rule max_absorb1)
  with i show ?thesis by (simp add: page_def page_params_def)
qed

lemma offset_page_params:
  assumes "1 \<le> i" "i < 2 ^ 64" "(i - 1) * eff_size sz < 2 ^ 64"
  shows "unat (offset (page_params sz i)) = (i - 1) * eff_size sz"
  using assms by (simp add: unat_offset unat_page_params)

definition list_page :: "log_filter \<Rightarrow> 'j log_buffer \<Rightarrow> u64 option \<Rightarrow> nat \<Rightarrow> 'j log_entry list" where
  "list_page f b sz i =
     (case list_logs f (page_params sz i) b of Inl _ \<Rightarrow> [] | Inr r \<Rightarrow> pr_items r)"

definition total_pages :: "log_filter \<Rightarrow> 'j log_buffer \<Rightarrow> u64 option \<Rightarrow> nat" where
  "total_pages f b sz =
     (case list_logs f (page_params sz 1) b of Inl _ \<Rightarrow> 0 | Inr r \<Rightarrow> unat (pr_total_pages r))"

lemma list_page_eq:
  "list_page f b sz i =
     take (eff_size sz) (drop (unat (offset (page_params sz i))) (query f b))"
  by (simp add: list_page_def list_logs_def paginated_response_new_def Let_def)

lemma total_pages_eq:
  assumes "length (query f b) < 2 ^ 64"
  shows "total_pages f b sz =
     (length (query f b) + eff_size sz - 1)
       div eff_size sz"
proof -
  let ?L = "length (query f b)"
  have L: "unat (of_nat ?L :: u64) = ?L" using assms by (simp add: unat_of_nat)
  have k: "0 < eff_size sz" using eff_size_pos [of sz] by simp
  show ?thesis
  proof (cases "of_nat ?L = (0 :: u64)")
    case True
    with L have "?L = 0" by simp
    with k True show ?thesis
      by (simp add: total_pages_def list_logs_def paginated_response_new_def Let_def)
  next
    case False
    with L k show ?thesis
      by (simp add: total_pages_def list_logs_def paginated_response_new_def Let_def unat_div_ceil)
  qed
qed

lemma list_pages_partition:
  assumes "length (query f b) < 2 ^ 64"
  shows "concat (map (list_page f b sz) [1..<Suc (total_pages f b sz)]) = query f b"
proof -
  let ?q = "query f b" and ?k = "eff_size sz"
  let ?n = "total_pages f b sz"
  have k: "1 \<le> ?k" by (rule eff_size_pos)
  have n: "?n = (length ?q + ?k - 1) div ?k" using assms by (rule total_pages_eq)
  have bound: "(i - 1) * ?k < 2 ^ 64 \<and> i < 2 ^ 64" if i: "1 \<le> i" "i \<le> ?n" for i
  proof -
    have "i * ?k \<le> ?n * ?k" using i by simp
    also have "\<dots> \<le> length ?q + ?k - 1" unfolding n by (simp add: div_times_less_eq_dividend)
    finally have ik: "i * ?k \<le> length ?q + ?k - 1" .
    then have "(i - 1) * ?k \<le> length ?q - 1" using i k by (simp add: diff_mult_distrib)
    moreover have "(i - 1) * 1 \<le> (i - 1) * ?k" using k by (rule mult_le_mono2)
    moreover have "0 < length ?q" using ik i k by (cases "length ?q") (auto simp: n)
    ultimately show ?thesis using assms by linarith
  qed
  have "map (list_page f b sz) [1..<Suc ?n]
      = map (\<lambda>i. take ?k (drop ((i - 1) * ?k) ?q)) [1..<Suc ?n]"
  proof (rule map_cong [OF refl])
    fix i
    assume "i \<in> set [1..<Suc ?n]"
    then have i: "1 \<le> i" "i \<le> ?n" by auto
    with bound have "unat (offset (page_params sz i)) = (i - 1) * ?k"
      by (intro offset_page_params) auto
    then show "list_page f b sz i = take ?k (drop ((i - 1) * ?k) ?q)"
      by (simp only: list_page_eq)
  qed
  then have "concat (map (list_page f b sz) [1..<Suc ?n]) = take (?n * ?k) ?q"
    by (simp only: concat_chunks)
  moreover have "length ?q \<le> ?n * ?k"
  proof -
    have "length ?q + ?k - 1 < (?n + 1) * ?k"
      unfolding n using k by (metis add.commute dividend_less_div_times less_le_trans plus_1_eq_Suc mult_Suc less_one zero_less_one)
    with k show ?thesis by simp
  qed
  ultimately show ?thesis by simp
qed

section \<open>Properties\<close>

definition push_batches :: "'j log_entry list list \<Rightarrow> 'j log_buffer \<Rightarrow> 'j log_buffer" where
  "push_batches batches b = fold (\<lambda>es b. snd (push_logs es b)) batches b"

lemma push_batches_push_all: "push_batches batches b = push_all push_entry (concat batches) b"
proof (induction batches arbitrary: b)
  case Nil
  then show ?case by (simp add: push_batches_def)
next
  case (Cons es batches)
  have "push_all push_entry (xs @ ys) c = push_all push_entry ys (push_all push_entry xs c)"
    for xs ys and c :: "'a log_buffer"
    by (induction xs arbitrary: c) simp_all
  with Cons show ?case by (simp add: push_batches_def push_logs_def push_push_all)
qed

lemma log_buffer_new_simps [simp]:
  "lb_entries (log_buffer_new c) = []" "lb_sent (log_buffer_new c) = []"
  "lb_capacity (log_buffer_new c) = c"
  by (simp_all add: log_buffer_new_def)

lemma push_batches_new:
  "lb_entries (push_batches batches (log_buffer_new c)) = keep_last (Some c) (concat batches)"
  "lb_sent (push_batches batches (log_buffer_new c)) = concat batches"
  by (simp_all add: push_batches_push_all lb.contents_push_all log_buffer_new_wf lb.sent_push_all)

text \<open>
  Whatever batches are pushed, the buffer holds exactly the newest entries up to its capacity,
  in arrival order; every entry was broadcast once, in order; and what a query returns is the
  newest part of what a live tail with the same filter received from the start.
\<close>
theorem log_buffer_keeps_newest:
  "let b = push_batches batches (log_buffer_new c) in
     lb_entries b = drop (length (concat batches) - c) (concat batches)
   \<and> log_buffer_len b = min c (length (concat batches))
   \<and> lb_sent b = concat batches
   \<and> (\<exists>older. tail_logs f (map RecvOk (lb_sent b)) = older @ query f b)"
proof -
  obtain older where "concat batches = older @ keep_last (Some c) (concat batches)"
    using keep_last_suffix by blast
  then have "tail_logs f (map RecvOk (concat batches))
      = filter (\<lambda>e. matches_filter e f) older @ filter (\<lambda>e. matches_filter e f) (keep_last (Some c) (concat batches))"
    unfolding tail_logs_received by (metis filter_append)
  then show ?thesis
    by (auto simp: Let_def push_batches_new query_def log_buffer_len_def)
qed

text \<open>
  C33. Reading every page from the first to the last one announced returns each matching entry
  exactly once, in order, whatever page size is asked for, and no page is longer than 100 entries.
\<close>
theorem list_logs_pages_partition:
  assumes "length (query f b) < 2 ^ 64"
  shows "concat (map (list_page f b sz) [1..<Suc (total_pages f b sz)]) = query f b
    \<and> (\<forall>i. length (list_page f b sz i) \<le> 100)"
proof
  show "concat (map (list_page f b sz) [1..<Suc (total_pages f b sz)]) = query f b"
    using assms by (rule list_pages_partition)
  have "eff_size sz \<le> 100"
    using unat_page_size(2) [of "page_params sz 1"] by simp
  then show "\<forall>i. length (list_page f b sz i) \<le> 100"
    by (simp add: list_page_eq min.coboundedI2)
qed

definition sample_entry :: "string \<Rightarrow> timestamp \<Rightarrow> unit log_entry" where
  "sample_entry src t = \<lparr>le_timestamp = t, le_level = Info, le_source = src,
      le_message = ''ready'', le_metadata = None\<rparr>"

theorem list_logs_pages_partition_witness:
  "concat (map (list_page empty_log_filter
       (push [sample_entry ''a'' 1, sample_entry ''b'' 2, sample_entry ''c'' 3] (log_buffer_new 2)) (Some 1))
     [1..<Suc (total_pages empty_log_filter
       (push [sample_entry ''a'' 1, sample_entry ''b'' 2, sample_entry ''c'' 3] (log_buffer_new 2)) (Some 1))])
   = [sample_entry ''b'' 2, sample_entry ''c'' 3]"
proof -
  let ?b = "push [sample_entry ''a'' 1, sample_entry ''b'' 2, sample_entry ''c'' 3] (log_buffer_new 2)"
  have q: "query empty_log_filter ?b = [sample_entry ''b'' 2, sample_entry ''c'' 3]"
    by (simp add: query_def matches_filter_iff empty_log_filter_def push_entry_def log_buffer_new_def)
  then have "length (query empty_log_filter ?b) < 2 ^ 64" by simp
  from list_logs_pages_partition [OF this, of "Some 1"] q show ?thesis by simp
qed

lemma matches_filter_namespace [simp]:
  "matches_filter e (f\<lparr>lf_namespace := ns\<rparr>) = matches_filter e f"
  by (simp add: matches_filter_iff)

text \<open>
  The namespace of a log filter has no effect: two filters that differ only there select the
  same entries from the buffer and from a live tail.
\<close>
theorem log_filter_ignores_namespace:
  "query (f\<lparr>lf_namespace := ns\<rparr>) b = query f b
   \<and> tail_logs (f\<lparr>lf_namespace := ns\<rparr>) rs = tail_logs f rs"
proof
  show "tail_logs (f\<lparr>lf_namespace := ns\<rparr>) rs = tail_logs f rs"
  proof (induction rs)
    case (Cons r rs)
    then show ?case by (cases r) simp_all
  qed simp
qed (simp add: query_def)

end
