(* ===== verification/TelemetryLog.thy ===== *)
theory TelemetryLog
  imports Prelude LogContract
begin

text \<open>
  \<open>crates/reinhardt-cloud-telemetry\<close>: the log schema (\<open>schema.rs\<close>), the shared types of
  \<open>log_service.rs\<close> and the in-memory service (\<open>log_service/in_memory.rs\<close>). The broadcast
  channel is tokio's; \<open>im_sent\<close> records the calls to \<open>tx.send\<close>. The ranges of chrono's
  \<open>DateTime<Utc>\<close> and \<open>Duration\<close> are the parameters \<open>dt_min\<close> and \<open>delta_max\<close> (nanoseconds);
  \<open>DateTime - Duration\<close> panics below \<open>dt_min\<close>, so a query returns an \<open>option\<close>.
\<close>

datatype tlog_level = TTrace | TDebug | TInfo | TWarn | TError

fun tlevel_rank :: "tlog_level \<Rightarrow> nat" where
  "tlevel_rank TTrace = 0"
| "tlevel_rank TDebug = 1"
| "tlevel_rank TInfo = 2"
| "tlevel_rank TWarn = 3"
| "tlevel_rank TError = 4"

lemma tlevel_rank_inj: "tlevel_rank a = tlevel_rank b \<longleftrightarrow> a = b"
  by (cases a; cases b) simp_all

instantiation tlog_level :: linorder
begin

definition less_eq_tlog_level :: "tlog_level \<Rightarrow> tlog_level \<Rightarrow> bool" where
  "less_eq_tlog_level a b \<longleftrightarrow> tlevel_rank a \<le> tlevel_rank b"

definition less_tlog_level :: "tlog_level \<Rightarrow> tlog_level \<Rightarrow> bool" where
  "less_tlog_level a b \<longleftrightarrow> tlevel_rank a < tlevel_rank b"

instance
  by standard (auto simp: less_eq_tlog_level_def less_tlog_level_def tlevel_rank_inj)

end

record log_fields =
  f_reconcile_id :: "string option"
  f_resource_kind :: "string option"
  f_resource_namespace :: "string option"
  f_resource_name :: "string option"
  f_phase :: "string option"
  f_correlation_id :: "string option"
  f_deployment_id :: "string option"
  f_trace_id :: "string option"
  f_span_id :: "string option"

definition log_fields_default :: log_fields where
  "log_fields_default =
     \<lparr>f_reconcile_id = None, f_resource_kind = None, f_resource_namespace = None,
      f_resource_name = None, f_phase = None, f_correlation_id = None,
      f_deployment_id = None, f_trace_id = None, f_span_id = None\<rparr>"

record log_record =
  r_ts :: timestamp
  r_level :: tlog_level
  r_msg :: string
  r_fields :: log_fields

definition log_record_new :: "timestamp \<Rightarrow> tlog_level \<Rightarrow> string \<Rightarrow> log_record" where
  "log_record_new now level msg =
     \<lparr>r_ts = now, r_level = level, r_msg = msg, r_fields = log_fields_default\<rparr>"

record tlog_filter =
  tf_reconcile_id :: "string option"
  tf_deployment_id :: "string option"
  tf_namespace :: "string option"
  tf_min_level :: "tlog_level option"

record tpagination =
  tp_offset :: nat
  tp_limit :: nat

definition tpagination_default :: tpagination where
  "tpagination_default = \<lparr>tp_offset = 0, tp_limit = 100\<rparr>"

record retention_policy =
  rp_capacity :: "nat option"
  rp_ttl :: nat

record in_memory_log =
  im_buffer :: "log_record list"
  im_sent :: "log_record list"
  im_policy :: retention_policy

definition in_memory_new :: "retention_policy \<Rightarrow> in_memory_log" where
  "in_memory_new policy = \<lparr>im_buffer = [], im_sent = [], im_policy = policy\<rparr>"

definition broadcast_capacity :: "retention_policy \<Rightarrow> nat" where
  "broadcast_capacity policy =
     (case rp_capacity policy of None \<Rightarrow> 64 | Some c \<Rightarrow> max c 16)"

definition in_memory_default :: in_memory_log where
  "in_memory_default =
     in_memory_new \<lparr>rp_capacity = Some 1000, rp_ttl = 3600 * 1000000000\<rparr>"

definition record_matches :: "log_record \<Rightarrow> tlog_filter \<Rightarrow> bool" where
  "record_matches r f =
     (if is_some_and (tf_reconcile_id f) (\<lambda>rid. f_reconcile_id (r_fields r) \<noteq> Some rid) then False
      else if is_some_and (tf_namespace f) (\<lambda>ns. f_resource_namespace (r_fields r) \<noteq> Some ns) then False
      else if is_some_and (tf_deployment_id f) (\<lambda>did. f_deployment_id (r_fields r) \<noteq> Some did) then False
      else if is_some_and (tf_min_level f) (\<lambda>min. r_level r < min) then False
      else True)"

text \<open>\<open>while buf.len() >= cap { buf.pop_front(); }\<close>, for a capacity above 0.\<close>

fun evict_to :: "nat \<Rightarrow> 'a list \<Rightarrow> 'a list" where
  "evict_to cap [] = []"
| "evict_to cap (x # xs) = (if length (x # xs) \<ge> cap then evict_to cap xs else x # xs)"

definition ingest :: "log_record \<Rightarrow> in_memory_log \<Rightarrow> in_memory_log" where
  "ingest r s =
     (case rp_capacity (im_policy s) of
        Some 0 \<Rightarrow> s\<lparr>im_sent := im_sent s @ [r]\<rparr>
      | Some cap \<Rightarrow> s\<lparr>im_buffer := evict_to cap (im_buffer s) @ [r], im_sent := im_sent s @ [r]\<rparr>
      | None \<Rightarrow> s\<lparr>im_buffer := im_buffer s @ [r], im_sent := im_sent s @ [r]\<rparr>)"

text \<open>What a subscriber yields: \<open>None\<close> stands for a \<open>Lagged\<close> error of the broadcast stream.\<close>

fun tail_stream :: "tlog_filter \<Rightarrow> log_record option list \<Rightarrow> log_record list" where
  "tail_stream f [] = []"
| "tail_stream f (Some r # rs) =
     (if record_matches r f then r # tail_stream f rs else tail_stream f rs)"
| "tail_stream f (None # rs) = tail_stream f rs"

definition list_records ::
  "timestamp \<Rightarrow> int \<Rightarrow> timestamp \<Rightarrow> tlog_filter \<Rightarrow> tpagination \<Rightarrow> in_memory_log
     \<Rightarrow> log_record list option" where
  "list_records dt_min delta_max now f pg s =
     (let ttl = (if int (rp_ttl (im_policy s)) \<le> delta_max
                 then int (rp_ttl (im_policy s)) else delta_max);
          cutoff = now - ttl
      in if cutoff < dt_min then None
         else Some (take (tp_limit pg) (drop (tp_offset pg)
                (filter (\<lambda>r. r_ts r \<ge> cutoff \<and> record_matches r f) (im_buffer s)))))"

section \<open>The service keeps the contract\<close>

definition in_memory_wf :: "in_memory_log \<Rightarrow> bool" where
  "in_memory_wf s \<longleftrightarrow>
     (case rp_capacity (im_policy s) of None \<Rightarrow> True | Some n \<Rightarrow> length (im_buffer s) \<le> n)"

lemma in_memory_new_wf: "in_memory_wf (in_memory_new p)"
  by (simp add: in_memory_wf_def in_memory_new_def split: option.splits)

lemma evict_to_drop: "0 < cap \<Longrightarrow> evict_to cap xs = drop (Suc (length xs) - cap) xs"
  by (induction xs) (auto simp: Suc_diff_le)

lemma ingest_simps:
  "im_policy (ingest r s) = im_policy s"
  "im_sent (ingest r s) = im_sent s @ [r]"
  by (auto simp: ingest_def split: option.splits nat.splits)

lemma ingest_buffer:
  assumes "in_memory_wf s"
  shows "im_buffer (ingest r s) = keep_last (rp_capacity (im_policy s)) (im_buffer s @ [r])"
proof (cases "rp_capacity (im_policy s)")
  case None
  then show ?thesis by (simp add: ingest_def)
next
  case (Some n)
  show ?thesis
  proof (cases n)
    case 0
    with Some assms have "im_buffer s = []" by (simp add: in_memory_wf_def)
    with Some 0 show ?thesis by (simp add: ingest_def)
  next
    case (Suc m)
    with Some show ?thesis by (simp add: ingest_def evict_to_drop)
  qed
qed

interpretation im: ring_log ingest im_buffer im_sent "\<lambda>s. rp_capacity (im_policy s)" in_memory_wf
proof unfold_locales
  fix s e
  assume wf: "in_memory_wf s"
  show "im_buffer (ingest e s) = keep_last (rp_capacity (im_policy s)) (im_buffer s @ [e])"
    using wf by (rule ingest_buffer)
  then show "in_memory_wf (ingest e s)"
    unfolding in_memory_wf_def ingest_simps by (auto split: option.splits)
  show "im_buffer s = keep_last (rp_capacity (im_policy s)) (im_buffer s)"
    using wf by (auto simp: in_memory_wf_def split: option.splits)
qed (simp_all add: ingest_simps)

lemma record_matches_iff:
  "record_matches r f \<longleftrightarrow>
     (tf_reconcile_id f = None \<or> tf_reconcile_id f = f_reconcile_id (r_fields r))
   \<and> (tf_namespace f = None \<or> tf_namespace f = f_resource_namespace (r_fields r))
   \<and> (tf_deployment_id f = None \<or> tf_deployment_id f = f_deployment_id (r_fields r))
   \<and> (\<forall>m. tf_min_level f = Some m \<longrightarrow> m \<le> r_level r)"
proof -
  have opt: "is_some_and x p \<longleftrightarrow> \<not> (\<forall>a. x = Some a \<longrightarrow> \<not> p a)" for x :: "'b option" and p
    by (cases x) auto
  have eq: "(\<forall>a. x = Some a \<longrightarrow> y = Some a) \<longleftrightarrow> x = None \<or> x = y" for x y :: "'b option"
    by (cases x) auto
  show ?thesis
    unfolding record_matches_def opt eq not_not not_less by simp
qed

lemma tail_stream_filter: "tail_stream f rs = filter (\<lambda>r. record_matches r f) (map the (filter (\<lambda>x. x \<noteq> None) rs))"
  by (induction f rs rule: tail_stream.induct) auto

section \<open>Properties\<close>

definition ingest_all :: "log_record list \<Rightarrow> in_memory_log \<Rightarrow> in_memory_log" where
  "ingest_all rs s = push_all ingest rs s"

lemma ingest_all_new:
  "im_buffer (ingest_all rs (in_memory_new p)) = keep_last (rp_capacity p) rs"
  "im_sent (ingest_all rs (in_memory_new p)) = rs"
  "im_policy (ingest_all rs (in_memory_new p)) = p"
proof -
  have s: "im_buffer (in_memory_new p) = []" "im_sent (in_memory_new p) = []"
    "im_policy (in_memory_new p) = p"
    by (simp_all add: in_memory_new_def)
  then show "im_buffer (ingest_all rs (in_memory_new p)) = keep_last (rp_capacity p) rs"
    "im_sent (ingest_all rs (in_memory_new p)) = rs"
    using im.contents_push_all [OF in_memory_new_wf [of p]] im.sent_push_all
    by (simp_all add: ingest_all_def)
  have "im_policy (push_all ingest rs t) = im_policy t" for t
    by (induction rs arbitrary: t) (simp_all add: ingest_simps)
  with s show "im_policy (ingest_all rs (in_memory_new p)) = p" by (simp add: ingest_all_def)
qed

text \<open>
  After any ingests, a listing is the requested slice of the matching, unexpired records
  among the newest ones the capacity keeps (all of them without a capacity, none with capacity
  zero), in arrival order, unless the cutoff is not a representable date: then the listing panics.
\<close>
theorem in_memory_list_contract:
  "list_records dt_min delta_max now f pg (ingest_all rs (in_memory_new p)) =
     (if now - min (int (rp_ttl p)) delta_max < dt_min then None
      else Some (take (tp_limit pg) (drop (tp_offset pg)
        [r \<leftarrow> (case rp_capacity p of None \<Rightarrow> rs | Some n \<Rightarrow> drop (length rs - n) rs).
           now - min (int (rp_ttl p)) delta_max \<le> r_ts r \<and> record_matches r f])))"
  by (simp add: list_records_def ingest_all_new Let_def min_def keep_last_def)

text \<open>
  The clamp for a TTL beyond chrono's \<open>Duration::MAX\<close> does not avoid the panic: with chrono's
  constants (\<open>DateTime::MIN_UTC\<close> is \<open>-8334601228800\<close> seconds, \<open>Duration::MAX\<close> is
  \<open>i64::MAX\<close> milliseconds) every listing with such a TTL panics up to the year 292,000,000.
\<close>
theorem in_memory_list_clamp_panics:
  assumes "9223372036854775807 * 1000000 < int (rp_ttl (im_policy s))"
    and "now \<le> 9215037435625975 * 1000000000"
  shows "list_records (- 8334601228800 * 1000000000) (9223372036854775807 * 1000000) now f pg s = None"
  using assms by (simp add: list_records_def Let_def)

theorem in_memory_list_clamp_panics_witness:
  "list_records (- 8334601228800 * 1000000000) (9223372036854775807 * 1000000) (1750000000 * 1000000000)
     \<lparr>tf_reconcile_id = None, tf_deployment_id = None, tf_namespace = None, tf_min_level = None\<rparr>
     tpagination_default (in_memory_new \<lparr>rp_capacity = None, rp_ttl = 9223372036854775808 * 1000000\<rparr>) = None"
  by (rule in_memory_list_clamp_panics) (simp_all add: in_memory_new_def)

end
