(* ===== verification/BuildService.thy ===== *)
theory BuildService
  imports Domain
begin

text \<open>
  \<open>crates/reinhardt-cloud-core/src/services/build/local.rs\<close>: the in-process build service. The
  map of builds and each build's cancellation flag (tokio's \<open>CancellationToken\<close>, shared by its
  clones) are the state the request handlers and the spawned pipelines share. A pipeline is a
  task with a program counter that stops before every point where other tasks can run, and
  \<open>build_step\<close> interleaves handlers and pipelines. A send on the event channel is recorded in
  \<open>t_events\<close> (the code ignores send errors).
\<close>

record build_state =
  st_status :: build_status
  st_cancelled :: bool

type_synonym builds = "uuid \<Rightarrow> build_state option"

text \<open>The program points of \<open>run_build_pipeline\<close>; the number is the index in \<open>phases\<close>.\<close>

datatype pc =
    CheckCancel nat
  | EmitPhase nat
  | StorePhase nat
  | EmitLog nat
  | Work nat
  | EmitArtifact
  | EmitComplete
  | MarkSucceeded
  | EmitCancelled
  | MarkCancelled
  | Returned

record build_task =
  t_pc :: pc
  t_project_name :: string
  t_image :: string
  t_events :: "build_event list"

record build_sys =
  builds :: builds
  tasks :: "uuid \<Rightarrow> build_task option"

definition empty_build_sys :: build_sys where
  "empty_build_sys = \<lparr>builds = Map.empty, tasks = Map.empty\<rparr>"

definition phases :: "(build_phase \<times> string) list" where
  "phases =
     [(Pulling, ''Pulling base image...''),
      (Building, ''Building application...''),
      (Pushing, ''Pushing image to registry...''),
      (Finalizing, ''Finalizing build...'')]"

definition cancelled_message :: string where
  "cancelled_message = ''Build cancelled by user''"

section \<open>Handlers\<close>

definition initial_status :: "uuid \<Rightarrow> timestamp \<Rightarrow> build_request \<Rightarrow> build_status" where
  "initial_status build_id now request =
     \<lparr>bs_build_id = build_id, bs_project_name = req_project_name request, bs_phase = Queued,
      bs_completed = False, bs_success = None, bs_started_at = now, bs_completed_at = None\<rparr>"

definition start_build :: "uuid \<Rightarrow> timestamp \<Rightarrow> build_request \<Rightarrow> build_sys \<Rightarrow> build_sys" where
  "start_build build_id now request s =
     \<lparr>builds = (builds s)(build_id \<mapsto>
        \<lparr>st_status = initial_status build_id now request, st_cancelled = False\<rparr>),
      tasks = (tasks s)(build_id \<mapsto>
        \<lparr>t_pc = CheckCancel 0, t_project_name = req_project_name request,
         t_image = req_image request, t_events = []\<rparr>)\<rparr>"

text \<open>\<open>fmt\<close> is the textual form of a UUID (the \<open>uuid\<close> crate's \<open>Display\<close>).\<close>

definition cancel_build ::
  "(uuid \<Rightarrow> string) \<Rightarrow> uuid \<Rightarrow> builds \<Rightarrow> (api_error + unit) \<times> builds" where
  "cancel_build fmt build_id bs =
     (case bs build_id of
        None \<Rightarrow> (Inl (NotFound (''Build '' @ fmt build_id @ '' not found'')), bs)
      | Some state \<Rightarrow>
          (if bs_completed (st_status state)
           then (Inl (BadRequest (''Build '' @ fmt build_id @ '' already completed'')), bs)
           else (Inr (), bs(build_id \<mapsto> state\<lparr>st_cancelled := True\<rparr>))))"

definition get_build_status :: "(uuid \<Rightarrow> string) \<Rightarrow> uuid \<Rightarrow> builds \<Rightarrow> api_error + build_status" where
  "get_build_status fmt build_id bs =
     (case bs build_id of
        None \<Rightarrow> Inl (NotFound (''Build '' @ fmt build_id @ '' not found''))
      | Some state \<Rightarrow> Inr (st_status state))"

definition update_build_completed :: "builds \<Rightarrow> uuid \<Rightarrow> bool \<Rightarrow> timestamp \<Rightarrow> builds" where
  "update_build_completed bs build_id success now =
     (case bs build_id of
        None \<Rightarrow> bs
      | Some state \<Rightarrow> bs(build_id \<mapsto> state\<lparr>st_status := (st_status state)
          \<lparr>bs_completed := True, bs_success := Some success, bs_completed_at := Some now\<rparr>\<rparr>))"

definition store_phase :: "builds \<Rightarrow> uuid \<Rightarrow> build_phase \<Rightarrow> builds" where
  "store_phase bs build_id phase =
     (case bs build_id of
        None \<Rightarrow> bs
      | Some state \<Rightarrow> bs(build_id \<mapsto> state\<lparr>st_status := (st_status state)\<lparr>bs_phase := phase\<rparr>\<rparr>))"

section \<open>The pipeline\<close>

fun show_hex :: "nat \<Rightarrow> string" where
  "show_hex n = (if n < 16 then [digit_char n] else show_hex (n div 16) @ [digit_char (n mod 16)])"

declare show_hex.simps [simp del]

definition image_digest :: "uuid \<Rightarrow> string" where
  "image_digest u = ''sha256:'' @ show_hex (unat u)"

definition is_cancelled :: "builds \<Rightarrow> uuid \<Rightarrow> bool" where
  "is_cancelled bs build_id \<longleftrightarrow> is_some_and (bs build_id) st_cancelled"

definition emit :: "build_event \<Rightarrow> build_task \<Rightarrow> build_task" where
  "emit e t = t\<lparr>t_events := t_events t @ [e]\<rparr>"

definition next_phase :: "nat \<Rightarrow> pc" where
  "next_phase i = (if Suc i < length phases then CheckCancel (Suc i) else EmitArtifact)"

text \<open>
  One step of \<open>run_build_pipeline\<close>. \<open>choice\<close> is the branch \<open>tokio::select!\<close> takes at the
  simulated work: \<open>True\<close> when the sleep is over, \<open>False\<close> for the cancellation branch, which is
  enabled only when the token is cancelled (otherwise the task stays at the select).
\<close>

fun run_build_pipeline ::
  "uuid \<Rightarrow> timestamp \<Rightarrow> uuid \<Rightarrow> bool \<Rightarrow> builds \<Rightarrow> build_task \<Rightarrow> builds \<times> build_task" where
  "run_build_pipeline build_id now fresh choice bs t =
     (case t_pc t of
        CheckCancel i \<Rightarrow>
          (bs, t\<lparr>t_pc := (if is_cancelled bs build_id then EmitCancelled else EmitPhase i)\<rparr>)
      | EmitPhase i \<Rightarrow> (bs, (emit (PhaseChange (fst (phases ! i)) now) t)\<lparr>t_pc := StorePhase i\<rparr>)
      | StorePhase i \<Rightarrow> (store_phase bs build_id (fst (phases ! i)), t\<lparr>t_pc := EmitLog i\<rparr>)
      | EmitLog i \<Rightarrow> (bs, (emit (BuildLog (snd (phases ! i)) now) t)\<lparr>t_pc := Work i\<rparr>)
      | Work i \<Rightarrow>
          (if choice then (bs, t\<lparr>t_pc := next_phase i\<rparr>)
           else if is_cancelled bs build_id then (bs, t\<lparr>t_pc := EmitCancelled\<rparr>)
           else (bs, t))
      | EmitArtifact \<Rightarrow>
          (bs, (emit (ArtifactReady (t_image t @ ''@'' @ image_digest fresh) (image_digest fresh) now) t)
             \<lparr>t_pc := EmitComplete\<rparr>)
      | EmitComplete \<Rightarrow> (bs, (emit (Complete True now) t)\<lparr>t_pc := MarkSucceeded\<rparr>)
      | MarkSucceeded \<Rightarrow> (update_build_completed bs build_id True now, t\<lparr>t_pc := Returned\<rparr>)
      | EmitCancelled \<Rightarrow> (bs, (emit (BuildError cancelled_message now) t)\<lparr>t_pc := MarkCancelled\<rparr>)
      | MarkCancelled \<Rightarrow> (update_build_completed bs build_id False now, t\<lparr>t_pc := Returned\<rparr>)
      | Returned \<Rightarrow> (bs, t))"

declare run_build_pipeline.simps [simp del]

text \<open>
  The interleaving of the handlers and the pipelines. \<open>Uuid::now_v7\<close> gives a build identifier
  no build has yet.
\<close>

inductive build_step :: "build_sys \<Rightarrow> build_sys \<Rightarrow> bool" where
  start: "builds s build_id = None \<Longrightarrow> tasks s build_id = None \<Longrightarrow>
     build_step s (start_build build_id now request s)"
| cancel: "cancel_build fmt build_id (builds s) = (r, bs) \<Longrightarrow> build_step s (s\<lparr>builds := bs\<rparr>)"
| run: "tasks s build_id = Some t \<Longrightarrow>
     run_build_pipeline build_id now fresh choice (builds s) t = (bs, t') \<Longrightarrow>
     build_step s (s\<lparr>builds := bs, tasks := (tasks s)(build_id \<mapsto> t')\<rparr>)"

inductive build_reachable :: "build_sys \<Rightarrow> build_sys \<Rightarrow> bool" where
  refl: "build_reachable s s"
| step: "build_reachable s t \<Longrightarrow> build_step t u \<Longrightarrow> build_reachable s u"

section \<open>The event script\<close>

datatype event_shape =
    ShLog string
  | ShPhase build_phase
  | ShArtifact
  | ShError string
  | ShComplete bool

fun shape :: "build_event \<Rightarrow> event_shape" where
  "shape (BuildLog m _) = ShLog m"
| "shape (PhaseChange p _) = ShPhase p"
| "shape (ArtifactReady _ _ _) = ShArtifact"
| "shape (BuildError m _) = ShError m"
| "shape (Complete b _) = ShComplete b"

definition script :: "event_shape list" where
  "script = concat (map (\<lambda>(p, m). [ShPhase p, ShLog m]) phases) @ [ShArtifact, ShComplete True]"

definition cancelled_script :: "nat \<Rightarrow> event_shape list" where
  "cancelled_script k = take k script @ [ShError cancelled_message]"

text \<open>How far a running pipeline is: its events are the script's first \<open>emitted\<close> events.\<close>

fun emitted :: "pc \<Rightarrow> nat" where
  "emitted (CheckCancel i) = 2 * i"
| "emitted (EmitPhase i) = 2 * i"
| "emitted (StorePhase i) = 2 * i + 1"
| "emitted (EmitLog i) = 2 * i + 1"
| "emitted (Work i) = 2 * i + 2"
| "emitted EmitArtifact = 8"
| "emitted EmitComplete = 9"
| "emitted MarkSucceeded = 10"
| "emitted _ = 0"

definition pc_ok :: "pc \<Rightarrow> bool" where
  "pc_ok p \<longleftrightarrow> (case p of CheckCancel i \<Rightarrow> i < 4 | EmitPhase i \<Rightarrow> i < 4 | StorePhase i \<Rightarrow> i < 4
                 | EmitLog i \<Rightarrow> i < 4 | Work i \<Rightarrow> i < 4 | _ \<Rightarrow> True)"

text \<open>The phase a status shows at a program point.\<close>

fun stored_phase :: "pc \<Rightarrow> build_phase list" where
  "stored_phase (CheckCancel i) = [(Queued # map fst phases) ! i]"
| "stored_phase (EmitPhase i) = [(Queued # map fst phases) ! i]"
| "stored_phase (StorePhase i) = [(Queued # map fst phases) ! i]"
| "stored_phase (EmitLog i) = [fst (phases ! i)]"
| "stored_phase (Work i) = [fst (phases ! i)]"
| "stored_phase EmitArtifact = [Finalizing]"
| "stored_phase EmitComplete = [Finalizing]"
| "stored_phase MarkSucceeded = [Finalizing]"
| "stored_phase _ = []"

definition shapes :: "build_task \<Rightarrow> event_shape list" where
  "shapes t = map shape (t_events t)"

definition open_status :: "build_status \<Rightarrow> bool" where
  "open_status st \<longleftrightarrow> \<not> bs_completed st \<and> bs_success st = None \<and> bs_completed_at st = None"

definition closed_status :: "build_status \<Rightarrow> bool \<Rightarrow> bool" where
  "closed_status st ok \<longleftrightarrow> bs_completed st \<and> bs_success st = Some ok \<and> bs_completed_at st \<noteq> None"

definition task_inv :: "build_state \<Rightarrow> build_task \<Rightarrow> bool" where
  "task_inv b t \<longleftrightarrow>
     (case t_pc t of
        EmitCancelled \<Rightarrow> st_cancelled b \<and> open_status (st_status b) \<and> (\<exists>k \<le> 8. shapes t = take k script)
      | MarkCancelled \<Rightarrow> st_cancelled b \<and> open_status (st_status b) \<and> (\<exists>k \<le> 8. shapes t = cancelled_script k)
      | Returned \<Rightarrow>
          (closed_status (st_status b) True \<and> bs_phase (st_status b) = Finalizing \<and> shapes t = script)
        \<or> (st_cancelled b \<and> closed_status (st_status b) False \<and> (\<exists>k \<le> 8. shapes t = cancelled_script k))
      | p \<Rightarrow> pc_ok p \<and> open_status (st_status b) \<and> shapes t = take (emitted p) script
             \<and> bs_phase (st_status b) \<in> set (stored_phase p))"

definition build_inv :: "build_sys \<Rightarrow> bool" where
  "build_inv s \<longleftrightarrow>
     (\<forall>i. builds s i = None \<longleftrightarrow> tasks s i = None)
   \<and> (\<forall>i b t. builds s i = Some b \<longrightarrow> tasks s i = Some t \<longrightarrow>
        task_inv b t \<and> bs_build_id (st_status b) = i
      \<and> bs_project_name (st_status b) = t_project_name t)"

section \<open>Lemmas\<close>

lemma less_4_cases: "i < (4::nat) \<longleftrightarrow> i = 0 \<or> i = 1 \<or> i = 2 \<or> i = 3"
  by auto

lemma length_phases [simp]: "length phases = 4"
  by (simp add: phases_def)

lemma length_script [simp]: "length script = 10"
  by (simp add: script_def phases_def)

lemma script_nth:
  "i < 4 \<Longrightarrow> script ! (2 * i) = ShPhase (fst (phases ! i))"
  "i < 4 \<Longrightarrow> script ! (Suc (2 * i)) = ShLog (snd (phases ! i))"
  "script ! 8 = ShArtifact"
  "script ! 9 = ShComplete True"
  by (auto simp: less_4_cases script_def phases_def)

lemma take_script_Suc: "k < 10 \<Longrightarrow> take k script @ [script ! k] = take (Suc k) script"
  by (simp add: take_Suc_conv_app_nth)

lemma emit_simps [simp]:
  "t_pc (emit e t) = t_pc t" "t_project_name (emit e t) = t_project_name t"
  "t_image (emit e t) = t_image t" "shapes (emit e t) = shapes t @ [shape e]"
  by (simp_all add: emit_def shapes_def)

lemma shapes_pc [simp]: "shapes (t\<lparr>t_pc := p\<rparr>) = shapes t"
  by (simp add: shapes_def)

lemma store_phase_Some:
  "bs i = Some b \<Longrightarrow>
     store_phase bs i p = bs(i \<mapsto> b\<lparr>st_status := (st_status b)\<lparr>bs_phase := p\<rparr>\<rparr>)"
  by (simp add: store_phase_def)

lemma update_build_completed_Some:
  "bs i = Some b \<Longrightarrow>
     update_build_completed bs i ok now = bs(i \<mapsto> b\<lparr>st_status := (st_status b)
       \<lparr>bs_completed := True, bs_success := Some ok, bs_completed_at := Some now\<rparr>\<rparr>)"
  by (simp add: update_build_completed_def)

lemma is_cancelled_Some [simp]: "bs i = Some b \<Longrightarrow> is_cancelled bs i = st_cancelled b"
  by (simp add: is_cancelled_def)

lemmas build_eqs = store_phase_Some update_build_completed_Some open_status_def closed_status_def

definition frame :: "build_state \<Rightarrow> build_task \<Rightarrow> build_state \<Rightarrow> build_task \<Rightarrow> bool" where
  "frame b t b' t' \<longleftrightarrow>
     bs_build_id (st_status b') = bs_build_id (st_status b)
   \<and> bs_project_name (st_status b') = bs_project_name (st_status b)
   \<and> bs_started_at (st_status b') = bs_started_at (st_status b)
   \<and> st_cancelled b' = st_cancelled b
   \<and> t_project_name t' = t_project_name t \<and> t_image t' = t_image t"

lemma run_frame:
  assumes "bs i = Some b" "run_build_pipeline i now u c bs t = (bs', t')"
  shows "\<exists>b'. bs' = bs(i \<mapsto> b') \<and> frame b t b' t'"
proof -
  have same: "bs(i \<mapsto> b) = bs" using assms(1) by auto
  show ?thesis
    using assms
    by (intro exI [of _ "the (bs' i)"], cases "t_pc t")
      (auto simp: run_build_pipeline.simps frame_def build_eqs same split: if_splits)
qed

lemma emitted_le:
  "pc_ok p \<Longrightarrow> emitted p \<le> 10"
  by (cases p) (auto simp: pc_ok_def)

text \<open>Each program point keeps the invariant, one lemma per group of program points.\<close>

lemma run_inv_check:
  assumes b: "bs i = Some b" and inv: "task_inv b t" and pc: "t_pc t = CheckCancel n"
  shows "task_inv b (snd (run_build_pipeline i now u c bs t)) \<and> fst (run_build_pipeline i now u c bs t) = bs"
proof -
  from inv pc have n: "n < 4" by (simp add: task_inv_def pc_ok_def)
  then have "\<exists>k \<le> 8. take (2 * n) script = take k script"
    by (intro exI [of _ "2 * n"]) simp
  with inv pc b n show ?thesis
    by (auto simp: run_build_pipeline.simps task_inv_def pc_ok_def)
qed

lemma run_inv_emit:
  assumes b: "bs i = Some b" and inv: "task_inv b t"
    and pc: "t_pc t \<in> {EmitPhase n, EmitLog n, EmitArtifact, EmitComplete, EmitCancelled}"
  shows "task_inv b (snd (run_build_pipeline i now u c bs t)) \<and> fst (run_build_pipeline i now u c bs t) = bs"
proof -
  have n: "t_pc t \<in> {EmitPhase n, EmitLog n} \<Longrightarrow> n < 4"
    using inv by (auto simp: task_inv_def pc_ok_def)
  note take = take_script_Suc [of "2 * n"] take_script_Suc [of "Suc (2 * n)"]
    take_script_Suc [of 8] take_script_Suc [of 9]
  from b inv pc n take show ?thesis
    by (auto simp: run_build_pipeline.simps task_inv_def pc_ok_def script_nth cancelled_script_def)
qed

lemma run_inv_store:
  assumes b: "bs i = Some b" and inv: "task_inv b t" and pc: "t_pc t = StorePhase n"
  shows "\<exists>b'. run_build_pipeline i now u c bs t = (bs(i \<mapsto> b'), t\<lparr>t_pc := EmitLog n\<rparr>)
           \<and> task_inv b' (t\<lparr>t_pc := EmitLog n\<rparr>)"
  using assms by (auto simp: run_build_pipeline.simps task_inv_def pc_ok_def build_eqs)

lemma run_inv_work:
  assumes b: "bs i = Some b" and inv: "task_inv b t" and pc: "t_pc t = Work n"
  shows "task_inv b (snd (run_build_pipeline i now u c bs t)) \<and> fst (run_build_pipeline i now u c bs t) = bs"
proof -
  from inv pc have n: "n < 4" by (simp add: task_inv_def pc_ok_def)
  then have le: "2 * n + 2 \<le> 8" by simp
  have ex: "\<exists>k \<le> 8. take (Suc (Suc (2 * n))) script = take k script"
    using le by (intro exI [of _ "2 * n + 2"]) simp
  have last: "next_phase n = EmitArtifact \<Longrightarrow> n = 3" using n by (simp add: next_phase_def split: if_splits)
  from b inv pc n ex show ?thesis
    by (auto simp: run_build_pipeline.simps task_inv_def pc_ok_def next_phase_def less_4_cases phases_def)
qed

lemma run_inv_mark:
  assumes b: "bs i = Some b" and inv: "task_inv b t" and pc: "t_pc t \<in> {MarkSucceeded, MarkCancelled}"
  shows "\<exists>b'. run_build_pipeline i now u c bs t = (bs(i \<mapsto> b'), t\<lparr>t_pc := Returned\<rparr>)
           \<and> task_inv b' (t\<lparr>t_pc := Returned\<rparr>)"
  using assms by (auto simp: run_build_pipeline.simps task_inv_def pc_ok_def build_eqs)

lemma run_task_inv:
  assumes b: "bs i = Some b" and inv: "task_inv b t"
    and run: "run_build_pipeline i now u c bs t = (bs', t')"
  shows "\<exists>b'. bs' = bs(i \<mapsto> b') \<and> task_inv b' t' \<and> frame b t b' t'"
proof -
  obtain b' where b': "bs' = bs(i \<mapsto> b')" "frame b t b' t'"
    using run_frame [where bs = bs and i = i, OF b run] by blast
  have "task_inv b' t'"
  proof (cases "t_pc t")
    case (StorePhase n)
    with run_inv_store [where bs = bs and i = i and now = now and u = u and c = c, OF b inv] run b' show ?thesis by (auto dest!: map_upd_eqD1)
  next
    case MarkSucceeded
    with run_inv_mark [where bs = bs and i = i and now = now and u = u and c = c, OF b inv] run b' show ?thesis by (auto dest!: map_upd_eqD1)
  next
    case MarkCancelled
    with run_inv_mark [where bs = bs and i = i and now = now and u = u and c = c, OF b inv] run b' show ?thesis by (auto dest!: map_upd_eqD1)
  next
    case (CheckCancel n)
    with run_inv_check [where bs = bs and i = i and now = now and u = u and c = c, OF b inv] run b' b show ?thesis by (auto dest!: fun_cong [of _ _ i])
  next
    case (Work n)
    with run_inv_work [where bs = bs and i = i and now = now and u = u and c = c, OF b inv] run b' b show ?thesis by (auto dest!: fun_cong [of _ _ i])
  next
    case Returned
    with run b b' inv show ?thesis by (auto simp: run_build_pipeline.simps dest!: fun_cong [of _ _ i])
  qed (use run_inv_emit [where bs = bs and i = i and now = now and u = u and c = c, OF b inv] run b' b in \<open>auto dest!: fun_cong [of _ _ i]\<close>)
  with b' show ?thesis by blast
qed

section \<open>The invariant of the interleaved system\<close>

lemma build_inv_empty: "build_inv empty_build_sys"
  by (simp add: build_inv_def empty_build_sys_def)

lemma build_invD:
  assumes "build_inv s" "tasks s i = Some t"
  obtains b where "builds s i = Some b" "task_inv b t" "bs_build_id (st_status b) = i"
    "bs_project_name (st_status b) = t_project_name t"
  using assms unfolding build_inv_def by (metis not_None_eq)

lemma task_inv_cancel: "task_inv b t \<Longrightarrow> task_inv (b\<lparr>st_cancelled := True\<rparr>) t"
  by (auto simp: task_inv_def split: pc.splits)

lemma cancel_build_cases:
  assumes "cancel_build fmt i bs = (r, bs')"
  shows "bs' = bs \<or> (\<exists>b. bs i = Some b \<and> bs' = bs(i \<mapsto> b\<lparr>st_cancelled := True\<rparr>))"
  using assms by (auto simp: cancel_build_def split: option.splits if_splits)

lemma build_inv_cancel:
  assumes inv: "build_inv s" and b: "builds s i = Some b"
  shows "build_inv (s\<lparr>builds := (builds s)(i \<mapsto> b\<lparr>st_cancelled := True\<rparr>)\<rparr>)"
proof -
  obtain t where "tasks s i = Some t"
    using inv b unfolding build_inv_def by (metis not_None_eq)
  with inv b show ?thesis by (auto simp: build_inv_def task_inv_cancel split: if_splits)
qed

lemma build_step_inv: "build_step s s' \<Longrightarrow> build_inv s \<Longrightarrow> build_inv s'"
proof (induction rule: build_step.induct)
  case (start s i now request)
  then show ?case
    by (auto simp: build_inv_def start_build_def initial_status_def task_inv_def pc_ok_def
        open_status_def shapes_def phases_def split: if_splits)
next
  case (cancel fmt i s r bs)
  from cancel_build_cases [OF cancel(1)] cancel(2) show ?case
    by (auto intro: build_inv_cancel)
next
  case (run s i t now fresh choice bs t')
  from run(3,1) obtain b where b: "builds s i = Some b" "task_inv b t"
      "bs_build_id (st_status b) = i" "bs_project_name (st_status b) = t_project_name t"
    by (rule build_invD)
  from run_task_inv [where bs = "builds s" and i = i, OF b(1,2) run(2)]
  obtain b' where b': "bs = (builds s)(i \<mapsto> b')" "task_inv b' t'" "frame b t b' t'" by blast
  from run(3) b b' show ?case
    by (auto simp: build_inv_def frame_def split: if_splits)
qed

lemma build_reachable_inv: "build_reachable s0 s \<Longrightarrow> build_inv s0 \<Longrightarrow> build_inv s"
  by (induction rule: build_reachable.induct) (auto intro: build_step_inv)

section \<open>Termination\<close>

fun steps_left :: "pc \<Rightarrow> nat" where
  "steps_left (CheckCancel i) = 23 - 5 * i"
| "steps_left (EmitPhase i) = 22 - 5 * i"
| "steps_left (StorePhase i) = 21 - 5 * i"
| "steps_left (EmitLog i) = 20 - 5 * i"
| "steps_left (Work i) = 19 - 5 * i"
| "steps_left EmitArtifact = 3"
| "steps_left EmitComplete = 2"
| "steps_left MarkSucceeded = 1"
| "steps_left EmitCancelled = 2"
| "steps_left MarkCancelled = 1"
| "steps_left Returned = 0"

text \<open>
  \<open>served i n s s'\<close>: the system gets from \<open>s\<close> to \<open>s'\<close> in any interleaving of handlers and pipelines in which
  the pipeline of \<open>i\<close> makes at least \<open>n\<close> steps that do not wait at its work: the work is over, or the
  token is set.
\<close>

inductive served :: "uuid \<Rightarrow> nat \<Rightarrow> build_sys \<Rightarrow> build_sys \<Rightarrow> bool" for i where
  none: "served i 0 s s"
| any: "served i n s s1 \<Longrightarrow> build_step s1 s2 \<Longrightarrow> served i n s s2"
| own: "served i n s s1 \<Longrightarrow> tasks s1 i = Some t \<Longrightarrow> choice \<or> is_cancelled (builds s1) i
    \<Longrightarrow> run_build_pipeline i now fresh choice (builds s1) t = (bs, t')
    \<Longrightarrow> served i (Suc n) s (s1\<lparr>builds := bs, tasks := (tasks s1)(i \<mapsto> t')\<rparr>)"

lemma run_decreases:
  assumes "pc_ok (t_pc t)" "run_build_pipeline i now u c bs t = (bs', t')"
  shows "pc_ok (t_pc t') \<and> steps_left (t_pc t') \<le> steps_left (t_pc t)
    \<and> (c \<or> is_cancelled bs i \<longrightarrow> steps_left (t_pc t') \<le> steps_left (t_pc t) - 1)"
  using assms
  by (cases "t_pc t")
    (auto simp: run_build_pipeline.simps pc_ok_def next_phase_def split: if_splits)

lemma build_step_steps_left:
  assumes "build_step s s'" and "tasks s i = Some t" and "pc_ok (t_pc t)"
  shows "\<exists>t'. tasks s' i = Some t' \<and> pc_ok (t_pc t') \<and> steps_left (t_pc t') \<le> steps_left (t_pc t)"
  using assms
proof (induction rule: build_step.induct)
  case (run s j u now fresh choice bs u')
  then show ?case using run_decreases [of t i now fresh choice "builds s" bs u'] by (cases "j = i") auto
qed (auto simp: start_build_def)

lemma served_steps_left:
  assumes "served i n s s'" and "tasks s i = Some t" and "pc_ok (t_pc t)"
  shows "\<exists>t'. tasks s' i = Some t' \<and> pc_ok (t_pc t') \<and> steps_left (t_pc t') \<le> steps_left (t_pc t) - n"
  using assms
proof (induction rule: served.induct)
  case (any n s s1 s2)
  then obtain t1 where t1: "tasks s1 i = Some t1" "pc_ok (t_pc t1)" "steps_left (t_pc t1) \<le> steps_left (t_pc t) - n" by blast
  from build_step_steps_left [OF any.hyps(2) t1(1,2)] t1(3) show ?case using le_trans by blast
next
  case (own n s s1 t1 choice now fresh bs t')
  then have "pc_ok (t_pc t1)" "steps_left (t_pc t1) \<le> steps_left (t_pc t) - n" by auto
  with run_decreases [OF this(1) own.hyps(4)] own.hyps(3) show ?case by auto
qed simp

lemma served_reachable: "served i n s s' \<Longrightarrow> build_reachable s s'"
  by (induction rule: served.induct) (auto intro: build_reachable.intros build_step.run)

lemma served_exists: "tasks s i = Some t \<Longrightarrow> \<exists>s'. served i n s s' \<and> tasks s' i \<noteq> None"
proof (induction n)
  case 0
  then show ?case by (auto intro: served.none)
next
  case (Suc n)
  then obtain s1 t1 where s1: "served i n s s1" "tasks s1 i = Some t1" by blast
  obtain bs t' where "run_build_pipeline i 0 0 True (builds s1) t1 = (bs, t')"
    by (cases "run_build_pipeline i 0 0 True (builds s1) t1")
  from served.own [OF s1 disjI1 [OF TrueI] this] show ?case by (intro exI conjI) auto
qed

lemma steps_left_le: "pc_ok p \<Longrightarrow> steps_left p \<le> 23"
  by (cases p) (auto simp: pc_ok_def)

lemma task_inv_start:
  "task_inv \<lparr>st_status = initial_status i now request, st_cancelled = x\<rparr>
     \<lparr>t_pc = CheckCancel 0, t_project_name = p, t_image = im, t_events = []\<rparr>"
  by (simp add: task_inv_def pc_ok_def open_status_def initial_status_def shapes_def phases_def)

section \<open>When a cancellation is heard\<close>

text \<open>The points at which a set token always ends the build as failed.\<close>

fun hears_cancel :: "pc \<Rightarrow> bool" where
  "hears_cancel (CheckCancel i) = True"
| "hears_cancel (EmitPhase i) = (i < 3)"
| "hears_cancel (StorePhase i) = (i < 3)"
| "hears_cancel (EmitLog i) = (i < 3)"
| "hears_cancel (Work i) = (i < 3)"
| "hears_cancel EmitCancelled = True"
| "hears_cancel MarkCancelled = True"
| "hears_cancel _ = False"

definition doomed :: "build_state \<Rightarrow> build_task \<Rightarrow> bool" where
  "doomed b t \<longleftrightarrow> st_cancelled b
     \<and> (hears_cancel (t_pc t) \<or> (t_pc t = Returned \<and> bs_success (st_status b) = Some False))"

lemma run_doomed:
  assumes b: "bs i = Some b" and d: "doomed b t"
    and run: "run_build_pipeline i now u c bs t = (bs', t')"
  shows "\<exists>b'. bs' = bs(i \<mapsto> b') \<and> doomed b' t'"
proof -
  have same: "bs(i \<mapsto> b) = bs" using b by auto
  show ?thesis
    using assms
    by (intro exI [of _ "the (bs' i)"], cases "t_pc t")
      (auto simp: run_build_pipeline.simps doomed_def next_phase_def build_eqs same split: if_splits)
qed

definition doomed_at :: "uuid \<Rightarrow> build_sys \<Rightarrow> bool" where
  "doomed_at i s \<longleftrightarrow> (\<exists>b t. builds s i = Some b \<and> tasks s i = Some t \<and> doomed b t)"

lemma build_step_doomed: "build_step s s' \<Longrightarrow> doomed_at i s \<Longrightarrow> doomed_at i s'"
proof (induction rule: build_step.induct)
  case (start s j now request)
  then show ?case by (auto simp: doomed_at_def start_build_def)
next
  case (cancel fmt j s r bs)
  from cancel_build_cases [OF cancel(1)] cancel(2) show ?case
    by (auto simp: doomed_at_def doomed_def)
next
  case (run s j t now fresh choice bs t')
  show ?case
  proof (cases "i = j")
    case True
    with run(1,3) obtain b where b: "builds s j = Some b" "doomed b t" by (auto simp: doomed_at_def)
    from run_doomed [where bs = "builds s" and i = j, OF b run(2)] True show ?thesis
      by (auto simp: doomed_at_def)
  next
    case False
    have "bs i = builds s i"
      using run(2) False by (auto simp: run_build_pipeline.simps store_phase_def
          update_build_completed_def split: pc.splits if_splits option.splits)
    with run False show ?thesis by (auto simp: doomed_at_def)
  qed
qed

lemma build_reachable_doomed: "build_reachable s s' \<Longrightarrow> doomed_at i s \<Longrightarrow> doomed_at i s'"
  by (induction rule: build_reachable.induct) (auto intro: build_step_doomed)

lemma doomed_not_success:
  "build_inv s \<Longrightarrow> doomed_at i s \<Longrightarrow> builds s i = Some b \<Longrightarrow> bs_success (st_status b) \<noteq> Some True"
  by (auto simp: doomed_at_def doomed_def open_status_def closed_status_def
      elim!: build_invD [where i = i] split: pc.splits simp: task_inv_def)

section \<open>Properties\<close>

definition sample_request :: build_request where
  "sample_request =
     \<lparr>req_project_name = ''shop'', req_image = ''registry/shop'', req_env_vars = [],
      req_dockerfile = None, req_context_path = None\<rparr>"

lemma build_start_reachable:
  "build_reachable empty_build_sys (start_build i now request empty_build_sys)"
  by (rule build_reachable.step [OF build_reachable.refl build_step.start])
    (simp_all add: empty_build_sys_def)

text \<open>
  C5. However handlers and pipelines interleave, a build's events are the fixed script of phase
  changes, log lines, artifact and completion, in order, cut at most once by the single
  cancellation error; the stored status is completed exactly when the pipeline has returned, it
  is successful only after the whole script, and it is failed only after a cancellation.
\<close>
theorem build_events_follow_script:
  assumes "build_reachable empty_build_sys s" and "tasks s i = Some t"
  shows "\<exists>b. builds s i = Some b \<and> bs_build_id (st_status b) = i
     \<and> (bs_completed (st_status b) \<longleftrightarrow> t_pc t = Returned)
     \<and> (case bs_success (st_status b) of
          Some True \<Rightarrow> shapes t = script
        | Some False \<Rightarrow> st_cancelled b \<and> (\<exists>k \<le> 8. shapes t = cancelled_script k)
        | None \<Rightarrow> \<exists>k. shapes t = take k script \<or> (k \<le> 8 \<and> shapes t = cancelled_script k))"
proof -
  from assms(1) have "build_inv s" using build_inv_empty by (rule build_reachable_inv)
  then obtain b where b: "builds s i = Some b" "task_inv b t" "bs_build_id (st_status b) = i"
    using assms(2) by (rule build_invD)
  moreover have "\<exists>k. script = take k script" by (rule exI [of _ "length script"]) simp
  ultimately show ?thesis
    by (cases "t_pc t") (auto simp: task_inv_def open_status_def closed_status_def)
qed

theorem build_events_follow_script_witness:
  "\<exists>b. builds (start_build 7 0 sample_request empty_build_sys) 7 = Some b
     \<and> \<not> bs_completed (st_status b)"
  using build_events_follow_script
    [OF build_start_reachable [of 7 0 sample_request], of 7
      "\<lparr>t_pc = CheckCancel 0, t_project_name = ''shop'', t_image = ''registry/shop'', t_events = []\<rparr>"]
  by (auto simp: start_build_def sample_request_def)

text \<open>
  C30. A pipeline whose work always finishes returns: from any reachable state, in any interleaving with the
  handlers and the other pipelines, 23 steps of a pipeline that do not wait at its work are enough,
  whatever the clock and the generated identifiers are, and its build is completed. If the build was not
  cancelled its status is successful and its events are the whole script; if it was, at a point before
  the last phase is announced, it has failed and its events end with the cancellation.
\<close>
theorem build_pipeline_terminates:
  assumes "build_reachable empty_build_sys s" and "tasks s i = Some t" and "served i n s s'" and "23 \<le> n"
  shows "\<exists>t' b. tasks s' i = Some t' \<and> builds s' i = Some b
     \<and> t_pc t' = Returned \<and> bs_completed (st_status b)
     \<and> (\<not> st_cancelled b \<longrightarrow> bs_success (st_status b) = Some True \<and> shapes t' = script)
     \<and> (is_cancelled (builds s) i \<and> hears_cancel (t_pc t) \<longrightarrow>
          bs_success (st_status b) = Some False \<and> (\<exists>k \<le> 8. shapes t' = cancelled_script k))"
proof -
  have inv: "build_inv s" using assms(1) build_inv_empty by (rule build_reachable_inv)
  then obtain b0 where b0: "builds s i = Some b0" "task_inv b0 t" using assms(2) by (rule build_invD)
  then have "pc_ok (t_pc t)" by (cases "t_pc t") (simp_all add: task_inv_def, simp_all add: pc_ok_def)
  from served_steps_left [OF assms(3,2) this] steps_left_le [OF this] assms(4) obtain t' where
    t': "tasks s' i = Some t'" "pc_ok (t_pc t')" "steps_left (t_pc t') = 0" by force
  then have ret: "t_pc t' = Returned" by (cases "t_pc t'") (auto simp: pc_ok_def)
  note reach = served_reachable [OF assms(3)]
  have inv': "build_inv s'" using reach inv by (rule build_reachable_inv)
  then obtain b where b: "builds s' i = Some b" "task_inv b t'" using t'(1) by (rule build_invD)
  have "bs_success (st_status b) \<noteq> Some True" if "is_cancelled (builds s) i" "hears_cancel (t_pc t)"
  proof -
    from that b0 assms(2) have "doomed_at i s" by (auto simp: doomed_at_def doomed_def is_cancelled_def)
    with reach have "doomed_at i s'" by (rule build_reachable_doomed)
    with inv' show ?thesis using b(1) by (rule doomed_not_success)
  qed
  then show ?thesis using t'(1) ret b by (auto simp: task_inv_def closed_status_def)
qed

theorem build_pipeline_terminates_witness:
  "\<exists>s' t' b. served 7 23 (start_build 7 0 sample_request empty_build_sys) s'
     \<and> tasks s' 7 = Some t' \<and> builds s' 7 = Some b \<and> t_pc t' = Returned \<and> bs_completed (st_status b)"
proof -
  let ?s = "start_build 7 0 sample_request empty_build_sys"
  obtain t where t: "tasks ?s 7 = Some t" by (simp add: start_build_def)
  then obtain s' where "served 7 23 ?s s'" using served_exists by blast
  with build_pipeline_terminates [OF build_start_reachable t this] show ?thesis by blast
qed

text \<open>
  A cancellation accepted before the last phase is announced always wins: once the token of
  a build is set while its pipeline is before \<open>PhaseChange Finalizing\<close> (or already on its way to
  failing), no later interleaving makes the build successful.
\<close>
theorem build_cancel_is_heard:
  assumes "build_reachable empty_build_sys s" and "builds s i = Some b" and "tasks s i = Some t"
    and "st_cancelled b" and "hears_cancel (t_pc t)"
    and "build_reachable s s'" and "builds s' i = Some b'"
  shows "bs_success (st_status b') \<noteq> Some True"
proof -
  have "build_inv s" using assms(1) build_inv_empty by (rule build_reachable_inv)
  with assms(6) have "build_inv s'" by (rule build_reachable_inv)
  moreover from assms(2-5) have "doomed_at i s" by (auto simp: doomed_at_def doomed_def)
  with assms(6) have "doomed_at i s'" by (rule build_reachable_doomed)
  ultimately show ?thesis using assms(7) by (rule doomed_not_success)
qed

definition sample_cancelled :: build_sys where
  "sample_cancelled =
     (start_build 7 0 sample_request empty_build_sys)
       \<lparr>builds := snd (cancel_build (\<lambda>_. ''7'') 7
          (builds (start_build 7 0 sample_request empty_build_sys)))\<rparr>"

lemma sample_cancelled_reachable: "build_reachable empty_build_sys sample_cancelled"
  unfolding sample_cancelled_def
  by (rule build_reachable.step [OF build_start_reachable build_step.cancel, OF prod.collapse [symmetric]])

theorem build_cancel_is_heard_witness:
  "\<exists>b. builds sample_cancelled 7 = Some b \<and> bs_success (st_status b) \<noteq> Some True"
proof -
  have b: "builds sample_cancelled 7 =
      Some \<lparr>st_status = initial_status 7 0 sample_request, st_cancelled = True\<rparr>"
    by (simp add: sample_cancelled_def cancel_build_def start_build_def initial_status_def)
  have t: "tasks sample_cancelled 7 =
      Some \<lparr>t_pc = CheckCancel 0, t_project_name = ''shop'', t_image = ''registry/shop'', t_events = []\<rparr>"
    by (simp add: sample_cancelled_def start_build_def sample_request_def)
  from build_cancel_is_heard [OF sample_cancelled_reachable b t _ _ build_reachable.refl b]
  show ?thesis using b by simp
qed

text \<open>
  Cancelling is refused exactly for an unknown or a completed build, and then changes nothing;
  otherwise it sets that build's token and nothing else, and a status query reads the stored
  status of exactly the build asked for.
\<close>
theorem cancel_build_spec:
  "(\<exists>e. cancel_build fmt i bs = (Inl e, bs) \<and>
      ((bs i = None \<and> e = NotFound (''Build '' @ fmt i @ '' not found''))
     \<or> (\<exists>b. bs i = Some b \<and> bs_completed (st_status b)
          \<and> e = BadRequest (''Build '' @ fmt i @ '' already completed''))))
   \<or> (\<exists>b. bs i = Some b \<and> \<not> bs_completed (st_status b)
        \<and> cancel_build fmt i bs = (Inr (), bs(i \<mapsto> b\<lparr>st_cancelled := True\<rparr>))
        \<and> get_build_status fmt i (bs(i \<mapsto> b\<lparr>st_cancelled := True\<rparr>)) = Inr (st_status b))"
  by (cases "bs i") (auto simp: cancel_build_def get_build_status_def)

end
