(* ===== verification/Plugins.thy ===== *)
theory Plugins
  imports Domain
begin

text \<open>
  \<open>crates/reinhardt-cloud-core/src/plugin\<close>: the plugin types (\<open>traits.rs\<close>) and the registry
  (\<open>registry.rs\<close>). A plugin is a trait object, so its methods are fields of the record; the
  world \<open>'w\<close> they act on is passed through. The registry's two hash maps are functions, an
  absent hook being the empty list.
\<close>

datatype plugin_hook_type = PreBuild | PostBuild | PreDeploy | PostDeploy

fun hook_debug :: "plugin_hook_type \<Rightarrow> string" where
  "hook_debug PreBuild = ''PreBuild''"
| "hook_debug PostBuild = ''PostBuild''"
| "hook_debug PreDeploy = ''PreDeploy''"
| "hook_debug PostDeploy = ''PostDeploy''"

datatype condition_severity = CInfo | CWarning | CError

record plugin_condition =
  pcond_type :: string
  pcond_message :: string
  pcond_severity :: condition_severity

record plugin_result =
  pres_success :: bool
  pres_output :: string
  pres_conditions :: "plugin_condition list"

record 'w plugin =
  plugin_name :: string
  plugin_hook_types :: "plugin_hook_type list"
  plugin_run_function ::
    "string \<Rightarrow> string \<Rightarrow> (string \<Rightarrow> string option) \<Rightarrow> 'w \<Rightarrow> (api_error + plugin_result) \<times> 'w"
  plugin_health_check :: "'w \<Rightarrow> bool \<times> 'w"

record 'w plugin_registry =
  plugins :: "string \<Rightarrow> 'w plugin option"
  hooks :: "plugin_hook_type \<Rightarrow> string list"

definition plugin_registry_new :: "'w plugin_registry" where
  "plugin_registry_new = \<lparr>plugins = (\<lambda>_. None), hooks = (\<lambda>_. [])\<rparr>"

fun push_hooks ::
  "string \<Rightarrow> plugin_hook_type list \<Rightarrow> (plugin_hook_type \<Rightarrow> string list) \<Rightarrow> plugin_hook_type \<Rightarrow> string list" where
  "push_hooks name [] h = h"
| "push_hooks name (t # ts) h = push_hooks name ts (h(t := h t @ [name]))"

definition register_plugin :: "'w plugin \<Rightarrow> 'w plugin_registry \<Rightarrow> 'w plugin_registry" where
  "register_plugin p r =
     \<lparr>plugins = (plugins r)(plugin_name p \<mapsto> p),
      hooks = push_hooks (plugin_name p) (plugin_hook_types p) (hooks r)\<rparr>"

definition plugins_for_hook :: "plugin_hook_type \<Rightarrow> 'w plugin_registry \<Rightarrow> 'w plugin list" where
  "plugins_for_hook t r = List.map_filter (plugins r) (hooks r t)"

definition is_fatal :: "plugin_result \<Rightarrow> bool" where
  "is_fatal res \<longleftrightarrow> list_ex (\<lambda>c. pcond_severity c = CError) (pres_conditions res)"

fun execute_plugins ::
  "plugin_hook_type \<Rightarrow> string \<Rightarrow> (string \<Rightarrow> string option) \<Rightarrow> 'w plugin list \<Rightarrow> plugin_result list
     \<Rightarrow> 'w \<Rightarrow> (api_error + plugin_result list) \<times> 'w" where
  "execute_plugins t input ctx [] results w = (Inr results, w)"
| "execute_plugins t input ctx (p # ps) results w =
     (case plugin_run_function p (hook_debug t) input ctx w of
        (Inl e, w') \<Rightarrow> (Inl e, w')
      | (Inr res, w') \<Rightarrow>
          if is_fatal res
          then (Inl (Internal (''Plugin '' @ plugin_name p @ '' returned fatal error'')), w')
          else execute_plugins t input ctx ps (results @ [res]) w')"

definition execute_hook ::
  "plugin_hook_type \<Rightarrow> string \<Rightarrow> (string \<Rightarrow> string option) \<Rightarrow> 'w plugin_registry \<Rightarrow> 'w
     \<Rightarrow> (api_error + plugin_result list) \<times> 'w" where
  "execute_hook t input ctx r w = execute_plugins t input ctx (plugins_for_hook t r) [] w"

section \<open>Registration\<close>

lemma push_hooks_eq: "push_hooks n ts h t = h t @ replicate (count_list ts t) n"
proof (induction ts arbitrary: h)
  case (Cons u ts)
  then show ?case by (cases "u = t") (simp_all add: replicate_app_Cons_same)
qed simp

definition register_all :: "'w plugin list \<Rightarrow> 'w plugin_registry" where
  "register_all ps = fold register_plugin ps plugin_registry_new"

text \<open>The plugin the registry holds under a name: the last one registered with it.\<close>

fun last_named :: "string \<Rightarrow> 'w plugin list \<Rightarrow> 'w plugin option" where
  "last_named n [] = None"
| "last_named n (p # ps) =
     (case last_named n ps of Some q \<Rightarrow> Some q
      | None \<Rightarrow> if plugin_name p = n then Some p else None)"

lemma register_fold:
  "plugins (fold register_plugin ps r) n
     = (case last_named n ps of Some q \<Rightarrow> Some q | None \<Rightarrow> plugins r n)"
  "hooks (fold register_plugin ps r) t
     = hooks r t @ concat (map (\<lambda>p. replicate (count_list (plugin_hook_types p) t) (plugin_name p)) ps)"
  by (induction ps arbitrary: r)
    (auto simp: register_plugin_def push_hooks_eq split: option.splits)

lemma last_named_name: "last_named n ps = Some q \<Longrightarrow> plugin_name q = n \<and> q \<in> set ps"
  by (induction ps) (auto split: option.splits if_splits)

lemma last_named_distinct:
  "distinct (map plugin_name ps) \<Longrightarrow> p \<in> set ps \<Longrightarrow> last_named (plugin_name p) ps = Some p"
proof (induction ps)
  case (Cons q ps)
  show ?case
  proof (cases "p = q")
    case True
    with Cons.prems(1) have "last_named (plugin_name p) ps = None"
      by (cases "last_named (plugin_name p) ps") (auto dest!: last_named_name intro: rev_image_eqI)
    with True show ?thesis by simp
  next
    case False
    with Cons show ?thesis by simp
  qed
qed simp

lemma map_filter_append: "List.map_filter f (xs @ ys) = List.map_filter f xs @ List.map_filter f ys"
  by (simp add: List.map_filter_def)

lemma map_filter_replicate:
  "f x = Some y \<Longrightarrow> List.map_filter f (replicate n x) = replicate n y"
  by (induction n) (simp_all add: List.map_filter_def)

lemma plugins_for_hook_all:
  assumes "distinct (map plugin_name ps)"
  shows "plugins_for_hook t (register_all ps)
    = concat (map (\<lambda>p. replicate (count_list (plugin_hook_types p) t) p) ps)"
proof -
  have "List.map_filter (\<lambda>n. last_named n ps)
          (concat (map (\<lambda>p. replicate (count_list (plugin_hook_types p) t) (plugin_name p)) qs))
      = concat (map (\<lambda>p. replicate (count_list (plugin_hook_types p) t) p) qs)"
    if "set qs \<subseteq> set ps" for qs
    using that
  proof (induction qs)
    case Nil
    then show ?case by (simp add: List.map_filter_def)
  next
    case (Cons q qs)
    then have "last_named (plugin_name q) ps = Some q"
      using assms by (simp add: last_named_distinct)
    with Cons show ?case by (simp add: map_filter_append map_filter_replicate)
  qed
  moreover have "plugins (register_all ps) = (\<lambda>n. last_named n ps)"
    by (rule ext) (simp add: register_all_def register_fold plugin_registry_new_def split: option.splits)
  ultimately show ?thesis
    by (simp add: plugins_for_hook_def register_all_def register_fold plugin_registry_new_def)
qed

section \<open>Execution\<close>

text \<open>The specification of a hook run: an outcome is reached by a prefix of the plugins.\<close>

inductive hook_run ::
  "plugin_hook_type \<Rightarrow> string \<Rightarrow> (string \<Rightarrow> string option) \<Rightarrow> 'w plugin list \<Rightarrow> 'w
     \<Rightarrow> plugin_result list \<Rightarrow> 'w \<Rightarrow> bool"
  for t :: plugin_hook_type and input :: string and ctx :: "string \<Rightarrow> string option" where
  finished: "hook_run t input ctx [] w [] w"
| ran: "plugin_run_function p (hook_debug t) input ctx w = (Inr res, w') \<Longrightarrow> \<not> is_fatal res
     \<Longrightarrow> hook_run t input ctx ps w' rs w'' \<Longrightarrow> hook_run t input ctx (p # ps) w (res # rs) w''"

inductive_simps hook_run_simps [simp]:
  "hook_run t input ctx [] w rs w'"
  "hook_run t input ctx (p # ps) w rs w'"

lemma hook_run_length: "hook_run t input ctx ps w rs w' \<Longrightarrow> length rs = length ps"
  by (induction rule: hook_run.induct) simp_all

lemma execute_plugins_Inr:
  "execute_plugins t input ctx ps acc w = (Inr results, w') \<longleftrightarrow>
     (\<exists>rs. results = acc @ rs \<and> hook_run t input ctx ps w rs w')"
  by (induction t input ctx ps acc w rule: execute_plugins.induct)
    (auto split: prod.splits sum.splits if_splits)

text \<open>The run of one plugin that ends a hook with an error.\<close>

definition plugin_fails ::
  "plugin_hook_type \<Rightarrow> string \<Rightarrow> (string \<Rightarrow> string option) \<Rightarrow> 'w plugin \<Rightarrow> 'w \<Rightarrow> api_error \<Rightarrow> 'w \<Rightarrow> bool" where
  "plugin_fails t input ctx p w e w' \<longleftrightarrow>
     plugin_run_function p (hook_debug t) input ctx w = (Inl e, w')
   \<or> (\<exists>res. plugin_run_function p (hook_debug t) input ctx w = (Inr res, w') \<and> is_fatal res
        \<and> e = Internal (''Plugin '' @ plugin_name p @ '' returned fatal error''))"

lemma execute_plugins_Inl_Cons:
  "execute_plugins t input ctx (q # ps) acc w = (Inl e, w') \<longleftrightarrow>
     plugin_fails t input ctx q w e w'
   \<or> (\<exists>res w2. plugin_run_function q (hook_debug t) input ctx w = (Inr res, w2) \<and> \<not> is_fatal res
        \<and> execute_plugins t input ctx ps (acc @ [res]) w2 = (Inl e, w'))"
  by (auto simp: plugin_fails_def split: prod.splits sum.splits)

lemma execute_plugins_Inl:
  "execute_plugins t input ctx ps acc w = (Inl e, w') \<longleftrightarrow>
     (\<exists>before p after rs w1. ps = before @ p # after \<and> hook_run t input ctx before w rs w1
        \<and> plugin_fails t input ctx p w1 e w')"
proof (induction ps arbitrary: acc w)
  case Nil
  then show ?case by simp
next
  case (Cons q ps)
  show ?case (is "?L \<longleftrightarrow> ?R")
  proof
    assume ?L
    then consider "plugin_fails t input ctx q w e w'"
      | res w2 where "plugin_run_function q (hook_debug t) input ctx w = (Inr res, w2)"
          "\<not> is_fatal res" "execute_plugins t input ctx ps (acc @ [res]) w2 = (Inl e, w')"
      unfolding execute_plugins_Inl_Cons by blast
    then show ?R
    proof cases
      case 1
      then show ?thesis by (intro exI [of _ "[]"] exI [of _ q] exI [of _ ps]) auto
    next
      case 2
      from 2(3) obtain before p after rs w1 where "ps = before @ p # after"
        "hook_run t input ctx before w2 rs w1" "plugin_fails t input ctx p w1 e w'"
        unfolding Cons.IH by blast
      with 2(1,2) show ?thesis
        by (intro exI [of _ "q # before"] exI [of _ p] exI [of _ after] exI [of _ "res # rs"]
            exI [of _ w1]) auto
    qed
  next
    assume ?R
    then obtain before p after rs w1 where h: "q # ps = before @ p # after"
      "hook_run t input ctx before w rs w1" "plugin_fails t input ctx p w1 e w'" by blast
    show ?L
    proof (cases before)
      case Nil
      with h show ?thesis unfolding execute_plugins_Inl_Cons by auto
    next
      case (Cons b bs)
      with h obtain res w2 rs' where
        "plugin_run_function q (hook_debug t) input ctx w = (Inr res, w2)" "\<not> is_fatal res"
        "hook_run t input ctx bs w2 rs' w1" by auto
      moreover from this(3) Cons h have "execute_plugins t input ctx ps (acc @ [res]) w2 = (Inl e, w')"
        unfolding Cons.IH by auto
      ultimately show ?thesis unfolding execute_plugins_Inl_Cons by blast
    qed
  qed
qed

section \<open>Properties\<close>

text \<open>
  A hook succeeds exactly when every plugin of the hook, in registration order, runs without
  an error and without an error condition, and then returns one result per plugin in that order;
  it fails exactly at the first plugin that errors or reports a fatal condition, and the plugins
  after it are not run.
\<close>
theorem execute_hook_spec:
  "(execute_hook t input ctx r w = (Inr results, w') \<longleftrightarrow>
      hook_run t input ctx (plugins_for_hook t r) w results w')
   \<and> (execute_hook t input ctx r w = (Inl e, w') \<longleftrightarrow>
      (\<exists>before p after rs w1. plugins_for_hook t r = before @ p # after
         \<and> hook_run t input ctx before w rs w1
         \<and> plugin_fails t input ctx p w1 e w'))"
  by (simp add: execute_hook_def execute_plugins_Inr execute_plugins_Inl)

text \<open>
  With distinct plugin names a hook runs every plugin as often as the plugin declares it, in
  registration order. Registering a plugin again under the same name instead leaves both hook
  entries in place, so the new plugin runs once for each of them.
\<close>
theorem plugins_for_hook_spec:
  fixes ps :: "'w plugin list"
  assumes "distinct (map plugin_name ps)"
  shows "plugins_for_hook t (register_all ps)
      = concat (map (\<lambda>p. replicate (count_list (plugin_hook_types p) t) p) ps)
   \<and> (\<forall>p :: 'w plugin. plugins_for_hook t (register_plugin p (register_plugin p plugin_registry_new))
      = replicate (2 * count_list (plugin_hook_types p) t) p)"
proof
  show "plugins_for_hook t (register_all ps)
      = concat (map (\<lambda>p. replicate (count_list (plugin_hook_types p) t) p) ps)"
    using assms by (rule plugins_for_hook_all)
  show "\<forall>p :: 'w plugin. plugins_for_hook t (register_plugin p (register_plugin p plugin_registry_new))
      = replicate (2 * count_list (plugin_hook_types p) t) p"
    by (simp add: plugins_for_hook_def register_plugin_def plugin_registry_new_def push_hooks_eq
        map_filter_append map_filter_replicate mult_2 replicate_add)
qed

definition sample_plugin :: "string \<Rightarrow> unit plugin" where
  "sample_plugin n = \<lparr>plugin_name = n, plugin_hook_types = [PreBuild],
      plugin_run_function = (\<lambda>_ _ _ w. (Inr \<lparr>pres_success = True, pres_output = [], pres_conditions = []\<rparr>, w)),
      plugin_health_check = (\<lambda>w. (True, w))\<rparr>"

theorem plugins_for_hook_spec_witness:
  "plugins_for_hook PreBuild (register_all [sample_plugin ''a'', sample_plugin ''b''])
     = [sample_plugin ''a'', sample_plugin ''b'']"
proof -
  have d: "distinct (map plugin_name [sample_plugin ''a'', sample_plugin ''b''])"
    by (simp add: sample_plugin_def)
  show ?thesis
    by (rule trans [OF plugins_for_hook_spec [OF d, of PreBuild, THEN conjunct1]])
      (simp add: sample_plugin_def)
qed

end
