(* ===== verification/Validation.thy ===== *)
theory Validation
  imports Prelude
begin

text \<open>
  \<open>crates/reinhardt-cloud-types/src/validation.rs\<close> (DNS-1123 labels),
  \<open>crates/reinhardt-cloud-types/src/crd/tenant.rs\<close> (the tenant marker of a project and its
  namespace) and \<open>validate_tenant_namespace\<close> of the operator's \<open>reconciler.rs\<close>. A
  \<open>ValidationError\<close> is its message.
\<close>

type_synonym validation_error = string

definition DNS_1123_LABEL_MAX_LENGTH :: nat where "DNS_1123_LABEL_MAX_LENGTH = 63"

definition is_dns_1123_alphanumeric :: "char \<Rightarrow> bool" where
  "is_dns_1123_alphanumeric b \<longleftrightarrow> is_ascii_lowercase b \<or> is_ascii_digit b"

definition validate_dns_1123_label :: "string \<Rightarrow> validation_error + unit" where
  "validate_dns_1123_label v =
     (if v = [] then Inl ''must not be empty''
      else if length v > DNS_1123_LABEL_MAX_LENGTH then
        Inl (''must be at most '' @ show_nat DNS_1123_LABEL_MAX_LENGTH @ '' characters, got ''
             @ show_nat (length v))
      else if \<not> is_dns_1123_alphanumeric (hd v) then
        Inl ''must start with a lowercase alphanumeric character''
      else if \<not> is_dns_1123_alphanumeric (last v) then
        Inl ''must end with a lowercase alphanumeric character''
      else if \<not> list_all (\<lambda>b. is_dns_1123_alphanumeric b \<or> b = CHR ''-'') v then
        Inl ''must contain only lowercase alphanumeric characters and hyphens''
      else Inr ())"

text \<open>The RFC 1123 label as a predicate, the specification of the check.\<close>

definition dns_char :: "char \<Rightarrow> bool" where
  "dns_char c \<longleftrightarrow> is_dns_1123_alphanumeric c \<or> c = CHR ''-''"

definition dns_label :: "string \<Rightarrow> bool" where
  "dns_label v \<longleftrightarrow> v \<noteq> [] \<and> length v \<le> 63 \<and> is_dns_1123_alphanumeric (hd v)
     \<and> is_dns_1123_alphanumeric (last v) \<and> list_all dns_char v"

lemma validate_dns_1123_label_iff: "validate_dns_1123_label v = Inr () \<longleftrightarrow> dns_label v"
  by (auto simp: validate_dns_1123_label_def dns_label_def DNS_1123_LABEL_MAX_LENGTH_def dns_char_def
      list_all_iff)

lemma validate_dns_1123_label_Inl: "(\<exists>e. validate_dns_1123_label v = Inl e) \<longleftrightarrow> \<not> dns_label v"
  unfolding validate_dns_1123_label_iff [symmetric]
  by (cases "validate_dns_1123_label v") auto

lemma alnum_imp_dns_char: "is_dns_1123_alphanumeric c \<Longrightarrow> dns_char c"
  by (simp add: dns_char_def)

lemma dns_label_append:
  assumes "dns_label a" "dns_label b" "length a + length m + length b \<le> 63" "list_all dns_char m"
  shows "dns_label (a @ m @ b)"
  using assms by (auto simp: dns_label_def list_all_iff)

section \<open>Tenants\<close>

record tenant_ref =
  organization :: string
  team :: "string option"

definition TENANT_NAMESPACE_PREFIX :: string where "TENANT_NAMESPACE_PREFIX = ''tenant-''"

definition tenant_namespace :: "tenant_ref \<Rightarrow> string" where
  "tenant_namespace t =
     (case team t of
        Some tm \<Rightarrow> TENANT_NAMESPACE_PREFIX @ organization t @ ''-'' @ tm
      | None \<Rightarrow> TENANT_NAMESPACE_PREFIX @ organization t)"

definition validate_tenant :: "tenant_ref \<Rightarrow> validation_error list + unit" where
  "validate_tenant t =
     (let e1 = (case validate_dns_1123_label (organization t) of
                  Inl e \<Rightarrow> [''tenant.organization '' @ e] | Inr _ \<Rightarrow> []);
          e2 = (case team t of
                  Some tm \<Rightarrow> (case validate_dns_1123_label tm of
                      Inl e \<Rightarrow> e1 @ [''tenant.team '' @ e] | Inr _ \<Rightarrow> e1)
                | None \<Rightarrow> e1);
          e3 = (if e2 = [] then
                  (case validate_dns_1123_label (tenant_namespace t) of
                     Inl e \<Rightarrow> e2 @ [''tenant namespace '' @ e @ '' ('' @ tenant_namespace t @ '')'']
                   | Inr _ \<Rightarrow> e2)
                else e2)
      in if e3 = [] then Inr () else Inl e3)"

datatype tenant_error = InvalidTenant string | TenantMismatch string string

definition validate_tenant_namespace ::
  "tenant_ref option \<Rightarrow> string \<Rightarrow> tenant_error + string option" where
  "validate_tenant_namespace spec_tenant actual_namespace =
     (case spec_tenant of
        None \<Rightarrow> Inr None
      | Some t \<Rightarrow>
          (case validate_tenant t of
             Inl errors \<Rightarrow> Inl (InvalidTenant (join ''; '' errors))
           | Inr _ \<Rightarrow>
               (let expected = tenant_namespace t in
                if expected \<noteq> actual_namespace then Inl (TenantMismatch expected actual_namespace)
                else Inr (Some expected))))"

definition tenant_wf :: "tenant_ref \<Rightarrow> bool" where
  "tenant_wf t \<longleftrightarrow> dns_label (organization t) \<and> (\<forall>tm. team t = Some tm \<longrightarrow> dns_label tm)
     \<and> 7 + length (organization t) + (case team t of None \<Rightarrow> 0 | Some tm \<Rightarrow> 1 + length tm) \<le> 63"

lemma tenant_namespace_label:
  "dns_label (organization t) \<Longrightarrow> (\<And>tm. team t = Some tm \<Longrightarrow> dns_label tm) \<Longrightarrow>
     dns_label (tenant_namespace t) \<longleftrightarrow> length (tenant_namespace t) \<le> 63"
proof -
  assume o: "dns_label (organization t)" and tm: "\<And>tm. team t = Some tm \<Longrightarrow> dns_label tm"
  have p: "hd (TENANT_NAMESPACE_PREFIX @ x) = CHR ''t''" "list_all dns_char TENANT_NAMESPACE_PREFIX"
    "is_dns_1123_alphanumeric CHR ''t''" "dns_char CHR ''-''" "TENANT_NAMESPACE_PREFIX \<noteq> []" for x
    by (simp_all add: TENANT_NAMESPACE_PREFIX_def dns_char_def is_dns_1123_alphanumeric_def
        is_ascii_lowercase_def is_ascii_digit_def)
  show ?thesis
    using o tm p by (cases "team t") (auto simp: dns_label_def tenant_namespace_def)
qed

lemma length_tenant_namespace:
  "length (tenant_namespace t)
     = 7 + length (organization t) + (case team t of None \<Rightarrow> 0 | Some tm \<Rightarrow> 1 + length tm)"
  by (simp add: tenant_namespace_def TENANT_NAMESPACE_PREFIX_def split: option.splits)

lemma validate_tenant_iff: "validate_tenant t = Inr () \<longleftrightarrow> tenant_wf t"
proof (cases "dns_label (organization t) \<and> (\<forall>tm. team t = Some tm \<longrightarrow> dns_label tm)")
  case True
  then have ok: "validate_dns_1123_label (organization t) = Inr ()"
    "\<And>tm. team t = Some tm \<Longrightarrow> validate_dns_1123_label tm = Inr ()"
    by (simp_all add: validate_dns_1123_label_iff)
  have "validate_tenant t = Inr () \<longleftrightarrow> validate_dns_1123_label (tenant_namespace t) = Inr ()"
    using ok by (auto simp: validate_tenant_def Let_def split: option.splits sum.splits)
  also have "\<dots> \<longleftrightarrow> length (tenant_namespace t) \<le> 63"
    using True by (simp add: validate_dns_1123_label_iff tenant_namespace_label)
  finally show ?thesis using True by (simp add: tenant_wf_def length_tenant_namespace)
next
  case False
  then have "\<exists>e. validate_tenant t = Inl e"
  proof (cases "dns_label (organization t)")
    case True
    with False obtain tm where tm: "team t = Some tm" "\<not> dns_label tm" by blast
    then obtain e where "validate_dns_1123_label tm = Inl e"
      using validate_dns_1123_label_Inl by blast
    with tm show ?thesis by (auto simp: validate_tenant_def Let_def split: sum.splits)
  next
    case org: False
    then obtain e where "validate_dns_1123_label (organization t) = Inl e"
      using validate_dns_1123_label_Inl by blast
    then show ?thesis by (auto simp: validate_tenant_def Let_def split: sum.splits option.splits)
  qed
  with False show ?thesis by (auto simp: tenant_wf_def)
qed

section \<open>Properties\<close>

text \<open>
  The DNS-1123 check accepts exactly the labels of RFC 1123, and a project passes the tenant
  check exactly when it has no tenant, or its slugs are labels, the composed namespace fits in 63
  bytes, and the project is in that namespace, which is then itself a label.
\<close>
theorem tenant_namespace_enforced:
  "(validate_dns_1123_label v = Inr () \<longleftrightarrow> dns_label v)
   \<and> (validate_tenant_namespace x ns = Inr r \<longleftrightarrow>
        (x = None \<and> r = None)
      \<or> (\<exists>t. x = Some t \<and> tenant_wf t \<and> ns = tenant_namespace t \<and> dns_label ns \<and> r = Some ns))"
proof
  show "validate_dns_1123_label v = Inr () \<longleftrightarrow> dns_label v" by (rule validate_dns_1123_label_iff)
  have wf: "tenant_wf t \<Longrightarrow> dns_label (tenant_namespace t)" for t
    by (simp add: tenant_wf_def tenant_namespace_label length_tenant_namespace)
  show "validate_tenant_namespace x ns = Inr r \<longleftrightarrow>
        (x = None \<and> r = None)
      \<or> (\<exists>t. x = Some t \<and> tenant_wf t \<and> ns = tenant_namespace t \<and> dns_label ns \<and> r = Some ns)"
  proof (cases x)
    case None
    then show ?thesis by (auto simp: validate_tenant_namespace_def)
  next
    case (Some t)
    show ?thesis
    proof (cases "validate_tenant t")
      case (Inl e)
      then have "\<not> tenant_wf t" unfolding validate_tenant_iff [symmetric] by simp
      with Some Inl show ?thesis by (simp add: validate_tenant_namespace_def)
    next
      case (Inr u)
      then have "tenant_wf t" unfolding validate_tenant_iff [symmetric] by simp
      with Some Inr wf show ?thesis by (auto simp: validate_tenant_namespace_def Let_def)
    qed
  qed
qed

text \<open>
  The namespace does not determine the tenant: an organization without a team shares its
  namespace with the organization and team its slug splits into at a hyphen, and both pass the
  check, so the two tenants are not isolated from each other. Two tenants with the same shape
  collide in no other way: without teams, or with the same organization, the namespace is
  injective.
\<close>
theorem tenant_namespaces_collide:
  "tenant_namespace \<lparr>organization = org @ ''-'' @ tm, team = None\<rparr>
     = tenant_namespace \<lparr>organization = org, team = Some tm\<rparr>
   \<and> (tenant_wf \<lparr>organization = org, team = Some tm\<rparr> \<longrightarrow>
        tenant_wf \<lparr>organization = org @ ''-'' @ tm, team = None\<rparr>
      \<and> validate_tenant_namespace (Some \<lparr>organization = org, team = Some tm\<rparr>)
          (tenant_namespace \<lparr>organization = org @ ''-'' @ tm, team = None\<rparr>)
        = validate_tenant_namespace (Some \<lparr>organization = org @ ''-'' @ tm, team = None\<rparr>)
          (tenant_namespace \<lparr>organization = org @ ''-'' @ tm, team = None\<rparr>))
   \<and> inj (\<lambda>o'. tenant_namespace \<lparr>organization = o', team = None\<rparr>)
   \<and> inj (\<lambda>t'. tenant_namespace \<lparr>organization = org, team = Some t'\<rparr>)"
proof (intro conjI impI)
  let ?a = "\<lparr>organization = org @ ''-'' @ tm, team = None\<rparr>" and ?b = "\<lparr>organization = org, team = Some tm\<rparr>"
  show eq: "tenant_namespace ?a = tenant_namespace ?b" by (simp add: tenant_namespace_def)
  assume wf: "tenant_wf ?b"
  then show a: "tenant_wf ?a"
    using dns_label_append [of org tm "''-''"] by (simp add: tenant_wf_def dns_char_def)
  from wf a show "validate_tenant_namespace (Some ?b) (tenant_namespace ?a)
      = validate_tenant_namespace (Some ?a) (tenant_namespace ?a)"
    using eq by (simp add: validate_tenant_namespace_def validate_tenant_iff [symmetric] Let_def)
qed (auto simp: inj_def tenant_namespace_def)

theorem tenant_namespaces_collide_witness:
  "tenant_wf \<lparr>organization = ''acme'', team = Some ''prod''\<rparr>
   \<and> tenant_namespace \<lparr>organization = ''acme-prod'', team = None\<rparr> = ''tenant-acme-prod''
   \<and> tenant_wf \<lparr>organization = ''acme-prod'', team = None\<rparr>"
proof -
  have "tenant_wf \<lparr>organization = ''acme'', team = Some ''prod''\<rparr>"
    by (simp add: tenant_wf_def dns_label_def dns_char_def is_dns_1123_alphanumeric_def str_simps)
  with tenant_namespaces_collide [of "''acme''" "''prod''"] show ?thesis
    by (simp add: tenant_namespace_def TENANT_NAMESPACE_PREFIX_def)
qed

end
