(* ===== verification/Infrastructure.thy ===== *)
theory Infrastructure
  imports Validation "HOL-Library.List_Lexorder" "HOL-Library.Char_ord"
begin

text \<open>
  \<open>crates/reinhardt-cloud-types/src/crd/infrastructure.rs\<close> (the managed-infrastructure block and
  its validation), \<open>introspect.rs\<close> (the introspection signals) and, in
  \<open>crates/reinhardt-cloud-core/src\<close>, \<open>inference.rs\<close> and \<open>infrastructure_derivation.rs\<close>.
  Rust orders strings bytewise, as \<open>List_Lexorder\<close> over \<open>Char_ord\<close> does, so a \<open>BTreeSet\<close>
  is read with \<open>sorted_list_of_set\<close>.
\<close>

section \<open>The infrastructure block\<close>

definition is_safe_terraform_name :: "string \<Rightarrow> bool" where
  "is_safe_terraform_name v \<longleftrightarrow> trim v \<noteq> []
     \<and> list_all (\<lambda>b. is_ascii_alphanumeric b \<or> b = CHR ''_'' \<or> b = CHR ''-'') v"

definition is_safe_terraform_identifier :: "string \<Rightarrow> bool" where
  "is_safe_terraform_identifier v =
     (case v of
        [] \<Rightarrow> False
      | first # bytes \<Rightarrow> (is_ascii_alphabetic first \<or> first = CHR ''_'')
          \<and> list_all (\<lambda>b. is_ascii_alphanumeric b \<or> b = CHR ''_'') bytes)"

definition is_safe_provider_value :: "string \<Rightarrow> bool" where
  "is_safe_provider_value v \<longleftrightarrow> trim v \<noteq> []
     \<and> list_all (\<lambda>b. is_ascii_alphanumeric b \<or> b = CHR ''.'' \<or> b = CHR ''_'' \<or> b = CHR ''-'') v"

definition is_safe_dns_host :: "string \<Rightarrow> bool" where
  "is_safe_dns_host v \<longleftrightarrow> trim v \<noteq> []
     \<and> list_all (\<lambda>b. is_ascii_alphanumeric b \<or> b = CHR ''.'' \<or> b = CHR ''-'') v"

definition hcl_meta :: "char set" where
  "hcl_meta = {CHR 0x22, CHR 0x5C, CHR ''{'', CHR ''}'', CHR ''$''}"

definition is_safe_hcl_string :: "string \<Rightarrow> bool" where
  "is_safe_hcl_string v \<longleftrightarrow> \<not> list_ex (\<lambda>b. is_ascii_control b \<or> b \<in> hcl_meta) v"

record postgres_spec =
  pg_tier :: "string option"
  pg_version :: "string option"
  pg_backup_retention_days :: "u32 option"

record bucket_spec =
  bucket_name :: string
  bucket_public :: bool

record dns_record_spec =
  dns_host :: string
  dns_record_type :: string

record secret_spec =
  secret_name :: string
  secret_description :: "string option"

record infrastructure_spec =
  inf_postgres :: "postgres_spec option"
  inf_buckets :: "bucket_spec list option"
  inf_dns :: "dns_record_spec list option"
  inf_secrets :: "secret_spec list option"

definition infrastructure_default :: infrastructure_spec where
  "infrastructure_default = \<lparr>inf_postgres = None, inf_buckets = None, inf_dns = None, inf_secrets = None\<rparr>"

definition PROVIDER_VALUE_CHARS :: string where
  "PROVIDER_VALUE_CHARS = ''ASCII letters, digits, dots, underscores, and hyphens''"

definition TERRAFORM_IDENTIFIER_CHARS :: string where
  "TERRAFORM_IDENTIFIER_CHARS = ''ASCII letters, digits, underscores, and hyphens''"

definition DNS_HOST_CHARS :: string where
  "DNS_HOST_CHARS = ''ASCII letters, digits, dots, and hyphens''"

definition validate_postgres :: "postgres_spec \<Rightarrow> validation_error list + unit" where
  "validate_postgres p = finish (
     err_if (is_some_and (pg_tier p) (\<lambda>v. \<not> is_safe_provider_value v))
       (''infrastructure.postgres.tier must contain only '' @ PROVIDER_VALUE_CHARS)
   @ err_if (is_some_and (pg_version p) (\<lambda>v. \<not> is_safe_provider_value v))
       (''infrastructure.postgres.version must contain only '' @ PROVIDER_VALUE_CHARS)
   @ err_if (is_some_and (pg_backup_retention_days p) (\<lambda>d. d = 0))
       ''infrastructure.postgres.backup_retention_days must be > 0'')"

definition validate_bucket :: "bucket_spec \<Rightarrow> validation_error list + unit" where
  "validate_bucket b = finish (
     err_if (\<not> is_safe_terraform_name (bucket_name b))
       (''infrastructure.buckets[].name must contain only '' @ TERRAFORM_IDENTIFIER_CHARS))"

definition validate_dns_record :: "dns_record_spec \<Rightarrow> validation_error list + unit" where
  "validate_dns_record d = finish (
     err_if (\<not> is_safe_dns_host (dns_host d))
       (''infrastructure.dns[].host must contain only '' @ DNS_HOST_CHARS)
   @ err_if (dns_record_type d \<notin> {''A'', ''CNAME'', ''TXT''})
       (''infrastructure.dns[].type must be one of ['' @ [CHR 0x22] @ ''A'' @ [CHR 0x22] @ '', ''
        @ [CHR 0x22] @ ''CNAME'' @ [CHR 0x22] @ '', '' @ [CHR 0x22] @ ''TXT'' @ [CHR 0x22] @ '']''))"

definition validate_secret_spec :: "secret_spec \<Rightarrow> validation_error list + unit" where
  "validate_secret_spec s = finish (
     err_if (\<not> is_safe_terraform_name (secret_name s))
       (''infrastructure.secrets[].name must contain only '' @ TERRAFORM_IDENTIFIER_CHARS)
   @ err_if (is_some_and (secret_description s) (\<lambda>v. \<not> is_safe_hcl_string v))
       ''infrastructure.secrets[].description must not contain HCL metacharacters or control characters'')"

definition validate_infrastructure :: "infrastructure_spec \<Rightarrow> validation_error list + unit" where
  "validate_infrastructure s = finish (
     on_some (inf_postgres s) (\<lambda>p. errs_of (validate_postgres p))
   @ on_some (inf_buckets s) (\<lambda>bs. concat (map (errs_of \<circ> validate_bucket) bs))
   @ on_some (inf_dns s) (\<lambda>ds. concat (map (errs_of \<circ> validate_dns_record) ds))
   @ on_some (inf_secrets s) (\<lambda>ss. concat (map (errs_of \<circ> validate_secret_spec) ss)))"

section \<open>Introspection signals\<close>

record infra_signals =
  sig_database :: "string option"
  sig_cache :: "string option"
  sig_websocket :: bool
  sig_background_worker :: bool
  sig_grpc :: bool
  sig_storage :: "string option"
  sig_mail :: "string option"
  sig_session_backend :: "string option"
  sig_graphql :: bool
  sig_admin_panel :: bool
  sig_i18n :: bool
  sig_pages :: bool

definition infra_signals_default :: infra_signals where
  "infra_signals_default =
     \<lparr>sig_database = None, sig_cache = None, sig_websocket = False, sig_background_worker = False,
      sig_grpc = False, sig_storage = None, sig_mail = None, sig_session_backend = None,
      sig_graphql = False, sig_admin_panel = False, sig_i18n = False, sig_pages = False\<rparr>"

definition requires_postgresql :: "infra_signals \<Rightarrow> bool" where
  "requires_postgresql s =
     is_some_and (sig_database s) (\<lambda>db. db = ''postgres'' \<or> db = ''postgresql'')"

definition requires_database :: "infra_signals \<Rightarrow> bool" where
  "requires_database s \<longleftrightarrow> sig_database s \<noteq> None"

definition requires_cache :: "infra_signals \<Rightarrow> bool" where
  "requires_cache s \<longleftrightarrow> sig_cache s \<noteq> None"

definition requires_worker :: "infra_signals \<Rightarrow> bool" where
  "requires_worker s = sig_background_worker s"

definition requires_storage :: "infra_signals \<Rightarrow> bool" where
  "requires_storage s \<longleftrightarrow> sig_storage s \<noteq> None"

definition requires_mail :: "infra_signals \<Rightarrow> bool" where
  "requires_mail s \<longleftrightarrow> sig_mail s \<noteq> None"

definition requires_redis_sessions :: "infra_signals \<Rightarrow> bool" where
  "requires_redis_sessions s = is_some_and (sig_session_backend s) (\<lambda>b. b = ''redis'')"

section \<open>Derivation\<close>

record derivation_input =
  di_project_name :: string
  di_signals :: infra_signals
  di_explicit :: "infrastructure_spec option"
  di_typed_secret_refs :: "string list"

datatype derivation_error =
    UnsupportedDatabaseEngine string
  | UnsupportedStorageBackend string
  | InvalidExplicitInfrastructure string
  | InvalidDerivedInfrastructure string

definition validation_message :: "infrastructure_spec \<Rightarrow> string + unit" where
  "validation_message s =
     (case validate_infrastructure s of Inl es \<Rightarrow> Inl (join ''; '' es) | Inr u \<Rightarrow> Inr u)"

definition validate_explicit_spec :: "infrastructure_spec \<Rightarrow> derivation_error + unit" where
  "validate_explicit_spec s =
     (case validation_message s of Inl m \<Rightarrow> Inl (InvalidExplicitInfrastructure m) | Inr u \<Rightarrow> Inr u)"

definition validate_derived_spec :: "infrastructure_spec \<Rightarrow> derivation_error + unit" where
  "validate_derived_spec s =
     (case validation_message s of Inl m \<Rightarrow> Inl (InvalidDerivedInfrastructure m) | Inr u \<Rightarrow> Inr u)"

definition derive_database :: "infra_signals \<Rightarrow> infrastructure_spec \<Rightarrow> derivation_error + infrastructure_spec" where
  "derive_database sig spec =
     (case sig_database sig of
        None \<Rightarrow> Inr spec
      | Some engine \<Rightarrow>
          if engine = ''postgres'' \<or> engine = ''postgresql''
          then Inr (spec\<lparr>inf_postgres := Some \<lparr>pg_tier = None, pg_version = Some ''16'',
                                          pg_backup_retention_days = Some 7\<rparr>\<rparr>)
          else Inl (UnsupportedDatabaseEngine engine))"

definition derive_storage ::
  "string \<Rightarrow> infra_signals \<Rightarrow> infrastructure_spec \<Rightarrow> derivation_error + infrastructure_spec" where
  "derive_storage project sig spec =
     (case sig_storage sig of
        None \<Rightarrow> Inr spec
      | Some backend \<Rightarrow>
          if backend = ''s3'' \<or> backend = ''gcs''
          then Inr (spec\<lparr>inf_buckets := Some [\<lparr>bucket_name = project @ ''-assets'', bucket_public = False\<rparr>]\<rparr>)
          else Inl (UnsupportedStorageBackend backend))"

definition derived_secret_names :: "string list \<Rightarrow> string list" where
  "derived_secret_names refs = sorted_list_of_set (set (filter (\<lambda>n. n \<noteq> []) (map trim refs)))"

definition derive_secrets :: "string list \<Rightarrow> infrastructure_spec \<Rightarrow> infrastructure_spec" where
  "derive_secrets refs spec =
     (let secret_names = derived_secret_names refs
      in if secret_names \<noteq> []
         then spec\<lparr>inf_secrets := Some (map (\<lambda>n. \<lparr>secret_name = n,
                secret_description = Some ''Application-managed secret reference''\<rparr>) secret_names)\<rparr>
         else spec)"

definition is_none_or :: "'a option \<Rightarrow> ('a \<Rightarrow> bool) \<Rightarrow> bool" where
  "is_none_or x p = (case x of None \<Rightarrow> True | Some a \<Rightarrow> p a)"

definition infrastructure_empty :: "infrastructure_spec \<Rightarrow> bool" where
  "infrastructure_empty s \<longleftrightarrow> inf_postgres s = None
     \<and> is_none_or (inf_buckets s) (\<lambda>b. b = []) \<and> is_none_or (inf_dns s) (\<lambda>d. d = [])
     \<and> is_none_or (inf_secrets s) (\<lambda>x. x = [])"

definition derive_infrastructure_spec ::
  "derivation_input \<Rightarrow> derivation_error + infrastructure_spec option" where
  "derive_infrastructure_spec input =
     (case di_explicit input of
        Some explicit \<Rightarrow> result_bind (validate_explicit_spec explicit) (\<lambda>_. Inr (Some explicit))
      | None \<Rightarrow>
          result_bind (derive_database (di_signals input) infrastructure_default) (\<lambda>s1.
          result_bind (derive_storage (di_project_name input) (di_signals input) s1) (\<lambda>s2.
          let spec = derive_secrets (di_typed_secret_refs input) s2
          in if infrastructure_empty spec then Inr None
             else result_bind (validate_derived_spec spec) (\<lambda>_. Inr (Some spec)))))"

section \<open>What validation accepts\<close>

text \<open>A string that can be put between the quotes of an HCL string as it is.\<close>

definition hcl_safe :: "string \<Rightarrow> bool" where
  "hcl_safe v \<longleftrightarrow> (\<forall>c \<in> set v. 32 \<le> byte c \<and> byte c \<noteq> 127 \<and> c \<notin> hcl_meta)"

lemma is_safe_hcl_string_iff: "is_safe_hcl_string v \<longleftrightarrow> hcl_safe v"
  by (auto simp: is_safe_hcl_string_def hcl_safe_def list_ex_iff is_ascii_control_def not_less)

lemma byte_eq_iff: "c = d \<longleftrightarrow> byte c = byte d"
  by (simp add: of_char_eq_iff)

lemma safe_char_hcl:
  assumes "is_ascii_alphanumeric c \<or> c = CHR ''.'' \<or> c = CHR ''_'' \<or> c = CHR ''-''"
  shows "32 \<le> byte c \<and> byte c \<noteq> 127 \<and> c \<notin> hcl_meta"
  using assms by (auto simp: hcl_meta_def byte_eq_iff str_simps simp del: of_char_eq_iff)

lemma safe_names_hcl:
  "is_safe_terraform_name v \<Longrightarrow> hcl_safe v"
  "is_safe_provider_value v \<Longrightarrow> hcl_safe v"
  "is_safe_dns_host v \<Longrightarrow> hcl_safe v"
  unfolding is_safe_terraform_name_def is_safe_provider_value_def is_safe_dns_host_def hcl_safe_def
    list_all_iff
  by (metis safe_char_hcl)+

definition spec_strings :: "infrastructure_spec \<Rightarrow> string set" where
  "spec_strings s =
     \<Union> ((\<lambda>p. set_option (pg_tier p) \<union> set_option (pg_version p)) ` set_option (inf_postgres s))
   \<union> bucket_name ` \<Union> (set ` set_option (inf_buckets s))
   \<union> dns_host ` \<Union> (set ` set_option (inf_dns s))
   \<union> dns_record_type ` \<Union> (set ` set_option (inf_dns s))
   \<union> secret_name ` \<Union> (set ` set_option (inf_secrets s))
   \<union> \<Union> ((\<lambda>x. set_option (secret_description x)) ` \<Union> (set ` set_option (inf_secrets s)))"

text \<open>Not blank, and only letters, digits and the characters of \<open>extra\<close>.\<close>

definition plain_name :: "char set \<Rightarrow> string \<Rightarrow> bool" where
  "plain_name extra v \<longleftrightarrow> trim v \<noteq> [] \<and> (\<forall>c \<in> set v. is_ascii_alphanumeric c \<or> c \<in> extra)"

lemma safe_names_plain:
  "is_safe_terraform_name v \<longleftrightarrow> plain_name {CHR ''_'', CHR ''-''} v"
  "is_safe_provider_value v \<longleftrightarrow> plain_name {CHR ''.'', CHR ''_'', CHR ''-''} v"
  "is_safe_dns_host v \<longleftrightarrow> plain_name {CHR ''.'', CHR ''-''} v"
  by (auto simp: is_safe_terraform_name_def is_safe_provider_value_def is_safe_dns_host_def plain_name_def list_all_iff)

definition postgres_wf :: "postgres_spec \<Rightarrow> bool" where
  "postgres_wf p \<longleftrightarrow>
     (\<forall>v. pg_tier p = Some v \<or> pg_version p = Some v \<longrightarrow> plain_name {CHR ''.'', CHR ''_'', CHR ''-''} v)
   \<and> (\<forall>d. pg_backup_retention_days p = Some d \<longrightarrow> 0 < unat d)"

definition dns_record_wf :: "dns_record_spec \<Rightarrow> bool" where
  "dns_record_wf d \<longleftrightarrow> plain_name {CHR ''.'', CHR ''-''} (dns_host d) \<and> dns_record_type d \<in> {''A'', ''CNAME'', ''TXT''}"

definition secret_spec_wf :: "secret_spec \<Rightarrow> bool" where
  "secret_spec_wf x \<longleftrightarrow> plain_name {CHR ''_'', CHR ''-''} (secret_name x)
     \<and> (\<forall>v. secret_description x = Some v \<longrightarrow> hcl_safe v)"

definition infrastructure_wf :: "infrastructure_spec \<Rightarrow> bool" where
  "infrastructure_wf s \<longleftrightarrow>
     (\<forall>p. inf_postgres s = Some p \<longrightarrow> postgres_wf p)
   \<and> (\<forall>bs. inf_buckets s = Some bs \<longrightarrow> (\<forall>b \<in> set bs. plain_name {CHR ''_'', CHR ''-''} (bucket_name b)))
   \<and> (\<forall>ds. inf_dns s = Some ds \<longrightarrow> (\<forall>d \<in> set ds. dns_record_wf d))
   \<and> (\<forall>ss. inf_secrets s = Some ss \<longrightarrow> (\<forall>x \<in> set ss. secret_spec_wf x))"

lemma is_some_and_not: "is_some_and x p \<longleftrightarrow> \<not> (\<forall>a. x = Some a \<longrightarrow> \<not> p a)"
  by (cases x) auto

lemma validate_postgres_iff: "validate_postgres p = Inr () \<longleftrightarrow> postgres_wf p"
  unfolding validate_postgres_def postgres_wf_def finish_Inr append_is_Nil_conv err_if_Nil is_some_and_not
    safe_names_plain not_not unat_gt_0
  by blast

lemma validate_dns_record_iff: "validate_dns_record d = Inr () \<longleftrightarrow> dns_record_wf d"
  unfolding validate_dns_record_def dns_record_wf_def finish_Inr append_is_Nil_conv err_if_Nil safe_names_plain not_not ..

lemma validate_secret_spec_iff: "validate_secret_spec x = Inr () \<longleftrightarrow> secret_spec_wf x"
  unfolding validate_secret_spec_def secret_spec_wf_def finish_Inr append_is_Nil_conv err_if_Nil is_some_and_not
    safe_names_plain is_safe_hcl_string_iff not_not ..

lemma validate_bucket_iff: "validate_bucket b = Inr () \<longleftrightarrow> plain_name {CHR ''_'', CHR ''-''} (bucket_name b)"
  unfolding validate_bucket_def finish_Inr err_if_Nil safe_names_plain not_not ..

lemma validate_infrastructure_iff: "validate_infrastructure s = Inr () \<longleftrightarrow> infrastructure_wf s"
proof -
  have e: "errs_of (validate_postgres p) = [] \<longleftrightarrow> validate_postgres p = Inr ()"
    "errs_of (validate_bucket b) = [] \<longleftrightarrow> validate_bucket b = Inr ()"
    "errs_of (validate_dns_record d) = [] \<longleftrightarrow> validate_dns_record d = Inr ()"
    "errs_of (validate_secret_spec x) = [] \<longleftrightarrow> validate_secret_spec x = Inr ()" for p b d x
    unfolding validate_postgres_def validate_bucket_def validate_dns_record_def validate_secret_spec_def
      errs_of_finish finish_Inr by (rule refl)+
  show ?thesis
    by (simp add: validate_infrastructure_def infrastructure_wf_def e validate_postgres_iff validate_bucket_iff
        validate_dns_record_iff validate_secret_spec_iff)
qed

lemma validate_postgres_hcl:
  "validate_postgres p = Inr () \<Longrightarrow> v \<in> set_option (pg_tier p) \<union> set_option (pg_version p) \<Longrightarrow> hcl_safe v"
  by (auto simp: validate_postgres_def is_some_and_not intro: safe_names_hcl)

lemma validate_dns_record_hcl:
  "validate_dns_record d = Inr () \<Longrightarrow> hcl_safe (dns_host d) \<and> hcl_safe (dns_record_type d)"
proof -
  assume v: "validate_dns_record d = Inr ()"
  then have "dns_record_type d \<in> {''A'', ''CNAME'', ''TXT''}" by (simp add: validate_dns_record_def)
  then have "hcl_safe (dns_record_type d)"
    by (auto simp: hcl_safe_def hcl_meta_def)
  with v show ?thesis by (auto simp: validate_dns_record_def intro: safe_names_hcl)
qed

lemma validate_secret_spec_hcl:
  "validate_secret_spec x = Inr () \<Longrightarrow>
     hcl_safe (secret_name x) \<and> (\<forall>v \<in> set_option (secret_description x). hcl_safe v)"
  by (auto simp: validate_secret_spec_def is_some_and_not is_safe_hcl_string_iff intro: safe_names_hcl)

lemma infrastructure_wf_hcl:
  assumes "infrastructure_wf s" and "v \<in> spec_strings s"
  shows "hcl_safe v"
proof -
  from assms(2) consider
      p where "inf_postgres s = Some p" "v \<in> set_option (pg_tier p) \<union> set_option (pg_version p)"
    | bs b where "inf_buckets s = Some bs" "b \<in> set bs" "v = bucket_name b"
    | ds d where "inf_dns s = Some ds" "d \<in> set ds" "v = dns_host d \<or> v = dns_record_type d"
    | ss x where "inf_secrets s = Some ss" "x \<in> set ss"
        "v = secret_name x \<or> v \<in> set_option (secret_description x)"
    by (auto simp: spec_strings_def)
  then show ?thesis
    using assms(1) unfolding infrastructure_wf_def validate_postgres_iff [symmetric] validate_dns_record_iff [symmetric]
      validate_secret_spec_iff [symmetric] safe_names_plain [symmetric]
    by cases (use validate_postgres_hcl validate_dns_record_hcl validate_secret_spec_hcl
        safe_names_hcl(1) in blast)+
qed

section \<open>What derivation produces\<close>

definition supported_database :: "string option \<Rightarrow> bool" where
  "supported_database d \<longleftrightarrow> d = None \<or> d = Some ''postgres'' \<or> d = Some ''postgresql''"

definition supported_storage :: "string option \<Rightarrow> bool" where
  "supported_storage d \<longleftrightarrow> d = None \<or> d = Some ''s3'' \<or> d = Some ''gcs''"

definition derived_spec :: "derivation_input \<Rightarrow> infrastructure_spec" where
  "derived_spec input =
     \<lparr>inf_postgres = (if sig_database (di_signals input) = None then None
        else Some \<lparr>pg_tier = None, pg_version = Some ''16'', pg_backup_retention_days = Some 7\<rparr>),
      inf_buckets = (if sig_storage (di_signals input) = None then None
        else Some [\<lparr>bucket_name = di_project_name input @ ''-assets'', bucket_public = False\<rparr>]),
      inf_dns = None,
      inf_secrets = (let ns = derived_secret_names (di_typed_secret_refs input) in
        if ns = [] then None
        else Some (map (\<lambda>n. \<lparr>secret_name = n,
               secret_description = Some ''Application-managed secret reference''\<rparr>) ns))\<rparr>"

lemma derive_signals:
  assumes "di_explicit input = None"
    and "supported_database (sig_database (di_signals input))"
    and "supported_storage (sig_storage (di_signals input))"
  shows "derive_infrastructure_spec input =
     (if infrastructure_empty (derived_spec input) then Inr None
      else result_bind (validate_derived_spec (derived_spec input)) (\<lambda>_. Inr (Some (derived_spec input))))"
proof -
  let ?sig = "di_signals input"
  have d: "derive_database ?sig infrastructure_default = Inr (infrastructure_default
      \<lparr>inf_postgres := inf_postgres (derived_spec input)\<rparr>)"
    using assms(2) by (auto simp: derive_database_def derived_spec_def supported_database_def
        infrastructure_default_def)
  have s: "derive_storage (di_project_name input) ?sig x
      = Inr (if sig_storage ?sig = None then x else x\<lparr>inf_buckets := inf_buckets (derived_spec input)\<rparr>)" for x
    using assms(3) by (auto simp: derive_storage_def derived_spec_def supported_storage_def)
  have "derive_secrets (di_typed_secret_refs input)
      (if sig_storage ?sig = None
       then infrastructure_default\<lparr>inf_postgres := inf_postgres (derived_spec input)\<rparr>
       else infrastructure_default\<lparr>inf_postgres := inf_postgres (derived_spec input),
              inf_buckets := inf_buckets (derived_spec input)\<rparr>) = derived_spec input"
    by (simp add: derive_secrets_def derived_spec_def infrastructure_default_def Let_def)
  with assms(1) d s show ?thesis
    by (simp add: derive_infrastructure_spec_def Let_def cong: if_cong)
qed

lemma derive_unsupported:
  assumes "di_explicit input = None"
    and "\<not> supported_database (sig_database (di_signals input))
       \<or> \<not> supported_storage (sig_storage (di_signals input))"
  shows "\<exists>e. derive_infrastructure_spec input = Inl e"
proof -
  have "\<not> supported_database d \<Longrightarrow> d \<noteq> None \<and> d \<noteq> Some ''postgres'' \<and> d \<noteq> Some ''postgresql''"
    "\<not> supported_storage d \<Longrightarrow> d \<noteq> None \<and> d \<noteq> Some ''s3'' \<and> d \<noteq> Some ''gcs''" for d
    by (auto simp: supported_database_def supported_storage_def)
  note un = this
  show ?thesis
  proof (cases "supported_database (sig_database (di_signals input))")
    case False
    with un(1) [OF False] assms(1) show ?thesis
      by (auto simp: derive_infrastructure_spec_def derive_database_def)
  next
    case True
    with assms(2) have "\<not> supported_storage (sig_storage (di_signals input))" by blast
    from un(2) [OF this] True assms(1) show ?thesis
      by (auto simp: derive_infrastructure_spec_def derive_database_def derive_storage_def
          supported_database_def)
  qed
qed

lemma validate_derived_Inr: "validate_derived_spec s = Inr u \<longleftrightarrow> infrastructure_wf s"
  by (simp add: validate_derived_spec_def validation_message_def validate_infrastructure_iff [symmetric]
      split: sum.splits)

lemma validate_explicit_Inr: "validate_explicit_spec s = Inr u \<longleftrightarrow> infrastructure_wf s"
  by (simp add: validate_explicit_spec_def validation_message_def validate_infrastructure_iff [symmetric]
      split: sum.splits)

lemma derive_Inr:
  "derive_infrastructure_spec input = Inr r \<longleftrightarrow>
     (case di_explicit input of
        Some e \<Rightarrow> infrastructure_wf e \<and> r = Some e
      | None \<Rightarrow> supported_database (sig_database (di_signals input))
          \<and> supported_storage (sig_storage (di_signals input))
          \<and> (if infrastructure_empty (derived_spec input) then r = None
             else infrastructure_wf (derived_spec input) \<and> r = Some (derived_spec input)))"
proof (cases "di_explicit input")
  case (Some e)
  then show ?thesis
    by (auto simp: derive_infrastructure_spec_def result_bind_Inr validate_explicit_Inr)
next
  case None
  show ?thesis
  proof (cases "supported_database (sig_database (di_signals input))
      \<and> supported_storage (sig_storage (di_signals input))")
    case True
    with None show ?thesis
      by (auto simp: derive_signals result_bind_Inr validate_derived_Inr)
  next
    case False
    with derive_unsupported [OF None] None show ?thesis by auto
  qed
qed

lemma infrastructure_empty_wf: "infrastructure_empty s \<Longrightarrow> infrastructure_wf s"
  by (auto simp: infrastructure_empty_def infrastructure_wf_def is_none_or_def split: option.splits)

lemma set_derived_secret_names: "set (derived_secret_names refs) = trim ` set refs - {[]}"
  by (auto simp: derived_secret_names_def)

lemma derived_spec_wf:
  "infrastructure_wf (derived_spec input) \<longleftrightarrow>
     (sig_storage (di_signals input) \<noteq> None \<longrightarrow> is_safe_terraform_name (di_project_name input @ ''-assets''))
   \<and> (\<forall>x \<in> set (di_typed_secret_refs input). trim x \<noteq> [] \<longrightarrow> is_safe_terraform_name (trim x))"
proof -
  have pg: "validate_postgres \<lparr>pg_tier = None, pg_version = Some ''16'', pg_backup_retention_days = Some 7\<rparr> = Inr ()"
  proof -
    have "is_safe_provider_value ''16''"
      by (simp add: is_safe_provider_value_def str_simps trim_def trim_end_def trim_rev.simps
          trim_start.simps ws_len_def ws_len_rev_def)
    then show ?thesis by (simp add: validate_postgres_def)
  qed
  have sec: "validate_secret_spec \<lparr>secret_name = n,
      secret_description = Some ''Application-managed secret reference''\<rparr> = Inr () \<longleftrightarrow> is_safe_terraform_name n" for n
    by (simp add: validate_secret_spec_def is_safe_hcl_string_def hcl_meta_def is_ascii_control_def)
  have names: "(\<forall>n \<in> set (derived_secret_names (di_typed_secret_refs input)). P n) \<longleftrightarrow>
      (\<forall>x \<in> set (di_typed_secret_refs input). trim x \<noteq> [] \<longrightarrow> P (trim x))" for P
    by (auto simp: set_derived_secret_names)
  show ?thesis
    unfolding infrastructure_wf_def validate_postgres_iff [symmetric] validate_dns_record_iff [symmetric]
      validate_secret_spec_iff [symmetric] safe_names_plain [symmetric]
    by (auto simp: derived_spec_def Let_def pg sec names [symmetric])
qed

section \<open>Properties\<close>

text \<open>
  C32. Without an explicit block, derivation succeeds exactly when every signalled backend is
  supported and every derived name is safe for Terraform; it then yields the managed database,
  the project's asset bucket and one secret per distinct non-blank reference in byte order, and
  nothing when no signal asks for anything. An explicit block is returned unchanged when valid.
\<close>
theorem derive_infrastructure_spec_correct:
  "derive_infrastructure_spec input = Inr r \<longleftrightarrow>
     (case di_explicit input of
        Some e \<Rightarrow> validate_infrastructure e = Inr () \<and> r = Some e
      | None \<Rightarrow> supported_database (sig_database (di_signals input))
          \<and> supported_storage (sig_storage (di_signals input))
          \<and> (sig_storage (di_signals input) \<noteq> None
               \<longrightarrow> is_safe_terraform_name (di_project_name input @ ''-assets''))
          \<and> (\<forall>x \<in> set (di_typed_secret_refs input). trim x \<noteq> [] \<longrightarrow> is_safe_terraform_name (trim x))
          \<and> r = (if infrastructure_empty (derived_spec input) then None else Some (derived_spec input)))"
  using infrastructure_empty_wf [of "derived_spec input"]
  by (auto simp: derive_Inr validate_infrastructure_iff derived_spec_wf split: option.splits)

lemma is_safe_terraform_name_assets: "is_safe_terraform_name (''shop'' @ ''-assets'')"
  by (simp add: is_safe_terraform_name_def str_simps trim_def trim_end_def trim_rev.simps
      trim_start.simps ws_len_def ws_len_rev_def)

theorem derive_infrastructure_spec_correct_witness:
  "derive_infrastructure_spec \<lparr>di_project_name = ''shop'',
       di_signals = infra_signals_default\<lparr>sig_storage := Some ''s3''\<rparr>,
       di_explicit = None, di_typed_secret_refs = []\<rparr>
     = Inr (Some (infrastructure_default
         \<lparr>inf_buckets := Some [\<lparr>bucket_name = ''shop-assets'', bucket_public = False\<rparr>]\<rparr>))"
  unfolding derive_infrastructure_spec_correct
  using is_safe_terraform_name_assets
  by (simp add: infra_signals_default_def supported_database_def supported_storage_def
      derived_spec_def derived_secret_names_def infrastructure_empty_def is_none_or_def
      infrastructure_default_def)

text \<open>
  No string of a validated infrastructure block, and so none of a successful derivation, can
  break out of a quoted HCL string: it has no quote, backslash, brace, dollar or control byte.
\<close>
theorem validated_infrastructure_is_hcl_safe:
  assumes "validate_infrastructure s = Inr () \<or> derive_infrastructure_spec input = Inr (Some s)"
    and "v \<in> spec_strings s" and "c \<in> set v"
  shows "32 \<le> byte c \<and> byte c \<noteq> 127 \<and> c \<notin> hcl_meta"
proof -
  from assms(1) have "infrastructure_wf s"
    by (auto simp: validate_infrastructure_iff derive_Inr split: option.splits if_splits)
  then have "hcl_safe v" using assms(2) by (rule infrastructure_wf_hcl)
  with assms(3) show ?thesis by (simp add: hcl_safe_def)
qed

definition sample_infrastructure :: infrastructure_spec where
  "sample_infrastructure =
     infrastructure_default\<lparr>inf_dns := Some [\<lparr>dns_host = ''a.io'', dns_record_type = ''A''\<rparr>]\<rparr>"

theorem validated_infrastructure_is_hcl_safe_witness:
  "validate_infrastructure sample_infrastructure = Inr () \<and> CHR ''.'' \<notin> hcl_meta"
proof -
  have v: "validate_infrastructure sample_infrastructure = Inr ()"
    by (simp add: validate_infrastructure_def validate_dns_record_def sample_infrastructure_def
        infrastructure_default_def is_safe_dns_host_def str_simps trim_def trim_end_def trim_rev.simps
        trim_start.simps ws_len_def ws_len_rev_def on_some_def)
  moreover have "''a.io'' \<in> spec_strings sample_infrastructure"
    by (simp add: spec_strings_def sample_infrastructure_def)
  ultimately show ?thesis
    using validated_infrastructure_is_hcl_safe [OF disjI1, of sample_infrastructure "''a.io''" "CHR ''.''"]
    by simp
qed

end
