(* ===== verification/Cidr.thy ===== *)
theory Cidr
  imports Prelude
begin

text \<open>
  CIDR validation of \<open>crates/reinhardt-cloud-types/src/crd/isolation.rs\<close>. \<open>IpAddr::from_str\<close>,
  \<open>u8::from_str\<close> and \<open>str::split_once\<close> are the standard library's; a parser of \<open>core::net\<close> is
  modelled by the input it leaves, since validation only asks whether it succeeds.
\<close>

fun split_once :: "char \<Rightarrow> string \<Rightarrow> (string \<times> string) option" where
  "split_once d [] = None"
| "split_once d (c # s) =
     (if c = d then Some ([], s)
      else (case split_once d s of None \<Rightarrow> None | Some (a, b) \<Rightarrow> Some (c # a, b)))"

lemma split_once_Some: "split_once d s = Some (a, b) \<longleftrightarrow> s = a @ d # b \<and> d \<notin> set a"
proof (induction s arbitrary: a)
  case (Cons c s)
  show ?case
  proof (cases a)
    case Nil
    then show ?thesis by (auto split: option.splits)
  next
    case (Cons e a')
    with Cons.IH [of a'] show ?thesis by (auto split: option.splits)
  qed
qed simp

lemma split_once_None: "split_once d s = None \<longleftrightarrow> d \<notin> set s"
  by (induction s) (auto split: option.splits)

definition digit_value :: "nat \<Rightarrow> char \<Rightarrow> nat option" where
  "digit_value radix c =
     (let b = byte c;
          v = (if 48 \<le> b \<and> b \<le> 57 then b - 48
               else if 97 \<le> b \<and> b \<le> 122 then b - 87
               else if 65 \<le> b \<and> b \<le> 90 then b - 55
               else 36)
      in if v < radix then Some v else None)"

fun read_digits :: "nat \<Rightarrow> string \<Rightarrow> nat list \<times> string" where
  "read_digits radix [] = ([], [])"
| "read_digits radix (c # s) =
     (case digit_value radix c of
        None \<Rightarrow> ([], c # s)
      | Some v \<Rightarrow> (case read_digits radix s of (vs, r) \<Rightarrow> (v # vs, r)))"

definition digits_value :: "nat \<Rightarrow> nat list \<Rightarrow> nat" where
  "digits_value radix vs = foldl (\<lambda>a v. a * radix + v) 0 vs"

text \<open>\<open>read_number(radix, Some(max_digits), allow_zero_prefix)\<close> at a width with maximum \<open>hi\<close>.\<close>

definition read_number :: "nat \<Rightarrow> nat \<Rightarrow> bool \<Rightarrow> nat \<Rightarrow> string \<Rightarrow> string option" where
  "read_number radix max_digits allow_zero_prefix hi s =
     (case read_digits radix s of (vs, r) \<Rightarrow>
        if length vs > max_digits then None
        else if vs = [] then None
        else if \<not> allow_zero_prefix \<and> hd vs = 0 \<and> length vs > 1 then None
        else if digits_value radix vs \<le> hi then Some r else None)"

fun read_given_char :: "char \<Rightarrow> string \<Rightarrow> string option" where
  "read_given_char d [] = None"
| "read_given_char d (c # s) = (if c = d then Some s else None)"

definition read_separator :: "char \<Rightarrow> nat \<Rightarrow> (string \<Rightarrow> string option) \<Rightarrow> string \<Rightarrow> string option" where
  "read_separator sep index inner s =
     (if 0 < index then Option.bind (read_given_char sep s) inner else inner s)"

definition read_octet :: "string \<Rightarrow> string option" where
  "read_octet = read_number 10 3 False 255"

definition read_ipv4_addr :: "string \<Rightarrow> string option" where
  "read_ipv4_addr s =
     Option.bind (read_separator (CHR ''.'') 0 read_octet s) (\<lambda>s1.
     Option.bind (read_separator (CHR ''.'') 1 read_octet s1) (\<lambda>s2.
     Option.bind (read_separator (CHR ''.'') 2 read_octet s2) (\<lambda>s3.
     read_separator (CHR ''.'') 3 read_octet s3)))"

text \<open>
  \<open>read_groups\<close> with \<open>limit = i + n\<close>: the groups read, whether the last two are an embedded
  IPv4 address, and the input left.
\<close>

fun read_groups :: "nat \<Rightarrow> nat \<Rightarrow> string \<Rightarrow> nat \<times> bool \<times> string" where
  "read_groups 0 i s = (i, False, s)"
| "read_groups (Suc n) i s =
     (case (if 0 < n then read_separator (CHR '':'') i read_ipv4_addr s else None) of
        Some r \<Rightarrow> (i + 2, True, r)
      | None \<Rightarrow>
          (case read_separator (CHR '':'') i (read_number 16 4 True 65535) s of
             Some r \<Rightarrow> read_groups n (i + 1) r
           | None \<Rightarrow> (i, False, s)))"

definition read_ipv6_addr :: "string \<Rightarrow> string option" where
  "read_ipv6_addr s =
     (case read_groups 8 0 s of (head_size, head_ipv4, r) \<Rightarrow>
        if head_size = 8 then Some r
        else if head_ipv4 then None
        else Option.bind (read_given_char (CHR '':'') r) (\<lambda>r1.
             Option.bind (read_given_char (CHR '':'') r1) (\<lambda>r2.
             case read_groups (8 - (head_size + 1)) 0 r2 of (_, _, r3) \<Rightarrow> Some r3)))"

datatype ip_kind = V4 | V6

definition parse_ip_addr :: "string \<Rightarrow> ip_kind option" where
  "parse_ip_addr s =
     (case read_ipv4_addr s of
        Some r \<Rightarrow> if r = [] then Some V4 else None
      | None \<Rightarrow> (case read_ipv6_addr s of
          Some r \<Rightarrow> if r = [] then Some V6 else None
        | None \<Rightarrow> None))"

text \<open>\<open>u8::from_str\<close>: an optional plus sign, then at least one decimal digit, at most 255.\<close>

definition parse_u8 :: "string \<Rightarrow> nat option" where
  "parse_u8 s =
     (let ds = (case s of c # r \<Rightarrow> if c = CHR ''+'' then r else s | [] \<Rightarrow> [])
      in case read_digits 10 ds of (vs, r) \<Rightarrow>
        if vs = [] \<or> r \<noteq> [] then None
        else if digits_value 10 vs \<le> 255 then Some (digits_value 10 vs) else None)"

definition is_valid_cidr :: "string \<Rightarrow> bool" where
  "is_valid_cidr cidr =
     (case split_once (CHR ''/'') cidr of
        None \<Rightarrow> False
      | Some (ip_str, prefix_str) \<Rightarrow>
          (case parse_ip_addr ip_str of
             None \<Rightarrow> False
           | Some ip \<Rightarrow>
               (case parse_u8 prefix_str of
                  None \<Rightarrow> False
                | Some prefix \<Rightarrow> prefix \<le> (if ip = V4 then 32 else 128))))"

section \<open>Dotted quads\<close>

lemma digit_value_10: "digit_value 10 c = (if is_ascii_digit c then Some (byte c - 48) else None)"
  by (auto simp: digit_value_def is_ascii_digit_def Let_def)

lemma digit_char_digit: "d < 10 \<Longrightarrow> is_ascii_digit (digit_char d)" "d < 10 \<Longrightarrow> byte (digit_char d) = 48 + d"
  by (simp_all add: digit_char_def is_ascii_digit_def)

lemma read_digits_append:
  "list_all is_ascii_digit ds \<Longrightarrow> (r = [] \<or> \<not> is_ascii_digit (hd r)) \<Longrightarrow>
     read_digits 10 (ds @ r) = (map (\<lambda>c. byte c - 48) ds, r)"
proof (induction ds)
  case Nil
  then show ?case by (cases r) (simp_all add: digit_value_10)
qed (simp add: digit_value_10)

lemma digits_value_snoc: "digits_value b (vs @ [v]) = digits_value b vs * b + v"
  by (simp add: digits_value_def)

lemma digits_show_nat: "digits_value 10 (map (\<lambda>c. byte c - 48) (show_nat n)) = n"
proof (induction n rule: show_nat.induct)
  case (1 n)
  show ?case
  proof (cases "n < 10")
    case True
    then show ?thesis by (subst show_nat.simps) (simp add: digits_value_def digit_char_digit)
  next
    case False
    with 1 have "digits_value 10 (map (\<lambda>c. byte c - 48) (show_nat (n div 10))) = n div 10" by simp
    with False show ?thesis
      by (subst show_nat.simps) (simp add: digits_value_snoc digit_char_digit)
  qed
qed

lemma hd_show_nat: "0 < n \<Longrightarrow> byte (hd (show_nat n)) \<noteq> 48"
proof (induction n rule: show_nat.induct)
  case (1 n)
  then show ?case
    by (cases "n < 10") (subst show_nat.simps, simp add: digit_char_digit)+
qed

lemma length_show_nat: "n < 1000 \<Longrightarrow> length (show_nat n) \<le> 3"
proof -
  assume n: "n < 1000"
  have 1: "length (show_nat m) = 1" if "m < 10" for m using that by (subst show_nat.simps) simp
  have 2: "length (show_nat m) \<le> 2" if "m < 100" for m
    using that 1 [of "m div 10"] by (subst show_nat.simps) simp
  show ?thesis using n 2 [of "n div 10"] by (subst show_nat.simps) simp
qed

lemma show_nat_all_digits: "list_all is_ascii_digit (show_nat n)"
  using show_nat_digits by (simp add: list_all_iff)

lemma read_octet_show:
  assumes "n \<le> 255" and "r = [] \<or> \<not> is_ascii_digit (hd r)"
  shows "read_octet (show_nat n @ r) = Some r"
proof -
  let ?vs = "map (\<lambda>c. byte c - 48) (show_nat n)"
  have rd: "read_digits 10 (show_nat n @ r) = (?vs, r)"
    using assms(2) by (intro read_digits_append show_nat_all_digits)
  have "hd ?vs \<noteq> 0 \<or> length ?vs \<le> 1"
  proof (cases "n = 0")
    case True
    then show ?thesis by (simp add: show_nat.simps)
  next
    case False
    have "is_ascii_digit (hd (show_nat n))" using show_nat_digits [of n] by (simp add: list_all_iff)
    with hd_show_nat [of n] False show ?thesis
      by (simp add: hd_map is_ascii_digit_def)
  qed
  moreover have "length ?vs \<le> 3" using assms(1) length_show_nat [of n] by simp
  ultimately show ?thesis
    using assms(1) by (auto simp: read_octet_def read_number_def rd digits_show_nat)
qed

definition dotted :: "nat \<Rightarrow> nat \<Rightarrow> nat \<Rightarrow> nat \<Rightarrow> string" where
  "dotted a b c d = show_nat a @ ''.'' @ show_nat b @ ''.'' @ show_nat c @ ''.'' @ show_nat d"

lemma read_ipv4_dotted:
  assumes "a \<le> 255" "b \<le> 255" "c \<le> 255" "d \<le> 255"
  shows "read_ipv4_addr (dotted a b c d) = Some []"
proof -
  have nd: "\<not> is_ascii_digit (CHR ''.'')" by (simp add: is_ascii_digit_def)
  have last: "read_octet (show_nat d) = Some []" using read_octet_show [of d "[]"] assms by simp
  show ?thesis
    using assms nd last
    by (simp add: read_ipv4_addr_def dotted_def read_separator_def read_octet_show)
qed

lemma slash_not_digit: "CHR ''/'' \<notin> set (show_nat n)"
  using show_nat_digits [of n] by (auto simp: is_ascii_digit_def)

lemma slash_not_dotted: "CHR ''/'' \<notin> set (dotted a b c d)"
  using slash_not_digit by (simp add: dotted_def)

lemma parse_u8_show: "parse_u8 (show_nat p) = (if p \<le> 255 then Some p else None)"
proof -
  obtain x xs where s: "show_nat p = x # xs" by (cases "show_nat p") auto
  have "is_ascii_digit x" using show_nat_digits [of p] s by simp
  then have "x \<noteq> CHR ''+''" by (auto simp: is_ascii_digit_def)
  moreover have "read_digits 10 (show_nat p) = (map (\<lambda>c. byte c - 48) (show_nat p), [])"
    using read_digits_append [OF show_nat_all_digits, of "[]" p] by simp
  ultimately show ?thesis
    using digits_show_nat [of p] s by (simp add: parse_u8_def)
qed

lemma parse_u8_plus: "parse_u8 (CHR ''+'' # show_nat p) = (if p \<le> 255 then Some p else None)"
proof -
  have "read_digits 10 (show_nat p) = (map (\<lambda>c. byte c - 48) (show_nat p), [])"
    using read_digits_append [OF show_nat_all_digits, of "[]" p] by simp
  then show ?thesis using digits_show_nat [of p] by (simp add: parse_u8_def)
qed

section \<open>Notation\<close>

text \<open>The number of a string of decimal digits.\<close>

definition decimal :: "string \<Rightarrow> nat" where
  "decimal ds = digits_value 10 (map (\<lambda>c. byte c - 48) ds)"

lemma show_decimal:
  "list_all is_ascii_digit ds \<Longrightarrow> ds \<noteq> [] \<Longrightarrow> byte (hd ds) \<noteq> 48 \<or> length ds = 1 \<Longrightarrow> show_nat (decimal ds) = ds"
proof (induction ds rule: rev_induct)
  case (snoc d ds)
  let ?v = "byte d - 48"
  have d: "?v < 10" "digit_char ?v = d"
    using snoc.prems(1) by (auto simp: is_ascii_digit_def digit_char_def)
  show ?case
  proof (cases "ds = []")
    case True
    then show ?thesis using d by (subst show_nat.simps) (simp add: decimal_def digits_value_def)
  next
    case False
    with snoc.prems have h: "list_all is_ascii_digit ds" "byte (hd ds) \<noteq> 48" by auto
    have v: "decimal (ds @ [d]) = decimal ds * 10 + ?v" by (simp add: decimal_def digits_value_snoc)
    have "0 < decimal ds"
    proof (rule ccontr)
      assume "\<not> 0 < decimal ds"
      then have "show_nat 0 = ds" using snoc.IH [OF h(1) False disjI1 [OF h(2)]] by simp
      then have "ds = [char_of (48::nat)]" by (auto simp: show_nat.simps digit_char_def)
      with h(2) show False by simp
    qed
    with v d have "\<not> decimal (ds @ [d]) < 10" "decimal (ds @ [d]) div 10 = decimal ds" "decimal (ds @ [d]) mod 10 = ?v"
      by simp_all
    then show ?thesis using snoc.IH [OF h(1) False disjI1 [OF h(2)]] d by (subst show_nat.simps) simp
  qed
qed simp

lemma read_digits_split:
  "read_digits 10 s = (vs, r) \<longleftrightarrow>
     (\<exists>ds. s = ds @ r \<and> list_all is_ascii_digit ds \<and> (r = [] \<or> \<not> is_ascii_digit (hd r)) \<and> vs = map (\<lambda>c. byte c - 48) ds)"
    (is "?l \<longleftrightarrow> ?r")
proof
  show "?l \<Longrightarrow> ?r"
  proof (induction s arbitrary: vs)
    case (Cons c s)
    show ?case
    proof (cases "is_ascii_digit c")
      case False
      with Cons.prems show ?thesis by (intro exI [of _ "[]"]) (auto simp: digit_value_10)
    next
      case True
      with Cons.prems obtain ws where ws: "read_digits 10 s = (ws, r)" "vs = (byte c - 48) # ws"
        by (auto simp: digit_value_10 split: prod.splits)
      from Cons.IH [OF ws(1)] obtain ds where "s = ds @ r" "list_all is_ascii_digit ds" "r = [] \<or> \<not> is_ascii_digit (hd r)"
        "ws = map (\<lambda>c. byte c - 48) ds" by blast
      with True ws(2) show ?thesis by (intro exI [of _ "c # ds"]) simp
    qed
  qed simp
  show "?r \<Longrightarrow> ?l" using read_digits_append by blast
qed

lemma read_octet_Some:
  assumes "read_octet s = Some r"
  obtains n where "n \<le> 255" "s = show_nat n @ r" "r = [] \<or> \<not> is_ascii_digit (hd r)"
proof -
  obtain vs r' where rd: "read_digits 10 s = (vs, r')" by (metis surj_pair)
  with assms have v: "vs \<noteq> []" "hd vs \<noteq> 0 \<or> length vs = 1" "digits_value 10 vs \<le> 255" "r' = r"
    by (auto simp: read_octet_def read_number_def split: if_splits) (metis One_nat_def Suc_lessI length_greater_0_conv)
  from rd obtain ds where ds: "s = ds @ r'" "list_all is_ascii_digit ds" "r' = [] \<or> \<not> is_ascii_digit (hd r')"
    "vs = map (\<lambda>c. byte c - 48) ds" unfolding read_digits_split by blast
  with v(1,2) have "ds \<noteq> []" "byte (hd ds) \<noteq> 48 \<or> length ds = 1" by (auto simp: hd_map)
  with ds(2) have "show_nat (decimal ds) = ds" by (rule show_decimal)
  moreover have "decimal ds \<le> 255" using v(3) ds(4) by (simp add: decimal_def)
  ultimately show ?thesis using that [of "decimal ds"] ds(1,3) v(4) by simp
qed

lemma read_given_char_Some: "read_given_char d s = Some r \<longleftrightarrow> s = d # r"
  by (cases s) auto

definition ipv4_text :: "string \<Rightarrow> bool" where
  "ipv4_text s \<longleftrightarrow> (\<exists>a b c d. a \<le> 255 \<and> b \<le> 255 \<and> c \<le> 255 \<and> d \<le> 255 \<and> s = dotted a b c d)"

lemma read_ipv4_iff: "read_ipv4_addr s = Some [] \<longleftrightarrow> ipv4_text s"
proof
  assume "read_ipv4_addr s = Some []"
  then obtain s1 s2 s3 where o: "read_octet s = Some (CHR ''.'' # s1)" "read_octet s1 = Some (CHR ''.'' # s2)"
    "read_octet s2 = Some (CHR ''.'' # s3)" "read_octet s3 = Some []"
    by (auto simp: read_ipv4_addr_def read_separator_def bind_eq_Some_conv read_given_char_Some)
  from read_octet_Some [OF o(1)] obtain a where a: "a \<le> 255" "s = show_nat a @ CHR ''.'' # s1" by metis
  from read_octet_Some [OF o(2)] obtain b where b: "b \<le> 255" "s1 = show_nat b @ CHR ''.'' # s2" by metis
  from read_octet_Some [OF o(3)] obtain c where c: "c \<le> 255" "s2 = show_nat c @ CHR ''.'' # s3" by metis
  from read_octet_Some [OF o(4)] obtain d where "d \<le> 255" "s3 = show_nat d" by (metis append_Nil2)
  with a b c show "ipv4_text s" unfolding ipv4_text_def dotted_def by (intro exI [of _ a] exI [of _ b] exI [of _ c] exI [of _ d]) simp
next
  assume "ipv4_text s"
  then show "read_ipv4_addr s = Some []" by (auto simp: ipv4_text_def read_ipv4_dotted)
qed

text \<open>Text that begins with a dotted quad is never an IPv6 address.\<close>

lemma ipv4_not_ipv6: "read_ipv4_addr s = Some r \<Longrightarrow> read_ipv6_addr s = None"
  by (simp add: read_ipv6_addr_def numeral_eq_Suc read_separator_def)

lemma parse_ip_addr_Some:
  "parse_ip_addr s = Some V4 \<longleftrightarrow> ipv4_text s"
  "parse_ip_addr s = Some V6 \<longleftrightarrow> read_ipv6_addr s = Some []"
  unfolding read_ipv4_iff [symmetric]
  by (auto simp: parse_ip_addr_def ipv4_not_ipv6 split: option.splits)

lemma parse_u8_Some:
  "parse_u8 s = Some n \<longleftrightarrow> (\<exists>sign ds. s = sign @ ds \<and> sign \<in> {[], ''+''} \<and> ds \<noteq> [] \<and> list_all is_ascii_digit ds
     \<and> decimal ds = n \<and> n \<le> 255)"
proof -
  define t where "t = (case s of c # r \<Rightarrow> if c = CHR ''+'' then r else s | [] \<Rightarrow> [])"
  have plus: "\<not> is_ascii_digit (CHR ''+'')" by (simp add: is_ascii_digit_def)
  have "parse_u8 s = Some n \<longleftrightarrow> t \<noteq> [] \<and> list_all is_ascii_digit t \<and> decimal t = n \<and> n \<le> 255"
  proof -
    obtain vs r where rd: "read_digits 10 t = (vs, r)" by (metis surj_pair)
    then obtain ds where ds: "t = ds @ r" "list_all is_ascii_digit ds" "r = [] \<or> \<not> is_ascii_digit (hd r)"
      "vs = map (\<lambda>c. byte c - 48) ds" unfolding read_digits_split by blast
    have "parse_u8 s = (if vs = [] \<or> r \<noteq> [] then None
        else if digits_value 10 vs \<le> 255 then Some (digits_value 10 vs) else None)"
      by (simp add: parse_u8_def t_def [symmetric] rd)
    moreover have "list_all is_ascii_digit t \<longleftrightarrow> r = []" using ds by (cases r) auto
    ultimately show ?thesis using ds by (auto simp: decimal_def)
  qed
  also have "\<dots> \<longleftrightarrow> (\<exists>sign ds. s = sign @ ds \<and> sign \<in> {[], ''+''} \<and> ds \<noteq> [] \<and> list_all is_ascii_digit ds
     \<and> decimal ds = n \<and> n \<le> 255)" (is "?a \<longleftrightarrow> ?b")
  proof
    assume ?a
    then show ?b
      by (intro exI [of _ "if t = s then [] else ''+''"] exI [of _ t]) (auto simp: t_def split: list.splits if_splits)
  next
    assume ?b
    then obtain sign ds where s: "s = sign @ ds" "sign \<in> {[], ''+''}" "ds \<noteq> []" "list_all is_ascii_digit ds"
      "decimal ds = n" "n \<le> 255" by blast
    then have "t = ds" using plus by (cases ds) (auto simp: t_def)
    with s show ?a by simp
  qed
  finally show ?thesis .
qed

text \<open>
  The strings \<open>is_valid_cidr\<close> accepts: an address, a slash and a prefix length in decimal digits, which may
  follow a plus sign; for an IPv4 address in dotted decimals at most 32, for an IPv6 address at most 128.
\<close>

definition cidr_wf :: "string \<Rightarrow> bool" where
  "cidr_wf s \<longleftrightarrow> (\<exists>ip sign ds. s = ip @ ''/'' @ sign @ ds \<and> CHR ''/'' \<notin> set ip
     \<and> sign \<in> {[], ''+''} \<and> ds \<noteq> [] \<and> list_all is_ascii_digit ds
     \<and> (ipv4_text ip \<and> decimal ds \<le> 32 \<or> read_ipv6_addr ip = Some [] \<and> decimal ds \<le> 128))"

lemma is_valid_cidr_iff: "is_valid_cidr s \<longleftrightarrow> cidr_wf s"
proof -
  have "is_valid_cidr s \<longleftrightarrow> (\<exists>ip p n. s = ip @ CHR ''/'' # p \<and> CHR ''/'' \<notin> set ip \<and> parse_u8 p = Some n
      \<and> (parse_ip_addr ip = Some V4 \<and> n \<le> 32 \<or> parse_ip_addr ip = Some V6 \<and> n \<le> 128))"
  proof (cases "split_once (CHR ''/'') s")
    case None
    then have "\<not> is_valid_cidr s" "CHR ''/'' \<notin> set s" by (simp_all add: is_valid_cidr_def) (simp add: split_once_None)
    then show ?thesis by auto
  next
    case (Some x)
    then obtain ip p where x: "s = ip @ CHR ''/'' # p" "CHR ''/'' \<notin> set ip" "split_once (CHR ''/'') s = Some (ip, p)"
      by (cases x) (auto simp: split_once_Some)
    have one: "s = ip' @ CHR ''/'' # p' \<and> CHR ''/'' \<notin> set ip' \<longleftrightarrow> ip' = ip \<and> p' = p" for ip' p'
      using x(3) by (metis split_once_Some option.inject prod.inject)
    have "is_valid_cidr s \<longleftrightarrow> (\<exists>n. parse_u8 p = Some n
        \<and> (parse_ip_addr ip = Some V4 \<and> n \<le> 32 \<or> parse_ip_addr ip = Some V6 \<and> n \<le> 128))"
      unfolding is_valid_cidr_def x(3) option.case prod.case
      by (cases "parse_ip_addr ip"; cases "parse_u8 p"; cases "the (parse_ip_addr ip)") simp_all
    then show ?thesis
      unfolding conj_assoc [symmetric] one by simp
  qed
  also have "\<dots> \<longleftrightarrow> cidr_wf s" (is "?l \<longleftrightarrow> _")
  proof
    assume ?l
    then obtain ip p n where h: "s = ip @ CHR ''/'' # p" "CHR ''/'' \<notin> set ip" "parse_u8 p = Some n"
      "ipv4_text ip \<and> n \<le> 32 \<or> read_ipv6_addr ip = Some [] \<and> n \<le> 128" unfolding parse_ip_addr_Some by blast
    from h(3) obtain sign ds where "p = sign @ ds" "sign \<in> {[], ''+''}" "ds \<noteq> []" "list_all is_ascii_digit ds" "decimal ds = n"
      unfolding parse_u8_Some by blast
    with h show "cidr_wf s"
      unfolding cidr_wf_def by (intro exI [of _ ip] exI [of _ sign] exI [of _ ds]) simp
  next
    assume "cidr_wf s"
    then obtain ip sign ds where h: "s = ip @ ''/'' @ sign @ ds" "CHR ''/'' \<notin> set ip" "sign \<in> {[], ''+''}" "ds \<noteq> []"
      "list_all is_ascii_digit ds"
      "ipv4_text ip \<and> decimal ds \<le> 32 \<or> read_ipv6_addr ip = Some [] \<and> decimal ds \<le> 128"
      unfolding cidr_wf_def by blast
    then have "parse_u8 (sign @ ds) = Some (decimal ds)"
      unfolding parse_u8_Some by (intro exI [of _ sign] exI [of _ ds]) auto
    with h show ?l
      unfolding parse_ip_addr_Some by (intro exI [of _ ip] exI [of _ "sign @ ds"] exI [of _ "decimal ds"]) simp
  qed
  finally show ?thesis .
qed

section \<open>Properties\<close>

text \<open>
  Every IPv4 network in canonical notation is accepted exactly when its prefix is at most 32;
  a string without a slash is refused. The prefix is read as Rust reads an integer, so a plus sign
  before it, which is not CIDR notation, is accepted too.
\<close>
theorem is_valid_cidr_ipv4:
  assumes "a \<le> 255" "b \<le> 255" "c \<le> 255" "d \<le> 255"
  shows "is_valid_cidr (dotted a b c d @ ''/'' @ show_nat p) = (p \<le> 32)
       \<and> is_valid_cidr (dotted a b c d @ ''/+'' @ show_nat p) = (p \<le> 32)
       \<and> \<not> is_valid_cidr (dotted a b c d)"
proof -
  have ip: "parse_ip_addr (dotted a b c d) = Some V4"
    using read_ipv4_dotted [OF assms] by (simp add: parse_ip_addr_def)
  have so: "split_once (CHR ''/'') (dotted a b c d @ CHR ''/'' # r) = Some (dotted a b c d, r)" for r
    by (simp add: split_once_Some slash_not_dotted)
  have "split_once (CHR ''/'') (dotted a b c d) = None"
    by (simp add: split_once_None slash_not_dotted)
  with ip so [of "show_nat p"] so [of "CHR ''+'' # show_nat p"] show ?thesis
    by (simp add: is_valid_cidr_def parse_u8_show parse_u8_plus)
qed

theorem is_valid_cidr_ipv4_witness:
  "is_valid_cidr (dotted 10 0 0 0 @ ''/'' @ show_nat 8) \<and> \<not> is_valid_cidr (dotted 10 0 0 0 @ ''/'' @ show_nat 33)"
  using is_valid_cidr_ipv4 [of 10 0 0 0 8] is_valid_cidr_ipv4 [of 10 0 0 0 33] by simp

end
