(* ===== verification/ProjectSpec.thy ===== *)
theory ProjectSpec
  imports Infrastructure Cidr
begin

text \<open>
  The \<open>Project\<close> custom resource of \<open>crates/reinhardt-cloud-types/src/crd\<close>: the specification
  types of each module, in the order of \<open>spec.rs\<close>, and \<open>ProjectSpec::validate\<close> with every
  validator it calls; \<open>introspect.rs\<close>'s metadata types; and the publication-environment check of
  \<open>pages.rs\<close>. Signed 32-bit fields are words read with \<open>sint\<close>.
\<close>

section \<open>Introspection metadata\<close>

record app_metadata =
  am_name :: string
  am_version :: string

record table_metadata =
  tm_name :: string
  tm_app :: string

record database_metadata =
  dm_alias :: string
  dm_engine :: string
  dm_tables :: "table_metadata list"

record route_metadata =
  rm_path :: string
  rm_methods :: "string list"
  rm_name :: "string option"
  rm_namespace :: "string option"

record middleware_metadata =
  mm_name :: string
  mm_type_name :: string

record server_settings =
  srv_default_port :: u16
  srv_debug :: bool

definition default_port :: u16 where "default_port = 8000"

definition server_settings_default :: server_settings where
  "server_settings_default = \<lparr>srv_default_port = default_port, srv_debug = False\<rparr>"

record security_settings =
  sec_ssl_redirect :: bool
  sec_session_cookie_secure :: bool
  sec_csrf_cookie_secure :: bool
  sec_hsts_enabled :: bool

record settings_metadata =
  set_server :: server_settings
  set_security :: security_settings

record features_metadata =
  fm_declared :: "string list"
  fm_resolved :: "string list"
  fm_infrastructure_signals :: infra_signals

record introspect_output =
  io_app :: app_metadata
  io_databases :: "database_metadata list"
  io_routes :: "route_metadata list"
  io_middleware :: "middleware_metadata list"
  io_settings :: settings_metadata
  io_features :: features_metadata

definition app_port :: "settings_metadata \<Rightarrow> u16" where
  "app_port s = srv_default_port (set_server s)"

section \<open>Scalars shared by the validators\<close>

text \<open>\<open>(1..=65535).contains(&port)\<close> and \<open>Result<(), String>\<close> pushed as one error.\<close>

definition valid_port :: "i32 \<Rightarrow> bool" where
  "valid_port p \<longleftrightarrow> 1 \<le> sint p \<and> sint p \<le> 65535"

definition err_of :: "string + unit \<Rightarrow> string list" where
  "err_of r = (case r of Inl e \<Rightarrow> [e] | Inr _ \<Rightarrow> [])"

lemma err_of_Nil [simp]: "err_of r = [] \<longleftrightarrow> r = Inr ()"
  by (cases r) (simp_all add: err_of_def)

definition quoted :: "string \<Rightarrow> string" where
  "quoted s = [CHR 0x27] @ s @ [CHR 0x27]"

section \<open>Database, cache, worker, authentication, storage, mail\<close>

definition MAX_DATABASE_STORAGE_GB :: int where "MAX_DATABASE_STORAGE_GB = 100"

definition ALLOWED_DATABASE_INSTANCE_CLASSES :: "string list" where
  "ALLOWED_DATABASE_INSTANCE_CLASSES =
     [''db.t3.micro'', ''db.t3.small'', ''db.t3.medium'', ''db.t3.large'', ''db.r5.large'',
      ''db-f1-micro'', ''db-g1-small'', ''db-custom-1-3840'', ''db-custom-2-8192'']"

datatype database_engine = Postgresql | Mysql | Sqlite

record database_spec =
  db_engine :: database_engine
  db_instance_class :: "string option"
  db_storage_gb :: "i32 option"
  db_version :: "string option"

datatype resource_phase = RPending | RProvisioning | RReady | RFailed

record database_status =
  dbs_phase :: resource_phase
  dbs_endpoint :: "string option"
  dbs_credentials_secret :: "string option"

definition validate_database :: "database_spec \<Rightarrow> string + unit" where
  "validate_database d =
     (if is_some_and (db_storage_gb d) (\<lambda>gb. sint gb \<le> 0) then Inl ''database.storage_gb must be > 0''
      else if is_some_and (db_storage_gb d) (\<lambda>gb. sint gb > MAX_DATABASE_STORAGE_GB) then
        Inl (''database.storage_gb must be <= '' @ show_int MAX_DATABASE_STORAGE_GB)
      else if is_some_and (db_instance_class d) (\<lambda>c. c \<notin> set ALLOWED_DATABASE_INSTANCE_CLASSES) then
        Inl (''database.instance_class must be one of: '' @ join '', '' ALLOWED_DATABASE_INSTANCE_CLASSES)
      else Inr ())"

datatype cache_backend = Redis

record cache_spec =
  cache_backend :: cache_backend
  cache_instance_type :: "string option"

record cache_status =
  cs_phase :: resource_phase
  cs_endpoint :: "string option"

record worker_spec =
  w_concurrency :: "i32 option"
  w_command :: "string list option"

definition validate_worker :: "worker_spec \<Rightarrow> string + unit" where
  "validate_worker w =
     (if is_some_and (w_concurrency w) (\<lambda>c. sint c \<le> 0) then Inl ''worker.concurrency must be > 0''
      else Inr ())"

record oauth_spec =
  oauth_provider :: string
  oauth_credentials_secret :: "string option"

record auth_spec =
  auth_jwt :: bool
  auth_oauth :: "oauth_spec option"

datatype storage_backend = S3 | Gcs | Pvc

record storage_spec =
  sto_backend :: "storage_backend option"
  sto_bucket :: "string option"

record mail_spec =
  mail_smtp_host :: "string option"
  mail_smtp_port :: "i32 option"
  mail_credentials_secret :: "string option"

definition validate_mail :: "mail_spec \<Rightarrow> string + unit" where
  "validate_mail m =
     (if is_some_and (mail_smtp_port m) (\<lambda>p. \<not> valid_port p)
      then Inl ''mail.smtp_port must be between 1 and 65535'' else Inr ())"

section \<open>Scaling, health, service exposure\<close>

datatype scale_metric = Cpu | Memory | Rps

record scale_spec =
  sc_min_replicas :: "i32 option"
  sc_max_replicas :: "i32 option"
  sc_metric :: "scale_metric option"
  sc_target_value :: "i32 option"

definition validate_scale :: "scale_spec \<Rightarrow> validation_error list + unit" where
  "validate_scale s = finish (
     err_if (is_some_and (sc_min_replicas s) (\<lambda>m. sint m < 1)) ''scale.min_replicas must be >= 1''
   @ err_if (is_some_and (sc_max_replicas s) (\<lambda>m. sint m < 1)) ''scale.max_replicas must be >= 1''
   @ err_if (is_some_and (sc_min_replicas s) (\<lambda>mn. is_some_and (sc_max_replicas s) (\<lambda>mx. sint mx < sint mn)))
       ''scale.max_replicas must be >= scale.min_replicas''
   @ err_if (is_some_and (sc_target_value s) (\<lambda>t. sint t \<le> 0)) ''scale.target_value must be > 0'')"

record health_spec =
  h_path :: "string option"
  h_port :: "i32 option"
  h_interval_seconds :: "i32 option"

definition validate_health :: "health_spec \<Rightarrow> validation_error list + unit" where
  "validate_health h = finish (
     err_if (is_some_and (h_port h) (\<lambda>p. \<not> valid_port p)) ''health.port must be between 1 and 65535''
   @ err_if (is_some_and (h_interval_seconds h) (\<lambda>i. sint i \<le> 0)) ''health.interval_seconds must be > 0'')"

record service_tls_spec =
  tls_enabled :: bool
  tls_secret_name :: "string option"
  tls_issuer :: "string option"
  tls_cluster_issuer :: "string option"

definition validate_service_tls :: "service_tls_spec \<Rightarrow> string option \<Rightarrow> validation_error list + unit" where
  "validate_service_tls t ingress_host = finish (
     err_if (tls_enabled t \<and> \<not> is_some_and (map_option trim ingress_host) (\<lambda>h. h \<noteq> []))
       ''services.tls.enabled requires services.ingress_host''
   @ err_if (tls_enabled t \<and> unwrap_or True (map_option (\<lambda>s. s = []) (tls_secret_name t)))
       ''services.tls.secret_name is required when services.tls.enabled is true''
   @ err_if (tls_cluster_issuer t \<noteq> None)
       ''services.tls.cluster_issuer is not supported; use services.tls.issuer with a namespace-scoped Issuer'')"

record services_spec =
  svc_port :: "i32 option"
  svc_target_port :: "i32 option"
  svc_ingress_host :: "string option"
  svc_tls :: "service_tls_spec option"

definition validate_services :: "services_spec \<Rightarrow> validation_error list + unit" where
  "validate_services s = finish (
     err_if (is_some_and (svc_port s) (\<lambda>p. \<not> valid_port p)) ''services.port must be between 1 and 65535''
   @ err_if (is_some_and (svc_target_port s) (\<lambda>p. \<not> valid_port p))
       ''services.target_port must be between 1 and 65535''
   @ on_some (svc_tls s) (\<lambda>t. errs_of (validate_service_tls t (svc_ingress_host s))))"

section \<open>Pages\<close>

record pages_resource_requirements =
  prr_requests :: "(string \<times> string) list"
  prr_limits :: "(string \<times> string) list"

record pages_spec =
  pg_static_root :: "string option"
  pg_static_url :: "string option"
  pg_server_image :: "string option"
  pg_server_resources :: "pages_resource_requirements option"
  pg_cache_max_age :: "u64 option"
  pg_brotli :: "bool option"
  pg_gzip :: "bool option"
  pg_prebuilt :: "bool option"

definition validate_pages :: "pages_spec \<Rightarrow> validation_error list + unit" where
  "validate_pages p = finish (
     err_if (is_some_and (pg_static_root p) (\<lambda>r. r = [])) ''pages.static_root must not be empty''
   @ err_if (is_some_and (pg_static_url p) (\<lambda>u. \<not> starts_with u ''/'' \<or> \<not> ends_with u ''/''))
       (''pages.static_url must start and end with '' @ quoted ''/'')
   @ err_if (is_some_and (pg_server_image p) (\<lambda>i. i = [])) ''pages.server_image must not be empty'')"

definition to_ascii_uppercase :: "string \<Rightarrow> string" where
  "to_ascii_uppercase = map (\<lambda>c. if is_ascii_lowercase c then char_of (byte c - 32) else c)"

definition PUBLICATION_ROOT_ENV :: "string list" where
  "PUBLICATION_ROOT_ENV =
     [''REINHARDT_STATIC_FILES__ROOT'', ''REINHARDT_STATIC__ROOT'', ''REINHARDT_STATIC_ROOT'']"

definition PUBLICATION_URL_ENV :: "string list" where
  "PUBLICATION_URL_ENV =
     [''REINHARDT_STATIC_FILES__URL'', ''REINHARDT_STATIC__URL'', ''REINHARDT_STATIC_URL'']"

definition PUBLICATION_BASE_DIR_ENV :: "string list" where
  "PUBLICATION_BASE_DIR_ENV = [''REINHARDT_CORE__BASE_DIR'', ''REINHARDT_BASE_DIR'']"

definition PUBLICATION_SETTINGS_DIR_ENV :: "string list" where
  "PUBLICATION_SETTINGS_DIR_ENV = [''REINHARDT_CLOUD_CONFIG_DIR'']"

definition is_working_directory :: "string \<Rightarrow> bool" where
  "is_working_directory v \<longleftrightarrow> v \<noteq> []
     \<and> list_all (\<lambda>part. part = ''.'' \<or> part = '''') (split_char (CHR ''/'') v)
     \<and> starts_with v ''.''"

definition conflicting_publication_env ::
  "string \<Rightarrow> string \<Rightarrow> (string \<times> string) list \<Rightarrow> string list" where
  "conflicting_publication_env static_root static_url env =
     map fst (filter (\<lambda>(k, v). let key = to_ascii_uppercase k in
         (key = ''REINHARDT_ENV'' \<and> v \<noteq> ''production'')
       \<or> (key \<in> set PUBLICATION_ROOT_ENV \<and> v \<noteq> static_root)
       \<or> (key \<in> set PUBLICATION_URL_ENV \<and> v \<noteq> static_url)
       \<or> (key \<in> set PUBLICATION_BASE_DIR_ENV \<and> \<not> is_working_directory v)
       \<or> key \<in> set PUBLICATION_SETTINGS_DIR_ENV) env)"

section \<open>Isolation\<close>

datatype isolation_level = NoIsolation | Sandbox | MicroVM

record network_isolation_spec =
  ni_block_metadata_service :: bool
  ni_allow_egress :: bool
  ni_egress_allow_cidrs :: "string list"
  ni_dns_allow_cidrs :: "string list"

definition network_isolation_default :: network_isolation_spec where
  "network_isolation_default =
     \<lparr>ni_block_metadata_service = True, ni_allow_egress = True,
      ni_egress_allow_cidrs = [], ni_dns_allow_cidrs = []\<rparr>"

definition cidr_errors :: "string \<Rightarrow> string list \<Rightarrow> validation_error list" where
  "cidr_errors field cidrs =
     concat (map (\<lambda>(i, cidr). err_if (\<not> is_valid_cidr cidr)
       (''isolation.network.'' @ field @ ''['' @ show_nat i @ ''] is not valid CIDR: '' @ cidr))
       (enumerate 0 cidrs))"

definition validate_network_isolation :: "network_isolation_spec \<Rightarrow> validation_error list + unit" where
  "validate_network_isolation n = finish (
     cidr_errors ''egress_allow_cidrs'' (ni_egress_allow_cidrs n)
   @ cidr_errors ''dns_allow_cidrs'' (ni_dns_allow_cidrs n))"

record isolation_spec =
  iso_level :: isolation_level
  iso_network :: "network_isolation_spec option"
  iso_runtime_class_override :: "string option"

definition validate_isolation :: "isolation_spec \<Rightarrow> validation_error list + unit" where
  "validate_isolation i = finish (
     err_if (is_some_and (iso_runtime_class_override i) (\<lambda>n. n = []))
       ''isolation.runtime_class_override must be non-empty when specified''
   @ on_some (iso_network i) (\<lambda>n. errs_of (validate_network_isolation n)))"

section \<open>Source\<close>

datatype git_provider = GitHub | GitLab

datatype webhook_event = Push | PullRequest | Tag

record build_spec =
  bsp_dockerfile :: "string option"
  bsp_context :: "string option"
  bsp_registry :: "string option"
  bsp_build_args :: "(string \<times> string) list"

definition validate_build :: "build_spec \<Rightarrow> validation_error list + unit" where
  "validate_build b = finish (
     err_if (is_some_and (bsp_dockerfile b) (\<lambda>x. x = [])) ''source.build.dockerfile must be non-empty when specified''
   @ err_if (is_some_and (bsp_context b) (\<lambda>x. x = [])) ''source.build.context must be non-empty when specified''
   @ err_if (is_some_and (bsp_registry b) (\<lambda>x. x = [])) ''source.build.registry must be non-empty when specified'')"

record webhook_spec =
  wh_enabled :: bool
  wh_events :: "webhook_event list"
  wh_secret_ref :: "string option"

definition validate_webhook :: "webhook_spec \<Rightarrow> validation_error list + unit" where
  "validate_webhook w = finish (
     err_if (is_some_and (wh_secret_ref w) (\<lambda>x. x = [])) ''source.webhook.secret_ref must be non-empty when specified''
   @ err_if (wh_enabled w \<and> wh_events w = []) ''source.webhook.events must not be empty when webhook is enabled'')"

record preview_overrides =
  po_replicas :: "i32 option"
  po_database :: "bool option"
  po_cache :: "bool option"

record preview_budget =
  pb_max_replicas :: "i32 option"
  pb_max_cpu :: "string option"
  pb_max_memory :: "string option"

record preview_spec =
  pv_enabled :: bool
  pv_ttl :: "string option"
  pv_url_template :: "string option"
  pv_overrides :: "preview_overrides option"
  pv_budget :: "preview_budget option"

definition validate_preview :: "preview_spec \<Rightarrow> validation_error list + unit" where
  "validate_preview p = finish (
     err_if (is_some_and (pv_ttl p) (\<lambda>x. x = [])) ''source.preview.ttl must be non-empty when specified''
   @ err_if (is_some_and (pv_url_template p) (\<lambda>x. x = [])) ''source.preview.url_template must be non-empty when specified''
   @ err_if (is_some_and (pv_overrides p) (\<lambda>v. is_some_and (po_replicas v) (\<lambda>r. sint r \<le> 0)))
       ''source.preview.overrides.replicas must be > 0''
   @ err_if (is_some_and (pv_budget p) (\<lambda>b. is_some_and (pb_max_replicas b) (\<lambda>r. sint r \<le> 0)))
       ''source.preview.budget.max_replicas must be > 0'')"

record source_spec =
  src_repository :: string
  src_branch :: "string option"
  src_provider :: "git_provider option"
  src_credentials_secret :: "string option"
  src_build :: "build_spec option"
  src_webhook :: "webhook_spec option"
  src_preview :: "preview_spec option"

definition validate_source :: "source_spec \<Rightarrow> validation_error list + unit" where
  "validate_source s = finish (
     err_if (src_repository s = []) ''source.repository must be non-empty''
   @ err_if (is_some_and (src_branch s) (\<lambda>x. x = [])) ''source.branch must be non-empty when specified''
   @ err_if (is_some_and (src_credentials_secret s) (\<lambda>x. x = []))
       ''source.credentials_secret must be non-empty when specified''
   @ on_some (src_build s) (\<lambda>b. errs_of (validate_build b))
   @ on_some (src_webhook s) (\<lambda>w. errs_of (validate_webhook w))
   @ on_some (src_preview s) (\<lambda>p. errs_of (validate_preview p)))"

section \<open>Plugins\<close>

definition PLUGIN_WASM_DIR_PREFIX :: string where "PLUGIN_WASM_DIR_PREFIX = ''/var/lib/dentdelion''"

text \<open>One character per UTF-8 code point: \<open>chars()\<close> as its leading bytes.\<close>

definition utf8_leads :: "string \<Rightarrow> string" where
  "utf8_leads s = filter (\<lambda>c. \<not> (128 \<le> byte c \<and> byte c < 192)) s"

definition sanitized_volume_suffix :: "string \<Rightarrow> string" where
  "sanitized_volume_suffix name =
     (let sanitized = to_ascii_lowercase
            (map (\<lambda>c. if is_ascii_alphanumeric c then c else CHR ''-'') (utf8_leads name));
          trimmed = trim_matches (CHR ''-'') sanitized
      in if trimmed = [] then ''plugin'' else trimmed)"

datatype plugin_type = HttpMiddleware | GrpcInterceptor | EventHandler

datatype plugin_capability = NetworkAccess | FilesystemRead | FilesystemWrite | EnvAccess

record plugin_spec =
  pl_name :: string
  pl_wasm_dir :: string
  pl_plugin_type :: plugin_type
  pl_memory_limit_mb :: "u64 option"
  pl_timeout_ms :: "u64 option"
  pl_capabilities :: "plugin_capability list"

definition has_parent_dir :: "string \<Rightarrow> bool" where
  "has_parent_dir dir \<longleftrightarrow> list_ex (\<lambda>c. c = ''..'') (split_char (CHR ''/'') dir)"

definition wasm_dir_errors :: "string \<Rightarrow> validation_error list" where
  "wasm_dir_errors dir =
     (if dir = [] then [''plugins[].wasm_dir must be non-empty'']
      else err_if (\<not> starts_with dir ''/'') (''plugins[].wasm_dir must be an absolute path (start with '' @ quoted ''/'' @ '')'')
         @ err_if (has_parent_dir dir) (''plugins[].wasm_dir must not contain '' @ quoted ''..'' @ '' path components'')
         @ err_if (starts_with dir ''/'' \<and> \<not> has_parent_dir dir
              \<and> (\<not> starts_with dir (PLUGIN_WASM_DIR_PREFIX @ ''/'')
                 \<or> trim_end_matches (CHR ''/'') dir = PLUGIN_WASM_DIR_PREFIX))
             (''plugins[].wasm_dir must be under '' @ PLUGIN_WASM_DIR_PREFIX @ ''/''))"

definition validate_plugin :: "plugin_spec \<Rightarrow> validation_error list + unit" where
  "validate_plugin p = finish (
     err_if (trim (pl_name p) = []) ''plugins[].name must be non-empty''
   @ wasm_dir_errors (trim (pl_wasm_dir p))
   @ err_if (is_some_and (pl_memory_limit_mb p) (\<lambda>m. m = 0)) ''plugins[].memory_limit_mb must be > 0''
   @ err_if (is_some_and (pl_timeout_ms p) (\<lambda>t. t = 0)) ''plugins[].timeout_ms must be > 0'')"

text \<open>\<open>Path::components\<close> and \<open>Path::starts_with\<close> on Unix.\<close>

datatype path_component = RootDir | CurDir | ParentDir | Normal string

definition inner_components :: "string list \<Rightarrow> path_component list" where
  "inner_components ws = map (\<lambda>w. if w = ''..'' then ParentDir else Normal w)
     (filter (\<lambda>w. w \<noteq> '''' \<and> w \<noteq> ''.'') ws)"

definition path_components :: "string \<Rightarrow> path_component list" where
  "path_components s =
     (if starts_with s ''/'' then RootDir # inner_components (split_char (CHR ''/'') s)
      else (case split_char (CHR ''/'') s of
              [] \<Rightarrow> []
            | w # ws \<Rightarrow> (if w = ''.'' then [CurDir] else inner_components [w]) @ inner_components ws))"

definition path_starts_with :: "string \<Rightarrow> string \<Rightarrow> bool" where
  "path_starts_with p q \<longleftrightarrow>
     take (length (path_components q)) (path_components p) = path_components q"

fun plugin_collisions ::
  "plugin_spec list \<Rightarrow> string set \<Rightarrow> string set \<Rightarrow> validation_error list \<times> string set" where
  "plugin_collisions [] seen_suffixes seen_dirs = ([], seen_dirs)"
| "plugin_collisions (p # ps) seen_suffixes seen_dirs =
     (let suffix = sanitized_volume_suffix (pl_name p);
          e1 = err_if (suffix \<in> seen_suffixes)
            (''spec.plugins contains entries whose sanitized name collides on Volume suffix '' @ quoted suffix);
          dir = trim (pl_wasm_dir p)
      in if dir = []
         then (case plugin_collisions ps (insert suffix seen_suffixes) seen_dirs of
                 (es, ds) \<Rightarrow> (e1 @ es, ds))
         else (case plugin_collisions ps (insert suffix seen_suffixes) (insert dir seen_dirs) of
                 (es, ds) \<Rightarrow>
                   (e1 @ err_if (dir \<in> seen_dirs)
                      (''spec.plugins contains entries with duplicate wasm_dir '' @ quoted dir) @ es, ds)))"

definition overlapping :: "string \<Rightarrow> string \<Rightarrow> bool" where
  "overlapping a b \<longleftrightarrow> path_starts_with a b \<or> path_starts_with b a"

fun overlap_errors :: "string list \<Rightarrow> validation_error list" where
  "overlap_errors [] = []"
| "overlap_errors (d # ds) =
     concat (map (\<lambda>other. err_if (overlapping d other)
        (''spec.plugins contains overlapping wasm_dir mount paths '' @ quoted d @ '' and '' @ quoted other)) ds)
     @ overlap_errors ds"

definition plugins_errors :: "plugin_spec list \<Rightarrow> validation_error list" where
  "plugins_errors ps =
     (case plugin_collisions ps {} {} of
        (collisions, seen_dirs) \<Rightarrow>
          concat (map (\<lambda>p. errs_of (validate_plugin p)) ps) @ collisions
          @ overlap_errors (sorted_list_of_set seen_dirs))"

section \<open>Service accounts, deletion policy and the project\<close>

record service_account_spec =
  sa_create :: bool
  sa_name :: "string option"
  sa_annotations :: "(string \<times> string) list"

definition validate_service_account :: "service_account_spec \<Rightarrow> validation_error list + unit" where
  "validate_service_account s = finish (
     err_if (is_some_and (sa_name s) (\<lambda>n. trim n = [])) ''serviceAccount.name must be non-empty when set'')"

datatype deletion_policy = Retain | Delete

record project_spec =
  ps_image :: string
  ps_replicas :: "i32 option"
  ps_database :: "database_spec option"
  ps_cache :: "cache_spec option"
  ps_worker :: "worker_spec option"
  ps_auth :: "auth_spec option"
  ps_storage :: "storage_spec option"
  ps_mail :: "mail_spec option"
  ps_scale :: "scale_spec option"
  ps_health :: "health_spec option"
  ps_services :: "services_spec option"
  ps_deletion_policy :: deletion_policy
  ps_features :: "string list"
  ps_env :: "(string \<times> string) list"
  ps_pages :: "pages_spec option"
  ps_introspect :: "introspect_output option"
  ps_isolation :: "isolation_spec option"
  ps_source :: "source_spec option"
  ps_plugins :: "plugin_spec list option"
  ps_image_pull_secrets :: "string list option"
  ps_service_account :: "service_account_spec option"
  ps_infrastructure :: "infrastructure_spec option"
  ps_tenant :: "tenant_ref option"

definition project_spec_default :: project_spec where
  "project_spec_default =
     \<lparr>ps_image = [], ps_replicas = None, ps_database = None, ps_cache = None, ps_worker = None,
      ps_auth = None, ps_storage = None, ps_mail = None, ps_scale = None, ps_health = None,
      ps_services = None, ps_deletion_policy = Retain, ps_features = [], ps_env = [],
      ps_pages = None, ps_introspect = None, ps_isolation = None, ps_source = None,
      ps_plugins = None, ps_image_pull_secrets = None, ps_service_account = None,
      ps_infrastructure = None, ps_tenant = None\<rparr>"

definition validate_project :: "project_spec \<Rightarrow> validation_error list + unit" where
  "validate_project s = finish (
     err_if (is_some_and (ps_replicas s) (\<lambda>r. sint r < 0)) ''spec.replicas must be >= 0''
   @ on_some (ps_tenant s) (\<lambda>t. map (\<lambda>e. ''spec.'' @ e) (errs_of (validate_tenant t)))
   @ on_some (ps_database s) (\<lambda>d. err_of (validate_database d))
   @ on_some (ps_worker s) (\<lambda>w. err_of (validate_worker w))
   @ on_some (ps_mail s) (\<lambda>m. err_of (validate_mail m))
   @ on_some (ps_scale s) (\<lambda>x. errs_of (validate_scale x))
   @ on_some (ps_health s) (\<lambda>x. errs_of (validate_health x))
   @ on_some (ps_services s) (\<lambda>x. errs_of (validate_services x))
   @ on_some (ps_pages s) (\<lambda>x. errs_of (validate_pages x))
   @ on_some (ps_isolation s) (\<lambda>x. errs_of (validate_isolation x))
   @ on_some (ps_source s) (\<lambda>x. errs_of (validate_source x))
   @ on_some (ps_service_account s) (\<lambda>x. errs_of (validate_service_account x))
   @ on_some (ps_infrastructure s) (\<lambda>x. errs_of (validate_infrastructure x))
   @ on_some (ps_plugins s) plugins_errors)"

end
