(* ===== verification/ProjectValidation.thy ===== *)
theory ProjectValidation
  imports ProjectSpec
begin

text \<open>
  What \<open>ProjectSpec::validate\<close> accepts: a declarative well-formedness predicate for every block
  of the resource, the mounts of accepted plugins, and the publication-environment check.
\<close>

section \<open>Accepted blocks\<close>

lemma all_Some_iff: "(\<forall>a. x = Some a \<longrightarrow> P a) \<longleftrightarrow> (x = None \<or> (\<exists>a. x = Some a \<and> P a))"
  by (cases x) auto

definition database_wf :: "database_spec \<Rightarrow> bool" where
  "database_wf d \<longleftrightarrow> (\<forall>gb. db_storage_gb d = Some gb \<longrightarrow> 1 \<le> sint gb \<and> sint gb \<le> 100)
     \<and> (\<forall>c. db_instance_class d = Some c \<longrightarrow> c \<in> set ALLOWED_DATABASE_INSTANCE_CLASSES)"

lemma validate_database_iff: "validate_database d = Inr () \<longleftrightarrow> database_wf d"
  unfolding validate_database_def database_wf_def is_some_and_not MAX_DATABASE_STORAGE_GB_def
  by (cases "db_storage_gb d"; cases "db_instance_class d") auto

definition worker_wf :: "worker_spec \<Rightarrow> bool" where
  "worker_wf w \<longleftrightarrow> (\<forall>c. w_concurrency w = Some c \<longrightarrow> 0 < sint c)"

lemma validate_worker_iff: "validate_worker w = Inr () \<longleftrightarrow> worker_wf w"
  unfolding validate_worker_def worker_wf_def by (cases "w_concurrency w") auto

definition mail_wf :: "mail_spec \<Rightarrow> bool" where
  "mail_wf m \<longleftrightarrow> (\<forall>p. mail_smtp_port m = Some p \<longrightarrow> valid_port p)"

lemma validate_mail_iff: "validate_mail m = Inr () \<longleftrightarrow> mail_wf m"
  unfolding validate_mail_def mail_wf_def by (cases "mail_smtp_port m") auto

definition scale_wf :: "scale_spec \<Rightarrow> bool" where
  "scale_wf s \<longleftrightarrow> (\<forall>m. sc_min_replicas s = Some m \<longrightarrow> 1 \<le> sint m)
     \<and> (\<forall>m. sc_max_replicas s = Some m \<longrightarrow> 1 \<le> sint m)
     \<and> (\<forall>mn mx. sc_min_replicas s = Some mn \<longrightarrow> sc_max_replicas s = Some mx \<longrightarrow> sint mn \<le> sint mx)
     \<and> (\<forall>t. sc_target_value s = Some t \<longrightarrow> 0 < sint t)"

lemma validate_scale_iff: "validate_scale s = Inr () \<longleftrightarrow> scale_wf s"
  unfolding validate_scale_def scale_wf_def finish_Inr append_is_Nil_conv err_if_Nil is_some_and_not
  by auto

definition health_wf :: "health_spec \<Rightarrow> bool" where
  "health_wf h \<longleftrightarrow> (\<forall>p. h_port h = Some p \<longrightarrow> valid_port p)
     \<and> (\<forall>i. h_interval_seconds h = Some i \<longrightarrow> 0 < sint i)"

lemma validate_health_iff: "validate_health h = Inr () \<longleftrightarrow> health_wf h"
  unfolding validate_health_def health_wf_def finish_Inr append_is_Nil_conv err_if_Nil is_some_and_not
  by auto

definition tls_wf :: "service_tls_spec \<Rightarrow> string option \<Rightarrow> bool" where
  "tls_wf t host \<longleftrightarrow> tls_cluster_issuer t = None
     \<and> (tls_enabled t \<longrightarrow> (\<exists>h. host = Some h \<and> trim h \<noteq> [])
          \<and> (\<exists>n. tls_secret_name t = Some n \<and> n \<noteq> []))"

lemma validate_service_tls_iff: "validate_service_tls t host = Inr () \<longleftrightarrow> tls_wf t host"
  unfolding validate_service_tls_def tls_wf_def
  by (cases host; cases "tls_secret_name t") auto

definition services_wf :: "services_spec \<Rightarrow> bool" where
  "services_wf s \<longleftrightarrow> (\<forall>p. svc_port s = Some p \<longrightarrow> valid_port p)
     \<and> (\<forall>p. svc_target_port s = Some p \<longrightarrow> valid_port p)
     \<and> (\<forall>t. svc_tls s = Some t \<longrightarrow> tls_wf t (svc_ingress_host s))"

lemma errs_of_validator:
  "errs_of (validate_service_tls t host) = [] \<longleftrightarrow> validate_service_tls t host = Inr ()"
  "errs_of (validate_scale x1) = [] \<longleftrightarrow> validate_scale x1 = Inr ()"
  "errs_of (validate_health x2) = [] \<longleftrightarrow> validate_health x2 = Inr ()"
  "errs_of (validate_services x3) = [] \<longleftrightarrow> validate_services x3 = Inr ()"
  "errs_of (validate_pages x4) = [] \<longleftrightarrow> validate_pages x4 = Inr ()"
  "errs_of (validate_isolation x5) = [] \<longleftrightarrow> validate_isolation x5 = Inr ()"
  "errs_of (validate_network_isolation x6) = [] \<longleftrightarrow> validate_network_isolation x6 = Inr ()"
  "errs_of (validate_source x7) = [] \<longleftrightarrow> validate_source x7 = Inr ()"
  "errs_of (validate_build x8) = [] \<longleftrightarrow> validate_build x8 = Inr ()"
  "errs_of (validate_webhook x9) = [] \<longleftrightarrow> validate_webhook x9 = Inr ()"
  "errs_of (validate_preview x10) = [] \<longleftrightarrow> validate_preview x10 = Inr ()"
  "errs_of (validate_service_account x11) = [] \<longleftrightarrow> validate_service_account x11 = Inr ()"
  "errs_of (validate_infrastructure x12) = [] \<longleftrightarrow> validate_infrastructure x12 = Inr ()"
  "errs_of (validate_plugin x13) = [] \<longleftrightarrow> validate_plugin x13 = Inr ()"
  unfolding validate_service_tls_def validate_scale_def validate_health_def validate_services_def
    validate_pages_def validate_isolation_def validate_network_isolation_def validate_source_def
    validate_build_def validate_webhook_def validate_preview_def validate_service_account_def
    validate_infrastructure_def validate_plugin_def errs_of_finish finish_Inr
  by (rule refl)+

lemma errs_of_tenant: "errs_of (validate_tenant t) = [] \<longleftrightarrow> tenant_wf t"
  unfolding validate_tenant_iff [symmetric]
  by (rule errs_of_Nil) (auto simp: validate_tenant_def Let_def split: if_splits)

lemma validate_services_iff: "validate_services s = Inr () \<longleftrightarrow> services_wf s"
  unfolding validate_services_def services_wf_def finish_Inr append_is_Nil_conv err_if_Nil
    is_some_and_not on_some_Nil errs_of_validator validate_service_tls_iff
  by simp

definition pages_wf :: "pages_spec \<Rightarrow> bool" where
  "pages_wf p \<longleftrightarrow> pg_static_root p \<noteq> Some [] \<and> pg_server_image p \<noteq> Some []
     \<and> (\<forall>u. pg_static_url p = Some u \<longrightarrow> starts_with u ''/'' \<and> ends_with u ''/'')"

lemma validate_pages_iff: "validate_pages p = Inr () \<longleftrightarrow> pages_wf p"
  unfolding validate_pages_def pages_wf_def
  by (cases "pg_static_root p"; cases "pg_server_image p"; cases "pg_static_url p") auto

definition network_wf :: "network_isolation_spec \<Rightarrow> bool" where
  "network_wf n \<longleftrightarrow> list_all cidr_wf (ni_egress_allow_cidrs n) \<and> list_all cidr_wf (ni_dns_allow_cidrs n)"

lemma cidr_errors_Nil: "cidr_errors f cs = [] \<longleftrightarrow> list_all cidr_wf cs"
proof -
  have "is_valid_cidr = cidr_wf" by (rule ext) (rule is_valid_cidr_iff)
  then have wf: "list_all cidr_wf cs \<longleftrightarrow> list_all is_valid_cidr cs" by simp
  have "list_all is_valid_cidr cs \<longleftrightarrow> list_all is_valid_cidr (map snd (enumerate 0 cs))" by simp
  also have "\<dots> \<longleftrightarrow> (\<forall>x \<in> set (enumerate 0 cs). is_valid_cidr (snd x))"
    by (simp add: list_all_iff del: map_snd_enumerate)
  finally show ?thesis unfolding wf by (auto simp: cidr_errors_def)
qed

definition isolation_wf :: "isolation_spec \<Rightarrow> bool" where
  "isolation_wf i \<longleftrightarrow> iso_runtime_class_override i \<noteq> Some []
     \<and> (\<forall>n. iso_network i = Some n \<longrightarrow> network_wf n)"

lemma validate_isolation_iff: "validate_isolation i = Inr () \<longleftrightarrow> isolation_wf i"
  unfolding validate_isolation_def isolation_wf_def validate_network_isolation_def network_wf_def
  by (cases "iso_runtime_class_override i") (auto simp: cidr_errors_Nil)

definition source_wf :: "source_spec \<Rightarrow> bool" where
  "source_wf s \<longleftrightarrow> src_repository s \<noteq> [] \<and> src_branch s \<noteq> Some [] \<and> src_credentials_secret s \<noteq> Some []
     \<and> (\<forall>b. src_build s = Some b \<longrightarrow>
          bsp_dockerfile b \<noteq> Some [] \<and> bsp_context b \<noteq> Some [] \<and> bsp_registry b \<noteq> Some [])
     \<and> (\<forall>w. src_webhook s = Some w \<longrightarrow>
          wh_secret_ref w \<noteq> Some [] \<and> (wh_enabled w \<longrightarrow> wh_events w \<noteq> []))
     \<and> (\<forall>p. src_preview s = Some p \<longrightarrow> pv_ttl p \<noteq> Some [] \<and> pv_url_template p \<noteq> Some []
          \<and> (\<forall>v r. pv_overrides p = Some v \<longrightarrow> po_replicas v = Some r \<longrightarrow> 0 < sint r)
          \<and> (\<forall>b r. pv_budget p = Some b \<longrightarrow> pb_max_replicas b = Some r \<longrightarrow> 0 < sint r))"

lemma not_Some_Nil: "(\<forall>a. x = Some a \<longrightarrow> a \<noteq> []) \<longleftrightarrow> x \<noteq> Some []"
  by auto

lemma validate_source_iff: "validate_source s = Inr () \<longleftrightarrow> source_wf s"
proof -
  have b: "validate_build b = Inr () \<longleftrightarrow>
      bsp_dockerfile b \<noteq> Some [] \<and> bsp_context b \<noteq> Some [] \<and> bsp_registry b \<noteq> Some []" for b
    by (simp add: validate_build_def is_some_and_not not_Some_Nil)
  have w: "validate_webhook w = Inr () \<longleftrightarrow>
      wh_secret_ref w \<noteq> Some [] \<and> (wh_enabled w \<longrightarrow> wh_events w \<noteq> [])" for w
    by (simp add: validate_webhook_def is_some_and_not not_Some_Nil)
  have p: "validate_preview p = Inr () \<longleftrightarrow> pv_ttl p \<noteq> Some [] \<and> pv_url_template p \<noteq> Some []
          \<and> (\<forall>v r. pv_overrides p = Some v \<longrightarrow> po_replicas v = Some r \<longrightarrow> 0 < sint r)
          \<and> (\<forall>b r. pv_budget p = Some b \<longrightarrow> pb_max_replicas b = Some r \<longrightarrow> 0 < sint r)" for p
    by (simp add: validate_preview_def is_some_and_not not_Some_Nil not_le)
  show ?thesis
    by (simp add: validate_source_def source_wf_def errs_of_validator b w p is_some_and_not not_Some_Nil)
qed

section \<open>Plugin mounts\<close>

definition plugin_dir :: "plugin_spec \<Rightarrow> string" where
  "plugin_dir p = trim (pl_wasm_dir p)"

definition plugin_suffix :: "plugin_spec \<Rightarrow> string" where
  "plugin_suffix p = sanitized_volume_suffix (pl_name p)"

definition plugin_wf :: "plugin_spec \<Rightarrow> bool" where
  "plugin_wf p \<longleftrightarrow> trim (pl_name p) \<noteq> []
     \<and> starts_with (plugin_dir p) (PLUGIN_WASM_DIR_PREFIX @ ''/'')
     \<and> trim_end_matches (CHR ''/'') (plugin_dir p) \<noteq> PLUGIN_WASM_DIR_PREFIX
     \<and> \<not> has_parent_dir (plugin_dir p)
     \<and> pl_memory_limit_mb p \<noteq> Some 0 \<and> pl_timeout_ms p \<noteq> Some 0"

lemma starts_with_prefix_slash: "starts_with d (PLUGIN_WASM_DIR_PREFIX @ ''/'') \<Longrightarrow> starts_with d ''/'' \<and> d \<noteq> []"
  by (auto simp: starts_with_iff PLUGIN_WASM_DIR_PREFIX_def)

lemma validate_plugin_iff: "validate_plugin p = Inr () \<longleftrightarrow> plugin_wf p"
proof -
  have n: "(\<forall>a. x = Some a \<longrightarrow> a \<noteq> 0) \<longleftrightarrow> x \<noteq> Some (0::u64)" for x by auto
  have "wasm_dir_errors d = [] \<longleftrightarrow> starts_with d (PLUGIN_WASM_DIR_PREFIX @ ''/'')
      \<and> trim_end_matches (CHR ''/'') d \<noteq> PLUGIN_WASM_DIR_PREFIX \<and> \<not> has_parent_dir d" for d
    using starts_with_prefix_slash [of d] by (auto simp: wasm_dir_errors_def)
  then show ?thesis
    by (auto simp: validate_plugin_def plugin_wf_def plugin_dir_def is_some_and_not n)
qed

lemma plugin_collisions_Nil:
  assumes "plugin_collisions ps S D = ([], R)" and "\<forall>p \<in> set ps. plugin_dir p \<noteq> []"
  shows "distinct (map plugin_suffix ps) \<and> plugin_suffix ` set ps \<inter> S = {}
     \<and> distinct (map plugin_dir ps) \<and> plugin_dir ` set ps \<inter> D = {} \<and> R = D \<union> plugin_dir ` set ps"
  using assms
proof (induction ps arbitrary: S D)
  case Nil
  then show ?case by simp
next
  case (Cons p ps)
  obtain es R' where r: "plugin_collisions ps (insert (plugin_suffix p) S) (insert (plugin_dir p) D) = (es, R')"
    by (cases "plugin_collisions ps (insert (plugin_suffix p) S) (insert (plugin_dir p) D)")
  with Cons.prems have h: "plugin_suffix p \<notin> S" "plugin_dir p \<notin> D" "es = []" "R' = R"
    by (simp_all add: plugin_suffix_def plugin_dir_def Let_def)
  with Cons.IH [of "insert (plugin_suffix p) S" "insert (plugin_dir p) D"] Cons.prems(2) r
  show ?case by (auto simp: disjoint_iff)
qed

lemma overlapping_sym: "overlapping a b = overlapping b a"
  by (auto simp: overlapping_def)

lemma overlap_errors_Nil:
  "overlap_errors ds = [] \<Longrightarrow> a \<in> set ds \<Longrightarrow> b \<in> set ds \<Longrightarrow> a \<noteq> b \<Longrightarrow> \<not> overlapping a b"
  by (induction ds) (auto simp: overlapping_sym)

lemma plugins_errors_Nil:
  assumes "plugins_errors ps = []"
  shows "(\<forall>p \<in> set ps. plugin_wf p) \<and> distinct (map plugin_suffix ps) \<and> distinct (map plugin_dir ps)
     \<and> (\<forall>p \<in> set ps. \<forall>q \<in> set ps. plugin_dir p \<noteq> plugin_dir q \<longrightarrow> \<not> overlapping (plugin_dir p) (plugin_dir q))"
proof -
  obtain es R where r: "plugin_collisions ps {} {} = (es, R)"
    by (cases "plugin_collisions ps {} {}")
  with assms have h: "\<forall>p \<in> set ps. plugin_wf p" "es = []" "overlap_errors (sorted_list_of_set R) = []"
    by (simp_all add: plugins_errors_def errs_of_validator validate_plugin_iff)
  have "\<forall>p \<in> set ps. plugin_dir p \<noteq> []"
    using h(1) starts_with_prefix_slash by (auto simp: plugin_wf_def)
  with r h(2) have c: "distinct (map plugin_suffix ps)" "distinct (map plugin_dir ps)" "R = plugin_dir ` set ps"
    using plugin_collisions_Nil [of ps "{}" "{}" R] by auto
  then have "set (sorted_list_of_set R) = plugin_dir ` set ps" by simp
  with h(1) c overlap_errors_Nil [OF h(3)] show ?thesis by blast
qed

lemma plugin_collisions_distinct:
  "distinct (map plugin_suffix ps) \<Longrightarrow> plugin_suffix ` set ps \<inter> S = {} \<Longrightarrow>
     distinct (map plugin_dir ps) \<Longrightarrow> plugin_dir ` set ps \<inter> D = {} \<Longrightarrow>
     \<forall>p \<in> set ps. plugin_dir p \<noteq> [] \<Longrightarrow>
     plugin_collisions ps S D = ([], D \<union> plugin_dir ` set ps)"
proof (induction ps arbitrary: S D)
  case (Cons p ps)
  then have "plugin_collisions ps (insert (plugin_suffix p) S) (insert (plugin_dir p) D)
      = ([], insert (plugin_dir p) D \<union> plugin_dir ` set ps)"
    by (intro Cons.IH) auto
  moreover have "plugin_suffix p \<notin> S" "plugin_dir p \<notin> D" "plugin_dir p \<noteq> []"
    using Cons.prems by auto
  ultimately show ?case
    by (simp add: plugin_suffix_def plugin_dir_def Let_def err_if_def)
qed simp

lemma overlap_errors_distinct:
  "distinct ds \<Longrightarrow> \<forall>a \<in> set ds. \<forall>b \<in> set ds. a \<noteq> b \<longrightarrow> \<not> overlapping a b \<Longrightarrow> overlap_errors ds = []"
  by (induction ds) (auto simp: err_if_def)

text \<open>The plugins of a project that can be mounted in one pod.\<close>

definition plugins_wf :: "plugin_spec list \<Rightarrow> bool" where
  "plugins_wf ps \<longleftrightarrow> (\<forall>p \<in> set ps. plugin_wf p)
     \<and> distinct (map plugin_suffix ps) \<and> distinct (map plugin_dir ps)
     \<and> (\<forall>p \<in> set ps. \<forall>q \<in> set ps. plugin_dir p \<noteq> plugin_dir q \<longrightarrow> \<not> overlapping (plugin_dir p) (plugin_dir q))"

lemma plugins_errors_iff: "plugins_errors ps = [] \<longleftrightarrow> plugins_wf ps"
proof
  assume "plugins_errors ps = []"
  then show "plugins_wf ps" using plugins_errors_Nil by (simp add: plugins_wf_def)
next
  assume wf: "plugins_wf ps"
  then have "\<forall>p \<in> set ps. plugin_dir p \<noteq> []"
    using starts_with_prefix_slash by (auto simp: plugins_wf_def plugin_wf_def)
  with wf have "plugin_collisions ps {} {} = ([], plugin_dir ` set ps)"
    by (subst plugin_collisions_distinct) (simp_all add: plugins_wf_def)
  moreover have "overlap_errors (sorted_list_of_set (plugin_dir ` set ps)) = []"
    using wf by (intro overlap_errors_distinct) (auto simp: plugins_wf_def)
  ultimately show "plugins_errors ps = []"
    using wf by (auto simp: plugins_errors_def errs_of_validator validate_plugin_iff plugins_wf_def)
qed

lemma suffix_chars: "c \<in> set (sanitized_volume_suffix n) \<Longrightarrow> dns_char c"
proof -
  have lc: "is_ascii_alphanumeric c \<Longrightarrow> is_dns_1123_alphanumeric (ascii_lower c)" for c
    by (auto simp: is_dns_1123_alphanumeric_def str_simps)
  have m: "ascii_lower CHR ''-'' = CHR ''-''" by (simp add: str_simps)
  assume c: "c \<in> set (sanitized_volume_suffix n)"
  let ?s = "to_ascii_lowercase (map (\<lambda>c. if is_ascii_alphanumeric c then c else CHR ''-'') (utf8_leads n))"
  have "set (trim_matches d s) \<subseteq> set s" for d s
    using set_trim_end_matches [of d "trim_start_matches d s"]
    by (auto simp: trim_matches_def trim_start_matches_def dest: set_dropWhileD)
  then have "c \<in> set ?s \<or> c \<in> set ''plugin''"
    using c by (auto simp: sanitized_volume_suffix_def Let_def split: if_splits)
  then show "dns_char c"
  proof
    assume "c \<in> set ?s"
    then show ?thesis
      by (auto simp: to_ascii_lowercase_def dns_char_def lc m split: if_splits)
  qed (auto simp: dns_char_def is_dns_1123_alphanumeric_def str_simps)
qed

lemma suffix_ends:
  "sanitized_volume_suffix n \<noteq> [] \<and> is_dns_1123_alphanumeric (hd (sanitized_volume_suffix n))
     \<and> is_dns_1123_alphanumeric (last (sanitized_volume_suffix n))"
proof -
  let ?t = "sanitized_volume_suffix n"
  have ne: "?t \<noteq> []" by (simp add: sanitized_volume_suffix_def Let_def)
  have tm: "trim_matches d s \<noteq> [] \<Longrightarrow> hd (trim_matches d s) \<noteq> d \<and> last (trim_matches d s) \<noteq> d" for d s
  proof -
    assume t: "trim_matches d s \<noteq> []"
    obtain u where u: "trim_start_matches d s = trim_matches d s @ u"
      using trim_end_matches_prefix [of "trim_start_matches d s" d] by (auto simp: trim_matches_def)
    then have "hd (trim_matches d s) = hd (trim_start_matches d s)" "trim_start_matches d s \<noteq> []"
      using t by auto
    with hd_trim_start_matches [of d s] last_trim_end_matches [of d "trim_start_matches d s"] t
    show ?thesis by (simp add: trim_matches_def)
  qed
  have "hd ?t \<noteq> CHR ''-'' \<and> last ?t \<noteq> CHR ''-''"
    using tm [of "CHR ''-''"] by (simp add: sanitized_volume_suffix_def Let_def)
  with ne show ?thesis
    using suffix_chars [of "hd ?t" n] suffix_chars [of "last ?t" n] by (simp add: dns_char_def)
qed

section \<open>The working directory\<close>

lemma split_char_not_Nil [simp]: "split_char d s \<noteq> []"
  by (induction s) (auto split: list.splits)

lemma is_working_directory_iff: "is_working_directory v \<longleftrightarrow> path_components v = [CurDir]"
proof (cases "starts_with v ''/''")
  case True
  then have "\<not> starts_with v ''.''" by (auto simp: starts_with_iff)
  with True show ?thesis by (simp add: is_working_directory_def path_components_def)
next
  case False
  obtain w ws where sp: "split_char (CHR ''/'') v = w # ws"
    using split_char_not_Nil [of "CHR ''/''" v] by (cases "split_char (CHR ''/'') v") auto
  have inner: "inner_components xs = [] \<longleftrightarrow> list_all (\<lambda>p. p = ''.'' \<or> p = []) xs" for xs
    by (auto simp: inner_components_def filter_empty_conv list_all_iff)
  have nc: "CurDir \<notin> set (inner_components xs)" for xs
    by (auto simp: inner_components_def)
  have first: "starts_with v ''.'' \<longleftrightarrow> w \<noteq> [] \<and> hd w = CHR ''.''"
  proof (cases v)
    case Nil
    with sp show ?thesis by (simp add: starts_with_def)
  next
    case (Cons c v')
    have c: "c \<noteq> CHR ''/''" using False Cons by (simp add: starts_with_def)
    have "w \<noteq> [] \<and> hd w = c"
      using sp Cons c by (cases "split_char (CHR ''/'') v'") auto
    with Cons show ?thesis by (simp add: starts_with_def)
  qed
  show ?thesis
  proof (cases "w = ''.''")
    case True
    then have "starts_with v ''.''" using first by simp
    moreover have "v \<noteq> []" using sp True by auto
    ultimately show ?thesis
      using True False sp inner [of ws] by (simp add: is_working_directory_def path_components_def)
  next
    case w: False
    have "path_components v \<noteq> [CurDir]"
    proof
      assume "path_components v = [CurDir]"
      with w False sp have "CurDir \<in> set (inner_components [w] @ inner_components ws)"
        by (simp add: path_components_def)
      with nc [of "[w]"] nc [of ws] show False by simp
    qed
    moreover have "\<not> is_working_directory v"
      using w first sp by (auto simp: is_working_directory_def)
    ultimately show ?thesis by simp
  qed
qed

section \<open>Properties\<close>

definition project_wf :: "project_spec \<Rightarrow> bool" where
  "project_wf s \<longleftrightarrow>
     (\<forall>r. ps_replicas s = Some r \<longrightarrow> 0 \<le> sint r)
   \<and> (\<forall>x. ps_tenant s = Some x \<longrightarrow> tenant_wf x)
   \<and> (\<forall>x. ps_database s = Some x \<longrightarrow> database_wf x)
   \<and> (\<forall>x. ps_worker s = Some x \<longrightarrow> worker_wf x)
   \<and> (\<forall>x. ps_mail s = Some x \<longrightarrow> mail_wf x)
   \<and> (\<forall>x. ps_scale s = Some x \<longrightarrow> scale_wf x)
   \<and> (\<forall>x. ps_health s = Some x \<longrightarrow> health_wf x)
   \<and> (\<forall>x. ps_services s = Some x \<longrightarrow> services_wf x)
   \<and> (\<forall>x. ps_pages s = Some x \<longrightarrow> pages_wf x)
   \<and> (\<forall>x. ps_isolation s = Some x \<longrightarrow> isolation_wf x)
   \<and> (\<forall>x. ps_source s = Some x \<longrightarrow> source_wf x)
   \<and> (\<forall>x. ps_service_account s = Some x \<longrightarrow> (\<forall>n. sa_name x = Some n \<longrightarrow> trim n \<noteq> []))
   \<and> (\<forall>x. ps_infrastructure s = Some x \<longrightarrow> infrastructure_wf x)
   \<and> (\<forall>ps. ps_plugins s = Some ps \<longrightarrow> plugins_wf ps)"

lemma validate_project_wf: "validate_project s = Inr () \<longleftrightarrow> project_wf s"
proof -
  have sa: "validate_service_account x = Inr () \<longleftrightarrow> (\<forall>n. sa_name x = Some n \<longrightarrow> trim n \<noteq> [])" for x
    by (simp add: validate_service_account_def is_some_and_not)
  show ?thesis
    unfolding validate_project_def project_wf_def finish_Inr append_is_Nil_conv err_if_Nil on_some_Nil
      is_some_and_not errs_of_validator err_of_Nil map_is_Nil_conv errs_of_tenant not_not not_less sa
      validate_database_iff validate_worker_iff validate_mail_iff validate_scale_iff
      validate_health_iff validate_services_iff validate_pages_iff validate_isolation_iff
      validate_source_iff validate_infrastructure_iff plugins_errors_iff
    by (rule refl)
qed

text \<open>
  C11. A project specification is accepted exactly when every block it has is well formed: counts,
  ports, quotas, intervals and retention times in their ranges, names and paths non-empty, CIDRs and tenant
  slugs valid, TLS only with a host and a secret, plugins whose mounts cannot collide, and an
  infrastructure block whose names, hosts and versions use only the characters Terraform and DNS take,
  whose record types are A, CNAME or TXT and whose descriptions cannot break out of a quoted string. The
  predicates on the right are written out without the validators.
\<close>
theorem validate_project_iff:
  "validate_project s = Inr () \<longleftrightarrow> project_wf s"
  by (rule validate_project_wf)

text \<open>
  The plugins of an accepted project can be mounted together: their volume suffixes are
  distinct, non-empty and in the label alphabet, and their mount directories are absolute, below
  \<open>/var/lib/dentdelion/\<close> as text, free of parent components and pairwise not nested as paths.
\<close>
theorem accepted_plugins_mount_apart:
  assumes "validate_project s = Inr ()" and "ps_plugins s = Some ps"
    and "i < length ps" and "j < length ps" and "i \<noteq> j"
  shows "sanitized_volume_suffix (pl_name (ps ! i)) \<noteq> sanitized_volume_suffix (pl_name (ps ! j))
    \<and> (\<forall>c \<in> set (sanitized_volume_suffix (pl_name (ps ! i))). dns_char c)
    \<and> is_dns_1123_alphanumeric (hd (sanitized_volume_suffix (pl_name (ps ! i))))
    \<and> is_dns_1123_alphanumeric (last (sanitized_volume_suffix (pl_name (ps ! i))))
    \<and> starts_with (trim (pl_wasm_dir (ps ! i))) ''/var/lib/dentdelion/''
    \<and> ''..'' \<notin> set (split_char (CHR ''/'') (trim (pl_wasm_dir (ps ! i))))
    \<and> \<not> path_starts_with (trim (pl_wasm_dir (ps ! i))) (trim (pl_wasm_dir (ps ! j)))"
proof -
  from assms(1,2) have "plugins_wf ps"
    by (simp add: validate_project_wf project_wf_def)
  then have p: "\<forall>p \<in> set ps. plugin_wf p" "distinct (map plugin_suffix ps)" "distinct (map plugin_dir ps)"
    "\<forall>p \<in> set ps. \<forall>q \<in> set ps. plugin_dir p \<noteq> plugin_dir q \<longrightarrow> \<not> overlapping (plugin_dir p) (plugin_dir q)"
    unfolding plugins_wf_def by blast+
  from p(2) assms(3-5) have sfx: "plugin_suffix (ps ! i) \<noteq> plugin_suffix (ps ! j)"
    by (simp add: distinct_conv_nth)
  from p(3) assms(3-5) have "plugin_dir (ps ! i) \<noteq> plugin_dir (ps ! j)"
    by (simp add: distinct_conv_nth)
  with p(4) assms(3,4) have ov: "\<not> overlapping (plugin_dir (ps ! i)) (plugin_dir (ps ! j))" by simp
  from p(1) assms(3) have wf: "plugin_wf (ps ! i)" by simp
  show ?thesis
    using sfx ov wf suffix_ends [of "pl_name (ps ! i)"] suffix_chars [of _ "pl_name (ps ! i)"]
    by (auto simp: plugin_suffix_def plugin_dir_def overlapping_def plugin_wf_def
        PLUGIN_WASM_DIR_PREFIX_def has_parent_dir_def list_ex_iff)
qed

definition sample_mount :: "string \<Rightarrow> string \<Rightarrow> plugin_spec" where
  "sample_mount n d = \<lparr>pl_name = n, pl_wasm_dir = d, pl_plugin_type = HttpMiddleware,
      pl_memory_limit_mb = None, pl_timeout_ms = None, pl_capabilities = []\<rparr>"

lemmas trim_eval = trim_def trim_end_def trim_rev.simps trim_start.simps ws_len_def ws_len_rev_def

definition sample_plugins_project :: project_spec where
  "sample_plugins_project = project_spec_default
     \<lparr>ps_plugins := Some [sample_mount ''a'' ''/var/lib/dentdelion/a'', sample_mount ''b'' ''/var/lib/dentdelion/b'']\<rparr>"

lemma sample_plugins_project_ok: "validate_project sample_plugins_project = Inr ()"
proof -
  have t: "trim ''/var/lib/dentdelion/a'' = ''/var/lib/dentdelion/a''"
    "trim ''/var/lib/dentdelion/b'' = ''/var/lib/dentdelion/b''" "trim ''a'' = ''a''" "trim ''b'' = ''b''"
    by (simp_all add: trim_eval)
  have sfx: "sanitized_volume_suffix ''a'' = ''a''" "sanitized_volume_suffix ''b'' = ''b''"
    by (simp_all add: sanitized_volume_suffix_def utf8_leads_def str_simps)
  have ov: "\<not> overlapping ''/var/lib/dentdelion/a'' ''/var/lib/dentdelion/b''"
    by (simp add: overlapping_def path_starts_with_def path_components_def inner_components_def starts_with_def)
  have set: "sorted_list_of_set {''/var/lib/dentdelion/b'', ''/var/lib/dentdelion/a''}
      = [''/var/lib/dentdelion/a'', ''/var/lib/dentdelion/b'']"
    by simp
  have wf: "plugin_wf (sample_mount ''a'' ''/var/lib/dentdelion/a'')" "plugin_wf (sample_mount ''b'' ''/var/lib/dentdelion/b'')"
    by (simp_all add: plugin_wf_def sample_mount_def plugin_dir_def t PLUGIN_WASM_DIR_PREFIX_def
        starts_with_def trim_end_matches_def has_parent_dir_def)
  then have ok: "validate_plugin (sample_mount ''a'' ''/var/lib/dentdelion/a'') = Inr ()"
    "validate_plugin (sample_mount ''b'' ''/var/lib/dentdelion/b'') = Inr ()"
    by (simp_all add: validate_plugin_iff)
  have "plugins_errors [sample_mount ''a'' ''/var/lib/dentdelion/a'', sample_mount ''b'' ''/var/lib/dentdelion/b''] = []"
    unfolding plugins_errors_def
    using ov ok by (simp add: sample_mount_def t sfx set Let_def errs_of_def err_if_def)
  then show ?thesis
    by (simp add: validate_project_wf project_wf_def sample_plugins_project_def project_spec_default_def
        plugins_errors_iff)
qed

theorem accepted_plugins_mount_apart_witness:
  "\<not> path_starts_with (trim ''/var/lib/dentdelion/a'') (trim ''/var/lib/dentdelion/b'')"
  using accepted_plugins_mount_apart [OF sample_plugins_project_ok, of _ 0 1]
  by (simp add: sample_plugins_project_def sample_mount_def)

text \<open>
  An environment conflicts with a prebuilt publication exactly in the keys, compared without
  regard to case, that pick another settings profile or settings directory, or a static root, URL
  or base directory other than the recorded root, the recorded URL and the working directory; a
  base directory counts as the working directory when its path is the single component \<open>.\<close>.
\<close>
theorem conflicting_publication_env_iff:
  "k \<in> set (conflicting_publication_env root url env) \<longleftrightarrow>
     (\<exists>v. (k, v) \<in> set env
        \<and> (to_ascii_uppercase k = ''REINHARDT_ENV'' \<and> v \<noteq> ''production''
         \<or> to_ascii_uppercase k \<in> set PUBLICATION_ROOT_ENV \<and> v \<noteq> root
         \<or> to_ascii_uppercase k \<in> set PUBLICATION_URL_ENV \<and> v \<noteq> url
         \<or> to_ascii_uppercase k \<in> set PUBLICATION_BASE_DIR_ENV \<and> path_components v \<noteq> [CurDir]
         \<or> to_ascii_uppercase k \<in> set PUBLICATION_SETTINGS_DIR_ENV))"
  unfolding conflicting_publication_env_def is_working_directory_iff
  by (force simp: Let_def)

end
