(* ===== verification/RegistryContract.thy ===== *)
theory RegistryContract
  imports Domain
begin

text \<open>
  The contract the agent registry provides to the cluster-agent service: entries owned by
  clusters, changed by operations each of which acts for one authenticated cluster. The laws say
  what a look-up returns after each operation; the lemmas say what a caller can do to the entries
  of other clusters. \<open>AgentRegistry\<close> interprets it and \<open>AgentService\<close> is the client.
\<close>

datatype 'tx registry_call =
    Bind timestamp agent_info uuid 'tx
  | Report timestamp uuid agent_health
  | Beat timestamp uuid
  | DropIf uuid u64

locale cluster_registry =
  fixes lookup :: "'s \<Rightarrow> uuid \<Rightarrow> 'c option"
    and owner :: "'c \<Rightarrow> uuid option"
    and gen :: "'c \<Rightarrow> u64"
    and core :: "'c \<Rightarrow> 'k"
    and bind :: "timestamp \<Rightarrow> agent_info \<Rightarrow> uuid \<Rightarrow> 'tx \<Rightarrow> 's \<Rightarrow> 's"
    and report :: "timestamp \<Rightarrow> uuid \<Rightarrow> agent_health \<Rightarrow> 's \<Rightarrow> 's"
    and beat :: "timestamp \<Rightarrow> uuid \<Rightarrow> 's \<Rightarrow> 's"
    and drop_if :: "uuid \<Rightarrow> u64 \<Rightarrow> 's \<Rightarrow> 's"
  assumes core_owner: "core c = core c' \<Longrightarrow> owner c = owner c' \<and> gen c = gen c'"
    and bind_other: "i \<noteq> info_agent_id a \<Longrightarrow> lookup (bind t a cl tx s) i = lookup s i"
    and bind_foreign: "lookup s (info_agent_id a) = Some c \<Longrightarrow> owner c \<noteq> Some cl \<Longrightarrow>
          lookup (bind t a cl tx s) (info_agent_id a) = Some c"
    and bind_own: "lookup s (info_agent_id a) = None
            \<or> (\<exists>c. lookup s (info_agent_id a) = Some c \<and> owner c = Some cl) \<Longrightarrow>
          \<exists>c. lookup (bind t a cl tx s) (info_agent_id a) = Some c \<and> owner c = Some cl"
    and report_other: "i \<noteq> health_agent_id h \<Longrightarrow> lookup (report t cl h s) i = lookup s i"
    and report_foreign: "lookup s (health_agent_id h) = Some c \<Longrightarrow> owner c \<noteq> Some cl \<Longrightarrow>
          lookup (report t cl h s) (health_agent_id h) = Some c"
    and report_owner: "map_option owner (lookup (report t cl h s) i) = map_option owner (lookup s i)"
    and beat_core: "map_option core (lookup (beat t j s) i) = map_option core (lookup s i)"
    and drop_other: "i \<noteq> j \<Longrightarrow> lookup (drop_if j g s) i = lookup s i"
    and drop_gen: "lookup s j = Some c \<Longrightarrow> gen c \<noteq> g \<Longrightarrow> lookup (drop_if j g s) j = Some c"
    and drop_owned: "lookup s j = Some c \<Longrightarrow> gen c = g \<Longrightarrow> lookup (drop_if j g s) j = None"
begin

text \<open>The calls a caller authenticated as \<open>cl\<close> may make, given the connections it opened.\<close>

definition permitted :: "uuid \<Rightarrow> (uuid \<times> u64) set \<Rightarrow> 'tx registry_call \<Rightarrow> bool" where
  "permitted cl mine call \<longleftrightarrow>
     (case call of
        Bind t a cl' tx \<Rightarrow> cl' = cl
      | Report t cl' h \<Rightarrow> cl' = cl
      | Beat t i \<Rightarrow> True
      | DropIf i g \<Rightarrow> (i, g) \<in> mine)"

lemma permitted_simps:
  "permitted cl mine (Bind t a cl tx)" "permitted cl mine (Report t cl h)" "permitted cl mine (Beat t i)"
  "(i, g) \<in> mine \<Longrightarrow> permitted cl mine (DropIf i g)"
  by (simp_all add: permitted_def)

fun run_call :: "'tx registry_call \<Rightarrow> 's \<Rightarrow> 's" where
  "run_call (Bind t a cl tx) s = bind t a cl tx s"
| "run_call (Report t cl h) s = report t cl h s"
| "run_call (Beat t i) s = beat t i s"
| "run_call (DropIf i g) s = drop_if i g s"

lemma call_foreign:
  assumes "permitted cl mine call" and "lookup s i = Some c" and "owner c = Some cl'" and "cl' \<noteq> cl"
    and "(i, gen c) \<notin> mine"
  shows "\<exists>c'. lookup (run_call call s) i = Some c' \<and> core c' = core c"
proof (cases call)
  case (Bind t a k tx)
  with assms have [simp]: "k = cl" by (simp add: permitted_def)
  show ?thesis
  proof (cases "i = info_agent_id a")
    case True
    with assms have "lookup (bind t a cl tx s) i = Some c"
      by (auto intro: bind_foreign)
    with Bind show ?thesis by simp
  next
    case False
    with Bind assms(2) show ?thesis by (simp add: bind_other)
  qed
next
  case (Report t k h)
  with assms have [simp]: "k = cl" by (simp add: permitted_def)
  show ?thesis
  proof (cases "i = health_agent_id h")
    case True
    with assms have "lookup (report t cl h s) i = Some c"
      by (auto intro: report_foreign)
    with Report show ?thesis by simp
  next
    case False
    with Report assms(2) show ?thesis by (simp add: report_other)
  qed
next
  case (Beat t j)
  from beat_core [of t j s i] assms(2) Beat show ?thesis
    by (cases "lookup (beat t j s) i") auto
next
  case (DropIf j g)
  show ?thesis
  proof (cases "i = j")
    case True
    with DropIf assms have "gen c \<noteq> g" by (auto simp: permitted_def)
    with True DropIf assms(2) show ?thesis by (simp add: drop_gen)
  next
    case False
    with DropIf assms(2) show ?thesis by (simp add: drop_other)
  qed
qed

lemma calls_foreign:
  assumes "list_all (permitted cl mine) calls" and "lookup s i = Some c" and "owner c = Some cl'"
    and "cl' \<noteq> cl" and "(i, gen c) \<notin> mine"
  shows "\<exists>c'. lookup (fold run_call calls s) i = Some c' \<and> core c' = core c"
  using assms
proof (induction calls arbitrary: s c)
  case Nil
  then show ?case by simp
next
  case (Cons call calls)
  then obtain c1 where c1: "lookup (run_call call s) i = Some c1" "core c1 = core c"
    using call_foreign [of cl mine call s i c cl'] by auto
  with core_owner Cons.prems have "owner c1 = Some cl'" "(i, gen c1) \<notin> mine" by metis+
  with Cons.IH [of "run_call call s" c1] Cons.prems c1 show ?case by auto
qed

lemma bind_owned:
  "lookup (bind t a cl tx s) (info_agent_id a) = Some c \<Longrightarrow> owner c = Some cl
     \<or> (lookup s (info_agent_id a) = Some c \<and> owner c \<noteq> Some cl)"
  using bind_own [of s a cl t tx] bind_foreign [of s a _ cl t tx]
  by (cases "lookup s (info_agent_id a)") auto

end

end
