(* ===== verification/AgentRegistry.thy ===== *)
theory AgentRegistry
  imports RegistryContract
begin

text \<open>
  \<open>crates/reinhardt-cloud-grpc/src/registry.rs\<close>: the registry of connected agents. The
  \<open>DashMap\<close> is a function; where its iteration order shows, the order is a list argument. A
  command channel is tokio's: its sending half is a value of type \<open>'tx\<close> supplied by the caller
  of \<open>mpsc::channel\<close>, and sending is the parameter \<open>send\<close> (\<open>True\<close> for \<open>Ok\<close>) acting on the
  world. \<open>fmt\<close> is the \<open>Display\<close> of a UUID. The generation counter is a \<open>u64\<close> that wraps.
\<close>

text \<open>Durations in nanoseconds; \<open>Duration::MAX\<close> is \<open>u64::MAX\<close> seconds and 999999999 ns.\<close>

definition HEARTBEAT_INTERVAL :: int where "HEARTBEAT_INTERVAL = 30 * 1000000000"

definition MISSED_HEARTBEATS_THRESHOLD :: int where "MISSED_HEARTBEATS_THRESHOLD = 3"

definition DURATION_MAX :: int where "DURATION_MAX = 18446744073709551615 * 1000000000 + 999999999"

datatype cluster_binding_error = NotRegistered | ClusterMismatch

record 'tx agent_connection =
  conn_generation :: u64
  conn_info :: agent_info
  conn_health :: "agent_health option"
  conn_command_tx :: 'tx
  conn_last_heartbeat :: timestamp
  conn_cluster_id :: "uuid option"

record 'tx agent_registry =
  agents :: "uuid \<Rightarrow> 'tx agent_connection option"
  next_generation :: u64

definition agent_registry_new :: "'tx agent_registry" where
  "agent_registry_new = \<lparr>agents = (\<lambda>_. None), next_generation = 0\<rparr>"

definition register_agent :: "timestamp \<Rightarrow> agent_info \<Rightarrow> 'tx \<Rightarrow> 'tx agent_registry \<Rightarrow> 'tx agent_registry" where
  "register_agent now info tx r =
     r\<lparr>agents := (agents r)(info_agent_id info \<mapsto>
         \<lparr>conn_generation = next_generation r, conn_info = info, conn_health = None,
          conn_command_tx = tx, conn_last_heartbeat = now, conn_cluster_id = None\<rparr>),
       next_generation := next_generation r + 1\<rparr>"

definition register_with_cluster ::
  "timestamp \<Rightarrow> agent_info \<Rightarrow> uuid \<Rightarrow> 'tx \<Rightarrow> 'tx agent_registry
     \<Rightarrow> (cluster_binding_error + u64) \<times> 'tx agent_registry" where
  "register_with_cluster now info cluster_id tx r =
     (let generation = next_generation r;
          r1 = r\<lparr>next_generation := next_generation r + 1\<rparr>;
          connection = \<lparr>conn_generation = generation, conn_info = info, conn_health = None,
            conn_command_tx = tx, conn_last_heartbeat = now, conn_cluster_id = Some cluster_id\<rparr>
      in case agents r1 (info_agent_id info) of
           Some occupied \<Rightarrow>
             if conn_cluster_id occupied \<noteq> Some cluster_id then (Inl ClusterMismatch, r1)
             else (Inr generation, r1\<lparr>agents := (agents r1)(info_agent_id info \<mapsto> connection)\<rparr>)
         | None \<Rightarrow> (Inr generation, r1\<lparr>agents := (agents r1)(info_agent_id info \<mapsto> connection)\<rparr>))"

definition send_command ::
  "(uuid \<Rightarrow> string) \<Rightarrow> ('tx \<Rightarrow> agent_command \<Rightarrow> 'w \<Rightarrow> bool \<times> 'w) \<Rightarrow> uuid \<Rightarrow> agent_command
     \<Rightarrow> 'tx agent_registry \<Rightarrow> 'w \<Rightarrow> (string + unit) \<times> 'w" where
  "send_command fmt send agent_id command r w =
     (case agents r agent_id of
        None \<Rightarrow> (Inl (''Agent '' @ fmt agent_id @ '' not connected''), w)
      | Some conn \<Rightarrow>
          (case send (conn_command_tx conn) command w of
             (ok, w') \<Rightarrow> (if ok then Inr ()
                         else Inl (''Agent '' @ fmt agent_id @ '' command channel closed''), w')))"

definition bound_to :: "uuid \<Rightarrow> 'tx agent_registry \<Rightarrow> uuid \<Rightarrow> bool" where
  "bound_to cluster_id r i = is_some_and (agents r i) (\<lambda>c. conn_cluster_id c = Some cluster_id)"

definition send_command_to_cluster ::
  "(uuid \<Rightarrow> string) \<Rightarrow> ('tx \<Rightarrow> agent_command \<Rightarrow> 'w \<Rightarrow> bool \<times> 'w) \<Rightarrow> uuid list \<Rightarrow> uuid \<Rightarrow> agent_command
     \<Rightarrow> 'tx agent_registry \<Rightarrow> 'w \<Rightarrow> (string + unit) \<times> 'w" where
  "send_command_to_cluster fmt send order cluster_id command r w =
     (case List.find (bound_to cluster_id r) order of
        None \<Rightarrow> (Inl (''No agent connected for cluster '' @ fmt cluster_id), w)
      | Some agent_id \<Rightarrow> send_command fmt send agent_id command r w)"

definition agents_for_cluster :: "uuid list \<Rightarrow> uuid \<Rightarrow> 'tx agent_registry \<Rightarrow> uuid list" where
  "agents_for_cluster order cluster_id r = filter (bound_to cluster_id r) order"

definition unregister :: "uuid \<Rightarrow> 'tx agent_registry \<Rightarrow> 'tx agent_registry" where
  "unregister agent_id r = r\<lparr>agents := (agents r)(agent_id := None)\<rparr>"

definition unregister_if :: "uuid \<Rightarrow> u64 \<Rightarrow> 'tx agent_registry \<Rightarrow> bool \<times> 'tx agent_registry" where
  "unregister_if agent_id generation r =
     (case agents r agent_id of
        None \<Rightarrow> (False, r)
      | Some conn \<Rightarrow>
          if conn_generation conn = generation
          then (True, r\<lparr>agents := (agents r)(agent_id := None)\<rparr>)
          else (False, r))"

definition heartbeat :: "timestamp \<Rightarrow> uuid \<Rightarrow> 'tx agent_registry \<Rightarrow> 'tx agent_registry" where
  "heartbeat now agent_id r =
     (case agents r agent_id of
        None \<Rightarrow> r
      | Some conn \<Rightarrow> r\<lparr>agents := (agents r)(agent_id \<mapsto> conn\<lparr>conn_last_heartbeat := now\<rparr>)\<rparr>)"

definition update_health :: "timestamp \<Rightarrow> uuid \<Rightarrow> agent_health \<Rightarrow> 'tx agent_registry \<Rightarrow> 'tx agent_registry" where
  "update_health now agent_id health r =
     (case agents r agent_id of
        None \<Rightarrow> r
      | Some conn \<Rightarrow> r\<lparr>agents := (agents r)(agent_id \<mapsto>
          conn\<lparr>conn_health := Some health, conn_last_heartbeat := now\<rparr>)\<rparr>)"

definition update_health_for_cluster ::
  "timestamp \<Rightarrow> uuid \<Rightarrow> agent_health \<Rightarrow> 'tx agent_registry
     \<Rightarrow> (cluster_binding_error + unit) \<times> 'tx agent_registry" where
  "update_health_for_cluster now cluster_id health r =
     (case agents r (health_agent_id health) of
        None \<Rightarrow> (Inl NotRegistered, r)
      | Some conn \<Rightarrow>
          if conn_cluster_id conn \<noteq> Some cluster_id then (Inl ClusterMismatch, r)
          else (Inr (), r\<lparr>agents := (agents r)(health_agent_id health \<mapsto>
                 conn\<lparr>conn_health := Some health, conn_last_heartbeat := now\<rparr>)\<rparr>))"

definition list_connected :: "uuid list \<Rightarrow> 'tx agent_registry \<Rightarrow> agent_info list" where
  "list_connected order r = map conn_info (List.map_filter (agents r) order)"

text \<open>\<open>signed_duration_since(..).to_std().unwrap_or(Duration::MAX)\<close>\<close>

definition elapsed_std :: "timestamp \<Rightarrow> timestamp \<Rightarrow> int" where
  "elapsed_std now hb = (if now - hb < 0 then DURATION_MAX else now - hb)"

definition heartbeat_timeout :: int where
  "heartbeat_timeout = HEARTBEAT_INTERVAL * MISSED_HEARTBEATS_THRESHOLD"

definition is_healthy :: "timestamp \<Rightarrow> uuid \<Rightarrow> 'tx agent_registry \<Rightarrow> bool" where
  "is_healthy now agent_id r =
     is_some_and (agents r agent_id) (\<lambda>conn. elapsed_std now (conn_last_heartbeat conn) < heartbeat_timeout)"

definition get_health :: "uuid \<Rightarrow> 'tx agent_registry \<Rightarrow> agent_health option" where
  "get_health agent_id r = Option.bind (agents r agent_id) conn_health"

definition count_agents :: "uuid list \<Rightarrow> 'tx agent_registry \<Rightarrow> nat" where
  "count_agents order r = length order"

text \<open>\<open>retain\<close> visits the entries in the map's order and reads the clock at each of them.\<close>

fun evict_loop ::
  "(uuid \<Rightarrow> timestamp) \<Rightarrow> uuid list \<Rightarrow> 'tx agent_registry \<Rightarrow> uuid list \<Rightarrow> uuid list \<times> 'tx agent_registry" where
  "evict_loop now_at [] r evicted = (evicted, r)"
| "evict_loop now_at (i # ids) r evicted =
     (case agents r i of
        None \<Rightarrow> evict_loop now_at ids r evicted
      | Some conn \<Rightarrow>
          if elapsed_std (now_at i) (conn_last_heartbeat conn) \<ge> heartbeat_timeout
          then evict_loop now_at ids (r\<lparr>agents := (agents r)(i := None)\<rparr>) (evicted @ [i])
          else evict_loop now_at ids r evicted)"

definition evict_stale_agents ::
  "(uuid \<Rightarrow> timestamp) \<Rightarrow> uuid list \<Rightarrow> 'tx agent_registry \<Rightarrow> uuid list \<times> 'tx agent_registry" where
  "evict_stale_agents now_at order r = evict_loop now_at order r []"

section \<open>The registry keeps the contract\<close>

definition conn_core :: "'tx agent_connection \<Rightarrow> 'tx agent_connection" where
  "conn_core c = c\<lparr>conn_last_heartbeat := 0\<rparr>"

lemma conn_core_simps [simp]:
  "conn_generation (conn_core c) = conn_generation c" "conn_cluster_id (conn_core c) = conn_cluster_id c"
  "conn_core (c\<lparr>conn_last_heartbeat := t\<rparr>) = conn_core c"
  by (simp_all add: conn_core_def)

lemma conn_core_eqD: "conn_core c = conn_core c' \<Longrightarrow> c = c'\<lparr>conn_last_heartbeat := conn_last_heartbeat c\<rparr>"
  by (cases c; cases c') (simp add: conn_core_def)

interpretation ar: cluster_registry agents conn_cluster_id conn_generation conn_core
  "\<lambda>t a cl tx r. snd (register_with_cluster t a cl tx r)"
  "\<lambda>t cl h r. snd (update_health_for_cluster t cl h r)"
  heartbeat "\<lambda>i g r. snd (unregister_if i g r)"
proof unfold_locales
  fix c c' :: "'a agent_connection"
  show "conn_core c = conn_core c' \<Longrightarrow>
      conn_cluster_id c = conn_cluster_id c' \<and> conn_generation c = conn_generation c'"
    by (metis conn_core_simps(1,2))
next
  fix t cl h i and s :: "'a agent_registry"
  show "map_option conn_cluster_id (agents (snd (update_health_for_cluster t cl h s)) i)
      = map_option conn_cluster_id (agents s i)"
    by (auto simp: update_health_for_cluster_def split: option.splits)
next
  fix t j i and s :: "'a agent_registry"
  show "map_option conn_core (agents (heartbeat t j s) i) = map_option conn_core (agents s i)"
    by (auto simp: heartbeat_def split: option.splits)
qed (auto simp: register_with_cluster_def update_health_for_cluster_def unregister_if_def Let_def
    split: option.splits)

section \<open>Properties\<close>

lemma elapsed_stale_iff:
  "elapsed_std now hb \<ge> heartbeat_timeout \<longleftrightarrow> now < hb \<or> hb + 90 * 1000000000 \<le> now"
  by (auto simp: elapsed_std_def heartbeat_timeout_def HEARTBEAT_INTERVAL_def
      MISSED_HEARTBEATS_THRESHOLD_def DURATION_MAX_def)

lemma evict_loop_eq:
  assumes "distinct order"
  shows "evict_loop now_at order r ev =
    (ev @ filter (\<lambda>i. agents r i \<noteq> None \<and> \<not> is_healthy (now_at i) i r) order,
     r\<lparr>agents := (\<lambda>i. if i \<in> set order \<and> \<not> is_healthy (now_at i) i r then None else agents r i)\<rparr>)"
  using assms
proof (induction order arbitrary: r ev)
  case Nil
  then show ?case by simp
next
  case (Cons i ids)
  have stale: "agents r i = Some c \<Longrightarrow>
      \<not> is_healthy (now_at i) i r \<longleftrightarrow> elapsed_std (now_at i) (conn_last_heartbeat c) \<ge> heartbeat_timeout" for c
    by (auto simp: is_healthy_def)
  let ?r = "r\<lparr>agents := (agents r)(i := None)\<rparr>"
  have other: "k \<noteq> i \<Longrightarrow> is_healthy t k ?r = is_healthy t k r" for k t
    by (simp add: is_healthy_def)
  have ext: "r\<lparr>agents := f\<rparr> = r\<lparr>agents := g\<rparr>" if "\<And>k. f k = g k" for f g
    using that by (metis ext)
  have filt: "filter (\<lambda>k. agents ?r k \<noteq> None \<and> \<not> is_healthy (now_at k) k ?r) ids
      = filter (\<lambda>k. agents r k \<noteq> None \<and> \<not> is_healthy (now_at k) k r) ids"
    using Cons.prems by (intro filter_cong) (auto simp: is_healthy_def)
  show ?case
  proof (cases "agents r i")
    case None
    then have "\<not> is_healthy (now_at i) i r" by (simp add: is_healthy_def)
    with None Cons show ?thesis by (auto intro!: ext)
  next
    case (Some c)
    show ?thesis
    proof (cases "is_healthy (now_at i) i r")
      case True
      with Some Cons stale show ?thesis by (auto intro!: ext)
    next
      case False
      with Some Cons stale filt show ?thesis
        by (auto intro!: ext simp: is_healthy_def)
    qed
  qed
qed

text \<open>
  A pass of the eviction over every registered agent removes exactly the agents that are not
  healthy when they are visited and returns them in order: those last heard of 90 seconds ago or
  more, and, since a negative age counts as infinite, those whose last heartbeat lies in the
  future of the clock. Every other entry is kept as it is.
\<close>
theorem evict_stale_agents_spec:
  assumes "distinct order" and "set order = dom (agents r)"
  shows "fst (evict_stale_agents now_at order r) = filter (\<lambda>i. \<not> is_healthy (now_at i) i r) order
    \<and> agents (snd (evict_stale_agents now_at order r)) i
        = (if is_healthy (now_at i) i r then agents r i else None)
    \<and> (is_healthy t i r \<longleftrightarrow>
        (\<exists>c. agents r i = Some c \<and> conn_last_heartbeat c \<le> t \<and> t < conn_last_heartbeat c + 90 * 1000000000))"
proof (intro conjI)
  have "filter (\<lambda>i. agents r i \<noteq> None \<and> \<not> is_healthy (now_at i) i r) order
      = filter (\<lambda>i. \<not> is_healthy (now_at i) i r) order"
    using assms(2) by (intro filter_cong) auto
  then show "fst (evict_stale_agents now_at order r) = filter (\<lambda>i. \<not> is_healthy (now_at i) i r) order"
    by (simp add: evict_stale_agents_def evict_loop_eq [OF assms(1)])
  show "agents (snd (evict_stale_agents now_at order r)) i
        = (if is_healthy (now_at i) i r then agents r i else None)"
    using assms(2) by (auto simp: evict_stale_agents_def evict_loop_eq [OF assms(1)])
  show "is_healthy t i r \<longleftrightarrow>
        (\<exists>c. agents r i = Some c \<and> conn_last_heartbeat c \<le> t \<and> t < conn_last_heartbeat c + 90 * 1000000000)"
    unfolding is_healthy_def is_some_and_iff not_le [symmetric] elapsed_stale_iff by auto
qed

definition sample_info :: "uuid \<Rightarrow> agent_info" where
  "sample_info i = \<lparr>info_agent_id = i, info_cluster_name = ''prod'', info_node_name = [],
      info_version = [], info_last_seen = 0\<rparr>"

definition sample_registry :: "nat agent_registry" where
  "sample_registry = snd (register_with_cluster 100000000000 (sample_info 2) 9 1
     (snd (register_with_cluster 0 (sample_info 1) 8 0 agent_registry_new)))"

lemma sample_registry_agents:
  "agents sample_registry = [1 \<mapsto> \<lparr>conn_generation = 0, conn_info = sample_info 1, conn_health = None,
       conn_command_tx = 0, conn_last_heartbeat = 0, conn_cluster_id = Some 8\<rparr>,
     2 \<mapsto> \<lparr>conn_generation = 1, conn_info = sample_info 2, conn_health = None,
       conn_command_tx = 1, conn_last_heartbeat = 100000000000, conn_cluster_id = Some 9\<rparr>]"
  by (simp add: sample_registry_def register_with_cluster_def agent_registry_new_def sample_info_def Let_def)

theorem evict_stale_agents_spec_witness:
  "fst (evict_stale_agents (\<lambda>_. 100000000000) [1, 2] sample_registry) = [1]"
proof -
  have o: "distinct [1, 2 :: uuid]" "set [1, 2] = dom (agents sample_registry)"
    by (auto simp: sample_registry_agents)
  have h: "is_healthy 100000000000 1 sample_registry = False" "is_healthy 100000000000 2 sample_registry = True"
    by (simp_all add: is_healthy_def sample_registry_agents elapsed_std_def heartbeat_timeout_def
        HEARTBEAT_INTERVAL_def MISSED_HEARTBEATS_THRESHOLD_def)
  show ?thesis
    using evict_stale_agents_spec [OF o, of "\<lambda>_. 100000000000"] h by simp
qed

text \<open>
  A command for a cluster is handed to the channel of an agent bound to that cluster and to no
  other channel, whatever the order of the map; without such an agent nothing is sent and the
  error names the cluster.
\<close>
theorem send_command_to_cluster_routes:
  assumes "set order = dom (agents r)"
  shows "(\<exists>i c. i \<in> set (agents_for_cluster order cl r) \<and> agents r i = Some c \<and> conn_cluster_id c = Some cl
       \<and> send_command_to_cluster fmt send order cl cmd r w =
           (if fst (send (conn_command_tx c) cmd w) then Inr ()
            else Inl (''Agent '' @ fmt i @ '' command channel closed''),
            snd (send (conn_command_tx c) cmd w)))
    \<or> ((\<forall>i c. agents r i = Some c \<longrightarrow> conn_cluster_id c \<noteq> Some cl)
       \<and> send_command_to_cluster fmt send order cl cmd r w
           = (Inl (''No agent connected for cluster '' @ fmt cl), w))"
proof (cases "List.find (bound_to cl r) order")
  case None
  then have "\<forall>i \<in> dom (agents r). \<not> bound_to cl r i"
    using assms by (auto simp: find_None_iff)
  with None show ?thesis
    by (force simp: send_command_to_cluster_def bound_to_def)
next
  case (Some i)
  then have b: "i \<in> set order" "bound_to cl r i" by (auto simp: find_Some_iff)
  then obtain c where c: "agents r i = Some c" "conn_cluster_id c = Some cl"
    by (auto simp: bound_to_def is_some_and_iff)
  with b Some show ?thesis
    by (intro disjI1 exI [of _ i] exI [of _ c])
      (simp add: send_command_to_cluster_def send_command_def agents_for_cluster_def split: prod.splits)
qed

theorem send_command_to_cluster_routes_witness:
  "send_command_to_cluster (\<lambda>_. ''x'') (\<lambda>tx c w. (True, w @ [tx])) [1, 2] 9 (Restart ''shop'') sample_registry []
     = (Inr (), [1])"
proof -
  have o: "set [1, 2] = dom (agents sample_registry)" by (auto simp: sample_registry_agents)
  from send_command_to_cluster_routes [OF o, of 9 "\<lambda>_. ''x''" "\<lambda>tx c w. (True, w @ [tx])" "Restart ''shop''" "[]"]
  show ?thesis
    by (rule disjE) (auto simp: sample_registry_agents split: if_splits dest: spec [of _ 2])
qed

end
