(* ===== verification/Interceptor.thy ===== *)
theory Interceptor
  imports Domain
begin

text \<open>
  Token handling of the gRPC server: the user claims of
  \<open>crates/reinhardt-cloud-core/src/auth.rs\<close>, the agent claims of
  \<open>crates/reinhardt-cloud-grpc/src/agent_claims.rs\<close> and the interceptors of \<open>interceptor.rs\<close>.
  The JWT library is the parameter \<open>jwt_lib\<close>: it verifies a token and yields the JSON object it
  carries, and signs an object; the conversions between objects and claims are the ones serde
  derives from the struct definitions. The \<open>Display\<close> of the library's errors is part of it.
\<close>

section \<open>Claims\<close>

datatype jval = JStr string | JInt int | JOther

type_synonym json_object = "string \<Rightarrow> jval option"

record jwt_lib =
  jwt_decode :: "string \<Rightarrow> string \<Rightarrow> string + json_object"
  jwt_encode :: "string \<Rightarrow> json_object \<Rightarrow> string + string"
  jwt_json_error :: string
  jwt_invalid_token :: string

record user_claims =
  uc_sub :: string
  uc_username :: string
  uc_exp :: int
  uc_iat :: int

record agent_claims =
  ac_sub :: string
  ac_cluster_id :: string
  ac_exp :: int
  ac_iat :: int
  ac_iss :: string
  ac_aud :: string

definition is_i64 :: "int \<Rightarrow> bool" where
  "is_i64 n \<longleftrightarrow> - (2 ^ 63) \<le> n \<and> n < 2 ^ 63"

definition str_field :: "json_object \<Rightarrow> string \<Rightarrow> string option" where
  "str_field obj k = (case obj k of Some (JStr s) \<Rightarrow> Some s | _ \<Rightarrow> None)"

definition i64_field :: "json_object \<Rightarrow> string \<Rightarrow> int option" where
  "i64_field obj k = (case obj k of Some (JInt n) \<Rightarrow> (if is_i64 n then Some n else None) | _ \<Rightarrow> None)"

text \<open>A field with \<open>#[serde(default)]\<close>: absent is the default, present must parse.\<close>

definition default_str_field :: "json_object \<Rightarrow> string \<Rightarrow> string option" where
  "default_str_field obj k = (if obj k = None then Some [] else str_field obj k)"

definition to_user_claims :: "json_object \<Rightarrow> user_claims option" where
  "to_user_claims obj =
     Option.bind (str_field obj ''sub'') (\<lambda>sub.
     Option.bind (str_field obj ''username'') (\<lambda>username.
     Option.bind (i64_field obj ''exp'') (\<lambda>exp.
     Option.bind (i64_field obj ''iat'') (\<lambda>iat.
     Some \<lparr>uc_sub = sub, uc_username = username, uc_exp = exp, uc_iat = iat\<rparr>))))"

definition from_user_claims :: "user_claims \<Rightarrow> json_object" where
  "from_user_claims c =
     [''sub'' \<mapsto> JStr (uc_sub c), ''username'' \<mapsto> JStr (uc_username c),
      ''exp'' \<mapsto> JInt (uc_exp c), ''iat'' \<mapsto> JInt (uc_iat c)]"

definition to_agent_claims :: "json_object \<Rightarrow> agent_claims option" where
  "to_agent_claims obj =
     Option.bind (str_field obj ''sub'') (\<lambda>sub.
     Option.bind (str_field obj ''cluster_id'') (\<lambda>cluster_id.
     Option.bind (i64_field obj ''exp'') (\<lambda>exp.
     Option.bind (i64_field obj ''iat'') (\<lambda>iat.
     Option.bind (default_str_field obj ''iss'') (\<lambda>iss.
     Option.bind (default_str_field obj ''aud'') (\<lambda>aud.
     Some \<lparr>ac_sub = sub, ac_cluster_id = cluster_id, ac_exp = exp, ac_iat = iat,
           ac_iss = iss, ac_aud = aud\<rparr>))))))"

definition from_agent_claims :: "agent_claims \<Rightarrow> json_object" where
  "from_agent_claims c =
     (let base = [''sub'' \<mapsto> JStr (ac_sub c), ''cluster_id'' \<mapsto> JStr (ac_cluster_id c),
                  ''exp'' \<mapsto> JInt (ac_exp c), ''iat'' \<mapsto> JInt (ac_iat c)];
          with_iss = (if ac_iss c = [] then base else base(''iss'' \<mapsto> JStr (ac_iss c)))
      in if ac_aud c = [] then with_iss else with_iss(''aud'' \<mapsto> JStr (ac_aud c)))"

definition decode_user :: "jwt_lib \<Rightarrow> string \<Rightarrow> string \<Rightarrow> string + user_claims" where
  "decode_user J token secret =
     result_bind (jwt_decode J token secret) (\<lambda>obj. ok_or (jwt_json_error J) (to_user_claims obj))"

definition decode_agent :: "jwt_lib \<Rightarrow> string \<Rightarrow> string \<Rightarrow> string + agent_claims" where
  "decode_agent J token secret =
     result_bind (jwt_decode J token secret) (\<lambda>obj. ok_or (jwt_json_error J) (to_agent_claims obj))"

text \<open>
  Times are in nanoseconds, \<open>timestamp()\<close> truncates to seconds towards minus infinity. The
  addition of the expiry panics outside chrono's range \<open>dt_min\<close> to \<open>dt_max\<close>.
\<close>

definition expiry :: "timestamp \<Rightarrow> timestamp \<Rightarrow> timestamp \<Rightarrow> int \<Rightarrow> int option" where
  "expiry dt_min dt_max now hours =
     (let t = now + hours * 3600 * 1000000000
      in if dt_min \<le> t \<and> t \<le> dt_max then Some (t div 1000000000) else None)"

definition create_token ::
  "jwt_lib \<Rightarrow> timestamp \<Rightarrow> timestamp \<Rightarrow> timestamp \<Rightarrow> string \<Rightarrow> string \<Rightarrow> string \<Rightarrow> int
     \<Rightarrow> (string + string) option" where
  "create_token J dt_min dt_max now user_id username secret expiry_hours =
     map_option (\<lambda>exp. jwt_encode J secret (from_user_claims
         \<lparr>uc_sub = user_id, uc_username = username, uc_exp = exp, uc_iat = now div 1000000000\<rparr>))
       (expiry dt_min dt_max now expiry_hours)"

definition verify_token :: "jwt_lib \<Rightarrow> string \<Rightarrow> string \<Rightarrow> string + user_claims" where
  "verify_token J token secret = decode_user J token secret"

definition agent_claims_new ::
  "timestamp \<Rightarrow> timestamp \<Rightarrow> timestamp \<Rightarrow> string \<Rightarrow> int \<Rightarrow> agent_claims option" where
  "agent_claims_new dt_min dt_max now cluster_id expiry_hours =
     map_option (\<lambda>exp. \<lparr>ac_sub = cluster_id, ac_cluster_id = cluster_id, ac_exp = exp,
         ac_iat = now div 1000000000, ac_iss = [], ac_aud = []\<rparr>)
       (expiry dt_min dt_max now expiry_hours)"

definition create_agent_token ::
  "jwt_lib \<Rightarrow> timestamp \<Rightarrow> timestamp \<Rightarrow> timestamp \<Rightarrow> string \<Rightarrow> string \<Rightarrow> int
     \<Rightarrow> (string + string) option" where
  "create_agent_token J dt_min dt_max now cluster_id secret expiry_hours =
     map_option (\<lambda>claims. jwt_encode J secret (from_agent_claims claims))
       (agent_claims_new dt_min dt_max now cluster_id expiry_hours)"

definition verify_agent_token :: "jwt_lib \<Rightarrow> string \<Rightarrow> string \<Rightarrow> string + agent_claims" where
  "verify_agent_token J token secret =
     result_bind (decode_agent J token secret) (\<lambda>claims.
       if trim (ac_cluster_id claims) = [] then Inl (jwt_invalid_token J) else Inr claims)"

section \<open>Requests and interceptors\<close>

datatype grpc_code = CNotFound | CInvalidArgument | CUnauthenticated | CPermissionDenied | CInternal

type_synonym status = "grpc_code \<times> string"

record grpc_request =
  rq_path :: "string option"
  rq_authorization :: "string option"
  rq_claims :: "user_claims option"
  rq_agent_claims :: "agent_claims option"

definition PUBLIC_PATHS :: "string list" where
  "PUBLIC_PATHS =
     [''/grpc.health.v1.Health/Check'', ''/grpc.health.v1.Health/Watch'',
      ''/grpc.reflection.v1alpha.ServerReflection/ServerReflectionInfo'',
      ''/grpc.reflection.v1.ServerReflection/ServerReflectionInfo'']"

definition AGENT_PATH_PREFIXES :: "string list" where
  "AGENT_PATH_PREFIXES = [''/reinhardt.cloud.cluster_agent.AgentService/'']"

definition LOG_SERVICE_PUSH_LOGS_PATH :: string where
  "LOG_SERVICE_PUSH_LOGS_PATH = ''/reinhardt.cloud.log.LogService/PushLogs''"

text \<open>\<open>GrpcPathService::call\<close>: the path of the request's URI replaces any path recorded so far.\<close>

definition record_path :: "string \<Rightarrow> grpc_request \<Rightarrow> grpc_request" where
  "record_path uri_path request = request\<lparr>rq_path := Some uri_path\<rparr>"

definition bearer :: "grpc_request \<Rightarrow> string option" where
  "bearer request = Option.bind (rq_authorization request) (\<lambda>v. strip_prefix v ''Bearer '')"

definition validate_user_token :: "jwt_lib \<Rightarrow> string \<Rightarrow> string \<Rightarrow> status + user_claims" where
  "validate_user_token J secret token =
     (case decode_user J token secret of
        Inl e \<Rightarrow> Inl (CUnauthenticated, ''Invalid token: '' @ e)
      | Inr claims \<Rightarrow> Inr claims)"

definition jwt_interceptor :: "jwt_lib \<Rightarrow> string \<Rightarrow> grpc_request \<Rightarrow> status + grpc_request" where
  "jwt_interceptor J secret request =
     (if is_some_and (rq_path request) (\<lambda>path. path \<in> set PUBLIC_PATHS) then Inr request
      else result_bind (ok_or (CUnauthenticated, ''Missing authorization token'') (bearer request)) (\<lambda>token.
           result_bind (validate_user_token J secret token) (\<lambda>claims.
           Inr (request\<lparr>rq_claims := Some claims\<rparr>))))"

type_synonym token_validator = "string \<Rightarrow> agent_claims \<Rightarrow> status + unit"

definition validate_agent_token ::
  "jwt_lib \<Rightarrow> string \<Rightarrow> token_validator option \<Rightarrow> string \<Rightarrow> status + agent_claims" where
  "validate_agent_token J secret validator token =
     (case verify_agent_token J token secret of
        Inl e \<Rightarrow> Inl (CUnauthenticated, ''Invalid agent token: '' @ e)
      | Inr claims \<Rightarrow>
          (case validator of
             None \<Rightarrow> Inr claims
           | Some v \<Rightarrow> result_bind (v token claims) (\<lambda>_. Inr claims)))"

definition is_agent_path :: "string \<Rightarrow> bool" where
  "is_agent_path full_path =
     (if full_path = LOG_SERVICE_PUSH_LOGS_PATH then True
      else list_ex (\<lambda>prefix. starts_with full_path prefix) AGENT_PATH_PREFIXES)"

definition agent_jwt_interceptor ::
  "jwt_lib \<Rightarrow> string \<Rightarrow> token_validator option \<Rightarrow> grpc_request \<Rightarrow> status + grpc_request" where
  "agent_jwt_interceptor J secret validator request =
     (case rq_path request of
        None \<Rightarrow> Inl (CUnauthenticated, ''Missing gRPC path; cannot authorize agent request'')
      | Some path \<Rightarrow>
          if \<not> is_agent_path path then
            Inl (CUnauthenticated, ''Not an agent path; cannot authorize request with the agent interceptor'')
          else
            result_bind (ok_or (CUnauthenticated, ''Missing agent authorization token'') (bearer request)) (\<lambda>token.
            result_bind (validate_agent_token J secret validator token) (\<lambda>claims.
            Inr (request\<lparr>rq_agent_claims := Some claims\<rparr>))))"

definition log_service_interceptor ::
  "jwt_lib \<Rightarrow> string \<Rightarrow> token_validator option \<Rightarrow> grpc_request \<Rightarrow> status + grpc_request" where
  "log_service_interceptor J secret validator request =
     (case rq_path request of
        None \<Rightarrow> Inl (CUnauthenticated, ''Missing gRPC path; cannot authorize log service request'')
      | Some path \<Rightarrow>
          if path = LOG_SERVICE_PUSH_LOGS_PATH then agent_jwt_interceptor J secret validator request
          else jwt_interceptor J secret request)"

section \<open>Round trips\<close>

lemma to_from_agent_claims:
  "is_i64 (ac_exp c) \<Longrightarrow> is_i64 (ac_iat c) \<Longrightarrow> to_agent_claims (from_agent_claims c) = Some c"
  by (simp add: to_agent_claims_def from_agent_claims_def str_field_def i64_field_def
      default_str_field_def Let_def)

lemma to_from_user_claims:
  "is_i64 (uc_exp c) \<Longrightarrow> is_i64 (uc_iat c) \<Longrightarrow> to_user_claims (from_user_claims c) = Some c"
  by (simp add: to_user_claims_def from_user_claims_def str_field_def i64_field_def)

lemma user_claims_not_agent [simp]: "to_agent_claims (from_user_claims c) = None"
  by (simp add: to_agent_claims_def from_user_claims_def str_field_def)

lemma agent_claims_not_user [simp]: "to_user_claims (from_agent_claims c) = None"
  by (simp add: to_user_claims_def from_agent_claims_def str_field_def Let_def)

text \<open>
  What the code relies on of the library: a token it signed decodes, with the same secret, to the
  object it carries (and is otherwise rejected, e.g. when it has expired).
\<close>

definition jwt_faithful :: "jwt_lib \<Rightarrow> bool" where
  "jwt_faithful J \<longleftrightarrow> (\<forall>secret obj token obj'. jwt_encode J secret obj = Inr token \<longrightarrow>
     jwt_decode J token secret = Inr obj' \<longrightarrow> obj' = obj)"

lemma validate_agent_token_Inr:
  "validate_agent_token J secret validator token = Inr claims \<Longrightarrow>
     verify_agent_token J token secret = Inr claims
   \<and> (\<forall>v. validator = Some v \<longrightarrow> v token claims = Inr ())"
  by (auto simp: validate_agent_token_def result_bind_Inr split: sum.splits option.splits)

lemma agent_jwt_interceptor_Inr:
  "agent_jwt_interceptor J secret validator request = Inr r \<longleftrightarrow>
     (\<exists>path token claims. rq_path request = Some path \<and> is_agent_path path
        \<and> rq_authorization request = Some (''Bearer '' @ token)
        \<and> validate_agent_token J secret validator token = Inr claims
        \<and> r = request\<lparr>rq_agent_claims := Some claims\<rparr>)"
proof -
  have b: "bearer request = Some t \<longleftrightarrow> rq_authorization request = Some (''Bearer '' @ t)" for t
    by (cases "rq_authorization request") (auto simp: bearer_def strip_prefix_Some)
  have o: "ok_or e x = Inr a \<longleftrightarrow> x = Some a" for e :: status and x :: "string option" and a
    by (cases x) auto
  show ?thesis
    by (auto simp: agent_jwt_interceptor_def result_bind_Inr o b split: option.splits)
qed

lemma jwt_interceptor_Inr:
  "jwt_interceptor J secret request = Inr r \<longleftrightarrow>
     (is_some_and (rq_path request) (\<lambda>p. p \<in> set PUBLIC_PATHS) \<and> r = request)
   \<or> (\<not> is_some_and (rq_path request) (\<lambda>p. p \<in> set PUBLIC_PATHS)
      \<and> (\<exists>token claims. rq_authorization request = Some (''Bearer '' @ token)
           \<and> decode_user J token secret = Inr claims \<and> r = request\<lparr>rq_claims := Some claims\<rparr>))"
proof -
  have b: "bearer request = Some t \<longleftrightarrow> rq_authorization request = Some (''Bearer '' @ t)" for t
    by (cases "rq_authorization request") (auto simp: bearer_def strip_prefix_Some)
  have o: "ok_or e x = Inr a \<longleftrightarrow> x = Some a" for e :: status and x :: "string option" and a
    by (cases x) auto
  have v: "validate_user_token J secret t = Inr c \<longleftrightarrow> decode_user J t secret = Inr c" for t c
    by (simp add: validate_user_token_def split: sum.splits)
  show ?thesis
    by (auto simp: jwt_interceptor_def result_bind_Inr o b v)
qed

lemma verify_created_agent_token:
  assumes "jwt_faithful J" and "create_agent_token J lo hi now cluster secret hours = Some (Inr token)"
    and "verify_agent_token J token secret = Inr claims"
  shows "ac_cluster_id claims = cluster \<and> ac_sub claims = cluster
    \<and> expiry lo hi now hours = Some (ac_exp claims) \<and> ac_iat claims = now div 1000000000"
proof -
  from assms(2) obtain exp where e: "expiry lo hi now hours = Some exp"
    and enc: "jwt_encode J secret (from_agent_claims \<lparr>ac_sub = cluster, ac_cluster_id = cluster, ac_exp = exp,
         ac_iat = now div 1000000000, ac_iss = [], ac_aud = []\<rparr>) = Inr token"
    by (auto simp: create_agent_token_def agent_claims_new_def)
  from assms(3) obtain obj where d: "jwt_decode J token secret = Inr obj" "to_agent_claims obj = Some claims"
    by (auto simp: verify_agent_token_def decode_agent_def result_bind_Inr ok_or_def
        split: if_splits option.splits)
  from assms(1) enc d(1) have "obj = from_agent_claims \<lparr>ac_sub = cluster, ac_cluster_id = cluster, ac_exp = exp,
         ac_iat = now div 1000000000, ac_iss = [], ac_aud = []\<rparr>"
    unfolding jwt_faithful_def by blast
  with d(2) e show ?thesis
    by (auto simp: to_agent_claims_def from_agent_claims_def str_field_def i64_field_def
        default_str_field_def split: if_splits)
qed

lemma created_agent_token_not_user:
  assumes "jwt_faithful J" and "create_agent_token J lo hi now cluster secret hours = Some (Inr token)"
  shows "decode_user J token secret \<noteq> Inr claims"
proof
  assume "decode_user J token secret = Inr claims"
  then obtain obj where d: "jwt_decode J token secret = Inr obj" "to_user_claims obj = Some claims"
    by (auto simp: decode_user_def result_bind_Inr ok_or_def split: option.splits)
  from assms(2) obtain c where "jwt_encode J secret (from_agent_claims c) = Inr token"
    by (auto simp: create_agent_token_def)
  with assms(1) d(1) have "obj = from_agent_claims c" unfolding jwt_faithful_def by blast
  with d(2) show False by simp
qed

lemma created_user_token_not_agent:
  assumes "jwt_faithful J" and "create_token J lo hi now u n secret hours = Some (Inr token)"
  shows "verify_agent_token J token secret \<noteq> Inr claims"
proof
  assume "verify_agent_token J token secret = Inr claims"
  then obtain obj where d: "jwt_decode J token secret = Inr obj" "to_agent_claims obj = Some claims"
    by (auto simp: verify_agent_token_def decode_agent_def result_bind_Inr ok_or_def
        split: if_splits option.splits)
  from assms(2) obtain c where "jwt_encode J secret (from_user_claims c) = Inr token"
    by (auto simp: create_token_def)
  with assms(1) d(1) have "obj = from_user_claims c" unfolding jwt_faithful_def by blast
  with d(2) show False by simp
qed

section \<open>Properties\<close>

text \<open>
  C15. What passes the interceptors, the path being the one of the request's URI: on the agent
  service only agent paths with a verified, unrevoked agent token whose cluster is not blank, whose
  claims replace any claims the request carried; on the log service \<open>PushLogs\<close> asks for exactly
  that, and every other method asks for a user token, unless it is one of the public paths.
\<close>
theorem interceptors_guard:
  "(agent_jwt_interceptor J secret v (record_path path req) = Inr r \<longrightarrow>
      is_agent_path path
    \<and> (\<exists>token claims. rq_authorization req = Some (''Bearer '' @ token)
         \<and> verify_agent_token J token secret = Inr claims \<and> trim (ac_cluster_id claims) \<noteq> []
         \<and> (\<forall>f. v = Some f \<longrightarrow> f token claims = Inr ())
         \<and> r = req\<lparr>rq_path := Some path, rq_agent_claims := Some claims\<rparr>))
   \<and> (log_service_interceptor J secret v (record_path path req) =
        (if path = LOG_SERVICE_PUSH_LOGS_PATH
         then agent_jwt_interceptor J secret v (record_path path req)
         else jwt_interceptor J secret (record_path path req)))
   \<and> (jwt_interceptor J secret (record_path path req) = Inr r \<longrightarrow>
        path \<in> set PUBLIC_PATHS \<and> r = req\<lparr>rq_path := Some path\<rparr>
      \<or> (\<exists>token claims. rq_authorization req = Some (''Bearer '' @ token)
           \<and> verify_token J token secret = Inr claims
           \<and> r = req\<lparr>rq_path := Some path, rq_claims := Some claims\<rparr>))"
proof (intro conjI impI)
  assume "agent_jwt_interceptor J secret v (record_path path req) = Inr r"
  then show "is_agent_path path" by (auto simp: agent_jwt_interceptor_Inr record_path_def)
next
  assume "agent_jwt_interceptor J secret v (record_path path req) = Inr r"
  then obtain token claims where t: "rq_authorization req = Some (''Bearer '' @ token)"
    "validate_agent_token J secret v token = Inr claims"
    "r = req\<lparr>rq_path := Some path, rq_agent_claims := Some claims\<rparr>"
    by (auto simp: agent_jwt_interceptor_Inr record_path_def)
  moreover from validate_agent_token_Inr [OF t(2)] have "verify_agent_token J token secret = Inr claims"
    "\<forall>f. v = Some f \<longrightarrow> f token claims = Inr ()" by simp_all
  moreover from this(1) have "trim (ac_cluster_id claims) \<noteq> []"
    by (auto simp: verify_agent_token_def result_bind_Inr split: if_splits)
  ultimately show "\<exists>token claims. rq_authorization req = Some (''Bearer '' @ token)
         \<and> verify_agent_token J token secret = Inr claims \<and> trim (ac_cluster_id claims) \<noteq> []
         \<and> (\<forall>f. v = Some f \<longrightarrow> f token claims = Inr ())
         \<and> r = req\<lparr>rq_path := Some path, rq_agent_claims := Some claims\<rparr>"
    by blast
next
  assume "jwt_interceptor J secret (record_path path req) = Inr r"
  then show "path \<in> set PUBLIC_PATHS \<and> r = req\<lparr>rq_path := Some path\<rparr>
      \<or> (\<exists>token claims. rq_authorization req = Some (''Bearer '' @ token)
           \<and> verify_token J token secret = Inr claims
           \<and> r = req\<lparr>rq_path := Some path, rq_claims := Some claims\<rparr>)"
    by (auto simp: jwt_interceptor_Inr record_path_def verify_token_def)
qed (simp add: log_service_interceptor_def record_path_def)

definition sample_agent_claims :: agent_claims where
  "sample_agent_claims = \<lparr>ac_sub = ''c1'', ac_cluster_id = ''c1'', ac_exp = 3600, ac_iat = 0,
      ac_iss = [], ac_aud = []\<rparr>"

definition sample_jwt :: jwt_lib where
  "sample_jwt = \<lparr>jwt_decode = (\<lambda>t s. if t = ''tok'' then Inr (from_agent_claims sample_agent_claims) else Inl ''bad''),
      jwt_encode = (\<lambda>s obj. if obj = from_agent_claims sample_agent_claims then Inr ''tok'' else Inl ''unsupported''),
      jwt_json_error = ''missing field'', jwt_invalid_token = ''invalid token''\<rparr>"

lemma sample_jwt_verify: "verify_agent_token sample_jwt ''tok'' s = Inr sample_agent_claims"
proof -
  have "is_i64 (ac_exp sample_agent_claims)" "is_i64 (ac_iat sample_agent_claims)"
    by (simp_all add: sample_agent_claims_def is_i64_def)
  then have "to_agent_claims (from_agent_claims sample_agent_claims) = Some sample_agent_claims"
    by (rule to_from_agent_claims)
  moreover have "trim ''c1'' = ''c1''"
    by (simp add: trim_def trim_end_def trim_rev.simps trim_start.simps ws_len_def ws_len_rev_def)
  ultimately show ?thesis
    by (simp add: verify_agent_token_def decode_agent_def sample_jwt_def sample_agent_claims_def)
qed

definition sample_request_with :: "string \<Rightarrow> grpc_request" where
  "sample_request_with token = \<lparr>rq_path = None, rq_authorization = Some (''Bearer '' @ token),
      rq_claims = None, rq_agent_claims = None\<rparr>"

theorem interceptors_guard_witness:
  "\<exists>r. agent_jwt_interceptor sample_jwt ''s'' None
       (record_path LOG_SERVICE_PUSH_LOGS_PATH (sample_request_with ''tok'')) = Inr r
     \<and> rq_agent_claims r = Some sample_agent_claims"
proof -
  let ?r = "(sample_request_with ''tok'')\<lparr>rq_path := Some LOG_SERVICE_PUSH_LOGS_PATH,
      rq_agent_claims := Some sample_agent_claims\<rparr>"
  have a: "agent_jwt_interceptor sample_jwt ''s'' None
       (record_path LOG_SERVICE_PUSH_LOGS_PATH (sample_request_with ''tok'')) = Inr ?r"
    by (simp add: agent_jwt_interceptor_Inr record_path_def sample_request_with_def is_agent_path_def
        validate_agent_token_def sample_jwt_verify)
  from interceptors_guard [of sample_jwt "''s''" None LOG_SERVICE_PUSH_LOGS_PATH "sample_request_with ''tok''" ?r] a
  show ?thesis by (intro exI [of _ ?r]) (auto simp: sample_jwt_verify sample_request_with_def)
qed

text \<open>
  C31. Agent and user tokens are signed with the same secret but never pass for each other: a token
  created for a cluster verifies, if at all, to claims for exactly that cluster and is refused as a
  user token, and a token created for a user is refused as an agent token.
\<close>
theorem tokens_do_not_mix:
  assumes "jwt_faithful J"
  shows "(create_agent_token J lo hi now cluster secret hours = Some (Inr token) \<longrightarrow>
        (\<forall>claims. verify_agent_token J token secret = Inr claims \<longrightarrow>
           ac_cluster_id claims = cluster \<and> expiry lo hi now hours = Some (ac_exp claims))
      \<and> (\<forall>claims. verify_token J token secret \<noteq> Inr claims))
    \<and> (create_token J lo hi now u n secret hours = Some (Inr token) \<longrightarrow>
        (\<forall>claims. verify_agent_token J token secret \<noteq> Inr claims))"
  using verify_created_agent_token [OF assms] created_agent_token_not_user [OF assms]
    created_user_token_not_agent [OF assms]
  by (auto simp: verify_token_def)

theorem tokens_do_not_mix_witness:
  "create_agent_token sample_jwt 0 (10 ^ 20) 0 ''c1'' ''s'' 1 = Some (Inr ''tok'')
   \<and> verify_agent_token sample_jwt ''tok'' ''s'' = Inr sample_agent_claims
   \<and> (\<forall>claims. verify_token sample_jwt ''tok'' ''s'' \<noteq> Inr claims)"
proof -
  have f: "jwt_faithful sample_jwt"
    by (auto simp: jwt_faithful_def sample_jwt_def split: if_splits)
  have c: "create_agent_token sample_jwt 0 (10 ^ 20) 0 ''c1'' ''s'' 1 = Some (Inr ''tok'')"
    by (simp add: create_agent_token_def agent_claims_new_def expiry_def sample_jwt_def sample_agent_claims_def)
  from tokens_do_not_mix [OF f, of 0 "10 ^ 20" 0 "''c1''" "''s''" 1 "''tok''"] c
  show ?thesis by (simp add: sample_jwt_verify)
qed

end
