(* ===== verification/AgentService.thy ===== *)
theory AgentService
  imports AgentRegistry Interceptor
begin

text \<open>
  \<open>crates/reinhardt-cloud-grpc/src/services/cluster_agent.rs\<close>: the conversions between protocol
  and domain types, the gRPC server, and the registry-backed service with the tasks it spawns. The
  message types are those of \<open>cluster_agent.proto\<close>. The parsing of a UUID (with the text of its
  error) and chrono's \<open>from_timestamp\<close> are parameters. A stream that was opened has two tasks,
  the forwarder of commands and the pump of events; the system is a step relation whose steps are
  the operations they make on the registry, each atomic as one \<open>DashMap\<close> access is, and whose
  label is the cluster the acting caller authenticated as.
\<close>

section \<open>Protocol messages and conversions\<close>

record pb_timestamp =
  pts_seconds :: int
  pts_nanos :: int

datatype pb_event =
    PbConnected string string "pb_timestamp option"
  | PbDeployStatus string bool string "pb_timestamp option"
  | PbHeartbeat string "pb_timestamp option"
  | PbError string "pb_timestamp option"
  | PbCommandStatus string string bool string "pb_timestamp option"

datatype pb_command =
    PbDeploy string string u32
  | PbRollback string u32
  | PbScale string u32
  | PbRestart string
  | PbApplyProject string string
  | PbApplyGitCredentialsSecret string string string string

definition proto_timestamp_to_chrono ::
  "(int \<Rightarrow> nat \<Rightarrow> timestamp option) \<Rightarrow> timestamp \<Rightarrow> pb_timestamp option \<Rightarrow> timestamp" where
  "proto_timestamp_to_chrono from_timestamp now ts =
     unwrap_or now (Option.bind ts (\<lambda>t.
       from_timestamp (pts_seconds t) (if pts_nanos t < 0 then 0 else nat (pts_nanos t))))"

fun domain_command_to_proto :: "agent_command \<Rightarrow> pb_command option" where
  "domain_command_to_proto (Deploy project_name img replicas) = Some (PbDeploy project_name img replicas)"
| "domain_command_to_proto (Rollback project_name revision) = Some (PbRollback project_name revision)"
| "domain_command_to_proto (Scale project_name replicas) = Some (PbScale project_name replicas)"
| "domain_command_to_proto (Restart project_name) = Some (PbRestart project_name)"
| "domain_command_to_proto (ApplyProject project_name yaml) = Some (PbApplyProject project_name yaml)"
| "domain_command_to_proto (ApplyGitCredentialsSecret project_name namespace secret_name git_token) =
     Some (PbApplyGitCredentialsSecret project_name namespace secret_name (expose_secret git_token))"

fun proto_event_to_domain ::
  "(string \<Rightarrow> string + uuid) \<Rightarrow> (pb_timestamp option \<Rightarrow> timestamp) \<Rightarrow> pb_event option \<Rightarrow> agent_event option" where
  "proto_event_to_domain parse ts (Some (PbConnected agent_id cluster_name t)) =
     (case parse agent_id of Inl _ \<Rightarrow> None | Inr i \<Rightarrow> Some (Connected i cluster_name (ts t)))"
| "proto_event_to_domain parse ts (Some (PbDeployStatus project_name success message t)) =
     Some (DeployStatus project_name success message (ts t))"
| "proto_event_to_domain parse ts (Some (PbHeartbeat agent_id t)) =
     (case parse agent_id of Inl _ \<Rightarrow> None | Inr i \<Rightarrow> Some (Heartbeat i (ts t)))"
| "proto_event_to_domain parse ts (Some (PbError message t)) = Some (AgentError message (ts t))"
| "proto_event_to_domain parse ts (Some (PbCommandStatus project_name command_type success message t)) =
     Some (CommandStatus project_name command_type success message (ts t))"
| "proto_event_to_domain parse ts None = None"

fun api_error_to_status :: "api_error \<Rightarrow> status" where
  "api_error_to_status (NotFound msg) = (CNotFound, msg)"
| "api_error_to_status (BadRequest msg) = (CInvalidArgument, msg)"
| "api_error_to_status (Unauthorized msg) = (CUnauthenticated, msg)"
| "api_error_to_status (Forbidden msg) = (CPermissionDenied, msg)"
| "api_error_to_status (Internal msg) = (CInternal, msg)"

definition authenticated_cluster_id :: "(string \<Rightarrow> string + uuid) \<Rightarrow> grpc_request \<Rightarrow> status + uuid" where
  "authenticated_cluster_id parse request =
     result_bind (ok_or (CPermissionDenied, ''Agent identity required'') (rq_agent_claims request)) (\<lambda>claims.
     case parse (ac_cluster_id claims) of
       Inl _ \<Rightarrow> Inl (CPermissionDenied, ''Agent token carries an invalid cluster_id'')
     | Inr c \<Rightarrow> Inr c)"

definition BINDING_DENIED :: string where
  "BINDING_DENIED = ''Agent is not registered under the authenticated cluster''"

definition UNBOUND_DENIED :: string where
  "UNBOUND_DENIED = ''Request is not bound to an authenticated cluster''"

section \<open>The registry-backed service\<close>

text \<open>The captured values of the two tasks of a stream and which of them still run.\<close>

record agent_stream =
  st_agent :: uuid
  st_cluster :: uuid
  st_generation :: u64
  st_forwarding :: bool
  st_events :: bool

definition agent_stream_unbound :: "api_error + agent_stream" where
  "agent_stream_unbound = Inl (Forbidden UNBOUND_DENIED)"

text \<open>
  \<open>first\<close> is the first item of the event stream: \<open>None\<close> when it ended, an error, or an event.
\<close>

definition agent_stream_authenticated ::
  "timestamp \<Rightarrow> 'tx \<Rightarrow> (api_error + agent_event) option \<Rightarrow> uuid \<Rightarrow> 'tx agent_registry
     \<Rightarrow> (api_error + agent_stream) \<times> 'tx agent_registry" where
  "agent_stream_authenticated now tx first cluster_id r =
     (case first of
        Some (Inr (Connected agent_id cluster_name t)) \<Rightarrow>
          (let info = \<lparr>info_agent_id = agent_id, info_cluster_name = cluster_name,
                       info_node_name = [], info_version = [], info_last_seen = t\<rparr>
           in case register_with_cluster now info cluster_id tx r of
                (Inl _, r') \<Rightarrow> (Inl (Forbidden BINDING_DENIED), r')
              | (Inr generation, r') \<Rightarrow>
                  (Inr \<lparr>st_agent = agent_id, st_cluster = cluster_id, st_generation = generation,
                        st_forwarding = True, st_events = True\<rparr>, r'))
      | _ \<Rightarrow> (Inl (BadRequest ''Agent must send Connected event first''), r))"

text \<open>
  One turn of the event pump: whether it goes on, and the registry. When it does not, the pump
  has left its loop and removed its own connection.
\<close>

definition pump_event ::
  "timestamp \<Rightarrow> (api_error + agent_event) option \<Rightarrow> agent_stream \<Rightarrow> 'tx agent_registry
     \<Rightarrow> bool \<times> 'tx agent_registry" where
  "pump_event now next s r =
     (case next of
        None \<Rightarrow> (False, snd (unregister_if (st_agent s) (st_generation s) r))
      | Some (Inl _) \<Rightarrow> (False, snd (unregister_if (st_agent s) (st_generation s) r))
      | Some (Inr (Heartbeat i _)) \<Rightarrow> (if i = st_agent s then (True, heartbeat now i r) else (True, r))
      | Some (Inr _) \<Rightarrow> (True, r))"

definition forwarder_end :: "agent_stream \<Rightarrow> 'tx agent_registry \<Rightarrow> 'tx agent_registry" where
  "forwarder_end s r = snd (unregister_if (st_agent s) (st_generation s) r)"

definition report_health_unbound :: "agent_health \<Rightarrow> api_error + unit" where
  "report_health_unbound h = Inl (Forbidden UNBOUND_DENIED)"

definition report_health_for_cluster ::
  "timestamp \<Rightarrow> uuid \<Rightarrow> agent_health \<Rightarrow> 'tx agent_registry \<Rightarrow> (api_error + unit) \<times> 'tx agent_registry" where
  "report_health_for_cluster now cluster_id h r =
     (case update_health_for_cluster now cluster_id h r of
        (Inl _, r') \<Rightarrow> (Inl (Forbidden BINDING_DENIED), r')
      | (Inr u, r') \<Rightarrow> (Inr u, r'))"

definition get_agent_health :: "(uuid \<Rightarrow> string) \<Rightarrow> uuid \<Rightarrow> 'tx agent_registry \<Rightarrow> api_error + agent_health" where
  "get_agent_health fmt agent_id r =
     ok_or (NotFound (''No health report for agent '' @ fmt agent_id)) (get_health agent_id r)"

section \<open>The gRPC server\<close>

record pb_health_report =
  hr_agent_id :: string
  hr_healthy :: bool
  hr_cpu :: f64
  hr_memory :: f64
  hr_pod_count :: u32
  hr_reported_at :: "pb_timestamp option"

text \<open>The first protocol item the service sees: events that do not convert are filtered out.\<close>

fun first_domain_event ::
  "(string \<Rightarrow> string + uuid) \<Rightarrow> (pb_timestamp option \<Rightarrow> timestamp) \<Rightarrow> (string + pb_event option) list
     \<Rightarrow> (api_error + agent_event) option" where
  "first_domain_event parse ts [] = None"
| "first_domain_event parse ts (Inl e # items) = Some (Inl (Internal e))"
| "first_domain_event parse ts (Inr ev # items) =
     (case proto_event_to_domain parse ts ev of
        Some d \<Rightarrow> Some (Inr d)
      | None \<Rightarrow> first_domain_event parse ts items)"

definition grpc_agent_stream ::
  "(string \<Rightarrow> string + uuid) \<Rightarrow> (pb_timestamp option \<Rightarrow> timestamp) \<Rightarrow> timestamp \<Rightarrow> 'tx
     \<Rightarrow> grpc_request \<Rightarrow> (string + pb_event option) list \<Rightarrow> 'tx agent_registry
     \<Rightarrow> (status + agent_stream) \<times> 'tx agent_registry" where
  "grpc_agent_stream parse ts now tx request items r =
     (case authenticated_cluster_id parse request of
        Inl e \<Rightarrow> (Inl e, r)
      | Inr cluster_id \<Rightarrow>
          (case agent_stream_authenticated now tx (first_domain_event parse ts items) cluster_id r of
             (Inl e, r') \<Rightarrow> (Inl (api_error_to_status e), r')
           | (Inr s, r') \<Rightarrow> (Inr s, r')))"

definition grpc_report_health ::
  "(string \<Rightarrow> string + uuid) \<Rightarrow> (pb_timestamp option \<Rightarrow> timestamp) \<Rightarrow> timestamp
     \<Rightarrow> grpc_request \<Rightarrow> pb_health_report \<Rightarrow> 'tx agent_registry
     \<Rightarrow> (status + bool \<times> string) \<times> 'tx agent_registry" where
  "grpc_report_health parse ts now request report r =
     (case authenticated_cluster_id parse request of
        Inl e \<Rightarrow> (Inl e, r)
      | Inr cluster_id \<Rightarrow>
          (case parse (hr_agent_id report) of
             Inl e \<Rightarrow> (Inl (CInvalidArgument, ''Invalid agent_id: '' @ e), r)
           | Inr agent_id \<Rightarrow>
               (let h = \<lparr>health_agent_id = agent_id, health_healthy = hr_healthy report,
                         health_cpu_usage_percent = hr_cpu report,
                         health_memory_usage_percent = hr_memory report,
                         health_pod_count = hr_pod_count report,
                         health_reported_at = ts (hr_reported_at report)\<rparr>
                in case report_health_for_cluster now cluster_id h r of
                     (Inl e, r') \<Rightarrow> (Inl (api_error_to_status e), r')
                   | (Inr _, r') \<Rightarrow> (Inr (True, ''Health reported''), r'))))"

section \<open>The system\<close>

record 'tx agent_sys =
  sys_registry :: "'tx agent_registry"
  sys_streams :: "agent_stream list"

definition agent_sys_new :: "'tx agent_sys" where
  "agent_sys_new = \<lparr>sys_registry = agent_registry_new, sys_streams = []\<rparr>"

text \<open>
  The label is the acting cluster, \<open>None\<close> for the control plane's own eviction pass.
\<close>

inductive agent_step :: "uuid option \<Rightarrow> 'tx agent_sys \<Rightarrow> 'tx agent_sys \<Rightarrow> bool" where
  open_stream: "agent_stream_authenticated now tx first cl (sys_registry s) = (Inr st, r')
     \<Longrightarrow> agent_step (Some cl) s \<lparr>sys_registry = r', sys_streams = sys_streams s @ [st]\<rparr>"
| open_refused: "agent_stream_authenticated now tx first cl (sys_registry s) = (Inl e, r')
     \<Longrightarrow> agent_step (Some cl) s \<lparr>sys_registry = r', sys_streams = sys_streams s\<rparr>"
| event: "j < length (sys_streams s) \<Longrightarrow> st_events (sys_streams s ! j)
     \<Longrightarrow> pump_event now item (sys_streams s ! j) (sys_registry s) = (go, r')
     \<Longrightarrow> agent_step (Some (st_cluster (sys_streams s ! j))) s
           \<lparr>sys_registry = r',
            sys_streams = (sys_streams s)[j := (sys_streams s ! j)\<lparr>st_events := go\<rparr>]\<rparr>"
| forward_end: "j < length (sys_streams s) \<Longrightarrow> st_forwarding (sys_streams s ! j)
     \<Longrightarrow> agent_step (Some (st_cluster (sys_streams s ! j))) s
           \<lparr>sys_registry = forwarder_end (sys_streams s ! j) (sys_registry s),
            sys_streams = (sys_streams s)[j := (sys_streams s ! j)\<lparr>st_forwarding := False\<rparr>]\<rparr>"
| health: "report_health_for_cluster now cl h (sys_registry s) = (res, r')
     \<Longrightarrow> agent_step (Some cl) s \<lparr>sys_registry = r', sys_streams = sys_streams s\<rparr>"
| evict: "evict_stale_agents now_at order (sys_registry s) = (ids, r')
     \<Longrightarrow> agent_step None s \<lparr>sys_registry = r', sys_streams = sys_streams s\<rparr>"

inductive_cases agent_step_Some: "agent_step (Some cl) s s'"

text \<open>Reachability with the number of registrations tried so far and the labels of the steps.\<close>

inductive agent_run :: "nat \<Rightarrow> uuid option list \<Rightarrow> 'tx agent_sys \<Rightarrow> 'tx agent_sys \<Rightarrow> bool" where
  refl: "agent_run 0 [] s s"
| step: "agent_run n ls s s1 \<Longrightarrow> agent_step l s1 s2 \<Longrightarrow> agent_run (Suc n) (ls @ [l]) s s2"

section \<open>Generations and bindings\<close>

definition sys_inv :: "'tx agent_sys \<Rightarrow> bool" where
  "sys_inv s \<longleftrightarrow>
     (\<forall>st \<in> set (sys_streams s). unat (st_generation st) < unat (next_generation (sys_registry s)))
   \<and> distinct (map st_generation (sys_streams s))
   \<and> (\<forall>i c. agents (sys_registry s) i = Some c \<longrightarrow> (\<exists>st \<in> set (sys_streams s).
        st_generation st = conn_generation c \<and> st_agent st = i \<and> Some (st_cluster st) = conn_cluster_id c))"

text \<open>A registry that kept or dropped entries, up to their health and heartbeat.\<close>

definition reg_le :: "'tx agent_registry \<Rightarrow> 'tx agent_registry \<Rightarrow> bool" where
  "reg_le r' r \<longleftrightarrow> (\<forall>i c. agents r' i = Some c \<longrightarrow>
     (\<exists>c0. agents r i = Some c0 \<and> conn_generation c0 = conn_generation c \<and> conn_cluster_id c0 = conn_cluster_id c))"

lemma reg_le_refl [simp]: "reg_le r r"
  by (simp add: reg_le_def)

lemma reg_le_next: "reg_le (r\<lparr>next_generation := g\<rparr>) r"
  by (simp add: reg_le_def)

lemma unregister_if_le: "reg_le (snd (unregister_if i g r)) r"
  by (auto simp: reg_le_def unregister_if_def split: option.splits if_splits)

lemma heartbeat_le: "reg_le (heartbeat t i r) r"
  by (auto simp: reg_le_def heartbeat_def split: option.splits if_splits)

lemma update_health_le: "reg_le (snd (update_health_for_cluster t cl h r)) r"
  by (auto simp: reg_le_def update_health_for_cluster_def split: option.splits if_splits)

lemma evict_loop_le: "reg_le (snd (evict_loop now_at ids r ev)) r"
proof (induction now_at ids r ev rule: evict_loop.induct)
  case (2 now_at i ids r ev)
  then show ?case by (fastforce simp: reg_le_def split: option.splits if_splits)
qed simp

lemma next_generation_simps [simp]:
  "next_generation (snd (unregister_if i g r)) = next_generation r"
  "next_generation (heartbeat t i r) = next_generation r"
  "next_generation (snd (update_health_for_cluster t cl h r)) = next_generation r"
  by (simp_all add: unregister_if_def heartbeat_def update_health_for_cluster_def split: option.splits)

lemma next_generation_evict [simp]:
  "next_generation (snd (evict_loop now_at ids r ev)) = next_generation r"
  by (induction now_at ids r ev rule: evict_loop.induct) (auto split: option.splits)

lemma pump_event_le:
  "pump_event now item st r = (go, r') \<Longrightarrow> reg_le r' r \<and> next_generation r' = next_generation r"
  using unregister_if_le [of "st_agent st" "st_generation st" r] heartbeat_le [of now _ r]
  by (auto simp: pump_event_def split: option.splits sum.splits agent_event.splits if_splits)

lemma report_health_le:
  "report_health_for_cluster now cl h r = (res, r') \<Longrightarrow> reg_le r' r \<and> next_generation r' = next_generation r"
proof -
  assume "report_health_for_cluster now cl h r = (res, r')"
  then have "r' = snd (update_health_for_cluster now cl h r)"
    by (auto simp: report_health_for_cluster_def split: prod.splits sum.splits)
  then show ?thesis by (simp add: update_health_le)
qed

lemma map_flag_update [simp]:
  "map st_generation (xs[j := (xs ! j)\<lparr>st_events := go\<rparr>]) = map st_generation xs"
  "map st_generation (xs[j := (xs ! j)\<lparr>st_forwarding := go\<rparr>]) = map st_generation xs"
proof -
  have "map st_generation (xs[j := y]) = map st_generation xs" if "st_generation y = st_generation (xs ! j)" for y
    using that by (cases "j < length xs") (simp_all add: map_update list_update_same_conv list_update_beyond)
  then show "map st_generation (xs[j := (xs ! j)\<lparr>st_events := go\<rparr>]) = map st_generation xs"
    "map st_generation (xs[j := (xs ! j)\<lparr>st_forwarding := go\<rparr>]) = map st_generation xs"
    by simp_all
qed

text \<open>Streams that differ only in which of their tasks run.\<close>

definition same_stream :: "agent_stream \<Rightarrow> agent_stream \<Rightarrow> bool" where
  "same_stream a b \<longleftrightarrow> st_agent a = st_agent b \<and> st_cluster a = st_cluster b \<and> st_generation a = st_generation b"

lemma sys_inv_shrink:
  assumes inv: "sys_inv s" and le: "reg_le r' (sys_registry s)"
    and g: "unat (next_generation (sys_registry s)) \<le> unat (next_generation r')"
    and m: "map st_generation ss = map st_generation (sys_streams s)"
    and same: "\<forall>a \<in> set (sys_streams s). \<exists>b \<in> set ss. same_stream a b"
  shows "sys_inv \<lparr>sys_registry = r', sys_streams = ss\<rparr>"
proof -
  have "st_generation ` set ss = st_generation ` set (sys_streams s)"
    using m by (metis set_map)
  then have "\<forall>st \<in> set ss. unat (st_generation st) < unat (next_generation r')"
    using inv g unfolding sys_inv_def by (metis (no_types, lifting) imageE imageI less_le_trans)
  moreover have "distinct (map st_generation ss)"
    using inv m by (simp add: sys_inv_def)
  moreover have "\<exists>st \<in> set ss. st_generation st = conn_generation c \<and> st_agent st = i
      \<and> Some (st_cluster st) = conn_cluster_id c" if "agents r' i = Some c" for i c
  proof -
    from le that obtain c0 where c0: "agents (sys_registry s) i = Some c0"
      "conn_generation c0 = conn_generation c" "conn_cluster_id c0 = conn_cluster_id c"
      by (auto simp: reg_le_def)
    with inv obtain a where a: "a \<in> set (sys_streams s)" "st_generation a = conn_generation c"
      "st_agent a = i" "Some (st_cluster a) = conn_cluster_id c"
      unfolding sys_inv_def by metis
    with same obtain b where "b \<in> set ss" "same_stream a b" by blast
    with a show ?thesis by (auto simp: same_stream_def)
  qed
  ultimately show ?thesis by (auto simp: sys_inv_def)
qed

lemma same_stream_update:
  assumes "j < length xs" and "same_stream (xs ! j) y"
  shows "\<forall>a \<in> set xs. \<exists>b \<in> set (xs[j := y]). same_stream a b"
proof
  fix a
  assume "a \<in> set xs"
  then obtain k where k: "k < length xs" "a = xs ! k" by (auto simp: in_set_conv_nth)
  show "\<exists>b \<in> set (xs[j := y]). same_stream a b"
  proof (cases "k = j")
    case True
    with assms k show ?thesis by (intro bexI [of _ y]) (auto simp: set_update_memI)
  next
    case False
    with k have "a = xs[j := y] ! k" "k < length (xs[j := y])" by simp_all
    then show ?thesis by (intro bexI [of _ a]) (auto simp: same_stream_def)
  qed
qed

lemma same_stream_flags [simp]:
  "same_stream st (st\<lparr>st_events := go\<rparr>)" "same_stream st (st\<lparr>st_forwarding := go\<rparr>)" "same_stream st st"
  by (simp_all add: same_stream_def)

lemma open_stream_inv:
  assumes inv: "sys_inv s" and fresh: "unat (next_generation (sys_registry s)) + 1 < 2 ^ 64"
    and op: "agent_stream_authenticated now tx first cl (sys_registry s) = (Inr st, r')"
  shows "sys_inv \<lparr>sys_registry = r', sys_streams = sys_streams s @ [st]\<rparr>
    \<and> unat (next_generation r') = unat (next_generation (sys_registry s)) + 1"
proof -
  let ?r = "sys_registry s"
  let ?g = "next_generation ?r"
  obtain i name t where first: "first = Some (Inr (Connected i name t))"
    using op by (auto simp: agent_stream_authenticated_def split: option.splits sum.splits agent_event.splits)
  let ?info = "\<lparr>info_agent_id = i, info_cluster_name = name, info_node_name = [], info_version = [],
      info_last_seen = t\<rparr>"
  let ?c = "\<lparr>conn_generation = ?g, conn_info = ?info, conn_health = None, conn_command_tx = tx,
      conn_last_heartbeat = now, conn_cluster_id = Some cl\<rparr>"
  have r': "r' = ?r\<lparr>next_generation := ?g + 1, agents := (agents ?r)(i \<mapsto> ?c)\<rparr>"
    and st: "st = \<lparr>st_agent = i, st_cluster = cl, st_generation = ?g, st_forwarding = True, st_events = True\<rparr>"
    using op unfolding first
    by (auto simp: agent_stream_authenticated_def register_with_cluster_def Let_def
        split: option.splits if_splits)
  have n: "unat (?g + 1) = unat ?g + 1" using fresh by (simp add: unat_word_ariths)
  have "?g \<notin> set (map st_generation (sys_streams s))"
    using inv by (auto simp: sys_inv_def)
  with inv n show ?thesis
    by (fastforce simp: sys_inv_def r' st)
qed

lemma open_refused_le:
  "agent_stream_authenticated now tx first cl r = (Inl e, r') \<Longrightarrow>
     agents r' = agents r \<and> (next_generation r' = next_generation r \<or> next_generation r' = next_generation r + 1)"
  by (auto simp: agent_stream_authenticated_def register_with_cluster_def Let_def
      split: option.splits sum.splits agent_event.splits if_splits)

lemma agent_step_inv:
  assumes "agent_step l s s'" and "sys_inv s" and "unat (next_generation (sys_registry s)) + 1 < 2 ^ 64"
  shows "sys_inv s' \<and> unat (next_generation (sys_registry s')) \<le> unat (next_generation (sys_registry s)) + 1"
  using assms
proof cases
  case (open_stream now tx first cl st r')
  from open_stream_inv [OF assms(2,3) open_stream(3)] open_stream(2) show ?thesis by simp
next
  case (open_refused now tx first cl e r')
  have n: "unat (next_generation (sys_registry s) + 1) = unat (next_generation (sys_registry s)) + 1"
    using assms(3) by (simp add: unat_word_ariths)
  from open_refused_le [OF open_refused(3)] have "reg_le r' (sys_registry s)"
    "unat (next_generation (sys_registry s)) \<le> unat (next_generation r')"
    "unat (next_generation r') \<le> unat (next_generation (sys_registry s)) + 1"
    using n by (auto simp: reg_le_def)
  with open_refused(2) assms(2) show ?thesis
    by (auto intro!: sys_inv_shrink [OF assms(2)] simp: same_stream_def)
next
  case (event j now item go r')
  from pump_event_le [OF event(5)] have "reg_le r' (sys_registry s)"
    "next_generation r' = next_generation (sys_registry s)" by simp_all
  with event(2) show ?thesis
    by (auto intro!: sys_inv_shrink [OF assms(2) _ _ _ same_stream_update [OF event(3)]])
next
  case (forward_end j)
  have "reg_le (forwarder_end (sys_streams s ! j) (sys_registry s)) (sys_registry s)"
    by (simp add: forwarder_end_def unregister_if_le)
  with forward_end(2) show ?thesis
    by (auto intro!: sys_inv_shrink [OF assms(2) _ _ _ same_stream_update [OF forward_end(3)]]
        simp: forwarder_end_def)
next
  case (health now cl h res r')
  from report_health_le [OF health(3)] have "reg_le r' (sys_registry s)"
    "next_generation r' = next_generation (sys_registry s)" by simp_all
  with health(2) show ?thesis
    by (auto intro!: sys_inv_shrink [OF assms(2)] simp: same_stream_def)
next
  case (evict now_at order ids r')
  have "r' = snd (evict_loop now_at order (sys_registry s) [])"
    using evict(3) by (simp add: evict_stale_agents_def)
  then have "reg_le r' (sys_registry s)" "next_generation r' = next_generation (sys_registry s)"
    by (simp_all add: evict_loop_le)
  with evict(2) show ?thesis
    by (auto intro!: sys_inv_shrink [OF assms(2)] simp: same_stream_def)
qed

lemma sys_inv_new: "sys_inv agent_sys_new"
  by (simp add: sys_inv_def agent_sys_new_def agent_registry_new_def)

lemma agent_run_inv:
  "agent_run n ls s s' \<Longrightarrow> s = agent_sys_new \<Longrightarrow> n < 2 ^ 64 \<Longrightarrow>
     sys_inv s' \<and> unat (next_generation (sys_registry s')) \<le> n"
proof (induction rule: agent_run.induct)
  case (refl s)
  then show ?case by (simp add: sys_inv_new) (simp add: agent_sys_new_def agent_registry_new_def)
next
  case (step n ls s s1 l s2)
  then have i: "sys_inv s1" "unat (next_generation (sys_registry s1)) \<le> n" by simp_all
  with step have "unat (next_generation (sys_registry s1)) + 1 < 2 ^ 64" by simp
  from agent_step_inv [OF step(2) i(1) this] i(2) show ?case by simp
qed

section \<open>Steps of one cluster and the entries of another\<close>

definition own_connections :: "uuid \<Rightarrow> agent_stream list \<Rightarrow> (uuid \<times> u64) set" where
  "own_connections cl ss = {(st_agent st, st_generation st) |st. st \<in> set ss \<and> st_cluster st = cl}"

lemma own_connections_nth:
  "j < length ss \<Longrightarrow> (st_agent (ss ! j), st_generation (ss ! j)) \<in> own_connections (st_cluster (ss ! j)) ss"
  by (auto simp: own_connections_def)

lemma open_calls:
  assumes "agent_stream_authenticated now tx first cl r = (res, r')"
  shows "r' = r \<or> (\<exists>call. ar.permitted cl mine call \<and> r' = ar.run_call call r)"
proof (cases "\<exists>i name t. first = Some (Inr (Connected i name t))")
  case True
  then obtain i name t where first: "first = Some (Inr (Connected i name t))" by blast
  let ?info = "\<lparr>info_agent_id = i, info_cluster_name = name, info_node_name = [], info_version = [],
      info_last_seen = t\<rparr>"
  have "r' = snd (register_with_cluster now ?info cl tx r)"
    using assms unfolding first
    by (auto simp: agent_stream_authenticated_def Let_def split: sum.splits prod.splits)
  then have "r' = ar.run_call (Bind now ?info cl tx) r" by simp
  then show ?thesis using ar.permitted_simps(1) [of cl mine now ?info tx] by (intro disjI2 exI conjI)
next
  case False
  with assms show ?thesis
    by (auto simp: agent_stream_authenticated_def split: option.splits sum.splits agent_event.splits)
qed

lemma pump_calls:
  assumes "pump_event now item st r = (go, r')" and "(st_agent st, st_generation st) \<in> mine"
  shows "r' = r \<or> (\<exists>call. ar.permitted cl mine call \<and> r' = ar.run_call call r)"
proof -
  have "r' = r \<or> r' = ar.run_call (Beat now (st_agent st)) r
    \<or> r' = ar.run_call (DropIf (st_agent st) (st_generation st)) r"
    using assms(1)
    by (auto simp: pump_event_def split: option.splits sum.splits agent_event.splits if_splits)
  then show ?thesis
    using ar.permitted_simps(3) [of cl mine now "st_agent st"] ar.permitted_simps(4) [OF assms(2), of cl]
    by (elim disjE) (simp, (rule disjI2, intro exI conjI, assumption+)+)
qed

lemma health_calls:
  assumes "report_health_for_cluster now cl h r = (res, r')"
  shows "\<exists>call. ar.permitted cl mine call \<and> r' = ar.run_call call r"
proof -
  have "r' = ar.run_call (Report now cl h) r"
    using assms by (auto simp: report_health_for_cluster_def split: prod.splits sum.splits)
  then show ?thesis using ar.permitted_simps(2) [of cl mine now h] by (intro exI conjI)
qed

lemma step_call:
  assumes "agent_step (Some cl) s s'"
  shows "sys_registry s' = sys_registry s
    \<or> (\<exists>call. ar.permitted cl (own_connections cl (sys_streams s)) call
         \<and> sys_registry s' = ar.run_call call (sys_registry s))"
  using assms
proof cases
  case (open_stream now tx first st r')
  from open_calls [OF open_stream(2), of "own_connections cl (sys_streams s)"] open_stream(1)
  show ?thesis by simp
next
  case (open_refused now tx first e r')
  from open_calls [OF open_refused(2), of "own_connections cl (sys_streams s)"] open_refused(1)
  show ?thesis by simp
next
  case (event j now item go r')
  have "(st_agent (sys_streams s ! j), st_generation (sys_streams s ! j)) \<in> own_connections cl (sys_streams s)"
    using own_connections_nth [OF event(3)] event(1) by simp
  from pump_calls [OF event(5) this, of cl] event(2) show ?thesis by simp
next
  case (forward_end j)
  have "(st_agent (sys_streams s ! j), st_generation (sys_streams s ! j)) \<in> own_connections cl (sys_streams s)"
    using own_connections_nth [OF forward_end(3)] forward_end(1) by simp
  from ar.permitted_simps(4) [OF this] forward_end(2) show ?thesis
    by (intro disjI2 exI [of _ "DropIf (st_agent (sys_streams s ! j)) (st_generation (sys_streams s ! j))"])
      (simp add: forwarder_end_def)
next
  case (health now h res r')
  from health_calls [OF health(2), of "own_connections cl (sys_streams s)"] health(1) show ?thesis by simp
qed

lemma own_connections_foreign:
  assumes "sys_inv s" and "agents (sys_registry s) i = Some c" and "conn_cluster_id c = Some b" and "a \<noteq> b"
  shows "(i, conn_generation c) \<notin> own_connections a (sys_streams s)"
proof
  assume "(i, conn_generation c) \<in> own_connections a (sys_streams s)"
  then obtain st where st: "st \<in> set (sys_streams s)" "st_cluster st = a" "st_generation st = conn_generation c"
    by (auto simp: own_connections_def)
  from assms(1,2) obtain st0 where st0: "st0 \<in> set (sys_streams s)" "st_generation st0 = conn_generation c"
    "Some (st_cluster st0) = conn_cluster_id c"
    unfolding sys_inv_def by blast
  from assms(1) have "inj_on st_generation (set (sys_streams s))"
    by (simp add: sys_inv_def distinct_map)
  then have "st = st0" by (rule inj_onD) (simp_all add: st st0)
  with st st0 assms(3,4) show False by simp
qed

lemma step_foreign:
  assumes "agent_step (Some a) s s'" and "sys_inv s"
    and "agents (sys_registry s) i = Some c" and "conn_cluster_id c = Some b" and "a \<noteq> b"
  shows "\<exists>c'. agents (sys_registry s') i = Some c' \<and> conn_core c' = conn_core c"
  using step_call [OF assms(1)]
proof
  assume "sys_registry s' = sys_registry s"
  with assms(3) show ?thesis by auto
next
  assume "\<exists>call. ar.permitted a (own_connections a (sys_streams s)) call
         \<and> sys_registry s' = ar.run_call call (sys_registry s)"
  then obtain call where call: "ar.permitted a (own_connections a (sys_streams s)) call"
    "sys_registry s' = ar.run_call call (sys_registry s)" by blast
  from ar.call_foreign [OF call(1) assms(3,4)] own_connections_foreign [OF assms(2-5)] assms(5) call(2)
  show ?thesis by auto
qed

lemma run_foreign:
  assumes "agent_run m ls' s s'" and "sys_inv s" and "unat (next_generation (sys_registry s)) + m < 2 ^ 64"
    and "agents (sys_registry s) i = Some c" and "conn_cluster_id c = Some b"
    and "\<forall>l \<in> set ls'. \<exists>a. l = Some a \<and> a \<noteq> b"
  shows "sys_inv s' \<and> unat (next_generation (sys_registry s')) \<le> unat (next_generation (sys_registry s)) + m
     \<and> (\<exists>c'. agents (sys_registry s') i = Some c' \<and> conn_core c' = conn_core c)"
  using assms
proof (induction rule: agent_run.induct)
  case (refl s)
  then show ?case by simp
next
  case (step m ls s s1 l s2)
  then obtain c1 where i: "sys_inv s1"
    "unat (next_generation (sys_registry s1)) \<le> unat (next_generation (sys_registry s)) + m"
    "agents (sys_registry s1) i = Some c1" "conn_core c1 = conn_core c" by auto
  from step.prems obtain a where a: "l = Some a" "a \<noteq> b" by auto
  have b: "unat (next_generation (sys_registry s1)) + 1 < 2 ^ 64" using i(2) step.prems(2) by simp
  have "conn_cluster_id c1 = Some b"
    using i(4) step.prems(4) by (metis conn_core_simps(2))
  from step_foreign [OF step(2) [unfolded a(1)] i(1,3) this a(2)] i(4)
  have "\<exists>c'. agents (sys_registry s2) i = Some c' \<and> conn_core c' = conn_core c" by simp
  with agent_step_inv [OF step(2) i(1) b] i(2) show ?case by simp
qed

lemma stale_cleanup:
  assumes "sys_inv s" and "j < length (sys_streams s)" and "k < length (sys_streams s)" and "j \<noteq> k"
    and "agents (sys_registry s) i = Some c" and "conn_generation c = st_generation (sys_streams s ! k)"
  shows "agents (snd (unregister_if (st_agent (sys_streams s ! j)) (st_generation (sys_streams s ! j))
           (sys_registry s))) i = Some c"
proof -
  have "st_generation (sys_streams s ! j) \<noteq> st_generation (sys_streams s ! k)"
    using assms(1-4) unfolding sys_inv_def by (metis distinct_conv_nth length_map nth_map)
  with assms(5,6) show ?thesis
    by (auto simp: unregister_if_def split: option.splits)
qed

section \<open>Properties\<close>

text \<open>
  C2. Cluster isolation of the registry: once an agent is bound to a cluster, no interleaving of
  streams, events, stream ends and health reports of other clusters can remove, rebind or
  otherwise change its entry, except for the time of the last heartbeat. (Fewer than \<open>2\<^sup>6\<^sup>4\<close> steps,
  so that generations do not wrap.)
\<close>
theorem other_clusters_keep_binding:
  assumes "agent_run n ls agent_sys_new s" and "agents (sys_registry s) i = Some c"
    and "conn_cluster_id c = Some b" and "agent_run m ls' s s'"
    and "\<forall>l \<in> set ls'. \<exists>a. l = Some a \<and> a \<noteq> b" and "n + m < 2 ^ 64"
  shows "\<exists>t. agents (sys_registry s') i = Some (c\<lparr>conn_last_heartbeat := t\<rparr>)"
proof -
  from agent_run_inv [OF assms(1)] assms(6) have inv: "sys_inv s" "unat (next_generation (sys_registry s)) \<le> n"
    by auto
  then have "unat (next_generation (sys_registry s)) + m < 2 ^ 64" using assms(6) by simp
  from run_foreign [OF assms(4) inv(1) this assms(2,3,5)]
  obtain c' where "agents (sys_registry s') i = Some c'" "conn_core c' = conn_core c" by blast
  moreover from this(2) have "c' = c\<lparr>conn_last_heartbeat := conn_last_heartbeat c'\<rparr>" by (rule conn_core_eqD)
  ultimately show ?thesis by (metis (no_types))
qed

definition sample_first :: "uuid \<Rightarrow> (api_error + agent_event) option" where
  "sample_first i = Some (Inr (Connected i ''prod'' 0))"

definition sample_stream :: "uuid \<Rightarrow> uuid \<Rightarrow> u64 \<Rightarrow> agent_stream" where
  "sample_stream i cl g = \<lparr>st_agent = i, st_cluster = cl, st_generation = g, st_forwarding = True, st_events = True\<rparr>"

definition sample_conn :: "timestamp \<Rightarrow> uuid \<Rightarrow> uuid \<Rightarrow> u64 \<Rightarrow> unit agent_connection" where
  "sample_conn now i cl g = \<lparr>conn_generation = g, conn_info = sample_info i, conn_health = None,
      conn_command_tx = (), conn_last_heartbeat = now, conn_cluster_id = Some cl\<rparr>"

lemma sample_open:
  "agents r i = None \<Longrightarrow> agent_stream_authenticated now () (sample_first i) cl r
     = (Inr (sample_stream i cl (next_generation r)),
        \<lparr>agents = (agents r)(i \<mapsto> sample_conn now i cl (next_generation r)), next_generation = next_generation r + 1\<rparr>)"
  by (simp add: agent_stream_authenticated_def sample_first_def register_with_cluster_def Let_def
      sample_stream_def sample_conn_def sample_info_def)

lemma agent_run_1: "agent_step l s s' \<Longrightarrow> agent_run 1 [l] s s'"
  using agent_run.step [OF agent_run.refl, of l s s'] by simp

definition sample_sys1 :: "unit agent_sys" where
  "sample_sys1 = \<lparr>sys_registry = \<lparr>agents = [2 \<mapsto> sample_conn 0 2 9 0], next_generation = 1\<rparr>,
      sys_streams = [sample_stream 2 9 0]\<rparr>"

lemma sample_sys1_run: "agent_run 1 [Some 9] agent_sys_new sample_sys1"
proof (rule agent_run_1)
  have "agent_stream_authenticated 0 () (sample_first 2) 9 (sys_registry agent_sys_new)
      = (Inr (sample_stream 2 9 0), sys_registry sample_sys1)"
    by (simp add: sample_open agent_sys_new_def agent_registry_new_def sample_sys1_def)
  from agent_step.open_stream [OF this] show "agent_step (Some 9) agent_sys_new sample_sys1"
    by (simp add: agent_sys_new_def sample_sys1_def)
qed

theorem other_clusters_keep_binding_witness:
  "\<exists>s' t. agent_run 1 [Some 8] sample_sys1 s' \<and> length (sys_streams s') = 2
     \<and> agents (sys_registry s') 2 = Some ((sample_conn 0 2 9 0)\<lparr>conn_last_heartbeat := t\<rparr>)"
proof -
  have op: "agent_stream_authenticated 5 () (sample_first 1) 8 (sys_registry sample_sys1)
      = (Inr (sample_stream 1 8 1), \<lparr>agents = [2 \<mapsto> sample_conn 0 2 9 0, 1 \<mapsto> sample_conn 5 1 8 1], next_generation = 2\<rparr>)"
    by (simp add: sample_open sample_sys1_def)
  let ?s' = "\<lparr>sys_registry = \<lparr>agents = [2 \<mapsto> sample_conn 0 2 9 0, 1 \<mapsto> sample_conn 5 1 8 1], next_generation = 2\<rparr>,
      sys_streams = sys_streams sample_sys1 @ [sample_stream 1 8 1]\<rparr>"
  have run: "agent_run 1 [Some 8] sample_sys1 ?s'"
    by (rule agent_run_1, rule agent_step.open_stream [OF op])
  have c: "agents (sys_registry sample_sys1) 2 = Some (sample_conn 0 2 9 0)"
    "conn_cluster_id (sample_conn 0 2 9 0) = Some 9"
    by (simp_all add: sample_sys1_def sample_conn_def)
  from other_clusters_keep_binding [OF sample_sys1_run c run] obtain t where
    "agents (sys_registry ?s') 2 = Some ((sample_conn 0 2 9 0)\<lparr>conn_last_heartbeat := t\<rparr>)" by auto
  with run show ?thesis by (intro exI [of _ ?s'] exI [of _ t]) (simp add: sample_sys1_def)
qed

text \<open>
  C14. The end of a stream's task removes that stream's own connection and no other: an entry that
  a reconnect created through another stream stays, whichever task of the older stream ends and
  however late.
\<close>
theorem stale_stream_keeps_reconnect:
  assumes "agent_run n ls agent_sys_new s" and "n < 2 ^ 64"
    and "j < length (sys_streams s)" and "k < length (sys_streams s)"
    and "agents (sys_registry s) i = Some c" and "conn_generation c = st_generation (sys_streams s ! k)"
  shows "agents (forwarder_end (sys_streams s ! j) (sys_registry s)) i = (if j = k then None else Some c)
    \<and> (pump_event now item (sys_streams s ! j) (sys_registry s) = (False, r') \<longrightarrow>
         agents r' i = (if j = k then None else Some c))"
proof -
  from agent_run_inv [OF assms(1) _ assms(2)] have inv: "sys_inv s" by simp
  have un: "agents (snd (unregister_if (st_agent (sys_streams s ! j)) (st_generation (sys_streams s ! j))
           (sys_registry s))) i = (if j = k then None else Some c)"
  proof (cases "j = k")
    case True
    from inv assms(5) obtain st where st: "st \<in> set (sys_streams s)"
      "st_generation st = conn_generation c" "st_agent st = i"
      unfolding sys_inv_def by blast
    from inv have "inj_on st_generation (set (sys_streams s))" by (simp add: sys_inv_def distinct_map)
    then have "st = sys_streams s ! k" by (rule inj_onD) (simp_all add: st assms(4,6))
    with st True assms(5,6) show ?thesis by (simp add: unregister_if_def)
  next
    case False
    from stale_cleanup [OF inv assms(3,4) False assms(5,6)] False show ?thesis by simp
  qed
  have "agents r' i = (if j = k then None else Some c)"
    if "pump_event now item (sys_streams s ! j) (sys_registry s) = (False, r')"
  proof -
    from that have "r' = snd (unregister_if (st_agent (sys_streams s ! j)) (st_generation (sys_streams s ! j))
           (sys_registry s))"
      by (auto simp: pump_event_def split: option.splits sum.splits agent_event.splits if_splits)
    with un show ?thesis by simp
  qed
  with un show ?thesis unfolding forwarder_end_def by (intro conjI impI)
qed

theorem stale_stream_keeps_reconnect_witness:
  "agents (forwarder_end (sys_streams sample_sys1 ! 0) (sys_registry sample_sys1)) 2 = None"
proof -
  have c: "agents (sys_registry sample_sys1) 2 = Some (sample_conn 0 2 9 0)"
    "conn_generation (sample_conn 0 2 9 0) = st_generation (sys_streams sample_sys1 ! 0)"
    by (simp_all add: sample_sys1_def sample_conn_def sample_stream_def)
  show ?thesis
    using stale_stream_keeps_reconnect [OF sample_sys1_run _ _ _ c, of 0]
    by (simp add: sample_sys1_def)
qed

text \<open>
  A heartbeat is not bound to the connection that announced it: for any two clusters there is
  a run in which a stream of the one, whose own connection is gone, keeps the other's connection
  under the same agent identifier healthy when it would have expired.
\<close>
theorem heartbeat_crosses_clusters:
  "\<exists>s s' :: unit agent_sys. agent_run 3 [Some a, Some a, Some b] agent_sys_new s
     \<and> agent_step (Some a) s s'
     \<and> (\<exists>c. agents (sys_registry s) i = Some c \<and> conn_cluster_id c = Some b)
     \<and> \<not> is_healthy (90 * 1000000000) i (sys_registry s)
     \<and> is_healthy (90 * 1000000000) i (sys_registry s')"
proof -
  let ?r1 = "\<lparr>agents = [i \<mapsto> sample_conn 0 i a 0], next_generation = 1\<rparr>"
  let ?s1 = "\<lparr>sys_registry = ?r1, sys_streams = [sample_stream i a 0]\<rparr>"
  let ?st = "(sample_stream i a 0)\<lparr>st_forwarding := False\<rparr>"
  let ?s2 = "\<lparr>sys_registry = \<lparr>agents = Map.empty, next_generation = 1\<rparr>, sys_streams = [?st]\<rparr>"
  let ?r3 = "\<lparr>agents = [i \<mapsto> sample_conn 0 i b 1], next_generation = 2\<rparr>"
  let ?s3 = "\<lparr>sys_registry = ?r3, sys_streams = [?st, sample_stream i b 1]\<rparr>"
  let ?t = "90 * 1000000000 :: int"
  let ?s4 = "\<lparr>sys_registry = heartbeat ?t i ?r3,
      sys_streams = (sys_streams ?s3)[0 := (sys_streams ?s3 ! 0)\<lparr>st_events := True\<rparr>]\<rparr>"
  have "agent_stream_authenticated 0 () (sample_first i) a (sys_registry agent_sys_new)
      = (Inr (sample_stream i a 0), ?r1)"
    by (simp add: sample_open agent_sys_new_def agent_registry_new_def)
  from agent_step.open_stream [OF this] have 1: "agent_step (Some a) agent_sys_new ?s1"
    by (simp add: agent_sys_new_def)
  from agent_step.forward_end [of 0 ?s1] have 2: "agent_step (Some a) ?s1 ?s2"
    by (simp add: sample_stream_def forwarder_end_def unregister_if_def sample_conn_def)
  have "agent_stream_authenticated 0 () (sample_first i) b (sys_registry ?s2)
      = (Inr (sample_stream i b 1), ?r3)"
    by (simp add: sample_open)
  from agent_step.open_stream [OF this] have 3: "agent_step (Some b) ?s2 ?s3" by simp
  have "pump_event ?t (Some (Inr (Heartbeat i 0))) (sys_streams ?s3 ! 0) (sys_registry ?s3)
      = (True, heartbeat ?t i ?r3)"
    by (simp add: pump_event_def sample_stream_def)
  from agent_step.event [OF _ _ this] have 4: "agent_step (Some a) ?s3 ?s4"
    by (simp add: sample_stream_def)
  have run: "agent_run 3 [Some a, Some a, Some b] agent_sys_new ?s3"
    using agent_run.step [OF agent_run.step [OF agent_run_1 [OF 1] 2] 3]
    by (simp add: numeral_3_eq_3)
  have "is_healthy ?t i (sys_registry ?s4)"
    by (simp add: is_healthy_def heartbeat_def elapsed_std_def heartbeat_timeout_def
        HEARTBEAT_INTERVAL_def MISSED_HEARTBEATS_THRESHOLD_def)
  moreover have "\<not> is_healthy ?t i (sys_registry ?s3)"
    by (simp add: is_healthy_def sample_conn_def elapsed_std_def heartbeat_timeout_def
        HEARTBEAT_INTERVAL_def MISSED_HEARTBEATS_THRESHOLD_def)
  ultimately show ?thesis
    using run 4 by (intro exI [of _ ?s3] exI [of _ ?s4]) (simp add: sample_conn_def)
qed

text \<open>
  A stream is served exactly to a request whose verified claims name a cluster, whose first
  convertible event announces an agent that is free or already bound to that cluster; the agent is
  then bound to the cluster of the claims under the stream's generation. Otherwise no entry changes.
\<close>
theorem grpc_agent_stream_binds:
  "if (\<exists>cl i name t claims. rq_agent_claims request = Some claims \<and> parse (ac_cluster_id claims) = Inr cl
        \<and> first_domain_event parse ts items = Some (Inr (Connected i name t))
        \<and> (agents r i = None \<or> (\<exists>c. agents r i = Some c \<and> conn_cluster_id c = Some cl)))
   then (\<exists>st r' cl c. grpc_agent_stream parse ts now tx request items r = (Inr st, r')
      \<and> (\<exists>claims. rq_agent_claims request = Some claims \<and> parse (ac_cluster_id claims) = Inr cl)
      \<and> agents r' = (agents r)(st_agent st \<mapsto> c) \<and> conn_cluster_id c = Some cl \<and> st_cluster st = cl
      \<and> conn_generation c = st_generation st)
   else (\<exists>e r'. grpc_agent_stream parse ts now tx request items r = (Inl e, r') \<and> agents r' = agents r)"
  (is "if ?ok then ?bound else ?refused")
proof (cases ?ok)
  case True
  then obtain cl i name t claims where ok: "rq_agent_claims request = Some claims"
    "parse (ac_cluster_id claims) = Inr cl"
    "first_domain_event parse ts items = Some (Inr (Connected i name t))"
    "agents r i = None \<or> (\<exists>c. agents r i = Some c \<and> conn_cluster_id c = Some cl)" by blast
  let ?c = "\<lparr>conn_generation = next_generation r, conn_info = \<lparr>info_agent_id = i, info_cluster_name = name,
      info_node_name = [], info_version = [], info_last_seen = t\<rparr>, conn_health = None,
      conn_command_tx = tx, conn_last_heartbeat = now, conn_cluster_id = Some cl\<rparr>"
  let ?st = "\<lparr>st_agent = i, st_cluster = cl, st_generation = next_generation r,
      st_forwarding = True, st_events = True\<rparr>"
  let ?r' = "r\<lparr>next_generation := next_generation r + 1, agents := (agents r)(i \<mapsto> ?c)\<rparr>"
  from ok have "grpc_agent_stream parse ts now tx request items r = (Inr ?st, ?r')"
    by (auto simp: grpc_agent_stream_def authenticated_cluster_id_def agent_stream_authenticated_def
        register_with_cluster_def Let_def)
  with ok have bound: ?bound
    by (intro exI [of _ ?st] exI [of _ ?r'] exI [of _ cl] exI [of _ ?c]) simp
  show ?thesis unfolding if_P [OF True] by (rule bound)
next
  case False
  have refused: ?refused
  proof (cases "authenticated_cluster_id parse request")
    case (Inl e)
    then show ?thesis by (simp add: grpc_agent_stream_def)
  next
    case (Inr cl)
    then have cl: "\<exists>claims. rq_agent_claims request = Some claims \<and> parse (ac_cluster_id claims) = Inr cl"
      by (auto simp: authenticated_cluster_id_def result_bind_Inr ok_or_def split: option.splits sum.splits)
    obtain res r' where a: "agent_stream_authenticated now tx (first_domain_event parse ts items) cl r = (res, r')"
      by (cases "agent_stream_authenticated now tx (first_domain_event parse ts items) cl r")
    have "\<exists>e. res = Inl e"
    proof (rule ccontr)
      assume "\<nexists>e. res = Inl e"
      then obtain st where "res = Inr st" by (cases res) auto
      with a have "\<exists>i name t. first_domain_event parse ts items = Some (Inr (Connected i name t))
        \<and> (agents r i = None \<or> (\<exists>c. agents r i = Some c \<and> conn_cluster_id c = Some cl))"
        by (auto simp: agent_stream_authenticated_def register_with_cluster_def Let_def
            split: option.splits sum.splits agent_event.splits if_splits)
      with cl False show False by blast
    qed
    then obtain e where e: "res = Inl e" by blast
    from open_refused_le [OF a [unfolded e]] a e Inr show ?thesis
      by (simp add: grpc_agent_stream_def)
  qed
  show ?thesis unfolding if_not_P [OF False] by (rule refused)
qed

end
