(* ===== verification/Backoff.thy ===== *)
theory Backoff
  imports Pagination
begin

text \<open>
  \<open>crates/reinhardt-cloud-operator/src/error.rs\<close> and, of \<open>reconciler.rs\<close>, the error policy with
  its backoff and the phase and replica gauges. A trait object \<open>dyn Error\<close> is a value of type
  \<open>dyn_error\<close>: one of the operator's own errors or a foreign error with its source; \<open>kube::Error\<close>
  is reduced to the status code of an API error. The concurrent maps of the context are
  functions, and the gauges count in integers.
\<close>

section \<open>Errors and their classes\<close>

datatype kube_error = KubeApi u16 | KubeOther string

datatype operator_error =
    Kube kube_error
  | Serialization string
  | Finalizer dyn_error
  | MissingField string
  | MissingNamespace string
  | OwnerReference string
  | ResourceOwnershipConflict string string string string string
  | InvalidPort string i32
  | InvalidProbePeriod string i32
  | InvalidStaticRoot string
  | ConflictingPagesEnv "string list"
  | ServiceAccountOwnership string string string
  | InvalidImagePullSecret string string string
  | DatabaseProvisioning string
  | PlatformControllerMissing string
  | SecretGeneration string
  | CredentialsMissing string
  | InvalidCredentialsSecret string string
  | BuildFailed string
  | PluginConfigRender string
  | InvalidPluginSpec string
  | ETenantMismatch string string
  | EInvalidTenant string
  | InvalidIngressHost string
  | InvalidBudget string
  | PreviewProjectsTerminating string nat
  | NamespaceNotProvisioned string
and dyn_error = OwnError operator_error | ForeignError string "dyn_error option"

datatype backoff_kind = Transient | DependencyNotReady | Permanent | OwnershipConflict

fun as_metric_label :: "backoff_kind \<Rightarrow> string" where
  "as_metric_label Transient = ''transient''"
| "as_metric_label DependencyNotReady = ''dependency_not_ready''"
| "as_metric_label Permanent = ''permanent''"
| "as_metric_label OwnershipConflict = ''ownership_conflict''"

definition kube_status_class :: "kube_error \<Rightarrow> backoff_kind" where
  "kube_status_class err =
     (case err of
        KubeApi code \<Rightarrow> if code = 404 \<or> code = 409 then DependencyNotReady else Transient
      | KubeOther _ \<Rightarrow> Transient)"

fun backoff_class :: "operator_error \<Rightarrow> backoff_kind"
  and nested_backoff_class :: "dyn_error \<Rightarrow> backoff_kind" where
  "backoff_class error =
     (case error of
        MissingField _ \<Rightarrow> Permanent
      | InvalidPort _ _ \<Rightarrow> Permanent
      | InvalidProbePeriod _ _ \<Rightarrow> Permanent
      | InvalidStaticRoot _ \<Rightarrow> Permanent
      | ConflictingPagesEnv _ \<Rightarrow> Permanent
      | InvalidPluginSpec _ \<Rightarrow> Permanent
      | DatabaseProvisioning _ \<Rightarrow> Permanent
      | ServiceAccountOwnership _ _ _ \<Rightarrow> Permanent
      | InvalidImagePullSecret _ _ _ \<Rightarrow> Permanent
      | ETenantMismatch _ _ \<Rightarrow> Permanent
      | EInvalidTenant _ \<Rightarrow> Permanent
      | InvalidBudget _ \<Rightarrow> Permanent
      | InvalidIngressHost _ \<Rightarrow> Permanent
      | InvalidCredentialsSecret _ _ \<Rightarrow> Permanent
      | ResourceOwnershipConflict _ _ _ _ _ \<Rightarrow> OwnershipConflict
      | Kube kube_err \<Rightarrow> kube_status_class kube_err
      | PreviewProjectsTerminating _ _ \<Rightarrow> DependencyNotReady
      | NamespaceNotProvisioned _ \<Rightarrow> DependencyNotReady
      | Finalizer source \<Rightarrow> nested_backoff_class source
      | _ \<Rightarrow> Transient)"
| "nested_backoff_class (OwnError error) = backoff_class error"
| "nested_backoff_class (ForeignError _ next) =
     (case next of None \<Rightarrow> Transient | Some source \<Rightarrow> nested_backoff_class source)"

declare backoff_class.simps [simp del]

section \<open>Backoff\<close>

definition BACKOFF_BASE_TRANSIENT_SECS :: u64 where "BACKOFF_BASE_TRANSIENT_SECS = 30"

definition BACKOFF_BASE_DEPENDENCY_SECS :: u64 where "BACKOFF_BASE_DEPENDENCY_SECS = 60"

definition BACKOFF_MAX_SECS :: u64 where "BACKOFF_MAX_SECS = 600"

definition OWNERSHIP_CONFLICT_REQUEUE_SECS :: u64 where "OWNERSHIP_CONFLICT_REQUEUE_SECS = 300"

definition checked_shl :: "u64 \<Rightarrow> u32 \<Rightarrow> u64 option" where
  "checked_shl x n = (if unat n < 64 then Some (push_bit (unat n) x) else None)"

definition compute_backoff :: "u64 \<Rightarrow> u32 \<Rightarrow> u64" where
  "compute_backoff base_secs attempt =
     (let factor = unwrap_or (- 1) (checked_shl 1 (min attempt 20))
      in min (saturating_mul base_secs factor) BACKOFF_MAX_SECS)"

type_synonym object_key = "string \<times> string"

definition backoff_key :: "string option \<Rightarrow> string \<Rightarrow> object_key" where
  "backoff_key namespace name_any = (unwrap_or [] namespace, name_any)"

record operator_state =
  backoff_state :: "object_key \<Rightarrow> u32 option"
  phase_state :: "object_key \<Rightarrow> string option"
  managed_apps :: "string \<Rightarrow> int"
  requeue_total :: "string \<Rightarrow> nat"
  managed_apps_ready_replicas :: "string \<times> string \<Rightarrow> i32 option"
  managed_apps_desired_replicas :: "string \<times> string \<Rightarrow> i32 option"

datatype action = AwaitChange | Requeue u64

definition saturating_add_1 :: "u32 \<Rightarrow> u32" where
  "saturating_add_1 n = (if n = - 1 then - 1 else n + 1)"

definition saturating_sub_1 :: "u32 \<Rightarrow> u32" where
  "saturating_sub_1 n = (if n = 0 then 0 else n - 1)"

definition inc_requeue :: "backoff_kind \<Rightarrow> operator_state \<Rightarrow> operator_state" where
  "inc_requeue cls ctx =
     ctx\<lparr>requeue_total := (requeue_total ctx)(as_metric_label cls := requeue_total ctx (as_metric_label cls) + 1)\<rparr>"

definition error_policy :: "object_key \<Rightarrow> operator_error \<Rightarrow> operator_state \<Rightarrow> action \<times> operator_state" where
  "error_policy key error ctx =
     (let cls = backoff_class error
      in case cls of
           Permanent \<Rightarrow> (AwaitChange, ctx\<lparr>backoff_state := (backoff_state ctx)(key := None)\<rparr>)
         | OwnershipConflict \<Rightarrow>
             (Requeue OWNERSHIP_CONFLICT_REQUEUE_SECS,
              inc_requeue cls (ctx\<lparr>backoff_state := (backoff_state ctx)(key := None)\<rparr>))
         | _ \<Rightarrow>
             (let attempt = saturating_add_1 (unwrap_or 0 (backoff_state ctx key));
                  base = (if cls = DependencyNotReady then BACKOFF_BASE_DEPENDENCY_SECS
                          else BACKOFF_BASE_TRANSIENT_SECS)
              in (Requeue (compute_backoff base (saturating_sub_1 attempt)),
                  inc_requeue cls (ctx\<lparr>backoff_state := (backoff_state ctx)(key \<mapsto> attempt)\<rparr>))))"

section \<open>Gauges\<close>

definition update_managed_apps_gauge :: "object_key \<Rightarrow> string \<Rightarrow> operator_state \<Rightarrow> operator_state" where
  "update_managed_apps_gauge key new_phase ctx =
     (let previous = phase_state ctx key;
          ctx1 = ctx\<lparr>phase_state := (phase_state ctx)(key \<mapsto> new_phase)\<rparr>;
          changed = (previous \<noteq> Some new_phase);
          ctx2 = (case previous of
                    Some prev \<Rightarrow> if changed
                      then ctx1\<lparr>managed_apps := (managed_apps ctx1)(prev := managed_apps ctx1 prev - 1)\<rparr>
                      else ctx1
                  | None \<Rightarrow> ctx1)
      in if changed
         then ctx2\<lparr>managed_apps := (managed_apps ctx2)(new_phase := managed_apps ctx2 new_phase + 1)\<rparr>
         else ctx2)"

definition drop_managed_apps_gauge :: "object_key \<Rightarrow> operator_state \<Rightarrow> operator_state" where
  "drop_managed_apps_gauge key ctx =
     (case phase_state ctx key of
        None \<Rightarrow> ctx
      | Some prev \<Rightarrow>
          ctx\<lparr>phase_state := (phase_state ctx)(key := None),
              managed_apps := (managed_apps ctx)(prev := managed_apps ctx prev - 1)\<rparr>)"

definition update_replica_gauges ::
  "string \<Rightarrow> string option \<Rightarrow> i32 \<Rightarrow> i32 \<Rightarrow> operator_state \<Rightarrow> operator_state" where
  "update_replica_gauges namespace name ready desired ctx =
     (let labels = (namespace, unwrap_or [] name)
      in ctx\<lparr>managed_apps_ready_replicas := (managed_apps_ready_replicas ctx)(labels \<mapsto> ready),
             managed_apps_desired_replicas := (managed_apps_desired_replicas ctx)(labels \<mapsto> desired)\<rparr>)"

definition drop_replica_gauges :: "string \<Rightarrow> string option \<Rightarrow> operator_state \<Rightarrow> operator_state" where
  "drop_replica_gauges namespace name ctx =
     (let labels = (namespace, unwrap_or [] name)
      in ctx\<lparr>managed_apps_ready_replicas := (managed_apps_ready_replicas ctx)(labels := None),
             managed_apps_desired_replicas := (managed_apps_desired_replicas ctx)(labels := None)\<rparr>)"

section \<open>The delays\<close>

lemma unat_min_20: "unat (min a (20 :: u32)) = min (unat a) 20"
proof (cases "a \<le> 20")
  case True
  then have "unat a \<le> 20" by (simp add: word_le_nat_alt)
  with True show ?thesis by (simp add: min_def)
next
  case False
  then have "20 < unat a" by (simp add: word_le_nat_alt not_le)
  with False show ?thesis by (simp add: min_def)
qed

lemma unat_factor: "unat (unwrap_or (- 1) (checked_shl 1 (min a 20))) = 2 ^ min (unat a) 20"
proof -
  have "min (unat a) 20 \<le> (20 :: nat)" by simp
  then have "2 ^ min (unat a) 20 \<le> (2 :: nat) ^ 20" by (rule power_increasing) simp
  then have "2 ^ min (unat a) 20 < (2 :: nat) ^ 64" by simp
  then have t: "take_bit 64 (2 ^ min (unat a) 20 :: nat) = 2 ^ min (unat a) 20"
    by (rule take_bit_nat_eq_self)
  have "unat (push_bit n 1 :: u64) = take_bit 64 (2 ^ n)" for n
    by (simp only: unsigned_push_bit_eq) (simp add: push_bit_of_1)
  with t have "unat (push_bit (min (unat a) 20) 1 :: u64) = 2 ^ min (unat a) 20" by simp
  moreover have "min (unat a) 20 < 64" by simp
  ultimately show ?thesis
    unfolding checked_shl_def unat_min_20 if_P [OF \<open>min (unat a) 20 < 64\<close>] unwrap_or_simps by simp
qed

lemma unat_compute_backoff:
  "unat (compute_backoff b a) = min (unat b * 2 ^ min (unat a) 20) 600"
proof -
  have m: "unat (min x (600 :: u64)) = min (unat x) 600" for x
    by (auto simp: min_def word_le_nat_alt)
  show ?thesis
    by (simp add: compute_backoff_def Let_def BACKOFF_MAX_SECS_def m unat_saturating_mul unat_factor)
qed

definition retryable :: "operator_error \<Rightarrow> bool" where
  "retryable e \<longleftrightarrow> backoff_class e = Transient \<or> backoff_class e = DependencyNotReady"

definition base_secs :: "operator_error \<Rightarrow> nat" where
  "base_secs e = (if backoff_class e = DependencyNotReady then 60 else 30)"

fun policy_run :: "object_key \<Rightarrow> operator_error list \<Rightarrow> operator_state \<Rightarrow> action list \<times> operator_state" where
  "policy_run key [] ctx = ([], ctx)"
| "policy_run key (e # es) ctx =
     (case error_policy key e ctx of (a, ctx1) \<Rightarrow>
        (case policy_run key es ctx1 of (as, ctx2) \<Rightarrow> (a # as, ctx2)))"

lemma error_policy_retryable:
  assumes "retryable e" and "unwrap_or 0 (backoff_state ctx key) = of_nat k" and "Suc k < 2 ^ 32"
  shows "\<exists>d ctx1. error_policy key e ctx = (Requeue d, ctx1) \<and> unat d = min (base_secs e * 2 ^ min k 20) 600
     \<and> backoff_state ctx1 = (backoff_state ctx)(key \<mapsto> of_nat (Suc k))"
proof -
  have k: "unat (of_nat k :: u32) = k" using assms(3) by (simp add: unat_of_nat)
  then have "(of_nat k :: u32) \<noteq> - 1"
    using assms(3) by (auto simp: unsigned_minus_1_eq_mask mask_eq_exp_minus_1 dest: arg_cong [of _ _ unat])
  then have a: "saturating_add_1 (of_nat k) = of_nat (Suc k)" by (simp add: saturating_add_1_def add.commute)
  have k1: "unat (of_nat (Suc k) :: u32) = Suc k" using assms(3) by (simp add: unat_of_nat del: of_nat_Suc)
  then have "(of_nat (Suc k) :: u32) \<noteq> 0" by (metis nat.distinct(1) unat_0)
  then have s: "saturating_sub_1 (of_nat (Suc k)) = of_nat k" by (simp add: saturating_sub_1_def)
  from assms(1) consider "backoff_class e = Transient" | "backoff_class e = DependencyNotReady"
    by (auto simp: retryable_def)
  then show ?thesis
    by cases (simp_all add: error_policy_def Let_def assms(2) a s unat_compute_backoff k base_secs_def
        inc_requeue_def BACKOFF_BASE_TRANSIENT_SECS_def BACKOFF_BASE_DEPENDENCY_SECS_def
        del: of_nat_Suc)
qed

lemma policy_run_retryable:
  assumes "list_all retryable es" and "unwrap_or 0 (backoff_state ctx key) = of_nat k"
    and "k + length es < 2 ^ 32" and "i < length es"
  shows "\<exists>d. fst (policy_run key es ctx) ! i = Requeue d
     \<and> unat d = min (base_secs (es ! i) * 2 ^ min (k + i) 20) 600"
  using assms
proof (induction es arbitrary: ctx k i)
  case Nil
  then show ?case by simp
next
  case (Cons e es)
  then obtain d ctx1 where e: "error_policy key e ctx = (Requeue d, ctx1)"
    "unat d = min (base_secs e * 2 ^ min k 20) 600"
    "backoff_state ctx1 = (backoff_state ctx)(key \<mapsto> of_nat (Suc k))"
    using error_policy_retryable [of e ctx key k] by auto
  obtain as ctx2 where r: "policy_run key es ctx1 = (as, ctx2)" by (cases "policy_run key es ctx1")
  show ?case
  proof (cases i)
    case 0
    with e r show ?thesis by simp
  next
    case (Suc j)
    have "unwrap_or 0 (backoff_state ctx1 key) = of_nat (Suc k)" by (simp only: e(3) fun_upd_same unwrap_or_simps)
    from Cons.IH [OF _ this, of j] Cons.prems Suc r show ?thesis
      by (simp add: e(1))
  qed
qed

section \<open>The phase gauge counts\<close>

definition gauge_ok :: "operator_state \<Rightarrow> bool" where
  "gauge_ok ctx \<longleftrightarrow> finite (dom (phase_state ctx))
     \<and> (\<forall>p. managed_apps ctx p = int (card {k. phase_state ctx k = Some p}))"

lemma phase_set_finite: "finite (dom m) \<Longrightarrow> finite {k. m k = Some p}"
  by (rule finite_subset [of _ "dom m"]) auto

lemma card_phase_upd:
  assumes "finite (dom m)"
  shows "int (card {k. (m(key := v)) k = Some p})
    = int (card {k. m k = Some p}) - (if m key = Some p then 1 else 0) + (if v = Some p then 1 else 0)"
proof -
  let ?A = "{k. m k = Some p}"
  have f: "finite ?A" using assms by (rule phase_set_finite)
  have c: "card (?A - {key}) = card ?A - (if m key = Some p then 1 else 0)"
    using f by simp
  have pos: "m key = Some p \<Longrightarrow> 1 \<le> card ?A" 
    using f by (metis (mono_tags, lifting) One_nat_def Suc_leI card_gt_0_iff empty_iff mem_Collect_eq)
  show ?thesis
  proof (cases "v = Some p")
    case True
    then have "{k. (m(key := v)) k = Some p} = insert key ?A" by auto
    with f True show ?thesis by (simp add: card_insert_if)
  next
    case False
    then have "{k. (m(key := v)) k = Some p} = ?A - {key}" by auto
    with c pos False show ?thesis by auto
  qed
qed

lemma update_gauge_ok: "gauge_ok ctx \<Longrightarrow> gauge_ok (update_managed_apps_gauge key p ctx)"
proof -
  assume ok: "gauge_ok ctx"
  then have f: "finite (dom (phase_state ctx))"
    and g: "\<And>q. managed_apps ctx q = int (card {k. phase_state ctx k = Some q})"
    by (simp_all add: gauge_ok_def)
  show ?thesis
  proof (cases "phase_state ctx key = Some p")
    case True
    then have "(phase_state ctx)(key \<mapsto> p) = phase_state ctx" by auto
    with True ok show ?thesis by (simp add: update_managed_apps_gauge_def Let_def)
  next
    case False
    then show ?thesis
      unfolding gauge_ok_def
      using f card_phase_upd [OF f, of key "Some p"]
      by (cases "phase_state ctx key") (auto simp: update_managed_apps_gauge_def Let_def g)
  qed
qed

lemma drop_gauge_ok: "gauge_ok ctx \<Longrightarrow> gauge_ok (drop_managed_apps_gauge key ctx)"
proof -
  assume ok: "gauge_ok ctx"
  then have f: "finite (dom (phase_state ctx))"
    and g: "\<And>q. managed_apps ctx q = int (card {k. phase_state ctx k = Some q})"
    by (simp_all add: gauge_ok_def)
  show ?thesis
    using ok f card_phase_upd [OF f, of key None]
    by (cases "phase_state ctx key") (auto simp: drop_managed_apps_gauge_def gauge_ok_def g)
qed

datatype gauge_op = UpdateGauge object_key string | DropGauge object_key

fun run_gauge :: "gauge_op \<Rightarrow> operator_state \<Rightarrow> operator_state" where
  "run_gauge (UpdateGauge k p) ctx = update_managed_apps_gauge k p ctx"
| "run_gauge (DropGauge k) ctx = drop_managed_apps_gauge k ctx"

section \<open>Properties\<close>

text \<open>
  Consecutive retryable failures of an object, transient or waiting for a dependency in any
  mix, are retried after the base delay of their class doubled with each failure, at most 600
  seconds; a permanent error waits for a change and an ownership conflict for 300 seconds, and
  both start the count anew. The failures of other objects do not matter.
\<close>
theorem error_policy_backs_off:
  assumes "list_all retryable es" and "length es < 2 ^ 32" and "backoff_state ctx key = None" and "i < length es"
  shows "(\<exists>d. fst (policy_run key es ctx) ! i = Requeue d \<and> unat d = min (base_secs (es ! i) * 2 ^ min i 20) 600)
    \<and> (backoff_class e = Permanent \<longrightarrow>
         fst (error_policy k e ctx') = AwaitChange \<and> backoff_state (snd (error_policy k e ctx')) k = None)
    \<and> (backoff_class e = OwnershipConflict \<longrightarrow>
         fst (error_policy k e ctx') = Requeue 300 \<and> backoff_state (snd (error_policy k e ctx')) k = None)
    \<and> (k' \<noteq> k \<longrightarrow> backoff_state (snd (error_policy k e ctx')) k' = backoff_state ctx' k')"
proof (intro conjI impI)
  have "unwrap_or 0 (backoff_state ctx key) = of_nat 0" using assms(3) by simp
  from policy_run_retryable [OF assms(1) this, of i] assms(2,4)
  show "\<exists>d. fst (policy_run key es ctx) ! i = Requeue d \<and> unat d = min (base_secs (es ! i) * 2 ^ min i 20) 600"
    by simp
qed (auto simp: error_policy_def Let_def inc_requeue_def OWNERSHIP_CONFLICT_REQUEUE_SECS_def
    split: backoff_kind.splits)

definition sample_operator_state :: operator_state where
  "sample_operator_state = \<lparr>backoff_state = Map.empty, phase_state = Map.empty, managed_apps = (\<lambda>_. 0),
     requeue_total = (\<lambda>_. 0), managed_apps_ready_replicas = Map.empty,
     managed_apps_desired_replicas = Map.empty\<rparr>"

theorem error_policy_backs_off_witness:
  "\<exists>d. fst (policy_run (''ns'', ''shop'') (replicate 5 (Kube (KubeApi 404))) sample_operator_state) ! 4 = Requeue d
     \<and> unat d = 600"
proof -
  have "backoff_class (Kube (KubeApi 404)) = DependencyNotReady"
    by (simp add: backoff_class.simps kube_status_class_def)
  then show ?thesis
    using error_policy_backs_off [of "replicate 5 (Kube (KubeApi 404))" sample_operator_state "(''ns'', ''shop'')" 4]
    by (simp add: retryable_def base_secs_def sample_operator_state_def list_all_iff)
qed

text \<open>
  The \<open>managed_apps\<close> gauge of a phase is at all times the number of objects last seen in
  that phase, after any sequence of status updates and deletions.
\<close>
theorem managed_apps_gauge_counts:
  "managed_apps (fold run_gauge ops sample_operator_state) p
     = int (card {k. phase_state (fold run_gauge ops sample_operator_state) k = Some p})"
proof -
  have "gauge_ok ctx \<Longrightarrow> gauge_ok (fold run_gauge ops ctx)" for ctx
  proof (induction ops arbitrary: ctx)
    case (Cons op ops)
    then show ?case by (cases op) (simp_all add: update_gauge_ok drop_gauge_ok)
  qed simp
  moreover have "gauge_ok sample_operator_state" by (simp add: gauge_ok_def sample_operator_state_def)
  ultimately show ?thesis by (simp add: gauge_ok_def)
qed

end
