(* ===== verification/ProjectStatus.thy ===== *)
theory ProjectStatus
  imports Backoff ProjectValidation
begin

text \<open>
  \<open>crates/reinhardt-cloud-types/src/crd/status.rs\<close> and \<open>enums.rs\<close>, the \<open>Project\<close> resource, and the
  part of the operator's \<open>reconciler.rs\<close> that computes a project's status: the migration gate,
  the condition table, \<open>build_status\<close>, the degraded patch, and the TLS and autoscaler conditions
  with \<open>resources/autoscaler.rs\<close>. Times are RFC 3339 strings; the reading of the clock that
  \<open>Utc::now().to_rfc3339()\<close> renders is the argument \<open>now\<close>.

  The status is written with JSON merge patches. \<open>status_patch\<close> is the serialized body by field:
  absent, null or a value, as the serde attributes of \<open>ProjectStatus\<close> decide.
\<close>

type_synonym i64 = "64 word"

section \<open>The status\<close>

datatype condition_type =
    Ready | Progressing | Degraded | MigrationReady | DatabaseReady | CacheReady | WorkerReady
  | IngressReady | TlsReady | AutoscalerReady

datatype condition_status = CondTrue | CondFalse | CondUnknown

datatype crd_build_phase = BPending | BRunning | BSucceeded | BFailed

datatype build_target_kind = Production | Preview

record crd_build_status =
  cb_phase :: crd_build_phase
  cb_target :: build_target_kind
  cb_trigger :: string
  cb_job_name :: string
  cb_image :: string
  cb_image_tag :: string
  cb_preview_name :: "string option"
  cb_pr_number :: "string option"
  cb_branch :: "string option"
  cb_reason :: "string option"
  cb_message :: "string option"
  cb_started_at :: "string option"
  cb_last_transition_time :: "string option"

record project_condition =
  pc_type :: condition_type
  pc_status :: condition_status
  pc_reason :: string
  pc_message :: string
  pc_last_transition_time :: "string option"
  pc_observed_generation :: "i64 option"

datatype project_phase =
    PhPending | PhProvisioning | PhDeploying | PhRunning | PhDegraded | PhFailed | PhTerminating

record preview_status =
  pvs_name :: string
  pvs_pr_number :: string
  pvs_url :: "string option"
  pvs_phase :: "project_phase option"
  pvs_ready_replicas :: "i32 option"
  pvs_last_activity :: "string option"

record worker_status =
  ws_ready_replicas :: "i32 option"

record project_status =
  st_phase :: "project_phase option"
  st_conditions :: "project_condition list"
  st_observed_generation :: "i64 option"
  st_ready_replicas :: "i32 option"
  st_build :: "crd_build_status option"
  st_database :: "database_status option"
  st_cache :: "cache_status option"
  st_redis_uid :: "string option"
  st_redis_digest :: "string option"
  st_worker :: "worker_status option"
  st_previews :: "preview_status list"

definition project_status_default :: project_status where
  "project_status_default =
     \<lparr>st_phase = None, st_conditions = [], st_observed_generation = None, st_ready_replicas = None,
      st_build = None, st_database = None, st_cache = None, st_redis_uid = None,
      st_redis_digest = None, st_worker = None, st_previews = []\<rparr>"

section \<open>The Project resource\<close>

type_synonym label_map = "string \<Rightarrow> string option"

record owner_reference =
  or_api_version :: string
  or_kind :: string
  or_name :: string
  or_uid :: string
  or_controller :: "bool option"

record object_meta =
  om_name :: "string option"
  om_generate_name :: "string option"
  om_namespace :: "string option"
  om_uid :: "string option"
  om_generation :: "i64 option"
  om_labels :: "label_map option"
  om_annotations :: "label_map option"
  om_owner_references :: "owner_reference list option"
  om_resource_version :: "string option"

definition object_meta_default :: object_meta where
  "object_meta_default =
     \<lparr>om_name = None, om_generate_name = None, om_namespace = None, om_uid = None,
      om_generation = None, om_labels = None, om_annotations = None, om_owner_references = None,
      om_resource_version = None\<rparr>"

record project =
  pj_metadata :: object_meta
  pj_spec :: project_spec
  pj_status :: "project_status option"

text \<open>\<open>ResourceExt::name_any\<close>: the name, else the generate name, else empty.\<close>

definition name_any :: "project \<Rightarrow> string" where
  "name_any app =
     (case om_name (pj_metadata app) of
        Some n \<Rightarrow> n
      | None \<Rightarrow> unwrap_or [] (om_generate_name (pj_metadata app)))"

definition app_conditions :: "project \<Rightarrow> project_condition list" where
  "app_conditions app = (case pj_status app of None \<Rightarrow> [] | Some s \<Rightarrow> st_conditions s)"

definition app_build :: "project \<Rightarrow> crd_build_status option" where
  "app_build app = Option.bind (pj_status app) st_build"

section \<open>The condition table\<close>

fun upsert_project_condition :: "project_condition \<Rightarrow> project_condition list \<Rightarrow> project_condition list" where
  "upsert_project_condition next [] = [next]"
| "upsert_project_condition next (c # cs) =
     (if pc_type c = pc_type next then next # cs else c # upsert_project_condition next cs)"

definition find_condition :: "condition_type \<Rightarrow> project_condition list \<Rightarrow> project_condition option" where
  "find_condition t cs = find (\<lambda>c. pc_type c = t) cs"

definition should_update_transition_time ::
  "condition_status option \<Rightarrow> condition_status \<Rightarrow> bool" where
  "should_update_transition_time existing new \<longleftrightarrow> existing \<noteq> Some new"

definition build_condition ::
  "project \<Rightarrow> string \<Rightarrow> condition_type \<Rightarrow> condition_status \<Rightarrow> string \<Rightarrow> string \<Rightarrow> project_condition" where
  "build_condition app now t status reason message =
     (let existing = find_condition t (app_conditions app)
      in \<lparr>pc_type = t, pc_status = status, pc_reason = reason, pc_message = message,
          pc_last_transition_time =
            (if should_update_transition_time (map_option pc_status existing) status
             then Some now else Option.bind existing pc_last_transition_time),
          pc_observed_generation = om_generation (pj_metadata app)\<rparr>)"

section \<open>The migration gate\<close>

datatype migration_gate_state = NotRequired | MRunning | MSucceeded | MFailed

fun migration_condition_status :: "migration_gate_state \<Rightarrow> condition_status" where
  "migration_condition_status NotRequired = CondTrue"
| "migration_condition_status MSucceeded = CondTrue"
| "migration_condition_status MRunning = CondFalse"
| "migration_condition_status MFailed = CondFalse"

fun migration_reason :: "migration_gate_state \<Rightarrow> string" where
  "migration_reason NotRequired = ''MigrationNotRequired''"
| "migration_reason MRunning = ''MigrationRunning''"
| "migration_reason MSucceeded = ''MigrationSucceeded''"
| "migration_reason MFailed = ''MigrationFailed''"

fun migration_message :: "migration_gate_state \<Rightarrow> string" where
  "migration_message NotRequired = ''No database migration is required for this project''"
| "migration_message MRunning = ''Waiting for the deployment revision migration to complete''"
| "migration_message MSucceeded = ''Deployment revision migration completed successfully''"
| "migration_message MFailed = ''Deployment revision migration failed; rollout is blocked''"

section \<open>The desired status\<close>

definition degraded_update ::
  "project \<Rightarrow> string \<Rightarrow> bool \<Rightarrow> string \<Rightarrow> string \<Rightarrow> migration_gate_state
     \<Rightarrow> project_condition list \<Rightarrow> project_condition list" where
  "degraded_update app now ready reason message migration_state conditions =
     (if migration_state = MFailed
      then upsert_project_condition
             (build_condition app now Degraded CondTrue ''MigrationFailed''
                ''Migration failed for the target deployment revision'') conditions
      else (case find_condition Degraded (app_conditions app) of
              Some existing \<Rightarrow>
                if ready
                then upsert_project_condition
                       \<lparr>pc_type = Degraded, pc_status = CondFalse, pc_reason = reason, pc_message = message,
                        pc_last_transition_time =
                          (if should_update_transition_time (Some (pc_status existing)) CondFalse
                           then Some now else pc_last_transition_time existing),
                        pc_observed_generation = om_generation (pj_metadata app)\<rparr> conditions
                else conditions
            | None \<Rightarrow> conditions))"

definition status_reason :: "bool \<Rightarrow> migration_gate_state \<Rightarrow> string" where
  "status_reason ready m =
     (if ready then ''ReconcileSuccess'' else if m = MFailed then ''MigrationFailed'' else ''ReconcileInProgress'')"

definition status_message :: "bool \<Rightarrow> migration_gate_state \<Rightarrow> string" where
  "status_message ready m =
     (if ready then ''Application is ready''
      else if m = MFailed then ''Migration failed; rollout is blocked''
      else ''Waiting for deployment rollout to complete'')"

definition build_project_status ::
  "project \<Rightarrow> string \<Rightarrow> bool \<Rightarrow> i32 \<Rightarrow> migration_gate_state \<Rightarrow> project_condition list \<Rightarrow> project_status" where
  "build_project_status app now ready ready_replicas migration_state child_conditions =
     (let phase = (if migration_state = MFailed then PhDegraded else if ready then PhRunning else PhDeploying);
          condition_status = (if ready then CondTrue else CondFalse);
          reason = status_reason ready migration_state;
          message = status_message ready migration_state;
          database = (if ps_database (pj_spec app) \<noteq> None
            then Some \<lparr>dbs_phase = RReady, dbs_endpoint = None,
                       dbs_credentials_secret = Some (name_any app @ ''-db-credentials'')\<rparr>
            else None);
          c1 = upsert_project_condition (build_condition app now Ready condition_status reason message)
                 (app_conditions app);
          c2 = upsert_project_condition
                 (build_condition app now MigrationReady (migration_condition_status migration_state)
                    (migration_reason migration_state) (migration_message migration_state)) c1;
          c3 = degraded_update app now ready reason message migration_state c2;
          conditions = fold upsert_project_condition child_conditions c3
      in project_status_default\<lparr>st_phase := Some phase, st_conditions := conditions,
           st_observed_generation := om_generation (pj_metadata app),
           st_ready_replicas := Some ready_replicas, st_build := app_build app, st_database := database,
           st_redis_uid := Option.bind (pj_status app) st_redis_uid,
           st_redis_digest := Option.bind (pj_status app) st_redis_digest,
           st_previews := (case pj_status app of None \<Rightarrow> [] | Some s \<Rightarrow> st_previews s)\<rparr>)"

fun phase_label :: "project_phase \<Rightarrow> string" where
  "phase_label PhPending = ''Pending''"
| "phase_label PhProvisioning = ''Provisioning''"
| "phase_label PhDeploying = ''Deploying''"
| "phase_label PhRunning = ''Running''"
| "phase_label PhDegraded = ''Degraded''"
| "phase_label PhFailed = ''Failed''"
| "phase_label PhTerminating = ''Terminating''"

section \<open>Patches of the status\<close>

datatype 'a patch_field = Absent | Null | Value 'a

definition or_null :: "'a option \<Rightarrow> 'a patch_field" where
  "or_null x = (case x of None \<Rightarrow> Null | Some v \<Rightarrow> Value v)"

definition unless_none :: "'a option \<Rightarrow> 'a patch_field" where
  "unless_none x = (case x of None \<Rightarrow> Absent | Some v \<Rightarrow> Value v)"

definition unless_empty :: "'a list \<Rightarrow> 'a list patch_field" where
  "unless_empty xs = (if xs = [] then Absent else Value xs)"

record status_patch =
  sp_phase :: "project_phase patch_field"
  sp_conditions :: "project_condition list patch_field"
  sp_observed_generation :: "i64 patch_field"
  sp_ready_replicas :: "i32 patch_field"
  sp_build :: "crd_build_status patch_field"
  sp_database :: "database_status patch_field"
  sp_cache :: "cache_status patch_field"
  sp_redis_uid :: "string patch_field"
  sp_redis_digest :: "string patch_field"
  sp_worker :: "worker_status patch_field"
  sp_previews :: "preview_status list patch_field"

definition empty_patch :: status_patch where
  "empty_patch =
     \<lparr>sp_phase = Absent, sp_conditions = Absent, sp_observed_generation = Absent,
      sp_ready_replicas = Absent, sp_build = Absent, sp_database = Absent, sp_cache = Absent,
      sp_redis_uid = Absent, sp_redis_digest = Absent, sp_worker = Absent, sp_previews = Absent\<rparr>"

text \<open>The body \<open>json!({"status": typed_status})\<close> of \<open>update_status\<close>.\<close>

definition serialize_status :: "project_status \<Rightarrow> status_patch" where
  "serialize_status s =
     \<lparr>sp_phase = or_null (st_phase s), sp_conditions = unless_empty (st_conditions s),
      sp_observed_generation = or_null (st_observed_generation s),
      sp_ready_replicas = or_null (st_ready_replicas s), sp_build = unless_none (st_build s),
      sp_database = unless_none (st_database s), sp_cache = unless_none (st_cache s),
      sp_redis_uid = unless_none (st_redis_uid s), sp_redis_digest = unless_none (st_redis_digest s),
      sp_worker = unless_none (st_worker s), sp_previews = unless_empty (st_previews s)\<rparr>"

definition build_degraded_status_patch :: "project \<Rightarrow> string \<Rightarrow> string \<Rightarrow> string \<Rightarrow> status_patch" where
  "build_degraded_status_patch app now reason message =
     empty_patch\<lparr>sp_phase := Value PhFailed,
       sp_observed_generation := or_null (om_generation (pj_metadata app)),
       sp_conditions := Value
         [\<lparr>pc_type = Degraded, pc_status = CondTrue, pc_reason = reason, pc_message = message,
           pc_last_transition_time = Some now,
           pc_observed_generation = om_generation (pj_metadata app)\<rparr>]\<rparr>"

definition build_preview_status_list :: "string \<Rightarrow> project list \<Rightarrow> preview_status list" where
  "build_preview_status_list url_scheme previews =
     map (\<lambda>p. \<lparr>pvs_name = name_any p,
       pvs_pr_number = unwrap_or []
         (Option.bind (om_labels (pj_metadata p)) (\<lambda>m. m ''reinhardt.dev/pr-number'')),
       pvs_url = map_option (\<lambda>h. url_scheme @ ''://'' @ h)
         (Option.bind (ps_services (pj_spec p)) svc_ingress_host),
       pvs_phase = Option.bind (pj_status p) st_phase,
       pvs_ready_replicas = Option.bind (pj_status p) st_ready_replicas,
       pvs_last_activity =
         Option.bind (om_annotations (pj_metadata p)) (\<lambda>m. m ''reinhardt.dev/last-activity'')\<rparr>) previews"

definition build_preview_status_patch :: "project list \<Rightarrow> status_patch" where
  "build_preview_status_patch previews =
     empty_patch\<lparr>sp_previews := Value (build_preview_status_list ''https'' previews)\<rparr>"

text \<open>
  The API server merges a patch as RFC 7386 says: an absent member stays, null removes it, an
  object is merged member by member, anything else, lists included, replaces the old value. It is
  the parameter \<open>store\<close> of the properties, with this behaviour as their hypothesis.
\<close>

fun merge_field :: "'a patch_field \<Rightarrow> 'a option \<Rightarrow> 'a option" where
  "merge_field Absent old = old"
| "merge_field Null old = None"
| "merge_field (Value v) old = Some v"

fun merge_list :: "'a list patch_field \<Rightarrow> 'a list \<Rightarrow> 'a list" where
  "merge_list Absent old = old"
| "merge_list Null old = []"
| "merge_list (Value vs) old = vs"

fun merge_object :: "('a \<Rightarrow> 'a \<Rightarrow> 'a) \<Rightarrow> 'a patch_field \<Rightarrow> 'a option \<Rightarrow> 'a option" where
  "merge_object f (Value v) (Some old) = Some (f v old)"
| "merge_object f p old = merge_field p old"

definition or_old :: "'a option \<Rightarrow> 'a option \<Rightarrow> 'a option" where
  "or_old new old = (case new of None \<Rightarrow> old | Some v \<Rightarrow> Some v)"

definition merge_build :: "crd_build_status \<Rightarrow> crd_build_status \<Rightarrow> crd_build_status" where
  "merge_build new old =
     new\<lparr>cb_preview_name := or_old (cb_preview_name new) (cb_preview_name old),
         cb_pr_number := or_old (cb_pr_number new) (cb_pr_number old),
         cb_branch := or_old (cb_branch new) (cb_branch old),
         cb_reason := or_old (cb_reason new) (cb_reason old),
         cb_message := or_old (cb_message new) (cb_message old),
         cb_started_at := or_old (cb_started_at new) (cb_started_at old),
         cb_last_transition_time := or_old (cb_last_transition_time new) (cb_last_transition_time old)\<rparr>"

definition merge_database :: "database_status \<Rightarrow> database_status \<Rightarrow> database_status" where
  "merge_database new old =
     new\<lparr>dbs_endpoint := or_old (dbs_endpoint new) (dbs_endpoint old),
         dbs_credentials_secret := or_old (dbs_credentials_secret new) (dbs_credentials_secret old)\<rparr>"

definition merge_cache :: "cache_status \<Rightarrow> cache_status \<Rightarrow> cache_status" where
  "merge_cache new old = new\<lparr>cs_endpoint := or_old (cs_endpoint new) (cs_endpoint old)\<rparr>"

definition merge_status :: "status_patch \<Rightarrow> project_status \<Rightarrow> project_status" where
  "merge_status p s =
     \<lparr>st_phase = merge_field (sp_phase p) (st_phase s),
      st_conditions = merge_list (sp_conditions p) (st_conditions s),
      st_observed_generation = merge_field (sp_observed_generation p) (st_observed_generation s),
      st_ready_replicas = merge_field (sp_ready_replicas p) (st_ready_replicas s),
      st_build = merge_object merge_build (sp_build p) (st_build s),
      st_database = merge_object merge_database (sp_database p) (st_database s),
      st_cache = merge_object merge_cache (sp_cache p) (st_cache s),
      st_redis_uid = merge_field (sp_redis_uid p) (st_redis_uid s),
      st_redis_digest = merge_field (sp_redis_digest p) (st_redis_digest s),
      st_worker = merge_field (sp_worker p) (st_worker s),
      st_previews = merge_list (sp_previews p) (st_previews s)\<rparr>"

type_synonym status_store = "status_patch \<Rightarrow> project_status \<Rightarrow> project_status"

definition merge_patch_store :: "status_store \<Rightarrow> bool" where
  "merge_patch_store store \<longleftrightarrow> (\<forall>p s. store p s = merge_status p s)"

definition current_status :: "project \<Rightarrow> project_status" where
  "current_status app = unwrap_or project_status_default (pj_status app)"

definition write_status :: "status_store \<Rightarrow> status_patch \<Rightarrow> project \<Rightarrow> project" where
  "write_status store p app = app\<lparr>pj_status := Some (store p (current_status app))\<rparr>"

definition persist_status :: "status_store \<Rightarrow> project_status \<Rightarrow> project \<Rightarrow> project" where
  "persist_status store s app = write_status store (serialize_status s) app"

definition update_status ::
  "status_store \<Rightarrow> kube_error option \<Rightarrow> object_key \<Rightarrow> project_status \<Rightarrow> project \<times> operator_state
     \<Rightarrow> (operator_error + unit) \<times> project \<times> operator_state" where
  "update_status store failure key typed_status w =
     (case w of (app, ctx) \<Rightarrow>
        (case failure of
           Some e \<Rightarrow> (Inl (Kube e), app, ctx)
         | None \<Rightarrow>
             (Inr (), persist_status store typed_status app,
              case st_phase typed_status of
                Some ph \<Rightarrow> update_managed_apps_gauge key (phase_label ph) ctx
              | None \<Rightarrow> ctx)))"

section \<open>The contract of a condition table\<close>

locale condition_table =
  fixes upsert :: "project_condition \<Rightarrow> project_condition list \<Rightarrow> project_condition list"
  assumes find_upsert:
      "find_condition t (upsert c cs) = (if t = pc_type c then Some c else find_condition t cs)"
    and types_upsert:
      "map pc_type (upsert c cs)
         = map pc_type cs @ (if pc_type c \<in> set (map pc_type cs) then [] else [pc_type c])"
    and upsert_same: "find_condition (pc_type c) cs = Some c \<Longrightarrow> upsert c cs = cs"
begin

lemma distinct_upsert: "distinct (map pc_type cs) \<Longrightarrow> distinct (map pc_type (upsert c cs))"
  by (simp add: types_upsert)

lemma distinct_fold: "distinct (map pc_type cs) \<Longrightarrow> distinct (map pc_type (fold upsert ks cs))"
  by (induction ks arbitrary: cs) (simp_all add: distinct_upsert)

lemma find_fold_other: "t \<notin> pc_type ` set ks \<Longrightarrow> find_condition t (fold upsert ks cs) = find_condition t cs"
  by (induction ks arbitrary: cs) (auto simp: find_upsert)

lemma find_fold:
  assumes "distinct (map pc_type ks)" and "k \<in> set ks"
  shows "find_condition (pc_type k) (fold upsert ks cs) = Some k"
  using assms
proof (induction ks arbitrary: cs)
  case (Cons x ks)
  show ?case
  proof (cases "k = x")
    case True
    with Cons.prems show ?thesis by (simp add: find_fold_other find_upsert)
  next
    case False
    with Cons show ?thesis by simp
  qed
qed simp

lemma fold_same: "(\<And>k. k \<in> set ks \<Longrightarrow> find_condition (pc_type k) cs = Some k) \<Longrightarrow> fold upsert ks cs = cs"
  by (induction ks) (simp_all add: upsert_same)

lemma upsert_not_Nil: "upsert c cs \<noteq> []"
proof
  assume "upsert c cs = []"
  then have "find_condition (pc_type c) (upsert c cs) = None" by (simp add: find_condition_def)
  then show False by (simp add: find_upsert)
qed

end

lemma find_condition_simps [simp]:
  "find_condition t [] = None"
  "find_condition t (c # cs) = (if pc_type c = t then Some c else find_condition t cs)"
  by (simp_all add: find_condition_def)

lemma find_condition_type: "find_condition t cs = Some c \<Longrightarrow> pc_type c = t"
  by (induction cs) (auto split: if_splits)

interpretation pt: condition_table upsert_project_condition
proof
  fix t c cs
  show "find_condition t (upsert_project_condition c cs)
      = (if t = pc_type c then Some c else find_condition t cs)"
    by (induction cs) auto
  show "map pc_type (upsert_project_condition c cs)
      = map pc_type cs @ (if pc_type c \<in> set (map pc_type cs) then [] else [pc_type c])"
    by (induction cs) auto
  show "find_condition (pc_type c) cs = Some c \<Longrightarrow> upsert_project_condition c cs = cs"
    by (induction cs) (auto split: if_splits)
qed

section \<open>Observing twice\<close>

type_synonym child = "condition_type \<times> condition_status \<times> string \<times> string"

definition child_conditions :: "project \<Rightarrow> string \<Rightarrow> child list \<Rightarrow> project_condition list" where
  "child_conditions app now kids = map (\<lambda>(t, s, r, m). build_condition app now t s r m) kids"

definition observe ::
  "status_store \<Rightarrow> string \<Rightarrow> bool \<Rightarrow> i32 \<Rightarrow> migration_gate_state \<Rightarrow> child list \<Rightarrow> project \<Rightarrow> project" where
  "observe store now ready n m kids app =
     persist_status store (build_project_status app now ready n m (child_conditions app now kids)) app"

definition kids_ok :: "child list \<Rightarrow> bool" where
  "kids_ok kids \<longleftrightarrow> distinct (map fst kids) \<and> fst ` set kids \<inter> {Ready, MigrationReady, Degraded} = {}"

definition observed_conditions ::
  "project \<Rightarrow> string \<Rightarrow> bool \<Rightarrow> migration_gate_state \<Rightarrow> child list \<Rightarrow> project_condition list" where
  "observed_conditions app now ready m kids =
     fold upsert_project_condition (child_conditions app now kids)
       (degraded_update app now ready (status_reason ready m) (status_message ready m) m
         (upsert_project_condition
           (build_condition app now MigrationReady (migration_condition_status m)
             (migration_reason m) (migration_message m))
           (upsert_project_condition
             (build_condition app now Ready (if ready then CondTrue else CondFalse)
               (status_reason ready m) (status_message ready m)) (app_conditions app))))"

lemma build_project_status_conditions:
  "st_conditions (build_project_status app now ready n m (child_conditions app now kids))
     = observed_conditions app now ready m kids"
  by (simp add: build_project_status_def observed_conditions_def Let_def)

lemma pc_type_build_condition [simp]: "pc_type (build_condition app now t s r m) = t"
  by (simp add: build_condition_def Let_def)

lemma pc_status_build_condition [simp]: "pc_status (build_condition app now t s r m) = s"
  by (simp add: build_condition_def Let_def)

lemma types_child_conditions: "map pc_type (child_conditions app now kids) = map fst kids"
  by (auto simp: child_conditions_def)

lemma child_types: "pc_type ` set (child_conditions app now kids) = fst ` set kids"
  by (metis list.set_map types_child_conditions)

lemma find_observed_kid:
  assumes "kids_ok kids" and "(t, s, r, msg) \<in> set kids"
  shows "find_condition t (observed_conditions app now ready m kids)
    = Some (build_condition app now t s r msg)"
proof -
  have "distinct (map pc_type (child_conditions app now kids))"
    using assms(1) by (simp add: types_child_conditions kids_ok_def)
  moreover have "build_condition app now t s r msg \<in> set (child_conditions app now kids)"
    using assms(2) by (force simp: child_conditions_def)
  ultimately show ?thesis
    unfolding observed_conditions_def by (metis pt.find_fold pc_type_build_condition)
qed

lemma degraded_update_other:
  "t \<noteq> Degraded \<Longrightarrow> find_condition t (degraded_update app now ready r msg m cs) = find_condition t cs"
  by (auto simp: degraded_update_def pt.find_upsert split: option.splits)

lemma find_observed_ready:
  assumes "kids_ok kids"
  shows "find_condition Ready (observed_conditions app now ready m kids)
    = Some (build_condition app now Ready (if ready then CondTrue else CondFalse)
        (status_reason ready m) (status_message ready m))"
  using assms unfolding observed_conditions_def
  by (subst pt.find_fold_other) (auto simp: child_types kids_ok_def degraded_update_other pt.find_upsert)

lemma find_observed_migration:
  assumes "kids_ok kids"
  shows "find_condition MigrationReady (observed_conditions app now ready m kids)
    = Some (build_condition app now MigrationReady (migration_condition_status m)
        (migration_reason m) (migration_message m))"
  using assms unfolding observed_conditions_def
  by (subst pt.find_fold_other) (auto simp: child_types kids_ok_def degraded_update_other pt.find_upsert)

lemma find_observed_degraded:
  assumes "kids_ok kids"
  shows "find_condition Degraded (observed_conditions app now ready m kids)
    = find_condition Degraded
        (degraded_update app now ready (status_reason ready m) (status_message ready m) m (app_conditions app))"
  using assms unfolding observed_conditions_def
  by (subst pt.find_fold_other)
    (auto simp: child_types kids_ok_def degraded_update_def pt.find_upsert split: option.splits)

lemma observed_not_Nil: "observed_conditions app now ready m kids \<noteq> []"
proof -
  have "degraded_update app now ready r msg m (upsert_project_condition c cs) \<noteq> []" for r msg c cs
    by (auto simp: degraded_update_def pt.upsert_not_Nil split: option.splits)
  moreover have "cs \<noteq> [] \<Longrightarrow> fold upsert_project_condition ks cs \<noteq> []" for ks cs
    by (induction ks arbitrary: cs) (simp_all add: pt.upsert_not_Nil)
  ultimately show ?thesis unfolding observed_conditions_def by blast
qed

lemma rebuild_condition:
  assumes "find_condition t (app_conditions app1) = Some (build_condition app now t s r m)"
    and "om_generation (pj_metadata app1) = om_generation (pj_metadata app)"
  shows "build_condition app1 now' t s r m = build_condition app now t s r m"
  using assms(2)
  by (subst build_condition_def) (simp add: assms(1) Let_def should_update_transition_time_def,
      simp add: build_condition_def Let_def)

lemma observed_conditions_stable:
  assumes k: "kids_ok kids" and a: "app_conditions app1 = observed_conditions app now ready m kids"
    and g: "om_generation (pj_metadata app1) = om_generation (pj_metadata app)"
  shows "observed_conditions app1 now' ready m kids = observed_conditions app now ready m kids"
proof -
  let ?cs = "observed_conditions app now ready m kids"
  let ?rd = "build_condition app now Ready (if ready then CondTrue else CondFalse)
        (status_reason ready m) (status_message ready m)"
  let ?mg = "build_condition app now MigrationReady (migration_condition_status m)
        (migration_reason m) (migration_message m)"
  have rd: "build_condition app1 now' Ready (if ready then CondTrue else CondFalse)
      (status_reason ready m) (status_message ready m) = ?rd"
    by (rule rebuild_condition [OF _ g]) (simp only: a find_observed_ready [OF k])
  have mg: "build_condition app1 now' MigrationReady (migration_condition_status m)
      (migration_reason m) (migration_message m) = ?mg"
    by (rule rebuild_condition [OF _ g]) (simp only: a find_observed_migration [OF k])
  have u1: "upsert_project_condition ?rd ?cs = ?cs"
    by (rule pt.upsert_same) (simp add: find_observed_ready [OF k])
  have u2: "upsert_project_condition ?mg ?cs = ?cs"
    by (rule pt.upsert_same) (simp add: find_observed_migration [OF k])
  have kids: "child_conditions app1 now' kids = child_conditions app now kids"
    using rebuild_condition [OF _ g] find_observed_kid [OF k] by (auto simp: child_conditions_def a)
  have f: "fold upsert_project_condition (child_conditions app now kids) ?cs = ?cs"
    using find_observed_kid [OF k] by (intro pt.fold_same) (auto simp: child_conditions_def)
  have d: "degraded_update app1 now' ready (status_reason ready m) (status_message ready m) m ?cs = ?cs"
  proof (cases "m = MFailed")
    case True
    have "find_condition Degraded ?cs = Some (build_condition app now Degraded CondTrue ''MigrationFailed''
        ''Migration failed for the target deployment revision'')"
      unfolding find_observed_degraded [OF k] using True by (simp add: degraded_update_def pt.find_upsert)
    moreover from this have "build_condition app1 now' Degraded CondTrue ''MigrationFailed''
        ''Migration failed for the target deployment revision'' = build_condition app now Degraded CondTrue
        ''MigrationFailed'' ''Migration failed for the target deployment revision''"
      by (intro rebuild_condition [OF _ g]) (simp only: a)
    ultimately show ?thesis using True by (simp add: degraded_update_def pt.upsert_same)
  next
    case False
    have "find_condition Degraded ?cs = find_condition Degraded
        (degraded_update app now ready (status_reason ready m) (status_message ready m) m (app_conditions app))"
      by (rule find_observed_degraded [OF k])
    with False show ?thesis
      by (auto simp: degraded_update_def a g should_update_transition_time_def pt.find_upsert
          intro!: pt.upsert_same split: option.splits if_splits)
  qed
  show ?thesis
    unfolding observed_conditions_def [of app1] kids rd mg a u1 u2 d f by (rule refl)
qed

lemma app_conditions_write:
  "app_conditions (write_status store p app) = st_conditions (store p (current_status app))"
  by (simp add: write_status_def app_conditions_def)

lemma write_status_simps [simp]:
  "pj_metadata (write_status store p app) = pj_metadata app"
  "pj_spec (write_status store p app) = pj_spec app"
  "current_status (write_status store p app) = store p (current_status app)"
  "pj_status (write_status store p app) = Some (store p (current_status app))"
  "name_any (write_status store p app) = name_any app"
  by (simp_all add: write_status_def current_status_def name_any_def cong: option.case_cong)

lemma app_conditions_observe:
  assumes "merge_patch_store store"
  shows "app_conditions (observe store now ready n m kids app) = observed_conditions app now ready m kids"
  using assms observed_not_Nil [of app now ready m kids]
  by (simp add: observe_def persist_status_def app_conditions_write merge_patch_store_def merge_status_def
      serialize_status_def unless_empty_def build_project_status_conditions)

lemma merge_field_idem: "merge_field p (merge_field p x) = merge_field p x"
  by (cases p) auto

lemma merge_list_idem: "merge_list p (merge_list p x) = merge_list p x"
  by (cases p) auto

lemma or_old_idem [simp]: "or_old x (or_old x y) = or_old x y" "or_old x x = x" "or_old (or_old x y) y = or_old x y"
  by (simp_all add: or_old_def split: option.splits)

lemma merge_build_self [simp]: "merge_build b b = b" "merge_build b (merge_build b c) = merge_build b c"
  by (simp_all add: merge_build_def)

lemma merge_database_idem [simp]: "merge_database b b = b" "merge_database b (merge_database b c) = merge_database b c"
  by (simp_all add: merge_database_def)

lemma merge_build_current: "merge_object merge_build (unless_none x) x = x"
  by (cases x) (simp_all add: unless_none_def)

lemma merge_database_twice:
  "merge_object merge_database p (merge_object merge_database p x) = merge_object merge_database p x"
  by (cases p; cases x) simp_all

lemma current_build: "app_build app = st_build (current_status app)"
  by (simp add: app_build_def current_status_def project_status_default_def split: option.splits)
    (cases "pj_status app"; simp)

lemma build_project_status_fields:
  "st_phase (build_project_status app now ready n m cs)
     = Some (if m = MFailed then PhDegraded else if ready then PhRunning else PhDeploying)"
  "st_observed_generation (build_project_status app now ready n m cs) = om_generation (pj_metadata app)"
  "st_ready_replicas (build_project_status app now ready n m cs) = Some n"
  "st_build (build_project_status app now ready n m cs) = app_build app"
  "st_database (build_project_status app now ready n m cs)
     = (if ps_database (pj_spec app) \<noteq> None
        then Some \<lparr>dbs_phase = RReady, dbs_endpoint = None,
                   dbs_credentials_secret = Some (name_any app @ ''-db-credentials'')\<rparr> else None)"
  "st_cache (build_project_status app now ready n m cs) = None"
  "st_redis_uid (build_project_status app now ready n m cs) = st_redis_uid (current_status app)"
  "st_redis_digest (build_project_status app now ready n m cs) = st_redis_digest (current_status app)"
  "st_worker (build_project_status app now ready n m cs) = None"
  "st_previews (build_project_status app now ready n m cs) = st_previews (current_status app)"
  by (cases "pj_status app"; simp add: build_project_status_def Let_def project_status_default_def current_status_def)+

lemma serialize_status_simps:
  "sp_phase (serialize_status s) = or_null (st_phase s)"
  "sp_conditions (serialize_status s) = unless_empty (st_conditions s)"
  "sp_observed_generation (serialize_status s) = or_null (st_observed_generation s)"
  "sp_ready_replicas (serialize_status s) = or_null (st_ready_replicas s)"
  "sp_build (serialize_status s) = unless_none (st_build s)"
  "sp_database (serialize_status s) = unless_none (st_database s)"
  "sp_cache (serialize_status s) = unless_none (st_cache s)"
  "sp_redis_uid (serialize_status s) = unless_none (st_redis_uid s)"
  "sp_redis_digest (serialize_status s) = unless_none (st_redis_digest s)"
  "sp_worker (serialize_status s) = unless_none (st_worker s)"
  "sp_previews (serialize_status s) = unless_empty (st_previews s)"
  by (simp_all add: serialize_status_def)

lemma merge_status_simps:
  "st_phase (merge_status p s) = merge_field (sp_phase p) (st_phase s)"
  "st_conditions (merge_status p s) = merge_list (sp_conditions p) (st_conditions s)"
  "st_observed_generation (merge_status p s) = merge_field (sp_observed_generation p) (st_observed_generation s)"
  "st_ready_replicas (merge_status p s) = merge_field (sp_ready_replicas p) (st_ready_replicas s)"
  "st_build (merge_status p s) = merge_object merge_build (sp_build p) (st_build s)"
  "st_database (merge_status p s) = merge_object merge_database (sp_database p) (st_database s)"
  "st_cache (merge_status p s) = merge_object merge_cache (sp_cache p) (st_cache s)"
  "st_redis_uid (merge_status p s) = merge_field (sp_redis_uid p) (st_redis_uid s)"
  "st_redis_digest (merge_status p s) = merge_field (sp_redis_digest p) (st_redis_digest s)"
  "st_worker (merge_status p s) = merge_field (sp_worker p) (st_worker s)"
  "st_previews (merge_status p s) = merge_list (sp_previews p) (st_previews s)"
  by (simp_all add: merge_status_def)

lemmas status_write_simps = serialize_status_simps merge_status_simps build_project_status_fields

lemma merge_current:
  "merge_field (unless_none x) x = x" "merge_list (unless_empty xs) xs = xs"
  "merge_object f Absent y = y" "merge_field (or_null (Some v)) x = Some v" "merge_field (or_null x) x = x"
  "merge_object f (unless_none None) y = y" "merge_field (unless_none None) y = y"
  by (cases x; simp add: unless_none_def unless_empty_def or_null_def)+

lemma merge_or_null_twice: "merge_field (or_null x) (merge_field (or_null x) y) = merge_field (or_null x) y"
  by (cases x) (simp_all add: or_null_def)

lemma observe_fixpoint:
  assumes st: "merge_patch_store store" and k: "kids_ok kids"
  shows "observe store now' ready n m kids (observe store now ready n m kids app) = observe store now ready n m kids app"
proof -
  define a where "a = observe store now ready n m kids app"
  have store: "store = merge_status" using st by (simp add: merge_patch_store_def fun_eq_iff)
  have a: "pj_metadata a = pj_metadata app" "pj_spec a = pj_spec app" "name_any a = name_any app"
    "pj_status a = Some (current_status a)"
    "current_status a = merge_status (serialize_status
       (build_project_status app now ready n m (child_conditions app now kids))) (current_status app)"
    by (simp_all add: a_def observe_def persist_status_def store)
  have c: "observed_conditions a now' ready m kids = observed_conditions app now ready m kids"
    unfolding a_def using a(1)
    by (intro observed_conditions_stable [OF k app_conditions_observe [OF st]]) (simp add: a_def)
  let ?B = "build_project_status a now' ready n m (child_conditions a now' kids)"
  have "merge_status (serialize_status ?B) (current_status a) = current_status a"
  proof (rule project_status.equality)
    show "st_conditions (merge_status (serialize_status ?B) (current_status a)) = st_conditions (current_status a)"
      by (simp add: a status_write_simps build_project_status_conditions c merge_list_idem)
    show "st_build (merge_status (serialize_status ?B) (current_status a)) = st_build (current_status a)"
      by (simp add: status_write_simps current_build merge_build_current)
    show "st_database (merge_status (serialize_status ?B) (current_status a)) = st_database (current_status a)"
      by (simp only: a status_write_simps merge_database_twice)
    show "st_observed_generation (merge_status (serialize_status ?B) (current_status a))
        = st_observed_generation (current_status a)"
      by (simp only: a status_write_simps merge_or_null_twice)
  qed (simp_all add: status_write_simps merge_current a(5))
  then have "write_status store (serialize_status ?B) a = a"
    using a(4) by (simp add: write_status_def store)
  then show ?thesis by (simp add: a_def [symmetric] observe_def [of store now'] persist_status_def)
qed

lemma observed_distinct:
  "distinct (map pc_type (app_conditions app)) \<Longrightarrow> distinct (map pc_type (observed_conditions app now ready m kids))"
  unfolding observed_conditions_def degraded_update_def
  by (auto intro!: pt.distinct_fold pt.distinct_upsert split: option.splits)

lemma app_conditions_current: "app_conditions app = st_conditions (current_status app)"
  by (cases "pj_status app") (simp_all add: app_conditions_def current_status_def project_status_default_def)

definition transition_time ::
  "project \<Rightarrow> condition_type \<Rightarrow> condition_status \<Rightarrow> string \<Rightarrow> string option" where
  "transition_time app t s now =
     (case find_condition t (app_conditions app) of
        Some c \<Rightarrow> if pc_status c = s then pc_last_transition_time c else Some now
      | None \<Rightarrow> Some now)"

lemma pc_time_build_condition:
  "pc_last_transition_time (build_condition app now t s r m) = transition_time app t s now"
  by (auto simp: build_condition_def Let_def transition_time_def should_update_transition_time_def
      split: option.splits)

section \<open>Properties\<close>

text \<open>
  C16. Status updates settle: observing the same rollout again, at any later time, leaves the
  stored project exactly as the first update left it, so that the operator's own write does not
  keep waking the controller.
\<close>
theorem status_update_settles:
  assumes "merge_patch_store store" and "kids_ok kids"
  shows "observe store now' ready n m kids (observe store now ready n m kids app)
    = observe store now ready n m kids app"
  using assms by (rule observe_fixpoint)

definition sample_project :: project where
  "sample_project =
     \<lparr>pj_metadata = object_meta_default\<lparr>om_name := Some ''shop'', om_namespace := Some ''prod'',
        om_uid := Some ''u1'', om_generation := Some 3\<rparr>,
      pj_spec = project_spec_default\<lparr>ps_image := ''shop:1''\<rparr>, pj_status = None\<rparr>"

theorem status_update_settles_witness:
  "observe merge_status ''t2'' True 1 NotRequired [(TlsReady, CondFalse, ''TlsSecretNotReady'', ''Waiting'')]
     (observe merge_status ''t1'' True 1 NotRequired [(TlsReady, CondFalse, ''TlsSecretNotReady'', ''Waiting'')]
        sample_project)
   = observe merge_status ''t1'' True 1 NotRequired [(TlsReady, CondFalse, ''TlsSecretNotReady'', ''Waiting'')]
        sample_project"
  by (rule status_update_settles) (simp_all add: merge_patch_store_def kids_ok_def)

text \<open>
  C10. The stored status says what was observed: the phase is degraded exactly when the migration
  failed and otherwise running exactly when the replicas are ready; \<open>Ready\<close> and \<open>MigrationReady\<close>
  have the observed status, and their transition time changes exactly when that status does; a
  failed migration sets \<open>Degraded\<close> and a ready application clears it; the build, the previews and
  the one-condition-per-type shape are kept.
\<close>
theorem stored_status_reports_rollout:
  assumes "merge_patch_store store" and "kids_ok kids" and "a = observe store now ready n m kids app"
  shows "st_phase (current_status a) = Some (if m = MFailed then PhDegraded else if ready then PhRunning else PhDeploying)
    \<and> (\<exists>c. find_condition Ready (app_conditions a) = Some c \<and> (pc_status c = CondTrue \<longleftrightarrow> ready)
         \<and> pc_last_transition_time c = transition_time app Ready (pc_status c) now)
    \<and> (\<exists>c. find_condition MigrationReady (app_conditions a) = Some c
         \<and> (pc_status c = CondTrue \<longleftrightarrow> m = NotRequired \<or> m = MSucceeded)
         \<and> pc_last_transition_time c = transition_time app MigrationReady (pc_status c) now)
    \<and> (m = MFailed \<longrightarrow> (\<exists>c. find_condition Degraded (app_conditions a) = Some c \<and> pc_status c = CondTrue))
    \<and> (m \<noteq> MFailed \<and> ready \<longrightarrow>
         (\<forall>c. find_condition Degraded (app_conditions a) = Some c \<longrightarrow> pc_status c = CondFalse))
    \<and> (distinct (map pc_type (app_conditions app)) \<longrightarrow> distinct (map pc_type (app_conditions a)))
    \<and> app_build a = app_build app \<and> st_previews (current_status a) = st_previews (current_status app)"
proof -
  have c: "app_conditions a = observed_conditions app now ready m kids"
    using app_conditions_observe [OF assms(1)] assms(3) by simp
  have store: "store = merge_status" using assms(1) by (simp add: merge_patch_store_def fun_eq_iff)
  have cur: "current_status a = merge_status (serialize_status
       (build_project_status app now ready n m (child_conditions app now kids))) (current_status app)"
    by (simp add: assms(3) observe_def persist_status_def store)
  note rd = find_observed_ready [OF assms(2), of app now ready m]
  note mg = find_observed_migration [OF assms(2), of app now ready m]
  note dg = find_observed_degraded [OF assms(2), of app now ready m]
  have mt: "migration_condition_status m = CondTrue \<longleftrightarrow> m = NotRequired \<or> m = MSucceeded"
    by (cases m) simp_all
  have d1: "\<exists>c. find_condition Degraded (app_conditions a) = Some c \<and> pc_status c = CondTrue" if "m = MFailed"
    unfolding c dg using that by (simp add: degraded_update_def pt.find_upsert)
  have d2: "pc_status x = CondFalse"
    if "m \<noteq> MFailed" "ready" "find_condition Degraded (app_conditions a) = Some x" for x
    using that unfolding c dg by (auto simp: degraded_update_def pt.find_upsert split: option.splits)
  have r: "\<exists>c. find_condition Ready (app_conditions a) = Some c \<and> (pc_status c = CondTrue \<longleftrightarrow> ready)
      \<and> pc_last_transition_time c = transition_time app Ready (pc_status c) now"
    unfolding c rd by (simp add: pc_time_build_condition)
  have g: "\<exists>c. find_condition MigrationReady (app_conditions a) = Some c
      \<and> (pc_status c = CondTrue \<longleftrightarrow> m = NotRequired \<or> m = MSucceeded)
      \<and> pc_last_transition_time c = transition_time app MigrationReady (pc_status c) now"
    unfolding c mg by (simp add: pc_time_build_condition mt)
  show ?thesis
    using r g d1 d2 observed_distinct [of app now ready m kids]
    by (simp add: c current_build cur status_write_simps merge_current merge_build_current)
qed

theorem stored_status_reports_rollout_witness:
  "st_phase (current_status (observe merge_status ''t1'' False 0 MFailed [] sample_project)) = Some PhDegraded"
  using stored_status_reports_rollout [OF _ _ refl, of merge_status "[]" "''t1''" False 0 MFailed sample_project]
  by (simp add: merge_patch_store_def kids_ok_def)

text \<open>
  Recording a tenant error never settles: the degraded patch carries the current time
  whatever the stored condition says, so recording the same error again changes the stored status
  every time, and it replaces the whole condition list instead of updating it.
\<close>
theorem degraded_record_never_settles:
  assumes "merge_patch_store store" and "now' \<noteq> now"
    and "a = write_status store (build_degraded_status_patch app now reason message) app"
  shows "write_status store (build_degraded_status_patch a now' reason message) a \<noteq> a
    \<and> map pc_type (app_conditions a) = [Degraded]"
proof -
  have c: "app_conditions (write_status store (build_degraded_status_patch b t reason message) b)
    = [\<lparr>pc_type = Degraded, pc_status = CondTrue, pc_reason = reason, pc_message = message,
        pc_last_transition_time = Some t, pc_observed_generation = om_generation (pj_metadata b)\<rparr>]" for b t
    using assms(1) by (simp add: app_conditions_write merge_patch_store_def merge_status_def
        build_degraded_status_patch_def)
  have "app_conditions (write_status store (build_degraded_status_patch a now' reason message) a) \<noteq> app_conditions a"
    unfolding c unfolding assms(3) c using assms(2) by simp
  moreover have "map pc_type (app_conditions a) = [Degraded]" unfolding assms(3) c by simp
  ultimately show ?thesis by metis
qed

theorem degraded_record_never_settles_witness:
  "write_status merge_status (build_degraded_status_patch
      (write_status merge_status (build_degraded_status_patch sample_project ''t1'' ''InvalidTenant'' ''x'') sample_project)
      ''t2'' ''InvalidTenant'' ''x'')
     (write_status merge_status (build_degraded_status_patch sample_project ''t1'' ''InvalidTenant'' ''x'') sample_project)
   \<noteq> write_status merge_status (build_degraded_status_patch sample_project ''t1'' ''InvalidTenant'' ''x'') sample_project"
  using degraded_record_never_settles [OF _ _ refl, of merge_status "''t2''" "''t1''" sample_project
      "''InvalidTenant''" "''x''"]
  by (simp add: merge_patch_store_def)

text \<open>
  When the database is removed from the specification, its status stays: the update omits the
  absent database from the merge patch, and the stored entry survives every later update.
\<close>
theorem removed_database_stays_in_status:
  assumes "merge_patch_store store" and "ps_database (pj_spec app) = None"
  shows "st_database (current_status (observe store now ready n m kids app)) = st_database (current_status app)"
proof -
  have "store = merge_status" using assms(1) by (simp add: merge_patch_store_def fun_eq_iff)
  then show ?thesis
    by (simp add: observe_def persist_status_def status_write_simps assms(2) merge_current)
qed

definition sample_stale_database :: project where
  "sample_stale_database = sample_project\<lparr>pj_status := Some (project_status_default\<lparr>st_database :=
     Some \<lparr>dbs_phase = RReady, dbs_endpoint = None, dbs_credentials_secret = Some ''shop-db-credentials''\<rparr>\<rparr>)\<rparr>"

theorem removed_database_stays_in_status_witness:
  "st_database (current_status (observe merge_status ''t1'' True 1 NotRequired [] sample_stale_database)) \<noteq> None"
  by (subst removed_database_stays_in_status)
    (simp_all add: merge_patch_store_def sample_stale_database_def sample_project_def project_spec_default_def
      current_status_def)

end
