(* ===== verification/Resources.thy ===== *)
theory Resources
  imports ProjectStatus
begin

text \<open>
  Names, labels and ownership of the operator's resources: \<open>resources.rs\<close>, \<open>resources/labels.rs\<close>,
  \<open>resources/preview.rs\<close> and the naming part of \<open>resources/preview_namespace.rs\<close> of
  \<open>crates/reinhardt-cloud-operator\<close>. Strings are UTF-8 bytes; where the code walks over
  characters, the functions here say what that does to the bytes.
\<close>

section \<open>Labels and owner references\<close>

datatype component =
    CompWeb | CompWorker | CompDatabase | CompCache | CompIngress | CompMigration | CompStaticServer
  | CompBuild | CompPreview | CompPlugins

fun component_str :: "component \<Rightarrow> string" where
  "component_str CompWeb = ''web''"
| "component_str CompWorker = ''worker''"
| "component_str CompDatabase = ''database''"
| "component_str CompCache = ''cache''"
| "component_str CompIngress = ''ingress''"
| "component_str CompMigration = ''migration''"
| "component_str CompStaticServer = ''static-server''"
| "component_str CompBuild = ''build''"
| "component_str CompPreview = ''preview''"
| "component_str CompPlugins = ''plugins''"

definition app_namespace :: "project \<Rightarrow> string option" where
  "app_namespace app = om_namespace (pj_metadata app)"

definition standard_labels :: "project \<Rightarrow> component \<Rightarrow> label_map" where
  "standard_labels app component =
     [''app.kubernetes.io/name'' \<mapsto> name_any app,
      ''app.kubernetes.io/managed-by'' \<mapsto> ''reinhardt-cloud-operator'',
      ''app.kubernetes.io/instance'' \<mapsto> name_any app,
      ''app.kubernetes.io/component'' \<mapsto> component_str component,
      ''paas.reinhardt-cloud.dev/owner'' \<mapsto>
        unwrap_or ''<unknown>'' (app_namespace app) @ ''.'' @ name_any app]"

text \<open>\<open>controller_owner_ref\<close> of kube: \<open>None\<close> when the name or the UID is missing.\<close>

definition owner_reference_of :: "project \<Rightarrow> operator_error + owner_reference" where
  "owner_reference_of app =
     (case (om_name (pj_metadata app), om_uid (pj_metadata app)) of
        (Some n, Some u) \<Rightarrow>
          Inr \<lparr>or_api_version = ''paas.reinhardt-cloud.dev/v1alpha2'', or_kind = ''Project'',
               or_name = n, or_uid = u, or_controller = Some True\<rparr>
      | _ \<Rightarrow> Inl (OwnerReference (name_any app)))"

definition require_namespace :: "project \<Rightarrow> operator_error + string" where
  "require_namespace app = ok_or (MissingNamespace (name_any app)) (app_namespace app)"

definition validate_port :: "string \<Rightarrow> i32 \<Rightarrow> operator_error + i32" where
  "validate_port field port =
     (if 1 \<le> sint port \<and> sint port \<le> 65535 then Inr port else Inl (InvalidPort field port))"

section \<open>Preview environments\<close>

definition PREVIEW_LABEL_KEY :: string where "PREVIEW_LABEL_KEY = ''reinhardt.dev/preview''"
definition PARENT_APP_LABEL_KEY :: string where "PARENT_APP_LABEL_KEY = ''reinhardt.dev/parent-app''"
definition PARENT_NAMESPACE_LABEL_KEY :: string where
  "PARENT_NAMESPACE_LABEL_KEY = ''reinhardt.dev/parent-namespace''"
definition PR_NUMBER_LABEL_KEY :: string where "PR_NUMBER_LABEL_KEY = ''reinhardt.dev/pr-number''"
definition PARENT_UID_LABEL_KEY :: string where "PARENT_UID_LABEL_KEY = ''reinhardt.dev/parent-uid''"
definition MANAGED_BY_LABEL_VALUE :: string where "MANAGED_BY_LABEL_VALUE = ''reinhardt-cloud''"
definition MANAGED_BY_VALUE :: string where "MANAGED_BY_VALUE = ''reinhardt-cloud-operator''"

abbreviation MANAGED_BY :: string where "MANAGED_BY \<equiv> ''app.kubernetes.io/managed-by''"

definition preview_labels :: "string \<Rightarrow> string \<Rightarrow> string \<Rightarrow> label_map" where
  "preview_labels parent_namespace parent_name pr_number =
     [PREVIEW_LABEL_KEY \<mapsto> ''true'', PARENT_APP_LABEL_KEY \<mapsto> parent_name,
      PARENT_NAMESPACE_LABEL_KEY \<mapsto> parent_namespace, PR_NUMBER_LABEL_KEY \<mapsto> pr_number,
      MANAGED_BY \<mapsto> MANAGED_BY_LABEL_VALUE]"

definition preview_project_name :: "string \<Rightarrow> string \<Rightarrow> string" where
  "preview_project_name parent_name pr_number = parent_name @ ''-pr-'' @ pr_number"

definition preview_image_tag :: "string \<Rightarrow> string \<Rightarrow> string" where
  "preview_image_tag pr_number short_commit_sha = ''pr-'' @ pr_number @ ''-'' @ short_commit_sha"

text \<open>
  \<open>char::to_lowercase\<close> on the bytes of a string, keeping the ASCII characters that can follow: the
  Kelvin sign becomes k and the capital I with dot becomes i (and a combining dot), every other
  non-ASCII character stays non-ASCII and is dropped by \<open>dns_safe_label\<close>.
\<close>

function lowercase_ascii :: "string \<Rightarrow> string" where
  "lowercase_ascii s =
     (if map byte (take 3 s) = [226, 132, 170] then CHR ''k'' # lowercase_ascii (drop 3 s)
      else if map byte (take 2 s) = [196, 176] then CHR ''i'' # lowercase_ascii (drop 2 s)
      else (case s of
              [] \<Rightarrow> []
            | c # cs \<Rightarrow> if byte c < 128 then ascii_lower c # lowercase_ascii cs else lowercase_ascii cs))"
  by pat_completeness auto
termination
proof (relation "measure length")
  fix s :: string
  assume "map byte (take 3 s) = [226, 132, 170]"
  then have "s \<noteq> []" by auto
  then show "(drop 3 s, s) \<in> measure length" by (cases s) auto
next
  fix s :: string
  assume "map byte (take 2 s) = [196, 176]"
  then have "s \<noteq> []" by auto
  then show "(drop 2 s, s) \<in> measure length" by (cases s) auto
qed auto

declare lowercase_ascii.simps [simp del]

definition dns_normalized :: "char \<Rightarrow> char option" where
  "dns_normalized c =
     (if is_ascii_alphanumeric c then Some c
      else if c \<in> {CHR ''-'', CHR ''_'', CHR ''.'', CHR ''/''} then Some (CHR ''-'') else None)"

fun dns_label_loop :: "string \<Rightarrow> string \<Rightarrow> bool \<Rightarrow> string" where
  "dns_label_loop [] label previous_dash = label"
| "dns_label_loop (c # cs) label previous_dash =
     (case dns_normalized c of
        None \<Rightarrow> dns_label_loop cs label previous_dash
      | Some d \<Rightarrow>
          if d = CHR ''-'' \<and> (label = [] \<or> previous_dash) then dns_label_loop cs label previous_dash
          else if length label = 63 then label
          else dns_label_loop cs (label @ [d]) (d = CHR ''-''))"

definition dns_safe_label :: "string \<Rightarrow> string" where
  "dns_safe_label s =
     (let label = trim_end_matches (CHR ''-'') (dns_label_loop (lowercase_ascii s) [] False)
      in if label = [] then ''branch'' else label)"

definition preview_ingress_host :: "string \<Rightarrow> string \<Rightarrow> string \<Rightarrow> string \<Rightarrow> string" where
  "preview_ingress_host template project_name pr_number branch =
     str_replace ''{branch}'' (dns_safe_label branch)
       (str_replace ''{pr_number}'' pr_number (str_replace ''{app}'' project_name template))"

definition preview_config :: "project_spec \<Rightarrow> preview_spec option" where
  "preview_config s = Option.bind (ps_source s) src_preview"

definition signed_min :: "i32 \<Rightarrow> i32 \<Rightarrow> i32" where
  "signed_min a b = (if sint a \<le> sint b then a else b)"

definition build_preview_spec ::
  "project \<Rightarrow> string \<Rightarrow> string \<Rightarrow> string option \<Rightarrow> operator_error + project_spec" where
  "build_preview_spec parent pr_number image_tag branch_override =
     (let ps = pj_spec parent in
      case Option.bind (Option.bind (ps_source ps) src_build) bsp_registry of
        None \<Rightarrow> Inl (MissingField ''source.build.registry'')
      | Some registry \<Rightarrow>
          (let overrides = Option.bind (preview_config ps) pv_overrides;
               budget = Option.bind (preview_config ps) pv_budget;
               requested = (case Option.bind overrides po_replicas of None \<Rightarrow> 1 | Some r \<Rightarrow> r);
               replicas = (case Option.bind budget pb_max_replicas of
                             Some m \<Rightarrow> signed_min requested m | None \<Rightarrow> requested);
               database = (if Option.bind overrides po_database = Some True then ps_database ps else None);
               cache = (if Option.bind overrides po_cache = Some True then ps_cache ps else None);
               project_name = preview_project_name (name_any parent) pr_number;
               branch = (case branch_override of
                           Some b \<Rightarrow> if trim b \<noteq> [] then b
                                    else unwrap_or ''main'' (Option.bind (ps_source ps) src_branch)
                         | None \<Rightarrow> unwrap_or ''main'' (Option.bind (ps_source ps) src_branch));
               ingress_host = map_option (\<lambda>t. preview_ingress_host t project_name pr_number branch)
                 (Option.bind (preview_config ps) pv_url_template);
               services = map_option (\<lambda>s. s\<lparr>svc_ingress_host :=
                   (case ingress_host of Some h \<Rightarrow> Some h | None \<Rightarrow> svc_ingress_host s)\<rparr>) (ps_services ps)
           in Inr \<lparr>ps_image = registry @ '':'' @ image_tag, ps_replicas = Some replicas,
                ps_database = database, ps_cache = cache, ps_worker = ps_worker ps, ps_auth = ps_auth ps,
                ps_storage = None, ps_mail = None, ps_scale = None, ps_health = ps_health ps,
                ps_services = services, ps_deletion_policy = Delete, ps_features = ps_features ps,
                ps_env = ps_env ps, ps_pages = ps_pages ps, ps_introspect = None,
                ps_isolation = ps_isolation ps, ps_source = None, ps_plugins = None,
                ps_image_pull_secrets = ps_image_pull_secrets ps, ps_service_account = None,
                ps_infrastructure = None, ps_tenant = None\<rparr>))"

text \<open>
  TTLs. \<open>split_at\<close> panics when the last byte is inside a character: the outer option is the panic.
  A duration is in seconds; chrono admits those within \<open>i64::MAX\<close> milliseconds.
\<close>

definition is_continuation :: "char \<Rightarrow> bool" where
  "is_continuation c \<longleftrightarrow> 128 \<le> byte c \<and> byte c < 192"

definition parse_int64 :: "string \<Rightarrow> int option" where
  "parse_int64 s =
     (let (neg, ds) = (case s of [] \<Rightarrow> (False, [])
            | c # cs \<Rightarrow> if c = CHR ''-'' then (True, cs) else if c = CHR ''+'' then (False, cs) else (False, s));
          n = int (digits_value 10 (map (\<lambda>c. byte c - 48) ds));
          v = (if neg then - n else n)
      in if ds \<noteq> [] \<and> list_all is_ascii_digit ds \<and> - (2 ^ 63) \<le> v \<and> v < 2 ^ 63 then Some v else None)"

definition try_seconds :: "int \<Rightarrow> int option" where
  "try_seconds v = (if \<bar>v\<bar> \<le> 9223372036854775807 div 1000 then Some v else None)"

definition parse_duration :: "string \<Rightarrow> int option option" where
  "parse_duration s =
     (let t = trim s in
      if t = [] then Some None
      else if is_continuation (last t) then None
      else Some (case parse_int64 (butlast t) of
             None \<Rightarrow> None
           | Some v \<Rightarrow>
               if last t = CHR ''h'' then try_seconds (v * 3600)
               else if last t = CHR ''d'' then try_seconds (v * 86400)
               else None))"

definition is_ttl_expired ::
  "(string \<Rightarrow> timestamp option) \<Rightarrow> timestamp \<Rightarrow> string \<Rightarrow> string \<Rightarrow> bool option" where
  "is_ttl_expired parse_rfc3339 now last_activity ttl =
     (case parse_rfc3339 last_activity of
        None \<Rightarrow> Some False
      | Some activity_time \<Rightarrow>
          map_option (\<lambda>d. case d of None \<Rightarrow> False | Some secs \<Rightarrow> now - activity_time > secs * 1000000000)
            (parse_duration ttl))"

unbundle bit_operations_syntax

section \<open>Preview namespaces\<close>

definition PREVIEW_NAMESPACE_SUFFIX :: string where "PREVIEW_NAMESPACE_SUFFIX = ''preview''"

definition IDENTITY_HASH_LENGTH :: nat where "IDENTITY_HASH_LENGTH = 12"

definition is_char_boundary :: "string \<Rightarrow> nat \<Rightarrow> bool" where
  "is_char_boundary s n \<longleftrightarrow> n = 0 \<or> n = length s \<or> (n < length s \<and> \<not> is_continuation (s ! n))"

fun floor_boundary :: "string \<Rightarrow> nat \<Rightarrow> nat" where
  "floor_boundary s 0 = 0"
| "floor_boundary s (Suc n) = (if is_char_boundary s (Suc n) then Suc n else floor_boundary s n)"

definition trim_dns_label_prefix :: "string \<Rightarrow> nat \<Rightarrow> string" where
  "trim_dns_label_prefix value max_len =
     trim_end_matches (CHR ''-'') (take (floor_boundary value (min (length value) max_len)) value)"

fun sanitize_loop :: "string \<Rightarrow> bool \<Rightarrow> string" where
  "sanitize_loop [] previous_dash = []"
| "sanitize_loop (c # cs) previous_dash =
     (if is_ascii_lowercase c \<or> is_ascii_digit c then c # sanitize_loop cs False
      else if previous_dash then sanitize_loop cs True
      else CHR ''-'' # sanitize_loop cs True)"

definition sanitize_dns_label_component :: "string \<Rightarrow> string" where
  "sanitize_dns_label_component value = trim_matches (CHR ''-'') (sanitize_loop (utf8_leads value) False)"

definition fnv_step :: "u64 \<Rightarrow> char \<Rightarrow> u64" where
  "fnv_step hash b = (hash XOR of_nat (byte b)) * 0x100000001b3"

definition identity_hash :: "string \<Rightarrow> string \<Rightarrow> string" where
  "identity_hash parent_namespace parent_name =
     take IDENTITY_HASH_LENGTH (hex_digits 16 (unat
       (foldl fnv_step 0xcbf29ce484222325 (parent_namespace @ [CHR 0x00] @ parent_name))))"

definition preview_namespace_name :: "string \<Rightarrow> string \<Rightarrow> string" where
  "preview_namespace_name parent_namespace parent_name =
     (let identity = parent_namespace @ ''-'' @ sanitize_dns_label_component parent_name;
          hash = identity_hash parent_namespace parent_name;
          suffix_len = 1 + IDENTITY_HASH_LENGTH + 1 + length PREVIEW_NAMESPACE_SUFFIX;
          prefix_len = DNS_1123_LABEL_MAX_LENGTH - suffix_len
      in trim_dns_label_prefix identity prefix_len @ ''-'' @ hash @ ''-'' @ PREVIEW_NAMESPACE_SUFFIX)"

definition legacy_preview_namespace_parts :: "string \<Rightarrow> (string \<times> string) option" where
  "legacy_preview_namespace_parts preview_namespace =
     (case strip_suffix preview_namespace (CHR ''-'' # PREVIEW_NAMESPACE_SUFFIX) of
        None \<Rightarrow> None
      | Some rest \<Rightarrow>
          (case rsplit_once (CHR ''-'') rest of
             None \<Rightarrow> None
           | Some (identity_prefix, hash) \<Rightarrow>
               if length hash \<noteq> IDENTITY_HASH_LENGTH \<or> \<not> list_all is_hex_lower hash then None
               else Some (identity_prefix, hash)))"

definition legacy_preview_namespace_matches :: "string \<Rightarrow> string \<Rightarrow> bool" where
  "legacy_preview_namespace_matches preview_namespace parent_name =
     (let safe_parent_name = sanitize_dns_label_component parent_name in
      if safe_parent_name = [] then False
      else (case legacy_preview_namespace_parts preview_namespace of
              None \<Rightarrow> False
            | Some (identity_prefix, _) \<Rightarrow>
                (case strip_suffix identity_prefix (CHR ''-'' # safe_parent_name) of
                   None \<Rightarrow> False
                 | Some parent_namespace \<Rightarrow>
                     parent_namespace \<noteq> [] \<and> preview_namespace_name parent_namespace parent_name = preview_namespace)))"

definition preview_namespace_labels :: "string \<Rightarrow> string \<Rightarrow> (string \<times> string) list" where
  "preview_namespace_labels parent_namespace parent_name =
     [(MANAGED_BY, MANAGED_BY_VALUE), (PARENT_APP_LABEL_KEY, parent_name),
      (PARENT_NAMESPACE_LABEL_KEY, parent_namespace), (''reinhardt.dev/preview-namespace'', ''true'')]"

definition preview_namespace_owner_labels :: "string \<Rightarrow> string \<Rightarrow> string \<Rightarrow> label_map" where
  "preview_namespace_owner_labels parent_namespace parent_name parent_uid =
     (map_of (preview_namespace_labels parent_namespace parent_name))(PARENT_UID_LABEL_KEY \<mapsto> parent_uid)"

definition labels_match_preview_owner :: "label_map option \<Rightarrow> string \<Rightarrow> string \<Rightarrow> string \<Rightarrow> bool" where
  "labels_match_preview_owner labels parent_namespace parent_name parent_uid \<longleftrightarrow>
     (case labels of None \<Rightarrow> False | Some m \<Rightarrow>
        m MANAGED_BY = Some MANAGED_BY_VALUE \<and> m ''reinhardt.dev/preview-namespace'' = Some ''true''
        \<and> m PARENT_APP_LABEL_KEY = Some parent_name
        \<and> m PARENT_NAMESPACE_LABEL_KEY = Some parent_namespace
        \<and> m PARENT_UID_LABEL_KEY = Some parent_uid)"

definition labels_match_preview_guardrail :: "label_map option \<Rightarrow> string \<Rightarrow> string \<Rightarrow> bool" where
  "labels_match_preview_guardrail labels parent_namespace parent_name \<longleftrightarrow>
     is_some_and labels (\<lambda>m. list_all (\<lambda>(k, v). m k = Some v)
       (preview_namespace_labels parent_namespace parent_name))"

section \<open>Verified previews and image-pull secrets\<close>

definition preview_parent_name_from_labels :: "project \<Rightarrow> string \<Rightarrow> string option" where
  "preview_parent_name_from_labels app app_name =
     (case om_labels (pj_metadata app) of
        None \<Rightarrow> None
      | Some labels \<Rightarrow>
          (case (labels PARENT_APP_LABEL_KEY, labels PR_NUMBER_LABEL_KEY) of
             (Some parent_name, Some pr_number) \<Rightarrow>
               if labels PREVIEW_LABEL_KEY \<noteq> Some ''true''
                  \<or> labels MANAGED_BY \<noteq> Some MANAGED_BY_LABEL_VALUE
                  \<or> \<not> list_all is_ascii_digit pr_number \<or> pr_number = []
               then None
               else if app_name = preview_project_name parent_name pr_number then Some parent_name
               else None
           | _ \<Rightarrow> None))"

definition verified_preview_namespace :: "project \<Rightarrow> label_map \<Rightarrow> string \<Rightarrow> bool" where
  "verified_preview_namespace app labels parent_name =
     (case app_namespace app of
        None \<Rightarrow> False
      | Some namespace \<Rightarrow>
          (case labels PARENT_NAMESPACE_LABEL_KEY of
             None \<Rightarrow> legacy_preview_namespace_matches namespace parent_name
           | Some parent_namespace \<Rightarrow> namespace = preview_namespace_name parent_namespace parent_name))"

definition verified_preview_parent_name :: "project \<Rightarrow> string \<Rightarrow> string option" where
  "verified_preview_parent_name app app_name =
     (case preview_parent_name_from_labels app app_name of
        None \<Rightarrow> None
      | Some parent_name \<Rightarrow>
          (case om_labels (pj_metadata app) of
             None \<Rightarrow> None
           | Some labels \<Rightarrow>
               if verified_preview_namespace app labels parent_name then Some parent_name else None))"

definition image_pull_secret_prefixes :: "project \<Rightarrow> string \<Rightarrow> string list" where
  "image_pull_secret_prefixes app app_name =
     (let app_prefix = app_name @ ''-'' in
      case verified_preview_parent_name app app_name of
        None \<Rightarrow> [app_prefix]
      | Some parent_name \<Rightarrow>
          (let parent_prefix = parent_name @ ''-'' in
           if parent_prefix = app_prefix then [app_prefix] else [app_prefix, parent_prefix]))"

definition validated_image_pull_secrets :: "project \<Rightarrow> operator_error + string list option" where
  "validated_image_pull_secrets app =
     (case ps_image_pull_secrets (pj_spec app) of
        None \<Rightarrow> Inr None
      | Some secrets \<Rightarrow>
          (let prefixes = image_pull_secret_prefixes app (name_any app) in
           case find (\<lambda>s. \<not> list_ex (\<lambda>p. starts_with s p) prefixes) secrets of
             Some s \<Rightarrow> Inl (InvalidImagePullSecret (name_any app) s (join '', '' prefixes))
           | None \<Rightarrow> Inr (Some secrets)))"

definition is_verified_preview_of :: "project \<Rightarrow> string \<Rightarrow> string \<Rightarrow> bool" where
  "is_verified_preview_of preview_app parent_namespace parent_name \<longleftrightarrow>
     (case Option.bind (om_labels (pj_metadata preview_app)) (\<lambda>m. m PARENT_NAMESPACE_LABEL_KEY) of
        None \<Rightarrow> True | Some namespace \<Rightarrow> namespace = parent_namespace)
     \<and> app_namespace preview_app = Some (preview_namespace_name parent_namespace parent_name)
     \<and> preview_parent_name_from_labels preview_app (name_any preview_app) = Some parent_name"

end
