(* ===== verification/Objects.thy ===== *)
theory Objects
  imports Resources
begin

text \<open>
  The Kubernetes objects the operator builds and reads (types of \<open>k8s-openapi\<close>), with the fields the
  code sets or looks at; every other field has its default, as \<open>..Default::default()\<close> in the code.
  A \<open>BTreeMap\<close> is a map where its order is never observed and an association list where it is.
  \<open>LabelSelector\<close> is its \<open>match_labels\<close>; a \<open>Quantity\<close> is its string.
\<close>

type_synonym quantity_map = "string \<Rightarrow> string option"

section \<open>Pods\<close>

record k8s_env_var =
  ev_name :: string
  ev_value :: "string option"
  ev_secret_key_ref :: "(string \<times> string \<times> bool) option"

record env_from_secret =
  ef_secret :: string
  ef_optional :: "bool option"

record volume_mount =
  vm_name :: string
  vm_mount_path :: string
  vm_sub_path :: "string option"
  vm_read_only :: "bool option"

definition volume_mount_default :: volume_mount where
  "volume_mount_default = \<lparr>vm_name = [], vm_mount_path = [], vm_sub_path = None, vm_read_only = None\<rparr>"

record secret_volume =
  sv_secret_name :: string
  sv_items :: "(string \<times> string) list"
  sv_optional :: bool

record volume =
  vol_name :: string
  vol_secret :: "secret_volume option"
  vol_config_map :: "string option"
  vol_empty_dir :: bool
  vol_claim :: "string option"

definition volume_default :: volume where
  "volume_default = \<lparr>vol_name = [], vol_secret = None, vol_config_map = None, vol_empty_dir = False, vol_claim = None\<rparr>"

record container_port =
  cp_container_port :: i32
  cp_name :: "string option"

record probe =
  pr_path :: string
  pr_port :: i32
  pr_initial_delay :: "i32 option"
  pr_period :: "i32 option"

record resource_requirements =
  rr_requests :: "quantity_map option"
  rr_limits :: "quantity_map option"

record container_security =
  cse_allow_privilege_escalation :: "bool option"
  cse_read_only_root_filesystem :: "bool option"
  cse_drop :: "string list option"

record pod_security =
  pse_run_as_non_root :: "bool option"
  pse_run_as_user :: "int option"
  pse_run_as_group :: "int option"
  pse_fs_group :: "int option"
  pse_seccomp_profile :: "string option"

record container =
  ct_name :: string
  ct_image :: string
  ct_command :: "string list option"
  ct_args :: "string list option"
  ct_ports :: "container_port list option"
  ct_env :: "k8s_env_var list option"
  ct_env_from :: "env_from_secret list option"
  ct_volume_mounts :: "volume_mount list option"
  ct_readiness_probe :: "probe option"
  ct_liveness_probe :: "probe option"
  ct_resources :: "resource_requirements option"
  ct_security_context :: "container_security option"

definition container_default :: container where
  "container_default = \<lparr>ct_name = [], ct_image = [], ct_command = None, ct_args = None, ct_ports = None, ct_env = None,
     ct_env_from = None, ct_volume_mounts = None, ct_readiness_probe = None, ct_liveness_probe = None,
     ct_resources = None, ct_security_context = None\<rparr>"

record pod_spec =
  pod_restart_policy :: "string option"
  pod_runtime_class_name :: "string option"
  pod_security_context :: "pod_security option"
  pod_init_containers :: "container list option"
  pod_containers :: "container list"
  pod_volumes :: "volume list option"
  pod_image_pull_secrets :: "string list option"
  pod_service_account_name :: "string option"

definition pod_spec_default :: pod_spec where
  "pod_spec_default = \<lparr>pod_restart_policy = None, pod_runtime_class_name = None, pod_security_context = None,
     pod_init_containers = None, pod_containers = [], pod_volumes = None, pod_image_pull_secrets = None,
     pod_service_account_name = None\<rparr>"

record pod_template =
  pt_metadata :: "object_meta option"
  pt_spec :: "pod_spec option"

text \<open>The secrets the containers of a pod can read.\<close>

definition container_secrets :: "container \<Rightarrow> string set" where
  "container_secrets c =
     {s. \<exists>e \<in> set (unwrap_or [] (ct_env c)). \<exists>k opt. ev_secret_key_ref e = Some (s, k, opt)}
     \<union> ef_secret ` set (unwrap_or [] (ct_env_from c))"

definition pod_secrets :: "pod_spec \<Rightarrow> string set" where
  "pod_secrets p =
     (\<Union>c \<in> set (pod_containers p @ unwrap_or [] (pod_init_containers p)). container_secrets c)
     \<union> {s. \<exists>v \<in> set (unwrap_or [] (pod_volumes p)). \<exists>sv. vol_secret v = Some sv \<and> s = sv_secret_name sv}"

section \<open>Workloads\<close>

record job_spec =
  jsp_backoff_limit :: "i32 option"
  jsp_template :: pod_template

record job_condition =
  jc_type :: string
  jc_status :: string
  jc_reason :: "string option"
  jc_message :: "string option"

record job_status =
  js_succeeded :: "i32 option"
  js_failed :: "i32 option"
  js_conditions :: "job_condition list option"

record job =
  jb_metadata :: object_meta
  jb_spec :: "job_spec option"
  jb_status :: "job_status option"

record deployment_spec =
  ds_replicas :: "i32 option"
  ds_selector :: "label_map option"
  ds_template :: pod_template

record deployment =
  dp_metadata :: object_meta
  dp_spec :: "deployment_spec option"
  dp_ready_replicas :: "i32 option"

record persistent_volume_claim =
  pvc_metadata :: object_meta
  pvc_access_modes :: "string list option"
  pvc_requests :: "quantity_map option"

record stateful_set =
  ss_metadata :: object_meta
  ss_replicas :: "i32 option"
  ss_service_name :: "string option"
  ss_selector :: "label_map option"
  ss_template :: pod_template
  ss_claim_templates :: "persistent_volume_claim list option"

section \<open>Services and scaling\<close>

record service_port =
  sp_name :: "string option"
  sp_port :: i32
  sp_target_port :: "i32 option"
  sp_app_protocol :: "string option"

record service =
  svo_metadata :: object_meta
  svo_type :: "string option"
  svo_cluster_ip :: "string option"
  svo_selector :: "label_map option"
  svo_ports :: "service_port list option"

record ingress_path =
  ip_path :: "string option"
  ip_path_type :: string
  ip_service :: string
  ip_port :: i32

record ingress_rule =
  ir_host :: "string option"
  ir_paths :: "ingress_path list option"

record ingress_tls =
  it_hosts :: "string list option"
  it_secret_name :: "string option"

record ingress_spec =
  is_class_name :: "string option"
  is_rules :: "ingress_rule list option"
  is_tls :: "ingress_tls list option"

record ingress =
  ing_metadata :: object_meta
  ing_spec :: "ingress_spec option"

record metric_spec =
  ms_resource :: string
  ms_target_type :: string
  ms_average_utilization :: "i32 option"
  ms_average_value :: "string option"

record hpa_status =
  hs_observed_generation :: "i64 option"
  hs_conditions :: "(string \<times> string) list option"

record autoscaler =
  hpa_metadata :: object_meta
  hpa_target :: "string \<times> string"
  hpa_min_replicas :: "i32 option"
  hpa_max_replicas :: i32
  hpa_metrics :: "metric_spec list option"
  hpa_status :: "hpa_status option"

section \<open>Configuration and policies\<close>

text \<open>The data of a secret is a \<open>BTreeMap<String, ByteString>\<close>: its entries in the order of the keys.\<close>

type_synonym secret_data = "(string \<times> string) list"

record secret =
  se_metadata :: object_meta
  se_data :: "secret_data option"
  se_string_data :: "(string \<times> string) list option"
  se_immutable :: "bool option"
  se_type :: "string option"

record secret_patch =
  sep_owner_references :: "owner_reference list option"
  sep_labels :: "(string \<times> string) list option"
  sep_uid :: "string option"
  sep_resource_version :: string

record config_map =
  cm_metadata :: object_meta
  cm_data :: "(string \<times> string) list option"

record ip_block =
  ib_cidr :: string
  ib_except :: "string list option"

record policy_peer =
  pp_namespace_selector :: "label_map option"
  pp_pod_selector :: "label_map option"
  pp_ip_block :: "ip_block option"

definition policy_peer_default :: policy_peer where
  "policy_peer_default = \<lparr>pp_namespace_selector = None, pp_pod_selector = None, pp_ip_block = None\<rparr>"

record policy_rule =
  pl_peers :: "policy_peer list option"
  pl_ports :: "(string \<times> nat) list option"

record network_policy =
  np_metadata :: object_meta
  np_pod_selector :: label_map
  np_policy_types :: "string list"
  np_ingress :: "policy_rule list option"
  np_egress :: "policy_rule list option"

record limit_range =
  lr_metadata :: object_meta
  lr_type :: string
  lr_default :: "quantity_map option"
  lr_default_request :: "quantity_map option"

record resource_quota =
  rq_metadata :: object_meta
  rq_hard :: "quantity_map option"

record issuer =
  is_metadata :: object_meta
  is_server :: string
  is_email :: string
  is_private_key_secret :: string
  is_solver_classes :: "string list"

text \<open>\<open>serde_json::Value\<close>, as far as the cloud provider objects use it.\<close>

datatype json = JString string | JInt int | JBool bool | JObject "(string \<times> json) list"

record dynamic_object =
  dy_metadata :: object_meta
  dy_api_version :: string
  dy_kind :: string
  dy_data :: json

text \<open>What a server-side apply sends.\<close>

datatype k8s_object =
    ObjDeployment deployment
  | ObjService service
  | ObjIngress ingress
  | ObjAutoscaler autoscaler
  | ObjConfigMap config_map
  | ObjServiceAccount object_meta
  | ObjNetworkPolicy network_policy
  | ObjLimitRange limit_range
  | ObjResourceQuota resource_quota
  | ObjIssuer issuer
  | ObjStatefulSet stateful_set
  | ObjClaim persistent_volume_claim
  | ObjDynamic dynamic_object

end
