(* ===== verification/Requests.thy ===== *)
theory Requests
  imports Prelude
begin

text \<open>
  Programs that send requests to a server, and three logics for them. A program acts on a state of the
  server of any type and on the log of its requests; the log is for the properties, the code cannot see
  it, and the flag of an entry says whether the request succeeded. \<open>op_holds\<close> says what the log and
  the result satisfy whatever is answered, \<open>op_only\<close> which requests a program can send, and \<open>op_runs\<close>
  how it ends from a given state of the server.
\<close>

section \<open>Programs\<close>

type_synonym 'c request_log = "('c \<times> bool) list"
type_synonym ('c, 'w, 'e, 'a) op = "'w \<times> 'c request_log \<Rightarrow> ('e + 'a) \<times> ('w \<times> 'c request_log)"

definition do_request :: "'c \<Rightarrow> ('w \<Rightarrow> ('e + 'a) \<times> 'w) \<Rightarrow> ('c, 'w, 'e, 'a) op" where
  "do_request call f s =
     (case s of (w, lg) \<Rightarrow> (case f w of (r, w') \<Rightarrow> (r, (w', lg @ [(call, \<not> isl r)]))))"

definition op_return :: "'a \<Rightarrow> ('c, 'w, 'e, 'a) op" where
  "op_return a s = (Inr a, s)"

definition op_throw :: "'e \<Rightarrow> ('c, 'w, 'e, 'a) op" where
  "op_throw e s = (Inl e, s)"

definition op_bind :: "('c, 'w, 'e, 'a) op \<Rightarrow> ('a \<Rightarrow> ('c, 'w, 'e, 'b) op) \<Rightarrow> ('c, 'w, 'e, 'b) op" where
  "op_bind m f s = (case m s of (Inl e, s') \<Rightarrow> (Inl e, s') | (Inr a, s') \<Rightarrow> f a s')"

definition op_lift :: "'e + 'a \<Rightarrow> ('c, 'w, 'e, 'a) op" where
  "op_lift r s = (r, s)"

text \<open>A loop whose body may return early with an error.\<close>

fun op_for :: "'a list \<Rightarrow> ('a \<Rightarrow> ('c, 'w, 'e, unit) op) \<Rightarrow> ('c, 'w, 'e, unit) op" where
  "op_for [] body = op_return ()"
| "op_for (x # xs) body = op_bind (body x) (\<lambda>_. op_for xs body)"

text \<open>\<open>.map_err(g)?\<close>, and the result of a request as a value for a \<open>match\<close>.\<close>

definition op_map_err :: "('d \<Rightarrow> 'e) \<Rightarrow> ('c, 'w, 'd, 'a) op \<Rightarrow> ('c, 'w, 'e, 'a) op" where
  "op_map_err g m s = (case m s of (Inl e, s') \<Rightarrow> (Inl (g e), s') | (Inr a, s') \<Rightarrow> (Inr a, s'))"

definition op_try :: "('c, 'w, 'd, 'a) op \<Rightarrow> ('c, 'w, 'e, 'd + 'a) op" where
  "op_try m s = (case m s of (r, s') \<Rightarrow> (Inr r, s'))"

lemma op_simps [simp]:
  "op_return a s = (Inr a, s)"
  "op_throw e s = (Inl e, s)"
  "op_lift r s = (r, s)"
  "op_bind (op_return a) f = f a"
  "op_bind (op_throw e) f = op_throw e"
  "op_bind (op_lift (Inr a)) f = f a"
  "op_bind (op_lift (Inl e)) f = op_throw e"
  by (simp_all add: op_return_def op_throw_def op_lift_def op_bind_def fun_eq_iff)

definition log_of :: "('e + 'a) \<times> 'w \<times> 'c request_log \<Rightarrow> 'c request_log" where
  "log_of r = snd (snd r)"

section \<open>Reasoning about the requests of a pass\<close>

text \<open>
  \<open>op_holds l m Q\<close>: whatever the API answers, the program \<open>m\<close> started with the log \<open>l\<close> ends with a
  result and a log that satisfy \<open>Q\<close>. The rules run a program request by request.
\<close>

definition op_holds :: "'c request_log \<Rightarrow> ('c, 'w, 'e, 'a) op \<Rightarrow> ('e + 'a \<Rightarrow> 'c request_log \<Rightarrow> bool) \<Rightarrow> bool" where
  "op_holds l m Q \<longleftrightarrow> (\<forall>w. Q (fst (m (w, l))) (log_of (m (w, l))))"

named_theorems op_rules \<open>running a program request by request\<close>

lemma op_bind_assoc [simp]: "op_bind (op_bind m f) g = op_bind m (\<lambda>a. op_bind (f a) g)"
  by (auto simp: op_bind_def fun_eq_iff split: prod.splits sum.splits)

lemma op_bind_return [simp]: "op_bind m op_return = m"
  by (auto simp: op_bind_def op_return_def fun_eq_iff split: prod.splits sum.splits)

lemma op_bind_if [simp]: "op_bind (if b then m else n) f = (if b then op_bind m f else op_bind n f)"
  by simp

lemma op_holds_return [op_rules]: "Q (Inr a) l \<Longrightarrow> op_holds l (op_return a) Q"
  by (simp add: op_holds_def log_of_def)

lemma op_holds_throw [op_rules]: "Q (Inl e) l \<Longrightarrow> op_holds l (op_throw e) Q"
  by (simp add: op_holds_def log_of_def)

lemma op_holds_lift [op_rules]:
  "(\<And>e. r = Inl e \<Longrightarrow> Q (Inl e) l) \<Longrightarrow> (\<And>a. r = Inr a \<Longrightarrow> op_holds l (f a) Q)
     \<Longrightarrow> op_holds l (op_bind (op_lift r) f) Q"
  by (cases r) (simp_all add: op_holds_def log_of_def)

lemma op_holds_request [op_rules]:
  "(\<And>e. Q (Inl (g e)) (l @ [(c, False)])) \<Longrightarrow> (\<And>a. Q (Inr a) (l @ [(c, True)]))
     \<Longrightarrow> op_holds l (op_map_err g (do_request c f)) Q"
  by (auto simp: op_holds_def log_of_def op_map_err_def do_request_def split: prod.splits sum.splits)

lemma op_holds_request_bind [op_rules]:
  "(\<And>e. Q (Inl (g e)) (l @ [(c, False)])) \<Longrightarrow> (\<And>a. op_holds (l @ [(c, True)]) (k a) Q)
     \<Longrightarrow> op_holds l (op_bind (op_map_err g (do_request c f)) k) Q"
  by (auto simp: op_holds_def log_of_def op_map_err_def op_bind_def do_request_def split: prod.splits sum.splits)

lemma op_holds_try_bind [op_rules]:
  "(\<And>e. op_holds (l @ [(c, False)]) (k (Inl e)) Q) \<Longrightarrow> (\<And>a. op_holds (l @ [(c, True)]) (k (Inr a)) Q)
     \<Longrightarrow> op_holds l (op_bind (op_try (do_request c f)) k) Q"
proof -
  assume a: "\<And>e. op_holds (l @ [(c, False)]) (k (Inl e)) Q" "\<And>a. op_holds (l @ [(c, True)]) (k (Inr a)) Q"
  show ?thesis
    unfolding op_holds_def
  proof
    fix w
    obtain r w' where f: "f w = (r, w')" by (cases "f w")
    have "op_bind (op_try (do_request c f)) k (w, l) = k r (w', l @ [(c, \<not> isl r)])"
      by (simp add: op_bind_def op_try_def do_request_def f)
    moreover have "op_holds (l @ [(c, \<not> isl r)]) (k r) Q" using a by (cases r) simp_all
    ultimately show "Q (fst (op_bind (op_try (do_request c f)) k (w, l)))
        (log_of (op_bind (op_try (do_request c f)) k (w, l)))"
      by (simp add: op_holds_def)
  qed
qed

lemma op_holds_if [op_rules]:
  "(b \<Longrightarrow> op_holds l m Q) \<Longrightarrow> (\<not> b \<Longrightarrow> op_holds l n Q) \<Longrightarrow> op_holds l (if b then m else n) Q"
  by simp

lemma op_holds_option [op_rules]:
  "(x = None \<Longrightarrow> op_holds l m Q) \<Longrightarrow> (\<And>a. x = Some a \<Longrightarrow> op_holds l (f a) Q)
     \<Longrightarrow> op_holds l (case x of None \<Rightarrow> m | Some a \<Rightarrow> f a) Q"
  by (cases x) simp_all

lemma op_bind_option [simp]:
  "op_bind (case x of None \<Rightarrow> m | Some a \<Rightarrow> f a) g = (case x of None \<Rightarrow> op_bind m g | Some a \<Rightarrow> op_bind (f a) g)"
  by (cases x) simp_all

text \<open>The same for a program in front of a continuation.\<close>

lemma op_holds_return_bind [op_rules]: "op_holds l (f a) Q \<Longrightarrow> op_holds l (op_bind (op_return a) f) Q"
  by simp

lemma op_holds_throw_bind [op_rules]: "Q (Inl e) l \<Longrightarrow> op_holds l (op_bind (op_throw e) f) Q"
  by (simp add: op_holds_throw)

lemma op_holds_assoc [op_rules]:
  "op_holds l (op_bind m (\<lambda>a. op_bind (f a) g)) Q \<Longrightarrow> op_holds l (op_bind (op_bind m f) g) Q"
  by simp

lemma op_holds_if_bind [op_rules]:
  "(b \<Longrightarrow> op_holds l (op_bind m f) Q) \<Longrightarrow> (\<not> b \<Longrightarrow> op_holds l (op_bind n f) Q)
     \<Longrightarrow> op_holds l (op_bind (if b then m else n) f) Q"
  by simp

lemma op_holds_option_bind [op_rules]:
  "(x = None \<Longrightarrow> op_holds l (op_bind m g) Q) \<Longrightarrow> (\<And>a. x = Some a \<Longrightarrow> op_holds l (op_bind (f a) g) Q)
     \<Longrightarrow> op_holds l (op_bind (case x of None \<Rightarrow> m | Some a \<Rightarrow> f a) g) Q"
  by (cases x) simp_all

lemma op_holds_sum_bind [op_rules]:
  "(\<And>e. x = Inl e \<Longrightarrow> op_holds l (op_bind (f e) g) Q) \<Longrightarrow> (\<And>a. x = Inr a \<Longrightarrow> op_holds l (op_bind (h a) g) Q)
     \<Longrightarrow> op_holds l (op_bind (case x of Inl e \<Rightarrow> f e | Inr a \<Rightarrow> h a) g) Q"
  by (cases x) simp_all

lemma op_holds_sum [op_rules]:
  "(\<And>e. x = Inl e \<Longrightarrow> op_holds l (f e) Q) \<Longrightarrow> (\<And>a. x = Inr a \<Longrightarrow> op_holds l (h a) Q)
     \<Longrightarrow> op_holds l (case x of Inl e \<Rightarrow> f e | Inr a \<Rightarrow> h a) Q"
  by (cases x) simp_all

lemma op_holds_mono: "op_holds l m P \<Longrightarrow> (\<And>r l'. P r l' \<Longrightarrow> Q r l') \<Longrightarrow> op_holds l m Q"
  by (simp add: op_holds_def)

lemma op_holds_bind:
  "op_holds l m P \<Longrightarrow> (\<And>e l'. P (Inl e) l' \<Longrightarrow> Q (Inl e) l') \<Longrightarrow> (\<And>a l'. P (Inr a) l' \<Longrightarrow> op_holds l' (f a) Q)
     \<Longrightarrow> op_holds l (op_bind m f) Q"
  unfolding op_holds_def log_of_def op_bind_def by (auto split: prod.splits sum.splits)
    (metis prod.collapse snd_conv fst_conv)+

lemma op_holdsD: "op_holds l m Q \<Longrightarrow> m (w, l) = (r, w', l') \<Longrightarrow> Q r l'"
  unfolding op_holds_def log_of_def by (metis fst_conv snd_conv)

text \<open>\<open>op_only \<phi> m\<close>: whatever the API answers, every request of \<open>m\<close> satisfies \<open>\<phi>\<close>.\<close>

definition op_only :: "('c \<Rightarrow> bool) \<Rightarrow> ('c, 'w, 'e, 'a) op \<Rightarrow> bool" where
  "op_only \<phi> m \<longleftrightarrow> (\<forall>w l. \<exists>k. log_of (m (w, l)) = l @ k \<and> (\<forall>c\<in>set k. \<phi> (fst c)))"

named_theorems only_rules \<open>bounding the requests of a program\<close>

lemma op_only_return [only_rules]: "op_only \<phi> (op_return a)"
  and op_only_throw [only_rules]: "op_only \<phi> (op_throw e)"
  and op_only_lift [only_rules]: "op_only \<phi> (op_lift r)"
  by (simp_all add: op_only_def log_of_def)

lemma op_only_do:
  "\<phi> c \<Longrightarrow> op_only \<phi> (do_request c f)"
  by (auto simp: op_only_def log_of_def do_request_def split: prod.splits)

lemma op_only_request [only_rules]: "\<phi> c \<Longrightarrow> op_only \<phi> (op_map_err g (do_request c f))"
  by (auto simp: op_only_def log_of_def op_map_err_def do_request_def split: prod.splits sum.splits)

lemma op_only_try [only_rules]: "\<phi> c \<Longrightarrow> op_only \<phi> (op_try (do_request c f))"
  by (auto simp: op_only_def log_of_def op_try_def do_request_def split: prod.splits)

lemma op_only_bind [only_rules]:
  assumes "op_only \<phi> m" and "\<And>a. op_only \<phi> (f a)"
  shows "op_only \<phi> (op_bind m f)"
  unfolding op_only_def
proof (intro allI)
  fix w l
  obtain r w' l' where m: "m (w, l) = (r, w', l')" by (cases "m (w, l)")
  from assms(1) m obtain k where k: "l' = l @ k" "\<forall>c\<in>set k. \<phi> (fst c)"
    unfolding op_only_def log_of_def by (metis snd_conv)
  show "\<exists>k. log_of (op_bind m f (w, l)) = l @ k \<and> (\<forall>c\<in>set k. \<phi> (fst c))"
  proof (cases r)
    case (Inl e)
    then show ?thesis using m k by (simp add: op_bind_def log_of_def)
  next
    case (Inr a)
    from assms(2) [of a] obtain k' where "log_of (f a (w', l')) = l' @ k'" "\<forall>c\<in>set k'. \<phi> (fst c)"
      unfolding op_only_def by blast
    then show ?thesis using Inr m k by (intro exI [of _ "k @ k'"]) (auto simp: op_bind_def)
  qed
qed

lemma op_only_if [only_rules]:
  "(b \<Longrightarrow> op_only \<phi> m) \<Longrightarrow> (\<not> b \<Longrightarrow> op_only \<phi> n) \<Longrightarrow> op_only \<phi> (if b then m else n)"
  by simp

lemma op_only_option [only_rules]:
  "(x = None \<Longrightarrow> op_only \<phi> m) \<Longrightarrow> (\<And>a. x = Some a \<Longrightarrow> op_only \<phi> (f a))
     \<Longrightarrow> op_only \<phi> (case x of None \<Rightarrow> m | Some a \<Rightarrow> f a)"
  by (cases x) simp_all

lemma op_only_sum [only_rules]:
  "(\<And>e. x = Inl e \<Longrightarrow> op_only \<phi> (f e)) \<Longrightarrow> (\<And>a. x = Inr a \<Longrightarrow> op_only \<phi> (h a))
     \<Longrightarrow> op_only \<phi> (case x of Inl e \<Rightarrow> f e | Inr a \<Rightarrow> h a)"
  by (cases x) simp_all

lemma op_only_for [only_rules]: "(\<And>x. x \<in> set xs \<Longrightarrow> op_only \<phi> (body x)) \<Longrightarrow> op_only \<phi> (op_for xs body)"
  by (induction xs) (auto intro: only_rules)

lemma op_only_mono: "op_only \<phi> m \<Longrightarrow> (\<And>c. \<phi> c \<Longrightarrow> \<psi> c) \<Longrightarrow> op_only \<psi> m"
  unfolding op_only_def by meson

lemma op_onlyD: "op_only \<phi> m \<Longrightarrow> m (w, l) = (r, w', l') \<Longrightarrow> c \<in> set l' \<Longrightarrow> c \<in> set l \<or> \<phi> (fst c)"
  unfolding op_only_def log_of_def by (metis Un_iff set_append snd_conv)

lemma op_only_try_any: "op_only \<phi> m \<Longrightarrow> op_only \<phi> (op_try m)"
  unfolding op_only_def op_try_def log_of_def by (metis (no_types, lifting) case_prod_beta snd_conv)

text \<open>
  \<open>op_yields P m\<close>: a result of \<open>m\<close> satisfies \<open>P\<close>, whatever the API answers; what follows \<open>m\<close> may rely on it.
\<close>

definition op_yields :: "('a \<Rightarrow> bool) \<Rightarrow> ('c, 'w, 'e, 'a) op \<Rightarrow> bool" where
  "op_yields P m \<longleftrightarrow> (\<forall>s a. fst (m s) = Inr a \<longrightarrow> P a)"

named_theorems yield_rules \<open>what a program returns\<close>

lemma op_yields_return [yield_rules]: "P a \<Longrightarrow> op_yields P (op_return a)"
  and op_yields_throw [yield_rules]: "op_yields P (op_throw e)"
  and op_yields_lift [yield_rules]: "(\<And>a. r = Inr a \<Longrightarrow> P a) \<Longrightarrow> op_yields P (op_lift r)"
  by (simp_all add: op_yields_def)

lemma op_yields_request:
  "(\<And>w a. fst (f w) = Inr a \<Longrightarrow> P a) \<Longrightarrow> op_yields P (op_map_err g (do_request c f))"
  by (auto simp: op_yields_def op_map_err_def do_request_def split: prod.splits sum.splits)
    (metis fst_conv)

lemma op_yields_bind:
  assumes "op_yields P m" and "\<And>a. P a \<Longrightarrow> op_yields Q (f a)"
  shows "op_yields Q (op_bind m f)"
  using assms unfolding op_yields_def op_bind_def
  by (auto split: prod.splits sum.splits) (metis fst_conv prod.collapse)

lemma op_yields_any: "op_yields (\<lambda>_. True) m"
  by (simp add: op_yields_def)

lemma op_yields_if [yield_rules]:
  "(b \<Longrightarrow> op_yields P m) \<Longrightarrow> (\<not> b \<Longrightarrow> op_yields P n) \<Longrightarrow> op_yields P (if b then m else n)"
  by simp

lemma op_yields_option [yield_rules]:
  "(x = None \<Longrightarrow> op_yields P m) \<Longrightarrow> (\<And>a. x = Some a \<Longrightarrow> op_yields P (f a))
     \<Longrightarrow> op_yields P (case x of None \<Rightarrow> m | Some a \<Rightarrow> f a)"
  by (cases x) simp_all

lemma op_yields_map_err: "op_yields P m \<Longrightarrow> op_yields P (op_map_err g m)"
  by (auto simp: op_yields_def op_map_err_def split: prod.splits sum.splits) (metis fst_conv)

lemma op_only_bind_yields:
  assumes "op_only \<phi> m" and "op_yields P m" and "\<And>a. P a \<Longrightarrow> op_only \<phi> (f a)"
  shows "op_only \<phi> (op_bind m f)"
proof -
  let ?g = "\<lambda>a. if P a then f a else op_return undefined"
  have "op_bind m f s = op_bind m ?g s" for s
    using assms(2) [unfolded op_yields_def, rule_format, of s]
    by (cases "m s") (auto simp: op_bind_def split: sum.splits)
  then have "op_bind m f = op_bind m ?g" by (rule ext)
  moreover have "op_only \<phi> (op_bind m ?g)"
    by (intro only_rules assms(1)) (simp_all add: assms(3))
  ultimately show ?thesis by simp
qed

lemma op_only_map_err: "op_only \<phi> m \<Longrightarrow> op_only \<phi> (op_map_err g m)"
proof -
  have "log_of (op_map_err g m s) = log_of (m s)" for s
    by (auto simp: op_map_err_def log_of_def split: prod.splits sum.splits)
  then show "op_only \<phi> m \<Longrightarrow> op_only \<phi> (op_map_err g m)" by (simp add: op_only_def)
qed

section \<open>Reasoning about the state of the API server\<close>

text \<open>
  \<open>op_runs s m Q\<close>: the program \<open>m\<close> started in \<open>s\<close> ends with a result, a state of the server and a
  log that satisfy \<open>Q\<close>. The rules name the answer of each request, so that a law about the request
  can be applied to it.
\<close>

definition op_runs :: "'w \<times> 'c request_log \<Rightarrow> ('c, 'w, 'e, 'a) op \<Rightarrow> ('e + 'a \<Rightarrow> 'w \<Rightarrow> 'c request_log \<Rightarrow> bool) \<Rightarrow> bool" where
  "op_runs s m Q \<longleftrightarrow> (case m s of (r, w, l) \<Rightarrow> Q r w l)"

named_theorems run_rules \<open>running a program against a given server\<close>

lemma op_runs_return [run_rules]: "Q (Inr a) w l \<Longrightarrow> op_runs (w, l) (op_return a) Q"
  by (simp add: op_runs_def)

lemma op_runs_throw [run_rules]: "Q (Inl e) w l \<Longrightarrow> op_runs (w, l) (op_throw e) Q"
  by (simp add: op_runs_def)

lemma op_runs_lift_bind [run_rules]:
  "(\<And>e. r = Inl e \<Longrightarrow> Q (Inl e) w l) \<Longrightarrow> (\<And>a. r = Inr a \<Longrightarrow> op_runs (w, l) (f a) Q)
     \<Longrightarrow> op_runs (w, l) (op_bind (op_lift r) f) Q"
  by (cases r) (simp_all add: op_runs_def)

lemma op_runs_request [run_rules]:
  "(\<And>e w'. f w = (Inl e, w') \<Longrightarrow> Q (Inl (g e)) w' (l @ [(c, False)]))
     \<Longrightarrow> (\<And>a w'. f w = (Inr a, w') \<Longrightarrow> Q (Inr a) w' (l @ [(c, True)]))
     \<Longrightarrow> op_runs (w, l) (op_map_err g (do_request c f)) Q"
  by (auto simp: op_runs_def op_map_err_def do_request_def split: prod.splits sum.splits)

lemma op_runs_request_bind [run_rules]:
  "(\<And>e w'. f w = (Inl e, w') \<Longrightarrow> Q (Inl (g e)) w' (l @ [(c, False)]))
     \<Longrightarrow> (\<And>a w'. f w = (Inr a, w') \<Longrightarrow> op_runs (w', l @ [(c, True)]) (k a) Q)
     \<Longrightarrow> op_runs (w, l) (op_bind (op_map_err g (do_request c f)) k) Q"
  by (auto simp: op_runs_def op_map_err_def op_bind_def do_request_def split: prod.splits sum.splits)

lemma op_runs_try_bind [run_rules]:
  "(\<And>e w'. f w = (Inl e, w') \<Longrightarrow> op_runs (w', l @ [(c, False)]) (k (Inl e)) Q)
     \<Longrightarrow> (\<And>a w'. f w = (Inr a, w') \<Longrightarrow> op_runs (w', l @ [(c, True)]) (k (Inr a)) Q)
     \<Longrightarrow> op_runs (w, l) (op_bind (op_try (do_request c f)) k) Q"
  by (cases "f w"; cases "fst (f w)") (simp_all add: op_runs_def op_try_def op_bind_def do_request_def)

lemma op_runs_if [run_rules]:
  "(b \<Longrightarrow> op_runs s m Q) \<Longrightarrow> (\<not> b \<Longrightarrow> op_runs s n Q) \<Longrightarrow> op_runs s (if b then m else n) Q"
  by simp

lemma op_runs_option [run_rules]:
  "(x = None \<Longrightarrow> op_runs s m Q) \<Longrightarrow> (\<And>a. x = Some a \<Longrightarrow> op_runs s (f a) Q)
     \<Longrightarrow> op_runs s (case x of None \<Rightarrow> m | Some a \<Rightarrow> f a) Q"
  by (cases x) simp_all

lemma op_runs_sum [run_rules]:
  "(\<And>e. x = Inl e \<Longrightarrow> op_runs s (f e) Q) \<Longrightarrow> (\<And>a. x = Inr a \<Longrightarrow> op_runs s (h a) Q)
     \<Longrightarrow> op_runs s (case x of Inl e \<Rightarrow> f e | Inr a \<Rightarrow> h a) Q"
  by (cases x) simp_all

lemma op_runs_for:
  assumes "\<And>x s. x \<in> set xs \<Longrightarrow> I s \<Longrightarrow> op_runs s (body x) (\<lambda>r w l. I (w, l))" and "I s"
  shows "op_runs s (op_for xs body) (\<lambda>r w l. I (w, l))"
  using assms
proof (induction xs arbitrary: s)
  case Nil
  then show ?case by (cases s) (simp add: op_runs_def)
next
  case (Cons x xs)
  then have "op_runs s (body x) (\<lambda>r w l. I (w, l))" by simp
  with Cons show ?case
    by (cases "body x s"; cases "fst (body x s)") (auto simp: op_runs_def op_bind_def)
qed

lemma op_runs_bind:
  "op_runs s m P \<Longrightarrow> (\<And>e w l. P (Inl e) w l \<Longrightarrow> Q (Inl e) w l)
     \<Longrightarrow> (\<And>a w l. P (Inr a) w l \<Longrightarrow> op_runs (w, l) (f a) Q) \<Longrightarrow> op_runs s (op_bind m f) Q"
  by (cases "m s"; cases "fst (m s)") (simp_all add: op_runs_def op_bind_def)

lemma op_runs_mono: "op_runs s m P \<Longrightarrow> (\<And>r w l. P r w l \<Longrightarrow> Q r w l) \<Longrightarrow> op_runs s m Q"
  by (auto simp: op_runs_def split: prod.splits)

lemma op_runsD: "op_runs s m Q \<Longrightarrow> m s = (r, w, l) \<Longrightarrow> Q r w l"
  by (simp add: op_runs_def)

section \<open>Following the state of the server\<close>

text \<open>
  When every request of a program has one meaning (\<open>after c\<close> is what the request \<open>c\<close> makes of the state of
  the server), the state during a run can be read off its log: \<open>state_at\<close> is the state after a log, and
  \<open>answered\<close> says that a request of the log was accepted with the given answer. \<open>op_obeys\<close>: every request of
  \<open>m\<close> satisfies \<open>\<phi>\<close> of the log before it, given that the log satisfies \<open>K\<close>; what has been learnt from
  an answer stays known.
\<close>

definition state_at :: "('c \<Rightarrow> 'w \<Rightarrow> 'w) \<Rightarrow> 'w \<Rightarrow> 'c request_log \<Rightarrow> 'w" where
  "state_at after w l = fold (\<lambda>(c, _). after c) l w"

definition answered ::
  "('c \<Rightarrow> 'w \<Rightarrow> 'w) \<Rightarrow> 'w \<Rightarrow> 'c request_log \<Rightarrow> 'c \<Rightarrow> ('w \<Rightarrow> ('e + 'a) \<times> 'w) \<Rightarrow> 'a \<Rightarrow> bool" where
  "answered after w l c f a \<longleftrightarrow> (\<exists>l1 l2. l = l1 @ (c, True) # l2 \<and> fst (f (state_at after w l1)) = Inr a)"

definition obeyed :: "('c request_log \<Rightarrow> 'c \<Rightarrow> bool) \<Rightarrow> 'c request_log \<Rightarrow> bool" where
  "obeyed \<phi> l \<longleftrightarrow> (\<forall>l1 c ok l2. l = l1 @ (c, ok) # l2 \<longrightarrow> \<phi> l1 c)"

definition stays :: "('c request_log \<Rightarrow> bool) \<Rightarrow> bool" where
  "stays K \<longleftrightarrow> (\<forall>l k. K l \<longrightarrow> K (l @ k))"

definition op_obeys ::
  "('c \<Rightarrow> 'w \<Rightarrow> 'w) \<Rightarrow> 'w \<Rightarrow> ('c request_log \<Rightarrow> 'c \<Rightarrow> bool) \<Rightarrow> ('c request_log \<Rightarrow> bool) \<Rightarrow> ('c, 'w, 'e, 'a) op \<Rightarrow> bool" where
  "op_obeys after w \<phi> K m \<longleftrightarrow> (\<forall>l. K l \<and> obeyed \<phi> l \<longrightarrow>
     (\<exists>r k. m (state_at after w l, l) = (r, state_at after w (l @ k), l @ k) \<and> obeyed \<phi> (l @ k)))"

lemma state_at_simps [simp]:
  "state_at after w [] = w"
  "state_at after w (l @ [(c, ok)]) = after c (state_at after w l)"
  by (simp_all add: state_at_def)

lemma obeyed_Nil [simp]: "obeyed \<phi> []"
  by (simp add: obeyed_def)

lemma obeyed_snoc [simp]: "obeyed \<phi> (l @ [(c, ok)]) \<longleftrightarrow> obeyed \<phi> l \<and> \<phi> l c"
proof
  assume a: "obeyed \<phi> (l @ [(c, ok)])"
  have "\<phi> l1 c'" if "l = l1 @ (c', ok') # l2" for l1 c' ok' l2
    using a that unfolding obeyed_def by (metis append.assoc append_Cons)
  with a show "obeyed \<phi> l \<and> \<phi> l c" unfolding obeyed_def by blast
next
  assume a: "obeyed \<phi> l \<and> \<phi> l c"
  show "obeyed \<phi> (l @ [(c, ok)])"
    unfolding obeyed_def
  proof (intro allI impI)
    fix l1 c' ok' l2 assume "l @ [(c, ok)] = l1 @ (c', ok') # l2"
    then show "\<phi> l1 c'" using a unfolding obeyed_def by (cases l2 rule: rev_cases) auto
  qed
qed

named_theorems obey_rules \<open>following a program and the log of its requests\<close>

lemma stays_rules [obey_rules]:
  "stays (\<lambda>_. True)"
  "stays (\<lambda>l. answered after w l c f a)"
  "stays K \<Longrightarrow> stays K' \<Longrightarrow> stays (\<lambda>l. K l \<and> K' l)"
proof -
  show "stays (\<lambda>l. answered after w l c f a)"
    unfolding stays_def answered_def by (metis append.assoc append_Cons)
qed (simp_all add: stays_def)

lemma answered_snoc:
  "fst (f (state_at after w l)) = Inr a \<Longrightarrow> answered after w (l @ [(c, True)]) c f a"
  unfolding answered_def by blast

lemma op_obeys_return [obey_rules]: "op_obeys after w \<phi> K (op_return a)"
  and op_obeys_throw [obey_rules]: "op_obeys after w \<phi> K (op_throw e)"
  and op_obeys_lift [obey_rules]: "op_obeys after w \<phi> K (op_lift r)"
  by (auto simp: op_obeys_def intro!: exI [of _ "[]"])

lemma op_obeys_run:
  assumes "\<And>w. snd (f w) = after c w"
  shows "do_request c f (state_at after w l, l)
    = (fst (f (state_at after w l)),
       state_at after w (l @ [(c, \<not> isl (fst (f (state_at after w l))))]), l @ [(c, \<not> isl (fst (f (state_at after w l))))])"
  by (simp add: do_request_def split_beta assms)

lemma op_obeys_request [obey_rules]:
  assumes "\<And>w. snd (f w) = after c w" and "\<And>l. K l \<Longrightarrow> \<phi> l c"
  shows "op_obeys after w \<phi> K (op_map_err g (do_request c f))"
  unfolding op_obeys_def
proof (intro allI impI, elim conjE)
  fix l assume "K l" "obeyed \<phi> l"
  then show "\<exists>r k. op_map_err g (do_request c f) (state_at after w l, l)
      = (r, state_at after w (l @ k), l @ k) \<and> obeyed \<phi> (l @ k)"
    by (cases "fst (f (state_at after w l))";
        intro exI [of _ "[(c, \<not> isl (fst (f (state_at after w l))))]"] exI conjI)
      (simp_all add: op_map_err_def op_obeys_run [where f = f and c = c and after = after, OF assms(1)] assms(2) del: state_at_simps)
qed

lemma op_obeys_seq:
  assumes "op_obeys after w \<phi> K m" and "\<And>l k. K l \<Longrightarrow> K' (l @ k)" and "\<And>a. op_obeys after w \<phi> K' (f a)"
  shows "op_obeys after w \<phi> K (op_bind m f)"
  unfolding op_obeys_def
proof (intro allI impI, elim conjE)
  fix l assume l: "K l" "obeyed \<phi> l"
  with assms(1) obtain r k where m: "m (state_at after w l, l) = (r, state_at after w (l @ k), l @ k)" "obeyed \<phi> (l @ k)"
    unfolding op_obeys_def by blast
  show "\<exists>r k. op_bind m f (state_at after w l, l) = (r, state_at after w (l @ k), l @ k) \<and> obeyed \<phi> (l @ k)"
  proof (cases r)
    case (Inl e)
    then show ?thesis using m by (auto simp: op_bind_def)
  next
    case (Inr a)
    with assms(2) [OF l(1)] assms(3) [of a] m(2) obtain r' k' where
      "f a (state_at after w (l @ k), l @ k) = (r', state_at after w ((l @ k) @ k'), (l @ k) @ k')" "obeyed \<phi> ((l @ k) @ k')"
      unfolding op_obeys_def by blast
    then show ?thesis using m Inr by (auto simp: op_bind_def intro!: exI [of _ "k @ k'"])
  qed
qed

lemma op_obeys_bind [obey_rules]:
  "op_obeys after w \<phi> K m \<Longrightarrow> stays K \<Longrightarrow> (\<And>a. op_obeys after w \<phi> K (f a)) \<Longrightarrow> op_obeys after w \<phi> K (op_bind m f)"
  by (rule op_obeys_seq [where K' = K]) (simp_all add: stays_def)

lemma op_obeys_then:
  "op_obeys after w \<phi> K m \<Longrightarrow> (\<And>a. op_obeys after w \<phi> (\<lambda>_. True) (f a)) \<Longrightarrow> op_obeys after w \<phi> K (op_bind m f)"
  by (rule op_obeys_seq [where K' = "\<lambda>_. True"]) simp_all

lemma op_obeys_learn:
  assumes "\<And>w. snd (f w) = after c w" and "\<And>l. K l \<Longrightarrow> \<phi> l c" and "stays K"
    and "\<And>a. op_obeys after w \<phi> (\<lambda>l. K l \<and> answered after w l c f a) (h a)"
  shows "op_obeys after w \<phi> K (op_bind (op_map_err g (do_request c f)) h)"
  unfolding op_obeys_def
proof (intro allI impI, elim conjE)
  fix l assume l: "K l" "obeyed \<phi> l"
  let ?r = "fst (f (state_at after w l))"
  note run = op_obeys_run [where f = f and c = c and after = after, OF assms(1)]
  show "\<exists>r k. op_bind (op_map_err g (do_request c f)) h (state_at after w l, l) = (r, state_at after w (l @ k), l @ k)
      \<and> obeyed \<phi> (l @ k)"
  proof (cases ?r)
    case (Inl e)
    show ?thesis
      by (intro exI [of _ "Inl (g e)"] exI [of _ "[(c, False)]"])
        (simp add: op_bind_def op_map_err_def run Inl l assms(2))
  next
    case (Inr a)
    let ?l = "l @ [(c, True)]"
    have "K ?l" "answered after w ?l c f a" "obeyed \<phi> ?l"
      using assms(2,3) l Inr by (simp_all add: stays_def answered_snoc)
    with assms(4) [of a] obtain r' k where
      "h a (state_at after w ?l, ?l) = (r', state_at after w (?l @ k), ?l @ k)" "obeyed \<phi> (?l @ k)"
      unfolding op_obeys_def by blast
    then show ?thesis
      by (intro exI [of _ r'] exI [of _ "(c, True) # k"]) (simp add: op_bind_def op_map_err_def run Inr)
  qed
qed

lemma op_obeys_try [obey_rules]:
  assumes "\<And>w. snd (f w) = after c w" and "\<And>l. K l \<Longrightarrow> \<phi> l c"
  shows "op_obeys after w \<phi> K (op_try (do_request c f))"
  unfolding op_obeys_def
proof (intro allI impI, elim conjE)
  fix l assume "K l" "obeyed \<phi> l"
  then show "\<exists>r k. op_try (do_request c f) (state_at after w l, l)
      = (r, state_at after w (l @ k), l @ k) \<and> obeyed \<phi> (l @ k)"
    by (intro exI [of _ "[(c, \<not> isl (fst (f (state_at after w l))))]"] exI conjI)
      (simp_all add: op_try_def op_obeys_run [where f = f and c = c and after = after, OF assms(1)] assms(2) del: state_at_simps)
qed

lemma op_obeys_if [obey_rules]:
  "(b \<Longrightarrow> op_obeys after w \<phi> K m) \<Longrightarrow> (\<not> b \<Longrightarrow> op_obeys after w \<phi> K n) \<Longrightarrow> op_obeys after w \<phi> K (if b then m else n)"
  by simp

lemma op_obeys_option [obey_rules]:
  "(x = None \<Longrightarrow> op_obeys after w \<phi> K m) \<Longrightarrow> (\<And>a. x = Some a \<Longrightarrow> op_obeys after w \<phi> K (f a))
     \<Longrightarrow> op_obeys after w \<phi> K (case x of None \<Rightarrow> m | Some a \<Rightarrow> f a)"
  by (cases x) simp_all

lemma op_obeys_sum [obey_rules]:
  "(\<And>e. x = Inl e \<Longrightarrow> op_obeys after w \<phi> K (f e)) \<Longrightarrow> (\<And>a. x = Inr a \<Longrightarrow> op_obeys after w \<phi> K (h a))
     \<Longrightarrow> op_obeys after w \<phi> K (case x of Inl e \<Rightarrow> f e | Inr a \<Rightarrow> h a)"
  by (cases x) simp_all

lemma op_obeys_for:
  "stays K \<Longrightarrow> (\<And>x. x \<in> set xs \<Longrightarrow> op_obeys after w \<phi> K (body x)) \<Longrightarrow> op_obeys after w \<phi> K (op_for xs body)"
  by (induction xs) (auto intro!: op_obeys_return op_obeys_bind)

lemma op_obeys_weaken: "op_obeys after w \<phi> K m \<Longrightarrow> (\<And>l. K' l \<Longrightarrow> K l) \<Longrightarrow> op_obeys after w \<phi> K' m"
  unfolding op_obeys_def by blast

lemma op_obeysD:
  assumes "op_obeys after w \<phi> (\<lambda>_. True) m" and "m (w, []) = (r, w', l)"
  shows "w' = state_at after w l" and "l = l1 @ (c, ok) # l2 \<Longrightarrow> \<phi> l1 c"
  using assms unfolding op_obeys_def obeyed_def by fastforce+

end
