(* ===== verification/Kube.thy ===== *)
theory Kube
  imports Objects Requests
begin

text \<open>
  The operator's view of the Kubernetes API. The API server is a parameter: \<open>kube_api\<close> holds one
  function per request the modelled code makes, acting on a state of any type. A request also
  leaves an entry in a log, which the properties about the order of requests read and the code
  cannot see; the flag says whether the request succeeded.
\<close>

text \<open>The merge patches of a project's metadata and specification.\<close>

datatype project_patch = ClearBuildAnnotations | SetImage string

section \<open>Requests\<close>

datatype kube_call =
    GetJob string string
  | CreateJob string job
  | DeleteJob string string
  | PatchStatus string string status_patch
  | PatchProject string string project_patch
  | ApplyProject string string project
  | ListProjects string "(string \<times> string option) list"
  | DeleteProject string string "string option"
  | GetNamespace string
  | DeleteNamespace string "string option"
  | GetMeta string string string
  | DeleteMeta string string string "string option"
  | ListJobs string "(string \<times> string option) list"
  | PatchStatusAt string string string status_patch
  | GetSecret string string
  | CreateSecret string secret
  | PatchSecret string string secret_patch
  | DeleteSecret string string "string option"
  | GetDeployment string string
  | PatchTemplateAnnotation string string string string
  | ApplyObject string string k8s_object
  | ListIngresses
  | GetIngress string string
  | GetAutoscaler string string
  | PatchNamespace string label_map
  | CreateNamespace string label_map
  | DeleteJobOf string string "string option"

record 'w kube_api =
  k_get_job :: "string \<Rightarrow> string \<Rightarrow> 'w \<Rightarrow> (kube_error + job option) \<times> 'w"
  k_create_job :: "string \<Rightarrow> job \<Rightarrow> 'w \<Rightarrow> (kube_error + job) \<times> 'w"
  k_delete_job :: "string \<Rightarrow> string \<Rightarrow> 'w \<Rightarrow> (kube_error + unit) \<times> 'w"
  k_patch_status :: "string \<Rightarrow> string \<Rightarrow> status_patch \<Rightarrow> 'w \<Rightarrow> (kube_error + unit) \<times> 'w"
  k_patch_project :: "string \<Rightarrow> string \<Rightarrow> project_patch \<Rightarrow> 'w \<Rightarrow> (kube_error + unit) \<times> 'w"
  k_apply_project :: "string \<Rightarrow> string \<Rightarrow> project \<Rightarrow> 'w \<Rightarrow> (kube_error + unit) \<times> 'w"
  k_list_projects :: "string \<Rightarrow> (string \<times> string option) list \<Rightarrow> 'w \<Rightarrow> (kube_error + (project \<times> bool) list) \<times> 'w"
  k_delete_project :: "string \<Rightarrow> string \<Rightarrow> string option \<Rightarrow> 'w \<Rightarrow> (kube_error + unit) \<times> 'w"
  k_get_namespace :: "string \<Rightarrow> 'w \<Rightarrow> (kube_error + object_meta option) \<times> 'w"
  k_delete_namespace :: "string \<Rightarrow> string option \<Rightarrow> 'w \<Rightarrow> (kube_error + unit) \<times> 'w"
  k_get_meta :: "string \<Rightarrow> string \<Rightarrow> string \<Rightarrow> 'w \<Rightarrow> (kube_error + object_meta option) \<times> 'w"
  k_delete_meta :: "string \<Rightarrow> string \<Rightarrow> string \<Rightarrow> string option \<Rightarrow> 'w \<Rightarrow> (kube_error + unit) \<times> 'w"

record 'w secret_api = "'w kube_api" +
  k_list_jobs :: "string \<Rightarrow> (string \<times> string option) list \<Rightarrow> 'w \<Rightarrow> (kube_error + job list) \<times> 'w"
  k_patch_status_at :: "string \<Rightarrow> string \<Rightarrow> string \<Rightarrow> status_patch \<Rightarrow> 'w \<Rightarrow> (kube_error + unit) \<times> 'w"
  k_get_secret :: "string \<Rightarrow> string \<Rightarrow> 'w \<Rightarrow> (kube_error + secret option) \<times> 'w"
  k_create_secret :: "string \<Rightarrow> secret \<Rightarrow> 'w \<Rightarrow> (kube_error + secret) \<times> 'w"
  k_patch_secret :: "string \<Rightarrow> string \<Rightarrow> secret_patch \<Rightarrow> 'w \<Rightarrow> (kube_error + unit) \<times> 'w"
  k_delete_secret :: "string \<Rightarrow> string \<Rightarrow> string option \<Rightarrow> 'w \<Rightarrow> (kube_error + unit) \<times> 'w"
  k_get_deployment :: "string \<Rightarrow> string \<Rightarrow> 'w \<Rightarrow> (kube_error + deployment option) \<times> 'w"
  k_patch_template_annotation :: "string \<Rightarrow> string \<Rightarrow> string \<Rightarrow> string \<Rightarrow> 'w \<Rightarrow> (kube_error + unit) \<times> 'w"

text \<open>The requests of the reconciliation of a workload; \<open>k_apply\<close> is a forced server-side apply.\<close>

record 'w operator_api = "'w secret_api" +
  k_apply :: "string \<Rightarrow> string \<Rightarrow> k8s_object \<Rightarrow> 'w \<Rightarrow> (kube_error + unit) \<times> 'w"
  k_list_ingresses :: "'w \<Rightarrow> (kube_error + ingress list) \<times> 'w"
  k_get_ingress :: "string \<Rightarrow> string \<Rightarrow> 'w \<Rightarrow> (kube_error + ingress option) \<times> 'w"
  k_get_autoscaler :: "string \<Rightarrow> string \<Rightarrow> 'w \<Rightarrow> (kube_error + autoscaler option) \<times> 'w"
  k_patch_namespace :: "string \<Rightarrow> label_map \<Rightarrow> 'w \<Rightarrow> (kube_error + unit) \<times> 'w"
  k_create_namespace :: "string \<Rightarrow> label_map \<Rightarrow> 'w \<Rightarrow> (kube_error + unit) \<times> 'w"
  k_delete_job_of :: "string \<Rightarrow> string \<Rightarrow> string option \<Rightarrow> 'w \<Rightarrow> (kube_error + unit) \<times> 'w"

type_synonym kube_log = "kube_call request_log"
type_synonym ('w, 'e, 'a) kube_op = "(kube_call, 'w, 'e, 'a) op"

text \<open>
  What a request makes of the state of the server, for the logs of programs that only use secrets and
  the objects a cleanup deletes; other requests are not made by them.
\<close>

definition after_call :: "'w secret_api \<Rightarrow> kube_call \<Rightarrow> 'w \<Rightarrow> 'w" where
  "after_call api c w = (case c of
     GetJob ns n \<Rightarrow> snd (k_get_job api ns n w)
   | CreateJob ns j \<Rightarrow> snd (k_create_job api ns j w)
   | DeleteJob ns n \<Rightarrow> snd (k_delete_job api ns n w)
   | PatchStatus ns n p \<Rightarrow> snd (k_patch_status api ns n p w)
   | PatchProject ns n p \<Rightarrow> snd (k_patch_project api ns n p w)
   | ApplyProject ns n p \<Rightarrow> snd (k_apply_project api ns n p w)
   | ListProjects ns sel \<Rightarrow> snd (k_list_projects api ns sel w)
   | DeleteProject ns n u \<Rightarrow> snd (k_delete_project api ns n u w)
   | GetNamespace n \<Rightarrow> snd (k_get_namespace api n w)
   | DeleteNamespace n u \<Rightarrow> snd (k_delete_namespace api n u w)
   | GetMeta kind ns n \<Rightarrow> snd (k_get_meta api kind ns n w)
   | DeleteMeta kind ns n u \<Rightarrow> snd (k_delete_meta api kind ns n u w)
   | ListJobs ns sel \<Rightarrow> snd (k_list_jobs api ns sel w)
   | PatchStatusAt ns n v p \<Rightarrow> snd (k_patch_status_at api ns n v p w)
   | GetSecret ns n \<Rightarrow> snd (k_get_secret api ns n w)
   | CreateSecret ns s \<Rightarrow> snd (k_create_secret api ns s w)
   | PatchSecret ns n p \<Rightarrow> snd (k_patch_secret api ns n p w)
   | DeleteSecret ns n u \<Rightarrow> snd (k_delete_secret api ns n u w)
   | GetDeployment ns n \<Rightarrow> snd (k_get_deployment api ns n w)
   | PatchTemplateAnnotation ns n k v \<Rightarrow> snd (k_patch_template_annotation api ns n k v w)
   | _ \<Rightarrow> w)"

text \<open>\<open>.map_err(Error::Kube)?\<close>\<close>

abbreviation op_kube :: "('w, kube_error, 'a) kube_op \<Rightarrow> ('w, operator_error, 'a) kube_op" where
  "op_kube \<equiv> op_map_err Kube"

definition is_api_code :: "nat \<Rightarrow> kube_error \<Rightarrow> bool" where
  "is_api_code n e = (case e of KubeApi code \<Rightarrow> code = of_nat n | KubeOther _ \<Rightarrow> False)"

end
