(* ===== verification/SourceBuild.thy ===== *)
theory SourceBuild
  imports Kube
begin

text \<open>
  Source builds of the operator: \<open>resources/source.rs\<close> (the Kaniko job), \<open>source_build.rs\<close> (trigger
  annotations, the build status and its patches, one pass of the build controller) and the gate of
  \<open>reconciler.rs\<close> that turns a build's result into an image update or a preview. \<open>clock\<close> gives the
  readings of the clock in one pass, in the order in which the code takes them.
\<close>

section \<open>The build job\<close>

definition should_build_from_source :: "project \<Rightarrow> bool" where
  "should_build_from_source app \<longleftrightarrow> ps_source (pj_spec app) \<noteq> None"

definition image_reference_without_tag :: "string \<Rightarrow> string" where
  "image_reference_without_tag reference =
     (let base = (case split_once (CHR ''@'') reference of Some (b, _) \<Rightarrow> b | None \<Rightarrow> reference)
      in case rsplit_once (CHR '':'') base of
           Some (a, t) \<Rightarrow> if CHR ''/'' \<notin> set t then a else base
         | None \<Rightarrow> base)"

definition built_image_reference :: "project \<Rightarrow> string \<Rightarrow> operator_error + string" where
  "built_image_reference app image_tag =
     (case ps_source (pj_spec app) of
        None \<Rightarrow> Inl (MissingField ''spec.source'')
      | Some source \<Rightarrow>
          Inr (unwrap_or (image_reference_without_tag (ps_image (pj_spec app)))
                 (Option.bind (src_build source) bsp_registry) @ '':'' @ image_tag))"

definition expected_credentials_secret_name :: "project \<Rightarrow> string" where
  "expected_credentials_secret_name app = name_any app @ ''-git-credentials''"

definition validate_credentials_secret_name :: "project \<Rightarrow> string \<Rightarrow> operator_error + unit" where
  "validate_credentials_secret_name app secret =
     (if secret = expected_credentials_secret_name app then Inr ()
      else Inl (InvalidCredentialsSecret secret (expected_credentials_secret_name app)))"

definition build_job_name :: "string \<Rightarrow> string \<Rightarrow> string" where
  "build_job_name project_name image_tag =
     (let mapped = map (\<lambda>c. if is_ascii_alphanumeric c \<or> c = CHR ''-'' then ascii_lower c else CHR ''-'')
            (utf8_leads image_tag);
          tag = trim_matches (CHR ''-'') mapped
      in project_name @ ''-build-'' @ (if tag = [] then ''image'' else tag))"

definition credentials_env :: "string \<Rightarrow> k8s_env_var list" where
  "credentials_env secret =
     [\<lparr>ev_name = ''GIT_USERNAME'', ev_value = Some ''x-access-token'', ev_secret_key_ref = None\<rparr>,
      \<lparr>ev_name = ''GIT_PASSWORD'', ev_value = None,
       ev_secret_key_ref = Some (secret, ''git-token'', True)\<rparr>]"

definition registry_auth_mount :: volume_mount where
  "registry_auth_mount =
     \<lparr>vm_name = ''registry-auth'', vm_mount_path = ''/kaniko/.docker/config.json'',
      vm_sub_path = Some ''config.json'', vm_read_only = Some True\<rparr>"

definition registry_auth_volume :: "string \<Rightarrow> volume" where
  "registry_auth_volume secret =
     volume_default\<lparr>vol_name := ''registry-auth'',
      vol_secret := Some \<lparr>sv_secret_name = secret, sv_items = [(''registry-auth'', ''config.json'')],
                         sv_optional = True\<rparr>\<rparr>"

definition kaniko_args :: "project \<Rightarrow> source_spec \<Rightarrow> string \<Rightarrow> string option \<Rightarrow> string list" where
  "kaniko_args app source destination branch_override =
     (let default_branch = unwrap_or ''main'' (src_branch source);
          branch = (case branch_override of
                      Some b \<Rightarrow> if trim b \<noteq> [] then b else default_branch
                    | None \<Rightarrow> default_branch);
          build = src_build source;
          dockerfile = unwrap_or ''./Dockerfile'' (Option.bind build bsp_dockerfile);
          context = unwrap_or ''.'' (Option.bind build bsp_context)
      in [''--git=branch='' @ branch @ '',url='' @ src_repository source,
          ''--dockerfile='' @ dockerfile, ''--context=dir://'' @ context,
          ''--destination='' @ destination, ''--cache=true'']
         @ (case build of None \<Rightarrow> []
            | Some b \<Rightarrow> map (\<lambda>(k, v). ''--build-arg='' @ k @ ''='' @ v) (bsp_build_args b)))"

definition build_kaniko_job_for_branch ::
  "project \<Rightarrow> string \<Rightarrow> string option \<Rightarrow> operator_error + job" where
  "build_kaniko_job_for_branch app image_tag branch_override =
     (case ps_source (pj_spec app) of
        None \<Rightarrow> Inl (MissingField ''spec.source'')
      | Some source \<Rightarrow>
          result_bind (require_namespace app) (\<lambda>namespace.
          result_bind (owner_reference_of app) (\<lambda>owner_ref.
          result_bind (built_image_reference app image_tag) (\<lambda>destination.
          result_bind (case src_credentials_secret source of
                         None \<Rightarrow> Inr () | Some s \<Rightarrow> validate_credentials_secret_name app s) (\<lambda>_.
          result_bind (validated_image_pull_secrets app) (\<lambda>pull_secrets.
            Inr \<lparr>jb_metadata = object_meta_default
                   \<lparr>om_name := Some (build_job_name (name_any app) image_tag), om_namespace := Some namespace,
                    om_labels := Some (standard_labels app CompBuild), om_owner_references := Some [owner_ref]\<rparr>,
                 jb_spec = Some \<lparr>jsp_backoff_limit = Some 2,
                   jsp_template = \<lparr>pt_metadata = Some (object_meta_default\<lparr>om_labels := Some (standard_labels app CompBuild)\<rparr>),
                   pt_spec = Some (pod_spec_default\<lparr>pod_restart_policy := Some ''Never'',
                     pod_containers := [container_default\<lparr>ct_name := ''kaniko'', ct_image := ''gcr.io/kaniko-project/executor:latest'',
                       ct_args := Some (kaniko_args app source destination branch_override),
                       ct_env := map_option credentials_env (src_credentials_secret source),
                       ct_volume_mounts := map_option (\<lambda>_. [registry_auth_mount]) (src_credentials_secret source)\<rparr>],
                     pod_volumes := map_option (\<lambda>s. [registry_auth_volume s]) (src_credentials_secret source),
                     pod_image_pull_secrets := pull_secrets\<rparr>)\<rparr>\<rparr>,
                 jb_status = None\<rparr>))))))"

definition build_kaniko_job :: "project \<Rightarrow> string \<Rightarrow> operator_error + job" where
  "build_kaniko_job app image_tag = build_kaniko_job_for_branch app image_tag None"

section \<open>Annotations\<close>

definition BUILD_TRIGGER_ANNOTATION :: string where "BUILD_TRIGGER_ANNOTATION = ''reinhardt.dev/build-trigger''"
definition PREVIEW_ACTION_ANNOTATION :: string where "PREVIEW_ACTION_ANNOTATION = ''reinhardt.dev/preview-action''"
definition PR_NUMBER_ANNOTATION :: string where "PR_NUMBER_ANNOTATION = ''reinhardt.dev/pr-number''"
definition PR_BRANCH_ANNOTATION :: string where "PR_BRANCH_ANNOTATION = ''reinhardt.dev/pr-branch''"
definition BUILD_REQUEUE_SECS :: u64 where "BUILD_REQUEUE_SECS = 10"

definition annotation_value :: "project \<Rightarrow> string \<Rightarrow> string option" where
  "annotation_value app key = Option.bind (om_annotations (pj_metadata app)) (\<lambda>m. m key)"

definition previews_enabled :: "project \<Rightarrow> bool" where
  "previews_enabled app \<longleftrightarrow> is_some_and (Option.bind (ps_source (pj_spec app)) src_preview) pv_enabled"

definition filter_option :: "('a \<Rightarrow> bool) \<Rightarrow> 'a option \<Rightarrow> 'a option" where
  "filter_option p x = (case x of Some a \<Rightarrow> if p a then Some a else None | None \<Rightarrow> None)"

definition preview_build_action :: "project \<Rightarrow> string option" where
  "preview_build_action app =
     filter_option (\<lambda>a. a = ''create'' \<or> a = ''update'') (annotation_value app PREVIEW_ACTION_ANNOTATION)"

definition preview_action_pr_number :: "project \<Rightarrow> string option" where
  "preview_action_pr_number app =
     (case preview_build_action app of
        None \<Rightarrow> None
      | Some _ \<Rightarrow> filter_option (\<lambda>n. trim n \<noteq> []) (annotation_value app PR_NUMBER_ANNOTATION))"

definition preview_pr_number :: "project \<Rightarrow> string option" where
  "preview_pr_number app = (if \<not> previews_enabled app then None else preview_action_pr_number app)"

definition disabled_preview_build_requested :: "project \<Rightarrow> bool" where
  "disabled_preview_build_requested app \<longleftrightarrow> preview_action_pr_number app \<noteq> None \<and> \<not> previews_enabled app"

definition malformed_preview_build_requested :: "project \<Rightarrow> bool" where
  "malformed_preview_build_requested app \<longleftrightarrow>
     preview_build_action app \<noteq> None \<and> preview_action_pr_number app = None"

section \<open>The build status\<close>

text \<open>\<open>chars().take(n)\<close> on UTF-8 bytes.\<close>

fun take_chars :: "nat \<Rightarrow> string \<Rightarrow> string" where
  "take_chars n [] = []"
| "take_chars n (c # cs) =
     (if is_continuation c then c # take_chars n cs
      else (case n of 0 \<Rightarrow> [] | Suc m \<Rightarrow> c # take_chars m cs))"

definition active_build_status :: "project \<Rightarrow> crd_build_status option" where
  "active_build_status app = filter_option (\<lambda>b. cb_phase b = BPending \<or> cb_phase b = BRunning) (app_build app)"

definition blocking_failed_build_status :: "project \<Rightarrow> bool \<Rightarrow> crd_build_status option" where
  "blocking_failed_build_status app has_new_build =
     (if has_new_build then None else filter_option (\<lambda>b. cb_phase b = BFailed) (app_build app))"

definition derive_new_build_status :: "project \<Rightarrow> string \<Rightarrow> operator_error + crd_build_status option" where
  "derive_new_build_status app now =
     (if \<not> should_build_from_source app then Inr None
      else (case ps_source (pj_spec app) of
        None \<Rightarrow> Inl (MissingField ''spec.source'')
      | Some source_spec \<Rightarrow>
         (case annotation_value app BUILD_TRIGGER_ANNOTATION of
            None \<Rightarrow> Inr None
          | Some trigger \<Rightarrow>
              if disabled_preview_build_requested app \<or> malformed_preview_build_requested app then Inr None
              else
               (let name = name_any app;
                    short_trigger = take_chars 8 trigger;
                    pr = preview_pr_number app;
                    image_tag = (case pr of Some n \<Rightarrow> preview_image_tag n short_trigger
                                          | None \<Rightarrow> name @ ''-'' @ short_trigger)
                in result_bind (built_image_reference app image_tag) (\<lambda>img.
                   Inr (Some \<lparr>cb_phase = BPending,
                     cb_target = (if pr \<noteq> None then Preview else Production),
                     cb_trigger = trigger, cb_job_name = build_job_name name image_tag, cb_image = img,
                     cb_image_tag = image_tag, cb_preview_name = map_option (preview_project_name name) pr,
                     cb_pr_number = pr,
                     cb_branch = (case filter_option (\<lambda>b. trim b \<noteq> []) (annotation_value app PR_BRANCH_ANNOTATION) of
                                    Some b \<Rightarrow> Some b | None \<Rightarrow> src_branch source_spec),
                     cb_reason = Some ''BuildPending'',
                     cb_message = Some ''Kaniko build Job has been accepted'',
                     cb_started_at = Some now, cb_last_transition_time = Some now\<rparr>))))))"

datatype job_build_state = JobRunning | JobSucceeded | JobFailed string string

definition classify_job_state :: "job \<Rightarrow> job_build_state" where
  "classify_job_state j =
     (case jb_status j of
        None \<Rightarrow> JobRunning
      | Some status \<Rightarrow>
          if sint (unwrap_or 0 (js_succeeded status)) > 0 then JobSucceeded
          else (case Option.bind (js_conditions status)
                       (find (\<lambda>c. jc_type c = ''Failed'' \<and> jc_status c = ''True'')) of
                  Some c \<Rightarrow> JobFailed (unwrap_or ''JobFailed'' (jc_reason c))
                              (unwrap_or ''Kaniko build Job reported a failed condition'' (jc_message c))
                | None \<Rightarrow>
                    if sint (unwrap_or 0 (js_failed status))
                         > sint (unwrap_or 6 (Option.bind (jb_spec j) jsp_backoff_limit))
                    then JobFailed ''BackoffLimitExceeded'' ''Kaniko build Job exceeded backoff limit''
                    else JobRunning))"

definition source_build_condition ::
  "condition_type \<Rightarrow> condition_status \<Rightarrow> string \<Rightarrow> string \<Rightarrow> i64 option \<Rightarrow> string \<Rightarrow> project_condition" where
  "source_build_condition t status reason message observed_generation now =
     \<lparr>pc_type = t, pc_status = status, pc_reason = reason, pc_message = message,
      pc_last_transition_time = Some now, pc_observed_generation = observed_generation\<rparr>"

fun upsert_condition :: "project_condition \<Rightarrow> project_condition list \<Rightarrow> project_condition list" where
  "upsert_condition next [] = [next]"
| "upsert_condition next (c # cs) =
     (if pc_type c = pc_type next then next # cs else c # upsert_condition next cs)"

definition preserve_transition_time_for_unchanged_status ::
  "project \<Rightarrow> project_condition \<Rightarrow> project_condition" where
  "preserve_transition_time_for_unchanged_status app condition =
     (case find (\<lambda>e. pc_type e = pc_type condition \<and> pc_status e = pc_status condition) (app_conditions app) of
        None \<Rightarrow> condition
      | Some existing \<Rightarrow> condition\<lparr>pc_last_transition_time := pc_last_transition_time existing\<rparr>)"

definition has_condition_status :: "project \<Rightarrow> condition_type \<Rightarrow> condition_status \<Rightarrow> bool" where
  "has_condition_status app t status \<longleftrightarrow>
     list_ex (\<lambda>c. pc_type c = t \<and> pc_status c = status) (app_conditions app)"

definition companion_build_condition :: "project \<Rightarrow> string \<Rightarrow> project_condition \<Rightarrow> project_condition option" where
  "companion_build_condition app now c =
     (let should_clear_degraded = (pc_type c = Progressing \<and> pc_status c = CondTrue
            \<and> has_condition_status app Degraded CondTrue);
          should_clear_progressing = (pc_type c = Degraded \<and> pc_status c = CondTrue);
          should_clear_degraded_after_success =
            (pc_type c = Progressing \<and> pc_status c = CondFalse \<and> pc_reason c = ''BuildSucceeded'')
      in if should_clear_degraded \<or> should_clear_degraded_after_success
         then Some (source_build_condition Degraded CondFalse (pc_reason c) (pc_message c)
                      (pc_observed_generation c) now)
         else if should_clear_progressing
         then Some (source_build_condition Progressing CondFalse (pc_reason c) (pc_message c)
                      (pc_observed_generation c) now)
         else None)"

definition build_phase_patch :: "crd_build_phase \<Rightarrow> project_phase option" where
  "build_phase_patch p =
     (case p of BPending \<Rightarrow> Some PhDeploying | BRunning \<Rightarrow> Some PhDeploying
      | BFailed \<Rightarrow> Some PhDegraded | BSucceeded \<Rightarrow> None)"

definition patched_conditions :: "project \<Rightarrow> string \<Rightarrow> project_condition \<Rightarrow> project_condition list" where
  "patched_conditions app now condition =
     (let companion = companion_build_condition app now condition;
          conditions = upsert_condition (preserve_transition_time_for_unchanged_status app condition)
                         (app_conditions app)
      in case companion of
           None \<Rightarrow> conditions
         | Some c \<Rightarrow> upsert_condition (preserve_transition_time_for_unchanged_status app c) conditions)"

definition build_status_patch ::
  "project \<Rightarrow> string \<Rightarrow> crd_build_status \<Rightarrow> project_condition \<Rightarrow> status_patch" where
  "build_status_patch app now build condition =
     empty_patch\<lparr>sp_build := Value build, sp_conditions := Value (patched_conditions app now condition),
       sp_observed_generation := or_null (om_generation (pj_metadata app)),
       sp_phase := unless_none (build_phase_patch (cb_phase build))\<rparr>"

definition transition_build_status ::
  "project \<Rightarrow> string \<Rightarrow> crd_build_status \<Rightarrow> crd_build_phase \<Rightarrow> string \<Rightarrow> string \<Rightarrow> crd_build_status" where
  "transition_build_status app now build phase reason message =
     (let preserved = Option.bind
            (filter_option (\<lambda>e. cb_phase e = phase \<and> cb_trigger e = cb_trigger build
                \<and> cb_job_name e = cb_job_name build) (app_build app)) cb_last_transition_time
      in build\<lparr>cb_phase := phase, cb_reason := Some reason, cb_message := Some message,
           cb_last_transition_time := Some (unwrap_or now preserved)\<rparr>)"

datatype build_decision =
    NoBuild
  | Waiting u64
  | BuildSucceeded crd_build_status
  | BuildFailure crd_build_status

definition build_decision_from_job_state ::
  "project \<Rightarrow> string \<Rightarrow> string \<Rightarrow> crd_build_status \<Rightarrow> job_build_state
     \<Rightarrow> build_decision \<times> (crd_build_status \<times> project_condition) option" where
  "build_decision_from_job_state app now1 now2 build job_state =
     (let gen = om_generation (pj_metadata app) in
      case job_state of
        JobRunning \<Rightarrow>
          (let b = transition_build_status app now1 build BRunning ''BuildRunning'' ''Kaniko build Job is still running''
           in (Waiting BUILD_REQUEUE_SECS,
               Some (b, source_build_condition Progressing CondTrue ''BuildRunning''
                          ''Kaniko build Job is still running'' gen now2)))
      | JobSucceeded \<Rightarrow>
          (BuildSucceeded (transition_build_status app now1 build BSucceeded ''BuildSucceeded''
             ''Kaniko build Job succeeded''), None)
      | JobFailed reason message \<Rightarrow>
          (let b = transition_build_status app now1 build BFailed reason message
           in (BuildFailure b,
               Some (b, source_build_condition Degraded CondTrue ''BuildFailed'' message gen now2))))"

section \<open>Cancelling a preview build\<close>

definition preview_build_matches :: "crd_build_status \<Rightarrow> string \<Rightarrow> string \<Rightarrow> bool" where
  "preview_build_matches build pr_number preview_name \<longleftrightarrow>
     cb_target build = Preview
     \<and> ((pr_number \<noteq> [] \<and> cb_pr_number build = Some pr_number) \<or> cb_preview_name build = Some preview_name)"

definition matching_preview_build_status :: "project \<Rightarrow> string \<Rightarrow> string \<Rightarrow> crd_build_status option" where
  "matching_preview_build_status app pr_number preview_name =
     filter_option (\<lambda>b. preview_build_matches b pr_number preview_name) (app_build app)"

definition clear_preview_build_status_patch ::
  "project \<Rightarrow> string \<Rightarrow> string \<Rightarrow> string \<Rightarrow> string \<Rightarrow> status_patch option" where
  "clear_preview_build_status_patch app now1 now2 pr_number preview_name =
     (case matching_preview_build_status app pr_number preview_name of
        None \<Rightarrow> None
      | Some _ \<Rightarrow>
          (let message = ''Preview build for '' @ preview_name @ '' was cancelled because the preview was deleted'';
               gen = om_generation (pj_metadata app);
               progressing = preserve_transition_time_for_unchanged_status app
                 (source_build_condition Progressing CondFalse ''PreviewDeleted'' message gen now1);
               degraded = preserve_transition_time_for_unchanged_status app
                 (source_build_condition Degraded CondFalse ''PreviewDeleted'' message gen now2)
           in Some (empty_patch\<lparr>sp_build := Null,
                sp_conditions := Value (upsert_condition degraded (upsert_condition progressing (app_conditions app))),
                sp_observed_generation := or_null gen\<rparr>)))"

section \<open>One pass of the build controller\<close>

definition patch_status ::
  "'w kube_api \<Rightarrow> string \<Rightarrow> string \<Rightarrow> status_patch \<Rightarrow> ('w, operator_error, unit) kube_op" where
  "patch_status api ns name p = op_kube (do_request (PatchStatus ns name p) (k_patch_status api ns name p))"

definition patch_build_status ::
  "'w kube_api \<Rightarrow> string \<Rightarrow> project \<Rightarrow> string \<Rightarrow> crd_build_status \<Rightarrow> project_condition
     \<Rightarrow> ('w, operator_error, unit) kube_op" where
  "patch_build_status api ns app now build condition =
     patch_status api ns (name_any app) (build_status_patch app now build condition)"

definition patch_project ::
  "'w kube_api \<Rightarrow> string \<Rightarrow> string \<Rightarrow> project_patch \<Rightarrow> ('w, operator_error, unit) kube_op" where
  "patch_project api ns name p = op_kube (do_request (PatchProject ns name p) (k_patch_project api ns name p))"

definition clear_build_annotations ::
  "'w kube_api \<Rightarrow> string \<Rightarrow> project \<Rightarrow> ('w, operator_error, unit) kube_op" where
  "clear_build_annotations api ns app = patch_project api ns (name_any app) ClearBuildAnnotations"

definition build_job_for_status :: "project \<Rightarrow> crd_build_status \<Rightarrow> operator_error + job" where
  "build_job_for_status app status =
     (case cb_target status of
        Production \<Rightarrow> build_kaniko_job app (cb_image_tag status)
      | Preview \<Rightarrow> build_kaniko_job_for_branch app (cb_image_tag status) (cb_branch status))"

definition get_job :: "'w kube_api \<Rightarrow> string \<Rightarrow> string \<Rightarrow> ('w, operator_error, job option) kube_op" where
  "get_job api ns name = op_kube (do_request (GetJob ns name) (k_get_job api ns name))"

definition create_job :: "'w kube_api \<Rightarrow> string \<Rightarrow> job \<Rightarrow> ('w, operator_error, job) kube_op" where
  "create_job api ns j = op_kube (do_request (CreateJob ns j) (k_create_job api ns j))"

definition ignored_preview_request :: "project \<Rightarrow> bool" where
  "ignored_preview_request app \<longleftrightarrow> annotation_value app BUILD_TRIGGER_ANNOTATION \<noteq> None
     \<and> (disabled_preview_build_requested app \<or> malformed_preview_build_requested app)"

definition missing_job_failure ::
  "'w kube_api \<Rightarrow> string \<Rightarrow> (nat \<Rightarrow> string) \<Rightarrow> project \<Rightarrow> crd_build_status
     \<Rightarrow> ('w, operator_error, build_decision) kube_op" where
  "missing_job_failure api ns clock app build =
     (let message = ''Kaniko build Job '' @ cb_job_name build @ '' is missing'';
          b = transition_build_status app (clock 1) build BFailed ''BuildJobMissing'' message;
          condition = source_build_condition Degraded CondTrue ''BuildJobMissing'' message
            (om_generation (pj_metadata app)) (clock 2)
      in op_bind (patch_build_status api ns app (clock 3) b condition) (\<lambda>_. op_return (BuildFailure b)))"

definition accept_new_build ::
  "'w kube_api \<Rightarrow> string \<Rightarrow> (nat \<Rightarrow> string) \<Rightarrow> project \<Rightarrow> crd_build_status \<Rightarrow> ('w, operator_error, unit) kube_op" where
  "accept_new_build api ns clock app build =
     op_bind (patch_build_status api ns app (clock 2) build
       (source_build_condition Progressing CondTrue ''BuildPending'' ''Kaniko build Job has been accepted''
          (om_generation (pj_metadata app)) (clock 1)))
     (\<lambda>_. clear_build_annotations api ns app)"

definition track_job ::
  "'w kube_api \<Rightarrow> string \<Rightarrow> (nat \<Rightarrow> string) \<Rightarrow> project \<Rightarrow> crd_build_status \<Rightarrow> job
     \<Rightarrow> ('w, operator_error, build_decision) kube_op" where
  "track_job api ns clock app build live_job =
     (case build_decision_from_job_state app (clock 3) (clock 4) build (classify_job_state live_job) of
        (decision, None) \<Rightarrow> op_return decision
      | (decision, Some (b, condition)) \<Rightarrow>
          op_bind (patch_build_status api ns app (clock 5) b condition) (\<lambda>_. op_return decision))"

definition reconcile_source_build ::
  "'w kube_api \<Rightarrow> string \<Rightarrow> (nat \<Rightarrow> string) \<Rightarrow> project \<Rightarrow> ('w, operator_error, build_decision) kube_op" where
  "reconcile_source_build api ns clock app =
     op_bind (if ignored_preview_request app then clear_build_annotations api ns app else op_return ()) (\<lambda>_.
     op_bind (op_lift (if ignored_preview_request app then Inr None
                       else derive_new_build_status app (clock 0))) (\<lambda>new_build.
     let has_new_build = (new_build \<noteq> None) in
     case blocking_failed_build_status app has_new_build of
       Some failed_build \<Rightarrow> op_return (BuildFailure failed_build)
     | None \<Rightarrow>
        (case (case new_build of Some b \<Rightarrow> Some b | None \<Rightarrow> active_build_status app) of
           None \<Rightarrow> op_return NoBuild
         | Some build \<Rightarrow>
            op_bind (get_job api ns (cb_job_name build)) (\<lambda>found.
              if found = None \<and> \<not> has_new_build then missing_job_failure api ns clock app build
              else
                op_bind (case found of
                           Some j \<Rightarrow> op_return j
                         | None \<Rightarrow> op_bind (op_lift (build_job_for_status app build)) (create_job api ns))
                  (\<lambda>live_job.
                op_bind (if has_new_build then accept_new_build api ns clock app build else op_return ())
                  (\<lambda>_. track_job api ns clock app build live_job))))))"

definition mark_build_succeeded ::
  "'w kube_api \<Rightarrow> string \<Rightarrow> string \<Rightarrow> string \<Rightarrow> project \<Rightarrow> crd_build_status \<Rightarrow> ('w, operator_error, unit) kube_op" where
  "mark_build_succeeded api ns now1 now2 app build =
     patch_build_status api ns app now2 build
       (source_build_condition Progressing CondFalse ''BuildSucceeded'' ''Kaniko build Job succeeded''
          (om_generation (pj_metadata app)) now1)"

section \<open>The gate\<close>

datatype source_build_gate_action =
    GateContinue
  | GateRequeue u64
  | UpdateProductionImage crd_build_status
  | UpdatePreview crd_build_status
  | GateAwaitChange

fun gate_action :: "build_decision \<Rightarrow> source_build_gate_action" where
  "gate_action NoBuild = GateContinue"
| "gate_action (Waiting requeue_after) = GateRequeue requeue_after"
| "gate_action (BuildSucceeded b) =
     (case cb_target b of Production \<Rightarrow> UpdateProductionImage b | Preview \<Rightarrow> UpdatePreview b)"
| "gate_action (BuildFailure _) = GateAwaitChange"

definition reconcile_preview_from_build ::
  "'w kube_api \<Rightarrow> string \<Rightarrow> string \<Rightarrow> project \<Rightarrow> crd_build_status \<Rightarrow> ('w, operator_error, unit) kube_op" where
  "reconcile_preview_from_build api preview_namespace now app build =
     op_bind (op_lift (ok_or (MissingField ''status.build.prNumber'') (cb_pr_number build))) (\<lambda>pr_number.
     op_bind (op_lift (ok_or (MissingField ''status.build.previewName'') (cb_preview_name build))) (\<lambda>preview_name.
     op_bind (op_lift (build_preview_spec app pr_number (cb_image_tag build) (cb_branch build))) (\<lambda>preview_spec.
     op_bind (op_lift (require_namespace app)) (\<lambda>parent_namespace.
     let preview_app = \<lparr>pj_metadata = object_meta_default\<lparr>om_name := Some preview_name,
             om_namespace := Some preview_namespace,
             om_labels := Some (preview_labels parent_namespace (name_any app) pr_number),
             om_annotations := Some [''reinhardt.dev/last-activity'' \<mapsto> now]\<rparr>,
           pj_spec = preview_spec, pj_status = None\<rparr>
     in op_kube (do_request (ApplyProject preview_namespace preview_name preview_app)
          (k_apply_project api preview_namespace preview_name preview_app))))))"

datatype gate_result = Proceed | Stop action

text \<open>The source-build part of \<open>apply\<close>; \<open>Proceed\<close> goes on to the workload.\<close>

definition source_build_gate ::
  "'w kube_api \<Rightarrow> string \<Rightarrow> string \<Rightarrow> (nat \<Rightarrow> string) \<Rightarrow> project \<Rightarrow> ('w, operator_error, gate_result) kube_op" where
  "source_build_gate api ns preview_namespace clock app =
     op_bind (reconcile_source_build api ns clock app) (\<lambda>decision.
       case gate_action decision of
         GateContinue \<Rightarrow> op_return Proceed
       | GateRequeue d \<Rightarrow> op_return (Stop (Requeue d))
       | UpdateProductionImage build \<Rightarrow>
           op_bind (patch_project api ns (name_any app) (SetImage (cb_image build))) (\<lambda>_.
           op_bind (mark_build_succeeded api ns (clock 6) (clock 7) app build) (\<lambda>_.
           op_return (Stop AwaitChange)))
       | UpdatePreview build \<Rightarrow>
           op_bind (reconcile_preview_from_build api preview_namespace (clock 6) app build) (\<lambda>_.
           op_bind (mark_build_succeeded api ns (clock 7) (clock 8) app build) (\<lambda>_.
           op_return (Stop AwaitChange)))
       | GateAwaitChange \<Rightarrow> op_return (Stop AwaitChange))"

section \<open>Deleting a preview\<close>

definition clear_preview_build_for_delete ::
  "'w kube_api \<Rightarrow> string \<Rightarrow> string \<Rightarrow> string \<Rightarrow> project \<Rightarrow> string \<Rightarrow> string
     \<Rightarrow> ('w, operator_error, bool) kube_op" where
  "clear_preview_build_for_delete api ns now1 now2 app pr_number preview_name =
     (case matching_preview_build_status app pr_number preview_name of
        None \<Rightarrow> op_return False
      | Some build \<Rightarrow>
          op_bind (if trim (cb_job_name build) \<noteq> []
                   then op_bind (op_try (do_request (DeleteJob ns (cb_job_name build))
                          (k_delete_job api ns (cb_job_name build)))) (\<lambda>_. op_return ())
                   else op_return ()) (\<lambda>_.
          case clear_preview_build_status_patch app now1 now2 pr_number preview_name of
            None \<Rightarrow> op_return False
          | Some p \<Rightarrow> op_bind (patch_status api ns (name_any app) p) (\<lambda>_. op_return True)))"

definition reconcile_preview_delete_action ::
  "'w kube_api \<Rightarrow> string \<Rightarrow> string \<Rightarrow> string \<Rightarrow> string \<Rightarrow> project \<Rightarrow> ('w, operator_error, bool) kube_op" where
  "reconcile_preview_delete_action api parent_namespace preview_namespace now1 now2 app =
     (if annotation_value app PREVIEW_ACTION_ANNOTATION \<noteq> Some ''delete'' then op_return False
      else
       (let parent_name = name_any app;
            pr_number = unwrap_or [] (annotation_value app PR_NUMBER_ANNOTATION);
            preview_name = preview_project_name parent_name pr_number
        in op_bind (clear_preview_build_for_delete api parent_namespace now1 now2 app pr_number preview_name) (\<lambda>_.
           op_bind (op_try (do_request (DeleteProject preview_namespace preview_name None)
                      (k_delete_project api preview_namespace preview_name None))) (\<lambda>deleted.
           op_bind (case deleted of
                      Inr _ \<Rightarrow> op_return ()
                    | Inl e \<Rightarrow> if is_api_code 404 e then op_return () else op_throw (Kube e)) (\<lambda>_.
           op_bind (patch_project api parent_namespace parent_name ClearBuildAnnotations) (\<lambda>_.
           op_return True))))))"

end
