(* ===== verification/PreviewNames.thy ===== *)
theory PreviewNames
  imports Resources
begin

text \<open>
  Properties of the preview environments' names, hosts and specifications, and of the secrets a
  project may pull images with.
\<close>

section \<open>Host labels\<close>

lemma lowercase_ascii_chars: "c \<in> set (lowercase_ascii s) \<Longrightarrow> byte c < 128 \<and> \<not> is_ascii_uppercase c"
proof (induction s rule: lowercase_ascii.induct)
  case (1 s)
  have lower: "byte (ascii_lower d) < 128 \<and> \<not> is_ascii_uppercase (ascii_lower d)" if "byte d < 128" for d
    using that by (auto simp: ascii_lower_def is_ascii_uppercase_def)
  show ?case
  proof (cases "map byte (take 3 s) = [226, 132, 170]")
    case True
    with 1 show ?thesis
      by (auto simp: lowercase_ascii.simps [of s] is_ascii_uppercase_def)
  next
    case kelvin: False
    show ?thesis
    proof (cases "map byte (take 2 s) = [196, 176]")
      case True
      with kelvin 1 show ?thesis
        by (auto simp: lowercase_ascii.simps [of s] is_ascii_uppercase_def)
    next
      case False
      show ?thesis
      proof (cases s)
        case Nil
        with "1.prems" show ?thesis by (simp add: lowercase_ascii.simps)
      next
        case (Cons d ds)
        have eq: "lowercase_ascii s = (if byte d < 128 then ascii_lower d # lowercase_ascii ds else lowercase_ascii ds)"
          using kelvin False Cons by (subst lowercase_ascii.simps) (auto simp del: take_Suc_Cons)
        have "c \<in> set (lowercase_ascii ds) \<Longrightarrow> byte c < 128 \<and> \<not> is_ascii_uppercase c"
          using "1.IH"(3) [OF kelvin False Cons] "1.IH"(4) [OF kelvin False Cons] by blast
        with 1(5) lower show ?thesis unfolding eq by (auto split: if_splits)
      qed
    qed
  qed
qed

definition host_label_inv :: "string \<Rightarrow> bool" where
  "host_label_inv label \<longleftrightarrow> length label \<le> 63 \<and> list_all dns_char label
     \<and> (label \<noteq> [] \<longrightarrow> is_dns_1123_alphanumeric (hd label))"

lemma dns_normalized_Some:
  "dns_normalized c = Some d \<Longrightarrow> \<not> is_ascii_uppercase c \<Longrightarrow> is_dns_1123_alphanumeric d \<or> d = CHR ''-''"
  by (auto simp: dns_normalized_def is_ascii_alphanumeric_def is_ascii_alphabetic_def
      is_dns_1123_alphanumeric_def split: if_splits)

lemma dns_label_loop_inv:
  "host_label_inv label \<Longrightarrow> (\<forall>c \<in> set cs. \<not> is_ascii_uppercase c) \<Longrightarrow> host_label_inv (dns_label_loop cs label dash)"
proof (induction cs arbitrary: label dash)
  case (Cons c cs)
  show ?case
  proof (cases "dns_normalized c")
    case None
    with Cons show ?thesis by simp
  next
    case (Some d)
    have d: "is_dns_1123_alphanumeric d \<or> d = CHR ''-''"
      using dns_normalized_Some [OF Some] Cons.prems(2) by simp
    have "host_label_inv (label @ [d])" if "\<not> (d = CHR ''-'' \<and> (label = [] \<or> dash))" "length label \<noteq> 63"
      using Cons.prems(1) that d by (cases label) (auto simp: host_label_inv_def dns_char_def)
    with Cons Some show ?thesis by simp
  qed
qed simp

lemma dns_safe_label_label: "dns_label (dns_safe_label s)"
proof -
  let ?l = "dns_label_loop (lowercase_ascii s) [] False"
  let ?t = "trim_end_matches (CHR ''-'') ?l"
  have inv: "host_label_inv ?l"
    using lowercase_ascii_chars by (intro dns_label_loop_inv) (auto simp: host_label_inv_def)
  show ?thesis
  proof (cases "?t = []")
    case True
    then show ?thesis
      by (simp add: dns_safe_label_def dns_label_def dns_char_def is_dns_1123_alphanumeric_def
          is_ascii_lowercase_def)
  next
    case False
    obtain r where r: "?l = ?t @ r" using trim_end_matches_prefix by blast
    have "length ?t \<le> 63" using inv length_trim_end_matches [of "CHR ''-''" ?l] by (simp add: host_label_inv_def)
    moreover have all: "list_all dns_char ?t"
      using inv set_trim_end_matches [of "CHR ''-''" ?l] by (auto simp: host_label_inv_def list_all_iff)
    moreover have "is_dns_1123_alphanumeric (hd ?t)"
      using inv r False by (metis append_is_Nil_conv hd_append2 host_label_inv_def)
    moreover have "is_dns_1123_alphanumeric (last ?t)"
      using last_trim_end_matches [OF False] all False by (auto simp: list_all_iff dns_char_def)
    ultimately show ?thesis using False by (simp add: dns_safe_label_def dns_label_def)
  qed
qed

section \<open>Namespace names\<close>

lemma floor_boundary_le: "floor_boundary s n \<le> n"
  by (induction s n rule: floor_boundary.induct) auto

lemma floor_boundary_hit: "is_char_boundary s n \<Longrightarrow> floor_boundary s n = n"
  by (cases n) auto

lemma dns_char_not_continuation: "dns_char c \<Longrightarrow> \<not> is_continuation c"
  by (auto simp: dns_char_def is_dns_1123_alphanumeric_def is_ascii_lowercase_def is_ascii_digit_def
      is_continuation_def)

lemma floor_boundary_ascii: "list_all dns_char s \<Longrightarrow> n \<le> length s \<Longrightarrow> floor_boundary s n = n"
  using dns_char_not_continuation
  by (intro floor_boundary_hit) (auto simp: is_char_boundary_def list_all_length)

lemma sanitize_loop_chars: "list_all dns_char (sanitize_loop s d)"
  by (induction s d rule: sanitize_loop.induct) (auto simp: dns_char_def is_dns_1123_alphanumeric_def)

lemma set_trim_matches: "set (trim_matches c s) \<subseteq> set s"
  unfolding trim_matches_def
  using set_trim_end_matches [of c "trim_start_matches c s"]
  by (auto simp: trim_start_matches_def dest: set_dropWhileD)

lemma sanitize_chars: "list_all dns_char (sanitize_dns_label_component s)"
  using set_trim_matches sanitize_loop_chars
  by (fastforce simp: sanitize_dns_label_component_def list_all_iff)

lemma length_identity_hash [simp]: "length (identity_hash a b) = 12"
  by (simp add: identity_hash_def IDENTITY_HASH_LENGTH_def)

lemma hex_lower_dns: "is_hex_lower c \<Longrightarrow> is_dns_1123_alphanumeric c"
  by (auto simp: is_hex_lower_def is_dns_1123_alphanumeric_def is_ascii_lowercase_def)

lemma identity_hash_hex: "list_all is_hex_lower (identity_hash a b)"
proof -
  have "is_hex_lower c" if "c \<in> set (identity_hash a b)" for c
    using that set_take_subset hex_digits_hex unfolding identity_hash_def by (meson subsetD)
  then show ?thesis by (simp add: list_all_iff)
qed

lemma preview_namespace_name_eq:
  "preview_namespace_name ns n
     = trim_dns_label_prefix (ns @ ''-'' @ sanitize_dns_label_component n) 42 @ ''-'' @ identity_hash ns n @ ''-preview''"
  by (simp add: preview_namespace_name_def Let_def PREVIEW_NAMESPACE_SUFFIX_def IDENTITY_HASH_LENGTH_def
      DNS_1123_LABEL_MAX_LENGTH_def)

lemma trim_dns_label_prefix_label:
  assumes "dns_label ns" and "list_all dns_char t"
  shows "trim_dns_label_prefix (ns @ t) 42 \<noteq> [] \<and> hd (trim_dns_label_prefix (ns @ t) 42) = hd ns
    \<and> length (trim_dns_label_prefix (ns @ t) 42) \<le> 42 \<and> list_all dns_char (trim_dns_label_prefix (ns @ t) 42)"
proof -
  let ?s = "ns @ t"
  let ?k = "min (length ?s) 42"
  let ?p = "trim_end_matches (CHR ''-'') (take ?k ?s)"
  have ns: "ns \<noteq> []" "hd ns \<noteq> CHR ''-''" "list_all dns_char ?s"
    using assms by (auto simp: dns_label_def is_dns_1123_alphanumeric_def is_ascii_lowercase_def
        is_ascii_digit_def)
  have p: "trim_dns_label_prefix ?s 42 = ?p"
    using floor_boundary_ascii [OF ns(3), of ?k] by (simp add: trim_dns_label_prefix_def)
  obtain r where r: "take ?k ?s = ?p @ r" "set r \<subseteq> {CHR ''-''}" using trim_end_matches_prefix by blast
  have hd: "take ?k ?s \<noteq> []" "hd (take ?k ?s) = hd ns" using ns(1) by (cases ns; simp)+
  have "?p \<noteq> []"
  proof
    assume "?p = []"
    with r have "hd (take ?k ?s) \<in> {CHR ''-''}" using hd(1) by (metis append_Nil hd_in_set subsetD)
    with hd(2) ns(2) show False by simp
  qed
  moreover from this have "hd ?p = hd ns" using r(1) hd(2) by (metis hd_append2)
  moreover have "length ?p \<le> 42"
    by (rule order_trans [OF length_trim_end_matches]) (simp del: take_append)
  moreover have "list_all dns_char ?p"
  proof -
    have "set ?p \<subseteq> set ?s" using set_trim_end_matches set_take_subset by (meson subset_trans)
    with ns(3) show ?thesis by (auto simp: list_all_iff)
  qed
  ultimately show ?thesis unfolding p by blast
qed

lemma preview_namespace_label:
  assumes "dns_label ns"
  shows "dns_label (preview_namespace_name ns n)"
proof -
  let ?p = "trim_dns_label_prefix (ns @ ''-'' @ sanitize_dns_label_component n) 42"
  have t: "list_all dns_char (''-'' @ sanitize_dns_label_component n)"
    using sanitize_chars by (simp add: dns_char_def)
  note p = trim_dns_label_prefix_label [OF assms t]
  have h: "list_all dns_char (identity_hash ns n)"
    using identity_hash_hex [of ns n] by (auto simp: list_all_iff intro: alnum_imp_dns_char hex_lower_dns)
  have s: "list_all dns_char ''-preview''" "list_all dns_char ''-''" "is_dns_1123_alphanumeric (last ''-preview'')"
    by (simp_all add: dns_char_def is_dns_1123_alphanumeric_def is_ascii_lowercase_def)
  have "is_dns_1123_alphanumeric (hd ns)" using assms by (simp add: dns_label_def)
  with p h s show ?thesis
    unfolding preview_namespace_name_eq dns_label_def by simp
qed

lemma append_same_length_suffix: "a @ x = b @ y \<Longrightarrow> length x = length y \<Longrightarrow> a = b \<and> x = y"
  by simp

lemma preview_namespace_name_hash:
  assumes "preview_namespace_name ns n = preview_namespace_name ns' n'"
  shows "identity_hash ns n = identity_hash ns' n'"
proof -
  let ?p = "\<lambda>ns n. trim_dns_label_prefix (ns @ ''-'' @ sanitize_dns_label_component n) 42"
  have "(?p ns n @ ''-'') @ (identity_hash ns n @ ''-preview'') = (?p ns' n' @ ''-'') @ (identity_hash ns' n' @ ''-preview'')"
    using assms unfolding preview_namespace_name_eq by simp
  then have "identity_hash ns n @ ''-preview'' = identity_hash ns' n' @ ''-preview''"
    by (rule append_same_length_suffix [THEN conjunct2]) simp
  then show ?thesis by simp
qed

section \<open>Legacy namespaces\<close>

lemma hash_no_dash: "CHR ''-'' \<notin> set (identity_hash a b)"
  using identity_hash_hex [of a b] by (auto simp: list_all_iff is_hex_lower_def is_ascii_digit_def)

lemma legacy_parts_name:
  "legacy_preview_namespace_parts (preview_namespace_name ns n)
     = Some (trim_dns_label_prefix (ns @ ''-'' @ sanitize_dns_label_component n) 42, identity_hash ns n)"
proof -
  let ?p = "trim_dns_label_prefix (ns @ ''-'' @ sanitize_dns_label_component n) 42"
  have "strip_suffix (preview_namespace_name ns n) ''-preview'' = Some (?p @ CHR ''-'' # identity_hash ns n)"
    unfolding preview_namespace_name_eq strip_suffix_Some by simp
  moreover have "rsplit_once (CHR ''-'') (?p @ CHR ''-'' # identity_hash ns n) = Some (?p, identity_hash ns n)"
    using hash_no_dash by (simp add: rsplit_once_Some)
  ultimately show ?thesis
    using identity_hash_hex
    by (simp add: legacy_preview_namespace_parts_def PREVIEW_NAMESPACE_SUFFIX_def IDENTITY_HASH_LENGTH_def)
qed

lemma trim_end_matches_id: "s \<noteq> [] \<Longrightarrow> last s \<noteq> c \<Longrightarrow> trim_end_matches c s = s"
  by (cases s rule: rev_cases) (simp_all add: trim_end_matches_def)

lemma sanitize_last: "sanitize_dns_label_component n \<noteq> [] \<Longrightarrow> last (sanitize_dns_label_component n) \<noteq> CHR ''-''"
  unfolding sanitize_dns_label_component_def trim_matches_def by (rule last_trim_end_matches)

lemma trim_prefix_id:
  assumes "s \<noteq> []" and "last s \<noteq> CHR ''-''"
  shows "trim_dns_label_prefix s 42 = s \<longleftrightarrow> length s \<le> 42"
proof
  assume l: "length s \<le> 42"
  have "is_char_boundary s (length s)" by (simp add: is_char_boundary_def)
  then show "trim_dns_label_prefix s 42 = s"
    using l assms by (simp add: trim_dns_label_prefix_def floor_boundary_hit trim_end_matches_id)
next
  assume "trim_dns_label_prefix s 42 = s"
  then have "length s \<le> length (take (floor_boundary s (min (length s) 42)) s)"
    unfolding trim_dns_label_prefix_def by (metis length_trim_end_matches)
  with floor_boundary_le [of s "min (length s) 42"] show "length s \<le> 42" by simp
qed

lemma legacy_matches_iff:
  "legacy_preview_namespace_matches pns n \<longleftrightarrow>
     sanitize_dns_label_component n \<noteq> []
     \<and> (\<exists>ns. ns \<noteq> [] \<and> pns = preview_namespace_name ns n
            \<and> length ns + 1 + length (sanitize_dns_label_component n) \<le> 42)"
proof -
  let ?safe = "sanitize_dns_label_component n"
  have tp: "trim_dns_label_prefix (ns @ ''-'' @ ?safe) 42 = ns @ ''-'' @ ?safe
      \<longleftrightarrow> length ns + 1 + length ?safe \<le> 42" if "?safe \<noteq> []" for ns
    using that sanitize_last [OF that] by (subst trim_prefix_id) auto
  show ?thesis
  proof (intro iffI)
    assume m: "legacy_preview_namespace_matches pns n"
    then obtain p h ns where p: "?safe \<noteq> []" "legacy_preview_namespace_parts pns = Some (p, h)"
      "p = ns @ CHR ''-'' # ?safe" "ns \<noteq> []" "preview_namespace_name ns n = pns"
      by (auto simp: legacy_preview_namespace_matches_def Let_def strip_suffix_Some split: if_splits option.splits)
    from p(2,5) legacy_parts_name [of ns n] have "trim_dns_label_prefix (ns @ ''-'' @ ?safe) 42 = p" by simp
    with p(1,3) tp have "length ns + 1 + length ?safe \<le> 42" by simp
    with p show "?safe \<noteq> [] \<and> (\<exists>ns. ns \<noteq> [] \<and> pns = preview_namespace_name ns n \<and> length ns + 1 + length ?safe \<le> 42)"
      by blast
  next
    assume "?safe \<noteq> [] \<and> (\<exists>ns. ns \<noteq> [] \<and> pns = preview_namespace_name ns n \<and> length ns + 1 + length ?safe \<le> 42)"
    then obtain ns where ns: "?safe \<noteq> []" "ns \<noteq> []" "pns = preview_namespace_name ns n"
      "length ns + 1 + length ?safe \<le> 42" by blast
    have "strip_suffix (ns @ CHR ''-'' # ?safe) (CHR ''-'' # ?safe) = Some ns" by (simp add: strip_suffix_Some)
    moreover have "trim_dns_label_prefix (ns @ ''-'' @ ?safe) 42 = ns @ CHR ''-'' # ?safe" using tp ns by simp
    ultimately show "legacy_preview_namespace_matches pns n"
      using ns legacy_parts_name [of ns n] by (simp add: legacy_preview_namespace_matches_def Let_def)
  qed
qed

section \<open>Verified previews\<close>

definition preview_of :: "project \<Rightarrow> string \<Rightarrow> string \<Rightarrow> bool" where
  "preview_of app parent_name pr_number \<longleftrightarrow>
     (\<exists>labels. om_labels (pj_metadata app) = Some labels \<and> labels PARENT_APP_LABEL_KEY = Some parent_name
        \<and> labels PR_NUMBER_LABEL_KEY = Some pr_number \<and> labels PREVIEW_LABEL_KEY = Some ''true''
        \<and> labels MANAGED_BY = Some ''reinhardt-cloud'')
     \<and> pr_number \<noteq> [] \<and> list_all is_ascii_digit pr_number"

lemma preview_parent_iff:
  "preview_parent_name_from_labels app app_name = Some parent_name \<longleftrightarrow>
     (\<exists>pr. preview_of app parent_name pr \<and> app_name = parent_name @ ''-pr-'' @ pr)"
  by (auto simp: preview_parent_name_from_labels_def preview_of_def MANAGED_BY_LABEL_VALUE_def
      preview_project_name_def split: option.splits if_splits)

definition parent_label :: "project \<Rightarrow> string option" where
  "parent_label app = Option.bind (om_labels (pj_metadata app)) (\<lambda>m. m PARENT_NAMESPACE_LABEL_KEY)"

definition lives_in_preview_namespace :: "project \<Rightarrow> string \<Rightarrow> bool" where
  "lives_in_preview_namespace app parent_name \<longleftrightarrow>
     (\<exists>ns. app_namespace app = Some (preview_namespace_name ns parent_name)
        \<and> (parent_label app = Some ns \<or> parent_label app = None))"

lemma verified_parent_spec:
  assumes "verified_preview_parent_name app app_name = Some parent_name"
  shows "(\<exists>pr. preview_of app parent_name pr \<and> app_name = parent_name @ ''-pr-'' @ pr)
    \<and> lives_in_preview_namespace app parent_name"
proof -
  from assms have p: "preview_parent_name_from_labels app app_name = Some parent_name"
    and v: "\<exists>labels. om_labels (pj_metadata app) = Some labels \<and> verified_preview_namespace app labels parent_name"
    by (auto simp: verified_preview_parent_name_def split: option.splits if_splits)
  then obtain labels where l: "om_labels (pj_metadata app) = Some labels"
    "verified_preview_namespace app labels parent_name" by blast
  from l(2) obtain pns where n: "app_namespace app = Some pns"
    by (auto simp: verified_preview_namespace_def split: option.splits)
  have "lives_in_preview_namespace app parent_name"
  proof (cases "labels PARENT_NAMESPACE_LABEL_KEY")
    case None
    with l n show ?thesis
      by (auto simp: verified_preview_namespace_def legacy_matches_iff lives_in_preview_namespace_def parent_label_def)
  next
    case (Some ns)
    with l n show ?thesis
      by (auto simp: verified_preview_namespace_def lives_in_preview_namespace_def parent_label_def)
  qed
  with p show ?thesis by (simp add: preview_parent_iff)
qed

lemma verified_preview_of_iff:
  "is_verified_preview_of app parent_namespace parent_name \<longleftrightarrow>
     (\<exists>pr. preview_of app parent_name pr \<and> name_any app = parent_name @ ''-pr-'' @ pr)
     \<and> app_namespace app = Some (preview_namespace_name parent_namespace parent_name)
     \<and> (parent_label app = None \<or> parent_label app = Some parent_namespace)"
  by (auto simp: is_verified_preview_of_def preview_parent_iff parent_label_def split: option.splits)

lemma find_None_all: "find P xs = None \<longleftrightarrow> (\<forall>x \<in> set xs. \<not> P x)"
  by (auto simp: find_None_iff)

section \<open>Properties\<close>

text \<open>
  C29. A preview namespace name is a DNS label whenever the parent's namespace is one, whatever the
  parent's name; two parents share it only if their identity hashes collide; and the legacy check
  without the parent-namespace label recognises exactly the names whose identity was not cut.
\<close>
theorem preview_namespace_identifies_parent:
  assumes "dns_label ns"
  shows "validate_dns_1123_label (preview_namespace_name ns n) = Inr ()
    \<and> (preview_namespace_name ns n = preview_namespace_name ns' n' \<longrightarrow> identity_hash ns n = identity_hash ns' n')
    \<and> (legacy_preview_namespace_matches pns n \<longleftrightarrow>
         sanitize_dns_label_component n \<noteq> []
         \<and> (\<exists>p. p \<noteq> [] \<and> pns = preview_namespace_name p n
                \<and> length p + 1 + length (sanitize_dns_label_component n) \<le> 42))"
  unfolding validate_dns_1123_label_iff legacy_matches_iff
  using preview_namespace_label [OF assms] preview_namespace_name_hash by blast

theorem preview_namespace_identifies_parent_witness:
  "validate_dns_1123_label (preview_namespace_name ''prod'' ''My.App'') = Inr ()"
  using preview_namespace_identifies_parent [of "''prod''" "''My.App''"]
  by (simp add: dns_label_def dns_char_def is_dns_1123_alphanumeric_def is_ascii_lowercase_def)

text \<open>
  Image-pull secrets: the accepted ones are passed on unchanged, and each starts with the
  application's own name and a hyphen, or with the parent's for a verified preview, that is one
  whose labels, name and namespace are those the operator derives for that parent.
\<close>
theorem image_pull_secrets_owned:
  assumes "validated_image_pull_secrets app = Inr (Some secrets)" and "s \<in> set secrets"
  shows "ps_image_pull_secrets (pj_spec app) = Some secrets
    \<and> (starts_with s (name_any app @ ''-'')
       \<or> (\<exists>parent pr. starts_with s (parent @ ''-'') \<and> preview_of app parent pr
            \<and> name_any app = parent @ ''-pr-'' @ pr \<and> lives_in_preview_namespace app parent))"
proof -
  from assms(1) have sec: "ps_image_pull_secrets (pj_spec app) = Some secrets"
    and f: "find (\<lambda>s. \<not> list_ex (\<lambda>p. starts_with s p) (image_pull_secret_prefixes app (name_any app))) secrets = None"
    by (auto simp: validated_image_pull_secrets_def Let_def split: option.splits)
  from f assms(2) have "\<exists>p \<in> set (image_pull_secret_prefixes app (name_any app)). starts_with s p"
    by (auto simp: find_None_all list_ex_iff)
  then have "starts_with s (name_any app @ ''-'')
      \<or> (\<exists>parent. verified_preview_parent_name app (name_any app) = Some parent \<and> starts_with s (parent @ ''-''))"
    by (auto simp: image_pull_secret_prefixes_def Let_def split: option.splits if_splits)
  with sec verified_parent_spec show ?thesis by blast
qed

definition sample_pull :: project where
  "sample_pull = sample_project\<lparr>pj_spec := project_spec_default\<lparr>ps_image_pull_secrets := Some [''shop-regcred'']\<rparr>\<rparr>"

theorem image_pull_secrets_owned_witness:
  "ps_image_pull_secrets (pj_spec sample_pull) = Some [''shop-regcred'']"
  by (rule image_pull_secrets_owned [THEN conjunct1, of _ _ "''shop-regcred''"])
    (simp_all add: sample_pull_def sample_project_def validated_image_pull_secrets_def
      image_pull_secret_prefixes_def verified_preview_parent_name_def preview_parent_name_from_labels_def
      object_meta_default_def project_spec_default_def name_any_def starts_with_def Let_def)

text \<open>
  The prefix rule lets a project use the image-pull secrets of every project whose name
  extends its own: project \<open>n\<close> may pull with \<open>n-m-s\<close>, which project \<open>n-m\<close> owns by the same rule.
\<close>
theorem image_pull_prefix_overlaps:
  "validated_image_pull_secrets (app\<lparr>pj_spec := (pj_spec app)\<lparr>ps_image_pull_secrets := Some [name_any app @ ''-'' @ m @ ''-'' @ s]\<rparr>\<rparr>)
     = Inr (Some [name_any app @ ''-'' @ m @ ''-'' @ s])"
proof -
  let ?a = "app\<lparr>pj_spec := (pj_spec app)\<lparr>ps_image_pull_secrets := Some [name_any app @ ''-'' @ m @ ''-'' @ s]\<rparr>\<rparr>"
  have n: "name_any ?a = name_any app" by (simp add: name_any_def cong: option.case_cong)
  have "starts_with (name_any app @ ''-'' @ m @ ''-'' @ s) (name_any app @ ''-'')"
    unfolding starts_with_iff by auto
  moreover have "name_any app @ ''-'' \<in> set (image_pull_secret_prefixes ?a (name_any ?a))"
    unfolding n by (auto simp: image_pull_secret_prefixes_def Let_def split: option.splits)
  ultimately have "list_ex (\<lambda>p. starts_with (name_any app @ ''-'' @ m @ ''-'' @ s) p)
      (image_pull_secret_prefixes ?a (name_any ?a))" by (auto simp: list_ex_iff)
  then show ?thesis by (simp add: validated_image_pull_secrets_def Let_def)
qed

text \<open>
  C25. A preview's specification never asks for more replicas than the parent's budget, is deleted
  with its resources, carries no source, plugins, infrastructure or service account of the parent,
  runs the image of the parent's registry at the build's tag, and its host label for the branch is
  always a DNS label.
\<close>
theorem preview_spec_contained:
  assumes "build_preview_spec parent pr_number image_tag branch = Inr s"
  shows "(\<exists>r. ps_replicas s = Some r
      \<and> (\<forall>b m. Option.bind (preview_config (pj_spec parent)) pv_budget = Some b \<longrightarrow> pb_max_replicas b = Some m
           \<longrightarrow> sint r \<le> sint m))
    \<and> ps_deletion_policy s = Delete \<and> ps_source s = None \<and> ps_plugins s = None
    \<and> ps_infrastructure s = None \<and> ps_service_account s = None
    \<and> (\<exists>src bld registry. ps_source (pj_spec parent) = Some src \<and> src_build src = Some bld
         \<and> bsp_registry bld = Some registry \<and> ps_image s = registry @ '':'' @ image_tag)
    \<and> dns_label (dns_safe_label b)"
proof -
  obtain registry where g: "Option.bind (Option.bind (ps_source (pj_spec parent)) src_build) bsp_registry = Some registry"
    using assms by (cases "Option.bind (Option.bind (ps_source (pj_spec parent)) src_build) bsp_registry")
      (simp_all add: build_preview_spec_def Let_def)
  then obtain src bld where r: "ps_source (pj_spec parent) = Some src" "src_build src = Some bld"
    "bsp_registry bld = Some registry" by (auto simp: Option.bind_eq_Some_conv)
  let ?req = "case Option.bind (Option.bind (preview_config (pj_spec parent)) pv_overrides) po_replicas of
    None \<Rightarrow> 1 | Some r \<Rightarrow> r"
  have f: "ps_replicas s = Some (case Option.bind (Option.bind (preview_config (pj_spec parent)) pv_budget) pb_max_replicas of
        Some m \<Rightarrow> signed_min ?req m | None \<Rightarrow> ?req)"
    "ps_deletion_policy s = Delete" "ps_source s = None" "ps_plugins s = None" "ps_infrastructure s = None"
    "ps_service_account s = None" "ps_image s = registry @ '':'' @ image_tag"
    by (simp_all add: assms [unfolded build_preview_spec_def Let_def g option.case sum.inject, symmetric])
  have "sint (signed_min x m) \<le> sint m" for x m by (simp add: signed_min_def)
  then have "\<forall>b m. Option.bind (preview_config (pj_spec parent)) pv_budget = Some b \<longrightarrow> pb_max_replicas b = Some m
      \<longrightarrow> sint (the (ps_replicas s)) \<le> sint m"
    by (simp add: f(1))
  with f r dns_safe_label_label [of b] show ?thesis by simp
qed

definition sample_source :: source_spec where
  "sample_source =
     \<lparr>src_repository = ''https://github.com/org/app'', src_branch = Some ''main'', src_provider = Some GitHub,
      src_credentials_secret = None,
      src_build = Some \<lparr>bsp_dockerfile = None, bsp_context = None, bsp_registry = Some ''ghcr.io/org/app'',
                        bsp_build_args = []\<rparr>,
      src_webhook = None,
      src_preview = Some \<lparr>pv_enabled = True, pv_ttl = Some ''72h'', pv_url_template = None,
        pv_overrides = Some \<lparr>po_replicas = Some 5, po_database = None, po_cache = None\<rparr>,
        pv_budget = Some \<lparr>pb_max_replicas = Some 2, pb_max_cpu = None, pb_max_memory = None\<rparr>\<rparr>\<rparr>"

definition sample_parent :: project where
  "sample_parent = sample_project\<lparr>pj_spec := project_spec_default\<lparr>ps_source := Some sample_source\<rparr>\<rparr>"

theorem preview_spec_contained_witness:
  "\<exists>s r. build_preview_spec sample_parent ''7'' ''pr-7-abc'' None = Inr s \<and> ps_replicas s = Some r \<and> sint r \<le> 2
     \<and> ps_image s = ''ghcr.io/org/app:pr-7-abc''"
proof -
  have g: "Option.bind (Option.bind (ps_source (pj_spec sample_parent)) src_build) bsp_registry = Some ''ghcr.io/org/app''"
    by (simp add: sample_parent_def sample_source_def)
  obtain s where s: "build_preview_spec sample_parent ''7'' ''pr-7-abc'' None = Inr s"
    unfolding build_preview_spec_def Let_def g option.case by blast
  have b: "Option.bind (preview_config (pj_spec sample_parent)) pv_budget
      = Some \<lparr>pb_max_replicas = Some 2, pb_max_cpu = None, pb_max_memory = None\<rparr>"
    by (simp add: sample_parent_def sample_source_def preview_config_def)
  have "ps_source (pj_spec sample_parent) = Some sample_source" by (simp add: sample_parent_def)
  with preview_spec_contained [OF s, of "[]"] b s show ?thesis
    by (auto simp: sample_source_def)
qed

text \<open>
  A TTL that validation accepts can panic the operator: the last byte is split off without
  regard to characters, so \<open>72\<close> followed by any non-ASCII character passes \<open>validate_preview\<close> and
  panics as soon as a preview with a readable time is checked.
\<close>
theorem ttl_validated_but_panics:
  assumes "parse_rfc3339 ts = Some t" and "trim ttl \<noteq> []" and "is_continuation (last (trim ttl))"
    and "validate_preview p = Inr ()"
  shows "validate_preview (p\<lparr>pv_ttl := Some ttl\<rparr>) = Inr ()
    \<and> is_ttl_expired parse_rfc3339 now ts ttl = None"
  using assms by (auto simp: validate_preview_def is_ttl_expired_def parse_duration_def Let_def)

text \<open>Two digits and the two bytes of a non-ASCII character.\<close>

definition sample_ttl :: string where
  "sample_ttl = ''72'' @ [CHR 0xC3, CHR 0xA9]"

theorem ttl_validated_but_panics_witness:
  "is_ttl_expired (\<lambda>_. Some 0) 0 ''2026-01-01T00:00:00Z'' sample_ttl = None"
proof -
  have "trim sample_ttl = sample_ttl"
    by (simp add: sample_ttl_def trim_def trim_end_def trim_rev.simps trim_start.simps ws_len_def ws_len_rev_def)
  then show ?thesis
    using ttl_validated_but_panics [of "\<lambda>_. Some 0" "''2026-01-01T00:00:00Z''" 0 sample_ttl
        "\<lparr>pv_enabled = True, pv_ttl = None, pv_url_template = None, pv_overrides = None, pv_budget = None\<rparr>" 0]
    by (simp add: validate_preview_def sample_ttl_def is_continuation_def)
qed

end
