(* ===== verification/SourceBuildProps.thy ===== *)
theory SourceBuildProps
  imports SourceBuild PreviewNames
begin

text \<open>
  Properties of source builds: the order of the requests of a pass, what a pass decides, what the
  stored status says afterwards, and what a build job may read.
\<close>

section \<open>Order of requests\<close>

text \<open>\<open>before P Q l\<close>: every request of \<open>l\<close> that satisfies \<open>Q\<close> comes after a successful one with \<open>P\<close>.\<close>

fun before :: "(kube_call \<Rightarrow> bool) \<Rightarrow> (kube_call \<Rightarrow> bool) \<Rightarrow> kube_log \<Rightarrow> bool" where
  "before P Q [] = True"
| "before P Q ((c, ok) # l) = (\<not> Q c \<and> ((P c \<and> ok) \<or> before P Q l))"

lemma before_spec:
  "before P Q l \<Longrightarrow> (c, ok) \<in> set l \<Longrightarrow> Q c \<Longrightarrow>
     \<exists>pre post d. l = pre @ (c, ok) # post \<and> (d, True) \<in> set pre \<and> P d"
proof (induction l)
  case (Cons x l)
  obtain e b where x: "x = (e, b)" by (cases x)
  with Cons.prems have "(c, ok) \<in> set l" "\<not> Q e" by auto
  show ?case
  proof (cases "P e \<and> b")
    case True
    obtain pre post where "l = pre @ (c, ok) # post" using \<open>(c, ok) \<in> set l\<close> by (meson split_list)
    with True x have "x # l = (x # pre) @ (c, ok) # post" "(e, True) \<in> set (x # pre)" "P e" by auto
    then show ?thesis by blast
  next
    case False
    with Cons.prems x have "before P Q l" by auto
    from Cons.IH [OF this \<open>(c, ok) \<in> set l\<close> Cons.prems(3)]
    obtain pre post d where "l = pre @ (c, ok) # post" "(d, True) \<in> set pre" "P d" by blast
    then have "x # l = (x # pre) @ (c, ok) # post" "(d, True) \<in> set (x # pre)" by auto
    with \<open>P d\<close> show ?thesis by blast
  qed
qed simp

fun is_clear :: "kube_call \<Rightarrow> bool" where
  "is_clear (PatchProject _ _ ClearBuildAnnotations) = True"
| "is_clear _ = False"

fun is_create :: "kube_call \<Rightarrow> bool" where
  "is_create (CreateJob _ _) = True"
| "is_create _ = False"

fun reports_phase :: "crd_build_phase \<Rightarrow> kube_call \<Rightarrow> bool" where
  "reports_phase ph (PatchStatus _ _ p) = (case sp_build p of Value b \<Rightarrow> cb_phase b = ph | _ \<Rightarrow> False)"
| "reports_phase ph _ = False"

fun is_rollout :: "kube_call \<Rightarrow> bool" where
  "is_rollout (PatchProject _ _ (SetImage _)) = True"
| "is_rollout (ApplyProject _ _ _) = True"
| "is_rollout _ = False"

lemma sp_build_patch [simp]: "sp_build (build_status_patch app now b c) = Value b"
  by (simp add: build_status_patch_def)

lemma cb_phase_transition [simp]: "cb_phase (transition_build_status app now b ph r m) = ph"
  by (simp add: transition_build_status_def Let_def)

lemma derive_new_build_spec:
  assumes "derive_new_build_status app now = Inr (Some b)"
  shows "cb_phase b = BPending \<and> cb_job_name b = build_job_name (name_any app) (cb_image_tag b)
    \<and> built_image_reference app (cb_image_tag b) = Inr (cb_image b)
    \<and> Some (cb_trigger b) = annotation_value app BUILD_TRIGGER_ANNOTATION"
  using assms
  by (auto simp: derive_new_build_status_def Let_def result_bind_Inr split: option.splits if_splits)

lemma build_job_spec:
  assumes "build_kaniko_job_for_branch app tag br = Inr j"
  shows "om_name (jb_metadata j) = Some (build_job_name (name_any app) tag)
    \<and> om_namespace (jb_metadata j) = app_namespace app \<and> jb_status j = None"
  using assms
  by (auto simp: build_kaniko_job_for_branch_def result_bind_Inr require_namespace_def ok_or_def
      split: option.splits)

lemma build_job_for_status_name:
  "build_job_for_status app b = Inr j \<Longrightarrow>
     om_name (jb_metadata j) = Some (build_job_name (name_any app) (cb_image_tag b)) \<and> jb_status j = None"
  by (auto simp: build_job_for_status_def build_kaniko_job_def dest: build_job_spec split: build_target_kind.splits)

definition accepted :: "project \<Rightarrow> string \<Rightarrow> crd_build_status \<Rightarrow> bool" where
  "accepted app now b \<longleftrightarrow> \<not> ignored_preview_request app \<and> derive_new_build_status app now = Inr (Some b)"

definition pass_log_ok :: "project \<Rightarrow> string \<Rightarrow> string \<Rightarrow> kube_log \<Rightarrow> bool" where
  "pass_log_ok app ns now l \<longleftrightarrow>
     (\<not> ignored_preview_request app \<longrightarrow> before (reports_phase BPending) is_clear l)
     \<and> (list_ex (\<lambda>(c, ok). is_create c) l \<longrightarrow> before is_create (reports_phase BPending) l)
     \<and> list_all (\<lambda>(c, ok). \<not> is_rollout c \<and> \<not> reports_phase BSucceeded c) l
     \<and> list_all (\<lambda>(c, ok). is_create c \<longrightarrow>
          (\<exists>b j. accepted app now b \<and> c = CreateJob ns j \<and> build_job_for_status app b = Inr j)) l
     \<and> length (filter (\<lambda>(c, ok). is_create c) l) \<le> 1"

definition tracked :: "kube_call \<Rightarrow> bool" where
  "tracked c \<longleftrightarrow> reports_phase BRunning c \<or> reports_phase BFailed c"

lemma tracked_patch: "cb_phase b \<in> {BRunning, BFailed} \<Longrightarrow> tracked (PatchStatus ns n (build_status_patch app now b c))"
  by (auto simp: tracked_def)

lemma reports_phase_unique: "reports_phase p c \<Longrightarrow> reports_phase q c \<Longrightarrow> p = q"
  by (cases c) (auto split: patch_field.splits)

lemma trackedD:
  "tracked c \<Longrightarrow> \<not> is_clear c" "tracked c \<Longrightarrow> \<not> is_create c" "tracked c \<Longrightarrow> \<not> is_rollout c"
  "tracked c \<Longrightarrow> \<not> reports_phase BPending c" "tracked c \<Longrightarrow> \<not> reports_phase BSucceeded c"
proof -
  show "\<not> reports_phase BPending c" "\<not> reports_phase BSucceeded c" if "tracked c"
    using that reports_phase_unique [of _ c] unfolding tracked_def by blast+
qed (cases c; simp add: tracked_def)+

lemma track_job_rule:
  assumes "\<And>e c. tracked c \<Longrightarrow> Q (Inl e) (l @ [(c, False)])"
    and "\<And>d c. tracked c \<Longrightarrow> (\<forall>b. d \<noteq> BuildSucceeded b) \<and> d \<noteq> NoBuild \<Longrightarrow> Q (Inr d) (l @ [(c, True)])"
    and "\<And>b. cb_phase b = BSucceeded \<Longrightarrow> Q (Inr (BuildSucceeded b)) l"
  shows "op_holds l (track_job api ns clock app b j) Q"
proof (cases "classify_job_state j")
  case JobRunning
  then show ?thesis
    unfolding track_job_def build_decision_from_job_state_def Let_def patch_build_status_def patch_status_def
    by simp (intro op_rules assms tracked_patch; simp)
next
  case JobSucceeded
  then show ?thesis
    unfolding track_job_def build_decision_from_job_state_def Let_def patch_build_status_def patch_status_def
    by simp (intro op_rules assms; simp)
next
  case (JobFailed r m)
  then show ?thesis
    unfolding track_job_def build_decision_from_job_state_def Let_def patch_build_status_def patch_status_def
    by simp (intro op_rules assms tracked_patch; simp)
qed

definition idle :: "project \<Rightarrow> string \<Rightarrow> bool" where
  "idle app now \<longleftrightarrow> (\<forall>b. \<not> accepted app now b) \<and> (\<forall>b. app_build app = Some b \<longrightarrow> cb_phase b = BSucceeded)"

lemma idleI:
  "(\<forall>b. \<not> accepted app now b) \<Longrightarrow> blocking_failed_build_status app False = None \<Longrightarrow> active_build_status app = None
     \<Longrightarrow> idle app now"
  by (auto simp: idle_def blocking_failed_build_status_def active_build_status_def filter_option_def
      split: option.splits if_splits) (metis crd_build_phase.exhaust)

lemma reconcile_source_build_log:
  "op_holds [] (reconcile_source_build api ns clock app)
     (\<lambda>r l. pass_log_ok app ns (clock 0) l
        \<and> (\<forall>b. r = Inr (BuildSucceeded b) \<longrightarrow> cb_phase b = BSucceeded)
        \<and> (r = Inr NoBuild \<longrightarrow> idle app (clock 0)))"
proof -
  have d: "derive_new_build_status app (clock 0) = Inr (Some b) \<Longrightarrow> cb_phase b = BPending" for b
    by (simp add: derive_new_build_spec)
  show ?thesis
    unfolding reconcile_source_build_def Let_def missing_job_failure_def accept_new_build_def
      clear_build_annotations_def patch_project_def patch_build_status_def patch_status_def get_job_def
      create_job_def
    by (intro op_rules track_job_rule)
      (auto simp: pass_log_ok_def accepted_def trackedD d intro!: idleI split: option.splits if_splits)
qed

lemma before_append:
  "before P Q (l @ m) \<longleftrightarrow> before P Q l \<and> (list_ex (\<lambda>(c, ok). P c \<and> ok) l \<or> before P Q m)"
  by (induction l) auto

lemma before_none: "list_all (\<lambda>(c, ok). \<not> Q c) l \<Longrightarrow> before P Q l"
  by (induction l) auto

lemma source_build_gate_log:
  "op_holds [] (source_build_gate api ns pns clock app)
     (\<lambda>r l. before is_rollout (reports_phase BSucceeded) l \<and> (r = Inr Proceed \<longrightarrow> idle app (clock 0)))"
proof -
  have n: "before is_rollout (reports_phase BSucceeded) l \<and> list_all (\<lambda>(c, ok). \<not> reports_phase BSucceeded c) l"
    if "pass_log_ok app ns (clock 0) l" for l
    using that by (auto simp: pass_log_ok_def list_all_iff intro!: before_none)
  show ?thesis
    unfolding source_build_gate_def
  proof (rule op_holds_bind [OF reconcile_source_build_log], goal_cases)
    case (1 e l)
    then show ?case using n by simp
  next
    case (2 d l)
    then have l: "before is_rollout (reports_phase BSucceeded) l" "\<And>b. d = BuildSucceeded b \<Longrightarrow> cb_phase b = BSucceeded"
      "d = NoBuild \<Longrightarrow> idle app (clock 0)" using n by auto
    show ?case
    proof (cases d)
      case d: (BuildSucceeded b)
      with l(2) have b: "cb_phase b = BSucceeded" by simp
      show ?thesis
      proof (cases "cb_target b")
        case Production
        with d have g: "gate_action d = UpdateProductionImage b" by simp
        show ?thesis
          unfolding g source_build_gate_action.case mark_build_succeeded_def patch_project_def
            patch_build_status_def patch_status_def
          by (intro op_rules) (auto simp: before_append l(1) b)
      next
        case Preview
        with d have g: "gate_action d = UpdatePreview b" by simp
        show ?thesis
          unfolding g source_build_gate_action.case mark_build_succeeded_def patch_project_def
            patch_build_status_def patch_status_def reconcile_preview_from_build_def Let_def
          by (intro op_rules) (auto simp: before_append l(1) b)
      qed
    qed (use l in \<open>auto intro!: op_rules\<close>)
  qed
qed

section \<open>Conditions\<close>

interpretation bt: condition_table upsert_condition
proof -
  have "upsert_condition c cs = upsert_project_condition c cs" for c cs by (induction cs) auto
  then have "upsert_condition = upsert_project_condition" by blast
  then show "condition_table upsert_condition" using pt.condition_table_axioms by simp
qed

lemma preserve_type [simp]:
  "pc_type (preserve_transition_time_for_unchanged_status app c) = pc_type c"
  "pc_status (preserve_transition_time_for_unchanged_status app c) = pc_status c"
  by (auto simp: preserve_transition_time_for_unchanged_status_def split: option.splits)

lemma find_type_status:
  assumes "distinct (map pc_type cs)"
  shows "find (\<lambda>e. pc_type e = t \<and> pc_status e = s) cs
    = (case find_condition t cs of None \<Rightarrow> None | Some e \<Rightarrow> if pc_status e = s then Some e else None)"
  using assms
proof (induction cs)
  case (Cons c cs)
  show ?case
  proof (cases "pc_type c = t")
    case True
    with Cons.prems have "\<forall>e \<in> set cs. pc_type e \<noteq> t" by (auto simp: image_iff)
    then have "find (\<lambda>e. pc_type e = t \<and> pc_status e = s) cs = None" by (simp add: find_None_all)
    with True show ?thesis by simp
  next
    case False
    with Cons show ?thesis by simp
  qed
qed simp

lemma preserve_time:
  assumes "distinct (map pc_type (app_conditions app))" and "pc_last_transition_time c = Some now"
  shows "pc_last_transition_time (preserve_transition_time_for_unchanged_status app c)
    = transition_time app (pc_type c) (pc_status c) now"
  using assms find_type_status [OF assms(1), of "pc_type c" "pc_status c"]
  by (auto simp: preserve_transition_time_for_unchanged_status_def transition_time_def split: option.splits)

lemma pc_type_companion: "companion_build_condition app now c = Some d \<Longrightarrow> pc_type d \<noteq> pc_type c"
  by (auto simp: companion_build_condition_def Let_def source_build_condition_def split: if_splits)

lemma find_patched:
  "find_condition t (patched_conditions app now c)
     = (case companion_build_condition app now c of
          Some d \<Rightarrow> if t = pc_type d then Some (preserve_transition_time_for_unchanged_status app d)
                    else if t = pc_type c then Some (preserve_transition_time_for_unchanged_status app c)
                    else find_condition t (app_conditions app)
        | None \<Rightarrow> if t = pc_type c then Some (preserve_transition_time_for_unchanged_status app c)
                  else find_condition t (app_conditions app))"
  by (auto simp: patched_conditions_def Let_def bt.find_upsert split: option.splits)

lemma patched_distinct:
  "distinct (map pc_type (app_conditions app)) \<Longrightarrow> distinct (map pc_type (patched_conditions app now c))"
  by (auto simp: patched_conditions_def Let_def bt.distinct_upsert split: option.splits)

lemma app_conditions_build_patch:
  "merge_patch_store store \<Longrightarrow>
     app_conditions (write_status store (build_status_patch app now b c) cur) = patched_conditions app now c"
  by (simp add: app_conditions_write merge_patch_store_def merge_status_def build_status_patch_def)

definition condition_is :: "project \<Rightarrow> condition_type \<Rightarrow> condition_status \<Rightarrow> bool" where
  "condition_is app t s \<longleftrightarrow> (\<exists>c. find_condition t (app_conditions app) = Some c \<and> pc_status c = s)"

definition build_condition_kind :: "project_condition \<Rightarrow> bool" where
  "build_condition_kind c \<longleftrightarrow>
     (pc_type c = Progressing \<and> pc_status c = CondTrue)
     \<or> (pc_type c = Progressing \<and> pc_status c = CondFalse \<and> pc_reason c = ''BuildSucceeded'')
     \<or> (pc_type c = Degraded \<and> pc_status c = CondTrue)"

lemma has_condition_status_distinct:
  assumes "distinct (map pc_type (app_conditions app))"
  shows "has_condition_status app t s \<longleftrightarrow> condition_is app t s"
proof -
  have "has_condition_status app t s \<longleftrightarrow> find (\<lambda>e. pc_type e = t \<and> pc_status e = s) (app_conditions app) \<noteq> None"
    by (auto simp: has_condition_status_def list_ex_iff find_None_iff)
  then show ?thesis
    by (auto simp: find_type_status [OF assms] condition_is_def split: option.splits if_splits)
qed

section \<open>Every writer of the status\<close>

text \<open>
  \<open>written store vs\<close>: \<open>vs\<close> are successive versions of a project's status, newest first; a writer
  computes its patch from any earlier version it has read, and the API merges it into the newest.
\<close>

inductive written :: "status_store \<Rightarrow> project list \<Rightarrow> bool" for store where
  created: "distinct (map pc_type (app_conditions app)) \<Longrightarrow> written store [app]"
| rollout: "written store vs \<Longrightarrow> app \<in> set vs \<Longrightarrow>
    written store (persist_status store (build_project_status app now ready n m (child_conditions app now kids)) (hd vs) # vs)"
| build: "written store vs \<Longrightarrow> app \<in> set vs \<Longrightarrow> written store (write_status store (build_status_patch app now b c) (hd vs) # vs)"
| preview_deleted: "written store vs \<Longrightarrow> app \<in> set vs \<Longrightarrow>
    clear_preview_build_status_patch app now now' pr pn = Some p \<Longrightarrow> written store (write_status store p (hd vs) # vs)"
| degraded: "written store vs \<Longrightarrow> app \<in> set vs \<Longrightarrow>
    written store (write_status store (build_degraded_status_patch app now reason msg) (hd vs) # vs)"
| previews: "written store vs \<Longrightarrow> written store (write_status store (build_preview_status_patch ps) (hd vs) # vs)"

inductive_cases written_Nil [elim!]: "written store []"

lemma written_distinct:
  assumes "merge_patch_store store" and "written store vs"
  shows "\<forall>v \<in> set vs. distinct (map pc_type (app_conditions v))"
  using assms(2)
proof induction
  case (rollout vs app now ready n m kids)
  have "app_conditions (persist_status store (build_project_status app now ready n m (child_conditions app now kids)) v)
      = observed_conditions app now ready m kids" for v
    using assms(1) observed_not_Nil [of app now ready m kids]
    by (simp add: persist_status_def app_conditions_write merge_patch_store_def merge_status_def
        serialize_status_def unless_empty_def build_project_status_conditions)
  with rollout show ?case by (simp add: observed_distinct)
next
  case (build vs app now b c)
  then show ?case by (simp add: app_conditions_build_patch [OF assms(1)] patched_distinct)
next
  case (preview_deleted vs app now now' pr pn p)
  from preview_deleted(3) obtain c d where "sp_conditions p = Value (upsert_condition c (upsert_condition d (app_conditions app)))"
    by (auto simp: clear_preview_build_status_patch_def Let_def split: option.splits)
  then have "app_conditions (write_status store p v) = upsert_condition c (upsert_condition d (app_conditions app))" for v
    using assms(1) by (simp add: app_conditions_write merge_patch_store_def merge_status_def)
  with preview_deleted show ?case by (simp add: bt.distinct_upsert)
next
  case (degraded vs app now reason msg)
  then show ?case
    using assms(1) by (simp add: app_conditions_write merge_patch_store_def merge_status_def build_degraded_status_patch_def)
next
  case (previews vs ps)
  have "app_conditions (write_status store (build_preview_status_patch ps) v) = app_conditions v" for v
    using assms(1) by (simp add: app_conditions_write merge_patch_store_def merge_status_def
        build_preview_status_patch_def empty_patch_def app_conditions_current [symmetric])
  moreover have "hd vs \<in> set vs" using previews(1) by (cases vs) auto
  ultimately show ?case using previews by simp
qed simp

section \<open>Properties\<close>

text \<open>
  Every version of a project's status has at most one condition of each type, whichever of
  the operator's writers produced it and however old the version was from which a writer computed
  its patch.
\<close>
theorem stored_conditions_distinct:
  assumes "merge_patch_store store" and "written store vs" and "v \<in> set vs"
  shows "distinct (map pc_type (app_conditions v))"
  using written_distinct [OF assms(1,2)] assms(3) by blast

theorem stored_conditions_distinct_witness:
  "distinct (map pc_type (app_conditions
     (write_status merge_status (build_degraded_status_patch sample_project ''t1'' ''InvalidTenant'' ''x'') sample_project)))"
proof (rule stored_conditions_distinct [of merge_status])
  have "app_conditions sample_project = []" by (simp add: sample_project_def app_conditions_def)
  then have "written merge_status [sample_project]" by (intro written.created) simp
  then show "written merge_status [write_status merge_status
      (build_degraded_status_patch sample_project ''t1'' ''InvalidTenant'' ''x'') (hd [sample_project]), sample_project]"
    by (rule written.degraded) simp
qed (simp_all add: merge_patch_store_def)

text \<open>
  A build's status patch is stored as it is meant: its condition has the new status, keeps the
  time of the stored one exactly when the status is unchanged, and the project is never both
  progressing and degraded because of a build.
\<close>
theorem build_patch_conditions:
  assumes "merge_patch_store store" and "distinct (map pc_type (app_conditions app))"
    and "build_condition_kind c" and "pc_last_transition_time c = Some now"
    and "a = write_status store (build_status_patch app now b c) app"
  shows "(\<exists>d. find_condition (pc_type c) (app_conditions a) = Some d \<and> pc_status d = pc_status c
        \<and> pc_last_transition_time d = transition_time app (pc_type c) (pc_status c) now)
    \<and> \<not> (condition_is a Progressing CondTrue \<and> condition_is a Degraded CondTrue)"
proof -
  have a: "app_conditions a = patched_conditions app now c"
    unfolding assms(5) by (rule app_conditions_build_patch [OF assms(1)])
  have "find_condition (pc_type c) (app_conditions a) = Some (preserve_transition_time_for_unchanged_status app c)"
    unfolding a find_patched by (auto split: option.splits dest: pc_type_companion)
  moreover have "\<not> (condition_is a Progressing CondTrue \<and> condition_is a Degraded CondTrue)"
    using assms(3) has_condition_status_distinct [OF assms(2), of Degraded CondTrue]
    by (auto simp: condition_is_def a find_patched companion_build_condition_def Let_def build_condition_kind_def
        source_build_condition_def)
  ultimately show ?thesis using preserve_time [OF assms(2,4)] by auto
qed

definition sample_build :: crd_build_status where
  "sample_build =
     \<lparr>cb_phase = BPending, cb_target = Preview, cb_trigger = ''abcdef12'', cb_job_name = ''shop-build-pr-7-abcdef12'',
      cb_image = ''ghcr.io/org/app:pr-7-abcdef12'', cb_image_tag = ''pr-7-abcdef12'',
      cb_preview_name = Some ''shop-pr-7'', cb_pr_number = Some ''7'', cb_branch = Some ''feature/login'',
      cb_reason = None, cb_message = None, cb_started_at = None, cb_last_transition_time = None\<rparr>"

theorem build_patch_conditions_witness:
  "\<not> (condition_is (write_status merge_status (build_status_patch sample_project ''t1'' sample_build
        (source_build_condition Progressing CondTrue ''BuildPending'' ''x'' None ''t1'')) sample_project) Progressing CondTrue
    \<and> condition_is (write_status merge_status (build_status_patch sample_project ''t1'' sample_build
        (source_build_condition Progressing CondTrue ''BuildPending'' ''x'' None ''t1'')) sample_project) Degraded CondTrue)"
  by (rule build_patch_conditions [THEN conjunct2, OF _ _ _ _ refl])
    (simp_all add: merge_patch_store_def sample_project_def app_conditions_def build_condition_kind_def
      source_build_condition_def)

text \<open>
  A preview request that is ignored: its annotations are removed first, and the pass neither creates a job
  nor records a build for it.
\<close>

definition follows_up :: "kube_call \<Rightarrow> bool" where
  "follows_up c \<longleftrightarrow> tracked c \<or> (\<exists>n m. c = GetJob n m)"

lemma track_job_only_tracks: "op_only follows_up (track_job api ns clock app b j)"
proof (cases "classify_job_state j")
  case JobRunning
  then show ?thesis
    unfolding track_job_def build_decision_from_job_state_def Let_def patch_build_status_def patch_status_def
    by simp (intro only_rules; simp add: follows_up_def tracked_patch)
next
  case JobSucceeded
  then show ?thesis
    unfolding track_job_def build_decision_from_job_state_def Let_def patch_build_status_def patch_status_def
    by simp (intro only_rules; simp)
next
  case (JobFailed r m)
  then show ?thesis
    unfolding track_job_def build_decision_from_job_state_def Let_def patch_build_status_def patch_status_def
    by simp (intro only_rules; simp add: follows_up_def tracked_patch)
qed

lemma ignored_pass_log:
  assumes "ignored_preview_request app" and "reconcile_source_build api ns clock app (w, []) = (r, w', l)"
  shows "\<exists>ok k. l = (PatchProject ns (name_any app) ClearBuildAnnotations, ok) # k \<and> (\<forall>x \<in> set k. follows_up (fst x))"
proof -
  define rest where "rest = (\<lambda>_ :: unit.
     let has_new_build = ((None :: crd_build_status option) \<noteq> None) in
     case blocking_failed_build_status app has_new_build of
       Some failed_build \<Rightarrow> op_return (BuildFailure failed_build)
     | None \<Rightarrow>
        (case (case None of Some b \<Rightarrow> Some b | None \<Rightarrow> active_build_status app) of
           None \<Rightarrow> op_return NoBuild
         | Some build \<Rightarrow>
            op_bind (get_job api ns (cb_job_name build)) (\<lambda>found.
              if found = None \<and> \<not> has_new_build then missing_job_failure api ns clock app build
              else
                op_bind (case found of
                           Some j \<Rightarrow> op_return j
                         | None \<Rightarrow> op_bind (op_lift (build_job_for_status app build)) (create_job api ns))
                  (\<lambda>live_job.
                op_bind (if has_new_build then accept_new_build api ns clock app build else op_return ())
                  (\<lambda>_. track_job api ns clock app build live_job)))))"
  let ?c = "PatchProject ns (name_any app) ClearBuildAnnotations"
  have run: "reconcile_source_build api ns clock app = op_bind (clear_build_annotations api ns app) rest"
    unfolding reconcile_source_build_def rest_def if_P [OF assms(1)] op_simps(6) ..
  have only: "op_only follows_up (rest u)" for u
    unfolding rest_def missing_job_failure_def get_job_def patch_build_status_def patch_status_def Let_def
    by (intro only_rules track_job_only_tracks) (simp_all add: follows_up_def tracked_patch)
  obtain y w1 where y: "k_patch_project api ns (name_any app) ClearBuildAnnotations w = (y, w1)" by (metis surj_pair)
  have "\<exists>x. clear_build_annotations api ns app (w, []) = (x, w1, [(?c, \<not> isl x)])"
    by (cases y) (simp_all add: clear_build_annotations_def patch_project_def op_map_err_def do_request_def y)
  then obtain x where c: "clear_build_annotations api ns app (w, []) = (x, w1, [(?c, \<not> isl x)])" by blast
  show ?thesis
  proof (cases x)
    case (Inl e)
    with assms(2) show ?thesis by (auto simp: run op_bind_def c)
  next
    case (Inr u)
    with assms(2) have "rest u (w1, [(?c, True)]) = (r, w', l)" by (simp add: run op_bind_def c)
    with only [of u] show ?thesis unfolding op_only_def log_of_def by (metis append_Cons append_Nil snd_conv)
  qed
qed

text \<open>
  C13. One pass of the build controller, whatever the API answers: it creates at most one job, only
  for an accepted trigger, with the name the status records, and stores the pending status only
  after that; for a trigger it does not ignore it removes the annotations only after the pending status
  is stored. A trigger of a preview request that is disabled or malformed is ignored: its annotations
  are removed first, no job is created and no pending status is stored for it.
\<close>
theorem build_pass_order:
  assumes "reconcile_source_build api ns clock app (w, []) = (r, w', l)"
  shows "(\<not> ignored_preview_request app \<longrightarrow> before (reports_phase BPending) is_clear l)
    \<and> (\<forall>n j ok. (CreateJob n j, ok) \<in> set l \<longrightarrow> n = ns \<and> before is_create (reports_phase BPending) l
         \<and> (\<exists>b. accepted app (clock 0) b \<and> build_job_for_status app b = Inr j
              \<and> om_name (jb_metadata j) = Some (cb_job_name b)))
    \<and> length (filter (\<lambda>(c, ok). is_create c) l) \<le> 1
    \<and> (ignored_preview_request app \<longrightarrow>
         (\<exists>ok k. l = (PatchProject ns (name_any app) ClearBuildAnnotations, ok) # k
            \<and> (\<forall>(c, ok) \<in> set k. \<not> is_clear c \<and> \<not> is_create c \<and> \<not> reports_phase BPending c)))"
proof -
  from op_holdsD [OF reconcile_source_build_log assms] have l: "pass_log_ok app ns (clock 0) l" by blast
  have "n = ns \<and> before is_create (reports_phase BPending) l
      \<and> (\<exists>b. accepted app (clock 0) b \<and> build_job_for_status app b = Inr j \<and> om_name (jb_metadata j) = Some (cb_job_name b))"
    if j: "(CreateJob n j, ok) \<in> set l" for n j ok
  proof -
    from l have "\<forall>x \<in> set l. (case x of (c, ok) \<Rightarrow> is_create c \<longrightarrow>
        (\<exists>b j. accepted app (clock 0) b \<and> c = CreateJob ns j \<and> build_job_for_status app b = Inr j))"
      by (simp add: pass_log_ok_def list_all_iff)
    from bspec [OF this j] obtain b where b: "accepted app (clock 0) b" "n = ns" "build_job_for_status app b = Inr j"
      by auto
    moreover have "before is_create (reports_phase BPending) l"
      using l j by (force simp: pass_log_ok_def list_ex_iff)
    moreover have "om_name (jb_metadata j) = Some (cb_job_name b)"
      using b build_job_for_status_name derive_new_build_spec by (fastforce simp: accepted_def)
    ultimately show ?thesis by blast
  qed
  moreover have "\<exists>ok k. l = (PatchProject ns (name_any app) ClearBuildAnnotations, ok) # k
      \<and> (\<forall>(c, ok) \<in> set k. \<not> is_clear c \<and> \<not> is_create c \<and> \<not> reports_phase BPending c)" if "ignored_preview_request app"
    using ignored_pass_log [OF that assms] trackedD unfolding follows_up_def by fastforce
  ultimately show ?thesis using l by (simp add: pass_log_ok_def)
qed

definition sample_api :: "'w kube_api" where
  "sample_api =
     \<lparr>k_get_job = \<lambda>_ _ w. (Inr None, w), k_create_job = \<lambda>_ j w. (Inr j, w), k_delete_job = \<lambda>_ _ w. (Inr (), w),
      k_patch_status = \<lambda>_ _ _ w. (Inr (), w), k_patch_project = \<lambda>_ _ _ w. (Inr (), w),
      k_apply_project = \<lambda>_ _ _ w. (Inr (), w), k_list_projects = \<lambda>_ _ w. (Inr [], w),
      k_delete_project = \<lambda>_ _ _ w. (Inr (), w), k_get_namespace = \<lambda>_ w. (Inr None, w),
      k_delete_namespace = \<lambda>_ _ w. (Inr (), w), k_get_meta = \<lambda>_ _ _ w. (Inr None, w),
      k_delete_meta = \<lambda>_ _ _ _ w. (Inr (), w)\<rparr>"

text \<open>
  C6. The gate in front of the workload reports a build as succeeded only after the image of the
  project, or the preview, has been updated, and lets the workload through only when no build is
  wanted, running or failed.
\<close>
theorem gate_updates_before_success:
  assumes "source_build_gate api ns pns clock app (w, []) = (r, w', l)"
  shows "before is_rollout (reports_phase BSucceeded) l
    \<and> (r = Inr Proceed \<longrightarrow> (\<forall>b. \<not> accepted app (clock 0) b)
         \<and> (\<forall>b. app_build app = Some b \<longrightarrow> cb_phase b = BSucceeded))"
  using op_holdsD [OF source_build_gate_log assms] by (simp add: idle_def)

theorem gate_updates_before_success_witness:
  "before is_rollout (reports_phase BSucceeded)
     (log_of (source_build_gate sample_api ''prod'' ''p'' (\<lambda>_. ''t'') sample_project ((), [])))"
proof -
  obtain r w' l where e: "source_build_gate sample_api ''prod'' ''p'' (\<lambda>_. ''t'') sample_project ((), []) = (r, w', l)"
    by (metis prod.exhaust)
  from gate_updates_before_success [OF this] show ?thesis by (simp add: e log_of_def)
qed

text \<open>
  A failed build, also that of a pull request's preview, stops the whole project: until a new
  build is triggered the gate sends no request and the workload is never reconciled, whatever else
  changes in the project's specification.
\<close>
theorem failed_preview_blocks_project:
  assumes "app_build app = Some b" and "cb_phase b = BFailed"
    and "annotation_value app BUILD_TRIGGER_ANNOTATION = None"
  shows "source_build_gate api ns pns clock app (w, l) = (Inr (Stop AwaitChange), (w, l))"
proof -
  have "\<not> ignored_preview_request app" using assms(3) by (simp add: ignored_preview_request_def)
  moreover have "derive_new_build_status app now = Inr None" for now
    using assms(3) by (simp add: derive_new_build_status_def should_build_from_source_def split: option.splits)
  moreover have "blocking_failed_build_status app False = Some b"
    using assms(1,2) by (simp add: blocking_failed_build_status_def filter_option_def)
  ultimately have "reconcile_source_build api ns clock app (w, l) = (Inr (BuildFailure b), (w, l))"
    by (simp add: reconcile_source_build_def Let_def)
  then show ?thesis by (simp add: source_build_gate_def op_bind_def)
qed

definition sample_failed_preview :: project where
  "sample_failed_preview = sample_project\<lparr>pj_status := Some (project_status_default\<lparr>st_build :=
     Some (sample_build\<lparr>cb_phase := BFailed\<rparr>)\<rparr>)\<rparr>"

theorem failed_preview_blocks_project_witness:
  "cb_target sample_build = Preview
   \<and> source_build_gate sample_api ''prod'' ''p'' (\<lambda>_. ''t'') sample_failed_preview ((), []) = (Inr (Stop AwaitChange), ((), []))"
  by (simp add: sample_build_def)
    (rule failed_preview_blocks_project [of _ "sample_build\<lparr>cb_phase := BFailed\<rparr>"],
      simp_all add: sample_failed_preview_def app_build_def annotation_value_def sample_project_def
        object_meta_default_def)

text \<open>
  What the next build does not set stays from the last one: the patch omits an absent branch,
  preview name or number, so the merged build status keeps those of the build before; in
  particular a build accepted without a branch is afterwards carried on with the branch of the
  build before, which the preview's host name is then made from.
\<close>
theorem stored_build_keeps_old_branch:
  assumes "merge_patch_store store" and "app_build app = Some old"
    and "derive_new_build_status app now = Inr (Some b)"
    and "a = write_status store (build_status_patch app now' b c) app"
  shows "active_build_status a = Some (merge_build b old)
    \<and> cb_branch (merge_build b old) = (case cb_branch b of None \<Rightarrow> cb_branch old | Some br \<Rightarrow> Some br)
    \<and> (cb_target b = Production \<longrightarrow>
         cb_pr_number (merge_build b old) = cb_pr_number old \<and> cb_preview_name (merge_build b old) = cb_preview_name old)"
proof -
  have "st_build (current_status app) = Some old" using assms(2) by (simp add: current_build)
  then have "app_build a = Some (merge_build b old)"
    using assms(1) by (simp add: assms(4) app_build_def merge_patch_store_def merge_status_def build_status_patch_def)
  moreover have "cb_phase (merge_build b old) = BPending"
    using derive_new_build_spec [OF assms(3)] by (simp add: merge_build_def)
  moreover have "cb_target b = Production \<Longrightarrow> cb_pr_number b = None \<and> cb_preview_name b = None"
    using assms(3) by (auto simp: derive_new_build_status_def Let_def result_bind_Inr split: option.splits if_splits)
  ultimately show ?thesis
    by (simp add: active_build_status_def filter_option_def merge_build_def or_old_def)
qed

definition sample_trigger :: project where
  "sample_trigger = sample_parent\<lparr>
     pj_metadata := (pj_metadata sample_project)\<lparr>om_annotations := Some [''reinhardt.dev/build-trigger'' \<mapsto> ''12345678'']\<rparr>,
     pj_spec := project_spec_default\<lparr>ps_source := Some (sample_source\<lparr>src_branch := None\<rparr>)\<rparr>,
     pj_status := Some (project_status_default\<lparr>st_build := Some (sample_build\<lparr>cb_phase := BSucceeded\<rparr>)\<rparr>)\<rparr>"

lemma sample_trigger_annotations:
  "annotation_value sample_trigger BUILD_TRIGGER_ANNOTATION = Some ''12345678''"
  "annotation_value sample_trigger PREVIEW_ACTION_ANNOTATION = None"
  "annotation_value sample_trigger PR_BRANCH_ANNOTATION = None"
  by (simp_all add: annotation_value_def sample_trigger_def BUILD_TRIGGER_ANNOTATION_def
      PREVIEW_ACTION_ANNOTATION_def PR_BRANCH_ANNOTATION_def)

lemma sample_trigger_derive:
  "\<exists>b. derive_new_build_status sample_trigger now = Inr (Some b) \<and> cb_branch b = None \<and> cb_target b = Production"
  unfolding derive_new_build_status_def disabled_preview_build_requested_def malformed_preview_build_requested_def
    preview_pr_number_def preview_action_pr_number_def preview_build_action_def sample_trigger_annotations
  by (simp add: sample_trigger_def should_build_from_source_def filter_option_def built_image_reference_def
      sample_source_def Let_def)

text \<open>A pass over a project with a trigger: the job, the pending status, the trigger, in this order.\<close>

theorem build_pass_order_witness:
  "\<exists>l j. log_of (reconcile_source_build sample_api ''prod'' (\<lambda>_. ''t'') sample_trigger ((), [])) = l
     \<and> (CreateJob ''prod'' j, True) \<in> set l \<and> om_name (jb_metadata j) \<noteq> None
     \<and> before is_create (reports_phase BPending) l \<and> before (reports_phase BPending) is_clear l"
proof -
  obtain b where b: "derive_new_build_status sample_trigger ''t'' = Inr (Some b)" "cb_target b = Production"
    using sample_trigger_derive by blast
  have n: "name_any sample_trigger = ''shop''" "app_namespace sample_trigger = Some ''prod''"
    "ps_source (pj_spec sample_trigger) = Some (sample_source\<lparr>src_branch := None\<rparr>)"
    "ps_image_pull_secrets (pj_spec sample_trigger) = None"
    by (simp_all add: sample_trigger_def sample_parent_def sample_project_def name_any_def app_namespace_def
        project_spec_default_def object_meta_default_def)
  have o: "\<exists>r. owner_reference_of sample_trigger = Inr r"
    by (simp add: sample_trigger_def sample_parent_def sample_project_def owner_reference_of_def object_meta_default_def)
  then obtain j where j: "build_job_for_status sample_trigger b = Inr j"
    by (auto simp: build_job_for_status_def build_kaniko_job_def build_kaniko_job_for_branch_def n b(2) sample_source_def
        require_namespace_def built_image_reference_def validated_image_pull_secrets_def)
  have i: "\<not> ignored_preview_request sample_trigger"
    by (simp add: ignored_preview_request_def disabled_preview_build_requested_def malformed_preview_build_requested_def
        preview_action_pr_number_def preview_build_action_def sample_trigger_annotations filter_option_def)
  obtain r w' l where run: "reconcile_source_build sample_api ''prod'' (\<lambda>_. ''t'') sample_trigger ((), []) = (r, w', l)"
    by (metis prod.exhaust)
  have f: "blocking_failed_build_status sample_trigger True = None" by (simp add: blocking_failed_build_status_def)
  have idle: "classify_job_state j = JobRunning"
    using j by (auto simp: build_job_for_status_def build_kaniko_job_def build_kaniko_job_for_branch_def b(2) result_bind_Inr
        classify_job_state_def split: option.splits)
  have "(CreateJob ''prod'' j, True) \<in> set (log_of (reconcile_source_build sample_api ''prod'' (\<lambda>_. ''t'') sample_trigger ((), [])))"
    by (simp add: reconcile_source_build_def i b(1) f get_job_def create_job_def j accept_new_build_def
        clear_build_annotations_def patch_project_def patch_build_status_def patch_status_def track_job_def
        build_decision_from_job_state_def idle sample_api_def op_bind_def op_map_err_def do_request_def Let_def log_of_def)
  then have "(CreateJob ''prod'' j, True) \<in> set l" by (simp add: run log_of_def)
  with build_pass_order [OF run] i have "before is_create (reports_phase BPending) l" "om_name (jb_metadata j) \<noteq> None"
    "before (reports_phase BPending) is_clear l" by blast+
  with \<open>(CreateJob ''prod'' j, True) \<in> set l\<close> show ?thesis
    by (intro exI [of _ l] exI [of _ j]) (simp add: run log_of_def)
qed

theorem stored_build_keeps_old_branch_witness:
  "\<exists>b. derive_new_build_status sample_trigger ''t'' = Inr (Some b) \<and> cb_branch b = None
     \<and> map_option cb_branch (active_build_status (write_status merge_status
          (build_status_patch sample_trigger ''t'' b (source_build_condition Progressing CondTrue [] [] None ''t'')) sample_trigger))
       = Some (Some ''feature/login'')"
proof -
  obtain b where b: "derive_new_build_status sample_trigger ''t'' = Inr (Some b)" "cb_branch b = None"
    using sample_trigger_derive by blast
  have "app_build sample_trigger = Some (sample_build\<lparr>cb_phase := BSucceeded\<rparr>)"
    by (simp add: sample_trigger_def app_build_def)
  from stored_build_keeps_old_branch [OF _ this b(1) refl, of merge_status] b
  show ?thesis by (simp add: merge_patch_store_def sample_build_def)
qed

definition job_pod :: "job \<Rightarrow> pod_spec option" where
  "job_pod j = Option.bind (jb_spec j) (\<lambda>s. pt_spec (jsp_template s))"

definition job_secrets :: "job \<Rightarrow> string set" where
  "job_secrets j = (case job_pod j of None \<Rightarrow> {} | Some p \<Rightarrow> pod_secrets p)"

definition job_pull_secrets :: "job \<Rightarrow> string list option" where
  "job_pull_secrets j = Option.bind (job_pod j) pod_image_pull_secrets"

definition job_args :: "job \<Rightarrow> string set" where
  "job_args j = (case job_pod j of None \<Rightarrow> {}
     | Some p \<Rightarrow> \<Union> ((\<lambda>c. set (unwrap_or [] (ct_args c))) ` set (pod_containers p)))"

text \<open>
  C26. A build job runs the repository's code, and the only secret it can read is the project's own:
  every secret its containers and volumes name is \<open><project>-git-credentials\<close>, the image-pull
  secrets are the validated ones, and it pushes to the image the build status records.
\<close>
theorem build_job_secrets_confined:
  assumes "build_job_for_status app b = Inr j"
  shows "job_secrets j \<subseteq> {name_any app @ ''-git-credentials''}
    \<and> validated_image_pull_secrets app = Inr (job_pull_secrets j)
    \<and> (derive_new_build_status app now = Inr (Some b) \<longrightarrow> ''--destination='' @ cb_image b \<in> job_args j)"
proof -
  obtain br where br: "build_kaniko_job_for_branch app (cb_image_tag b) br = Inr j"
    using assms by (auto simp: build_job_for_status_def build_kaniko_job_def split: build_target_kind.splits)
  obtain src d where s: "ps_source (pj_spec app) = Some src" "built_image_reference app (cb_image_tag b) = Inr d"
    "\<forall>cs. src_credentials_secret src = Some cs \<longrightarrow> cs = name_any app @ ''-git-credentials''"
    using br by (auto simp: build_kaniko_job_for_branch_def result_bind_Inr validate_credentials_secret_name_def
        expected_credentials_secret_name_def split: option.splits if_splits)
  have p: "\<exists>p pull c. job_pod j = Some p \<and> pod_containers p = [c] \<and> pod_init_containers p = None
     \<and> pod_image_pull_secrets p = pull \<and> validated_image_pull_secrets app = Inr pull
     \<and> ct_args c = Some (kaniko_args app src d br) \<and> ct_env_from c = None
     \<and> ct_env c = map_option credentials_env (src_credentials_secret src)
     \<and> pod_volumes p = map_option (\<lambda>s. [registry_auth_volume s]) (src_credentials_secret src)"
    using br s(1,2) by (auto simp: build_kaniko_job_for_branch_def result_bind_Inr job_pod_def pod_spec_default_def container_default_def)
  then obtain p c where p: "job_pod j = Some p" "pod_containers p = [c]" "pod_init_containers p = None"
     "validated_image_pull_secrets app = Inr (pod_image_pull_secrets p)"
     "ct_args c = Some (kaniko_args app src d br)" "ct_env_from c = None"
     "ct_env c = map_option credentials_env (src_credentials_secret src)"
     "pod_volumes p = map_option (\<lambda>s. [registry_auth_volume s]) (src_credentials_secret src)" by blast
  have "job_secrets j \<subseteq> {name_any app @ ''-git-credentials''}"
    using s(3) by (cases "src_credentials_secret src")
      (auto simp: job_secrets_def pod_secrets_def container_secrets_def p credentials_env_def registry_auth_volume_def)
  moreover have "''--destination='' @ d \<in> job_args j"
    by (simp add: job_args_def p(1,2,5) kaniko_args_def Let_def)
  ultimately show ?thesis
    using p(4) s(2) derive_new_build_spec [of app now b] by (auto simp: job_pull_secrets_def p(1))
qed

definition sample_owned_build :: project where
  "sample_owned_build = sample_parent\<lparr>pj_spec := project_spec_default\<lparr>ps_source :=
     Some (sample_source\<lparr>src_credentials_secret := Some ''shop-git-credentials''\<rparr>)\<rparr>\<rparr>"

theorem build_job_secrets_confined_witness:
  "\<exists>j. build_job_for_status sample_owned_build (sample_build\<lparr>cb_target := Production\<rparr>) = Inr j
     \<and> job_secrets j \<subseteq> {''shop-git-credentials''}"
proof -
  have n: "name_any sample_owned_build = ''shop''" "app_namespace sample_owned_build = Some ''prod''"
    "ps_source (pj_spec sample_owned_build) = Some (sample_source\<lparr>src_credentials_secret := Some ''shop-git-credentials''\<rparr>)"
    "ps_image_pull_secrets (pj_spec sample_owned_build) = None"
    by (simp_all add: sample_owned_build_def sample_parent_def sample_project_def name_any_def app_namespace_def
        project_spec_default_def)
  have o: "\<exists>r. owner_reference_of sample_owned_build = Inr r"
    by (simp add: sample_owned_build_def sample_parent_def sample_project_def owner_reference_of_def)
  then obtain j where j: "build_job_for_status sample_owned_build (sample_build\<lparr>cb_target := Production\<rparr>) = Inr j"
    by (auto simp: build_job_for_status_def build_kaniko_job_def build_kaniko_job_for_branch_def n
        require_namespace_def built_image_reference_def validate_credentials_secret_name_def
        expected_credentials_secret_name_def validated_image_pull_secrets_def)
  from build_job_secrets_confined [OF j] show ?thesis by (auto simp: j n)
qed

end
