(* ===== verification/SourceBuildRun.thy ===== *)
theory SourceBuildRun
  imports SourceBuildProps
begin

text \<open>
  A triggered production build run to its end. The API server is any state with a view of the
  project and of the jobs of its namespace in which each request succeeds and does what it says
  (\<open>kube_behaves\<close>); between passes only the job's status changes.
\<close>

definition BUILD_ANNOTATIONS :: "string set" where
  "BUILD_ANNOTATIONS = {BUILD_TRIGGER_ANNOTATION, PREVIEW_ACTION_ANNOTATION, PR_NUMBER_ANNOTATION, PR_BRANCH_ANNOTATION}"

fun apply_project_patch :: "project_patch \<Rightarrow> project \<Rightarrow> project" where
  "apply_project_patch ClearBuildAnnotations app =
     app\<lparr>pj_metadata := (pj_metadata app)\<lparr>om_annotations :=
       map_option (\<lambda>m k. if k \<in> BUILD_ANNOTATIONS then None else m k) (om_annotations (pj_metadata app))\<rparr>\<rparr>"
| "apply_project_patch (SetImage img) app = app\<lparr>pj_spec := (pj_spec app)\<lparr>ps_image := img\<rparr>\<rparr>"

definition kube_behaves ::
  "'w kube_api \<Rightarrow> status_store \<Rightarrow> string \<Rightarrow> string \<Rightarrow> ('w \<Rightarrow> project) \<Rightarrow> ('w \<Rightarrow> string \<Rightarrow> job option) \<Rightarrow> bool" where
  "kube_behaves api store ns name proj jobs \<longleftrightarrow> (\<forall>w.
     (\<forall>n. k_get_job api ns n w = (Inr (jobs w n), w))
     \<and> (\<forall>j n. om_name (jb_metadata j) = Some n \<longrightarrow>
          (\<exists>w'. k_create_job api ns j w = (Inr j, w') \<and> proj w' = proj w \<and> jobs w' = (jobs w)(n \<mapsto> j)))
     \<and> (\<forall>p. \<exists>w'. k_patch_status api ns name p w = (Inr (), w') \<and> proj w' = write_status store p (proj w) \<and> jobs w' = jobs w)
     \<and> (\<forall>p. \<exists>w'. k_patch_project api ns name p w = (Inr (), w') \<and> proj w' = apply_project_patch p (proj w) \<and> jobs w' = jobs w))"

section \<open>Single requests\<close>

lemma run_get_job:
  "kube_behaves api store ns name proj jobs \<Longrightarrow> \<exists>l'. get_job api ns n (w, l) = (Inr (jobs w n), (w, l'))"
  by (auto simp: kube_behaves_def get_job_def op_map_err_def do_request_def split: prod.splits)

lemma run_create_job:
  assumes "kube_behaves api store ns name proj jobs" and "om_name (jb_metadata j) = Some n"
  shows "\<exists>w' l'. create_job api ns j (w, l) = (Inr j, (w', l')) \<and> proj w' = proj w \<and> jobs w' = (jobs w)(n \<mapsto> j)"
proof -
  from assms obtain w' where "k_create_job api ns j w = (Inr j, w')" "proj w' = proj w" "jobs w' = (jobs w)(n \<mapsto> j)"
    unfolding kube_behaves_def by blast
  then show ?thesis by (simp add: create_job_def op_map_err_def do_request_def)
qed

lemma run_patch_status:
  assumes "kube_behaves api store ns name proj jobs"
  shows "\<exists>w' l'. patch_status api ns name p (w, l) = (Inr (), (w', l')) \<and> proj w' = write_status store p (proj w) \<and> jobs w' = jobs w"
proof -
  from assms obtain w' where "k_patch_status api ns name p w = (Inr (), w')" "proj w' = write_status store p (proj w)" "jobs w' = jobs w"
    unfolding kube_behaves_def by blast
  then show ?thesis by (simp add: patch_status_def op_map_err_def do_request_def)
qed

lemma run_patch_project:
  assumes "kube_behaves api store ns name proj jobs"
  shows "\<exists>w' l'. patch_project api ns name p (w, l) = (Inr (), (w', l')) \<and> proj w' = apply_project_patch p (proj w) \<and> jobs w' = jobs w"
proof -
  from assms obtain w' where "k_patch_project api ns name p w = (Inr (), w')" "proj w' = apply_project_patch p (proj w)" "jobs w' = jobs w"
    unfolding kube_behaves_def by blast
  then show ?thesis by (simp add: patch_project_def op_map_err_def do_request_def)
qed

section \<open>The three passes\<close>

text \<open>What the passes carry from one to the next about the build in progress.\<close>

definition carries :: "project \<Rightarrow> crd_build_phase \<Rightarrow> crd_build_status \<Rightarrow> bool" where
  "carries app ph b \<longleftrightarrow> (\<exists>b'. app_build app = Some b' \<and> cb_phase b' = ph \<and> cb_target b' = cb_target b
     \<and> cb_job_name b' = cb_job_name b \<and> cb_image b' = cb_image b)"

lemma carries_write:
  assumes "merge_patch_store store" and "cb_phase b' = ph" and "cb_target b' = cb_target b"
    and "cb_job_name b' = cb_job_name b" and "cb_image b' = cb_image b"
  shows "carries (write_status store (build_status_patch app now b' c) cur) ph b"
  using assms
  by (cases "st_build (current_status cur)")
    (auto simp: carries_def app_build_def merge_patch_store_def merge_status_def build_status_patch_def merge_build_def)

lemma cleared_trigger: "annotation_value (apply_project_patch ClearBuildAnnotations app) BUILD_TRIGGER_ANNOTATION = None"
  by (cases "om_annotations (pj_metadata app)") (simp_all add: annotation_value_def BUILD_ANNOTATIONS_def)

lemma annotation_value_write [simp]: "annotation_value (write_status store p app) k = annotation_value app k"
  by (simp add: annotation_value_def)

lemma untriggered:
  assumes "annotation_value app BUILD_TRIGGER_ANNOTATION = None"
  shows "\<not> ignored_preview_request app" "derive_new_build_status app now = Inr None"
  using assms
  by (auto simp: ignored_preview_request_def derive_new_build_status_def should_build_from_source_def
      split: option.splits)

lemma transition_simps [simp]:
  "cb_target (transition_build_status app now b ph r m) = cb_target b"
  "cb_job_name (transition_build_status app now b ph r m) = cb_job_name b"
  "cb_image (transition_build_status app now b ph r m) = cb_image b"
  by (simp_all add: transition_build_status_def Let_def)

lemma pass_accepts:
  assumes k: "kube_behaves api store ns (name_any (proj w)) proj jobs" and s: "merge_patch_store store"
    and a: "accepted (proj w) (clock 0) b" and none: "jobs w (cb_job_name b) = None"
    and j: "build_job_for_status (proj w) b = Inr j"
  shows "\<exists>w1 l1. source_build_gate api ns pns clock (proj w) (w, l) = (Inr (Stop (Requeue 10)), (w1, l1))
    \<and> jobs w1 (cb_job_name b) = Some j \<and> carries (proj w1) BRunning b
    \<and> annotation_value (proj w1) BUILD_TRIGGER_ANNOTATION = None \<and> name_any (proj w1) = name_any (proj w)"
proof -
  let ?app = "proj w"
  have d: "\<not> ignored_preview_request ?app" "derive_new_build_status ?app (clock 0) = Inr (Some b)"
    using a by (simp_all add: accepted_def)
  note ds = derive_new_build_spec [OF d(2)]
  have jn: "om_name (jb_metadata j) = Some (cb_job_name b)" "jb_status j = None"
    using build_job_for_status_name [OF j] ds by simp_all
  obtain l1 where g: "get_job api ns (cb_job_name b) (w, l) = (Inr None, (w, l1))"
    using run_get_job [OF k, of "cb_job_name b" w l] none by auto
  obtain w2 l2 where c: "create_job api ns j (w, l1) = (Inr j, (w2, l2))" "proj w2 = ?app" "jobs w2 = (jobs w)(cb_job_name b \<mapsto> j)"
    using run_create_job [OF k jn(1), of w l1] by blast
  let ?p1 = "build_status_patch ?app (clock 2) b (source_build_condition Progressing CondTrue ''BuildPending''
      ''Kaniko build Job has been accepted'' (om_generation (pj_metadata ?app)) (clock 1))"
  obtain w3 l3 where p1: "patch_status api ns (name_any ?app) ?p1 (w2, l2) = (Inr (), (w3, l3))"
    "proj w3 = write_status store ?p1 ?app" "jobs w3 = jobs w2"
    using run_patch_status [OF k, of ?p1 w2 l2] c(2) by auto
  obtain w4 l4 where cl: "patch_project api ns (name_any ?app) ClearBuildAnnotations (w3, l3) = (Inr (), (w4, l4))"
    "proj w4 = apply_project_patch ClearBuildAnnotations (proj w3)" "jobs w4 = jobs w3"
    using run_patch_project [OF k, of ClearBuildAnnotations w3 l3] by auto
  let ?b2 = "transition_build_status ?app (clock 3) b BRunning ''BuildRunning'' ''Kaniko build Job is still running''"
  let ?p2 = "build_status_patch ?app (clock 5) ?b2 (source_build_condition Progressing CondTrue ''BuildRunning''
      ''Kaniko build Job is still running'' (om_generation (pj_metadata ?app)) (clock 4))"
  obtain w5 l5 where p2: "patch_status api ns (name_any ?app) ?p2 (w4, l4) = (Inr (), (w5, l5))"
    "proj w5 = write_status store ?p2 (proj w4)" "jobs w5 = jobs w4"
    using run_patch_status [OF k, of ?p2 w4 l4] by auto
  have tr: "track_job api ns clock ?app b j (w4, l4) = (Inr (Waiting 10), (w5, l5))"
    using p2(1) by (simp add: track_job_def classify_job_state_def jn(2) build_decision_from_job_state_def Let_def
        patch_build_status_def op_bind_def BUILD_REQUEUE_SECS_def)
  have "reconcile_source_build api ns clock ?app (w, l) = (Inr (Waiting 10), (w5, l5))"
    using g c(1) p1(1) cl(1) tr
    by (simp add: reconcile_source_build_def d j blocking_failed_build_status_def op_bind_def Let_def
        accept_new_build_def patch_build_status_def clear_build_annotations_def)
  then have "source_build_gate api ns pns clock ?app (w, l) = (Inr (Stop (Requeue 10)), (w5, l5))"
    by (simp add: source_build_gate_def op_bind_def)
  moreover have "jobs w5 (cb_job_name b) = Some j" by (simp add: p2(3) cl(3) p1(3) c(3))
  moreover have "carries (proj w5) BRunning b" unfolding p2(2) by (rule carries_write [OF s]) simp_all
  moreover have "annotation_value (proj w5) BUILD_TRIGGER_ANNOTATION = None"
    by (simp only: p2(2) cl(2) annotation_value_write cleared_trigger)
  moreover have "name_any (proj w5) = name_any ?app"
    by (simp add: p2(2) cl(2) p1(2)) (simp add: name_any_def write_status_def cong: option.case_cong)
  ultimately show ?thesis by blast
qed

lemma pass_finishes:
  assumes k: "kube_behaves api store ns (name_any (proj w)) proj jobs" and s: "merge_patch_store store"
    and c: "carries (proj w) BRunning b" and t: "annotation_value (proj w) BUILD_TRIGGER_ANNOTATION = None"
    and p: "cb_target b = Production"
    and j: "jobs w (cb_job_name b) = Some j" and cj: "classify_job_state j = JobSucceeded"
  shows "\<exists>w1 l1. source_build_gate api ns pns clock (proj w) (w, l) = (Inr (Stop AwaitChange), (w1, l1))
    \<and> ps_image (pj_spec (proj w1)) = cb_image b \<and> carries (proj w1) BSucceeded b
    \<and> annotation_value (proj w1) BUILD_TRIGGER_ANNOTATION = None"
proof -
  let ?app = "proj w"
  obtain b1 where b1: "app_build ?app = Some b1" "cb_phase b1 = BRunning" "cb_target b1 = Production"
    "cb_job_name b1 = cb_job_name b" "cb_image b1 = cb_image b"
    using c p by (auto simp: carries_def)
  note u = untriggered [OF t]
  obtain l1 where g: "get_job api ns (cb_job_name b1) (w, l) = (Inr (Some j), (w, l1))"
    using run_get_job [OF k, of "cb_job_name b1" w l] j b1(4) by auto
  let ?b2 = "transition_build_status ?app (clock 3) b1 BSucceeded ''BuildSucceeded'' ''Kaniko build Job succeeded''"
  have "track_job api ns clock ?app b1 j s = (Inr (BuildSucceeded ?b2), s)" for s
    by (simp add: track_job_def cj build_decision_from_job_state_def Let_def)
  then have r: "reconcile_source_build api ns clock ?app (w, l) = (Inr (BuildSucceeded ?b2), (w, l1))"
    using g by (simp add: reconcile_source_build_def u b1 blocking_failed_build_status_def active_build_status_def
        filter_option_def op_bind_def Let_def)
  obtain w2 l2 where im: "patch_project api ns (name_any ?app) (SetImage (cb_image b)) (w, l1) = (Inr (), (w2, l2))"
    "proj w2 = apply_project_patch (SetImage (cb_image b)) ?app"
    using run_patch_project [OF k, of "SetImage (cb_image b)" w l1] by auto
  let ?p = "build_status_patch ?app (clock 7) ?b2 (source_build_condition Progressing CondFalse ''BuildSucceeded''
      ''Kaniko build Job succeeded'' (om_generation (pj_metadata ?app)) (clock 6))"
  obtain w3 l3 where ps: "patch_status api ns (name_any ?app) ?p (w2, l2) = (Inr (), (w3, l3))"
    "proj w3 = write_status store ?p (proj w2)"
    using run_patch_status [OF k, of ?p w2 l2] by auto
  have "source_build_gate api ns pns clock ?app (w, l) = (Inr (Stop AwaitChange), (w3, l3))"
    using im(1) ps(1)
    by (simp add: source_build_gate_def op_bind_def r b1 mark_build_succeeded_def patch_build_status_def)
  moreover have "carries (proj w3) BSucceeded b"
    unfolding ps(2) by (rule carries_write [OF s]) (simp_all add: b1 p)
  moreover have "annotation_value (proj w3) BUILD_TRIGGER_ANNOTATION = None"
    using t by (simp add: ps(2) im(2)) (simp add: annotation_value_def)
  moreover have "ps_image (pj_spec (proj w3)) = cb_image b" by (simp add: ps(2) im(2))
  ultimately show ?thesis by blast
qed

lemma pass_proceeds:
  assumes "carries app BSucceeded b" and "annotation_value app BUILD_TRIGGER_ANNOTATION = None"
  shows "source_build_gate api ns pns clock app (w, l) = (Inr Proceed, (w, l))"
proof -
  obtain b' where b': "app_build app = Some b'" "cb_phase b' = BSucceeded" using assms(1) by (auto simp: carries_def)
  have "reconcile_source_build api ns clock app (w, l) = (Inr NoBuild, (w, l))"
    by (simp add: reconcile_source_build_def untriggered [OF assms(2)] b' blocking_failed_build_status_def
        active_build_status_def filter_option_def Let_def)
  then show ?thesis by (simp add: source_build_gate_def op_bind_def)
qed

section \<open>Properties\<close>

text \<open>
  C12. A triggered production build gets there: when the API does what the requests say, the pass
  that sees the trigger creates the job, records the build and consumes the trigger; the pass that
  sees the job succeeded updates the project's image to the one the build announced and records
  the success; and the pass after that lets the workload through.
\<close>
theorem triggered_build_reaches_image:
  assumes "kube_behaves api store ns (name_any (proj w)) proj jobs" and "merge_patch_store store"
    and "accepted (proj w) (clock 0) b" and "cb_target b = Production" and "jobs w (cb_job_name b) = None"
    and "build_job_for_status (proj w) b = Inr j"
  shows "\<exists>w1 l1. source_build_gate api ns pns clock (proj w) (w, l) = (Inr (Stop (Requeue 10)), (w1, l1))
    \<and> jobs w1 (cb_job_name b) = Some j \<and> annotation_value (proj w1) BUILD_TRIGGER_ANNOTATION = None
    \<and> (\<forall>w2 j' clock2. proj w2 = proj w1 \<longrightarrow> jobs w2 (cb_job_name b) = Some j' \<longrightarrow> classify_job_state j' = JobSucceeded \<longrightarrow>
         (\<exists>w3 l3. source_build_gate api ns pns clock2 (proj w2) (w2, l1) = (Inr (Stop AwaitChange), (w3, l3))
            \<and> ps_image (pj_spec (proj w3)) = cb_image b \<and> carries (proj w3) BSucceeded b
            \<and> (\<forall>clock3. source_build_gate api ns pns clock3 (proj w3) (w3, l3) = (Inr Proceed, (w3, l3)))))"
proof -
  from pass_accepts [where proj = proj and jobs = jobs and w = w and clock = clock and b = b and j = j and pns = pns and l = l, OF assms(1,2,3,5,6)]
  obtain w1 l1 where w1:
    "source_build_gate api ns pns clock (proj w) (w, l) = (Inr (Stop (Requeue 10)), (w1, l1))"
    "jobs w1 (cb_job_name b) = Some j" "carries (proj w1) BRunning b"
    "annotation_value (proj w1) BUILD_TRIGGER_ANNOTATION = None" "name_any (proj w1) = name_any (proj w)" by blast
  have "\<exists>w3 l3. source_build_gate api ns pns clock2 (proj w2) (w2, l1) = (Inr (Stop AwaitChange), (w3, l3))
      \<and> ps_image (pj_spec (proj w3)) = cb_image b \<and> carries (proj w3) BSucceeded b
      \<and> (\<forall>clock3. source_build_gate api ns pns clock3 (proj w3) (w3, l3) = (Inr Proceed, (w3, l3)))"
    if w2: "proj w2 = proj w1" "jobs w2 (cb_job_name b) = Some j'" "classify_job_state j' = JobSucceeded" for w2 j' clock2
  proof -
    have "kube_behaves api store ns (name_any (proj w2)) proj jobs" using assms(1) w1(5) w2(1) by simp
    from pass_finishes [where proj = proj and jobs = jobs and w = w2 and b = b and j = j' and pns = pns and clock = clock2 and l = l1,
        OF this assms(2) _ _ assms(4) w2(2,3)] w1(3,4) w2(1)
    obtain w3 l3 where w3: "source_build_gate api ns pns clock2 (proj w2) (w2, l1) = (Inr (Stop AwaitChange), (w3, l3))"
      "ps_image (pj_spec (proj w3)) = cb_image b" "carries (proj w3) BSucceeded b"
      "annotation_value (proj w3) BUILD_TRIGGER_ANNOTATION = None" by auto
    moreover have "\<forall>clock3. source_build_gate api ns pns clock3 (proj w3) (w3, l3) = (Inr Proceed, (w3, l3))"
      by (intro allI pass_proceeds [OF w3(3,4)])
    ultimately show ?thesis by blast
  qed
  with w1 show ?thesis by blast
qed

text \<open>A world that is the project and the jobs.\<close>

definition run_api :: "(project \<times> (string \<Rightarrow> job option)) kube_api" where
  "run_api = sample_api\<lparr>
     k_get_job := \<lambda>_ n w. (Inr (snd w n), w),
     k_create_job := \<lambda>_ j w. (Inr j, (fst w, (snd w)(unwrap_or [] (om_name (jb_metadata j)) \<mapsto> j))),
     k_patch_status := \<lambda>_ _ p w. (Inr (), (write_status merge_status p (fst w), snd w)),
     k_patch_project := \<lambda>_ _ p w. (Inr (), (apply_project_patch p (fst w), snd w))\<rparr>"

theorem triggered_build_reaches_image_witness:
  "\<exists>w1 l1. source_build_gate run_api ''prod'' ''p'' (\<lambda>_. ''t'') sample_trigger ((sample_trigger, Map.empty), [])
     = (Inr (Stop (Requeue 10)), (w1, l1))"
proof -
  obtain b where b: "derive_new_build_status sample_trigger ''t'' = Inr (Some b)" "cb_target b = Production"
    using sample_trigger_derive by blast
  have k: "kube_behaves run_api merge_status ''prod'' (name_any (fst (sample_trigger, Map.empty))) fst snd"
    by (simp add: kube_behaves_def run_api_def)
  have n: "ps_source (pj_spec sample_trigger) = Some (sample_source\<lparr>src_branch := None\<rparr>)"
    "ps_image_pull_secrets (pj_spec sample_trigger) = None" "app_namespace sample_trigger = Some ''prod''"
    "\<exists>r. owner_reference_of sample_trigger = Inr r"
    by (simp_all add: sample_trigger_def sample_parent_def sample_project_def project_spec_default_def app_namespace_def
        owner_reference_of_def)
  then obtain j where j: "build_job_for_status sample_trigger b = Inr j"
    using b(2) by (auto simp: build_job_for_status_def build_kaniko_job_def build_kaniko_job_for_branch_def
        require_namespace_def built_image_reference_def validated_image_pull_secrets_def sample_source_def)
  have a: "accepted sample_trigger ''t'' b"
    using b(1) by (simp add: accepted_def ignored_preview_request_def disabled_preview_build_requested_def
        malformed_preview_build_requested_def preview_action_pr_number_def preview_build_action_def
        sample_trigger_annotations filter_option_def)
  show ?thesis
    using triggered_build_reaches_image [where proj = fst and jobs = snd and w = "(sample_trigger, Map.empty)"
        and store = merge_status and clock = "\<lambda>_. ''t''" and b = b and j = j and pns = "''p''" and l = "[]", OF k] a b(2) j
    by (simp add: merge_patch_store_def) blast
qed

end
