(* ===== verification/Workload.thy ===== *)
theory Workload
  imports EnvVars ProjectValidation
begin

text \<open>
  The workload objects the operator builds from a project: \<open>inference/platform.rs\<close>,
  \<open>inference/pages.rs\<close> and, under \<open>resources/\<close>, \<open>security/context.rs\<close>, \<open>security/runtime_class.rs\<close>,
  \<open>service_account.rs\<close>, \<open>plugins.rs\<close>, \<open>deployment.rs\<close>, \<open>service.rs\<close>, \<open>grpc.rs\<close>, \<open>worker.rs\<close>,
  \<open>cache.rs\<close>, \<open>mail.rs\<close>, \<open>i18n.rs\<close> and \<open>storage.rs\<close> of \<open>crates/reinhardt-cloud-operator\<close>.
  \<open>toml::to_string\<close> is an argument of the functions that render the plugin document.
\<close>

section \<open>Platforms\<close>

datatype platform = Aws | Gcp | Onpremise

record database_defaults =
  dd_instance_class :: string
  dd_storage_gb :: i32
  dd_region :: string

record resource_defaults =
  rd_cpu_request :: string
  rd_memory_request :: string
  rd_cpu_limit :: string
  rd_memory_limit :: string

record platform_config =
  pc_platform :: platform
  pc_database :: database_defaults
  pc_cache_instance_type :: string
  pc_resources :: resource_defaults

definition aws_defaults :: platform_config where
  "aws_defaults =
     \<lparr>pc_platform = Aws,
      pc_database = \<lparr>dd_instance_class = ''db.t3.micro'', dd_storage_gb = 20, dd_region = ''us-east-1''\<rparr>,
      pc_cache_instance_type = ''cache.t3.micro'',
      pc_resources = \<lparr>rd_cpu_request = ''100m'', rd_memory_request = ''128Mi'', rd_cpu_limit = ''500m'',
        rd_memory_limit = ''512Mi''\<rparr>\<rparr>"

definition gcp_defaults :: platform_config where
  "gcp_defaults =
     \<lparr>pc_platform = Gcp,
      pc_database = \<lparr>dd_instance_class = ''db-f1-micro'', dd_storage_gb = 10, dd_region = ''us-central1''\<rparr>,
      pc_cache_instance_type = ''BASIC'',
      pc_resources = \<lparr>rd_cpu_request = ''100m'', rd_memory_request = ''128Mi'', rd_cpu_limit = ''500m'',
        rd_memory_limit = ''512Mi''\<rparr>\<rparr>"

definition onprem_defaults :: platform_config where
  "onprem_defaults =
     \<lparr>pc_platform = Onpremise,
      pc_database = \<lparr>dd_instance_class = [], dd_storage_gb = 20, dd_region = []\<rparr>,
      pc_cache_instance_type = [],
      pc_resources = \<lparr>rd_cpu_request = ''100m'', rd_memory_request = ''128Mi'', rd_cpu_limit = ''1000m'',
        rd_memory_limit = ''1Gi''\<rparr>\<rparr>"

text \<open>The value of \<open>REINHARDT_CLOUD_PLATFORM\<close>, if it is set.\<close>

definition platform_from_env :: "string option \<Rightarrow> platform_config" where
  "platform_from_env v =
     (let s = unwrap_or ''onpremise'' v in
      if s = ''aws'' then aws_defaults else if s = ''gcp'' then gcp_defaults else onprem_defaults)"

section \<open>Security contexts\<close>

definition build_pod_security_context :: pod_security where
  "build_pod_security_context =
     \<lparr>pse_run_as_non_root = Some True, pse_run_as_user = Some 1000, pse_run_as_group = Some 1000,
      pse_fs_group = Some 1000, pse_seccomp_profile = Some ''RuntimeDefault''\<rparr>"

definition build_container_security_context :: container_security where
  "build_container_security_context =
     \<lparr>cse_allow_privilege_escalation = Some False, cse_read_only_root_filesystem = Some True,
      cse_drop = Some [''ALL'']\<rparr>"

definition resolve_runtime_class_name :: "project \<Rightarrow> platform \<Rightarrow> string option" where
  "resolve_runtime_class_name app platform =
     (case ps_isolation (pj_spec app) of
        None \<Rightarrow> None
      | Some isolation \<Rightarrow>
          (case iso_runtime_class_override isolation of
             Some n \<Rightarrow> Some n
           | None \<Rightarrow>
               (case iso_level isolation of
                  NoIsolation \<Rightarrow> None
                | Sandbox \<Rightarrow> (case platform of Aws \<Rightarrow> Some ''gvisor'' | Gcp \<Rightarrow> Some ''gvisor'' | Onpremise \<Rightarrow> Some ''gvisor'')
                | MicroVM \<Rightarrow> Some ''kata-clh'')))"

section \<open>Metadata\<close>

definition owned_meta :: "string \<Rightarrow> string \<Rightarrow> label_map \<Rightarrow> owner_reference \<Rightarrow> object_meta" where
  "owned_meta n namespace labels owner =
     object_meta_default\<lparr>om_name := Some n, om_namespace := Some namespace, om_labels := Some labels,
       om_owner_references := Some [owner]\<rparr>"

definition selector_labels :: "project \<Rightarrow> component \<Rightarrow> label_map" where
  "selector_labels app c =
     [''app.kubernetes.io/name'' \<mapsto> name_any app, ''app.kubernetes.io/component'' \<mapsto> component_str c]"

section \<open>Service accounts\<close>

definition resolved_sa_name :: "project \<Rightarrow> string option" where
  "resolved_sa_name app =
     (case ps_service_account (pj_spec app) of
        None \<Rightarrow> None
      | Some spec \<Rightarrow>
          if \<not> sa_create spec then None
          else (case sa_name spec of Some n \<Rightarrow> Some n | None \<Rightarrow> Some (name_any app @ ''-app'')))"

text \<open>A service account is its metadata. The \<open>expect\<close> cannot fail (\<open>resolved_sa_name_create\<close> below).\<close>

definition build_service_account :: "project \<Rightarrow> operator_error + object_meta option" where
  "build_service_account app =
     (case ps_service_account (pj_spec app) of
        None \<Rightarrow> Inr None
      | Some spec \<Rightarrow>
          if \<not> sa_create spec then Inr None
          else result_bind (require_namespace app) (\<lambda>namespace.
               result_bind (owner_reference_of app) (\<lambda>owner_ref.
                 Inr (Some ((owned_meta (the (resolved_sa_name app)) namespace (standard_labels app CompWeb) owner_ref)
                   \<lparr>om_annotations := if sa_annotations spec = [] then None else Some (map_of (sa_annotations spec))\<rparr>)))))"

lemma resolved_sa_name_create:
  "resolved_sa_name app \<noteq> None \<longleftrightarrow> is_some_and (ps_service_account (pj_spec app)) sa_create"
  by (simp add: resolved_sa_name_def split: option.splits)

definition build_storage_service_account ::
  "project \<Rightarrow> string \<Rightarrow> string option \<Rightarrow> operator_error + object_meta option" where
  "build_storage_service_account app backend iam_identity =
     (let annotation =
        (case iam_identity of
           None \<Rightarrow> None
         | Some v \<Rightarrow> if backend = ''s3'' \<and> v \<noteq> [] then Some (''eks.amazonaws.com/role-arn'', v)
                     else if backend = ''gcs'' \<and> v \<noteq> [] then Some (''iam.gke.io/gcp-service-account'', v)
                     else None)
      in case annotation of
           None \<Rightarrow> Inr None
         | Some (k, v) \<Rightarrow>
             result_bind (require_namespace app) (\<lambda>namespace.
             result_bind (owner_reference_of app) (\<lambda>owner_ref.
               Inr (Some ((owned_meta (name_any app @ ''-storage'') namespace (standard_labels app CompWeb) owner_ref)
                 \<lparr>om_annotations := Some [k \<mapsto> v]\<rparr>)))))"

section \<open>Plugins\<close>

definition DENTDELION_CONFIG_FILE :: string where "DENTDELION_CONFIG_FILE = ''dentdelion.toml''"
definition DENTDELION_CONFIG_MOUNT_DIR :: string where "DENTDELION_CONFIG_MOUNT_DIR = ''/etc/dentdelion''"
definition PLUGIN_CONFIG_VOLUME_NAME :: string where "PLUGIN_CONFIG_VOLUME_NAME = ''dentdelion-config''"

definition plugin_configmap_name :: "project \<Rightarrow> string" where
  "plugin_configmap_name app = name_any app @ ''-dentdelion-plugins''"

definition plugin_volume_name :: "plugin_spec \<Rightarrow> string" where
  "plugin_volume_name p = ''dentdelion-'' @ sanitized_volume_suffix (pl_name p)"

record plugin_toml_entry =
  pte_name :: string
  pte_plugin_type :: string
  pte_wasm_dir :: string
  pte_memory_limit_mb :: "u64 option"
  pte_timeout_ms :: "u64 option"
  pte_capabilities :: "string list"

fun plugin_type_str :: "plugin_type \<Rightarrow> string" where
  "plugin_type_str HttpMiddleware = ''http-middleware''"
| "plugin_type_str GrpcInterceptor = ''grpc-interceptor''"
| "plugin_type_str EventHandler = ''event-handler''"

fun capability_str :: "plugin_capability \<Rightarrow> string" where
  "capability_str NetworkAccess = ''network''"
| "capability_str FilesystemRead = ''fs-read''"
| "capability_str FilesystemWrite = ''fs-write''"
| "capability_str EnvAccess = ''env''"

definition render_plugin_config ::
  "(plugin_toml_entry list \<Rightarrow> string + string) \<Rightarrow> plugin_spec list \<Rightarrow> operator_error + string" where
  "render_plugin_config toml_to_string plugins =
     (case toml_to_string (map (\<lambda>p. \<lparr>pte_name = pl_name p, pte_plugin_type = plugin_type_str (pl_plugin_type p),
         pte_wasm_dir = pl_wasm_dir p, pte_memory_limit_mb = pl_memory_limit_mb p,
         pte_timeout_ms = pl_timeout_ms p, pte_capabilities = map capability_str (pl_capabilities p)\<rparr>) plugins) of
        Inl e \<Rightarrow> Inl (PluginConfigRender e)
      | Inr s \<Rightarrow> Inr s)"

definition validate_plugin_specs :: "plugin_spec list \<Rightarrow> operator_error + unit" where
  "validate_plugin_specs plugins =
     (let messages = concat (map (\<lambda>(idx, p). map (\<lambda>m. ''plugins['' @ show_nat idx @ '']: '' @ m) (errs_of (validate_plugin p)))
            (enumerate 0 plugins))
      in if messages = [] then Inr () else Inl (InvalidPluginSpec (join ''; '' messages)))"

definition build_plugin_configmap ::
  "(plugin_toml_entry list \<Rightarrow> string + string) \<Rightarrow> project \<Rightarrow> operator_error + config_map option" where
  "build_plugin_configmap toml_to_string app =
     (case ps_plugins (pj_spec app) of
        None \<Rightarrow> Inr None
      | Some plugins \<Rightarrow>
          if plugins = [] then Inr None
          else result_bind (validate_plugin_specs plugins) (\<lambda>_.
               result_bind (require_namespace app) (\<lambda>namespace.
               result_bind (owner_reference_of app) (\<lambda>owner_ref.
               result_bind (render_plugin_config toml_to_string plugins) (\<lambda>rendered.
                 Inr (Some \<lparr>cm_metadata = owned_meta (plugin_configmap_name app) namespace
                         (standard_labels app CompPlugins) owner_ref,
                       cm_data = Some [(DENTDELION_CONFIG_FILE, rendered)]\<rparr>))))))"

definition build_plugin_volumes :: "project \<Rightarrow> operator_error + (volume list \<times> volume_mount list)" where
  "build_plugin_volumes app =
     (case ps_plugins (pj_spec app) of
        None \<Rightarrow> Inr ([], [])
      | Some plugins \<Rightarrow>
          if plugins = [] then Inr ([], [])
          else result_bind (validate_plugin_specs plugins) (\<lambda>_.
            Inr (volume_default\<lparr>vol_name := PLUGIN_CONFIG_VOLUME_NAME,
                   vol_config_map := Some (plugin_configmap_name app)\<rparr>
                 # map (\<lambda>p. volume_default\<lparr>vol_name := plugin_volume_name p, vol_empty_dir := True\<rparr>) plugins,
                 volume_mount_default\<lparr>vm_name := PLUGIN_CONFIG_VOLUME_NAME,
                   vm_mount_path := DENTDELION_CONFIG_MOUNT_DIR, vm_read_only := Some True\<rparr>
                 # map (\<lambda>p. volume_mount_default\<lparr>vm_name := plugin_volume_name p,
                     vm_mount_path := pl_wasm_dir p\<rparr>) plugins)))"

section \<open>Pages\<close>

record resolved_pages_config =
  rp_static_root :: string
  rp_static_url :: string
  rp_server_image :: string
  rp_server_resources :: pages_resource_requirements
  rp_cache_max_age :: u64
  rp_brotli :: bool
  rp_gzip :: bool
  rp_prebuilt :: bool

definition resolved_pages_default :: resolved_pages_config where
  "resolved_pages_default =
     \<lparr>rp_static_root = ''/app/staticfiles'', rp_static_url = ''/static/'',
      rp_server_image = ''joseluisq/static-web-server:2-alpine'',
      rp_server_resources = \<lparr>prr_requests = [(''cpu'', ''10m''), (''memory'', ''16Mi'')],
        prr_limits = [(''cpu'', ''100m''), (''memory'', ''64Mi'')]\<rparr>,
      rp_cache_max_age = 86400, rp_brotli = True, rp_gzip = True, rp_prebuilt = False\<rparr>"

definition should_enable_pages :: "project \<Rightarrow> bool" where
  "should_enable_pages app \<longleftrightarrow> ps_pages (pj_spec app) \<noteq> None
     \<or> is_some_and (ps_introspect (pj_spec app)) (\<lambda>i. sig_pages (fm_infrastructure_signals (io_features i)))"

definition resolve_pages_config :: "project \<Rightarrow> resolved_pages_config option" where
  "resolve_pages_config app =
     (if \<not> should_enable_pages app then None
      else let d = resolved_pages_default in
        Some (case ps_pages (pj_spec app) of
                None \<Rightarrow> d
              | Some p \<Rightarrow>
                  \<lparr>rp_static_root = unwrap_or (rp_static_root d) (pg_static_root p),
                   rp_static_url = unwrap_or (rp_static_url d) (pg_static_url p),
                   rp_server_image = unwrap_or (rp_server_image d) (pg_server_image p),
                   rp_server_resources = unwrap_or (rp_server_resources d) (pg_server_resources p),
                   rp_cache_max_age = unwrap_or (rp_cache_max_age d) (pg_cache_max_age p),
                   rp_brotli = unwrap_or (rp_brotli d) (pg_brotli p),
                   rp_gzip = unwrap_or (rp_gzip d) (pg_gzip p),
                   rp_prebuilt = unwrap_or (rp_prebuilt d) (pg_prebuilt p)\<rparr>))"

section \<open>The web deployment\<close>

definition build_main_container_probe :: "project \<Rightarrow> i32 \<Rightarrow> operator_error + probe option" where
  "build_main_container_probe app dflt =
     (case ps_health (pj_spec app) of
        None \<Rightarrow> Inr None
      | Some health \<Rightarrow>
          let path = unwrap_or ''/health'' (h_path health) in
          result_bind (validate_port ''health.port'' (unwrap_or dflt (h_port health))) (\<lambda>port.
            let period_seconds = unwrap_or 10 (h_interval_seconds health) in
            if sint period_seconds < 1 then Inl (InvalidProbePeriod ''health.interval_seconds'' period_seconds)
            else Inr (Some \<lparr>pr_path = path, pr_port = port, pr_initial_delay = None,
                   pr_period = Some period_seconds\<rparr>)))"

text \<open>\<open>char::is_control\<close>: the code points below 32 and from 127 to 159; the latter are the bytes C2 80 to C2 9F.\<close>

fun has_control :: "string \<Rightarrow> bool" where
  "has_control (a # b # s) \<longleftrightarrow>
     byte a < 32 \<or> byte a = 127 \<or> (byte a = 194 \<and> 128 \<le> byte b \<and> byte b \<le> 159) \<or> has_control (b # s)"
| "has_control [a] \<longleftrightarrow> byte a < 32 \<or> byte a = 127"
| "has_control [] \<longleftrightarrow> False"

definition static_root_invalid :: "string \<Rightarrow> bool" where
  "static_root_invalid root \<longleftrightarrow>
     \<not> starts_with root ''/'' \<or> root = []
     \<or> list_ex (\<lambda>part. part = ''.'' \<or> part = ''..'') (split_char (CHR ''/'') root)
     \<or> has_control root"

definition reserved_app_dirs :: "string list" where
  "reserved_app_dirs = [''settings'', ''migrations'', ''src'', ''target'', ''.git'', ''.agents'', ''.codex'']"

definition prebuilt_root_allowed :: "string \<Rightarrow> bool" where
  "prebuilt_root_allowed root \<longleftrightarrow>
     (let segments = drop 1 (split_char (CHR ''/'') root)
      in length segments \<ge> 2 \<and> segments ! 0 = ''app'' \<and> list_all (\<lambda>part. part \<noteq> []) segments
         \<and> segments ! 1 \<notin> set reserved_app_dirs)"

definition seed_container :: "project \<Rightarrow> string \<Rightarrow> container" where
  "seed_container app root =
     (let staging = root @ ''-cloud-volume'' in
      container_default\<lparr>ct_name := ''seed-static-files'', ct_image := ps_image (pj_spec app),
        ct_command := Some [''cp''], ct_args := Some [''-RP'', ''--'', root @ ''/.'', staging @ ''/''],
        ct_volume_mounts := Some [volume_mount_default\<lparr>vm_name := ''static-files'', vm_mount_path := staging\<rparr>]\<rparr>)"

definition collectstatic_container ::
  "project \<Rightarrow> resolved_pages_config \<Rightarrow> k8s_env_var list \<Rightarrow> volume_mount list \<Rightarrow> container" where
  "collectstatic_container app config env mounts =
     container_default\<lparr>ct_name := ''collectstatic'', ct_image := ps_image (pj_spec app),
       ct_command := Some [''manage'', ''collectstatic'', ''--no-input''],
       ct_env := Some (env @ [literal_env_var ''REINHARDT_STATIC_ROOT'' (rp_static_root config)]),
       ct_volume_mounts := Some (mounts @ [volume_mount_default\<lparr>vm_name := ''static-files'',
         vm_mount_path := rp_static_root config\<rparr>])\<rparr>"

definition static_seed_container ::
  "project \<Rightarrow> resolved_pages_config \<Rightarrow> k8s_env_var list \<Rightarrow> volume_mount list \<Rightarrow> operator_error + container" where
  "static_seed_container app config env mounts =
     (let root = trim_end_matches (CHR ''/'') (rp_static_root config) in
      if static_root_invalid root then Inl (InvalidStaticRoot (rp_static_root config))
      else if rp_prebuilt config then
        if \<not> prebuilt_root_allowed root then Inl (InvalidStaticRoot (rp_static_root config))
        else (let conflicts = conflicting_publication_env (rp_static_root config) (rp_static_url config) (ps_env (pj_spec app))
              in if conflicts \<noteq> [] then Inl (ConflictingPagesEnv conflicts) else Inr (seed_container app root))
      else Inr (collectstatic_container app config env mounts))"

definition show_bool :: "bool \<Rightarrow> string" where
  "show_bool b = (if b then ''true'' else ''false'')"

definition static_server_container :: "resolved_pages_config \<Rightarrow> container" where
  "static_server_container config =
     container_default\<lparr>ct_name := ''static-server'', ct_image := rp_server_image config,
       ct_ports := Some [\<lparr>cp_container_port = 8080, cp_name = Some ''http-static''\<rparr>],
       ct_env := Some [literal_env_var ''SERVER_ROOT'' (rp_static_root config), literal_env_var ''SERVER_PORT'' ''8080'',
         literal_env_var ''SERVER_LOG_LEVEL'' ''info'',
         literal_env_var ''SERVER_COMPRESSION'' (show_bool (rp_brotli config \<or> rp_gzip config)),
         literal_env_var ''SERVER_COMPRESSION_STATIC'' (show_bool (rp_brotli config \<or> rp_gzip config)),
         literal_env_var ''SERVER_HEALTH'' ''true''],
       ct_volume_mounts := Some [volume_mount_default\<lparr>vm_name := ''static-files'',
         vm_mount_path := rp_static_root config, vm_read_only := Some True\<rparr>],
       ct_readiness_probe := Some \<lparr>pr_path = ''/health'', pr_port = 8080, pr_initial_delay = Some 2, pr_period = Some 5\<rparr>,
       ct_resources := Some \<lparr>rr_requests = Some (map_of (prr_requests (rp_server_resources config))),
         rr_limits = Some (map_of (prr_limits (rp_server_resources config)))\<rparr>\<rparr>"

definition isolated :: "project \<Rightarrow> bool" where
  "isolated app \<longleftrightarrow> ps_isolation (pj_spec app) \<noteq> None"

text \<open>The volumes, init containers and sidecars that pages add.\<close>

definition pages_parts ::
  "project \<Rightarrow> resolved_pages_config option \<Rightarrow> k8s_env_var list \<Rightarrow> volume_mount list
     \<Rightarrow> operator_error + (volume list \<times> container list \<times> container list)" where
  "pages_parts app pages_config merged_env volume_mounts =
     (case pages_config of
        None \<Rightarrow> Inr ([], [], [])
      | Some config \<Rightarrow>
          result_bind (static_seed_container app config merged_env volume_mounts) (\<lambda>seed.
            Inr ([volume_default\<lparr>vol_name := ''static-files'', vol_empty_dir := True\<rparr>], [seed],
                 [static_server_container config])))"

definition web_container :: "project \<Rightarrow> i32 \<Rightarrow> k8s_env_var list \<Rightarrow> volume_mount list \<Rightarrow> probe option \<Rightarrow> container" where
  "web_container app port merged_env volume_mounts main_probe =
     container_default\<lparr>ct_name := name_any app, ct_image := ps_image (pj_spec app),
       ct_ports := Some [\<lparr>cp_container_port = port, cp_name = None\<rparr>], ct_env := Some merged_env,
       ct_volume_mounts := Some volume_mounts, ct_readiness_probe := main_probe, ct_liveness_probe := main_probe,
       ct_security_context := if isolated app then Some build_container_security_context else None\<rparr>"

definition web_pod ::
  "project \<Rightarrow> platform \<Rightarrow> container list \<Rightarrow> container list \<Rightarrow> volume list \<Rightarrow> string list option \<Rightarrow> pod_spec" where
  "web_pod app platform init_containers containers volumes pull_secrets =
     pod_spec_default\<lparr>pod_runtime_class_name := resolve_runtime_class_name app platform,
       pod_security_context := if isolated app then Some build_pod_security_context else None,
       pod_init_containers := if init_containers = [] then None else Some init_containers,
       pod_containers := containers, pod_volumes := Some volumes,
       pod_image_pull_secrets := pull_secrets, pod_service_account_name := resolved_sa_name app\<rparr>"

definition build_deployment ::
  "project \<Rightarrow> resolved_pages_config option \<Rightarrow> platform \<Rightarrow> operator_error + deployment" where
  "build_deployment app pages_config platform =
     (let labels = standard_labels app CompWeb in
      result_bind (require_namespace app) (\<lambda>namespace.
      let replicas = unwrap_or 1 (ps_replicas (pj_spec app)) in
      result_bind (validate_port ''target_port'' (unwrap_or 8000 (Option.bind (ps_services (pj_spec app)) svc_target_port))) (\<lambda>port.
      result_bind (owner_reference_of app) (\<lambda>owner_ref.
      let merged_env = build_application_env_vars app in
      result_bind (build_plugin_volumes app) (\<lambda>(plugin_volumes, volume_mounts).
      result_bind (pages_parts app pages_config merged_env volume_mounts) (\<lambda>(pages_volumes, init_containers, extra_containers).
      result_bind (build_main_container_probe app port) (\<lambda>main_probe.
      let containers = web_container app port merged_env volume_mounts main_probe # extra_containers in
      result_bind (validated_image_pull_secrets app) (\<lambda>pull_secrets.
        Inr \<lparr>dp_metadata = owned_meta (name_any app) namespace labels owner_ref,
             dp_spec = Some \<lparr>ds_replicas = Some replicas, ds_selector = Some (selector_labels app CompWeb),
               ds_template = \<lparr>pt_metadata = Some (object_meta_default\<lparr>om_labels := Some labels\<rparr>),
                 pt_spec = Some (web_pod app platform init_containers containers
                   (plugin_volumes @ pages_volumes) pull_secrets)\<rparr>\<rparr>,
             dp_ready_replicas = None\<rparr>))))))))"

section \<open>Services\<close>

definition build_service :: "project \<Rightarrow> bool \<Rightarrow> operator_error + service" where
  "build_service app pages_enabled =
     result_bind (require_namespace app) (\<lambda>namespace.
     result_bind (validate_port ''port'' (unwrap_or 80 (Option.bind (ps_services (pj_spec app)) svc_port))) (\<lambda>port.
     result_bind (validate_port ''target_port'' (unwrap_or 8000 (Option.bind (ps_services (pj_spec app)) svc_target_port))) (\<lambda>target_port.
     result_bind (owner_reference_of app) (\<lambda>owner_ref.
       Inr \<lparr>svo_metadata = owned_meta (name_any app) namespace (standard_labels app CompWeb) owner_ref,
            svo_type = None, svo_cluster_ip = None, svo_selector = Some (selector_labels app CompWeb),
            svo_ports = Some (\<lparr>sp_name = if pages_enabled then Some ''http-app'' else None, sp_port = port,
                sp_target_port = Some target_port, sp_app_protocol = None\<rparr>
              # (if pages_enabled then [\<lparr>sp_name = Some ''http-static'', sp_port = 8080, sp_target_port = Some 8080,
                   sp_app_protocol = None\<rparr>] else []))\<rparr>))))"

definition GRPC_PORT :: i32 where "GRPC_PORT = 50051"

definition build_grpc_service :: "project \<Rightarrow> operator_error + service" where
  "build_grpc_service app =
     result_bind (require_namespace app) (\<lambda>namespace.
     result_bind (owner_reference_of app) (\<lambda>owner_ref.
       Inr \<lparr>svo_metadata = owned_meta (name_any app @ ''-grpc'') namespace (standard_labels app CompWeb) owner_ref,
            svo_type = Some ''ClusterIP'', svo_cluster_ip = None, svo_selector = Some (selector_labels app CompWeb),
            svo_ports = Some [\<lparr>sp_name = Some ''grpc'', sp_port = GRPC_PORT, sp_target_port = Some GRPC_PORT,
              sp_app_protocol = Some ''kubernetes.io/h2c''\<rparr>]\<rparr>))"

section \<open>Workers and the cache\<close>

definition build_worker_deployment ::
  "project \<Rightarrow> string list option \<Rightarrow> platform \<Rightarrow> operator_error + deployment" where
  "build_worker_deployment app custom_command platform =
     (let labels = standard_labels app CompWorker in
      result_bind (require_namespace app) (\<lambda>namespace.
      result_bind (owner_reference_of app) (\<lambda>owner_ref.
      let project_name = name_any app;
          command = (case custom_command of Some cmd \<Rightarrow> cmd | None \<Rightarrow> [''manage'', ''run_worker'']) in
      result_bind (validated_image_pull_secrets app) (\<lambda>pull_secrets.
        Inr \<lparr>dp_metadata = owned_meta (project_name @ ''-worker'') namespace labels owner_ref,
             dp_spec = Some \<lparr>ds_replicas = Some 1, ds_selector = Some (selector_labels app CompWorker),
               ds_template = \<lparr>pt_metadata = Some (object_meta_default\<lparr>om_labels := Some labels\<rparr>),
                 pt_spec = Some (pod_spec_default\<lparr>pod_runtime_class_name := resolve_runtime_class_name app platform,
                   pod_security_context := if isolated app then Some build_pod_security_context else None,
                   pod_containers := [container_default\<lparr>ct_name := ''worker'', ct_image := ps_image (pj_spec app),
                     ct_command := Some command,
                     ct_env_from := Some [\<lparr>ef_secret = project_name @ ''-db-credentials'', ef_optional = Some True\<rparr>],
                     ct_security_context := if isolated app then Some build_container_security_context else None\<rparr>],
                   pod_image_pull_secrets := pull_secrets\<rparr>)\<rparr>\<rparr>,
             dp_ready_replicas = None\<rparr>))))"

definition redis_container :: "string \<Rightarrow> container" where
  "redis_container project_name =
     container_default\<lparr>ct_name := ''redis'', ct_image := ''redis:7-alpine'',
       ct_args := Some [''redis-server'', ''--requirepass'', ''$(REINHARDT_CLOUD_REDIS_PASSWORD)''],
       ct_env := Some [secret_env_var ''REINHARDT_CLOUD_REDIS_PASSWORD'' (project_name @ ''-redis-credentials'') ''password''],
       ct_ports := Some [\<lparr>cp_container_port = 6379, cp_name = Some ''redis''\<rparr>],
       ct_resources := Some \<lparr>rr_requests = Some [''memory'' \<mapsto> ''64Mi'', ''cpu'' \<mapsto> ''50m''],
         rr_limits = Some [''memory'' \<mapsto> ''128Mi'']\<rparr>\<rparr>"

definition build_cache_deployment :: "project \<Rightarrow> operator_error + deployment" where
  "build_cache_deployment app =
     (let labels = standard_labels app CompCache in
      result_bind (require_namespace app) (\<lambda>namespace.
      result_bind (owner_reference_of app) (\<lambda>owner_ref.
        Inr \<lparr>dp_metadata = owned_meta (name_any app @ ''-redis'') namespace labels owner_ref,
             dp_spec = Some \<lparr>ds_replicas = Some 1, ds_selector = Some (selector_labels app CompCache),
               ds_template = \<lparr>pt_metadata = Some (object_meta_default\<lparr>om_labels := Some labels\<rparr>),
                 pt_spec = Some (pod_spec_default\<lparr>pod_containers := [redis_container (name_any app)]\<rparr>)\<rparr>\<rparr>,
             dp_ready_replicas = None\<rparr>)))"

definition build_cache_service :: "project \<Rightarrow> operator_error + service" where
  "build_cache_service app =
     result_bind (require_namespace app) (\<lambda>namespace.
     result_bind (owner_reference_of app) (\<lambda>owner_ref.
       Inr \<lparr>svo_metadata = owned_meta (name_any app @ ''-redis'') namespace (standard_labels app CompCache) owner_ref,
            svo_type = Some ''ClusterIP'', svo_cluster_ip = None, svo_selector = Some (selector_labels app CompCache),
            svo_ports = Some [\<lparr>sp_name = Some ''redis'', sp_port = 6379, sp_target_port = Some 6379,
              sp_app_protocol = None\<rparr>]\<rparr>))"

section \<open>Mail and locales\<close>

definition build_mail_secret :: "project \<Rightarrow> operator_error + secret" where
  "build_mail_secret app =
     result_bind (require_namespace app) (\<lambda>namespace.
     result_bind (owner_reference_of app) (\<lambda>owner_ref.
       Inr \<lparr>se_metadata = owned_meta (name_any app @ ''-smtp-credentials'') namespace (standard_labels app CompWeb) owner_ref,
            se_data = None,
            se_string_data = Some [(''SMTP_HOST'', []), (''SMTP_PASSWORD'', []), (''SMTP_PORT'', ''587''),
              (''SMTP_USER'', []), (''SMTP_USE_TLS'', ''true'')],
            se_immutable = None, se_type = Some ''Opaque''\<rparr>))"

definition build_i18n_configmap :: "project \<Rightarrow> operator_error + config_map" where
  "build_i18n_configmap app =
     result_bind (require_namespace app) (\<lambda>namespace.
     result_bind (owner_reference_of app) (\<lambda>owner_ref.
       Inr \<lparr>cm_metadata = owned_meta (name_any app @ ''-locales'') namespace (standard_labels app CompWeb) owner_ref,
            cm_data = Some []\<rparr>))"

section \<open>The parts of a built deployment\<close>

lemma build_deployment_Inr:
  assumes "build_deployment app pages_config platform = Inr d"
  obtains namespace port owner_ref pv vm pgv ini extra pr pull where
    "require_namespace app = Inr namespace" "owner_reference_of app = Inr owner_ref"
    "validate_port ''target_port'' (unwrap_or 8000 (Option.bind (ps_services (pj_spec app)) svc_target_port)) = Inr port"
    "build_plugin_volumes app = Inr (pv, vm)" "build_main_container_probe app port = Inr pr"
    "validated_image_pull_secrets app = Inr pull"
    "pages_parts app pages_config (build_application_env_vars app) vm = Inr (pgv, ini, extra)"
    "d = \<lparr>dp_metadata = owned_meta (name_any app) namespace (standard_labels app CompWeb) owner_ref,
       dp_spec = Some \<lparr>ds_replicas = Some (unwrap_or 1 (ps_replicas (pj_spec app))),
         ds_selector = Some (selector_labels app CompWeb),
         ds_template = \<lparr>pt_metadata = Some (object_meta_default\<lparr>om_labels := Some (standard_labels app CompWeb)\<rparr>),
           pt_spec = Some (web_pod app platform ini
             (web_container app port (build_application_env_vars app) vm pr # extra) (pv @ pgv) pull)\<rparr>\<rparr>,
       dp_ready_replicas = None\<rparr>"
  using assms unfolding build_deployment_def Let_def result_bind_Inr by (auto simp: result_bind_Inr)

definition deployment_pod :: "deployment \<Rightarrow> pod_spec" where
  "deployment_pod d = unwrap_or pod_spec_default (Option.bind (dp_spec d) (\<lambda>s. pt_spec (ds_template s)))"

definition deployment_pod_labels :: "deployment \<Rightarrow> label_map" where
  "deployment_pod_labels d =
     unwrap_or Map.empty (Option.bind (dp_spec d) (\<lambda>s. Option.bind (pt_metadata (ds_template s)) om_labels))"

definition all_containers :: "pod_spec \<Rightarrow> container list" where
  "all_containers p = pod_containers p @ unwrap_or [] (pod_init_containers p)"

definition volume_names :: "pod_spec \<Rightarrow> string list" where
  "volume_names p = map vol_name (unwrap_or [] (pod_volumes p))"

definition mounts_declared :: "pod_spec \<Rightarrow> bool" where
  "mounts_declared p \<longleftrightarrow>
     (\<forall>c \<in> set (all_containers p). \<forall>m \<in> set (unwrap_or [] (ct_volume_mounts c)). vm_name m \<in> set (volume_names p))"

lemma container_default_simps [simp]:
  "ct_env container_default = None" "ct_env_from container_default = None"
  "ct_volume_mounts container_default = None" "ct_security_context container_default = None"
  "ct_ports container_default = None"
  by (simp_all add: container_default_def)

lemma pod_spec_default_simps [simp]:
  "pod_init_containers pod_spec_default = None" "pod_volumes pod_spec_default = None"
  "pod_containers pod_spec_default = []" "pod_security_context pod_spec_default = None"
  by (simp_all add: pod_spec_default_def)

lemma static_seed_cases:
  assumes "static_seed_container app config env mounts = Inr seed"
  shows "(rp_prebuilt config \<and> seed = seed_container app (trim_end_matches (CHR ''/'') (rp_static_root config)))
    \<or> (\<not> rp_prebuilt config \<and> seed = collectstatic_container app config env mounts)"
  using assms by (auto simp: static_seed_container_def Let_def split: if_splits)

lemma plugin_mounts:
  "build_plugin_volumes app = Inr (pv, vm) \<Longrightarrow>
     map vm_name vm = map vol_name pv \<and> (\<forall>v \<in> set pv. vol_secret v = None)
     \<and> (case ps_plugins (pj_spec app) of
          None \<Rightarrow> pv = []
        | Some ps \<Rightarrow> map vol_name pv = (if ps = [] then [] else PLUGIN_CONFIG_VOLUME_NAME # map plugin_volume_name ps))"
  by (auto simp: build_plugin_volumes_def result_bind_Inr volume_default_def volume_mount_default_def split: option.splits if_splits)
definition own_secret_names :: "string \<Rightarrow> string set" where
  "own_secret_names project_name = (\<lambda>suffix. project_name @ suffix) `
     {''-secrets'', ''-core-secret-key'', ''-jwt-secret'', ''-redis-credentials'', ''-db-credentials''}"

lemma env_secrets_own: "x \<in> set (build_application_env_vars app) \<Longrightarrow> own_secret (name_any app) x"
proof -
  assume "x \<in> set (build_application_env_vars app)"
  then consider k v where "x = user_env_var k v (name_any app)"
    | "x \<in> set (auto_env_vars app @ build_otel_env_vars (name_any app))"
    using env_mem by blast
  then show ?thesis using auto_env_own [of app] by cases (auto simp: list_all_iff)
qed

lemma own_env_secrets:
  assumes "\<And>e. e \<in> set env \<Longrightarrow> own_secret n e"
  shows "{s. \<exists>e \<in> set env. \<exists>k opt. ev_secret_key_ref e = Some (s, k, opt)} \<subseteq> own_secret_names n"
proof
  fix s assume "s \<in> {s. \<exists>e \<in> set env. \<exists>k opt. ev_secret_key_ref e = Some (s, k, opt)}"
  then obtain e k opt where "e \<in> set env" "ev_secret_key_ref e = Some (s, k, opt)" by blast
  with assms [of e] show "s \<in> own_secret_names n" by (simp add: own_secret_def own_secret_names_def)
qed

lemma container_secrets_env:
  "unwrap_or [] (ct_env_from c) = [] \<Longrightarrow> unwrap_or [] (ct_env c) = env
     \<Longrightarrow> (\<And>e. e \<in> set env \<Longrightarrow> own_secret n e) \<Longrightarrow> container_secrets c \<subseteq> own_secret_names n"
  using own_env_secrets [of env n] by (simp add: container_secrets_def)

lemma web_container_secrets:
  "container_secrets (web_container app port (build_application_env_vars app) vm pr) \<subseteq> own_secret_names (name_any app)"
  by (rule container_secrets_env [where env = "build_application_env_vars app"])
     (simp_all add: web_container_def env_secrets_own)

lemma seed_secrets:
  assumes "static_seed_container app config (build_application_env_vars app) vm = Inr seed"
  shows "container_secrets seed \<subseteq> own_secret_names (name_any app)"
  using static_seed_cases [OF assms]
proof (elim disjE conjE)
  assume "seed = seed_container app (trim_end_matches (CHR ''/'') (rp_static_root config))"
  then show ?thesis by (simp add: container_secrets_def seed_container_def Let_def)
next
  assume s: "seed = collectstatic_container app config (build_application_env_vars app) vm"
  show ?thesis unfolding s
    by (rule container_secrets_env
          [where env = "build_application_env_vars app @ [literal_env_var ''REINHARDT_STATIC_ROOT'' (rp_static_root config)]"])
       (auto simp: collectstatic_container_def env_secrets_own)
qed

lemma static_server_secrets: "container_secrets (static_server_container config) = {}"
  by (simp add: container_secrets_def static_server_container_def)

lemma pages_parts_Inr:
  assumes "pages_parts app pages_config env vm = Inr (pgv, ini, extra)"
  obtains "pages_config = None" "pgv = []" "ini = []" "extra = []"
  | config seed where "pages_config = Some config" "static_seed_container app config env vm = Inr seed"
      "pgv = [volume_default\<lparr>vol_name := ''static-files'', vol_empty_dir := True\<rparr>]" "ini = [seed]"
      "extra = [static_server_container config]"
  using assms by (auto simp: pages_parts_def result_bind_Inr split: option.splits)

lemma web_pod_simps [simp]:
  "all_containers (web_pod app platform ini cs vs pull) = cs @ ini"
  "pod_volumes (web_pod app platform ini cs vs pull) = Some vs"
  "pod_image_pull_secrets (web_pod app platform ini cs vs pull) = pull"
  "pod_security_context (web_pod app platform ini cs vs pull) = (if isolated app then Some build_pod_security_context else None)"
  "pod_service_account_name (web_pod app platform ini cs vs pull) = resolved_sa_name app"
  "volume_names (web_pod app platform ini cs vs pull) = map vol_name vs"
  by (simp_all add: all_containers_def web_pod_def volume_names_def)

lemma pod_secrets_all:
  "pod_secrets p = (\<Union>c \<in> set (all_containers p). container_secrets c)
     \<union> {s. \<exists>v \<in> set (unwrap_or [] (pod_volumes p)). \<exists>sv. vol_secret v = Some sv \<and> s = sv_secret_name sv}"
  by (simp add: pod_secrets_def all_containers_def)

lemma plugin_volume_names_distinct:
  assumes "distinct (map plugin_suffix ps)"
  shows "distinct (PLUGIN_CONFIG_VOLUME_NAME # map plugin_volume_name ps @ [''static-files''])
       \<longleftrightarrow> ''config'' \<notin> plugin_suffix ` set ps"
proof -
  have e: "map plugin_volume_name ps = map (\<lambda>x. ''dentdelion-'' @ x) (map plugin_suffix ps)"
    by (simp add: plugin_volume_name_def plugin_suffix_def)
  have d: "distinct (map plugin_volume_name ps)"
    unfolding e distinct_map [of "\<lambda>x. ''dentdelion-'' @ x"] using assms by (simp add: inj_on_def)
  have c: "PLUGIN_CONFIG_VOLUME_NAME \<in> set (map plugin_volume_name ps) \<longleftrightarrow> ''config'' \<in> plugin_suffix ` set ps"
    unfolding e by (auto simp: PLUGIN_CONFIG_VOLUME_NAME_def image_iff)
  have "''static-files'' \<notin> set (map plugin_volume_name ps)" unfolding e by auto
  with d c show ?thesis by (simp add: PLUGIN_CONFIG_VOLUME_NAME_def)
qed

text \<open>What the pages add to the pod, given the volumes of the plugins.\<close>

lemma pages_parts_sound:
  assumes "pages_parts app pages_config (build_application_env_vars app) vm = Inr (pgv, ini, extra)"
    and "map vm_name vm = map vol_name pv"
  shows "(\<forall>c \<in> set (extra @ ini). \<forall>m \<in> set (unwrap_or [] (ct_volume_mounts c)). vm_name m \<in> set (map vol_name (pv @ pgv)))
    \<and> (\<forall>c \<in> set (extra @ ini). container_secrets c \<subseteq> own_secret_names (name_any app))
    \<and> (\<forall>v \<in> set pgv. vol_secret v = None) \<and> map vol_name pgv = (if pages_config = None then [] else [''static-files''])"
  using assms(1)
proof (cases rule: pages_parts_Inr)
  case (2 config seed)
  have mem: "m \<in> set vm \<Longrightarrow> vm_name m \<in> vol_name ` set pv" for m
    using assms(2) by (metis image_eqI set_map)
  have "\<forall>m \<in> set (unwrap_or [] (ct_volume_mounts seed)). vm_name m \<in> set (map vol_name (pv @ pgv))"
    using static_seed_cases [OF 2(2)] 2(3)
    by (elim disjE conjE) (simp_all add: seed_container_def collectstatic_container_def Let_def volume_mount_default_def
        ball_Un mem)
  then show ?thesis using 2 seed_secrets [OF 2(2)]
    by (simp add: static_server_secrets) (simp add: static_server_container_def volume_mount_default_def volume_default_def)
qed simp

lemma volume_names_distinct:
  assumes "build_plugin_volumes app = Inr (pv, vm)" and "validate_project (pj_spec app) = Inr ()"
    and "map vol_name pgv = (if pages_config = None then [] else [''static-files''])"
  shows "distinct (map vol_name (pv @ pgv)) \<longleftrightarrow> ''config'' \<notin> plugin_suffix ` set (unwrap_or [] (ps_plugins (pj_spec app)))"
proof (cases "unwrap_or [] (ps_plugins (pj_spec app))")
  case Nil
  then have "pv = []" using plugin_mounts [OF assms(1)] by (auto split: option.splits)
  with Nil assms(3) show ?thesis by simp
next
  case (Cons p ps)
  then have e: "ps_plugins (pj_spec app) = Some (p # ps)" by (cases "ps_plugins (pj_spec app)") auto
  then have d: "distinct (map plugin_suffix (p # ps))"
    using assms(2) validate_project_wf by (auto simp: project_wf_def plugins_wf_def)
  have n: "map vol_name pv = PLUGIN_CONFIG_VOLUME_NAME # map plugin_volume_name (p # ps)"
    using plugin_mounts [OF assms(1)] e by simp
  have "''static-files'' \<notin> set (map plugin_volume_name (p # ps))" by (auto simp: plugin_volume_name_def)
  with plugin_volume_names_distinct [OF d] Cons show ?thesis
    unfolding map_append assms(3) n by (auto simp: PLUGIN_CONFIG_VOLUME_NAME_def)
qed

section \<open>Properties\<close>

text \<open>
  C35. The pod of the web deployment is well formed: every volume a container mounts is declared, it can
  read no secret but those of its own project, and it runs under no service account but one the
  operator creates. The volume names of an accepted project are distinct exactly when no plugin is
  named config, whose directory would have the name of the configuration volume.
\<close>
theorem web_pod_wf:
  assumes "build_deployment app pages_config platform = Inr d"
  shows "mounts_declared (deployment_pod d)
    \<and> pod_secrets (deployment_pod d) \<subseteq> own_secret_names (name_any app)
    \<and> (pod_service_account_name (deployment_pod d) = None
        \<or> (\<exists>sa. build_service_account app = Inr (Some sa) \<and> pod_service_account_name (deployment_pod d) = om_name sa))
    \<and> (validate_project (pj_spec app) = Inr () \<longrightarrow>
        (distinct (volume_names (deployment_pod d)) \<longleftrightarrow>
          ''config'' \<notin> plugin_suffix ` set (unwrap_or [] (ps_plugins (pj_spec app)))))"
proof -
  obtain namespace port owner_ref pv vm pgv ini extra pr pull where
    parts: "require_namespace app = Inr namespace" "owner_reference_of app = Inr owner_ref"
      "build_plugin_volumes app = Inr (pv, vm)"
      "pages_parts app pages_config (build_application_env_vars app) vm = Inr (pgv, ini, extra)"
    and pod: "deployment_pod d = web_pod app platform ini
             (web_container app port (build_application_env_vars app) vm pr # extra) (pv @ pgv) pull"
    by (rule build_deployment_Inr [OF assms]) (simp add: deployment_pod_def)
  note plugs = plugin_mounts [OF parts(3)]
  then have names: "map vm_name vm = map vol_name pv" by blast
  note pages = pages_parts_sound [OF parts(4) names]
  have "m \<in> set vm \<Longrightarrow> vm_name m \<in> vol_name ` set pv" for m using names by (metis image_eqI set_map)
  with conjunct1 [OF pages] have m: "mounts_declared (deployment_pod d)"
    by (simp add: mounts_declared_def pod ball_Un) (simp add: web_container_def)
  have sec: "pod_secrets (deployment_pod d) \<subseteq> own_secret_names (name_any app)"
    using pages plugs web_container_secrets [of app port vm pr] by (auto simp: pod_secrets_all pod)
  have sa: "pod_service_account_name (deployment_pod d) = None
        \<or> (\<exists>sa. build_service_account app = Inr (Some sa) \<and> pod_service_account_name (deployment_pod d) = om_name sa)"
    using parts(1,2) by (auto simp: pod build_service_account_def resolved_sa_name_def owned_meta_def split: option.splits)
  show ?thesis
    using m sec sa volume_names_distinct [OF parts(3), of pgv pages_config] pages by (simp add: pod)
qed

text \<open>
  The restricted profile of the Kubernetes Pod Security Standards, as far as the fields the operator
  sets decide it: no container may escalate privileges, each drops all capabilities, and the pod runs
  as a non-root user under a seccomp profile.
\<close>

definition restricted_container :: "container \<Rightarrow> bool" where
  "restricted_container c \<longleftrightarrow>
     is_some_and (ct_security_context c)
       (\<lambda>s. cse_allow_privilege_escalation s = Some False \<and> ''ALL'' \<in> set (unwrap_or [] (cse_drop s)))"

definition restricted_pod :: "pod_spec \<Rightarrow> bool" where
  "restricted_pod p \<longleftrightarrow>
     is_some_and (pod_security_context p)
       (\<lambda>s. pse_run_as_non_root s = Some True \<and> pse_run_as_user s \<noteq> Some 0
          \<and> pse_seccomp_profile s \<in> {Some ''RuntimeDefault'', Some ''Localhost''})
     \<and> (\<forall>c \<in> set (all_containers p). restricted_container c)"

text \<open>
  C36. The pods of an isolated project against the restricted profile that its namespace enforces: the
  worker passes, the web pod passes exactly when it serves no pages, because neither the container
  that seeds the static files nor the static server has a security context, and the Redis pod never
  passes.
\<close>
theorem isolated_pods_restricted:
  assumes "ps_isolation (pj_spec app) \<noteq> None"
  shows "(\<forall>d. build_deployment app pages_config platform = Inr d \<longrightarrow>
           (restricted_pod (deployment_pod d) \<longleftrightarrow> pages_config = None)
           \<and> is_some_and (pod_security_context (deployment_pod d)) (\<lambda>s. pse_run_as_non_root s = Some True))
    \<and> (\<forall>w. build_worker_deployment app command platform = Inr w \<longrightarrow> restricted_pod (deployment_pod w))
    \<and> (\<forall>c. build_cache_deployment app = Inr c \<longrightarrow> \<not> restricted_pod (deployment_pod c))"
proof (intro conjI allI impI)
  from assms have iso: "isolated app" by (simp add: isolated_def)
  fix d assume "build_deployment app pages_config platform = Inr d"
  then obtain port vm pr extra ini vs pull pgv where
    pages: "pages_parts app pages_config (build_application_env_vars app) vm = Inr (pgv, ini, extra)"
    and pod: "deployment_pod d = web_pod app platform ini
             (web_container app port (build_application_env_vars app) vm pr # extra) vs pull"
    by (rule build_deployment_Inr) (simp add: deployment_pod_def)
  have web: "restricted_container (web_container app port (build_application_env_vars app) vm pr)"
    using iso by (simp add: restricted_container_def web_container_def build_container_security_context_def)
  show "restricted_pod (deployment_pod d) \<longleftrightarrow> pages_config = None"
    using pages
  proof (cases rule: pages_parts_Inr)
    case 1
    with web iso show ?thesis by (simp add: restricted_pod_def pod build_pod_security_context_def)
  next
    case (2 config seed)
    have "\<not> restricted_container (static_server_container config)"
      by (simp add: restricted_container_def static_server_container_def)
    with 2 show ?thesis by (simp add: restricted_pod_def pod)
  qed
  show "is_some_and (pod_security_context (deployment_pod d)) (\<lambda>s. pse_run_as_non_root s = Some True)"
    using iso by (simp add: pod build_pod_security_context_def)
next
  fix w assume "build_worker_deployment app command platform = Inr w"
  with assms show "restricted_pod (deployment_pod w)"
    by (auto simp: build_worker_deployment_def result_bind_Inr Let_def deployment_pod_def isolated_def restricted_pod_def
        build_pod_security_context_def all_containers_def restricted_container_def build_container_security_context_def)
next
  fix c assume "build_cache_deployment app = Inr c"
  then show "\<not> restricted_pod (deployment_pod c)"
    by (auto simp: build_cache_deployment_def result_bind_Inr Let_def deployment_pod_def restricted_pod_def)
qed

text \<open>Label selectors.\<close>

definition selects :: "label_map option \<Rightarrow> label_map \<Rightarrow> bool" where
  "selects sel labels \<longleftrightarrow> (\<forall>k v. Option.bind sel (\<lambda>m. m k) = Some v \<longrightarrow> labels k = Some v)"

lemma component_str_inject [simp]: "component_str a = component_str b \<longleftrightarrow> a = b"
  by (cases a; cases b) simp_all

lemma selects_iff:
  "selects (Some (selector_labels app c)) (standard_labels other c') \<longleftrightarrow> name_any other = name_any app \<and> c' = c"
proof
  assume s: "selects (Some (selector_labels app c)) (standard_labels other c')"
  have "standard_labels other c' ''app.kubernetes.io/name'' = Some (name_any app)"
    "standard_labels other c' ''app.kubernetes.io/component'' = Some (component_str c)"
    using s by (simp_all add: selects_def selector_labels_def)
  then show "name_any other = name_any app \<and> c' = c" by (simp add: standard_labels_def)
next
  assume "name_any other = name_any app \<and> c' = c"
  then show "selects (Some (selector_labels app c)) (standard_labels other c')"
    by (auto simp: selects_def selector_labels_def standard_labels_def)
qed

definition served_ports :: "pod_spec \<Rightarrow> i32 set" where
  "served_ports p = {cp_container_port cp | c cp. c \<in> set (pod_containers p) \<and> cp \<in> set (unwrap_or [] (ct_ports c))}"

lemma served_portsI:
  "c \<in> set (pod_containers p) \<Longrightarrow> cp \<in> set (unwrap_or [] (ct_ports c)) \<Longrightarrow> cp_container_port cp \<in> served_ports p"
  by (auto simp: served_ports_def)

text \<open>
  The services of a project reach its pods and no others: the web service, built for the same pages
  configuration, and the Redis service select exactly the pods of the web and the cache component of
  the project of that name, the selectors of the two deployments select the pods they create, and
  every port of a service leads to a port a container of those pods serves.
\<close>
theorem services_reach_their_pods:
  assumes "build_deployment app pages_config platform = Inr d" and "build_service app (pages_config \<noteq> None) = Inr s"
    and "build_cache_deployment app = Inr rd" and "build_cache_service app = Inr rs"
  shows "(\<forall>other c. selects (svo_selector s) (standard_labels other c) \<longleftrightarrow> name_any other = name_any app \<and> c = CompWeb)
    \<and> (\<forall>other c. selects (svo_selector rs) (standard_labels other c) \<longleftrightarrow> name_any other = name_any app \<and> c = CompCache)
    \<and> deployment_pod_labels d = standard_labels app CompWeb \<and> deployment_pod_labels rd = standard_labels app CompCache
    \<and> selects (Option.bind (dp_spec d) ds_selector) (deployment_pod_labels d)
    \<and> selects (Option.bind (dp_spec rd) ds_selector) (deployment_pod_labels rd)
    \<and> (\<forall>p \<in> set (unwrap_or [] (svo_ports s)). \<exists>t \<in> served_ports (deployment_pod d). sp_target_port p = Some t)
    \<and> (\<forall>p \<in> set (unwrap_or [] (svo_ports rs)). \<exists>t \<in> served_ports (deployment_pod rd). sp_target_port p = Some t)"
proof -
  obtain namespace port owner_ref vm pgv ini extra pr where
    port: "validate_port ''target_port'' (unwrap_or 8000 (Option.bind (ps_services (pj_spec app)) svc_target_port)) = Inr port"
    and pages: "pages_parts app pages_config (build_application_env_vars app) vm = Inr (pgv, ini, extra)"
    and cs: "pod_containers (deployment_pod d) = web_container app port (build_application_env_vars app) vm pr # extra"
    and d: "deployment_pod_labels d = standard_labels app CompWeb"
      "Option.bind (dp_spec d) ds_selector = Some (selector_labels app CompWeb)"
    by (rule build_deployment_Inr [OF assms(1)]) (simp add: deployment_pod_def deployment_pod_labels_def web_pod_def)
  obtain sp where s: "svo_selector s = Some (selector_labels app CompWeb)"
    "unwrap_or [] (svo_ports s) = \<lparr>sp_name = if pages_config \<noteq> None then Some ''http-app'' else None, sp_port = sp,
                sp_target_port = Some port, sp_app_protocol = None\<rparr>
              # (if pages_config \<noteq> None then [\<lparr>sp_name = Some ''http-static'', sp_port = 8080, sp_target_port = Some 8080,
                   sp_app_protocol = None\<rparr>] else [])"
    using assms(2) port by (auto simp: build_service_def result_bind_Inr)
  have "port \<in> served_ports (deployment_pod d)"
    using served_portsI [of "web_container app port (build_application_env_vars app) vm pr" "deployment_pod d"
        "\<lparr>cp_container_port = port, cp_name = None\<rparr>"] by (simp add: cs) (simp add: web_container_def)
  moreover have "8080 \<in> served_ports (deployment_pod d)" if "pages_config \<noteq> None"
    using pages
  proof (cases rule: pages_parts_Inr)
    case (2 config seed)
    then show ?thesis
      using served_portsI [of "static_server_container config" "deployment_pod d"
          "\<lparr>cp_container_port = 8080, cp_name = Some ''http-static''\<rparr>"] by (simp add: cs) (simp add: static_server_container_def)
  qed (use that in simp)
  ultimately have web: "\<forall>p \<in> set (unwrap_or [] (svo_ports s)). \<exists>t \<in> served_ports (deployment_pod d). sp_target_port p = Some t"
    unfolding s(2) by auto
  have rd: "deployment_pod_labels rd = standard_labels app CompCache"
      "Option.bind (dp_spec rd) ds_selector = Some (selector_labels app CompCache)"
      "pod_containers (deployment_pod rd) = [redis_container (name_any app)]"
    using assms(3) by (auto simp: build_cache_deployment_def result_bind_Inr Let_def deployment_pod_labels_def deployment_pod_def)
  have rs: "svo_selector rs = Some (selector_labels app CompCache)"
    "\<forall>p \<in> set (unwrap_or [] (svo_ports rs)). sp_target_port p = Some 6379"
    using assms(4) by (auto simp: build_cache_service_def result_bind_Inr)
  have "6379 \<in> served_ports (deployment_pod rd)"
    using served_portsI [of "redis_container (name_any app)" "deployment_pod rd"
        "\<lparr>cp_container_port = 6379, cp_name = Some ''redis''\<rparr>"] by (simp add: rd(3)) (simp add: redis_container_def)
  with rs(2) have cache: "\<forall>p \<in> set (unwrap_or [] (svo_ports rs)). \<exists>t \<in> served_ports (deployment_pod rd). sp_target_port p = Some t"
    by blast
  show ?thesis
    using web cache by (simp only: s(1) rs(1) d rd(1,2) selects_iff) simp
qed

text \<open>
  A prebuilt publication only copies a directory of its own: if the deployment is built, the static
  root, without trailing slashes, is \<open>/app/dir/..\<close> with a first directory that is none of the
  application's own and no empty, dot or parent component; the only init container runs \<open>cp\<close>
  directly on that directory into the shared volume, which it mounts beside the root so that the copied files stay
  visible; and no variable of the project can point the application to another publication.
\<close>
theorem prebuilt_publication_confined:
  assumes "build_deployment app (Some config) platform = Inr d" and "rp_prebuilt config"
  shows "\<exists>dir rest. let root = trim_end_matches (CHR ''/'') (rp_static_root config) in
      split_char (CHR ''/'') root = [] # ''app'' # dir # rest
    \<and> dir \<notin> {''settings'', ''migrations'', ''src'', ''target'', ''.git'', ''.agents'', ''.codex''}
    \<and> set (dir # rest) \<inter> {'''', ''.'', ''..''} = {}
    \<and> pod_init_containers (deployment_pod d) = Some [seed_container app root]
    \<and> map (\<lambda>m. (vm_name m, vm_mount_path m)) (unwrap_or [] (ct_volume_mounts (seed_container app root)))
        = [(''static-files'', root @ ''-cloud-volume'')]
    \<and> conflicting_publication_env (rp_static_root config) (rp_static_url config) (ps_env (pj_spec app)) = []"
proof -
  let ?root = "trim_end_matches (CHR ''/'') (rp_static_root config)"
  obtain vm pgv ini extra where
    pages: "pages_parts app (Some config) (build_application_env_vars app) vm = Inr (pgv, ini, extra)"
    and pod: "pod_init_containers (deployment_pod d) = (if ini = [] then None else Some ini)"
    by (rule build_deployment_Inr [OF assms(1)]) (simp add: deployment_pod_def web_pod_def)
  from pages obtain seed where seed: "static_seed_container app config (build_application_env_vars app) vm = Inr seed"
    and ini: "ini = [seed]" by (cases rule: pages_parts_Inr) auto
  have ok: "\<not> static_root_invalid ?root" "prebuilt_root_allowed ?root"
    "conflicting_publication_env (rp_static_root config) (rp_static_url config) (ps_env (pj_spec app)) = []"
    "seed = seed_container app ?root"
    using seed assms(2) by (auto simp: static_seed_container_def Let_def split: if_splits)
  from ok(1) obtain r where r: "?root = CHR ''/'' # r"
    by (auto simp: static_root_invalid_def starts_with_iff)
  have seg: "length (split_char (CHR ''/'') r) \<ge> 2" "split_char (CHR ''/'') r ! 0 = ''app''"
    "[] \<notin> set (split_char (CHR ''/'') r)" "split_char (CHR ''/'') r ! 1 \<notin> set reserved_app_dirs"
    using ok(2) by (auto simp: prebuilt_root_allowed_def Let_def r list_all_iff)
  then obtain dir rest where sp: "split_char (CHR ''/'') r = ''app'' # dir # rest"
    by (cases "split_char (CHR ''/'') r"; cases "tl (split_char (CHR ''/'') r)") auto
  with seg have dir: "dir \<notin> set reserved_app_dirs" "[] \<notin> set (dir # rest)" by auto
  moreover have "''.'' \<notin> set (dir # rest)" "''..'' \<notin> set (dir # rest)"
    using ok(1) by (auto simp: static_root_invalid_def r sp list_ex_iff)
  ultimately show ?thesis
    using ok(3,4) sp by (intro exI [of _ dir] exI [of _ rest])
      (simp add: Let_def r pod ini, simp add: seed_container_def Let_def reserved_app_dirs_def volume_mount_default_def)
qed

section \<open>Witnesses\<close>

definition web_project :: project where
  "web_project = sample_project\<lparr>pj_spec := (pj_spec sample_project)\<lparr>
     ps_plugins := Some [sample_mount ''config'' ''/var/lib/dentdelion/a''],
     ps_isolation := Some \<lparr>iso_level = Sandbox, iso_network = None, iso_runtime_class_override = None\<rparr>\<rparr>\<rparr>"

lemma config_mount_wf: "plugin_wf (sample_mount ''config'' ''/var/lib/dentdelion/a'')"
proof -
  have "trim ''/var/lib/dentdelion/a'' = ''/var/lib/dentdelion/a''" "trim ''config'' = ''config''"
    by (simp_all add: trim_eval)
  then show ?thesis
    by (simp add: plugin_wf_def sample_mount_def plugin_dir_def PLUGIN_WASM_DIR_PREFIX_def starts_with_def
        trim_end_matches_def has_parent_dir_def)
qed

lemma web_project_valid: "validate_project (pj_spec web_project) = Inr ()"
  using config_mount_wf
  by (simp add: validate_project_wf project_wf_def web_project_def sample_project_def project_spec_default_def
      plugins_wf_def isolation_wf_def)

lemma web_project_parts [simp]:
  "require_namespace web_project = Inr ''prod''" "\<exists>r. owner_reference_of web_project = Inr r"
  "validated_image_pull_secrets web_project = Inr None" "build_main_container_probe web_project port = Inr None"
  "ps_services (pj_spec web_project) = None"
  "ps_isolation (pj_spec web_project) \<noteq> None"
  by (simp_all add: web_project_def sample_project_def project_spec_default_def require_namespace_def app_namespace_def
      ok_or_def owner_reference_of_def validated_image_pull_secrets_def build_main_container_probe_def)

lemma web_project_volumes: "\<exists>pv vm. build_plugin_volumes web_project = Inr (pv, vm)"
proof -
  have "validate_plugin (sample_mount ''config'' ''/var/lib/dentdelion/a'') = Inr ()"
    using config_mount_wf by (simp add: validate_plugin_iff)
  then have "validate_plugin_specs [sample_mount ''config'' ''/var/lib/dentdelion/a''] = Inr ()"
    by (simp add: validate_plugin_specs_def enumerate_eq_zip errs_of_def)
  then show ?thesis by (simp add: build_plugin_volumes_def web_project_def)
qed

lemma validate_port_8000: "validate_port f 8000 = Inr 8000" "validate_port f 80 = Inr 80"
  by (simp_all add: validate_port_def)

lemma web_project_builds:
  assumes "\<And>env vm. \<exists>x. pages_parts web_project pages env vm = Inr x"
  shows "\<exists>d. build_deployment web_project pages platform = Inr d"
proof -
  obtain r where r: "owner_reference_of web_project = Inr r" using web_project_parts(2) by blast
  obtain pv vm where v: "build_plugin_volumes web_project = Inr (pv, vm)" using web_project_volumes by blast
  obtain pgv ini extra where p: "pages_parts web_project pages (build_application_env_vars web_project) vm = Inr (pgv, ini, extra)"
    using assms by (metis surj_pair)
  show ?thesis by (simp add: build_deployment_def Let_def r v p validate_port_8000)
qed

lemma web_project_plain: "\<exists>d. build_deployment web_project None platform = Inr d"
  by (rule web_project_builds) (simp add: pages_parts_def)

theorem web_pod_wf_witness:
  "\<exists>d. build_deployment web_project None Onpremise = Inr d \<and> mounts_declared (deployment_pod d)
     \<and> \<not> distinct (volume_names (deployment_pod d))"
proof -
  obtain d where d: "build_deployment web_project None Onpremise = Inr d" using web_project_plain by blast
  have "sanitized_volume_suffix ''config'' = ''config''"
    by (simp add: sanitized_volume_suffix_def utf8_leads_def str_simps)
  then have "''config'' \<in> plugin_suffix ` set (unwrap_or [] (ps_plugins (pj_spec web_project)))"
    by (simp add: web_project_def sample_mount_def plugin_suffix_def)
  with web_pod_wf [OF d] web_project_valid d show ?thesis by blast
qed

theorem isolated_pods_restricted_witness:
  "\<exists>d. build_deployment web_project None Aws = Inr d \<and> restricted_pod (deployment_pod d)"
proof -
  obtain d where "build_deployment web_project None Aws = Inr d" using web_project_plain by blast
  with isolated_pods_restricted [of web_project None Aws None] show ?thesis by auto
qed

theorem services_reach_their_pods_witness:
  "\<exists>d s rd rs. build_deployment web_project None Aws = Inr d \<and> build_service web_project False = Inr s
     \<and> build_cache_deployment web_project = Inr rd \<and> build_cache_service web_project = Inr rs
     \<and> selects (svo_selector s) (deployment_pod_labels d) \<and> \<not> selects (svo_selector rs) (deployment_pod_labels d)"
proof -
  obtain r where r: "owner_reference_of web_project = Inr r" using web_project_parts(2) by blast
  obtain d where d: "build_deployment web_project None Aws = Inr d" using web_project_plain by blast
  have "\<exists>s rd rs. build_service web_project False = Inr s \<and> build_cache_deployment web_project = Inr rd
      \<and> build_cache_service web_project = Inr rs"
    by (simp add: build_service_def build_cache_deployment_def build_cache_service_def Let_def r validate_port_8000)
  then obtain s rd rs where b: "build_service web_project (None \<noteq> (None :: resolved_pages_config option)) = Inr s"
    "build_cache_deployment web_project = Inr rd" "build_cache_service web_project = Inr rs" by auto
  from services_reach_their_pods [OF d b] d b show ?thesis by (intro exI [of _ d] exI [of _ s] exI [of _ rd] exI [of _ rs]) simp
qed

theorem prebuilt_publication_confined_witness:
  "\<exists>d. build_deployment web_project (Some (resolved_pages_default\<lparr>rp_prebuilt := True\<rparr>)) Gcp = Inr d
     \<and> pod_init_containers (deployment_pod d) = Some [seed_container web_project ''/app/staticfiles'']"
proof -
  let ?c = "resolved_pages_default\<lparr>rp_prebuilt := True\<rparr>"
  have root: "trim_end_matches (CHR ''/'') (rp_static_root resolved_pages_default) = ''/app/staticfiles''"
    by (simp add: resolved_pages_default_def trim_end_matches_def)
  have "\<not> static_root_invalid ''/app/staticfiles''" "prebuilt_root_allowed ''/app/staticfiles''"
    by (simp_all add: static_root_invalid_def prebuilt_root_allowed_def reserved_app_dirs_def starts_with_def)
  moreover have "ps_env (pj_spec web_project) = []" by (simp add: web_project_def sample_project_def project_spec_default_def)
  ultimately have "\<exists>x. pages_parts web_project (Some ?c) env vm = Inr x" for env vm
    by (simp add: pages_parts_def static_seed_container_def root Let_def conflicting_publication_env_def)
  then obtain d where d: "build_deployment web_project (Some ?c) Gcp = Inr d" using web_project_builds by blast
  with prebuilt_publication_confined [OF d] root show ?thesis by (auto simp: Let_def)
qed

end
