(* ===== verification/RedisCredentials.thy ===== *)
theory RedisCredentials
  imports Kube
begin

text \<open>
  The Redis credentials of a project (\<open>reconciler.rs\<close>, \<open>inference/secrets.rs\<close>): the secret is
  created once, under a name a tenant can guess, in a namespace a tenant can write to. The operator
  commits to the generated data with a digest in the project's status before it creates the secret,
  and replaces the digest by the identifier the API server assigned. Strings are byte sequences;
  SHA-256 and the drawn password are parameters.
\<close>

section \<open>The secret\<close>

definition REDIS_CREDENTIALS_REVISION_ANNOTATION :: string where
  "REDIS_CREDENTIALS_REVISION_ANNOTATION = ''reinhardt.dev/redis-credentials-uid''"

definition standard_secret_labels :: "string \<Rightarrow> (string \<times> string) list" where
  "standard_secret_labels project_name =
     [(''app.kubernetes.io/managed-by'', ''reinhardt-cloud-operator''), (''app.kubernetes.io/name'', project_name)]"

definition CHARSET :: string where
  "CHARSET = ''ABCDEFGHIJKLMNOPQRSTUVWXYZabcdefghijklmnopqrstuvwxyz0123456789''"

text \<open>The random indices are the argument.\<close>

definition generate_random_password :: "nat list \<Rightarrow> string" where
  "generate_random_password draws = map (\<lambda>idx. CHARSET ! idx) draws"

definition build_redis_credentials_secret :: "nat list \<Rightarrow> string \<Rightarrow> string \<Rightarrow> secret" where
  "build_redis_credentials_secret draws project_name namespace =
     \<lparr>se_metadata = object_meta_default\<lparr>om_name := Some (project_name @ ''-redis-credentials''),
        om_namespace := Some namespace, om_labels := Some (map_of (standard_secret_labels project_name))\<rparr>,
      se_data = Some [(''password'', generate_random_password draws)], se_string_data = None,
      se_immutable = None, se_type = Some ''Opaque''\<rparr>"

definition build_managed_redis_credentials_secret :: "nat list \<Rightarrow> project \<Rightarrow> string \<Rightarrow> secret" where
  "build_managed_redis_credentials_secret draws app namespace =
     (build_redis_credentials_secret draws (name_any app) namespace)\<lparr>se_immutable := Some True\<rparr>"

text \<open>The bytes that are hashed: \<open>u64\<close> lengths in big-endian order before each key and value.\<close>

definition be_bytes :: "u64 \<Rightarrow> string" where
  "be_bytes n = map (\<lambda>i. char_of (unat (drop_bit (8 * i) n) mod 256)) [7, 6, 5, 4, 3, 2, 1, 0]"

definition length_prefixed :: "string \<Rightarrow> string" where
  "length_prefixed bs = be_bytes (of_nat (length bs)) @ bs"

definition redis_credentials_encoding :: "secret_data option \<Rightarrow> string" where
  "redis_credentials_encoding data =
     concat (map (\<lambda>(k, v). length_prefixed k @ length_prefixed v) (unwrap_or [] data))"

definition hex_digit :: "nat \<Rightarrow> char" where
  "hex_digit n = ''0123456789abcdef'' ! n"

definition hex_encode :: "string \<Rightarrow> string" where
  "hex_encode bs = concat (map (\<lambda>b. [hex_digit (of_char b div 16), hex_digit (of_char b mod 16)]) bs)"

definition redis_credentials_digest :: "(string \<Rightarrow> string) \<Rightarrow> secret \<Rightarrow> string" where
  "redis_credentials_digest sha256 s = hex_encode (sha256 (redis_credentials_encoding (se_data s)))"

section \<open>Provenance\<close>

text \<open>\<open>RedisCredentialsProvenance\<close> is the identifier of the secret.\<close>

definition redis_credentials_secret_provenance :: "(string \<Rightarrow> string) \<Rightarrow> secret \<Rightarrow> project \<Rightarrow> string option" where
  "redis_credentials_secret_provenance sha256 s app =
     (case (om_uid (se_metadata s), pj_status app) of
        (Some uid, Some status) \<Rightarrow>
          if (case st_redis_uid status of
                Some recorded_uid \<Rightarrow> recorded_uid = uid
              | None \<Rightarrow> (case st_redis_digest status of
                          None \<Rightarrow> False
                        | Some pending \<Rightarrow> pending = redis_credentials_digest sha256 s))
          then Some uid else None
      | _ \<Rightarrow> None)"

definition record_provenance :: "string \<Rightarrow> project_status \<Rightarrow> project_status" where
  "record_provenance uid status = status\<lparr>st_redis_uid := Some uid, st_redis_digest := None\<rparr>"

definition stamp_template :: "string \<Rightarrow> pod_template \<Rightarrow> pod_template" where
  "stamp_template uid t =
     (let m = unwrap_or object_meta_default (pt_metadata t);
          a = unwrap_or Map.empty (om_annotations m)
      in t\<lparr>pt_metadata := Some (m\<lparr>om_annotations := Some (a(REDIS_CREDENTIALS_REVISION_ANNOTATION \<mapsto> uid))\<rparr>)\<rparr>)"

definition stamp_pod_template :: "string \<Rightarrow> deployment \<Rightarrow> deployment" where
  "stamp_pod_template uid d = d\<lparr>dp_spec := map_option (\<lambda>s. s\<lparr>ds_template := stamp_template uid (ds_template s)\<rparr>) (dp_spec d)\<rparr>"

definition stamped_redis_credentials_uid :: "pod_template \<Rightarrow> string option" where
  "stamped_redis_credentials_uid t =
     Option.bind (Option.bind (pt_metadata t) om_annotations) (\<lambda>a. a REDIS_CREDENTIALS_REVISION_ANNOTATION)"

definition existing_resource_is_controlled_by_project :: "object_meta \<Rightarrow> project \<Rightarrow> bool" where
  "existing_resource_is_controlled_by_project m app \<longleftrightarrow>
     (case om_uid (pj_metadata app) of
        None \<Rightarrow> False
      | Some project_uid \<Rightarrow>
          list_ex (\<lambda>owner. or_uid owner = project_uid \<and> or_controller owner = Some True)
            (unwrap_or [] (om_owner_references m)))"

definition ownership_conflict_error :: "string \<Rightarrow> string \<Rightarrow> string \<Rightarrow> project \<Rightarrow> operator_error" where
  "ownership_conflict_error kind namespace nm app =
     ResourceOwnershipConflict kind namespace nm (unwrap_or [] (app_namespace app)) (name_any app)"

section \<open>Requests\<close>

definition patch_redis_credentials_provenance ::
  "'w secret_api \<Rightarrow> string \<Rightarrow> string \<Rightarrow> string option \<Rightarrow> string option \<Rightarrow> string option \<Rightarrow> ('w, operator_error, unit) kube_op" where
  "patch_redis_credentials_provenance api ns nm uid digest resource_version =
     (let p = empty_patch\<lparr>sp_redis_uid := or_null uid, sp_redis_digest := or_null digest\<rparr> in
      case resource_version of
        None \<Rightarrow> op_kube (do_request (PatchStatus ns nm p) (k_patch_status api ns nm p))
      | Some v \<Rightarrow> op_kube (do_request (PatchStatusAt ns nm v p) (k_patch_status_at api ns nm v p)))"

definition get_secret :: "'w secret_api \<Rightarrow> string \<Rightarrow> string \<Rightarrow> ('w, operator_error, secret option) kube_op" where
  "get_secret api ns n = op_kube (do_request (GetSecret ns n) (k_get_secret api ns n))"

definition create_secret :: "'w secret_api \<Rightarrow> string \<Rightarrow> secret \<Rightarrow> ('w, operator_error, secret) kube_op" where
  "create_secret api ns s = op_kube (do_request (CreateSecret ns s) (k_create_secret api ns s))"

text \<open>The metadata patch that \<open>enforce_redis_credentials_metadata\<close> sends, when one is needed.\<close>

definition retained_owners :: "project \<Rightarrow> secret \<Rightarrow> owner_reference list option" where
  "retained_owners app s =
     (let owners = unwrap_or [] (om_owner_references (se_metadata s)) in
      case om_uid (pj_metadata app) of
        None \<Rightarrow> None
      | Some project_uid \<Rightarrow>
          (let retained = filter (\<lambda>owner. or_uid owner \<noteq> project_uid) owners
           in if length retained \<noteq> length owners then Some retained else None))"

definition restored_labels :: "project \<Rightarrow> secret \<Rightarrow> (string \<times> string) list option" where
  "restored_labels app s =
     (let expected_labels = standard_secret_labels (name_any app) in
      if list_all (\<lambda>(k, v). Option.bind (om_labels (se_metadata s)) (\<lambda>m. m k) = Some v) expected_labels
      then None else Some expected_labels)"

definition enforce_redis_credentials_metadata ::
  "'w secret_api \<Rightarrow> (string \<Rightarrow> string) \<Rightarrow> string \<Rightarrow> project \<Rightarrow> secret \<Rightarrow> ('w, operator_error, unit) kube_op" where
  "enforce_redis_credentials_metadata api sha256 ns app s =
     (if redis_credentials_secret_provenance sha256 s app = None then op_return ()
      else if retained_owners app s = None \<and> restored_labels app s = None then op_return ()
      else
        (case om_resource_version (se_metadata s) of
           None \<Rightarrow> op_throw (SecretGeneration ''Redis credentials Secret has no resourceVersion'')
         | Some v \<Rightarrow>
             (let n = unwrap_or (unwrap_or [] (om_generate_name (se_metadata s))) (om_name (se_metadata s));
                  p = \<lparr>sep_owner_references = retained_owners app s, sep_labels = restored_labels app s,
                       sep_uid = om_uid (se_metadata s), sep_resource_version = v\<rparr>
              in op_kube (do_request (PatchSecret ns n p) (k_patch_secret api ns n p)))))"

definition adopt_redis_credentials ::
  "'w secret_api \<Rightarrow> (string \<Rightarrow> string) \<Rightarrow> string \<Rightarrow> project \<Rightarrow> secret \<Rightarrow> ('w, operator_error, string) kube_op" where
  "adopt_redis_credentials api sha256 ns app existing =
     (let nm = name_any app; secret_name = nm @ ''-redis-credentials'' in
      case redis_credentials_secret_provenance sha256 existing app of
        None \<Rightarrow> op_throw (ownership_conflict_error ''Secret'' ns secret_name app)
      | Some uid \<Rightarrow>
          op_bind (enforce_redis_credentials_metadata api sha256 ns app existing) (\<lambda>_.
          if se_immutable existing \<noteq> Some True
          then op_throw (SecretGeneration (''Redis credentials Secret '' @ ns @ ''/'' @ secret_name
                 @ '' is mutable; a platform administrator must verify and freeze it before adoption''))
          else
            (let uid_recorded = (Option.bind (pj_status app) st_redis_uid \<noteq> None);
                 digest_pending = (Option.bind (pj_status app) st_redis_digest \<noteq> None)
             in op_bind (if \<not> uid_recorded \<or> digest_pending
                         then patch_redis_credentials_provenance api ns nm (Some uid) None None
                         else op_return ()) (\<lambda>_. op_return uid))))"

definition create_redis_credentials ::
  "'w secret_api \<Rightarrow> (string \<Rightarrow> string) \<Rightarrow> nat list \<Rightarrow> string \<Rightarrow> project \<Rightarrow> ('w, operator_error, string) kube_op" where
  "create_redis_credentials api sha256 draws ns app =
     (let nm = name_any app;
          s = build_managed_redis_credentials_secret draws app ns;
          digest = redis_credentials_digest sha256 s
      in op_bind (patch_redis_credentials_provenance api ns nm None (Some digest)
                    (om_resource_version (pj_metadata app))) (\<lambda>_.
         op_bind (create_secret api ns s) (\<lambda>created.
         case om_uid (se_metadata created) of
           None \<Rightarrow> op_throw (SecretGeneration ''created Redis credentials Secret has no UID'')
         | Some uid \<Rightarrow>
             op_bind (patch_redis_credentials_provenance api ns nm (Some uid) None None) (\<lambda>_. op_return uid))))"

definition reconcile_redis_credentials_secret ::
  "'w secret_api \<Rightarrow> (string \<Rightarrow> string) \<Rightarrow> nat list \<Rightarrow> string \<Rightarrow> project \<Rightarrow> ('w, operator_error, string) kube_op" where
  "reconcile_redis_credentials_secret api sha256 draws ns app =
     op_bind (get_secret api ns (name_any app @ ''-redis-credentials'')) (\<lambda>existing.
       case existing of
         Some s \<Rightarrow> adopt_redis_credentials api sha256 ns app s
       | None \<Rightarrow> create_redis_credentials api sha256 draws ns app)"

definition retain_redis_credentials_secret ::
  "'w secret_api \<Rightarrow> (string \<Rightarrow> string) \<Rightarrow> string \<Rightarrow> project \<Rightarrow> string \<Rightarrow> ('w, operator_error, unit) kube_op" where
  "retain_redis_credentials_secret api sha256 ns app nm =
     op_bind (get_secret api ns (nm @ ''-redis-credentials'')) (\<lambda>existing.
       case existing of
         Some s \<Rightarrow> enforce_redis_credentials_metadata api sha256 ns app s
       | None \<Rightarrow> op_return ())"

definition delete_redis_credentials_secret_if_managed ::
  "'w secret_api \<Rightarrow> (string \<Rightarrow> string) \<Rightarrow> project \<Rightarrow> string \<Rightarrow> string \<Rightarrow> ('w, operator_error, unit) kube_op" where
  "delete_redis_credentials_secret_if_managed api sha256 app ns nm =
     op_bind (get_secret api ns (nm @ ''-redis-credentials'')) (\<lambda>existing.
       case existing of
         None \<Rightarrow> op_return ()
       | Some s \<Rightarrow>
           if redis_credentials_secret_provenance sha256 s app \<noteq> None
           then op_bind (op_try (do_request (DeleteSecret ns (nm @ ''-redis-credentials'') (om_uid (se_metadata s)))
                  (k_delete_secret api ns (nm @ ''-redis-credentials'') (om_uid (se_metadata s)))))
                  (\<lambda>_. op_return ())
           else op_return ())"

text \<open>The watch on secrets: from a secret to the name and namespace of its project.\<close>

definition redis_credentials_secret_project_ref :: "secret \<Rightarrow> (string \<times> string) option" where
  "redis_credentials_secret_project_ref s =
     (case (om_namespace (se_metadata s), om_name (se_metadata s)) of
        (Some ns, Some n) \<Rightarrow>
          (case strip_suffix n ''-redis-credentials'' of
             Some p \<Rightarrow> if p \<noteq> [] then Some (p, ns) else None
           | None \<Rightarrow> None)
      | _ \<Rightarrow> None)"

definition roll_consumer ::
  "'w secret_api \<Rightarrow> string \<Rightarrow> project \<Rightarrow> string \<Rightarrow> string \<Rightarrow> ('w, operator_error, unit) kube_op" where
  "roll_consumer api ns app uid n =
     op_bind (op_kube (do_request (GetDeployment ns n) (k_get_deployment api ns n))) (\<lambda>found.
       case found of
         None \<Rightarrow> op_return ()
       | Some d \<Rightarrow>
           if \<not> existing_resource_is_controlled_by_project (dp_metadata d) app then op_return ()
           else if Option.bind (dp_spec d) (\<lambda>s. stamped_redis_credentials_uid (ds_template s)) = Some uid then op_return ()
           else op_kube (do_request (PatchTemplateAnnotation ns n REDIS_CREDENTIALS_REVISION_ANNOTATION uid)
                  (k_patch_template_annotation api ns n REDIS_CREDENTIALS_REVISION_ANNOTATION uid)))"

definition roll_redis_credential_consumers ::
  "'w secret_api \<Rightarrow> string \<Rightarrow> project \<Rightarrow> string \<Rightarrow> ('w, operator_error, unit) kube_op" where
  "roll_redis_credential_consumers api ns app uid =
     op_bind (roll_consumer api ns app uid (name_any app)) (\<lambda>_.
     op_bind (roll_consumer api ns app uid (name_any app @ ''-worker'')) (\<lambda>_.
     roll_consumer api ns app uid (name_any app @ ''-redis'')))"


section \<open>The encoding identifies the data\<close>

lemma length_be_bytes [simp]: "length (be_bytes n) = 8"
  by (simp add: be_bytes_def)

lemma be_bytes_inj: "be_bytes m = be_bytes n \<Longrightarrow> m = n"
proof -
  assume "be_bytes m = be_bytes n"
  from arg_cong [OF this, of "map of_char :: string \<Rightarrow> nat list"]
  have b: "unat (drop_bit (8 * i) m) mod 256 = unat (drop_bit (8 * i) n) mod 256"
    if "i \<in> set [7, 6, 5, 4, 3, 2, 1, 0]" for i :: nat
    using that unfolding be_bytes_def map_map o_def of_char_of map_eq_conv mod_mod_trivial by blast
  show "m = n"
  proof (rule bit_word_eqI)
    fix k assume "k < LENGTH(64)"
    then have k: "k div 8 \<in> set [7, 6, 5, 4, 3, 2, 1, 0]" "8 * (k div 8) + k mod 8 = k" "k mod 8 < 8" by auto
    have "take_bit 8 (unat (drop_bit (8 * (k div 8)) m)) = take_bit 8 (unat (drop_bit (8 * (k div 8)) n))"
      using b [OF k(1)] by (simp add: take_bit_eq_mod)
    then have "bit (take_bit 8 (unat (drop_bit (8 * (k div 8)) m))) (k mod 8)
      = bit (take_bit 8 (unat (drop_bit (8 * (k div 8)) n))) (k mod 8)" by simp
    then show "bit m k = bit n k" by (simp add: bit_take_bit_iff bit_unsigned_iff bit_drop_bit_eq k(2,3))
  qed
qed

lemma length_prefixed_neq_Nil [simp]: "length_prefixed xs \<noteq> []"
  using length_be_bytes [of "of_nat (length xs)"] by (auto simp: length_prefixed_def simp del: length_be_bytes)

lemma length_prefixed_append_inj:
  assumes "length xs < 2 ^ 64" and "length ys < 2 ^ 64"
    and "length_prefixed xs @ us = length_prefixed ys @ vs"
  shows "xs = ys \<and> us = vs"
proof -
  from assms(3) have "be_bytes (of_nat (length xs)) = be_bytes (of_nat (length ys))" and t: "xs @ us = ys @ vs"
    by (simp_all add: length_prefixed_def append_eq_append_conv)
  then have "(of_nat (length xs) :: u64) = of_nat (length ys)" by (blast dest: be_bytes_inj)
  moreover have "unat (of_nat (length zs) :: u64) = length zs" if "length zs < 2 ^ 64" for zs :: string
    using that by (simp add: unat_of_nat)
  ultimately have "length xs = length ys" using assms(1,2) by metis
  with t show ?thesis by simp
qed

definition data_fits :: "secret_data option \<Rightarrow> bool" where
  "data_fits data \<longleftrightarrow> list_all (\<lambda>(k, v). length k < 2 ^ 64 \<and> length v < 2 ^ 64) (unwrap_or [] data)"

lemma redis_credentials_encoding_inj:
  assumes "data_fits d" and "data_fits e" and "redis_credentials_encoding d = redis_credentials_encoding e"
  shows "unwrap_or [] d = unwrap_or [] e"
proof -
  have "xs = ys" if "concat (map (\<lambda>(k, v). length_prefixed k @ length_prefixed v) xs)
      = concat (map (\<lambda>(k, v). length_prefixed k @ length_prefixed v) ys)"
    "list_all (\<lambda>(k, v). length k < 2 ^ 64 \<and> length v < 2 ^ 64) xs"
    "list_all (\<lambda>(k, v). length k < 2 ^ 64 \<and> length v < 2 ^ 64) ys" for xs ys :: secret_data
    using that
  proof (induction xs arbitrary: ys)
    case Nil
    then show ?case by (cases ys) auto
  next
    case (Cons x xs)
    then obtain y ys' where y: "ys = y # ys'" by (cases ys) (auto split: prod.splits)
    obtain k v k' v' where kv: "x = (k, v)" "y = (k', v')" by (cases x, cases y)
    note fits = Cons.prems(2,3) [unfolded y kv list.pred_inject case_prod_conv]
    have "k = k' \<and> length_prefixed v @ concat (map (\<lambda>(k, v). length_prefixed k @ length_prefixed v) xs)
      = length_prefixed v' @ concat (map (\<lambda>(k, v). length_prefixed k @ length_prefixed v) ys')"
      by (rule length_prefixed_append_inj) (use fits Cons.prems(1) in \<open>simp_all add: y kv\<close>)
    moreover from this have "v = v' \<and> concat (map (\<lambda>(k, v). length_prefixed k @ length_prefixed v) xs)
      = concat (map (\<lambda>(k, v). length_prefixed k @ length_prefixed v) ys')"
      by (intro length_prefixed_append_inj) (use fits in simp_all)
    ultimately show ?case using Cons.IH [of ys'] fits by (simp add: y kv)
  qed
  with assms show ?thesis by (simp add: data_fits_def redis_credentials_encoding_def)
qed

lemma hex_digit_inj: "hex_digit m = hex_digit n \<Longrightarrow> m < 16 \<Longrightarrow> n < 16 \<Longrightarrow> m = n"
  unfolding hex_digit_def by (auto simp: numeral_eq_Suc less_Suc_eq)

lemma hex_encode_inj: "hex_encode xs = hex_encode ys \<Longrightarrow> xs = ys"
proof (induction xs arbitrary: ys)
  case Nil
  then show ?case by (cases ys) (auto simp: hex_encode_def)
next
  case (Cons x xs)
  then obtain y ys' where y: "ys = y # ys'" by (cases ys) (auto simp: hex_encode_def)
  with Cons.prems have "hex_digit (of_char x div 16) = hex_digit (of_char y div 16)"
    "hex_digit (of_char x mod 16) = hex_digit (of_char y mod 16)" "hex_encode xs = hex_encode ys'"
    by (simp_all add: hex_encode_def)
  moreover have "of_char c div 16 < (16 :: nat)" "of_char c mod 16 < (16 :: nat)" for c
    by (simp_all add: less_mult_imp_div_less)
  ultimately have "of_char x div 16 = (of_char y div 16 :: nat)" "of_char x mod 16 = (of_char y mod 16 :: nat)"
    by (blast intro: hex_digit_inj)+
  then have "x = y" by (metis div_mult_mod_eq of_char_eq_iff)
  with y Cons.IH [OF \<open>hex_encode xs = hex_encode ys'\<close>] show ?case by simp
qed


section \<open>The server, the tenant and the history of a project's status\<close>

text \<open>
  What of the server matters: the secrets by namespace and name, and the identifiers ever assigned.
  \<open>secret_evolve\<close> is what anybody may do in between: metadata changes, deletions, new secrets under
  fresh identifiers with any content; the data of an immutable secret stays.
\<close>

type_synonym vault = "(string \<times> string \<Rightarrow> secret option) \<times> string set"

abbreviation secret_uid :: "secret \<Rightarrow> string option" where
  "secret_uid s \<equiv> om_uid (se_metadata s)"

definition vault_ok :: "vault \<Rightarrow> bool" where
  "vault_ok v \<longleftrightarrow>
     (\<forall>k s u. fst v k = Some s \<longrightarrow> secret_uid s = Some u \<longrightarrow>
        u \<in> snd v \<and> (\<forall>k' s'. fst v k' = Some s' \<longrightarrow> secret_uid s' = Some u \<longrightarrow> k' = k))"

definition secret_evolve :: "vault \<Rightarrow> vault \<Rightarrow> bool" where
  "secret_evolve v v' \<longleftrightarrow> snd v \<subseteq> snd v' \<and> vault_ok v' \<and>
     (\<forall>k s' u. fst v' k = Some s' \<longrightarrow> secret_uid s' = Some u \<longrightarrow> u \<in> snd v \<longrightarrow>
        (\<exists>s. fst v k = Some s \<and> secret_uid s = Some u
           \<and> (se_immutable s = Some True \<longrightarrow> se_immutable s' = Some True \<and> se_data s' = se_data s)))"

definition secret_server :: "'w secret_api \<Rightarrow> ('w \<Rightarrow> vault) \<Rightarrow> bool" where
  "secret_server api view \<longleftrightarrow> (\<forall>w. vault_ok (view w)
     \<and> (\<forall>ns n r w'. k_get_secret api ns n w = (r, w') \<longrightarrow>
          (\<exists>v. secret_evolve (view w) v \<and> secret_evolve v (view w') \<and> (\<forall>x. r = Inr x \<longrightarrow> x = fst v (ns, n))))
     \<and> (\<forall>ns s r w'. k_create_secret api ns s w = (r, w') \<longrightarrow> secret_evolve (view w) (view w')
          \<and> (\<forall>s' u. r = Inr s' \<longrightarrow> secret_uid s' = Some u \<longrightarrow>
               (\<exists>v k. secret_evolve (view w) v \<and> u \<notin> snd v \<and> se_data s' = se_data s \<and> se_immutable s' = se_immutable s
                  \<and> secret_evolve ((fst v)(k \<mapsto> s'), insert u (snd v)) (view w'))))
     \<and> (\<forall>ns n p. secret_evolve (view w) (view (snd (k_patch_secret api ns n p w))))
     \<and> (\<forall>ns n p. secret_evolve (view w) (view (snd (k_patch_status api ns n p w))))
     \<and> (\<forall>ns n v p. secret_evolve (view w) (view (snd (k_patch_status_at api ns n v p w)))))"

text \<open>A secret whose data has the digest of data the operator drew.\<close>

definition operator_made :: "(string \<Rightarrow> string) \<Rightarrow> nat list set \<Rightarrow> secret_data option \<Rightarrow> bool" where
  "operator_made sha256 P data \<longleftrightarrow> (\<exists>draws\<in>P. sha256 (redis_credentials_encoding data)
     = sha256 (redis_credentials_encoding (Some [(''password'', generate_random_password draws)])))"

definition approved :: "(string \<Rightarrow> string) \<Rightarrow> nat list set \<Rightarrow> vault \<Rightarrow> string \<Rightarrow> bool" where
  "approved sha256 P v u \<longleftrightarrow> u \<in> snd v \<and>
     (\<forall>k s. fst v k = Some s \<longrightarrow> secret_uid s = Some u \<longrightarrow>
        se_immutable s = Some True \<and> operator_made sha256 P (se_data s))"

definition committed :: "(string \<Rightarrow> string) \<Rightarrow> nat list set \<Rightarrow> string \<Rightarrow> bool" where
  "committed sha256 P d \<longleftrightarrow> (\<exists>draws\<in>P.
     d = hex_encode (sha256 (redis_credentials_encoding (Some [(''password'', generate_random_password draws)]))))"

definition sent :: "kube_log \<Rightarrow> status_patch \<Rightarrow> bool" where
  "sent l p \<longleftrightarrow> (\<exists>ok ns n. (PatchStatus ns n p, ok) \<in> set l) \<or> (\<exists>ok ns n v. (PatchStatusAt ns n v p, ok) \<in> set l)"

text \<open>
  Every status the project may ever have had. A pass starts from any of them (the operator's cache
  may be stale), may stop anywhere, and each of its patches may be lost; the other status updates
  carry the two fields over from a status that was read, or record what the pass returned.
\<close>

inductive redis_history ::
  "'w secret_api \<Rightarrow> ('w \<Rightarrow> vault) \<Rightarrow> (string \<Rightarrow> string) \<Rightarrow> nat list set \<Rightarrow> string \<Rightarrow> 'w \<Rightarrow> project_status set \<Rightarrow> bool"
  for api view sha256 P ns where
  start: "st_redis_uid st = None \<Longrightarrow> st_redis_digest st = None \<Longrightarrow> redis_history api view sha256 P ns w {st}"
| others: "redis_history api view sha256 P ns w S \<Longrightarrow> secret_evolve (view w) (view w')
    \<Longrightarrow> redis_history api view sha256 P ns w' S"
| one_pass: "redis_history api view sha256 P ns w S \<Longrightarrow> current_status app \<in> S \<Longrightarrow> draws \<in> P
    \<Longrightarrow> reconcile_redis_credentials_secret api sha256 draws ns app (w, []) = (r, (w', l))
    \<Longrightarrow> redis_history api view sha256 P ns w'
          (S \<union> {fold merge_status ps st | ps st. st \<in> S \<and> (\<forall>p\<in>set ps. sent l p)}
             \<union> {record_provenance uid st | uid st. st \<in> S \<and> r = Inr uid})"
| update: "redis_history api view sha256 P ns w S \<Longrightarrow> read \<in> S \<Longrightarrow> st \<in> S
    \<Longrightarrow> st_redis_uid s = st_redis_uid read \<Longrightarrow> st_redis_digest s = st_redis_digest read
    \<Longrightarrow> redis_history api view sha256 P ns w (insert (merge_status (serialize_status s) st) S)"

definition good_status :: "(string \<Rightarrow> string) \<Rightarrow> nat list set \<Rightarrow> vault \<Rightarrow> project_status \<Rightarrow> bool" where
  "good_status sha256 P v st \<longleftrightarrow>
     (\<forall>u. st_redis_uid st = Some u \<longrightarrow> approved sha256 P v u)
     \<and> (\<forall>d. st_redis_digest st = Some d \<longrightarrow> committed sha256 P d)"

definition good_patch :: "(string \<Rightarrow> string) \<Rightarrow> nat list set \<Rightarrow> vault \<Rightarrow> status_patch \<Rightarrow> bool" where
  "good_patch sha256 P v p \<longleftrightarrow>
     (\<forall>u. sp_redis_uid p = Value u \<longrightarrow> approved sha256 P v u)
     \<and> (\<forall>d. sp_redis_digest p = Value d \<longrightarrow> committed sha256 P d)"

lemma vault_ok_unique:
  "vault_ok v \<Longrightarrow> fst v k = Some s \<Longrightarrow> secret_uid s = Some u \<Longrightarrow> fst v k' = Some s' \<Longrightarrow> secret_uid s' = Some u \<Longrightarrow> k' = k"
  unfolding vault_ok_def by blast

lemma secret_evolve_refl: "vault_ok v \<Longrightarrow> secret_evolve v v"
  by (auto simp: secret_evolve_def)

lemma secret_evolveD:
  assumes "secret_evolve v v'" and "fst v' k = Some s'" and "secret_uid s' = Some u" and "u \<in> snd v"
  obtains s where "fst v k = Some s" "secret_uid s = Some u"
    "se_immutable s = Some True \<Longrightarrow> se_immutable s' = Some True \<and> se_data s' = se_data s"
  using assms unfolding secret_evolve_def by blast

lemma secret_evolve_trans [trans]:
  assumes 1: "secret_evolve u v" and 2: "secret_evolve v w"
  shows "secret_evolve u w"
proof -
  have "\<exists>s. fst u k = Some s \<and> secret_uid s = Some i
      \<and> (se_immutable s = Some True \<longrightarrow> se_immutable s' = Some True \<and> se_data s' = se_data s)"
    if k: "fst w k = Some s'" "secret_uid s' = Some i" "i \<in> snd u" for k s' i
  proof -
    from 1 k(3) have "i \<in> snd v" by (auto simp: secret_evolve_def)
    with 2 k obtain t where t: "fst v k = Some t" "secret_uid t = Some i"
      "se_immutable t = Some True \<Longrightarrow> se_immutable s' = Some True \<and> se_data s' = se_data t"
      by (blast elim: secret_evolveD)
    with 1 k(3) obtain s where "fst u k = Some s" "secret_uid s = Some i"
      "se_immutable s = Some True \<Longrightarrow> se_immutable t = Some True \<and> se_data t = se_data s"
      by (blast elim: secret_evolveD)
    with t show ?thesis by auto
  qed
  moreover have "snd u \<subseteq> snd w" "vault_ok w" using 1 2 by (auto simp: secret_evolve_def)
  ultimately show ?thesis unfolding secret_evolve_def by blast
qed

lemma approved_evolve: "approved sha256 P v u \<Longrightarrow> secret_evolve v v' \<Longrightarrow> approved sha256 P v' u"
  unfolding approved_def by (auto simp: secret_evolve_def) (metis)+

lemma good_status_evolve: "good_status sha256 P v st \<Longrightarrow> secret_evolve v v' \<Longrightarrow> good_status sha256 P v' st"
  by (auto simp: good_status_def intro: approved_evolve)

lemma good_patch_evolve: "good_patch sha256 P v p \<Longrightarrow> secret_evolve v v' \<Longrightarrow> good_patch sha256 P v' p"
  by (auto simp: good_patch_def intro: approved_evolve)

lemma good_merge: "good_patch sha256 P v p \<Longrightarrow> good_status sha256 P v st \<Longrightarrow> good_status sha256 P v (merge_status p st)"
  by (cases "sp_redis_uid p"; cases "sp_redis_digest p")
    (simp_all add: good_patch_def good_status_def merge_status_def)

lemma good_merges:
  "\<forall>p\<in>set ps. good_patch sha256 P v p \<Longrightarrow> good_status sha256 P v st \<Longrightarrow> good_status sha256 P v (fold merge_status ps st)"
  by (induction ps arbitrary: st) (simp_all add: good_merge)


section \<open>One pass\<close>

lemma server_ok: "secret_server api view \<Longrightarrow> vault_ok (view w)"
  by (simp add: secret_server_def)

lemma server_get:
  assumes "secret_server api view" and "k_get_secret api ns n w = (r, w')"
  obtains v where "secret_evolve (view w) v" "secret_evolve v (view w')" "\<And>x. r = Inr x \<Longrightarrow> x = fst v (ns, n)"
proof -
  from assms(1) have "\<forall>ns n r w'. k_get_secret api ns n w = (r, w') \<longrightarrow>
      (\<exists>v. secret_evolve (view w) v \<and> secret_evolve v (view w') \<and> (\<forall>x. r = Inr x \<longrightarrow> x = fst v (ns, n)))"
    unfolding secret_server_def by (elim allE [of _ w] conjE)
  from this [rule_format, OF assms(2)] show ?thesis using that by auto
qed

lemma server_create:
  assumes "secret_server api view" and "k_create_secret api ns s w = (r, w')"
  shows "secret_evolve (view w) (view w')"
    and "r = Inr s' \<Longrightarrow> secret_uid s' = Some u \<Longrightarrow>
      \<exists>v k. secret_evolve (view w) v \<and> u \<notin> snd v \<and> se_data s' = se_data s \<and> se_immutable s' = se_immutable s
        \<and> secret_evolve ((fst v)(k \<mapsto> s'), insert u (snd v)) (view w')"
proof -
  from assms(1) have "\<forall>ns s r w'. k_create_secret api ns s w = (r, w') \<longrightarrow> secret_evolve (view w) (view w')
          \<and> (\<forall>s' u. r = Inr s' \<longrightarrow> secret_uid s' = Some u \<longrightarrow>
               (\<exists>v k. secret_evolve (view w) v \<and> u \<notin> snd v \<and> se_data s' = se_data s \<and> se_immutable s' = se_immutable s
                  \<and> secret_evolve ((fst v)(k \<mapsto> s'), insert u (snd v)) (view w')))"
    unfolding secret_server_def by (elim allE [of _ w] conjE)
  from this [rule_format, OF assms(2)] show "secret_evolve (view w) (view w')"
    and "r = Inr s' \<Longrightarrow> secret_uid s' = Some u \<Longrightarrow>
      \<exists>v k. secret_evolve (view w) v \<and> u \<notin> snd v \<and> se_data s' = se_data s \<and> se_immutable s' = se_immutable s
        \<and> secret_evolve ((fst v)(k \<mapsto> s'), insert u (snd v)) (view w')" by simp_all
qed

lemma server_writes:
  assumes "secret_server api view"
  shows "k_patch_secret api ns n sp w = (r', w') \<Longrightarrow> secret_evolve (view w) (view w')"
    and "k_patch_status api ns n p w = (r', w') \<Longrightarrow> secret_evolve (view w) (view w')"
    and "k_patch_status_at api ns n v p w = (r', w') \<Longrightarrow> secret_evolve (view w) (view w')"
proof -
  from assms have "secret_evolve (view w) (view (snd (k_patch_secret api ns n sp w)))"
    "secret_evolve (view w) (view (snd (k_patch_status api ns n p w)))"
    "secret_evolve (view w) (view (snd (k_patch_status_at api ns n v p w)))"
    by (simp_all add: secret_server_def)
  then show "k_patch_secret api ns n sp w = (r', w') \<Longrightarrow> secret_evolve (view w) (view w')"
    and "k_patch_status api ns n p w = (r', w') \<Longrightarrow> secret_evolve (view w) (view w')"
    and "k_patch_status_at api ns n v p w = (r', w') \<Longrightarrow> secret_evolve (view w) (view w')" by simp_all
qed

lemma sent_simps [simp]:
  "\<not> sent [] p"
  "sent (l @ l') p \<longleftrightarrow> sent l p \<or> sent l' p"
  "sent [(PatchStatus ns n q, ok)] p \<longleftrightarrow> p = q"
  "sent [(PatchStatusAt ns n v q, ok)] p \<longleftrightarrow> p = q"
  "\<not> sent [(GetSecret ns n, ok)] p"
  "\<not> sent [(CreateSecret ns s, ok)] p"
  "\<not> sent [(PatchSecret ns n sp, ok)] p"
  by (auto simp: sent_def)

abbreviation provenance_patch :: "string option \<Rightarrow> string option \<Rightarrow> status_patch" where
  "provenance_patch uid digest \<equiv> empty_patch\<lparr>sp_redis_uid := or_null uid, sp_redis_digest := or_null digest\<rparr>"

lemma provenance_patch_runs:
  assumes "secret_server api view"
  shows "op_runs (w, l) (patch_redis_credentials_provenance api ns nm uid digest rv)
    (\<lambda>r w' l'. secret_evolve (view w) (view w') \<and> (\<forall>p. sent l' p \<longleftrightarrow> sent l p \<or> p = provenance_patch uid digest))"
  unfolding patch_redis_credentials_provenance_def Let_def
  by (intro run_rules) (auto dest: server_writes [OF assms])

lemma enforce_runs:
  assumes "secret_server api view"
  shows "op_runs (w, l) (enforce_redis_credentials_metadata api sha256 ns app s)
    (\<lambda>r w' l'. secret_evolve (view w) (view w') \<and> (\<forall>p. sent l' p \<longleftrightarrow> sent l p))"
  unfolding enforce_redis_credentials_metadata_def Let_def
  by (intro run_rules) (auto dest: server_writes [OF assms] intro: secret_evolve_refl server_ok [OF assms])

definition pass_ok ::
  "('w \<Rightarrow> vault) \<Rightarrow> (string \<Rightarrow> string) \<Rightarrow> nat list set \<Rightarrow> 'w \<Rightarrow> operator_error + string \<Rightarrow> 'w \<Rightarrow> kube_log \<Rightarrow> bool" where
  "pass_ok view sha256 P w r w' l \<longleftrightarrow> secret_evolve (view w) (view w')
     \<and> (\<forall>p. sent l p \<longrightarrow> good_patch sha256 P (view w') p) \<and> (\<forall>u. r = Inr u \<longrightarrow> approved sha256 P (view w') u)"

lemma good_provenance_patch:
  "good_patch sha256 P v (provenance_patch uid digest) \<longleftrightarrow>
     (\<forall>u. uid = Some u \<longrightarrow> approved sha256 P v u) \<and> (\<forall>d. digest = Some d \<longrightarrow> committed sha256 P d)"
  by (cases uid; cases digest) (simp_all add: good_patch_def or_null_def empty_patch_def)

lemma adopt_runs:
  assumes S: "secret_server api view"
    and a: "\<And>u. redis_credentials_secret_provenance sha256 s app = Some u \<Longrightarrow> se_immutable s = Some True
      \<Longrightarrow> approved sha256 P (view w) u"
    and l: "\<And>p. \<not> sent l p"
  shows "op_runs (w, l) (adopt_redis_credentials api sha256 ns app s) (pass_ok view sha256 P w)"
proof (cases "redis_credentials_secret_provenance sha256 s app")
  case None
  then show ?thesis
    by (simp add: adopt_redis_credentials_def Let_def op_runs_def pass_ok_def l secret_evolve_refl server_ok [OF S])
next
  case (Some u)
  have ok: "op_runs (w1, l1) (op_bind (if b then patch_redis_credentials_provenance api ns nm (Some u) None None else op_return ())
      (\<lambda>_. op_return u)) (pass_ok view sha256 P w)"
    if e: "secret_evolve (view w) (view w1)" and m: "se_immutable s = Some True" and l1: "\<And>p. \<not> sent l1 p" for w1 l1 b nm
  proof -
    note ap = approved_evolve [OF a [OF Some m]]
    show ?thesis
    proof (cases b)
      case True
      have "op_runs (w1, l1) (op_bind (patch_redis_credentials_provenance api ns nm (Some u) None None) (\<lambda>_. op_return u))
        (pass_ok view sha256 P w)"
        by (rule op_runs_bind [OF provenance_patch_runs [OF S]])
          (auto simp: op_runs_def pass_ok_def l1 good_provenance_patch intro: secret_evolve_trans [OF e] ap)
      with True show ?thesis by simp
    next
      case False
      with e l1 ap show ?thesis by (simp add: op_runs_def pass_ok_def)
    qed
  qed
  show ?thesis
    unfolding adopt_redis_credentials_def Let_def Some option.case
  proof (rule op_runs_bind [OF enforce_runs [OF S]], goal_cases)
    case (1 e w1 l1)
    then show ?case by (simp add: l pass_ok_def)
  next
    case (2 a w1 l1)
    then show ?case
      by (cases "se_immutable s = Some True"; simp only: simp_thms if_True if_False)
        (rule ok, auto simp: l op_runs_def pass_ok_def)
  qed
qed

lemma create_runs:
  assumes S: "secret_server api view" and d: "draws \<in> P" and l: "\<And>p. \<not> sent l p"
  shows "op_runs (w, l) (create_redis_credentials api sha256 draws ns app) (pass_ok view sha256 P w)"
proof -
  let ?s = "build_managed_redis_credentials_secret draws app ns"
  let ?d = "redis_credentials_digest sha256 ?s"
  have data: "se_data ?s = Some [(''password'', generate_random_password draws)]" "se_immutable ?s = Some True"
    by (simp_all add: build_managed_redis_credentials_secret_def build_redis_credentials_secret_def)
  have c: "committed sha256 P ?d" using d by (auto simp: committed_def redis_credentials_digest_def data)
  have ap: "approved sha256 P (view w') u"
    if cr: "k_create_secret api ns ?s w1 = (Inr s', w')" "secret_uid s' = Some u" for w1 w' s' u
  proof -
    obtain v k where v: "secret_evolve (view w1) v" "u \<notin> snd v" "se_data s' = se_data ?s" "se_immutable s' = se_immutable ?s"
      "secret_evolve ((fst v)(k \<mapsto> s'), insert u (snd v)) (view w')"
      using server_create(2) [OF S cr(1) refl cr(2)] by blast
    then have "vault_ok v" by (simp add: secret_evolve_def)
    then have "approved sha256 P ((fst v)(k \<mapsto> s'), insert u (snd v)) u"
      using v(2-4) d by (auto simp: approved_def vault_ok_def data operator_made_def)
    from approved_evolve [OF this v(5)] show ?thesis .
  qed
  have fin: "op_runs (w2, l2) (op_bind (patch_redis_credentials_provenance api ns nm (Some u) None None) (\<lambda>_. op_return u))
      (pass_ok view sha256 P w)"
    if "secret_evolve (view w) (view w2)" "approved sha256 P (view w2) u"
      "\<And>p. sent l2 p \<longleftrightarrow> p = provenance_patch None (Some ?d)" for w2 l2 u nm
    by (rule op_runs_bind [OF provenance_patch_runs [OF S]])
      (use that in \<open>auto simp: op_runs_def pass_ok_def good_provenance_patch c
         intro: secret_evolve_trans approved_evolve\<close>)
  show ?thesis
    unfolding create_redis_credentials_def Let_def
  proof (rule op_runs_bind [OF provenance_patch_runs [OF S]])
    fix a w1 l1
    assume p: "secret_evolve (view w) (view w1) \<and> (\<forall>p. sent l1 p \<longleftrightarrow> sent l p \<or> p = provenance_patch None (Some ?d))"
    then have p1: "secret_evolve (view w) (view w1)" "\<And>p. sent l1 p \<longleftrightarrow> p = provenance_patch None (Some ?d)" by (simp_all add: l)
    show "op_runs (w1, l1) (op_bind (create_secret api ns ?s) (\<lambda>created. case om_uid (se_metadata created) of
        None \<Rightarrow> op_throw (SecretGeneration ''created Redis credentials Secret has no UID'')
      | Some uid \<Rightarrow> op_bind (patch_redis_credentials_provenance api ns (name_any app) (Some uid) None None) (\<lambda>_. op_return uid)))
      (pass_ok view sha256 P w)"
      unfolding create_secret_def
      by (intro run_rules fin)
        (auto simp: pass_ok_def p1(2) good_provenance_patch c
          dest: server_create(1) [OF S] ap intro: secret_evolve_trans [OF p1(1)])
  qed (auto simp: pass_ok_def l good_provenance_patch c)
qed


lemma pass_ok_from:
  assumes "op_runs s m (pass_ok view sha256 P w1)" and "secret_evolve (view w) (view w1)"
  shows "op_runs s m (pass_ok view sha256 P w)"
  using assms(1) by (rule op_runs_mono) (auto simp: pass_ok_def intro: secret_evolve_trans [OF assms(2)])

lemma provenance_approved:
  assumes g: "good_status sha256 P (view w) (current_status app)"
    and e: "secret_evolve (view w) v" "secret_evolve v (view w1)"
    and s: "fst v k = Some s" and p: "redis_credentials_secret_provenance sha256 s app = Some u"
    and i: "se_immutable s = Some True"
  shows "approved sha256 P (view w1) u"
proof -
  obtain st where st: "pj_status app = Some st" "current_status app = st" "secret_uid s = Some u"
    using p by (cases "pj_status app") (auto simp: redis_credentials_secret_provenance_def current_status_def
        split: option.splits if_splits)
  have "approved sha256 P v u"
  proof (cases "st_redis_uid st")
    case (Some recorded)
    then have "recorded = u"
      using p by (simp add: redis_credentials_secret_provenance_def st split: if_splits)
    with Some g st(2) e(1) show ?thesis by (auto simp: good_status_def intro: approved_evolve)
  next
    case None
    then have "st_redis_digest st = Some (redis_credentials_digest sha256 s)"
      using p by (auto simp: redis_credentials_secret_provenance_def st split: option.splits if_splits)
    with g st(2) have "committed sha256 P (redis_credentials_digest sha256 s)" by (simp add: good_status_def)
    then have "operator_made sha256 P (se_data s)"
      by (auto simp: committed_def redis_credentials_digest_def operator_made_def dest: hex_encode_inj)
    moreover have "vault_ok v" using e(1) by (simp add: secret_evolve_def)
    moreover have "s' = s" if "fst v k' = Some s'" "secret_uid s' = Some u" for k' s'
      using vault_ok_unique [OF \<open>vault_ok v\<close> s st(3) that] that s by simp
    moreover have "u \<in> snd v" using \<open>vault_ok v\<close> s st(3) unfolding vault_ok_def by blast
    ultimately show ?thesis using i unfolding approved_def by blast
  qed
  then show ?thesis using e(2) by (rule approved_evolve)
qed

lemma adopt_pass:
  assumes S: "secret_server api view" and g: "good_status sha256 P (view w) (current_status app)"
    and e: "secret_evolve (view w) v" "secret_evolve v (view w1)" and s: "fst v k = Some s" and l: "\<And>p. \<not> sent l p"
  shows "op_runs (w1, l) (adopt_redis_credentials api sha256 ns app s) (pass_ok view sha256 P w)"
proof (rule pass_ok_from)
  show "secret_evolve (view w) (view w1)" using e by (rule secret_evolve_trans)
  show "op_runs (w1, l) (adopt_redis_credentials api sha256 ns app s) (pass_ok view sha256 P w1)"
  proof (rule adopt_runs [OF S _ l])
    fix u
    assume "redis_credentials_secret_provenance sha256 s app = Some u" and "se_immutable s = Some True"
    with g e s show "approved sha256 P (view w1) u" by (rule provenance_approved)
  qed
qed

lemma create_pass:
  assumes S: "secret_server api view" and d: "draws \<in> P" and e: "secret_evolve (view w) (view w1)" and l: "\<And>p. \<not> sent l p"
  shows "op_runs (w1, l) (create_redis_credentials api sha256 draws ns app) (pass_ok view sha256 P w)"
  by (rule pass_ok_from [OF create_runs [OF S d l] e])

lemma redis_pass:
  assumes S: "secret_server api view" and g: "good_status sha256 P (view w) (current_status app)" and d: "draws \<in> P"
  shows "op_runs (w, []) (reconcile_redis_credentials_secret api sha256 draws ns app) (pass_ok view sha256 P w)"
  unfolding reconcile_redis_credentials_secret_def get_secret_def
proof (rule op_runs_request_bind, goal_cases)
  case (1 e w1)
  then show ?case by (auto simp: pass_ok_def intro: secret_evolve_trans elim: server_get [OF S])
next
  case (2 x w1)
  from server_get [OF S this] obtain v where v: "secret_evolve (view w) v" "secret_evolve v (view w1)"
    "x = fst v (ns, name_any app @ ''-redis-credentials'')" by metis
  show ?case
  proof (cases x)
    case None
    with create_pass [OF S d secret_evolve_trans [OF v(1,2)]] show ?thesis by simp
  next
    case (Some s)
    with v(3) have "fst v (ns, name_any app @ ''-redis-credentials'') = Some s" by simp
    with Some adopt_pass [OF S g v(1,2)] show ?thesis by simp
  qed
qed

lemma redis_history_good:
  assumes S: "secret_server api view" and h: "redis_history api view sha256 P ns w S"
  shows "\<forall>st\<in>S. good_status sha256 P (view w) st"
  using h
proof (induction rule: redis_history.induct)
  case (start st w)
  then show ?case by (simp add: good_status_def)
next
  case (others w S w')
  then show ?case by (blast intro: good_status_evolve)
next
  case (one_pass w S app draws r w' l)
  have "pass_ok view sha256 P w r w' l"
    by (rule op_runsD [OF redis_pass [OF assms(1)] one_pass(4)]) (use one_pass in blast)+
  then have p: "secret_evolve (view w) (view w')" "\<And>p. sent l p \<Longrightarrow> good_patch sha256 P (view w') p"
    "\<And>u. r = Inr u \<Longrightarrow> approved sha256 P (view w') u" by (simp_all add: pass_ok_def)
  have g: "good_status sha256 P (view w') st" if "st \<in> S" for st
    using one_pass(5) that p(1) by (blast intro: good_status_evolve)
  have "good_status sha256 P (view w') (record_provenance u st)" if "r = Inr u" "st \<in> S" for u st
    using p(3) [OF that(1)] by (simp add: good_status_def record_provenance_def)
  then show ?case using g p(2) by (auto intro: good_merges)
next
  case (update w S read st s)
  then have "good_patch sha256 P (view w) (serialize_status s)"
    by (auto simp: good_patch_def good_status_def serialize_status_def unless_none_def split: option.splits)
  with update show ?case by (auto intro: good_merge)
qed


section \<open>Interrupted passes\<close>

text \<open>
  A server that nobody else disturbs, in which any request may fail, with or without its effect
  (\<open>sec\<close> is the secret under the project's name, \<open>stat\<close> the stored status).
\<close>

definition reads_secret ::
  "('w \<Rightarrow> secret option) \<Rightarrow> ('w \<Rightarrow> project_status) \<Rightarrow> ('w \<Rightarrow> (kube_error + secret option) \<times> 'w) \<Rightarrow> bool" where
  "reads_secret sec stat f \<longleftrightarrow>
     (\<forall>w r w'. f w = (r, w') \<longrightarrow> sec w' = sec w \<and> stat w' = stat w \<and> (\<forall>x. r = Inr x \<longrightarrow> x = sec w))"

definition creates_secret ::
  "('w \<Rightarrow> secret option) \<Rightarrow> ('w \<Rightarrow> project_status) \<Rightarrow> secret \<Rightarrow> ('w \<Rightarrow> (kube_error + secret) \<times> 'w) \<Rightarrow> bool" where
  "creates_secret sec stat s f \<longleftrightarrow>
     (\<forall>w r w'. f w = (r, w') \<longrightarrow> stat w' = stat w
        \<and> (sec w' = sec w \<and> isl r
           \<or> sec w = None \<and> (\<exists>u v. sec w' = Some (s\<lparr>se_metadata := (se_metadata s)\<lparr>om_uid := Some u, om_resource_version := Some v\<rparr>\<rparr>))
             \<and> (\<forall>x. r = Inr x \<longrightarrow> sec w' = Some x)))"

definition patches_status ::
  "('w \<Rightarrow> secret option) \<Rightarrow> ('w \<Rightarrow> project_status) \<Rightarrow> status_patch \<Rightarrow> ('w \<Rightarrow> (kube_error + unit) \<times> 'w) \<Rightarrow> bool" where
  "patches_status sec stat p f \<longleftrightarrow>
     (\<forall>w r w'. f w = (r, w') \<longrightarrow> sec w' = sec w
        \<and> (stat w' = stat w \<and> isl r \<or> stat w' = merge_status p (stat w)))"

definition patches_secret_metadata ::
  "('w \<Rightarrow> secret option) \<Rightarrow> ('w \<Rightarrow> project_status) \<Rightarrow> ('w \<Rightarrow> (kube_error + unit) \<times> 'w) \<Rightarrow> bool" where
  "patches_secret_metadata sec stat f \<longleftrightarrow>
     (\<forall>w r w'. f w = (r, w') \<longrightarrow> stat w' = stat w
        \<and> (\<forall>s. sec w = Some s \<longrightarrow> (\<exists>s'. sec w' = Some s' \<and> se_data s' = se_data s \<and> se_immutable s' = se_immutable s
             \<and> secret_uid s' = secret_uid s
             \<and> (om_resource_version (se_metadata s) \<noteq> None \<longrightarrow> om_resource_version (se_metadata s') \<noteq> None))))"

definition unreliable_server ::
  "'w secret_api \<Rightarrow> string \<Rightarrow> string \<Rightarrow> ('w \<Rightarrow> secret option) \<Rightarrow> ('w \<Rightarrow> project_status) \<Rightarrow> bool" where
  "unreliable_server api ns nm sec stat \<longleftrightarrow>
     reads_secret sec stat (k_get_secret api ns (nm @ ''-redis-credentials''))
     \<and> (\<forall>s. creates_secret sec stat s (k_create_secret api ns s))
     \<and> (\<forall>p. patches_status sec stat p (k_patch_status api ns nm p))
     \<and> (\<forall>v p. patches_status sec stat p (k_patch_status_at api ns nm v p))
     \<and> (\<forall>n p. patches_secret_metadata sec stat (k_patch_secret api ns n p))"

text \<open>The states an interrupted pass may leave: no secret, or one that its status vouches for.\<close>

definition recoverable :: "(string \<Rightarrow> string) \<Rightarrow> secret option \<Rightarrow> project_status \<Rightarrow> bool" where
  "recoverable sha256 so st \<longleftrightarrow> (case so of None \<Rightarrow> True
     | Some s \<Rightarrow> se_immutable s = Some True \<and> om_resource_version (se_metadata s) \<noteq> None
         \<and> (\<exists>u. secret_uid s = Some u \<and> (st_redis_uid st = Some u
              \<or> st_redis_uid st = None \<and> st_redis_digest st = Some (redis_credentials_digest sha256 s))))"

definition recorded :: "secret option \<Rightarrow> project_status \<Rightarrow> string \<Rightarrow> bool" where
  "recorded so st u \<longleftrightarrow> st_redis_uid st = Some u \<and> st_redis_digest st = None \<and> (\<exists>s. so = Some s \<and> secret_uid s = Some u)"

definition failed :: "kube_log \<Rightarrow> bool" where
  "failed l \<longleftrightarrow> (\<exists>c. (c, False) \<in> set l)"

lemma failed_append [simp]: "failed (l @ l') \<longleftrightarrow> failed l \<or> failed l'"
  and failed_simps [simp]: "failed [(c, b)] \<longleftrightarrow> \<not> b" "\<not> failed []"
  by (auto simp: failed_def)

definition recovers ::
  "('w \<Rightarrow> secret option) \<Rightarrow> ('w \<Rightarrow> project_status) \<Rightarrow> (string \<Rightarrow> string) \<Rightarrow> operator_error + string \<Rightarrow> 'w \<Rightarrow> kube_log \<Rightarrow> bool" where
  "recovers sec stat sha256 r w l \<longleftrightarrow> recoverable sha256 (sec w) (stat w)
     \<and> (case r of Inl _ \<Rightarrow> failed l | Inr u \<Rightarrow> recorded (sec w) (stat w) u)"

lemma merge_provenance [simp]:
  "st_redis_uid (merge_status (provenance_patch uid digest) st) = uid"
  "st_redis_digest (merge_status (provenance_patch uid digest) st) = digest"
  by (cases uid; cases digest; simp add: merge_status_def or_null_def)+

lemma unreliable_patch:
  assumes "unreliable_server api ns nm sec stat"
  shows "op_runs (w, l) (patch_redis_credentials_provenance api ns nm uid digest rv)
    (\<lambda>r w' l'. sec w' = sec w \<and> (failed l \<longrightarrow> failed l') \<and> (isl r \<longrightarrow> failed l')
       \<and> (stat w' = stat w \<and> isl r \<or> stat w' = merge_status (provenance_patch uid digest) (stat w)))"
proof -
  from assms have "patches_status sec stat p (k_patch_status api ns nm p)"
    "patches_status sec stat p (k_patch_status_at api ns nm v p)" for p v
    by (simp_all add: unreliable_server_def)
  then have "k_patch_status api ns nm p w = (r, w') \<Longrightarrow> sec w' = sec w
          \<and> (stat w' = stat w \<and> isl r \<or> stat w' = merge_status p (stat w))"
    "k_patch_status_at api ns nm v p w = (r, w') \<Longrightarrow> sec w' = sec w
          \<and> (stat w' = stat w \<and> isl r \<or> stat w' = merge_status p (stat w))" for w p r w' v
    unfolding patches_status_def by blast+
  then show ?thesis
    unfolding patch_redis_credentials_provenance_def Let_def
    by (intro run_rules) force+
qed

lemma unreliable_enforce:
  assumes "unreliable_server api ns nm sec stat" and "recoverable sha256 (sec w) (stat w)" and "sec w = Some s"
  shows "op_runs (w, l) (enforce_redis_credentials_metadata api sha256 ns app s)
    (\<lambda>r w' l'. stat w' = stat w \<and> recoverable sha256 (sec w') (stat w') \<and> (failed l \<longrightarrow> failed l') \<and> (isl r \<longrightarrow> failed l')
       \<and> (\<exists>s'. sec w' = Some s' \<and> secret_uid s' = secret_uid s))"
proof -
  from assms(2,3) obtain v where v: "om_resource_version (se_metadata s) = Some v" by (auto simp: recoverable_def)
  from assms(1) have "patches_secret_metadata sec stat (k_patch_secret api ns n p)" for n p
    by (simp add: unreliable_server_def)
  then have p: "stat w' = stat w \<and> (\<exists>s'. sec w' = Some s' \<and> se_data s' = se_data s \<and> se_immutable s' = se_immutable s
      \<and> secret_uid s' = secret_uid s \<and> om_resource_version (se_metadata s') \<noteq> None)"
    if "k_patch_secret api ns n p w = (r, w')" for n p r w'
    using that assms(3) v unfolding patches_secret_metadata_def by (metis option.distinct(1))
  then have "stat w' = stat w \<and> recoverable sha256 (sec w') (stat w') \<and> (\<exists>s'. sec w' = Some s' \<and> secret_uid s' = secret_uid s)"
    if "k_patch_secret api ns n p w = (r, w')" for n p r w'
    using p [OF that] assms(2,3) by (auto simp: recoverable_def redis_credentials_digest_def)
  then show ?thesis
    unfolding enforce_redis_credentials_metadata_def Let_def v option.case
    by (intro run_rules) (use assms(2,3) in force)+
qed


lemma recovers_finish:
  assumes U: "unreliable_server api ns nm sec stat" and s: "sec w = Some s" "secret_uid s = Some u"
    and r: "recoverable sha256 (sec w) (stat w)"
  shows "op_runs (w, l) (op_bind (patch_redis_credentials_provenance api ns nm (Some u) None None) (\<lambda>_. op_return u))
    (recovers sec stat sha256)"
proof (rule op_runs_bind [OF unreliable_patch [OF U]], goal_cases)
  case (1 e w' l')
  then show ?case using s r by (auto simp: recovers_def recoverable_def)
next
  case (2 a w' l')
  then show ?case using s r by (auto simp: recovers_def recoverable_def recorded_def op_runs_def)
qed

lemma recovers_adopt:
  assumes U: "unreliable_server api ns (name_any app) sec stat" and st: "current_status app = stat w"
    and r: "recoverable sha256 (sec w) (stat w)" and s: "sec w = Some s"
  shows "op_runs (w, l) (adopt_redis_credentials api sha256 ns app s) (recovers sec stat sha256)"
proof -
  obtain u where u: "secret_uid s = Some u" and i: "se_immutable s = Some True"
    and d: "st_redis_uid (stat w) = Some u
      \<or> st_redis_uid (stat w) = None \<and> st_redis_digest (stat w) = Some (redis_credentials_digest sha256 s)"
    using r s by (auto simp: recoverable_def)
  have "pj_status app \<noteq> None"
    using d unfolding st [symmetric] by (cases "pj_status app") (simp_all add: current_status_def project_status_default_def)
  with st have p: "pj_status app = Some (stat w)" by (auto simp: current_status_def)
  have pr: "redis_credentials_secret_provenance sha256 s app = Some u"
    using d by (auto simp: redis_credentials_secret_provenance_def u p)
  show ?thesis
    unfolding adopt_redis_credentials_def Let_def pr option.case i
  proof (rule op_runs_bind [OF unreliable_enforce [OF U r s]], goal_cases)
    case (1 e w' l')
    then show ?case by (auto simp: recovers_def)
  next
    case (2 a w' l')
    then obtain s' where s': "sec w' = Some s'" "secret_uid s' = Some u" "stat w' = stat w"
      "recoverable sha256 (sec w') (stat w')" using u by auto
    note fin = recovers_finish [OF U s'(1,2,4)]
    have "recovers sec stat sha256 (Inr u) w' l'" if "st_redis_uid (stat w) \<noteq> None" "st_redis_digest (stat w) = None"
      using that s' d by (auto simp: recovers_def recorded_def)
    then show ?case using fin by (auto simp: p op_runs_def simp del: op_bind_assoc)
  qed
qed

lemma recovers_create:
  assumes U: "unreliable_server api ns (name_any app) sec stat" and none: "sec w = None"
  shows "op_runs (w, l) (create_redis_credentials api sha256 draws ns app) (recovers sec stat sha256)"
proof -
  let ?s = "build_managed_redis_credentials_secret draws app ns"
  let ?d = "redis_credentials_digest sha256 ?s"
  have cr: "creates_secret sec stat ?s (k_create_secret api ns ?s)" using U by (simp add: unreliable_server_def)
  show ?thesis
    unfolding create_redis_credentials_def Let_def create_secret_def
  proof (rule op_runs_bind [OF unreliable_patch [OF U]], goal_cases)
    case (1 e w' l')
    then show ?case using none by (auto simp: recovers_def recoverable_def)
  next
    case (2 a w1 l1)
    then have p: "sec w1 = None" "st_redis_uid (stat w1) = None" "st_redis_digest (stat w1) = Some ?d"
      using none by auto
    have i: "se_immutable ?s = Some True" by (simp add: build_managed_redis_credentials_secret_def)
    have c: "stat w2 = stat w1 \<and> recoverable sha256 (sec w2) (stat w2)
        \<and> (\<forall>x. r = Inr x \<longrightarrow> sec w2 = Some x \<and> secret_uid x \<noteq> None)"
      if "k_create_secret api ns ?s w1 = (r, w2)" for r w2
    proof -
      from cr that have "stat w2 = stat w1 \<and> (sec w2 = sec w1 \<and> isl r
           \<or> (\<exists>u v. sec w2 = Some (?s\<lparr>se_metadata := (se_metadata ?s)\<lparr>om_uid := Some u, om_resource_version := Some v\<rparr>\<rparr>))
             \<and> (\<forall>x. r = Inr x \<longrightarrow> sec w2 = Some x))"
        unfolding creates_secret_def by blast
      then show ?thesis using p i by (auto simp: recoverable_def redis_credentials_digest_def)
    qed
    show ?case
    proof (rule op_runs_request_bind, goal_cases)
      case (1 e w2)
      from c [OF 1] show ?case unfolding recovers_def by auto
    next
      case (2 x w2)
      from c [OF 2] obtain u where "stat w2 = stat w1" "recoverable sha256 (sec w2) (stat w2)" "sec w2 = Some x"
        "secret_uid x = Some u" by auto
      then show ?case by (simp add: recovers_finish [OF U])
    qed
  qed
qed

lemma recovers_pass:
  assumes U: "unreliable_server api ns (name_any app) sec stat" and st: "current_status app = stat w"
    and r: "recoverable sha256 (sec w) (stat w)"
  shows "op_runs (w, l) (reconcile_redis_credentials_secret api sha256 draws ns app) (recovers sec stat sha256)"
proof -
  have "reads_secret sec stat (k_get_secret api ns (name_any app @ ''-redis-credentials''))"
    using U by (simp add: unreliable_server_def)
  then have g: "sec w' = sec w \<and> stat w' = stat w \<and> (\<forall>x. a = Inr x \<longrightarrow> x = sec w)"
    if "k_get_secret api ns (name_any app @ ''-redis-credentials'') w = (a, w')" for a w'
    using that unfolding reads_secret_def by blast
  show ?thesis
    unfolding reconcile_redis_credentials_secret_def get_secret_def
  proof (rule op_runs_request_bind, goal_cases)
    case (1 e w')
    then show ?case using g [OF 1] r by (simp add: recovers_def)
  next
    case (2 x w')
    from g [OF 2] have g: "x = sec w'" "current_status app = stat w'" "recoverable sha256 (sec w') (stat w')"
      using st r by auto
    show ?case
    proof (cases x)
      case None
      with g(1) show ?thesis by (simp add: recovers_create [OF U])
    next
      case (Some s)
      then have "sec w' = Some s" using g(1) by simp
      from recovers_adopt [OF U g(2,3) this] Some show ?thesis by simp
    qed
  qed
qed


section \<open>Properties\<close>

text \<open>
  C4. The Redis password the workloads get was drawn by the operator: in a namespace where a tenant
  may at any moment delete, create and relabel secrets, whatever stale status a pass starts from and
  wherever earlier passes stopped, the identifier a pass returns belongs for ever to an immutable
  secret whose data is a password that was drawn, unless its encoding collides with that of a drawn
  password under SHA-256.
\<close>
theorem redis_credentials_trusted:
  assumes "secret_server api view" and "redis_history api view sha256 P ns w S"
    and "current_status app \<in> S" and "draws \<in> P"
    and "reconcile_redis_credentials_secret api sha256 draws ns app (w, []) = (Inr u, (w', l))"
    and "secret_evolve (view w') v" and "fst v k = Some s" and "secret_uid s = Some u" and "data_fits (se_data s)"
    and "\<forall>draws\<in>P. length draws = 32"
  shows "se_immutable s = Some True \<and> (\<exists>draws\<in>P. let drawn = Some [(''password'', generate_random_password draws)] in
      unwrap_or [] (se_data s) = unwrap_or [] drawn
      \<or> redis_credentials_encoding (se_data s) \<noteq> redis_credentials_encoding drawn
        \<and> sha256 (redis_credentials_encoding (se_data s)) = sha256 (redis_credentials_encoding drawn))"
proof -
  have "good_status sha256 P (view w) (current_status app)" using redis_history_good [OF assms(1,2)] assms(3) by blast
  from op_runsD [OF redis_pass [OF assms(1) this assms(4)] assms(5)]
  have "approved sha256 P (view w') u" by (simp add: pass_ok_def)
  from approved_evolve [OF this assms(6)] assms(7,8)
  have i: "se_immutable s = Some True" and "operator_made sha256 P (se_data s)" unfolding approved_def by blast+
  then obtain draws where d: "draws \<in> P" "sha256 (redis_credentials_encoding (se_data s))
      = sha256 (redis_credentials_encoding (Some [(''password'', generate_random_password draws)]))"
    by (auto simp: operator_made_def)
  have "data_fits (Some [(''password'', generate_random_password draws)])"
    using assms(10) d(1) by (simp add: data_fits_def generate_random_password_def)
  from redis_credentials_encoding_inj [OF assms(9) this] i d show ?thesis by (auto simp: Let_def)
qed

text \<open>
  A server that only the operator uses: the secret under one name, the number of secrets that are
  gone, and the project's status.
\<close>

type_synonym calm_world = "secret option \<times> nat \<times> project_status"

definition calm_stamp :: "nat \<Rightarrow> secret \<Rightarrow> secret" where
  "calm_stamp n s = s\<lparr>se_metadata := (se_metadata s)\<lparr>om_uid := Some (replicate (Suc n) (CHR ''u'')),
     om_resource_version := Some ''1''\<rparr>\<rparr>"

definition calm_secret :: "calm_world \<Rightarrow> secret option" where
  "calm_secret w = (case w of (so, n, _) \<Rightarrow> map_option (calm_stamp n) so)"

definition calm_key :: "string \<times> string" where
  "calm_key = (''prod'', ''shop-redis-credentials'')"

definition calm_view :: "calm_world \<Rightarrow> vault" where
  "calm_view w = (Map.empty(calm_key := calm_secret w),
     {replicate (Suc i) (CHR ''u'') | i. i < fst (snd w) \<or> i = fst (snd w) \<and> fst w \<noteq> None})"

definition calm_api :: "calm_world secret_api" where
  "calm_api =
     \<lparr>k_get_job = \<lambda>_ _ w. (Inr None, w), k_create_job = \<lambda>_ j w. (Inr j, w), k_delete_job = \<lambda>_ _ w. (Inr (), w),
      k_patch_status = \<lambda>_ _ p w. (case w of (so, n, st) \<Rightarrow> (Inr (), (so, n, merge_status p st))),
      k_patch_project = \<lambda>_ _ _ w. (Inr (), w),
      k_apply_project = \<lambda>_ _ _ w. (Inr (), w), k_list_projects = \<lambda>_ _ w. (Inr [], w),
      k_delete_project = \<lambda>_ _ _ w. (Inr (), w), k_get_namespace = \<lambda>_ w. (Inr None, w),
      k_delete_namespace = \<lambda>_ _ w. (Inr (), w), k_get_meta = \<lambda>_ _ _ w. (Inr None, w),
      k_delete_meta = \<lambda>_ _ _ _ w. (Inr (), w), k_list_jobs = \<lambda>_ _ w. (Inr [], w),
      k_patch_status_at = \<lambda>_ _ _ p w. (case w of (so, n, st) \<Rightarrow> (Inr (), (so, n, merge_status p st))),
      k_get_secret = \<lambda>ns n w. (Inr (if (ns, n) = calm_key then calm_secret w else None), w),
      k_create_secret = \<lambda>_ s w. (case w of
          (None, n, st) \<Rightarrow> (Inr (calm_stamp n s), (Some s, n, st)) | _ \<Rightarrow> (Inl (KubeApi 409), w)),
      k_patch_secret = \<lambda>_ _ _ w. (Inr (), w),
      k_delete_secret = \<lambda>_ _ _ w. (case w of (so, n, st) \<Rightarrow> (Inr (), (None, if so = None then n else Suc n, st))),
      k_get_deployment = \<lambda>_ _ w. (Inr None, w), k_patch_template_annotation = \<lambda>_ _ _ _ w. (Inr (), w)\<rparr>"

lemma calm_secret_simp [simp]: "calm_secret (so, n, st) = map_option (calm_stamp n) so"
  by (simp add: calm_secret_def)

lemma calm_vault_ok: "vault_ok (calm_view w)"
  by (cases w) (auto simp: vault_ok_def calm_view_def calm_stamp_def calm_key_def split: if_splits)

lemma fst_calm_view: "fst (calm_view w) k = (if k = calm_key then calm_secret w else None)"
  by (simp add: calm_view_def)

lemma calm_same: "secret_evolve (calm_view w) (calm_view w)"
  by (rule secret_evolve_refl [OF calm_vault_ok])

lemma calm_patch: "secret_evolve (calm_view (so, n, st)) (calm_view (so, n, st'))"
  using calm_same [of "(so, n, st)"] by (simp add: calm_view_def)

lemma calm_create:
  "((fst (calm_view (None, n, st)))(calm_key \<mapsto> calm_stamp n s),
     insert (replicate (Suc n) (CHR ''u'')) (snd (calm_view (None, n, st)))) = calm_view (Some s, n, st)"
  "replicate (Suc n) (CHR ''u'') \<notin> snd (calm_view (None, n, st))"
  by (auto simp: calm_view_def)

lemma calm_evolve_create: "secret_evolve (calm_view (None, n, st)) (calm_view (Some s, n, st))"
  using calm_vault_ok [of "(Some s, n, st)"]
  by (auto simp: secret_evolve_def calm_view_def calm_stamp_def calm_key_def split: if_splits)

lemma calm_server: "secret_server calm_api calm_view"
  unfolding secret_server_def
proof (intro allI conjI impI)
  fix w show "vault_ok (calm_view w)" by (rule calm_vault_ok)
next
  fix w ns n r w' assume "k_get_secret calm_api ns n w = (r, w')"
  then show "\<exists>v. secret_evolve (calm_view w) v \<and> secret_evolve v (calm_view w') \<and> (\<forall>x. r = Inr x \<longrightarrow> x = fst v (ns, n))"
    by (intro exI [of _ "calm_view w"]) (auto simp: calm_api_def calm_same fst_calm_view)
next
  fix w ns s r w' assume "k_create_secret calm_api ns s w = (r, w')"
  then show "secret_evolve (calm_view w) (calm_view w')"
    by (cases w) (auto simp: calm_api_def calm_same calm_evolve_create split: option.splits)
next
  fix w ns s r w' s' u assume c: "k_create_secret calm_api ns s w = (r, w')" "r = Inr s'" "secret_uid s' = Some u"
  then obtain n st where w: "w = (None, n, st)" "w' = (Some s, n, st)" "s' = calm_stamp n s" "u = replicate (Suc n) (CHR ''u'')"
    by (cases w) (auto simp: calm_api_def calm_stamp_def split: option.splits)
  have "secret_evolve ((fst (calm_view w))(calm_key \<mapsto> s'), insert u (snd (calm_view w))) (calm_view w')"
    unfolding w calm_create by (rule calm_same)
  moreover have "u \<notin> snd (calm_view w)" unfolding w by (rule calm_create)
  moreover have "se_data s' = se_data s \<and> se_immutable s' = se_immutable s" by (simp add: w(3) calm_stamp_def)
  ultimately show "\<exists>v k. secret_evolve (calm_view w) v \<and> u \<notin> snd v \<and> se_data s' = se_data s
      \<and> se_immutable s' = se_immutable s \<and> secret_evolve ((fst v)(k \<mapsto> s'), insert u (snd v)) (calm_view w')"
    using calm_same [of w] by blast
next
  fix w ns n p show "secret_evolve (calm_view w) (calm_view (snd (k_patch_secret calm_api ns n p w)))"
    by (simp add: calm_api_def calm_same)
next
  fix w ns n p show "secret_evolve (calm_view w) (calm_view (snd (k_patch_status calm_api ns n p w)))"
    by (cases w) (simp add: calm_api_def calm_patch)
next
  fix w ns n v p show "secret_evolve (calm_view w) (calm_view (snd (k_patch_status_at calm_api ns n v p w)))"
    by (cases w) (simp add: calm_api_def calm_patch)
qed

lemma calm_pass:
  "\<exists>l. reconcile_redis_credentials_secret calm_api sha256 draws ''prod'' sample_project ((None, 0, project_status_default), [])
     = (Inr ''u'', ((Some (build_managed_redis_credentials_secret draws sample_project ''prod''), 0,
          merge_status (provenance_patch (Some ''u'') None) (merge_status (provenance_patch None
            (Some (redis_credentials_digest sha256 (build_managed_redis_credentials_secret draws sample_project ''prod''))))
            project_status_default)), l))"
  by (simp add: reconcile_redis_credentials_secret_def create_redis_credentials_def get_secret_def create_secret_def
      patch_redis_credentials_provenance_def op_bind_def op_map_err_def do_request_def calm_api_def calm_stamp_def Let_def
      sample_project_def object_meta_default_def)

theorem redis_credentials_trusted_witness:
  "\<exists>l w' s. reconcile_redis_credentials_secret calm_api id (replicate 32 7) ''prod'' sample_project
      ((None, 0, project_status_default), []) = (Inr ''u'', (w', l))
    \<and> fst (calm_view w') calm_key = Some s \<and> se_immutable s = Some True
    \<and> se_data s = Some [(''password'', replicate 32 (CHR ''H''))]"
proof -
  let ?s = "build_managed_redis_credentials_secret (replicate 32 7) sample_project ''prod''"
  obtain l st where p: "reconcile_redis_credentials_secret calm_api id (replicate 32 7) ''prod'' sample_project
      ((None, 0, project_status_default), []) = (Inr ''u'', ((Some ?s, 0, st), l))"
    using calm_pass [of id "replicate 32 7"] by blast
  have h: "redis_history calm_api calm_view id {replicate 32 7} ''prod'' (None, 0, project_status_default) {project_status_default}"
    by (rule redis_history.start) (simp_all add: project_status_default_def)
  have d: "se_data ?s = Some [(''password'', replicate 32 (CHR ''H''))]"
    by (simp add: build_managed_redis_credentials_secret_def build_redis_credentials_secret_def
        generate_random_password_def CHARSET_def)
  have "se_immutable (calm_stamp 0 ?s) = Some True"
    using redis_credentials_trusted [OF calm_server h _ _ p calm_same, of calm_key "calm_stamp 0 ?s"] d
    by (simp add: fst_calm_view calm_stamp_def data_fits_def current_status_def sample_project_def)
  then show ?thesis using p d by (auto simp: fst_calm_view calm_stamp_def)
qed

text \<open>
  An interrupted creation recovers by itself: from every state a pass can leave when any of its
  requests fails, with or without having taken effect, the next pass only stops where a request
  fails and leaves such a state again; a pass whose requests succeed ends with the identifier of the
  secret recorded in the status and the digest gone.
\<close>
theorem redis_creation_recovers:
  assumes "unreliable_server api ns (name_any app) sec stat" and "current_status app = stat w"
    and "recoverable sha256 (sec w) (stat w)"
    and "reconcile_redis_credentials_secret api sha256 draws ns app (w, []) = (r, (w', l))"
  shows "recoverable sha256 (sec w') (stat w')
    \<and> (case r of Inl _ \<Rightarrow> failed l | Inr u \<Rightarrow> recorded (sec w') (stat w') u)"
  using op_runsD [OF recovers_pass [OF assms(1-3)] assms(4)] by (simp add: recovers_def)

lemma calm_unreliable: "unreliable_server calm_api ''prod'' ''shop'' calm_secret (\<lambda>w. snd (snd w))"
  by (auto simp: unreliable_server_def reads_secret_def creates_secret_def patches_status_def
      patches_secret_metadata_def calm_api_def calm_key_def calm_stamp_def split: option.splits)

theorem redis_creation_recovers_witness:
  "\<exists>w' l. reconcile_redis_credentials_secret calm_api id (replicate 32 7) ''prod'' sample_project
      ((None, 0, project_status_default), []) = (Inr ''u'', (w', l))
    \<and> recorded (calm_secret w') (snd (snd w')) ''u''"
proof -
  obtain w' l where p: "reconcile_redis_credentials_secret calm_api id (replicate 32 7) ''prod'' sample_project
      ((None, 0, project_status_default), []) = (Inr ''u'', (w', l))"
    using calm_pass [of id "replicate 32 7"] by blast
  have "unreliable_server calm_api ''prod'' (name_any sample_project) calm_secret (\<lambda>w. snd (snd w))"
    using calm_unreliable by (simp add: sample_project_def name_any_def)
  from redis_creation_recovers [OF this _ _ p] p show ?thesis
    by (auto simp: recoverable_def current_status_def sample_project_def)
qed

end
