(* ===== verification/Cleanup.thy ===== *)
theory Cleanup
  imports RedisCredentials PreviewNames
begin

text \<open>
  What the operator deletes (\<open>reconciler.rs\<close>): the cleanup of a deleted project, its previews and
  their namespace, and the previews whose time is over. Requests about objects of which the code
  only reads the metadata carry the kind as a string; \<open>Some uid\<close> in a delete request is a
  precondition on the identifier of the object.
\<close>

section \<open>Single objects\<close>

definition delete_if_exists :: "'w secret_api \<Rightarrow> string \<Rightarrow> string \<Rightarrow> string \<Rightarrow> ('w, operator_error, unit) kube_op" where
  "delete_if_exists api kind ns n =
     op_bind (op_kube (do_request (GetMeta kind ns n) (k_get_meta api kind ns n))) (\<lambda>found.
       if found \<noteq> None
       then op_kube (do_request (DeleteMeta kind ns n None) (k_delete_meta api kind ns n None))
       else op_return ())"

definition service_account_is_owned_by_uid :: "object_meta \<Rightarrow> string \<Rightarrow> bool" where
  "service_account_is_owned_by_uid sa project_uid \<longleftrightarrow>
     is_some_and (om_owner_references sa) (list_ex (\<lambda>owner.
       or_uid owner = project_uid \<and> or_kind owner = ''Project'' \<and> or_controller owner = Some True))"

definition delete_service_account_if_owned ::
  "'w secret_api \<Rightarrow> string \<Rightarrow> string \<Rightarrow> project \<Rightarrow> ('w, operator_error, unit) kube_op" where
  "delete_service_account_if_owned api ns n app =
     (case om_uid (pj_metadata app) of
        None \<Rightarrow> op_return ()
      | Some project_uid \<Rightarrow>
          op_bind (op_kube (do_request (GetMeta ''ServiceAccount'' ns n) (k_get_meta api ''ServiceAccount'' ns n))) (\<lambda>found.
            case found of
              None \<Rightarrow> op_return ()
            | Some sa \<Rightarrow>
                if service_account_is_owned_by_uid sa project_uid
                then op_kube (do_request (DeleteMeta ''ServiceAccount'' ns n None) (k_delete_meta api ''ServiceAccount'' ns n None))
                else op_return ()))"

definition list_jobs ::
  "'w secret_api \<Rightarrow> string \<Rightarrow> (string \<times> string option) list \<Rightarrow> ('w, operator_error, job list) kube_op" where
  "list_jobs api ns sel = op_kube (do_request (ListJobs ns sel) (k_list_jobs api ns sel))"

definition job_selector :: "string \<Rightarrow> string \<Rightarrow> (string \<times> string option) list" where
  "job_selector app_name component_label =
     [(''app.kubernetes.io/name'', Some app_name), (''app.kubernetes.io/component'', Some component_label)]"

text \<open>The build jobs, whose deletion may fail, and the migration jobs, whose deletion may not.\<close>

definition delete_build_jobs :: "'w secret_api \<Rightarrow> string \<Rightarrow> string \<Rightarrow> ('w, operator_error, unit) kube_op" where
  "delete_build_jobs api ns app_name =
     op_bind (list_jobs api ns (job_selector app_name ''build'')) (\<lambda>jobs.
       op_for jobs (\<lambda>j. let n = unwrap_or [] (om_name (jb_metadata j)) in
         op_bind (op_try (do_request (DeleteJob ns n) (k_delete_job api ns n))) (\<lambda>_. op_return ())))"

definition delete_migration_jobs :: "'w secret_api \<Rightarrow> string \<Rightarrow> string \<Rightarrow> ('w, operator_error, unit) kube_op" where
  "delete_migration_jobs api ns app_name =
     op_bind (list_jobs api ns (job_selector app_name ''migration'')) (\<lambda>jobs.
       op_for jobs (\<lambda>j. case om_name (jb_metadata j) of
           None \<Rightarrow> op_return ()
         | Some n \<Rightarrow> op_kube (do_request (DeleteJob ns n) (k_delete_job api ns n))))"

section \<open>Git credentials\<close>

definition managed_git_credentials_secret_name :: "string \<Rightarrow> string" where
  "managed_git_credentials_secret_name project_name = project_name @ ''-git-credentials''"

definition managed_github_credentials_secret_name :: "string \<Rightarrow> string" where
  "managed_github_credentials_secret_name project_name = project_name @ ''-github-git-credentials''"

definition git_credentials_cleanup_names :: "project \<Rightarrow> string \<Rightarrow> string list" where
  "git_credentials_cleanup_names app project_name =
     (let names = [managed_git_credentials_secret_name project_name, managed_github_credentials_secret_name project_name] in
      case Option.bind (ps_source (pj_spec app)) src_credentials_secret of
        Some s \<Rightarrow> if (s = names ! 0 \<or> s = names ! 1) \<and> \<not> s \<in> set names then names @ [s] else names
      | None \<Rightarrow> names)"

definition resource_is_controlled_by_project :: "secret \<Rightarrow> project \<Rightarrow> bool" where
  "resource_is_controlled_by_project s app \<longleftrightarrow>
     (case om_uid (pj_metadata app) of
        None \<Rightarrow> False
      | Some project_uid \<Rightarrow>
          list_ex (\<lambda>owner. or_uid owner = project_uid \<and> or_controller owner = Some True)
            (unwrap_or [] (om_owner_references (se_metadata s))))"

definition git_credentials_secret_has_dashboard_labels :: "secret \<Rightarrow> bool" where
  "git_credentials_secret_has_dashboard_labels s \<longleftrightarrow>
     is_some_and (om_labels (se_metadata s)) (\<lambda>labels.
       labels ''reinhardt.dev/credential-type'' = Some ''git'' \<and> labels ''reinhardt.dev/provider'' = Some ''github'')"

definition git_credentials_secret_is_managed :: "secret \<Rightarrow> project \<Rightarrow> string \<Rightarrow> string \<Rightarrow> bool" where
  "git_credentials_secret_is_managed s app project_name sn \<longleftrightarrow>
     resource_is_controlled_by_project s app
     \<or> sn = managed_github_credentials_secret_name project_name \<and> git_credentials_secret_has_dashboard_labels s"

text \<open>\<open>let _ = secret_api.delete(..)\<close>: the answer does not matter.\<close>

definition try_delete_secret :: "'w secret_api \<Rightarrow> string \<Rightarrow> string \<Rightarrow> ('w, operator_error, unit) kube_op" where
  "try_delete_secret api ns n =
     op_bind (op_try (do_request (DeleteSecret ns n None) (k_delete_secret api ns n None))) (\<lambda>_. op_return ())"

definition delete_git_credentials_secret_if_managed ::
  "'w secret_api \<Rightarrow> project \<Rightarrow> string \<Rightarrow> string \<Rightarrow> string \<Rightarrow> ('w, operator_error, unit) kube_op" where
  "delete_git_credentials_secret_if_managed api app ns project_name sn =
     op_bind (get_secret api ns sn) (\<lambda>found.
       case found of
         None \<Rightarrow> op_return ()
       | Some existing \<Rightarrow>
           if git_credentials_secret_is_managed existing app project_name sn
           then try_delete_secret api ns sn else op_return ())"

section \<open>Previews\<close>

definition QUOTA_NAME :: string where "QUOTA_NAME = ''preview-default-quota''"
definition LIMIT_RANGE_NAME :: string where "LIMIT_RANGE_NAME = ''preview-default-limits''"
definition DEFAULT_DENY_NAME :: string where "DEFAULT_DENY_NAME = ''preview-default-deny''"
definition ALLOW_INGRESS_NAME :: string where "ALLOW_INGRESS_NAME = ''preview-allow-ingress-and-dns''"
definition ISSUER_NAME :: string where "ISSUER_NAME = ''preview-issuer''"

definition preview_namespace_delete_is_not_found_error :: "kube_error \<Rightarrow> bool" where
  "preview_namespace_delete_is_not_found_error e \<longleftrightarrow> is_api_code 404 e"

definition delete_precondition_failed :: "kube_error \<Rightarrow> bool" where
  "delete_precondition_failed e \<longleftrightarrow> is_api_code 409 e"

definition delete_owned_preview_namespace ::
  "'w secret_api \<Rightarrow> string \<Rightarrow> string \<Rightarrow> string option \<Rightarrow> string \<Rightarrow> ('w, operator_error, bool) kube_op" where
  "delete_owned_preview_namespace api parent_namespace parent_name parent_uid preview_namespace =
     (case parent_uid of
        None \<Rightarrow> op_return False
      | Some puid \<Rightarrow>
          op_bind (op_kube (do_request (GetNamespace preview_namespace) (k_get_namespace api preview_namespace))) (\<lambda>found.
          case found of
            None \<Rightarrow> op_return False
          | Some existing_ns \<Rightarrow>
              if \<not> labels_match_preview_owner (om_labels existing_ns) parent_namespace parent_name puid
              then op_return False
              else (case om_uid existing_ns of
                      None \<Rightarrow> op_return False
                    | Some observed_uid \<Rightarrow>
                        op_bind (op_try (do_request (DeleteNamespace preview_namespace (Some observed_uid))
                                   (k_delete_namespace api preview_namespace (Some observed_uid)))) (\<lambda>deleted.
                        case deleted of
                          Inr _ \<Rightarrow> op_return True
                        | Inl e \<Rightarrow>
                            if preview_namespace_delete_is_not_found_error e then op_return False
                            else if delete_precondition_failed e then op_return False
                            else op_throw (Kube e)))))"

definition preview_projects_label_selector :: "string \<Rightarrow> (string \<times> string option) list" where
  "preview_projects_label_selector parent_name =
     [(PREVIEW_LABEL_KEY, Some ''true''), (PARENT_APP_LABEL_KEY, Some parent_name), (PR_NUMBER_LABEL_KEY, None),
      (''app.kubernetes.io/managed-by'', Some MANAGED_BY_LABEL_VALUE)]"

text \<open>The loop of \<open>delete_retained_preview_projects\<close>; the flag of an item is its deletion timestamp.\<close>

fun delete_previews_loop ::
  "'w secret_api \<Rightarrow> string \<Rightarrow> string \<Rightarrow> string \<Rightarrow> (project \<times> bool) list \<Rightarrow> nat \<Rightarrow> ('w, operator_error, nat) kube_op" where
  "delete_previews_loop api parent_namespace parent_name preview_namespace [] remaining = op_return remaining"
| "delete_previews_loop api parent_namespace parent_name preview_namespace ((preview_app, deleting) # rest) remaining =
     (case (if is_verified_preview_of preview_app parent_namespace parent_name
            then om_uid (pj_metadata preview_app) else None) of
        None \<Rightarrow> delete_previews_loop api parent_namespace parent_name preview_namespace rest remaining
      | Some observed_uid \<Rightarrow>
          if deleting
          then delete_previews_loop api parent_namespace parent_name preview_namespace rest (remaining + 1)
          else
            op_bind (op_try (do_request (DeleteProject preview_namespace (name_any preview_app) (Some observed_uid))
                       (k_delete_project api preview_namespace (name_any preview_app) (Some observed_uid)))) (\<lambda>deleted.
            case deleted of
              Inr _ \<Rightarrow> delete_previews_loop api parent_namespace parent_name preview_namespace rest (remaining + 1)
            | Inl e \<Rightarrow>
                if is_api_code 404 e \<or> delete_precondition_failed e
                then delete_previews_loop api parent_namespace parent_name preview_namespace rest (remaining + 1)
                else op_throw (Kube e)))"

definition delete_retained_preview_projects ::
  "'w secret_api \<Rightarrow> string \<Rightarrow> string \<Rightarrow> string \<Rightarrow> ('w, operator_error, nat) kube_op" where
  "delete_retained_preview_projects api parent_namespace parent_name preview_namespace =
     op_bind (op_kube (do_request (ListProjects preview_namespace (preview_projects_label_selector parent_name))
                (k_list_projects api preview_namespace (preview_projects_label_selector parent_name))))
       (\<lambda>items. delete_previews_loop api parent_namespace parent_name preview_namespace items 0)"

definition delete_preview_guardrail_if_owned ::
  "'w secret_api \<Rightarrow> string \<Rightarrow> string \<Rightarrow> string \<Rightarrow> string \<times> string \<Rightarrow> ('w, operator_error, unit) kube_op" where
  "delete_preview_guardrail_if_owned api kind preview_namespace n owner =
     (case owner of (parent_namespace, parent_name) \<Rightarrow>
      op_bind (op_kube (do_request (GetMeta kind preview_namespace n) (k_get_meta api kind preview_namespace n))) (\<lambda>found.
      case found of
        None \<Rightarrow> op_return ()
      | Some existing \<Rightarrow>
          (case (if labels_match_preview_guardrail (om_labels existing) parent_namespace parent_name
                 then om_uid existing else None) of
             None \<Rightarrow> op_return ()
           | Some observed_uid \<Rightarrow>
               op_bind (op_try (do_request (DeleteMeta kind preview_namespace n (Some observed_uid))
                          (k_delete_meta api kind preview_namespace n (Some observed_uid)))) (\<lambda>deleted.
               case deleted of
                 Inr _ \<Rightarrow> op_return ()
               | Inl e \<Rightarrow> if is_api_code 404 e \<or> delete_precondition_failed e then op_return () else op_throw (Kube e)))))"

definition preview_guardrails :: "(string \<times> string) list" where
  "preview_guardrails =
     [(''ResourceQuota'', QUOTA_NAME), (''LimitRange'', LIMIT_RANGE_NAME), (''NetworkPolicy'', DEFAULT_DENY_NAME),
      (''NetworkPolicy'', ALLOW_INGRESS_NAME), (''Issuer'', ISSUER_NAME)]"

definition delete_retained_preview_guardrails ::
  "'w secret_api \<Rightarrow> string \<Rightarrow> string \<Rightarrow> string \<Rightarrow> ('w, operator_error, unit) kube_op" where
  "delete_retained_preview_guardrails api parent_namespace parent_name preview_namespace =
     op_for preview_guardrails (\<lambda>(kind, n).
       delete_preview_guardrail_if_owned api kind preview_namespace n (parent_namespace, parent_name))"

section \<open>The cleanup of a project\<close>

definition delete_stateless :: "'w secret_api \<Rightarrow> (string \<Rightarrow> string) \<Rightarrow> string \<Rightarrow> project \<Rightarrow> ('w, operator_error, unit) kube_op" where
  "delete_stateless api sha256 ns app =
     (let n = name_any app in
      op_bind (op_for [(''Deployment'', n @ ''-redis''), (''Service'', n @ ''-redis''), (''Deployment'', n @ ''-worker''),
          (''NetworkPolicy'', n @ ''-deny-all''), (''NetworkPolicy'', n @ ''-allow-ingress''),
          (''NetworkPolicy'', n @ ''-allow-egress''), (''LimitRange'', n @ ''-limits''), (''Service'', n @ ''-grpc'')]
        (\<lambda>(kind, x). delete_if_exists api kind ns x)) (\<lambda>_.
      op_bind (delete_service_account_if_owned api ns (n @ ''-storage'') app) (\<lambda>_.
      op_bind (delete_service_account_if_owned api ns (n @ ''-app'') app) (\<lambda>_.
      op_bind (delete_if_exists api ''ConfigMap'' ns (n @ ''-locales'')) (\<lambda>_.
      op_bind (delete_build_jobs api ns n) (\<lambda>_.
      op_bind (delete_if_exists api ''Ingress'' ns n) (\<lambda>_.
      op_bind (delete_if_exists api ''HorizontalPodAutoscaler'' ns n) (\<lambda>_.
      delete_migration_jobs api ns n))))))))"

definition delete_by_policy :: "'w secret_api \<Rightarrow> (string \<Rightarrow> string) \<Rightarrow> string \<Rightarrow> project \<Rightarrow> ('w, operator_error, unit) kube_op" where
  "delete_by_policy api sha256 ns app =
     (let n = name_any app in
      case ps_deletion_policy (pj_spec app) of
        Retain \<Rightarrow> retain_redis_credentials_secret api sha256 ns app n
      | Delete \<Rightarrow>
          op_bind (try_delete_secret api ns (n @ ''-jwt-secret'')) (\<lambda>_.
          op_bind (try_delete_secret api ns (n @ ''-db-credentials'')) (\<lambda>_.
          op_bind (delete_redis_credentials_secret_if_managed api sha256 app ns n) (\<lambda>_.
          op_bind (try_delete_secret api ns (n @ ''-smtp-credentials'')) (\<lambda>_.
          op_bind (op_for (git_credentials_cleanup_names app n)
            (\<lambda>sn. delete_git_credentials_secret_if_managed api app ns n sn)) (\<lambda>_.
          op_bind (delete_if_exists api ''StatefulSet'' ns (n @ ''-postgresql'')) (\<lambda>_.
          delete_if_exists api ''Service'' ns (n @ ''-postgresql''))))))))"

definition cleanup_previews :: "'w secret_api \<Rightarrow> bool \<Rightarrow> string \<Rightarrow> project \<Rightarrow> ('w, operator_error, unit) kube_op" where
  "cleanup_previews api manage_namespace_lifecycle ns app =
     (if is_some_and (preview_config (pj_spec app)) pv_enabled
      then
        (let n = name_any app; preview_ns = preview_namespace_name ns n in
         op_bind (if manage_namespace_lifecycle
                  then delete_owned_preview_namespace api ns n (om_uid (pj_metadata app)) preview_ns
                  else op_return False) (\<lambda>namespace_deleted.
         if \<not> namespace_deleted
         then op_bind (delete_retained_preview_projects api ns n preview_ns) (\<lambda>remaining.
              if 0 < remaining then op_throw (PreviewProjectsTerminating preview_ns remaining)
              else delete_retained_preview_guardrails api ns n preview_ns)
         else op_return ()))
      else op_return ())"

definition cleanup_requests ::
  "'w secret_api \<Rightarrow> (string \<Rightarrow> string) \<Rightarrow> bool \<Rightarrow> string \<Rightarrow> project \<Rightarrow> ('w, operator_error, unit) kube_op" where
  "cleanup_requests api sha256 manage_namespace_lifecycle ns app =
     op_bind (delete_stateless api sha256 ns app) (\<lambda>_.
     op_bind (delete_by_policy api sha256 ns app) (\<lambda>_.
     cleanup_previews api manage_namespace_lifecycle ns app))"

text \<open>With the gauges: they are only dropped when everything is gone.\<close>

definition cleanup_project ::
  "'w secret_api \<Rightarrow> (string \<Rightarrow> string) \<Rightarrow> bool \<Rightarrow> string \<Rightarrow> project \<Rightarrow> operator_state \<Rightarrow> 'w \<times> kube_log
     \<Rightarrow> (operator_error + action) \<times> operator_state \<times> 'w \<times> kube_log" where
  "cleanup_project api sha256 manage_namespace_lifecycle ns app ctx s =
     (case cleanup_requests api sha256 manage_namespace_lifecycle ns app s of
        (Inl e, s') \<Rightarrow> (Inl e, ctx, s')
      | (Inr _, s') \<Rightarrow>
          (Inr AwaitChange,
           drop_replica_gauges ns (om_name (pj_metadata app))
             (drop_managed_apps_gauge (unwrap_or [] (app_namespace app), name_any app) ctx), s'))"

section \<open>Previews whose time is over\<close>

text \<open>The result \<open>None\<close> is a panic of \<open>is_ttl_expired\<close>; \<open>now i\<close> is the time of its \<open>i\<close>-th call.\<close>

fun ttl_loop ::
  "'w secret_api \<Rightarrow> (string \<Rightarrow> timestamp option) \<Rightarrow> (nat \<Rightarrow> timestamp) \<Rightarrow> string \<Rightarrow> string \<Rightarrow> (project \<times> bool) list
     \<Rightarrow> ('w, operator_error, unit option) kube_op" where
  "ttl_loop api parse now preview_namespace ttl [] = op_return (Some ())"
| "ttl_loop api parse now preview_namespace ttl ((preview_app, _) # rest) =
     (case Option.bind (om_annotations (pj_metadata preview_app)) (\<lambda>a. a ''reinhardt.dev/last-activity'') of
        None \<Rightarrow> ttl_loop api parse now preview_namespace ttl rest
      | Some ts \<Rightarrow>
          (case is_ttl_expired parse (now (length rest)) ts ttl of
             None \<Rightarrow> op_return None
           | Some expired \<Rightarrow>
               if expired
               then op_bind (op_try (do_request (DeleteProject preview_namespace (name_any preview_app) None)
                          (k_delete_project api preview_namespace (name_any preview_app) None)))
                      (\<lambda>_. ttl_loop api parse now preview_namespace ttl rest)
               else ttl_loop api parse now preview_namespace ttl rest))"

definition reconcile_preview_ttl_cleanup ::
  "'w secret_api \<Rightarrow> (string \<Rightarrow> timestamp option) \<Rightarrow> (nat \<Rightarrow> timestamp) \<Rightarrow> string \<Rightarrow> project
     \<Rightarrow> ('w, operator_error, unit option) kube_op" where
  "reconcile_preview_ttl_cleanup api parse now preview_namespace app =
     (let sel = [(PREVIEW_LABEL_KEY, Some ''true''), (PARENT_APP_LABEL_KEY, Some (name_any app))];
          ttl = unwrap_or ''72h'' (Option.bind (preview_config (pj_spec app)) pv_ttl)
      in op_bind (op_kube (do_request (ListProjects preview_namespace sel) (k_list_projects api preview_namespace sel)))
           (\<lambda>items. ttl_loop api parse now preview_namespace ttl items))"


section \<open>The previews of a parent\<close>

definition preview_targets :: "string \<Rightarrow> string \<Rightarrow> (project \<times> bool) list \<Rightarrow> (project \<times> bool) list" where
  "preview_targets parent_namespace parent_name items =
     filter (\<lambda>(p, _). om_uid (pj_metadata p) \<noteq> None \<and> is_verified_preview_of p parent_namespace parent_name) items"

definition delete_call :: "string \<Rightarrow> project \<times> bool \<Rightarrow> kube_call" where
  "delete_call preview_namespace x = DeleteProject preview_namespace (name_any (fst x)) (om_uid (pj_metadata (fst x)))"

definition deleted_previews ::
  "string \<Rightarrow> (project \<times> bool) list \<Rightarrow> nat \<Rightarrow> operator_error + nat \<Rightarrow> kube_log \<Rightarrow> bool" where
  "deleted_previews pns targets k r calls \<longleftrightarrow>
     (\<exists>sent rest. filter (\<lambda>(_, deleting). \<not> deleting) targets = sent @ rest \<and> map fst calls = map (delete_call pns) sent
        \<and> (case r of
             Inr n \<Rightarrow> rest = [] \<and> n = k + length targets
           | Inl e \<Rightarrow> (\<exists>ke. e = Kube ke \<and> \<not> is_api_code 404 ke \<and> \<not> is_api_code 409 ke) \<and> calls \<noteq> [] \<and> \<not> snd (last calls)))"

lemma deleted_previews_skip:
  "deleted_previews pns targets (Suc k) r calls \<Longrightarrow> deleted_previews pns ((p, True) # targets) k r calls"
  by (auto simp: deleted_previews_def split: sum.splits)

lemma deleted_previews_send:
  assumes "deleted_previews pns targets (Suc k) r calls"
  shows "deleted_previews pns ((p, False) # targets) k r ((delete_call pns (p, False), ok) # calls)"
proof -
  from assms obtain sent rest where "filter (\<lambda>(_, deleting). \<not> deleting) targets = sent @ rest"
    "map fst calls = map (delete_call pns) sent"
    "case r of Inr n \<Rightarrow> rest = [] \<and> n = Suc k + length targets
      | Inl e \<Rightarrow> (\<exists>ke. e = Kube ke \<and> \<not> is_api_code 404 ke \<and> \<not> is_api_code 409 ke) \<and> calls \<noteq> [] \<and> \<not> snd (last calls)"
    unfolding deleted_previews_def by blast
  then show ?thesis
    unfolding deleted_previews_def by (intro exI [of _ "(p, False) # sent"] exI [of _ rest]) (auto split: sum.splits)
qed

lemma deleted_previews_stop:
  "\<not> is_api_code 404 e \<Longrightarrow> \<not> is_api_code 409 e
     \<Longrightarrow> deleted_previews pns ((p, False) # targets) k (Inl (Kube e)) [(delete_call pns (p, False), False)]"
  unfolding deleted_previews_def
  by (intro exI [of _ "[(p, False)]"] exI [of _ "filter (\<lambda>(_, deleting). \<not> deleting) targets"]) auto

lemma delete_previews_loop_runs:
  "op_runs (w, l) (delete_previews_loop api ns n pns items k)
     (\<lambda>r w' l'. \<exists>calls. l' = l @ calls \<and> deleted_previews pns (preview_targets ns n items) k r calls)"
proof (induction items arbitrary: w l k)
  case Nil
  then show ?case by (auto simp: op_runs_def deleted_previews_def preview_targets_def)
next
  case (Cons x items)
  obtain p deleting where x: "x = (p, deleting)" by (cases x)
  show ?case
  proof (cases "om_uid (pj_metadata p) \<noteq> None \<and> is_verified_preview_of p ns n")
    case False
    then have "delete_previews_loop api ns n pns (x # items) k = delete_previews_loop api ns n pns items k"
      "preview_targets ns n (x # items) = preview_targets ns n items"
      by (auto simp: x preview_targets_def split: option.splits)
    with Cons.IH show ?thesis by simp
  next
    case True
    then obtain u where u: "om_uid (pj_metadata p) = Some u" by blast
    have t: "preview_targets ns n (x # items) = (p, deleting) # preview_targets ns n items"
      using True by (simp add: x preview_targets_def)
    note IH = Cons.IH [of _ _ "Suc k"]
    show ?thesis
    proof (cases deleting)
      case True
      show ?thesis
        unfolding t using True \<open>_ \<and> _\<close> u IH [of w l]
        by (auto simp: x elim!: op_runs_mono intro: deleted_previews_skip)
    next
      case False
      let ?c = "(DeleteProject pns (name_any p) (Some u))"
      have c: "?c = delete_call pns (p, False)" by (simp add: delete_call_def u)
      have nxt: "op_runs (w', l @ [(?c, ok)]) (delete_previews_loop api ns n pns items (Suc k))
          (\<lambda>r w' l'. \<exists>calls. l' = l @ calls \<and> deleted_previews pns ((p, False) # preview_targets ns n items) k r calls)" for w' ok
        by (rule op_runs_mono [OF IH]) (auto simp: c intro!: deleted_previews_send)
      have stop: "op_runs (w', l @ [(?c, False)]) (op_throw (Kube e))
          (\<lambda>r w' l'. \<exists>calls. l' = l @ calls \<and> deleted_previews pns ((p, False) # preview_targets ns n items) k r calls)"
        if "\<not> is_api_code 404 e" "\<not> is_api_code 409 e" for w' e
        using deleted_previews_stop [OF that, of pns p] by (auto simp: op_runs_def c)
      show ?thesis
        unfolding t using False True
        by (auto simp: x u delete_precondition_failed_def intro!: op_runs_try_bind nxt stop)
    qed
  qed
qed

lemma delete_retained_runs:
  "op_runs (w, l) (delete_retained_preview_projects api ns n pns)
     (\<lambda>r w' l'. (\<exists>e. r = Inl (Kube e) \<and> l' = l @ [(ListProjects pns (preview_projects_label_selector n), False)])
       \<or> (\<exists>items w1 calls. k_list_projects api pns (preview_projects_label_selector n) w = (Inr items, w1)
            \<and> l' = l @ (ListProjects pns (preview_projects_label_selector n), True) # calls
            \<and> deleted_previews pns (preview_targets ns n items) 0 r calls))"
  unfolding delete_retained_preview_projects_def
  by (rule op_runs_request_bind) (auto intro!: op_runs_mono [OF delete_previews_loop_runs])


section \<open>The scope of a cleanup\<close>

definition of_app :: "string \<Rightarrow> string \<Rightarrow> bool" where
  "of_app n x \<longleftrightarrow> x = n \<or> starts_with x (n @ ''-'')"

lemma of_app_simps [simp]: "of_app n n" "of_app n (n @ CHR ''-'' # x)"
  by (auto simp: of_app_def starts_with_iff)

lemma delete_if_exists_only:
  "\<phi> (GetMeta kind ns n) \<Longrightarrow> \<phi> (DeleteMeta kind ns n None) \<Longrightarrow> op_only \<phi> (delete_if_exists api kind ns n)"
  unfolding delete_if_exists_def by (intro only_rules)

lemma delete_service_account_only:
  "\<phi> (GetMeta ''ServiceAccount'' ns n) \<Longrightarrow> \<phi> (DeleteMeta ''ServiceAccount'' ns n None)
     \<Longrightarrow> op_only \<phi> (delete_service_account_if_owned api ns n app)"
  unfolding delete_service_account_if_owned_def by (intro only_rules)

lemma try_delete_secret_only: "\<phi> (DeleteSecret ns n None) \<Longrightarrow> op_only \<phi> (try_delete_secret api ns n)"
  unfolding try_delete_secret_def by (intro only_rules)

text \<open>The objects, secrets and jobs of a project that a cleanup deletes.\<close>

definition project_objects :: "string \<Rightarrow> (string \<times> string) list" where
  "project_objects n =
     [(''Deployment'', n @ ''-redis''), (''Service'', n @ ''-redis''), (''Deployment'', n @ ''-worker''),
      (''NetworkPolicy'', n @ ''-deny-all''), (''NetworkPolicy'', n @ ''-allow-ingress''),
      (''NetworkPolicy'', n @ ''-allow-egress''), (''LimitRange'', n @ ''-limits''), (''Service'', n @ ''-grpc''),
      (''ServiceAccount'', n @ ''-storage''), (''ServiceAccount'', n @ ''-app''), (''ConfigMap'', n @ ''-locales''),
      (''Ingress'', n), (''HorizontalPodAutoscaler'', n)]"

definition database_objects :: "string \<Rightarrow> (string \<times> string) list" where
  "database_objects n = [(''StatefulSet'', n @ ''-postgresql''), (''Service'', n @ ''-postgresql'')]"

definition job_selectors :: "string \<Rightarrow> (string \<times> string option) list set" where
  "job_selectors n = {[(''app.kubernetes.io/name'', Some n), (''app.kubernetes.io/component'', Some c)] | c.
     c = ''build'' \<or> c = ''migration''}"

text \<open>
  A secret may be deleted: one the operator made under a name of its own, the trusted Redis credentials as
  they were read, or Git credentials that were read and are managed for the project.
\<close>

definition deletable_secret ::
  "'w secret_api \<Rightarrow> (string \<Rightarrow> string) \<Rightarrow> 'w \<Rightarrow> project \<Rightarrow> string \<Rightarrow> kube_log \<Rightarrow> string \<Rightarrow> string option \<Rightarrow> bool" where
  "deletable_secret api sha256 w app ns l m u \<longleftrightarrow> (let n = name_any app in
     u = None \<and> m \<in> {n @ ''-jwt-secret'', n @ ''-db-credentials'', n @ ''-smtp-credentials''}
     \<or> m = n @ ''-redis-credentials'' \<and> (\<exists>s. answered (after_call api) w l (GetSecret ns m) (k_get_secret api ns m) (Some s)
          \<and> redis_credentials_secret_provenance sha256 s app \<noteq> None \<and> om_uid (se_metadata s) = u)
     \<or> u = None \<and> m \<in> {n @ ''-git-credentials'', n @ ''-github-git-credentials''}
          \<and> (\<exists>s. answered (after_call api) w l (GetSecret ns m) (k_get_secret api ns m) (Some s)
              \<and> git_credentials_secret_is_managed s app n m))"

text \<open>
  The requests a cleanup of the project \<open>app\<close> in \<open>ns\<close> may make, after the requests \<open>l\<close> to a server that
  started in the state \<open>w\<close>. What is deleted on the strength of an inspection was answered in this run.
\<close>

fun in_scope ::
  "'w secret_api \<Rightarrow> (string \<Rightarrow> string) \<Rightarrow> 'w \<Rightarrow> project \<Rightarrow> bool \<Rightarrow> string \<Rightarrow> kube_log \<Rightarrow> kube_call \<Rightarrow> bool" where
  "in_scope api sha256 w app lifecycle ns l (DeleteMeta kind x m u) \<longleftrightarrow>
     (let n = name_any app; p = preview_namespace_name ns n in
      x = ns \<and> u = None
        \<and> ((kind, m) \<in> set (project_objects n)
           \<or> ps_deletion_policy (pj_spec app) = Delete \<and> (kind, m) \<in> set (database_objects n))
        \<and> (\<exists>found. answered (after_call api) w l (GetMeta kind ns m) (k_get_meta api kind ns m) (Some found)
             \<and> (kind = ''ServiceAccount'' \<longrightarrow>
                  is_some_and (om_uid (pj_metadata app)) (service_account_is_owned_by_uid found)))
      \<or> x = p \<and> u \<noteq> None \<and> (kind, m) \<in> set preview_guardrails
        \<and> (\<exists>found. answered (after_call api) w l (GetMeta kind p m) (k_get_meta api kind p m) (Some found)
             \<and> labels_match_preview_guardrail (om_labels found) ns n \<and> om_uid found = u))"
| "in_scope api sha256 w app lifecycle ns l (DeleteSecret x m u) \<longleftrightarrow>
     x = ns \<and> ps_deletion_policy (pj_spec app) = Delete \<and> deletable_secret api sha256 w app ns l m u"
| "in_scope api sha256 w app lifecycle ns l (PatchSecret x m p) \<longleftrightarrow>
     x = ns \<and> ps_deletion_policy (pj_spec app) = Retain \<and> m = name_any app @ ''-redis-credentials''
     \<and> (\<exists>s. answered (after_call api) w l (GetSecret ns m) (k_get_secret api ns m) (Some s)
          \<and> redis_credentials_secret_provenance sha256 s app \<noteq> None
          \<and> sep_uid p = om_uid (se_metadata s) \<and> om_resource_version (se_metadata s) = Some (sep_resource_version p))"
| "in_scope api sha256 w app lifecycle ns l (DeleteProject x m u) \<longleftrightarrow>
     (let n = name_any app; p = preview_namespace_name ns n in
      x = p \<and> u \<noteq> None \<and> is_some_and (preview_config (pj_spec app)) pv_enabled
      \<and> (\<exists>sel items q. answered (after_call api) w l (ListProjects p sel) (k_list_projects api p sel) items
           \<and> (q, False) \<in> set items \<and> is_verified_preview_of q ns n \<and> name_any q = m \<and> om_uid (pj_metadata q) = u))"
| "in_scope api sha256 w app lifecycle ns l (DeleteNamespace x u) \<longleftrightarrow>
     (let n = name_any app; p = preview_namespace_name ns n in
      x = p \<and> u \<noteq> None \<and> lifecycle \<and> is_some_and (preview_config (pj_spec app)) pv_enabled
      \<and> (\<exists>found. answered (after_call api) w l (GetNamespace p) (k_get_namespace api p) (Some found)
           \<and> is_some_and (om_uid (pj_metadata app)) (labels_match_preview_owner (om_labels found) ns n)
           \<and> om_uid found = u))"
| "in_scope api sha256 w app lifecycle ns l (DeleteJob x m) \<longleftrightarrow>
     x = ns \<and> (\<exists>sel\<in>job_selectors (name_any app). \<exists>jobs j.
       answered (after_call api) w l (ListJobs ns sel) (k_list_jobs api ns sel) jobs
       \<and> j \<in> set jobs \<and> m = unwrap_or [] (om_name (jb_metadata j)))"
| "in_scope api sha256 w app lifecycle ns l (ListJobs x sel) \<longleftrightarrow> x = ns \<and> sel \<in> job_selectors (name_any app)"
| "in_scope api sha256 w app lifecycle ns l (ListProjects x sel) \<longleftrightarrow>
     x = preview_namespace_name ns (name_any app)
     \<and> {(PREVIEW_LABEL_KEY, Some ''true''), (PARENT_APP_LABEL_KEY, Some (name_any app))} \<subseteq> set sel"
| "in_scope api sha256 w app lifecycle ns l (GetNamespace x) \<longleftrightarrow> x = preview_namespace_name ns (name_any app)"
| "in_scope api sha256 w app lifecycle ns l (GetMeta k x n) \<longleftrightarrow> x = ns \<or> x = preview_namespace_name ns (name_any app)"
| "in_scope api sha256 w app lifecycle ns l (GetSecret x n) \<longleftrightarrow> x = ns"
| "in_scope api sha256 w app lifecycle ns l _ \<longleftrightarrow> False"

lemma after_call_simps [simp]:
  "after_call api (GetMeta kind ns n) = (\<lambda>w. snd (k_get_meta api kind ns n w))"
  "after_call api (DeleteMeta kind ns n u) = (\<lambda>w. snd (k_delete_meta api kind ns n u w))"
  "after_call api (ListJobs ns sel) = (\<lambda>w. snd (k_list_jobs api ns sel w))"
  "after_call api (DeleteJob ns n) = (\<lambda>w. snd (k_delete_job api ns n w))"
  "after_call api (GetSecret ns n) = (\<lambda>w. snd (k_get_secret api ns n w))"
  "after_call api (PatchSecret ns n sp) = (\<lambda>w. snd (k_patch_secret api ns n sp w))"
  "after_call api (DeleteSecret ns n u) = (\<lambda>w. snd (k_delete_secret api ns n u w))"
  "after_call api (ListProjects ns sel) = (\<lambda>w. snd (k_list_projects api ns sel w))"
  "after_call api (DeleteProject ns n u) = (\<lambda>w. snd (k_delete_project api ns n u w))"
  "after_call api (GetNamespace n) = (\<lambda>w. snd (k_get_namespace api n w))"
  "after_call api (DeleteNamespace n u) = (\<lambda>w. snd (k_delete_namespace api n u w))"
  by (simp_all add: after_call_def fun_eq_iff)

lemma delete_if_exists_obeys:
  assumes "\<And>l. \<phi> l (GetMeta kind ns n)"
    and "\<And>l m. answered (after_call api) w l (GetMeta kind ns n) (k_get_meta api kind ns n) (Some m) \<Longrightarrow> \<phi> l (DeleteMeta kind ns n None)"
  shows "op_obeys (after_call api) w \<phi> (\<lambda>_. True) (delete_if_exists api kind ns n)"
  unfolding delete_if_exists_def
  by (rule op_obeys_learn; (intro obey_rules)?) (auto simp: assms)

lemma delete_service_account_obeys:
  assumes "\<And>l. \<phi> l (GetMeta ''ServiceAccount'' ns n)"
    and "\<And>l m u. answered (after_call api) w l (GetMeta ''ServiceAccount'' ns n) (k_get_meta api ''ServiceAccount'' ns n) (Some m)
       \<Longrightarrow> om_uid (pj_metadata app) = Some u \<Longrightarrow> service_account_is_owned_by_uid m u
       \<Longrightarrow> \<phi> l (DeleteMeta ''ServiceAccount'' ns n None)"
  shows "op_obeys (after_call api) w \<phi> (\<lambda>_. True) (delete_service_account_if_owned api ns n app)"
  unfolding delete_service_account_if_owned_def
  by (intro op_obeys_option op_obeys_return; rule op_obeys_learn; (intro obey_rules)?) (auto simp: assms)

lemma job_loop_obeys:
  assumes "c = ''build'' \<or> c = ''migration''"
    and "\<And>j. op_obeys (after_call api) w (in_scope api sha256 w app lifecycle ns)
      (\<lambda>l. in_scope api sha256 w app lifecycle ns l (DeleteJob ns (unwrap_or [] (om_name (jb_metadata j))))) (body j)"
  shows "op_obeys (after_call api) w (in_scope api sha256 w app lifecycle ns) (\<lambda>_. True)
    (op_bind (list_jobs api ns (job_selector (name_any app) c)) (\<lambda>jobs. op_for jobs body))"
  unfolding list_jobs_def
proof (rule op_obeys_learn)
  have sel: "job_selector (name_any app) c \<in> job_selectors (name_any app)"
    using assms(1) by (auto simp: job_selectors_def job_selector_def)
  then show "in_scope api sha256 w app lifecycle ns l (ListJobs ns (job_selector (name_any app) c))" for l by simp
  fix jobs
  show "op_obeys (after_call api) w (in_scope api sha256 w app lifecycle ns)
      (\<lambda>l. True \<and> answered (after_call api) w l (ListJobs ns (job_selector (name_any app) c))
         (k_list_jobs api ns (job_selector (name_any app) c)) jobs) (op_for jobs body)"
    using sel by (intro op_obeys_for stays_rules op_obeys_weaken [OF assms(2)]) auto
qed (simp_all add: stays_rules)

lemma jobs_obey:
  "op_obeys (after_call api) w (in_scope api sha256 w app lifecycle ns) (\<lambda>_. True) (delete_build_jobs api ns (name_any app))"
  "op_obeys (after_call api) w (in_scope api sha256 w app lifecycle ns) (\<lambda>_. True) (delete_migration_jobs api ns (name_any app))"
  unfolding delete_build_jobs_def delete_migration_jobs_def Let_def
  by (rule job_loop_obeys; (intro op_obeys_then obey_rules)?; simp)+

lemma delete_stateless_obeys:
  "op_obeys (after_call api) w (in_scope api sha256 w app lifecycle ns) (\<lambda>_. True) (delete_stateless api sha256 ns app)"
proof -
  have obj: "op_obeys (after_call api) w (in_scope api sha256 w app lifecycle ns) (\<lambda>_. True)
      (case x of (kind, x) \<Rightarrow> delete_if_exists api kind ns x)"
    if "x \<in> set (project_objects (name_any app))" "fst x \<noteq> ''ServiceAccount''" for x
  proof -
    obtain kind m where x: "x = (kind, m)" by (cases x)
    show ?thesis unfolding x prod.case using that by (intro delete_if_exists_obeys) (auto simp: x)
  qed
  have one: "op_obeys (after_call api) w (in_scope api sha256 w app lifecycle ns) (\<lambda>_. True) (delete_if_exists api kind ns n)"
    if "(kind, n) \<in> set (project_objects (name_any app))" "kind \<noteq> ''ServiceAccount''" for kind n
    using obj [of "(kind, n)"] that by simp
  have sa: "op_obeys (after_call api) w (in_scope api sha256 w app lifecycle ns) (\<lambda>_. True)
      (delete_service_account_if_owned api ns n app)"
    if "(''ServiceAccount'', n) \<in> set (project_objects (name_any app))" for n
    using that by (intro delete_service_account_obeys) auto
  have "set [(''Deployment'', name_any app @ ''-redis''), (''Service'', name_any app @ ''-redis''),
        (''Deployment'', name_any app @ ''-worker''), (''NetworkPolicy'', name_any app @ ''-deny-all''),
        (''NetworkPolicy'', name_any app @ ''-allow-ingress''), (''NetworkPolicy'', name_any app @ ''-allow-egress''),
        (''LimitRange'', name_any app @ ''-limits''), (''Service'', name_any app @ ''-grpc'')]
      \<subseteq> {x \<in> set (project_objects (name_any app)). fst x \<noteq> ''ServiceAccount''}"
    by (simp add: project_objects_def)
  then have many: "op_obeys (after_call api) w (in_scope api sha256 w app lifecycle ns) (\<lambda>_. True)
      (op_for [(''Deployment'', name_any app @ ''-redis''), (''Service'', name_any app @ ''-redis''),
        (''Deployment'', name_any app @ ''-worker''), (''NetworkPolicy'', name_any app @ ''-deny-all''),
        (''NetworkPolicy'', name_any app @ ''-allow-ingress''), (''NetworkPolicy'', name_any app @ ''-allow-egress''),
        (''LimitRange'', name_any app @ ''-limits''), (''Service'', name_any app @ ''-grpc'')]
        (\<lambda>(kind, x). delete_if_exists api kind ns x))"
    by (intro op_obeys_for stays_rules obj) blast+
  show ?thesis
    unfolding delete_stateless_def Let_def
    by (intro op_obeys_bind stays_rules many one sa jobs_obey) (simp_all add: project_objects_def)
qed

lemma try_delete_secret_obeys:
  "(\<And>l. K l \<Longrightarrow> \<phi> l (DeleteSecret ns n None)) \<Longrightarrow> op_obeys (after_call api) w \<phi> K (try_delete_secret api ns n)"
  unfolding try_delete_secret_def by (intro op_obeys_then obey_rules) simp_all

lemma git_credentials_obey:
  assumes "ps_deletion_policy (pj_spec app) = Delete" and "sn \<in> set (git_credentials_cleanup_names app (name_any app))"
  shows "op_obeys (after_call api) w (in_scope api sha256 w app lifecycle ns) (\<lambda>_. True)
    (delete_git_credentials_secret_if_managed api app ns (name_any app) sn)"
proof -
  have sn: "sn \<in> {name_any app @ ''-git-credentials'', name_any app @ ''-github-git-credentials''}"
    using assms(2) by (auto simp: git_credentials_cleanup_names_def managed_git_credentials_secret_name_def
        managed_github_credentials_secret_name_def Let_def split: option.splits if_splits)
  have del: "deletable_secret api sha256 w app ns l sn None"
    if "answered (after_call api) w l (GetSecret ns sn) (k_get_secret api ns sn) (Some s)"
      "git_credentials_secret_is_managed s app (name_any app) sn" for l s
    unfolding deletable_secret_def Let_def by (intro disjI2 conjI exI [of _ s] refl sn that)
  show ?thesis
    unfolding delete_git_credentials_secret_if_managed_def get_secret_def
    by (rule op_obeys_learn; (intro op_obeys_option op_obeys_if op_obeys_return try_delete_secret_obeys stays_rules)?)
      (use del in \<open>simp_all add: assms(1)\<close>)
qed

lemma redis_credentials_obey:
  assumes "ps_deletion_policy (pj_spec app) = Delete"
  shows "op_obeys (after_call api) w (in_scope api sha256 w app lifecycle ns) (\<lambda>_. True)
    (delete_redis_credentials_secret_if_managed api sha256 app ns (name_any app))"
  unfolding delete_redis_credentials_secret_if_managed_def get_secret_def
  by (rule op_obeys_learn; (intro op_obeys_option op_obeys_if op_obeys_then op_obeys_try stays_rules op_obeys_return)?)
    (use assms in \<open>auto simp: deletable_secret_def Let_def\<close>)

lemma retained_redis_obeys:
  assumes "ps_deletion_policy (pj_spec app) = Retain"
    and "\<And>x m w s. fst (k_get_secret api x m w) = Inr (Some s) \<Longrightarrow> om_name (se_metadata s) = Some m"
  shows "op_obeys (after_call api) w (in_scope api sha256 w app lifecycle ns) (\<lambda>_. True)
    (retain_redis_credentials_secret api sha256 ns app (name_any app))"
proof -
  let ?n = "name_any app @ ''-redis-credentials''"
  have patch: "in_scope api sha256 w app lifecycle ns l (PatchSecret ns (unwrap_or x (om_name (se_metadata s))) p)"
    if "answered (after_call api) w l (GetSecret ns ?n) (k_get_secret api ns ?n) (Some s)"
      "redis_credentials_secret_provenance sha256 s app \<noteq> None" "sep_uid p = om_uid (se_metadata s)"
      "om_resource_version (se_metadata s) = Some (sep_resource_version p)" for l s p x
  proof -
    have "om_name (se_metadata s) = Some ?n" using that(1) assms(2) unfolding answered_def by blast
    with that assms(1) show ?thesis by auto
  qed
  show ?thesis
    unfolding retain_redis_credentials_secret_def enforce_redis_credentials_metadata_def get_secret_def Let_def
    by (rule op_obeys_learn; (intro obey_rules patch)?) auto
qed

lemma delete_by_policy_obeys:
  assumes "\<And>x m w s. fst (k_get_secret api x m w) = Inr (Some s) \<Longrightarrow> om_name (se_metadata s) = Some m"
  shows "op_obeys (after_call api) w (in_scope api sha256 w app lifecycle ns) (\<lambda>_. True) (delete_by_policy api sha256 ns app)"
proof (cases "ps_deletion_policy (pj_spec app)")
  case Retain
  then show ?thesis
    using retained_redis_obeys [OF Retain assms] by (simp add: delete_by_policy_def Let_def)
next
  case Delete
  have db: "op_obeys (after_call api) w (in_scope api sha256 w app lifecycle ns) (\<lambda>_. True) (delete_if_exists api kind ns n)"
    if "(kind, n) \<in> set (database_objects (name_any app))" "kind \<noteq> ''ServiceAccount''" for kind n
    using that Delete by (intro delete_if_exists_obeys) auto
  have sec: "op_obeys (after_call api) w (in_scope api sha256 w app lifecycle ns) (\<lambda>_. True) (try_delete_secret api ns m)"
    if "m \<in> {name_any app @ ''-jwt-secret'', name_any app @ ''-db-credentials'', name_any app @ ''-smtp-credentials''}" for m
    using that Delete by (intro try_delete_secret_obeys) (auto simp: deletable_secret_def Let_def)
  show ?thesis
    unfolding delete_by_policy_def Let_def Delete deletion_policy.case
    by (intro op_obeys_bind stays_rules op_obeys_for sec db git_credentials_obey redis_credentials_obey)
      (simp_all add: Delete database_objects_def)
qed

lemma preview_loop_obeys:
  assumes "is_some_and (preview_config (pj_spec app)) pv_enabled" and "stays K"
    and "\<And>l q u. K l \<Longrightarrow> (q, False) \<in> set items \<Longrightarrow> is_verified_preview_of q ns (name_any app) \<Longrightarrow> om_uid (pj_metadata q) = Some u
       \<Longrightarrow> in_scope api sha256 w app lifecycle ns l (DeleteProject pns (name_any q) (om_uid (pj_metadata q)))"
  shows "op_obeys (after_call api) w (in_scope api sha256 w app lifecycle ns) K
    (delete_previews_loop api ns (name_any app) pns items k)"
  using assms(3)
proof (induction items arbitrary: k)
  case Nil
  show ?case by (simp only: delete_previews_loop.simps op_obeys_return)
next
  case (Cons x items)
  obtain q deleting where x: "x = (q, deleting)" by (cases x)
  have IH: "op_obeys (after_call api) w (in_scope api sha256 w app lifecycle ns) K
      (delete_previews_loop api ns (name_any app) pns items k)" for k
    using Cons by auto
  have del: "in_scope api sha256 w app lifecycle ns l (DeleteProject pns (name_any q) (Some u))"
    if "K l" "\<not> deleting" "(if is_verified_preview_of q ns (name_any app) then om_uid (pj_metadata q) else None) = Some u" for l u
    using Cons.prems [of l q u] that by (simp add: x split: if_splits del: in_scope.simps)
  show ?case
    unfolding x delete_previews_loop.simps
    by (intro op_obeys_option op_obeys_if op_obeys_bind op_obeys_sum op_obeys_throw op_obeys_try IH assms(2) del)
      (simp_all del: in_scope.simps)
qed

lemma cleanup_previews_obeys:
  "op_obeys (after_call api) w (in_scope api sha256 w app lifecycle ns) (\<lambda>_. True) (cleanup_previews api lifecycle ns app)"
proof (cases "is_some_and (preview_config (pj_spec app)) pv_enabled")
  case False
  then show ?thesis by (simp add: cleanup_previews_def op_obeys_return del: op_simps)
next
  case True
  let ?n = "name_any app" and ?p = "preview_namespace_name ns (name_any app)"
  have nsp: "op_obeys (after_call api) w (in_scope api sha256 w app lifecycle ns) (\<lambda>_. True)
      (delete_owned_preview_namespace api ns ?n (om_uid (pj_metadata app)) ?p)" if lifecycle
    unfolding delete_owned_preview_namespace_def
    by (rule op_obeys_option, rule op_obeys_return, rule op_obeys_learn; (intro obey_rules)?) (auto simp: that True Let_def)
  have prj: "op_obeys (after_call api) w (in_scope api sha256 w app lifecycle ns) (\<lambda>_. True)
      (delete_retained_preview_projects api ns ?n ?p)"
    unfolding delete_retained_preview_projects_def
    by (rule op_obeys_learn; (intro preview_loop_obeys stays_rules)?)
      (auto simp: True Let_def preview_projects_label_selector_def)
  have grd: "op_obeys (after_call api) w (in_scope api sha256 w app lifecycle ns) (\<lambda>_. True)
      (delete_retained_preview_guardrails api ns ?n ?p)"
    unfolding delete_retained_preview_guardrails_def delete_preview_guardrail_if_owned_def
    by (intro op_obeys_for stays_rules, clarsimp) (rule op_obeys_learn; (intro obey_rules)?; force simp: Let_def split: if_splits)
  show ?thesis
    unfolding cleanup_previews_def Let_def
    by (intro op_obeys_if op_obeys_bind stays_rules nsp prj grd op_obeys_return op_obeys_throw)
qed

lemma cleanup_obeys:
  assumes "\<And>x m w s. fst (k_get_secret api x m w) = Inr (Some s) \<Longrightarrow> om_name (se_metadata s) = Some m"
  shows "op_obeys (after_call api) w (in_scope api sha256 w app lifecycle ns) (\<lambda>_. True)
    (cleanup_requests api sha256 lifecycle ns app)"
  unfolding cleanup_requests_def
  by (intro op_obeys_bind stays_rules delete_stateless_obeys delete_by_policy_obeys cleanup_previews_obeys assms)

section \<open>When a cleanup is done\<close>

text \<open>
  The previews are gone: the server has accepted to delete their namespace, or it has answered a listing of
  this run with no verified preview of the parent.
\<close>

definition previews_gone :: "'w secret_api \<Rightarrow> 'w \<Rightarrow> string \<Rightarrow> project \<Rightarrow> kube_log \<Rightarrow> bool" where
  "previews_gone api w ns app l \<longleftrightarrow>
     (let n = name_any app; pns = preview_namespace_name ns n; sel = preview_projects_label_selector n in
     (\<exists>u. (DeleteNamespace pns (Some u), True) \<in> set l)
     \<or> (\<exists>items. answered (after_call api) w l (ListProjects pns sel) (k_list_projects api pns sel) items
          \<and> preview_targets ns n items = []))"

lemma previews_gone_mono: "previews_gone api w ns app l \<Longrightarrow> previews_gone api w ns app (l @ k)"
  using stays_rules(2) unfolding previews_gone_def stays_def Let_def by fastforce

lemma op_obeys_runs:
  "op_obeys after w (\<lambda>_ _. True) (\<lambda>_. True) m
     \<Longrightarrow> op_runs (state_at after w l, l) m (\<lambda>r w' l'. w' = state_at after w l' \<and> (\<exists>k. l' = l @ k))"
proof -
  assume m: "op_obeys after w (\<lambda>_ _. True) (\<lambda>_. True) m"
  have "obeyed (\<lambda>_ _. True) l" by (simp add: obeyed_def)
  with m obtain r k where "m (state_at after w l, l) = (r, state_at after w (l @ k), l @ k)"
    unfolding op_obeys_def by blast
  then show ?thesis by (simp add: op_runs_def)
qed

lemma op_runs_conj: "op_runs s m P \<Longrightarrow> op_runs s m Q \<Longrightarrow> op_runs s m (\<lambda>r w l. P r w l \<and> Q r w l)"
  by (simp add: op_runs_def split: prod.splits)

lemma delete_previews_tracked:
  "op_obeys (after_call api) w (\<lambda>_ _. True) (\<lambda>_. True) (delete_previews_loop api ns n pns items k)"
proof (induction items arbitrary: k)
  case Nil
  show ?case by (simp only: delete_previews_loop.simps op_obeys_return)
next
  case (Cons x items)
  show ?case
    by (cases x, simp only: delete_previews_loop.simps, intro obey_rules Cons.IH) simp_all
qed

lemma cleanup_tracked:
  "op_obeys (after_call api) w (\<lambda>_ _. True) (\<lambda>_. True) (delete_stateless api sha256 ns app)"
  "op_obeys (after_call api) w (\<lambda>_ _. True) (\<lambda>_. True) (delete_by_policy api sha256 ns app)"
  "op_obeys (after_call api) w (\<lambda>_ _. True) (\<lambda>_. True) (delete_owned_preview_namespace api ns n u pns)"
  "op_obeys (after_call api) w (\<lambda>_ _. True) (\<lambda>_. True) (delete_retained_preview_guardrails api ns n pns)"
proof -
  have one: "op_obeys (after_call api) w (\<lambda>_ _. True) (\<lambda>_. True) (delete_if_exists api kind ns x)" for kind x
    by (intro delete_if_exists_obeys) simp_all
  have sa: "op_obeys (after_call api) w (\<lambda>_ _. True) (\<lambda>_. True) (delete_service_account_if_owned api ns x app)" for x
    by (intro delete_service_account_obeys) simp_all
  show "op_obeys (after_call api) w (\<lambda>_ _. True) (\<lambda>_. True) (delete_stateless api sha256 ns app)"
    unfolding delete_stateless_def delete_build_jobs_def delete_migration_jobs_def list_jobs_def Let_def
    by (intro op_obeys_for obey_rules one sa; clarsimp simp: one)
  show "op_obeys (after_call api) w (\<lambda>_ _. True) (\<lambda>_. True) (delete_by_policy api sha256 ns app)"
    unfolding delete_by_policy_def retain_redis_credentials_secret_def enforce_redis_credentials_metadata_def get_secret_def
      delete_redis_credentials_secret_if_managed_def delete_git_credentials_secret_if_managed_def try_delete_secret_def Let_def
    by (cases "ps_deletion_policy (pj_spec app)"; simp only: deletion_policy.case; intro op_obeys_for obey_rules one; simp)
  show "op_obeys (after_call api) w (\<lambda>_ _. True) (\<lambda>_. True) (delete_owned_preview_namespace api ns n u pns)"
    unfolding delete_owned_preview_namespace_def by (intro obey_rules; simp)
  show "op_obeys (after_call api) w (\<lambda>_ _. True) (\<lambda>_. True) (delete_retained_preview_guardrails api ns n pns)"
    unfolding delete_retained_preview_guardrails_def delete_preview_guardrail_if_owned_def
    by (intro op_obeys_for obey_rules, clarsimp) (intro obey_rules; simp)
qed

lemma delete_owned_preview_namespace_runs:
  "op_runs (w, l) (delete_owned_preview_namespace api ns n u pns)
     (\<lambda>r w' l'. r = Inr True \<longrightarrow> (\<exists>u. (DeleteNamespace pns (Some u), True) \<in> set l'))"
  unfolding delete_owned_preview_namespace_def
  by (intro run_rules) auto

lemma retained_previews_runs:
  assumes "w1 = state_at (after_call api) w l"
  shows "op_runs (w1, l) (op_bind (delete_retained_preview_projects api ns (name_any app) (preview_namespace_name ns (name_any app)))
      (\<lambda>remaining. if 0 < remaining then op_throw (PreviewProjectsTerminating (preview_namespace_name ns (name_any app)) remaining)
        else delete_retained_preview_guardrails api ns (name_any app) (preview_namespace_name ns (name_any app))))
    (\<lambda>r w' l'. \<not> isl r \<longrightarrow> previews_gone api w ns app l')"
proof -
  let ?n = "name_any app" let ?p = "preview_namespace_name ns (name_any app)"
  let ?sel = "preview_projects_label_selector (name_any app)"
  have tracked: "op_obeys (after_call api) w (\<lambda>_ _. True) (\<lambda>_. True) (delete_retained_preview_projects api ns ?n ?p)"
    unfolding delete_retained_preview_projects_def by (intro obey_rules delete_previews_tracked) simp_all
  show ?thesis
  proof (rule op_runs_bind [OF op_runs_conj [OF delete_retained_runs op_obeys_runs [OF tracked, of l, folded assms]]], goal_cases)
    case (1 e w' l')
    then show ?case by simp
  next
    case (2 k w' l')
    then obtain items w2 calls where i: "k_list_projects api ?p ?sel w1 = (Inr items, w2)"
      "deleted_previews ?p (preview_targets ns ?n items) 0 (Inr k) calls" "l' = l @ (ListProjects ?p ?sel, True) # calls" by auto
    then have a: "answered (after_call api) w l' (ListProjects ?p ?sel) (k_list_projects api ?p ?sel) items"
      unfolding answered_def by (intro exI [of _ l] exI [of _ calls]) (simp add: assms [symmetric])
    show ?case
    proof (cases "0 < k")
      case True
      then show ?thesis by (simp add: op_runs_def)
    next
      case False
      with i(2) have "preview_targets ns ?n items = []" by (auto simp: deleted_previews_def)
      with a have gone: "previews_gone api w ns app l'" by (auto simp: previews_gone_def Let_def)
      from 2 have "w' = state_at (after_call api) w l'" by simp
      from op_obeys_runs [OF cleanup_tracked(4), of api w l' ns ?n ?p, folded this] False show ?thesis
        by (auto elim!: op_runs_mono intro: previews_gone_mono [OF gone])
    qed
  qed
qed

lemma cleanup_previews_runs:
  assumes "is_some_and (preview_config (pj_spec app)) pv_enabled" and "w1 = state_at (after_call api) w l"
  shows "op_runs (w1, l) (cleanup_previews api lifecycle ns app) (\<lambda>r w' l'. \<not> isl r \<longrightarrow> previews_gone api w ns app l')"
proof -
  let ?n = "name_any app" let ?p = "preview_namespace_name ns (name_any app)"
  let ?Q = "\<lambda>r w' l'. (r = Inr True \<longrightarrow> (\<exists>u. (DeleteNamespace ?p (Some u), True) \<in> set l')) \<and> w' = state_at (after_call api) w l'"
  have first: "op_runs (w1, l) (if lifecycle then delete_owned_preview_namespace api ns ?n (om_uid (pj_metadata app)) ?p
      else op_return False) ?Q"
  proof (cases lifecycle)
    case True
    show ?thesis
      unfolding assms(2) if_P [OF True]
      by (rule op_runs_mono [OF op_runs_conj [OF delete_owned_preview_namespace_runs op_obeys_runs [OF cleanup_tracked(3)]]]) auto
  qed (simp add: op_runs_def assms(2))
  show ?thesis
    unfolding cleanup_previews_def Let_def if_P [OF assms(1)]
  proof (rule op_runs_bind [OF first], goal_cases)
    case (1 e w' l')
    then show ?case by simp
  next
    case (2 deleted w' l')
    show ?case
    proof (cases deleted)
      case True
      with 2 show ?thesis by (auto simp: op_runs_def previews_gone_def Let_def)
    next
      case False
      from 2 have "w' = state_at (after_call api) w l'" by simp
      from retained_previews_runs [OF this] False show ?thesis by simp
    qed
  qed
qed

section \<open>Properties\<close>

text \<open>
  C23. What a cleanup may touch, whatever the server answers to it. In the namespace of the project: a fixed
  list of objects named after the project, each only after it was read there and a service account only if
  it names the project as its controller; jobs that a listing of this run gave for the name of the project
  and the component build or migration; the database and the secrets of the project only under the policy
  \<open>Delete\<close>, the Redis secret only as it was read and trusted, the Git secrets only when they were read
  and are managed for the project. In the preview namespace, and of that namespace itself: only what was
  inspected earlier in this run and carries the labels of this parent, with the identifier that was
  inspected. Under the policy \<open>Retain\<close> the one write is a patch of the metadata of the trusted Redis secret,
  bound to the version that was read. It creates nothing. A server is taken to answer a request for
  a secret with the secret of that name.
\<close>
theorem cleanup_scope:
  assumes "\<And>x m w s. fst (k_get_secret api x m w) = Inr (Some s) \<Longrightarrow> om_name (se_metadata s) = Some m"
    and "cleanup_requests api sha256 lifecycle ns app (w, []) = (r, (w', l1 @ (c, ok) # l2))"
  shows "in_scope api sha256 w app lifecycle ns l1 c"
  using op_obeysD(2) [OF cleanup_obeys [OF assms(1)] assms(2) HOL.refl] .

text \<open>A server with every object, in which the first deletion fails.\<close>

definition stuck_api :: "calm_world secret_api" where
  "stuck_api = calm_api\<lparr>k_get_meta := \<lambda>_ _ _ w. (Inr (Some object_meta_default), w),
     k_get_secret := \<lambda>_ _ w. (Inr None, w), k_delete_meta := \<lambda>_ _ _ _ w. (Inl (KubeOther ''down''), w)\<rparr>"

theorem cleanup_scope_witness:
  "in_scope stuck_api id (None, 0, project_status_default) sample_project False ''prod''
     [(GetMeta ''Deployment'' ''prod'' ''shop-redis'', True)] (DeleteMeta ''Deployment'' ''prod'' ''shop-redis'' None)"
proof (rule cleanup_scope)
  show "fst (k_get_secret stuck_api x m w) = Inr (Some s) \<Longrightarrow> om_name (se_metadata s) = Some m" for x m w s
    by (simp add: stuck_api_def)
  show "cleanup_requests stuck_api id False ''prod'' sample_project ((None, 0, project_status_default), [])
    = (Inl (Kube (KubeOther ''down'')), ((None, 0, project_status_default),
        [(GetMeta ''Deployment'' ''prod'' ''shop-redis'', True)]
          @ (DeleteMeta ''Deployment'' ''prod'' ''shop-redis'' None, False) # []))"
    by (simp add: cleanup_requests_def delete_stateless_def delete_if_exists_def stuck_api_def calm_api_def Let_def
        op_bind_def op_map_err_def do_request_def sample_project_def name_any_def object_meta_default_def)
qed

text \<open>
  C22. The previews of a retained namespace are deleted with proof of ownership: exactly the listed
  previews that the operator itself made for this parent (labels, pull-request number, name and
  namespace are those it derives) and that are not yet being deleted get a delete request bound to
  the identifier that was listed, in order, up to the first failure that is neither absence nor
  replacement; the number returned counts all of them.
\<close>
theorem retained_previews_deleted:
  assumes "k_list_projects api pns (preview_projects_label_selector n) w = (Inr items, w1)"
    and "delete_retained_preview_projects api ns n pns (w, []) = (r, (w', l))"
  shows "\<exists>sent rest. filter (\<lambda>(_, deleting). \<not> deleting) (preview_targets ns n items) = sent @ rest
    \<and> map fst l = ListProjects pns (preview_projects_label_selector n) # map (delete_call pns) sent
    \<and> (case r of
         Inr k \<Rightarrow> rest = [] \<and> k = length (preview_targets ns n items)
       | Inl e \<Rightarrow> (\<exists>ke. e = Kube ke \<and> \<not> is_api_code 404 ke \<and> \<not> is_api_code 409 ke) \<and> sent \<noteq> [] \<and> \<not> snd (last l))"
proof -
  have "delete_retained_preview_projects api ns n pns (w, [])
    = delete_previews_loop api ns n pns items 0 (w1, [(ListProjects pns (preview_projects_label_selector n), True)])"
    by (simp add: delete_retained_preview_projects_def op_bind_def op_map_err_def do_request_def assms(1))
  with assms(2) op_runsD [OF delete_previews_loop_runs] obtain calls where c:
    "l = [(ListProjects pns (preview_projects_label_selector n), True)] @ calls"
    "deleted_previews pns (preview_targets ns n items) 0 r calls" by metis
  from c(2) obtain sent rest where s: "filter (\<lambda>(_, deleting). \<not> deleting) (preview_targets ns n items) = sent @ rest"
    "map fst calls = map (delete_call pns) sent"
    "case r of Inr k \<Rightarrow> rest = [] \<and> k = 0 + length (preview_targets ns n items)
      | Inl e \<Rightarrow> (\<exists>ke. e = Kube ke \<and> \<not> is_api_code 404 ke \<and> \<not> is_api_code 409 ke) \<and> calls \<noteq> [] \<and> \<not> snd (last calls)"
    unfolding deleted_previews_def by blast
  from s(2) have "calls \<noteq> [] \<longleftrightarrow> sent \<noteq> []" by (metis map_is_Nil_conv)
  with s c(1) show ?thesis
    by (intro exI [of _ sent] exI [of _ rest]) (auto split: sum.splits)
qed

definition sample_preview :: project where
  "sample_preview = sample_project\<lparr>pj_metadata := object_meta_default\<lparr>
     om_name := Some (preview_project_name ''shop'' ''7''), om_namespace := Some (preview_namespace_name ''prod'' ''shop''),
     om_uid := Some ''u9'', om_labels := Some (preview_labels ''prod'' ''shop'' ''7'')\<rparr>\<rparr>"

lemma sample_preview_verified: "is_verified_preview_of sample_preview ''prod'' ''shop''"
  by (simp add: is_verified_preview_of_def sample_preview_def preview_labels_def preview_parent_name_from_labels_def
      app_namespace_def name_any_def PREVIEW_LABEL_KEY_def PARENT_APP_LABEL_KEY_def PARENT_NAMESPACE_LABEL_KEY_def
      PR_NUMBER_LABEL_KEY_def MANAGED_BY_LABEL_VALUE_def is_ascii_digit_def)

definition preview_api :: "(project \<times> bool) list \<Rightarrow> calm_world secret_api" where
  "preview_api items = calm_api\<lparr>k_list_projects := \<lambda>_ _ w. (Inr items, w)\<rparr>"

theorem retained_previews_deleted_witness:
  "\<exists>r w' l. delete_retained_preview_projects (preview_api [(sample_preview, False), (sample_project, False)]) ''prod'' ''shop'' ''x''
      ((None, 0, project_status_default), []) = (r, (w', l))
    \<and> (\<exists>sent rest. [(sample_preview, False)] = sent @ rest
         \<and> map fst l = ListProjects ''x'' (preview_projects_label_selector ''shop'') # map (delete_call ''x'') sent)"
proof -
  let ?items = "[(sample_preview, False), (sample_project, False)]"
  obtain r w' l where c: "delete_retained_preview_projects (preview_api ?items) ''prod'' ''shop'' ''x''
      ((None, 0, project_status_default), []) = (r, (w', l))" by (metis prod.collapse)
  have "\<not> is_verified_preview_of sample_project ''prod'' ''shop''"
    by (simp add: is_verified_preview_of_def sample_project_def preview_parent_name_from_labels_def object_meta_default_def)
  then have t: "preview_targets ''prod'' ''shop'' ?items = [(sample_preview, False)]"
    using sample_preview_verified by (simp add: preview_targets_def) (simp add: sample_preview_def)
  have "k_list_projects (preview_api ?items) ''x'' (preview_projects_label_selector ''shop'')
      (None, 0, project_status_default) = (Inr ?items, (None, 0, project_status_default))"
    by (simp add: preview_api_def)
  from retained_previews_deleted [OF this c] obtain sent rest where "[(sample_preview, False)] = sent @ rest"
    "map fst l = ListProjects ''x'' (preview_projects_label_selector ''shop'') # map (delete_call ''x'') sent"
    by (auto simp: t)
  with c show ?thesis by (intro exI conjI)
qed

text \<open>
  C24. The parent is only let go when its previews are: a cleanup of a project with previews enabled
  succeeds, which removes the finalizer, only if the server has accepted to delete the preview namespace
  in this run, or has answered a listing of it in this run with no verified preview left; until then it
  fails and leaves the gauges alone.
\<close>
theorem finalizer_waits_for_previews:
  assumes "is_some_and (preview_config (pj_spec app)) pv_enabled"
    and "cleanup_project api sha256 lifecycle ns app ctx (w, []) = (r, ctx', (w', l))"
  shows "(r = Inr AwaitChange \<and> previews_gone api w ns app l) \<or> (isl r \<and> ctx' = ctx)"
proof -
  obtain r0 where r0: "cleanup_requests api sha256 lifecycle ns app (w, []) = (r0, (w', l))"
    "isl r0 \<and> isl r \<and> ctx' = ctx \<or> \<not> isl r0 \<and> r = Inr AwaitChange"
    using assms(2) by (auto simp: cleanup_project_def split: prod.splits sum.splits)
  let ?T = "\<lambda>r w' l'. w' = state_at (after_call api) w l' \<and> (\<exists>k. l' = [] @ k)"
  have start: "(w, []) = (state_at (after_call api) w [], [])" by simp
  have "op_runs (w, []) (cleanup_requests api sha256 lifecycle ns app) (\<lambda>r w' l'. \<not> isl r \<longrightarrow> previews_gone api w ns app l')"
    unfolding cleanup_requests_def start
  proof (rule op_runs_bind [OF op_obeys_runs [OF cleanup_tracked(1)]], simp, rule op_runs_bind [where P = ?T], goal_cases)
    case (1 a w1 l)
    then have "w1 = state_at (after_call api) w l" by simp
    with op_obeys_runs [OF cleanup_tracked(2) [of api w sha256 ns app], of l] show ?case by (auto elim!: op_runs_mono)
  qed (simp_all add: cleanup_previews_runs [OF assms(1)])
  from op_runsD [OF this r0(1)] r0(2) show ?thesis by auto
qed

theorem finalizer_waits_for_previews_witness:
  "\<forall>ctx. \<exists>r ctx' w' l. cleanup_project calm_api id False ''prod'' sample_parent ctx ((None, 0, project_status_default), []) = (r, ctx', (w', l))
    \<and> ((r = Inr AwaitChange \<and> previews_gone calm_api (None, 0, project_status_default) ''prod'' sample_parent l) \<or> (isl r \<and> ctx' = ctx))"
proof
  fix ctx
  obtain r ctx' w' l where c: "cleanup_project calm_api id False ''prod'' sample_parent ctx ((None, 0, project_status_default), []) = (r, ctx', (w', l))"
    by (metis prod.collapse)
  have "is_some_and (preview_config (pj_spec sample_parent)) pv_enabled"
    by (simp add: sample_parent_def sample_source_def preview_config_def)
  from finalizer_waits_for_previews [OF this c] c
  show "\<exists>r ctx' w' l. cleanup_project calm_api id False ''prod'' sample_parent ctx ((None, 0, project_status_default), []) = (r, ctx', (w', l))
    \<and> ((r = Inr AwaitChange \<and> previews_gone calm_api (None, 0, project_status_default) ''prod'' sample_parent l) \<or> (isl r \<and> ctx' = ctx))" by blast
qed


section \<open>Names that are not owned\<close>

lemma op_only_extends:
  assumes "m (w, l) = (Inr a, (w1, l1))" and "op_only \<phi> (f a)" and "op_bind m f (w, l) = (r, (w', l'))"
  shows "set l1 \<subseteq> set l'"
proof -
  have "f a (w1, l1) = (r, (w', l'))" using assms(1,3) by (simp add: op_bind_def)
  with assms(2) show ?thesis unfolding op_only_def log_of_def by (metis Un_upper1 set_append snd_conv)
qed

lemma later_requests:
  "op_only (\<lambda>_. True) (delete_by_policy api sha256 ns app)" "op_only (\<lambda>_. True) (cleanup_previews api lifecycle ns app)"
proof -
  have loop: "op_only (\<lambda>_. True) (delete_previews_loop api ns n pns items k)" for n pns items k
    by (induction items arbitrary: k) (auto intro!: only_rules split: option.splits)
  show "op_only (\<lambda>_. True) (delete_by_policy api sha256 ns app)"
    unfolding delete_by_policy_def retain_redis_credentials_secret_def enforce_redis_credentials_metadata_def get_secret_def
      delete_redis_credentials_secret_if_managed_def delete_git_credentials_secret_if_managed_def try_delete_secret_def Let_def
    by (cases "ps_deletion_policy (pj_spec app)"; simp only: deletion_policy.case; intro only_rules delete_if_exists_only TrueI)
  show "op_only (\<lambda>_. True) (cleanup_previews api lifecycle ns app)"
    unfolding cleanup_previews_def delete_owned_preview_namespace_def delete_retained_preview_projects_def
      delete_retained_preview_guardrails_def delete_preview_guardrail_if_owned_def Let_def
    by (intro only_rules loop TrueI; clarsimp; intro only_rules TrueI)
qed

definition first_deletions :: "'w secret_api \<Rightarrow> string \<Rightarrow> string \<Rightarrow> ('w, operator_error, unit) kube_op" where
  "first_deletions api ns n =
     op_for [(''Deployment'', n @ ''-redis''), (''Service'', n @ ''-redis''), (''Deployment'', n @ ''-worker'')]
       (\<lambda>(kind, x). delete_if_exists api kind ns x)"

lemma op_for_append: "op_for (xs @ ys) body = op_bind (op_for xs body) (\<lambda>_. op_for ys body)"
proof (induction xs)
  case Nil
  show ?case unfolding append.simps op_for.simps op_simps(4) ..
next
  case (Cons x xs)
  then show ?case by simp
qed

lemma delete_stateless_split:
  "\<exists>R. delete_stateless api sha256 ns app = op_bind (first_deletions api ns (name_any app)) (\<lambda>_. R) \<and> op_only (\<lambda>_. True) R"
proof (intro exI conjI)
  let ?n = "name_any app"
  let ?body = "\<lambda>(kind, x). delete_if_exists api kind ns x"
  let ?more = "[(''NetworkPolicy'', ?n @ ''-deny-all''), (''NetworkPolicy'', ?n @ ''-allow-ingress''),
    (''NetworkPolicy'', ?n @ ''-allow-egress''), (''LimitRange'', ?n @ ''-limits''), (''Service'', ?n @ ''-grpc'')]"
  let ?R = "op_bind (op_for ?more ?body) (\<lambda>_.
      op_bind (delete_service_account_if_owned api ns (?n @ ''-storage'') app) (\<lambda>_.
      op_bind (delete_service_account_if_owned api ns (?n @ ''-app'') app) (\<lambda>_.
      op_bind (delete_if_exists api ''ConfigMap'' ns (?n @ ''-locales'')) (\<lambda>_.
      op_bind (delete_build_jobs api ns ?n) (\<lambda>_.
      op_bind (delete_if_exists api ''Ingress'' ns ?n) (\<lambda>_.
      op_bind (delete_if_exists api ''HorizontalPodAutoscaler'' ns ?n) (\<lambda>_.
      delete_migration_jobs api ns ?n)))))))"
  note split = op_for_append [of "[(''Deployment'', ?n @ ''-redis''), (''Service'', ?n @ ''-redis''), (''Deployment'', ?n @ ''-worker'')]"
      ?more ?body, unfolded append.simps]
  show "delete_stateless api sha256 ns app = op_bind (first_deletions api ns ?n) (\<lambda>_. ?R)"
    unfolding delete_stateless_def Let_def first_deletions_def split op_bind_assoc ..
  show "op_only (\<lambda>_. True) ?R"
    unfolding delete_build_jobs_def delete_migration_jobs_def list_jobs_def Let_def
    by (intro only_rules delete_if_exists_only delete_service_account_only) (auto intro: delete_if_exists_only)
qed

text \<open>
  The stateless resources are deleted by their name alone: a cleanup of \<open>n\<close> deletes the deployment
  \<open>n-worker\<close>, which is also the deployment of a project of that name, whoever owns it.
\<close>
theorem cleanup_deletes_neighbour:
  assumes "\<And>kind x w. \<exists>m w'. k_get_meta api kind ns x w = (Inr (Some m), w')"
    and "\<And>kind x w. \<exists>w'. k_delete_meta api kind ns x None w = (Inr (), w')"
    and "cleanup_requests api sha256 lifecycle ns app (w, []) = (r, (w', l))"
  shows "(DeleteMeta ''Deployment'' ns (name_any app @ ''-worker'') None, True) \<in> set l"
proof -
  have d: "\<exists>w'. delete_if_exists api kind ns x (w, l)
      = (Inr (), (w', l @ [(GetMeta kind ns x, True), (DeleteMeta kind ns x None, True)]))" for kind x w l
  proof -
    obtain m w1 where "k_get_meta api kind ns x w = (Inr (Some m), w1)" using assms(1) by blast
    moreover obtain w2 where "k_delete_meta api kind ns x None w1 = (Inr (), w2)" using assms(2) by blast
    ultimately show ?thesis by (simp add: delete_if_exists_def op_bind_def op_map_err_def do_request_def)
  qed
  let ?n = "name_any app"
  obtain w1 l1 where 1: "delete_if_exists api ''Deployment'' ns (?n @ ''-redis'') (w, []) = (Inr (), (w1, l1))" using d by blast
  obtain w2 l2 where 2: "delete_if_exists api ''Service'' ns (?n @ ''-redis'') (w1, l1) = (Inr (), (w2, l2))" using d by blast
  obtain w3 l3 where 3: "delete_if_exists api ''Deployment'' ns (?n @ ''-worker'') (w2, l2) = (Inr (), (w3, l3))"
    "(DeleteMeta ''Deployment'' ns (?n @ ''-worker'') None, True) \<in> set l3"
    using d [of "''Deployment''" "?n @ ''-worker''" w2 l2] by auto
  have f: "first_deletions api ns ?n (w, []) = (Inr (), (w3, l3))"
    using 1 2 3(1) by (simp add: first_deletions_def op_bind_def)
  obtain R where R: "delete_stateless api sha256 ns app = op_bind (first_deletions api ns ?n) (\<lambda>_. R)" "op_only (\<lambda>_. True) R"
    using delete_stateless_split by blast
  let ?rest = "op_bind R (\<lambda>_. op_bind (delete_by_policy api sha256 ns app) (\<lambda>_. cleanup_previews api lifecycle ns app))"
  have "op_only (\<lambda>_. True) ?rest" using R(2) by (intro only_rules later_requests)
  moreover have "op_bind (first_deletions api ns ?n) (\<lambda>_. ?rest) (w, []) = (r, (w', l))"
    using assms(3) by (simp add: cleanup_requests_def R(1))
  ultimately have "set l3 \<subseteq> set l"
    by (rule op_only_extends [where f = "\<lambda>_. ?rest" and a = "()" and m = "first_deletions api ns ?n", OF f])
  with 3(2) show ?thesis by blast
qed

text \<open>
  The credentials a cleanup removes by label: the secret of \<open>n\<close> for GitHub has the name of the
  credentials of a project \<open>n-github\<close>.
\<close>
lemma github_credentials_collide:
  "managed_github_credentials_secret_name n = managed_git_credentials_secret_name (n @ ''-github'')"
  by (simp add: managed_github_credentials_secret_name_def managed_git_credentials_secret_name_def)

end
