(* ===== verification/Exposure.thy ===== *)
theory Exposure
  imports Workload Cleanup
begin

text \<open>
  How a project is reached and scaled: \<open>resources/ingress.rs\<close>, \<open>resources/autoscaler.rs\<close> and the
  parts of \<open>reconciler.rs\<close> that decide what to provision, check the host of an Ingress and report the
  TLS and autoscaler conditions (\<open>crates/reinhardt-cloud-operator\<close>). The allowed host suffixes are
  read from the environment of the operator and are an argument.
\<close>

section \<open>What to provision\<close>

definition signalled :: "project \<Rightarrow> (infra_signals \<Rightarrow> bool) \<Rightarrow> bool" where
  "signalled app f \<longleftrightarrow> is_some_and (ps_introspect (pj_spec app)) (\<lambda>i. f (fm_infrastructure_signals (io_features i)))"

definition should_provision_postgresql :: "project \<Rightarrow> bool" where
  "should_provision_postgresql app \<longleftrightarrow> ps_database (pj_spec app) \<noteq> None \<or> signalled app requires_postgresql"

definition should_provision_cache :: "project \<Rightarrow> bool" where
  "should_provision_cache app \<longleftrightarrow> ps_cache (pj_spec app) \<noteq> None \<or> signalled app requires_cache"

definition should_provision_worker :: "project \<Rightarrow> bool" where
  "should_provision_worker app \<longleftrightarrow> ps_worker (pj_spec app) \<noteq> None \<or> signalled app requires_worker"

definition should_provision_storage :: "project \<Rightarrow> bool" where
  "should_provision_storage app \<longleftrightarrow> ps_storage (pj_spec app) \<noteq> None \<or> signalled app requires_storage"

definition should_provision_mail :: "project \<Rightarrow> bool" where
  "should_provision_mail app \<longleftrightarrow> ps_mail (pj_spec app) \<noteq> None \<or> signalled app requires_mail"

text \<open>\<open>port as u16\<close> keeps the low sixteen bits.\<close>

definition resolve_app_port :: "project \<Rightarrow> u16" where
  "resolve_app_port app =
     (case Option.bind (ps_services (pj_spec app)) svc_target_port of
        Some port \<Rightarrow> ucast port
      | None \<Rightarrow> (case ps_introspect (pj_spec app) of Some i \<Rightarrow> app_port (io_settings i) | None \<Rightarrow> 8000))"

definition resolve_ingress_config :: "project \<Rightarrow> (route_metadata list \<times> u16) option" where
  "resolve_ingress_config app =
     (if is_some_and (ps_services (pj_spec app)) (\<lambda>s. svc_ingress_host s \<noteq> None) then None
      else (case ps_introspect (pj_spec app) of
              None \<Rightarrow> None
            | Some i \<Rightarrow> if io_routes i = [] then None else Some (io_routes i, resolve_app_port app)))"

section \<open>The Ingress\<close>

definition build_annotations :: "infra_signals option \<Rightarrow> label_map" where
  "build_annotations signals =
     (case signals of
        None \<Rightarrow> Map.empty
      | Some s \<Rightarrow>
          let a = (if sig_websocket s
                   then [''nginx.ingress.kubernetes.io/proxy-read-timeout'' \<mapsto> ''3600'',
                         ''nginx.ingress.kubernetes.io/proxy-send-timeout'' \<mapsto> ''3600'',
                         ''nginx.ingress.kubernetes.io/upstream-hash-by'' \<mapsto> ''$remote_addr'']
                   else Map.empty)
          in if sig_grpc s then a(''nginx.ingress.kubernetes.io/backend-protocol'' \<mapsto> ''GRPC'') else a)"

definition build_http_path :: "string \<Rightarrow> string \<Rightarrow> u16 \<Rightarrow> ingress_path" where
  "build_http_path path service_name port =
     \<lparr>ip_path = Some path, ip_path_type = ''Prefix'', ip_service = service_name, ip_port = ucast port\<rparr>"

definition resolve_tls :: "project \<Rightarrow> string option \<Rightarrow> ingress_tls option" where
  "resolve_tls app host =
     (case Option.bind (ps_services (pj_spec app)) svc_tls of
        None \<Rightarrow> None
      | Some tls \<Rightarrow>
          if \<not> tls_enabled tls then None
          else (case (case host of Some h \<Rightarrow> Some h
                      | None \<Rightarrow> Option.bind (ps_services (pj_spec app)) svc_ingress_host) of
                  None \<Rightarrow> None
                | Some h \<Rightarrow>
                    (case tls_secret_name tls of
                       None \<Rightarrow> None
                     | Some s \<Rightarrow> Some \<lparr>it_hosts = Some [h], it_secret_name = Some s\<rparr>)))"

definition merge_tls_annotations :: "project \<Rightarrow> label_map \<Rightarrow> label_map" where
  "merge_tls_annotations app annotations =
     (case Option.bind (ps_services (pj_spec app)) svc_tls of
        None \<Rightarrow> annotations
      | Some tls \<Rightarrow>
          if \<not> tls_enabled tls then annotations
          else (case tls_issuer tls of
                  None \<Rightarrow> annotations
                | Some i \<Rightarrow> annotations(''cert-manager.io/issuer'' \<mapsto> i)))"

definition has_path :: "ingress_path list \<Rightarrow> string \<Rightarrow> bool" where
  "has_path paths p \<longleftrightarrow> list_ex (\<lambda>x. ip_path x = Some p) paths"

definition signal_paths :: "string \<Rightarrow> u16 \<Rightarrow> infra_signals option \<Rightarrow> ingress_path list \<Rightarrow> ingress_path list" where
  "signal_paths n port signals paths =
     (case signals of
        None \<Rightarrow> paths
      | Some s \<Rightarrow>
          let paths1 = (if sig_graphql s \<and> \<not> has_path paths ''/graphql/''
                        then paths @ [build_http_path ''/graphql/'' n port] else paths)
          in if sig_admin_panel s \<and> \<not> has_path paths1 ''/admin/''
             then paths1 @ [build_http_path ''/admin/'' n port] else paths1)"

text \<open>\<open>Vec::insert\<close> before the first element with the path \<open>/\<close>, or \<open>push\<close> when there is none.\<close>

fun insert_before_root :: "ingress_path \<Rightarrow> ingress_path list \<Rightarrow> ingress_path list" where
  "insert_before_root x [] = [x]"
| "insert_before_root x (p # ps) = (if ip_path p = Some ''/'' then x # p # ps else p # insert_before_root x ps)"

definition static_paths :: "string \<Rightarrow> resolved_pages_config option \<Rightarrow> ingress_path list \<Rightarrow> ingress_path list" where
  "static_paths n pages_config paths =
     (case pages_config of
        None \<Rightarrow> paths
      | Some config \<Rightarrow>
          if has_path paths (rp_static_url config) then paths
          else insert_before_root (build_http_path (rp_static_url config) n 8080) paths)"

definition ingress_paths ::
  "string \<Rightarrow> route_metadata list \<Rightarrow> u16 \<Rightarrow> infra_signals option \<Rightarrow> resolved_pages_config option \<Rightarrow> ingress_path list" where
  "ingress_paths n routes port signals pages_config =
     static_paths n pages_config
       (signal_paths n port signals (map (\<lambda>r. build_http_path (rm_path r) n port) routes))"

definition is_preview_app :: "project \<Rightarrow> bool" where
  "is_preview_app app \<longleftrightarrow>
     Option.bind (om_labels (pj_metadata app)) (\<lambda>m. m ''reinhardt.dev/preview'') = Some ''true''"

definition build_ingress ::
  "project \<Rightarrow> route_metadata list \<Rightarrow> u16 \<Rightarrow> string option \<Rightarrow> infra_signals option \<Rightarrow> resolved_pages_config option
     \<Rightarrow> operator_error + ingress option" where
  "build_ingress app routes port host signals pages_config =
     (let project_name = name_any app;
          paths = ingress_paths project_name routes port signals pages_config in
      if paths = [] then Inr None
      else
        result_bind (require_namespace app) (\<lambda>namespace.
        result_bind (owner_reference_of app) (\<lambda>owner_ref.
        let rule = \<lparr>ir_host = host, ir_paths = Some paths\<rparr>;
            annotations = merge_tls_annotations app (build_annotations signals);
            annotations1 = (if pages_config \<noteq> None
              then annotations(''nginx.ingress.kubernetes.io/proxy-buffering'' \<mapsto> ''on'') else annotations);
            preview = is_preview_app app \<and> host \<noteq> None;
            annotations2 = (if preview then annotations1(''cert-manager.io/issuer'' \<mapsto> ISSUER_NAME) else annotations1);
            tls = (if preview
                   then Some [\<lparr>it_hosts = Some [unwrap_or [] host], it_secret_name = Some (project_name @ ''-tls'')\<rparr>]
                   else map_option (\<lambda>t. [t]) (resolve_tls app host))
        in Inr (Some \<lparr>ing_metadata = (owned_meta project_name namespace (standard_labels app CompIngress) owner_ref)
                   \<lparr>om_annotations := if annotations2 = Map.empty then None else Some annotations2\<rparr>,
                 ing_spec = Some \<lparr>is_class_name = Some ''nginx'', is_rules = Some [rule], is_tls = tls\<rparr>\<rparr>))))"

section \<open>Hosts\<close>

definition INGRESS_HOST_SUFFIXES_ENV :: string where
  "INGRESS_HOST_SUFFIXES_ENV = ''REINHARDT_CLOUD_INGRESS_HOST_SUFFIXES''"

definition allowed_ingress_host_suffixes :: "string option \<Rightarrow> string list" where
  "allowed_ingress_host_suffixes env =
     map (\<lambda>suffix. to_ascii_lowercase (trim_start_matches (CHR ''.'') suffix))
       (filter (\<lambda>suffix. suffix \<noteq> []) (map trim (split_char (CHR '','') (unwrap_or [] env))))"

definition is_wildcard_ingress_host :: "string \<Rightarrow> bool" where
  "is_wildcard_ingress_host host \<longleftrightarrow> starts_with (trim_end_matches (CHR ''.'') (trim host)) ''*.''"

definition host_matches_allowed_suffix :: "string \<Rightarrow> string \<Rightarrow> bool" where
  "host_matches_allowed_suffix host suffix \<longleftrightarrow>
     (let host1 = to_ascii_lowercase (trim_end_matches (CHR ''.'') host);
          suffix1 = trim_end_matches (CHR ''.'') suffix
      in host1 = suffix1 \<or> ends_with host1 (''.'' @ suffix1))"

definition ensure_ingress_host_allowed :: "string option \<Rightarrow> string \<Rightarrow> operator_error + unit" where
  "ensure_ingress_host_allowed env host =
     (if is_wildcard_ingress_host host then
        Inl (InvalidIngressHost (''services.ingress_host '' @ quoted host
          @ '' must not use Kubernetes wildcard host syntax''))
      else let suffixes = allowed_ingress_host_suffixes env in
        if suffixes = [] then
          Inl (InvalidIngressHost (''services.ingress_host '' @ quoted host @ '' requires '' @ INGRESS_HOST_SUFFIXES_ENV
            @ '' to declare an allowed DNS suffix''))
        else if list_ex (host_matches_allowed_suffix host) suffixes then Inr ()
        else Inl (InvalidIngressHost (''services.ingress_host '' @ quoted host
          @ '' is outside the allowed DNS suffixes configured by '' @ INGRESS_HOST_SUFFIXES_ENV)))"

definition ingress_rule_matches_host :: "ingress_rule \<Rightarrow> string \<Rightarrow> bool" where
  "ingress_rule_matches_host rule host \<longleftrightarrow> is_some_and (ir_host rule) (\<lambda>existing. eq_ignore_ascii_case existing host)"

definition ingress_claims_host :: "ingress \<Rightarrow> string \<Rightarrow> bool" where
  "ingress_claims_host i host \<longleftrightarrow>
     is_some_and (Option.bind (ing_spec i) is_rules) (list_ex (\<lambda>rule. ingress_rule_matches_host rule host))"

definition ingress_identity :: "ingress \<Rightarrow> string \<times> string" where
  "ingress_identity i = (unwrap_or [] (om_namespace (ing_metadata i)), unwrap_or [] (om_name (ing_metadata i)))"

definition ensure_ingress_host_available ::
  "'w operator_api \<Rightarrow> project \<Rightarrow> string \<Rightarrow> string \<Rightarrow> ('w, operator_error, unit) kube_op" where
  "ensure_ingress_host_available api app namespace host =
     op_bind (op_kube (do_request ListIngresses (k_list_ingresses api))) (\<lambda>existing.
       case find (\<lambda>i. ingress_claims_host i host) existing of
         None \<Rightarrow> op_return ()
       | Some i \<Rightarrow>
           (case ingress_identity i of (existing_namespace, existing_name) \<Rightarrow>
              if existing_namespace \<noteq> namespace \<or> existing_name \<noteq> name_any app
              then op_throw (InvalidIngressHost (''services.ingress_host '' @ quoted host @ '' is already claimed by Ingress ''
                     @ existing_namespace @ ''/'' @ existing_name))
              else op_return ()))"

definition normalized_host :: "string option \<Rightarrow> string option" where
  "normalized_host host = non_empty (map_option trim host)"

definition apply_desired_ingress ::
  "'w operator_api \<Rightarrow> project \<Rightarrow> string \<Rightarrow> route_metadata list \<Rightarrow> u16 \<Rightarrow> string option
     \<Rightarrow> resolved_pages_config option \<Rightarrow> ('w, operator_error, unit) kube_op" where
  "apply_desired_ingress api app namespace routes port host pages_config =
     op_bind (op_lift (build_ingress app routes port host
                (map_option (\<lambda>i. fm_infrastructure_signals (io_features i)) (ps_introspect (pj_spec app))) pages_config)) (\<lambda>desired.
       case desired of
         None \<Rightarrow> op_return ()
       | Some ing \<Rightarrow> op_kube (do_request (ApplyObject namespace (name_any app) (ObjIngress ing))
                        (k_apply api namespace (name_any app) (ObjIngress ing))))"

definition reconcile_ingress_resource_with_host ::
  "'w operator_api \<Rightarrow> string option \<Rightarrow> project \<Rightarrow> string \<Rightarrow> route_metadata list \<Rightarrow> u16 \<Rightarrow> string option
     \<Rightarrow> resolved_pages_config option \<Rightarrow> ('w, operator_error, unit) kube_op" where
  "reconcile_ingress_resource_with_host api env app namespace routes port host pages_config =
     op_bind (case normalized_host host of
                None \<Rightarrow> op_return ()
              | Some h \<Rightarrow> op_bind (op_lift (ensure_ingress_host_allowed env h)) (\<lambda>_.
                            ensure_ingress_host_available api app namespace h)) (\<lambda>_.
       apply_desired_ingress api app namespace routes port (normalized_host host) pages_config)"

definition reconcile_ingress_resource ::
  "'w operator_api \<Rightarrow> string option \<Rightarrow> project \<Rightarrow> string \<Rightarrow> route_metadata list \<Rightarrow> u16
     \<Rightarrow> resolved_pages_config option \<Rightarrow> ('w, operator_error, unit) kube_op" where
  "reconcile_ingress_resource api env app namespace routes port pages_config =
     reconcile_ingress_resource_with_host api env app namespace routes port None pages_config"

text \<open>The Ingress part of \<open>apply\<close>.\<close>

definition root_route :: route_metadata where
  "root_route = \<lparr>rm_path = ''/'', rm_methods = [], rm_name = None, rm_namespace = None\<rparr>"

definition apply_ingress ::
  "'w operator_api \<Rightarrow> string option \<Rightarrow> project \<Rightarrow> string \<Rightarrow> resolved_pages_config option
     \<Rightarrow> ('w, operator_error, unit) kube_op" where
  "apply_ingress api env app namespace pages_config =
     (case resolve_ingress_config app of
        Some (routes, port) \<Rightarrow> reconcile_ingress_resource api env app namespace routes port pages_config
      | None \<Rightarrow>
          (case Option.bind (ps_services (pj_spec app)) svc_ingress_host of
             None \<Rightarrow> op_return ()
           | Some host \<Rightarrow> reconcile_ingress_resource_with_host api env app namespace [root_route]
                            (resolve_app_port app) (Some host) pages_config))"

section \<open>The autoscaler\<close>

definition DEFAULT_MAX_REPLICAS :: i32 where "DEFAULT_MAX_REPLICAS = 6"
definition DEFAULT_TARGET_VALUE :: i32 where "DEFAULT_TARGET_VALUE = 70"

datatype autoscaler_plan = ApplyPlan autoscaler | Unsupported string string

record resolved_scale =
  rs_min_replicas :: i32
  rs_max_replicas :: i32
  rs_metric :: scale_metric
  rs_target_value :: i32

text \<open>\<open>i32::max\<close>.\<close>

definition signed_max :: "i32 \<Rightarrow> i32 \<Rightarrow> i32" where
  "signed_max a b = (if sint a \<le> sint b then b else a)"

definition resolve_scale :: "project \<Rightarrow> scale_spec \<Rightarrow> resolved_scale" where
  "resolve_scale app scale =
     (let min_replicas = signed_max (unwrap_or 1
            (case sc_min_replicas scale of Some m \<Rightarrow> Some m | None \<Rightarrow> ps_replicas (pj_spec app))) 1;
          max_replicas = signed_max (case sc_max_replicas scale of
              Some m \<Rightarrow> m | None \<Rightarrow> signed_max DEFAULT_MAX_REPLICAS min_replicas) min_replicas
      in \<lparr>rs_min_replicas = min_replicas, rs_max_replicas = max_replicas,
          rs_metric = unwrap_or Cpu (sc_metric scale),
          rs_target_value = unwrap_or DEFAULT_TARGET_VALUE (sc_target_value scale)\<rparr>)"

text \<open>\<open>None\<close> is the \<open>unreachable!\<close> of the code, ruled out before the call.\<close>

definition build_metric :: "resolved_scale \<Rightarrow> metric_spec option" where
  "build_metric scale =
     (case rs_metric scale of
        Cpu \<Rightarrow> Some \<lparr>ms_resource = ''cpu'', ms_target_type = ''Utilization'',
          ms_average_utilization = Some (rs_target_value scale), ms_average_value = None\<rparr>
      | Memory \<Rightarrow> Some \<lparr>ms_resource = ''memory'', ms_target_type = ''AverageValue'', ms_average_utilization = None,
          ms_average_value = Some (show_int (sint (rs_target_value scale)) @ ''Mi'')\<rparr>
      | Rps \<Rightarrow> None)"

definition rps_message :: string where
  "rps_message = ''RPS autoscaling requires custom or external metrics and is not supported by the standard HPA implementation''"

definition build_autoscaler :: "project \<Rightarrow> operator_error + autoscaler_plan option" where
  "build_autoscaler app =
     (case ps_scale (pj_spec app) of
        None \<Rightarrow> Inr None
      | Some scale \<Rightarrow>
          let resolved = resolve_scale app scale in
          if rs_metric resolved = Rps then Inr (Some (Unsupported ''UnsupportedMetric'' rps_message))
          else result_bind (require_namespace app) (\<lambda>namespace.
               result_bind (owner_reference_of app) (\<lambda>owner_ref.
                 Inr (Some (ApplyPlan
                   \<lparr>hpa_metadata = owned_meta (name_any app) namespace (standard_labels app CompWeb) owner_ref,
                    hpa_target = (''Deployment'', name_any app),
                    hpa_min_replicas = Some (rs_min_replicas resolved), hpa_max_replicas = rs_max_replicas resolved,
                    hpa_metrics = map_option (\<lambda>m. [m]) (build_metric resolved), hpa_status = None\<rparr>)))))"

definition has_true_condition :: "(string \<times> string) list \<Rightarrow> string \<Rightarrow> bool" where
  "has_true_condition conditions t \<longleftrightarrow> list_ex (\<lambda>(type, status). type = t \<and> status = ''True'') conditions"

definition hpa_is_ready :: "autoscaler \<Rightarrow> bool" where
  "hpa_is_ready hpa \<longleftrightarrow>
     (case (Option.bind (hpa_status hpa) hs_observed_generation, om_generation (hpa_metadata hpa)) of
        (Some observed, Some generation) \<Rightarrow> sint observed \<ge> sint generation
      | _ \<Rightarrow> False)
     \<and> (let conditions = unwrap_or [] (Option.bind (hpa_status hpa) hs_conditions)
        in has_true_condition conditions ''AbleToScale'' \<and> has_true_condition conditions ''ScalingActive'')"

definition reconcile_hpa ::
  "'w operator_api \<Rightarrow> string \<Rightarrow> string \<Rightarrow> autoscaler \<Rightarrow> ('w, operator_error, unit) kube_op" where
  "reconcile_hpa api namespace n hpa =
     op_kube (do_request (ApplyObject namespace n (ObjAutoscaler hpa)) (k_apply api namespace n (ObjAutoscaler hpa)))"

section \<open>Conditions\<close>

definition tls_condition ::
  "'w operator_api \<Rightarrow> string \<Rightarrow> project \<Rightarrow> string \<Rightarrow> ('w, operator_error, project_condition option) kube_op" where
  "tls_condition api now app namespace =
     (case ps_services (pj_spec app) of
        None \<Rightarrow> op_return None
      | Some services \<Rightarrow>
          (case svc_tls services of
             None \<Rightarrow> op_return None
           | Some tls \<Rightarrow>
               if \<not> tls_enabled tls then op_return None
               else
                 let host = unwrap_or [] (svc_ingress_host services);
                     secret = unwrap_or [] (tls_secret_name tls) in
                 if host = [] \<or> secret = []
                 then op_return (Some (build_condition app now TlsReady CondFalse ''TlsSecretNotReady''
                        ''Waiting for Ingress TLS host and Secret name to be configured''))
                 else
                   op_bind (op_kube (do_request (GetIngress namespace (name_any app)) (k_get_ingress api namespace (name_any app)))) (\<lambda>ing.
                   op_bind (op_kube (do_request (GetSecret namespace secret) (k_get_secret api namespace secret))) (\<lambda>found.
                     let ingress_matches = is_some_and (Option.bind (Option.bind ing ing_spec) is_tls)
                           (list_ex (\<lambda>entry. it_secret_name entry = Some secret
                              \<and> is_some_and (it_hosts entry) (list_ex (\<lambda>candidate. candidate = host))))
                     in op_return (Some
                       (if ingress_matches \<and> found \<noteq> None
                        then build_condition app now TlsReady CondTrue ''TlsSecretReady''
                          (''Ingress TLS references Secret '' @ quoted secret @ '' and the Secret exists'')
                        else build_condition app now TlsReady CondFalse ''TlsSecretNotReady''
                          (''Waiting for Ingress TLS host '' @ quoted host @ '' and Secret '' @ quoted secret)))))))"

definition autoscaler_condition ::
  "'w operator_api \<Rightarrow> string \<Rightarrow> project \<Rightarrow> string \<Rightarrow> ('w, operator_error, project_condition option) kube_op" where
  "autoscaler_condition api now app namespace =
     (case ps_scale (pj_spec app) of
        None \<Rightarrow> op_return None
      | Some scale \<Rightarrow>
          if sc_metric scale = Some Rps then op_return None
          else
            op_bind (op_kube (do_request (GetAutoscaler namespace (name_any app)) (k_get_autoscaler api namespace (name_any app)))) (\<lambda>hpa.
              op_return (Some
                (if is_some_and hpa hpa_is_ready
                 then build_condition app now AutoscalerReady CondTrue ''AutoscalerActive''
                   ''HorizontalPodAutoscaler is observed and active''
                 else build_condition app now AutoscalerReady CondFalse ''AutoscalerNotReady''
                   ''Waiting for HorizontalPodAutoscaler to become observed and active''))))"

section \<open>Hosts by their labels\<close>

lemma split_char_append: "split_char d (a @ d # b) = split_char d a @ split_char d b"
  by (induction a) (auto split: list.splits)

lemma join_split_char: "join [d] (split_char d s) = s"
proof (induction s)
  case (Cons c s)
  obtain w ws where sp: "split_char d s = w # ws" by (cases "split_char d s") auto
  with Cons.IH have j: "join [d] (w # ws) = s" by simp
  show ?case
  proof (cases "c = d")
    case True
    with sp j show ?thesis by simp
  next
    case False
    have "join [d] ((c # w) # ws) = c # join [d] (w # ws)" by (cases ws) simp_all
    with False sp j show ?thesis by simp
  qed
qed simp

lemma split_char_inject: "split_char d a = split_char d b \<Longrightarrow> a = b"
  by (metis join_split_char)

lemma join_append: "xs \<noteq> [] \<Longrightarrow> ys \<noteq> [] \<Longrightarrow> join sep (xs @ ys) = join sep xs @ sep @ join sep ys"
proof (induction xs)
  case (Cons x xs)
  then show ?case
    by (cases xs; cases ys) simp_all
qed simp

text \<open>The labels of \<open>suffix\<close> are the last labels of \<open>host\<close>.\<close>

definition subdomain :: "string \<Rightarrow> string \<Rightarrow> bool" where
  "subdomain host suffix \<longleftrightarrow> (\<exists>xs. split_char (CHR ''.'') host = xs @ split_char (CHR ''.'') suffix)"

lemma subdomain_iff: "subdomain host suffix \<longleftrightarrow> host = suffix \<or> ends_with host (''.'' @ suffix)"
proof
  assume "subdomain host suffix"
  then obtain xs where xs: "split_char (CHR ''.'') host = xs @ split_char (CHR ''.'') suffix" by (auto simp: subdomain_def)
  show "host = suffix \<or> ends_with host (''.'' @ suffix)"
  proof (cases "xs = []")
    case True
    with xs show ?thesis using split_char_inject by simp
  next
    case False
    have "host = join ''.'' (xs @ split_char (CHR ''.'') suffix)" using join_split_char [of "CHR ''.''" host] xs by simp
    also have "\<dots> = join ''.'' xs @ ''.'' @ suffix" using False by (simp add: join_append join_split_char)
    finally show ?thesis by (auto simp: ends_with_iff)
  qed
next
  assume "host = suffix \<or> ends_with host (''.'' @ suffix)"
  then show "subdomain host suffix"
  proof
    assume "ends_with host (''.'' @ suffix)"
    then obtain t where "host = t @ CHR ''.'' # suffix" by (auto simp: ends_with_iff)
    then show ?thesis by (auto simp: subdomain_def split_char_append)
  qed (simp add: subdomain_def)
qed

lemma ensure_ingress_host_allowed_iff:
  "ensure_ingress_host_allowed env host = Inr () \<longleftrightarrow>
     \<not> is_wildcard_ingress_host host
     \<and> (\<exists>suffix \<in> set (allowed_ingress_host_suffixes env).
          subdomain (to_ascii_lowercase (trim_end_matches (CHR ''.'') host)) (trim_end_matches (CHR ''.'') suffix))"
  by (auto simp: ensure_ingress_host_allowed_def Let_def host_matches_allowed_suffix_def subdomain_iff list_ex_iff)

section \<open>Runs of the Ingress reconciliation\<close>

definition host_granted :: "'w operator_api \<Rightarrow> string option \<Rightarrow> project \<Rightarrow> string \<Rightarrow> 'w \<Rightarrow> string \<Rightarrow> bool" where
  "host_granted api env app namespace w h \<longleftrightarrow>
     ensure_ingress_host_allowed env h = Inr ()
     \<and> (\<exists>existing w1. k_list_ingresses api w = (Inr existing, w1)
          \<and> (\<forall>i. find (\<lambda>i. ingress_claims_host i h) existing = Some i \<longrightarrow> ingress_identity i = (namespace, name_any app)))"

definition ingress_request ::
  "'w operator_api \<Rightarrow> string option \<Rightarrow> project \<Rightarrow> string \<Rightarrow> route_metadata list \<Rightarrow> u16 \<Rightarrow> string option
     \<Rightarrow> resolved_pages_config option \<Rightarrow> 'w \<Rightarrow> kube_call \<Rightarrow> bool" where
  "ingress_request api env app namespace routes port host pages_config w c \<longleftrightarrow>
     c = ListIngresses
     \<or> (\<exists>ing. c = ApplyObject namespace (name_any app) (ObjIngress ing)
          \<and> build_ingress app routes port (normalized_host host)
              (map_option (\<lambda>i. fm_infrastructure_signals (io_features i)) (ps_introspect (pj_spec app))) pages_config = Inr (Some ing)
          \<and> (\<forall>h. normalized_host host = Some h \<longrightarrow> host_granted api env app namespace w h))"

lemma host_available_runs:
  "op_runs (w, l) (ensure_ingress_host_available api app namespace h)
     (\<lambda>r w' l'. (\<exists>ok. l' = l @ [(ListIngresses, ok)])
        \<and> (r = Inr () \<longrightarrow> (\<exists>existing w1. k_list_ingresses api w = (Inr existing, w1)
             \<and> (\<forall>i. find (\<lambda>i. ingress_claims_host i h) existing = Some i \<longrightarrow> ingress_identity i = (namespace, name_any app)))))"
  unfolding ensure_ingress_host_available_def
  by (rule run_rules | simp)+ (auto simp: op_runs_def split: option.splits prod.splits if_splits)

lemma apply_built_ingress:
  assumes "\<And>ing. build_ingress app routes port (normalized_host host)
      (map_option (\<lambda>i. fm_infrastructure_signals (io_features i)) (ps_introspect (pj_spec app))) pages_config = Inr (Some ing)
      \<Longrightarrow> ingress_request api env app namespace routes port host pages_config w
            (ApplyObject namespace (name_any app) (ObjIngress ing))"
    and "\<forall>c \<in> set pre. ingress_request api env app namespace routes port host pages_config w (fst c)"
  shows "op_runs (w', l @ pre) (apply_desired_ingress api app namespace routes port (normalized_host host) pages_config)
     (\<lambda>r w'' l'. \<exists>k. l' = l @ k \<and> (\<forall>c \<in> set k. ingress_request api env app namespace routes port host pages_config w (fst c)))"
  unfolding apply_desired_ingress_def by (rule run_rules | simp add: assms)+

lemma reconcile_ingress_requests:
  "op_runs (w, l) (reconcile_ingress_resource_with_host api env app namespace routes port host pages_config)
     (\<lambda>r w' l'. \<exists>k. l' = l @ k \<and> (\<forall>c \<in> set k. ingress_request api env app namespace routes port host pages_config w (fst c)))"
proof (cases "normalized_host host")
  case None
  have "op_runs (w, l @ []) (apply_desired_ingress api app namespace routes port (normalized_host host) pages_config)
     (\<lambda>r w'' l'. \<exists>k. l' = l @ k \<and> (\<forall>c \<in> set k. ingress_request api env app namespace routes port host pages_config w (fst c)))"
    by (rule apply_built_ingress) (simp_all add: ingress_request_def None)
  then show ?thesis
    unfolding reconcile_ingress_resource_with_host_def by (simp add: None)
next
  case (Some h)
  have chk: "op_runs (w, l) (op_bind (op_lift (ensure_ingress_host_allowed env h)) (\<lambda>_.
          ensure_ingress_host_available api app namespace h))
     (\<lambda>r w' l'. (\<exists>k. l' = l @ k \<and> (\<forall>c \<in> set k. fst c = ListIngresses)) \<and> (r = Inr () \<longrightarrow> host_granted api env app namespace w h))"
    by (rule op_runs_lift_bind, simp, rule op_runs_mono [OF host_available_runs], auto simp: host_granted_def)
  show ?thesis
    unfolding reconcile_ingress_resource_with_host_def Some option.case
  proof (rule op_runs_bind [OF chk], goal_cases)
    case (1 e w' l')
    then show ?case by (auto simp: ingress_request_def)
  next
    case (2 a w' l')
    then obtain pre where "l' = l @ pre" "\<forall>c \<in> set pre. fst c = ListIngresses" "host_granted api env app namespace w h" by auto
    then show ?case
      unfolding Some [symmetric] by (simp only:) (rule apply_built_ingress; simp add: ingress_request_def Some)
  qed
qed

lemma build_ingress_parts:
  assumes "build_ingress app routes port host signals pages_config = Inr (Some ing)"
  shows "\<exists>s. ing_spec ing = Some s
     \<and> is_rules s = Some [\<lparr>ir_host = host, ir_paths = Some (ingress_paths (name_any app) routes port signals pages_config)\<rparr>]
     \<and> is_tls s = (if is_preview_app app \<and> host \<noteq> None
          then Some [\<lparr>it_hosts = Some [unwrap_or [] host], it_secret_name = Some (name_any app @ ''-tls'')\<rparr>]
          else map_option (\<lambda>t. [t]) (resolve_tls app host))
     \<and> (is_preview_app app \<and> host \<noteq> None \<longrightarrow>
          Option.bind (om_annotations (ing_metadata ing)) (\<lambda>m. m ''cert-manager.io/issuer'') = Some ISSUER_NAME)"
  using assms by (auto simp: build_ingress_def Let_def result_bind_Inr split: if_splits)

lemma resolve_tls_hosts:
  "resolve_tls app (Some h) = Some t \<Longrightarrow> it_hosts t = Some [h]"
  by (auto simp: resolve_tls_def split: option.splits if_splits)

lemma resolve_tls_blank:
  assumes "normalized_host (Option.bind (ps_services (pj_spec app)) svc_ingress_host) = None"
    and "resolve_tls app None = Some t"
  shows "\<exists>h. it_hosts t = Some [h] \<and> trim h = []"
  using assms by (auto simp: resolve_tls_def normalized_host_def non_empty_def split: option.splits if_splits)

text \<open>Without a host for the rule, an accepted project has no TLS entry either.\<close>

lemma resolve_tls_no_host:
  assumes "project_wf (pj_spec app)"
    and "normalized_host (Option.bind (ps_services (pj_spec app)) svc_ingress_host) = None"
  shows "resolve_tls app None = None"
proof (cases "ps_services (pj_spec app)")
  case (Some s)
  show ?thesis
  proof (cases "svc_tls s")
    case (Some t)
    have "\<not> tls_enabled t \<or> svc_ingress_host s = None"
      using assms \<open>ps_services _ = _\<close> Some
      by (auto simp: project_wf_def services_wf_def tls_wf_def normalized_host_def non_empty_def split: option.splits if_splits)
    with Some \<open>ps_services _ = _\<close> show ?thesis by (auto simp: resolve_tls_def)
  qed (simp add: resolve_tls_def Some)
qed (simp add: resolve_tls_def)

section \<open>Properties\<close>

text \<open>
  C21. A project can only claim hosts the operator's configuration grants. Every object the Ingress part
  of a pass applies is the Ingress named after the project, in its namespace, with one rule. If the
  rule has a host, the labels of that host, in lower case and without trailing dots, end with those of
  an allowed suffix, it is no wildcard, and in the listing of this pass no Ingress, or the project's own
  Ingress as the first one, claimed the host. The specification need not have been validated, which a
  pass does not do. The TLS entries name only the host of the rule; without one they can name a blank
  host, and a project whose specification would be accepted has none then.
\<close>
theorem ingress_host_confined:
  assumes "apply_ingress api env app namespace pages_config (w, l) = (r, w', l @ k)"
    and "(ApplyObject n nm obj, ok) \<in> set k"
  shows "n = namespace \<and> nm = name_any app
    \<and> (\<exists>ing s rule. obj = ObjIngress ing \<and> ing_spec ing = Some s \<and> is_rules s = Some [rule]
        \<and> (\<forall>t \<in> set (unwrap_or [] (is_tls s)). \<exists>h. it_hosts t = Some [h]
             \<and> (ir_host rule = Some h \<or> ir_host rule = None \<and> trim h = []))
        \<and> (validate_project (pj_spec app) = Inr () \<longrightarrow> ir_host rule = None \<longrightarrow> unwrap_or [] (is_tls s) = [])
        \<and> (\<forall>h. ir_host rule = Some h \<longrightarrow>
             \<not> is_wildcard_ingress_host h
             \<and> (\<exists>suffix \<in> set (allowed_ingress_host_suffixes env).
                  subdomain (to_ascii_lowercase (trim_end_matches (CHR ''.'') h)) (trim_end_matches (CHR ''.'') suffix))
             \<and> (\<exists>existing w1. k_list_ingresses api w = (Inr existing, w1)
                  \<and> (\<forall>i. find (\<lambda>i. ingress_claims_host i h) existing = Some i \<longrightarrow>
                       ingress_identity i = (namespace, name_any app)))))"
proof -
  let ?host = "Option.bind (ps_services (pj_spec app)) svc_ingress_host"
  have "\<exists>routes port. ingress_request api env app namespace routes port ?host pages_config w (ApplyObject n nm obj)"
  proof (cases "resolve_ingress_config app")
    case None
    with assms(1,2) obtain raw where raw: "?host = Some raw"
      and run: "reconcile_ingress_resource_with_host api env app namespace [root_route] (resolve_app_port app) (Some raw) pages_config (w, l)
        = (r, w', l @ k)"
      by (auto simp: apply_ingress_def split: option.splits)
    from op_runsD [OF reconcile_ingress_requests run] assms(2) raw show ?thesis by fastforce
  next
    case (Some p)
    then have h: "?host = None"
      by (cases "ps_services (pj_spec app)") (auto simp: resolve_ingress_config_def split: if_splits)
    obtain routes port where p: "p = (routes, port)" by (cases p)
    with Some assms(1) have run: "reconcile_ingress_resource_with_host api env app namespace routes port None pages_config (w, l) = (r, w', l @ k)"
      by (simp add: apply_ingress_def reconcile_ingress_resource_def)
    from op_runsD [OF reconcile_ingress_requests run] assms(2) h show ?thesis by fastforce
  qed
  then obtain routes port ing where n: "n = namespace" "nm = name_any app" "obj = ObjIngress ing"
    and b: "build_ingress app routes port (normalized_host ?host)
          (map_option (\<lambda>i. fm_infrastructure_signals (io_features i)) (ps_introspect (pj_spec app))) pages_config = Inr (Some ing)"
    and g: "\<forall>h. normalized_host ?host = Some h \<longrightarrow> host_granted api env app namespace w h"
    by (auto simp: ingress_request_def)
  from build_ingress_parts [OF b] obtain s paths where s: "ing_spec ing = Some s"
      "is_rules s = Some [\<lparr>ir_host = normalized_host ?host, ir_paths = Some paths\<rparr>]"
      "is_tls s = (if is_preview_app app \<and> normalized_host ?host \<noteq> None
          then Some [\<lparr>it_hosts = Some [unwrap_or [] (normalized_host ?host)], it_secret_name = Some (name_any app @ ''-tls'')\<rparr>]
          else map_option (\<lambda>t. [t]) (resolve_tls app (normalized_host ?host)))" by blast
  have tls: "\<forall>t \<in> set (unwrap_or [] (is_tls s)). \<exists>h. it_hosts t = Some [h]
      \<and> (normalized_host ?host = Some h \<or> normalized_host ?host = None \<and> trim h = [])"
    using s(3) resolve_tls_hosts [of app] resolve_tls_blank [of app]
    by (cases "normalized_host ?host"; cases "resolve_tls app (normalized_host ?host)") auto
  have none: "validate_project (pj_spec app) = Inr () \<longrightarrow> normalized_host ?host = None \<longrightarrow> unwrap_or [] (is_tls s) = []"
    using s(3) resolve_tls_no_host [of app] by (auto simp: validate_project_wf)
  from tls none g n s(1,2) show ?thesis
    by (intro conjI exI [of _ ing] exI [of _ s] exI [of _ "\<lparr>ir_host = normalized_host ?host, ir_paths = Some paths\<rparr>"])
       (simp_all add: host_granted_def ensure_ingress_host_allowed_iff)
qed

text \<open>
  The replica bounds of the autoscaler: the minimum is at least 1 and at most the maximum, also where
  the given or defaulted values would not be; a validated minimum is used as it is and a validated
  pair of bounds as well; the autoscaler has its one metric and scales the deployment of the
  project, while the deployment that a pass applies before always asks for the replicas of the specification, or 1, and
  so undoes what the autoscaler chose.
\<close>
theorem autoscaler_bounds:
  assumes "build_autoscaler app = Inr (Some (ApplyPlan hpa))"
  shows "\<exists>scale mn m. ps_scale (pj_spec app) = Some scale \<and> hpa_min_replicas hpa = Some mn
    \<and> 1 \<le> sint mn \<and> sint mn \<le> sint (hpa_max_replicas hpa)
    \<and> hpa_target hpa = (''Deployment'', name_any app) \<and> hpa_metrics hpa = Some [m]
    \<and> (validate_project (pj_spec app) = Inr () \<longrightarrow>
        (\<forall>a. sc_min_replicas scale = Some a \<longrightarrow> mn = a)
        \<and> (\<forall>a b. sc_min_replicas scale = Some a \<longrightarrow> sc_max_replicas scale = Some b \<longrightarrow> hpa_max_replicas hpa = b))
    \<and> (\<forall>d pages_config platform. build_deployment app pages_config platform = Inr d \<longrightarrow>
         om_name (dp_metadata d) = Some (name_any app)
         \<and> Option.bind (dp_spec d) ds_replicas = Some (unwrap_or 1 (ps_replicas (pj_spec app))))"
proof -
  from assms obtain scale where sc: "ps_scale (pj_spec app) = Some scale" "rs_metric (resolve_scale app scale) \<noteq> Rps"
    and h: "hpa_min_replicas hpa = Some (rs_min_replicas (resolve_scale app scale))"
      "hpa_max_replicas hpa = rs_max_replicas (resolve_scale app scale)" "hpa_target hpa = (''Deployment'', name_any app)"
      "hpa_metrics hpa = map_option (\<lambda>m. [m]) (build_metric (resolve_scale app scale))"
    by (auto simp: build_autoscaler_def Let_def result_bind_Inr split: option.splits if_splits)
  from sc(2) obtain m where m: "build_metric (resolve_scale app scale) = Some m"
    by (cases "rs_metric (resolve_scale app scale)") (simp_all add: build_metric_def)
  have mx: "sint b \<le> sint (signed_max a b)" "sint a \<le> sint (signed_max a b)" for a b :: i32 by (simp_all add: signed_max_def)
  have eq: "sint b \<le> sint a \<Longrightarrow> signed_max a b = a" for a b :: i32
    by (simp add: signed_max_def) (metis order_antisym signed_word_eqI)
  have bounds: "1 \<le> sint (rs_min_replicas (resolve_scale app scale))"
    "sint (rs_min_replicas (resolve_scale app scale)) \<le> sint (rs_max_replicas (resolve_scale app scale))"
    using mx(1) [of 1] mx(1) by (simp_all add: resolve_scale_def Let_def)
  have "(\<forall>a. sc_min_replicas scale = Some a \<longrightarrow> rs_min_replicas (resolve_scale app scale) = a)
     \<and> (\<forall>a b. sc_min_replicas scale = Some a \<longrightarrow> sc_max_replicas scale = Some b \<longrightarrow> rs_max_replicas (resolve_scale app scale) = b)"
    if "validate_project (pj_spec app) = Inr ()"
  proof -
    have "scale_wf scale" using that sc(1) by (simp add: validate_project_wf project_wf_def)
    then show ?thesis by (auto simp: scale_wf_def resolve_scale_def Let_def eq)
  qed
  moreover have "om_name (dp_metadata d) = Some (name_any app)
      \<and> Option.bind (dp_spec d) ds_replicas = Some (unwrap_or 1 (ps_replicas (pj_spec app)))"
    if "build_deployment app pages_config platform = Inr d" for d pages_config platform
    by (rule build_deployment_Inr [OF that]) (simp add: owned_meta_def)
  ultimately show ?thesis using sc h m bounds by (intro exI [of _ scale] exI [of _ "rs_min_replicas (resolve_scale app scale)"] exI [of _ m]) simp
qed

text \<open>The paths of an Ingress.\<close>

lemma set_insert_before_root: "set (insert_before_root x ps) = insert x (set ps)"
  by (induction ps) auto

lemma insert_before_root_split: "\<exists>pre post. insert_before_root x ps = pre @ x # post \<and> \<not> has_path pre ''/''"
proof (induction ps)
  case Nil
  show ?case by (intro exI [of _ "[]"]) (simp add: has_path_def)
next
  case (Cons p ps)
  then obtain pre post where ih: "insert_before_root x ps = pre @ x # post" "\<not> has_path pre ''/''" by blast
  show ?case
  proof (cases "ip_path p = Some ''/''")
    case True
    then show ?thesis by (intro exI [of _ "[]"] exI [of _ "p # ps"]) (simp add: has_path_def)
  next
    case False
    with ih show ?thesis by (intro exI [of _ "p # pre"] exI [of _ post]) (simp add: has_path_def)
  qed
qed

lemma signal_paths_shape:
  "\<exists>extra. signal_paths n port signals rs = rs @ extra
     \<and> (\<forall>p \<in> set extra. \<exists>x \<in> {''/graphql/'', ''/admin/''}. p = build_http_path x n port)"
  by (auto simp: signal_paths_def Let_def split: option.splits)

lemma ingress_paths_routes: "r \<in> set routes \<Longrightarrow> build_http_path (rm_path r) n port \<in> set (ingress_paths n routes port signals pages_config)"
proof -
  assume r: "r \<in> set routes"
  obtain extra where "signal_paths n port signals (map (\<lambda>r. build_http_path (rm_path r) n port) routes)
      = map (\<lambda>r. build_http_path (rm_path r) n port) routes @ extra"
    using signal_paths_shape by blast
  with r show ?thesis
    by (auto simp: ingress_paths_def static_paths_def set_insert_before_root split: option.splits if_splits)
qed

lemma ingress_paths_mem:
  assumes "p \<in> set (ingress_paths n routes port signals pages_config)"
  shows "ip_service p = n
    \<and> (ip_port p = ucast port \<or> is_some_and pages_config (\<lambda>c. ip_path p = Some (rp_static_url c)) \<and> ip_port p = 8080)"
proof -
  let ?sig = "signal_paths n port signals (map (\<lambda>r. build_http_path (rm_path r) n port) routes)"
  obtain extra where e: "?sig = map (\<lambda>r. build_http_path (rm_path r) n port) routes @ extra"
      "\<forall>p \<in> set extra. \<exists>x \<in> {''/graphql/'', ''/admin/''}. p = build_http_path x n port"
    using signal_paths_shape by blast
  have sig: "q \<in> set ?sig \<Longrightarrow> ip_service q = n \<and> ip_port q = ucast port" for q
    unfolding e(1) using e(2) by (auto simp: build_http_path_def)
  from assms consider "p \<in> set ?sig" | c where "pages_config = Some c" "p = build_http_path (rp_static_url c) n 8080"
    by (auto simp: ingress_paths_def static_paths_def set_insert_before_root split: option.splits if_splits)
  then show ?thesis by cases (simp_all add: sig build_http_path_def)
qed

lemma ingress_paths_static:
  assumes "rp_static_url c \<notin> rm_path ` set routes" and "rp_static_url c \<notin> {''/graphql/'', ''/admin/''}"
  shows "\<exists>pre post. ingress_paths n routes port signals (Some c) = pre @ build_http_path (rp_static_url c) n 8080 # post
    \<and> \<not> has_path pre ''/''"
proof -
  let ?sig = "signal_paths n port signals (map (\<lambda>r. build_http_path (rm_path r) n port) routes)"
  obtain extra where e: "?sig = map (\<lambda>r. build_http_path (rm_path r) n port) routes @ extra"
      "\<forall>p \<in> set extra. \<exists>x \<in> {''/graphql/'', ''/admin/''}. p = build_http_path x n port"
    using signal_paths_shape by blast
  have "\<not> has_path ?sig (rp_static_url c)"
    unfolding e(1) using e(2) assms by (auto simp: has_path_def list_ex_iff build_http_path_def dest: sym)
  then have "ingress_paths n routes port signals (Some c) = insert_before_root (build_http_path (rp_static_url c) n 8080) ?sig"
    by (simp add: ingress_paths_def static_paths_def)
  with insert_before_root_split show ?thesis by metis
qed

lemma build_service_ports:
  assumes "build_service app pages_enabled = Inr s"
  shows "om_name (svo_metadata s) = Some (name_any app)
    \<and> sp_port ` set (unwrap_or [] (svo_ports s))
      = {unwrap_or 80 (Option.bind (ps_services (pj_spec app)) svc_port)} \<union> (if pages_enabled then {8080} else {})"
  using assms by (auto simp: build_service_def result_bind_Inr owned_meta_def validate_port_def split: if_splits)

text \<open>
  What an Ingress routes: every path goes to the web service of the project; each route has its path
  at the port of the application; with pages, if no route claims the static URL, the static server's
  path stands before every path of the catch-all \<open>/\<close>. A path of the application can be served only if
  its port is a port of the service, which it is exactly when \<open>services.port\<close> is the target port (or
  the target is that of the static server): with the defaults the Ingress addresses port 8000 of a
  service that has only port 80.
\<close>
theorem ingress_paths_served:
  assumes "build_ingress app routes (resolve_app_port app) host signals pages_config = Inr (Some ing)"
    and "build_service app (pages_config \<noteq> None) = Inr s"
  shows "\<exists>spec rule paths. ing_spec ing = Some spec \<and> is_rules spec = Some [rule] \<and> ir_paths rule = Some paths
    \<and> (\<forall>p \<in> set paths. Some (ip_service p) = om_name (svo_metadata s)
         \<and> (ip_port p = ucast (resolve_app_port app)
            \<or> is_some_and pages_config (\<lambda>c. ip_path p = Some (rp_static_url c)) \<and> ip_port p = 8080))
    \<and> (\<forall>r \<in> set routes. build_http_path (rm_path r) (name_any app) (resolve_app_port app) \<in> set paths)
    \<and> (\<forall>c. pages_config = Some c \<longrightarrow> rp_static_url c \<notin> rm_path ` set routes \<longrightarrow> rp_static_url c \<notin> {''/graphql/'', ''/admin/''} \<longrightarrow>
         (\<exists>pre post. paths = pre @ build_http_path (rp_static_url c) (name_any app) 8080 # post \<and> \<not> has_path pre ''/''))
    \<and> (ucast (resolve_app_port app) \<in> sp_port ` set (unwrap_or [] (svo_ports s))
        \<longleftrightarrow> ucast (resolve_app_port app) = unwrap_or 80 (Option.bind (ps_services (pj_spec app)) svc_port)
          \<or> pages_config \<noteq> None \<and> resolve_app_port app = 8080)"
proof -
  let ?n = "name_any app" and ?port = "resolve_app_port app"
  let ?paths = "ingress_paths ?n routes ?port signals pages_config"
  obtain spec where spec: "ing_spec ing = Some spec" "is_rules spec = Some [\<lparr>ir_host = host, ir_paths = Some ?paths\<rparr>]"
    using build_ingress_parts [OF assms(1)] by blast
  note svc = build_service_ports [OF assms(2)]
  have "(ucast ?port :: i32) = 8080 \<longleftrightarrow> ?port = 8080"
    by (simp add: word_uint_eq_iff uint_up_ucast is_up)
  then have ports: "ucast ?port \<in> sp_port ` set (unwrap_or [] (svo_ports s))
        \<longleftrightarrow> ucast ?port = unwrap_or 80 (Option.bind (ps_services (pj_spec app)) svc_port) \<or> pages_config \<noteq> None \<and> ?port = 8080"
    using svc by auto
  have mem: "\<forall>p \<in> set ?paths. Some (ip_service p) = om_name (svo_metadata s)
         \<and> (ip_port p = ucast ?port \<or> is_some_and pages_config (\<lambda>c. ip_path p = Some (rp_static_url c)) \<and> ip_port p = 8080)"
    using ingress_paths_mem svc by metis
  have static: "\<exists>pre post. ?paths = pre @ build_http_path (rp_static_url c) ?n 8080 # post \<and> \<not> has_path pre ''/''"
    if "pages_config = Some c" "rp_static_url c \<notin> rm_path ` set routes" "rp_static_url c \<notin> {''/graphql/'', ''/admin/''}" for c
    using ingress_paths_static [OF that(2,3)] that(1) by simp
  show ?thesis
    using spec mem static ports ingress_paths_routes
    by (intro exI [of _ spec] exI [of _ "\<lparr>ir_host = host, ir_paths = Some ?paths\<rparr>"] exI [of _ ?paths] conjI) simp_all
qed

text \<open>
  The certificate of a preview: the Ingress of a project with the preview label and a host asks the
  issuer of the preview namespace for a certificate of that host, whatever issuer and secret the
  specification names, and stores it in the secret named after the project.
\<close>
theorem preview_certificate_fixed:
  assumes "build_ingress app routes port (Some h) signals pages_config = Inr (Some ing)" and "is_preview_app app"
  shows "\<exists>spec. ing_spec ing = Some spec
    \<and> is_tls spec = Some [\<lparr>it_hosts = Some [h], it_secret_name = Some (name_any app @ ''-tls'')\<rparr>]
    \<and> Option.bind (om_annotations (ing_metadata ing)) (\<lambda>m. m ''cert-manager.io/issuer'') = Some ''preview-issuer''"
  using build_ingress_parts [OF assms(1)] assms(2) by (auto simp: ISSUER_NAME_def)

text \<open>
  A host with white space around it is trimmed for the Ingress but not for the TLS condition, which
  therefore never becomes true although the specification is accepted and the Ingress is in place.
\<close>
theorem padded_host_never_tls_ready:
  assumes "ps_services (pj_spec app) = Some services" and "svc_ingress_host services = Some raw"
    and "trim raw \<noteq> raw" and "trim raw \<noteq> []" and "\<not> is_preview_app app"
    and "build_ingress app routes port (normalized_host (Some raw)) signals pages_config = Inr (Some ing)"
    and "\<forall>w. fst (k_get_ingress api namespace (name_any app) w) = Inr (Some ing)"
    and "fst (tls_condition api now app namespace s) = Inr (Some c)"
  shows "pc_status c = CondFalse"
proof -
  have n: "normalized_host (Some raw) = Some (trim raw)" using assms(4) by (simp add: normalized_host_def non_empty_def)
  obtain spec where spec: "ing_spec ing = Some spec" "is_tls spec = map_option (\<lambda>t. [t]) (resolve_tls app (Some (trim raw)))"
    using build_ingress_parts [OF assms(6)] assms(5) n by auto
  have no_match: "\<not> is_some_and (is_tls spec)
      (list_ex (\<lambda>entry. it_secret_name entry = Some secret \<and> is_some_and (it_hosts entry) (list_ex (\<lambda>candidate. candidate = raw))))" for secret
    using assms(3) spec(2) resolve_tls_hosts [of app "trim raw"]
    by (cases "resolve_tls app (Some (trim raw))") (auto simp: is_some_and_def)
  obtain w l where s: "s = (w, l)" by (cases s)
  obtain w1 where g: "k_get_ingress api namespace (name_any app) w = (Inr (Some ing), w1)"
    using assms(7) by (metis prod.collapse)
  show ?thesis
    using assms(8) no_match
    by (auto simp: tls_condition_def assms(1,2) s Let_def op_bind_def op_map_err_def do_request_def g spec(1) build_condition_def
        split: option.splits if_splits prod.splits sum.splits)
qed

section \<open>Witnesses\<close>

definition exposed_project :: project where
  "exposed_project = sample_project\<lparr>pj_spec := (pj_spec sample_project)\<lparr>
     ps_services := Some \<lparr>svc_port = None, svc_target_port = None, svc_ingress_host = Some ''shop.example.com'', svc_tls = None\<rparr>,
     ps_scale := Some \<lparr>sc_min_replicas = Some 3, sc_max_replicas = None, sc_metric = None, sc_target_value = None\<rparr>\<rparr>\<rparr>"

definition calm_start :: calm_world where
  "calm_start = (None, 0, project_status_default)"

definition quiet_api :: "calm_world operator_api" where
  "quiet_api = secret_api.extend calm_api
     (operator_api.fields (\<lambda>_ _ _ w. (Inr (), w)) (\<lambda>w. (Inr [], w)) (\<lambda>_ _ w. (Inr None, w)) (\<lambda>_ _ w. (Inr None, w))
        (\<lambda>_ _ w. (Inr (), w)) (\<lambda>_ _ w. (Inr (), w)) (\<lambda>_ _ _ w. (Inr (), w)))"

lemma quiet_api_simps [simp]:
  "k_apply quiet_api ns n obj w = (Inr (), w)" "k_list_ingresses quiet_api w = (Inr [], w)"
  by (simp_all add: quiet_api_def secret_api.defs operator_api.defs)

lemma exposed_project_simps [simp]:
  "name_any exposed_project = ''shop''" "require_namespace exposed_project = Inr ''prod''"
  "owner_reference_of exposed_project = Inr \<lparr>or_api_version = ''paas.reinhardt-cloud.dev/v1alpha2'', or_kind = ''Project'',
     or_name = ''shop'', or_uid = ''u1'', or_controller = Some True\<rparr>"
  "resolve_app_port exposed_project = 8000" "resolve_ingress_config exposed_project = None"
  "ps_introspect (pj_spec exposed_project) = None"
  by (simp_all add: exposed_project_def sample_project_def project_spec_default_def name_any_def require_namespace_def
      app_namespace_def ok_or_def owner_reference_of_def object_meta_default_def resolve_app_port_def resolve_ingress_config_def)

lemma exposed_project_valid: "validate_project (pj_spec exposed_project) = Inr ()"
  by (simp add: validate_project_wf project_wf_def exposed_project_def sample_project_def project_spec_default_def
      services_wf_def scale_wf_def)

lemma exposed_host: "trim ''shop.example.com'' = ''shop.example.com''" "trim ''example.com'' = ''example.com''"
  by (simp_all add: trim_eval)

lemma exposed_ingress_built:
  "\<exists>ing. build_ingress exposed_project [root_route] 8000 h None None = Inr (Some ing)"
  by (simp add: build_ingress_def Let_def ingress_paths_def static_paths_def signal_paths_def)

theorem ingress_host_confined_witness:
  "\<exists>ing k r. apply_ingress quiet_api (Some ''example.com'') exposed_project ''prod'' None (calm_start, []) = (r, calm_start, [] @ k)
     \<and> (ApplyObject ''prod'' ''shop'' (ObjIngress ing), True) \<in> set k
     \<and> (\<exists>s rule. ing_spec ing = Some s \<and> is_rules s = Some [rule])"
proof -
  have allowed: "ensure_ingress_host_allowed (Some ''example.com'') ''shop.example.com'' = Inr ()"
    by (simp add: ensure_ingress_host_allowed_def is_wildcard_ingress_host_def exposed_host allowed_ingress_host_suffixes_def
        host_matches_allowed_suffix_def str_simps Let_def)
  have host: "Option.bind (ps_services (pj_spec exposed_project)) svc_ingress_host = Some ''shop.example.com''"
    by (simp add: exposed_project_def)
  obtain ing where ing: "build_ingress exposed_project [root_route] 8000 (Some ''shop.example.com'') None None = Inr (Some ing)"
    using exposed_ingress_built by blast
  let ?k = "[(ListIngresses, True), (ApplyObject ''prod'' ''shop'' (ObjIngress ing), True)]"
  have run: "apply_ingress quiet_api (Some ''example.com'') exposed_project ''prod'' None (calm_start, []) = (Inr (), calm_start, [] @ ?k)"
    by (simp add: apply_ingress_def host reconcile_ingress_resource_with_host_def normalized_host_def non_empty_def exposed_host
        allowed ensure_ingress_host_available_def apply_desired_ingress_def ing op_bind_def op_map_err_def do_request_def)
  have m: "(ApplyObject ''prod'' ''shop'' (ObjIngress ing), True) \<in> set ?k" by simp
  from ingress_host_confined [OF run m] run show ?thesis
    by (intro exI [of _ ing] exI [of _ ?k] exI [of _ "Inr ()"] conjI) auto
qed

theorem autoscaler_bounds_witness:
  "\<exists>hpa d. build_autoscaler exposed_project = Inr (Some (ApplyPlan hpa)) \<and> hpa_min_replicas hpa = Some 3
     \<and> build_deployment exposed_project None Aws = Inr d \<and> Option.bind (dp_spec d) ds_replicas = Some 1"
proof -
  have s: "ps_scale (pj_spec exposed_project) = Some \<lparr>sc_min_replicas = Some 3, sc_max_replicas = None, sc_metric = None, sc_target_value = None\<rparr>"
    "ps_replicas (pj_spec exposed_project) = None" "ps_plugins (pj_spec exposed_project) = None" "ps_health (pj_spec exposed_project) = None"
    "ps_image_pull_secrets (pj_spec exposed_project) = None" "ps_services (pj_spec exposed_project)
       = Some \<lparr>svc_port = None, svc_target_port = None, svc_ingress_host = Some ''shop.example.com'', svc_tls = None\<rparr>"
    by (simp_all add: exposed_project_def sample_project_def project_spec_default_def)
  have "\<exists>hpa. build_autoscaler exposed_project = Inr (Some (ApplyPlan hpa))"
    by (simp add: build_autoscaler_def s Let_def resolve_scale_def)
  then obtain hpa where h: "build_autoscaler exposed_project = Inr (Some (ApplyPlan hpa))" by blast
  have "\<exists>d. build_deployment exposed_project None Aws = Inr d"
    by (simp add: build_deployment_def Let_def s validate_port_8000 build_plugin_volumes_def pages_parts_def
        build_main_container_probe_def validated_image_pull_secrets_def)
  then obtain d where d: "build_deployment exposed_project None Aws = Inr d" by blast
  from autoscaler_bounds [OF h] exposed_project_valid s h d show ?thesis by auto
qed

theorem ingress_paths_served_witness:
  "\<exists>ing s. build_ingress exposed_project [root_route] 8000 (Some ''shop.example.com'') None None = Inr (Some ing)
     \<and> build_service exposed_project False = Inr s \<and> (8000 :: i32) \<notin> sp_port ` set (unwrap_or [] (svo_ports s))"
proof -
  have s: "ps_services (pj_spec exposed_project)
       = Some \<lparr>svc_port = None, svc_target_port = None, svc_ingress_host = Some ''shop.example.com'', svc_tls = None\<rparr>"
    by (simp add: exposed_project_def)
  obtain ing where ing: "build_ingress exposed_project [root_route] 8000 (Some ''shop.example.com'') None None = Inr (Some ing)"
    using exposed_ingress_built by blast
  have "\<exists>s. build_service exposed_project False = Inr s" by (simp add: build_service_def s validate_port_8000)
  then obtain sv where sv: "build_service exposed_project False = Inr sv" by blast
  have "(ucast (8000 :: u16) :: i32) = 8000" by simp
  with ingress_paths_served [of exposed_project "[root_route]" "Some ''shop.example.com''" None None ing sv] ing sv s
  show ?thesis by auto
qed

end
