(* ===== verification/NetworkPolicies.thy ===== *)
theory NetworkPolicies
  imports Workload Cleanup
begin

text \<open>
  The isolation of namespaces and pods: \<open>resources/security/network_policy.rs\<close>,
  \<open>resources/security/limit_range.rs\<close>, \<open>resources/tenant.rs\<close>, the builders of
  \<open>resources/preview_namespace.rs\<close> and \<open>resources/issuer.rs\<close> of
  \<open>crates/reinhardt-cloud-operator\<close>, and what the policies they build allow together. An empty label
  selector is the empty map. A namespace is its metadata. Three modules declare a function
  \<open>build_default_deny_policy\<close> and two a function \<open>dns_egress_rule\<close>; the names here tell them apart.
\<close>

section \<open>Policies of an isolated project\<close>

definition KUBE_DNS_NAMESPACE_LABEL :: string where "KUBE_DNS_NAMESPACE_LABEL = ''kube-system''"
definition KUBE_DNS_APP_LABEL :: string where "KUBE_DNS_APP_LABEL = ''kube-dns''"

definition kube_dns_peer :: policy_peer where
  "kube_dns_peer = policy_peer_default
     \<lparr>pp_namespace_selector := Some [''kubernetes.io/metadata.name'' \<mapsto> KUBE_DNS_NAMESPACE_LABEL],
      pp_pod_selector := Some [''k8s-app'' \<mapsto> KUBE_DNS_APP_LABEL]\<rparr>"

definition dns_ports :: "(string \<times> nat) list" where
  "dns_ports = [(''UDP'', 53), (''TCP'', 53)]"

definition cidr_peer :: "string list option \<Rightarrow> string \<Rightarrow> policy_peer" where
  "cidr_peer except cidr = policy_peer_default\<lparr>pp_ip_block := Some \<lparr>ib_cidr = cidr, ib_except = except\<rparr>\<rparr>"

definition dns_egress_rule :: "string list \<Rightarrow> policy_rule" where
  "dns_egress_rule dns_allow_cidrs =
     \<lparr>pl_peers = Some (kube_dns_peer # map (cidr_peer None) dns_allow_cidrs), pl_ports = Some dns_ports\<rparr>"

definition managed_meta :: "project \<Rightarrow> string \<Rightarrow> string \<Rightarrow> owner_reference \<Rightarrow> object_meta" where
  "managed_meta app suffix namespace owner_ref =
     owned_meta (name_any app @ suffix) namespace [''app.kubernetes.io/managed-by'' \<mapsto> ''reinhardt-cloud-operator''] owner_ref"

definition app_selector :: "project \<Rightarrow> label_map" where
  "app_selector app = [''app.kubernetes.io/name'' \<mapsto> name_any app]"

definition build_default_deny_policy :: "project \<Rightarrow> operator_error + network_policy" where
  "build_default_deny_policy app =
     result_bind (require_namespace app) (\<lambda>namespace.
     result_bind (owner_reference_of app) (\<lambda>owner_ref.
       Inr \<lparr>np_metadata = managed_meta app ''-deny-all'' namespace owner_ref,
            np_pod_selector = app_selector app, np_policy_types = [''Ingress'', ''Egress''],
            np_ingress = Some [], np_egress = Some []\<rparr>))"

definition namespace_peer :: "string \<Rightarrow> policy_peer" where
  "namespace_peer n = policy_peer_default\<lparr>pp_namespace_selector := Some [''kubernetes.io/metadata.name'' \<mapsto> n]\<rparr>"

definition build_app_ingress_policy :: "project \<Rightarrow> operator_error + network_policy" where
  "build_app_ingress_policy app =
     result_bind (require_namespace app) (\<lambda>namespace.
     result_bind (owner_reference_of app) (\<lambda>owner_ref.
       Inr \<lparr>np_metadata = managed_meta app ''-allow-ingress'' namespace owner_ref,
            np_pod_selector = app_selector app, np_policy_types = [''Ingress''],
            np_ingress = Some
              [\<lparr>pl_peers = Some [policy_peer_default\<lparr>pp_pod_selector := Some (app_selector app)\<rparr>], pl_ports = None\<rparr>,
               \<lparr>pl_peers = Some [namespace_peer ''ingress-nginx''], pl_ports = None\<rparr>],
            np_egress = None\<rparr>))"

definition metadata_except :: "network_isolation_spec \<Rightarrow> string list option" where
  "metadata_except network = (if ni_block_metadata_service network then Some [''169.254.169.254/32''] else None)"

definition cidr_egress_rules :: "network_isolation_spec \<Rightarrow> policy_rule list" where
  "cidr_egress_rules network =
     (if ni_allow_egress network then
        if ni_egress_allow_cidrs network = []
        then [\<lparr>pl_peers = Some [cidr_peer (metadata_except network) ''0.0.0.0/0''], pl_ports = None\<rparr>]
        else [\<lparr>pl_peers = Some (map (cidr_peer (metadata_except network)) (ni_egress_allow_cidrs network)), pl_ports = None\<rparr>]
      else [])"

definition build_managed_service_egress_policy ::
  "project \<Rightarrow> network_isolation_spec \<Rightarrow> operator_error + network_policy" where
  "build_managed_service_egress_policy app network =
     result_bind (require_namespace app) (\<lambda>namespace.
     result_bind (owner_reference_of app) (\<lambda>owner_ref.
       Inr \<lparr>np_metadata = managed_meta app ''-allow-egress'' namespace owner_ref,
            np_pod_selector = app_selector app, np_policy_types = [''Egress''],
            np_ingress = None,
            np_egress = Some (dns_egress_rule (ni_dns_allow_cidrs network) # cidr_egress_rules network)\<rparr>))"

definition build_limit_range :: "project \<Rightarrow> resource_defaults \<Rightarrow> operator_error + limit_range" where
  "build_limit_range app defaults =
     result_bind (require_namespace app) (\<lambda>namespace.
     result_bind (owner_reference_of app) (\<lambda>owner_ref.
       Inr \<lparr>lr_metadata = managed_meta app ''-limits'' namespace owner_ref, lr_type = ''Container'',
            lr_default = Some [''cpu'' \<mapsto> rd_cpu_limit defaults, ''memory'' \<mapsto> rd_memory_limit defaults],
            lr_default_request = Some [''cpu'' \<mapsto> rd_cpu_request defaults, ''memory'' \<mapsto> rd_memory_request defaults]\<rparr>))"

section \<open>Tenants\<close>

definition TENANT_LABEL_KEY :: string where "TENANT_LABEL_KEY = ''paas.reinhardt-cloud.dev/tenant''"
definition TENANT_TEAM_LABEL_KEY :: string where "TENANT_TEAM_LABEL_KEY = ''paas.reinhardt-cloud.dev/team''"
definition DEFAULT_QUOTA_NAME :: string where "DEFAULT_QUOTA_NAME = ''tenant-default-quota''"
definition DEFAULT_DENY_POLICY_NAME :: string where "DEFAULT_DENY_POLICY_NAME = ''tenant-default-deny''"
definition ALLOW_SAME_NAMESPACE_POLICY_NAME :: string where
  "ALLOW_SAME_NAMESPACE_POLICY_NAME = ''tenant-allow-same-namespace''"
definition ALLOW_INGRESS_CONTROLLER_POLICY_NAME :: string where
  "ALLOW_INGRESS_CONTROLLER_POLICY_NAME = ''tenant-allow-ingress-controller''"
definition INGRESS_CONTROLLER_NAMESPACE_LABEL :: string where
  "INGRESS_CONTROLLER_NAMESPACE_LABEL = ''ingress-nginx''"

definition tenant_dns_egress_rule :: "network_isolation_spec option \<Rightarrow> policy_rule" where
  "tenant_dns_egress_rule network =
     \<lparr>pl_peers = Some (kube_dns_peer # (case network of None \<Rightarrow> [] | Some n \<Rightarrow> map (cidr_peer None) (ni_dns_allow_cidrs n))),
      pl_ports = Some dns_ports\<rparr>"

definition tenant_labels :: "tenant_ref \<Rightarrow> label_map" where
  "tenant_labels tenant =
     (let labels = [''app.kubernetes.io/managed-by'' \<mapsto> MANAGED_BY_VALUE, TENANT_LABEL_KEY \<mapsto> organization tenant]
      in case team tenant of None \<Rightarrow> labels | Some t \<Rightarrow> labels(TENANT_TEAM_LABEL_KEY \<mapsto> t))"

definition tenant_meta :: "string \<Rightarrow> tenant_ref \<Rightarrow> object_meta" where
  "tenant_meta n tenant = object_meta_default\<lparr>om_name := Some n, om_namespace := Some (tenant_namespace tenant),
     om_labels := Some (tenant_labels tenant)\<rparr>"

definition build_tenant_namespace :: "tenant_ref \<Rightarrow> object_meta" where
  "build_tenant_namespace tenant =
     object_meta_default\<lparr>om_name := Some (tenant_namespace tenant), om_labels := Some (tenant_labels tenant)\<rparr>"

definition build_default_resource_quota :: "tenant_ref \<Rightarrow> resource_quota" where
  "build_default_resource_quota tenant =
     \<lparr>rq_metadata = tenant_meta DEFAULT_QUOTA_NAME tenant,
      rq_hard = Some [''requests.cpu'' \<mapsto> ''10'', ''requests.memory'' \<mapsto> ''20Gi'', ''limits.cpu'' \<mapsto> ''20'',
        ''limits.memory'' \<mapsto> ''40Gi'', ''persistentvolumeclaims'' \<mapsto> ''20'', ''requests.storage'' \<mapsto> ''200Gi'',
        ''pods'' \<mapsto> ''100'']\<rparr>"

definition build_tenant_default_deny_policy :: "tenant_ref \<Rightarrow> network_policy" where
  "build_tenant_default_deny_policy tenant =
     \<lparr>np_metadata = tenant_meta DEFAULT_DENY_POLICY_NAME tenant, np_pod_selector = Map.empty,
      np_policy_types = [''Ingress'', ''Egress''], np_ingress = Some [], np_egress = Some []\<rparr>"

definition build_allow_same_namespace_policy :: "tenant_ref \<Rightarrow> network_isolation_spec option \<Rightarrow> network_policy" where
  "build_allow_same_namespace_policy tenant network =
     (let same_namespace_peer = policy_peer_default\<lparr>pp_pod_selector := Some Map.empty\<rparr> in
      \<lparr>np_metadata = tenant_meta ALLOW_SAME_NAMESPACE_POLICY_NAME tenant, np_pod_selector = Map.empty,
       np_policy_types = [''Ingress'', ''Egress''],
       np_ingress = Some [\<lparr>pl_peers = Some [same_namespace_peer], pl_ports = None\<rparr>],
       np_egress = Some [\<lparr>pl_peers = Some [same_namespace_peer], pl_ports = None\<rparr>, tenant_dns_egress_rule network]\<rparr>)"

definition build_allow_ingress_controller_policy :: "tenant_ref \<Rightarrow> network_policy" where
  "build_allow_ingress_controller_policy tenant =
     \<lparr>np_metadata = tenant_meta ALLOW_INGRESS_CONTROLLER_POLICY_NAME tenant, np_pod_selector = Map.empty,
      np_policy_types = [''Ingress''],
      np_ingress = Some [\<lparr>pl_peers = Some [namespace_peer INGRESS_CONTROLLER_NAMESPACE_LABEL], pl_ports = None\<rparr>],
      np_egress = None\<rparr>"

section \<open>Preview namespaces\<close>

definition preview_meta :: "string \<Rightarrow> string \<Rightarrow> string \<Rightarrow> object_meta" where
  "preview_meta n parent_namespace parent_name =
     object_meta_default\<lparr>om_name := Some n, om_namespace := Some (preview_namespace_name parent_namespace parent_name),
       om_labels := Some (map_of (preview_namespace_labels parent_namespace parent_name))\<rparr>"

definition build_preview_namespace :: "string \<Rightarrow> string \<Rightarrow> string \<Rightarrow> object_meta" where
  "build_preview_namespace parent_namespace parent_name parent_uid =
     object_meta_default\<lparr>om_name := Some (preview_namespace_name parent_namespace parent_name),
       om_labels := Some (preview_namespace_owner_labels parent_namespace parent_name parent_uid)\<rparr>"

definition build_resource_quota :: "string \<Rightarrow> string \<Rightarrow> preview_budget option \<Rightarrow> resource_quota" where
  "build_resource_quota parent_namespace parent_name budget =
     (let hard = [''pods'' \<mapsto> ''50''];
          hard1 = (case Option.bind budget pb_max_cpu of None \<Rightarrow> hard | Some cpu \<Rightarrow> hard(''limits.cpu'' \<mapsto> cpu));
          hard2 = (case Option.bind budget pb_max_memory of None \<Rightarrow> hard1 | Some memory \<Rightarrow> hard1(''limits.memory'' \<mapsto> memory))
      in \<lparr>rq_metadata = preview_meta QUOTA_NAME parent_namespace parent_name, rq_hard = Some hard2\<rparr>)"

definition build_preview_limit_range :: "string \<Rightarrow> string \<Rightarrow> limit_range" where
  "build_preview_limit_range parent_namespace parent_name =
     \<lparr>lr_metadata = preview_meta LIMIT_RANGE_NAME parent_namespace parent_name, lr_type = ''Container'',
      lr_default = Some [''cpu'' \<mapsto> ''500m'', ''memory'' \<mapsto> ''512Mi''],
      lr_default_request = Some [''cpu'' \<mapsto> ''100m'', ''memory'' \<mapsto> ''128Mi'']\<rparr>"

definition build_preview_default_deny_policy :: "string \<Rightarrow> string \<Rightarrow> network_policy" where
  "build_preview_default_deny_policy parent_namespace parent_name =
     \<lparr>np_metadata = preview_meta DEFAULT_DENY_NAME parent_namespace parent_name, np_pod_selector = Map.empty,
      np_policy_types = [''Ingress'', ''Egress''], np_ingress = Some [], np_egress = Some []\<rparr>"

definition build_allow_ingress_and_dns_policy :: "string \<Rightarrow> string \<Rightarrow> network_policy" where
  "build_allow_ingress_and_dns_policy parent_namespace parent_name =
     \<lparr>np_metadata = preview_meta ALLOW_INGRESS_NAME parent_namespace parent_name, np_pod_selector = Map.empty,
      np_policy_types = [''Ingress'', ''Egress''],
      np_ingress = Some [\<lparr>pl_peers = Some [namespace_peer ''ingress-nginx''], pl_ports = None\<rparr>],
      np_egress = Some [\<lparr>pl_peers = Some [kube_dns_peer], pl_ports = Some [(''UDP'', 53), (''TCP'', 53)]\<rparr>]\<rparr>"

definition build_issuer :: "string \<Rightarrow> string \<Rightarrow> string \<Rightarrow> string \<Rightarrow> string \<Rightarrow> issuer" where
  "build_issuer parent_namespace parent_name acme_server acme_email ingress_class =
     \<lparr>is_metadata = preview_meta ISSUER_NAME parent_namespace parent_name, is_server = acme_server, is_email = acme_email,
      is_private_key_secret = preview_namespace_name parent_namespace parent_name @ ''-acme-key'',
      is_solver_classes = [ingress_class]\<rparr>"

section \<open>What policies allow\<close>

text \<open>
  The meaning of network policies, from the Kubernetes documentation. An end of a connection has an
  address and, if it is a pod, a namespace, the labels of the namespace and its own. A pod that some
  policy selects for a direction accepts in that direction only what a rule of a selecting policy
  allows; a peer with an IP block matches every end with such an address, also that of a pod. Which
  addresses lie in a CIDR is a parameter.
\<close>

record endpoint =
  en_address :: string
  en_pod :: "(string \<times> label_map \<times> label_map) option"

type_synonym cidr_test = "string \<Rightarrow> string \<Rightarrow> bool"

definition peer_matches :: "cidr_test \<Rightarrow> string \<Rightarrow> policy_peer \<Rightarrow> endpoint \<Rightarrow> bool" where
  "peer_matches in_cidr policy_namespace peer e \<longleftrightarrow>
     (case pp_ip_block peer of
        Some b \<Rightarrow> in_cidr (ib_cidr b) (en_address e) \<and> (\<forall>x \<in> set (unwrap_or [] (ib_except b)). \<not> in_cidr x (en_address e))
      | None \<Rightarrow>
          (case en_pod e of
             None \<Rightarrow> False
           | Some (ns, ns_labels, labels) \<Rightarrow>
               (case pp_namespace_selector peer of None \<Rightarrow> ns = policy_namespace | Some sel \<Rightarrow> selects (Some sel) ns_labels)
               \<and> (case pp_pod_selector peer of None \<Rightarrow> True | Some sel \<Rightarrow> selects (Some sel) labels)))"

definition rule_matches :: "cidr_test \<Rightarrow> string \<Rightarrow> policy_rule \<Rightarrow> endpoint \<Rightarrow> string \<times> nat \<Rightarrow> bool" where
  "rule_matches in_cidr policy_namespace rule e port \<longleftrightarrow>
     (unwrap_or [] (pl_peers rule) = [] \<or> (\<exists>peer \<in> set (unwrap_or [] (pl_peers rule)). peer_matches in_cidr policy_namespace peer e))
     \<and> (unwrap_or [] (pl_ports rule) = [] \<or> port \<in> set (unwrap_or [] (pl_ports rule)))"

datatype direction = Ingress | Egress

definition direction_str :: "direction \<Rightarrow> string" where
  "direction_str d = (case d of Ingress \<Rightarrow> ''Ingress'' | Egress \<Rightarrow> ''Egress'')"

definition rules_of :: "direction \<Rightarrow> network_policy \<Rightarrow> policy_rule list" where
  "rules_of d p = unwrap_or [] (case d of Ingress \<Rightarrow> np_ingress p | Egress \<Rightarrow> np_egress p)"

definition policy_namespace :: "network_policy \<Rightarrow> string" where
  "policy_namespace p = unwrap_or [] (om_namespace (np_metadata p))"

definition governs :: "direction \<Rightarrow> network_policy \<Rightarrow> endpoint \<Rightarrow> bool" where
  "governs d p e \<longleftrightarrow>
     (case en_pod e of
        None \<Rightarrow> False
      | Some (ns, _, labels) \<Rightarrow> om_namespace (np_metadata p) = Some ns \<and> selects (Some (np_pod_selector p)) labels
          \<and> direction_str d \<in> set (np_policy_types p))"

text \<open>What \<open>e\<close> accepts from (\<open>Ingress\<close>) or to (\<open>Egress\<close>) the end \<open>other\<close>.\<close>

definition accepts :: "cidr_test \<Rightarrow> network_policy set \<Rightarrow> direction \<Rightarrow> endpoint \<Rightarrow> endpoint \<Rightarrow> string \<times> nat \<Rightarrow> bool" where
  "accepts in_cidr policies d e other port \<longleftrightarrow>
     (\<forall>p \<in> policies. \<not> governs d p e)
     \<or> (\<exists>p \<in> policies. governs d p e \<and> (\<exists>r \<in> set (rules_of d p). rule_matches in_cidr (policy_namespace p) r other port))"

definition connects :: "cidr_test \<Rightarrow> network_policy set \<Rightarrow> endpoint \<Rightarrow> endpoint \<Rightarrow> string \<times> nat \<Rightarrow> bool" where
  "connects in_cidr policies src dst port \<longleftrightarrow>
     accepts in_cidr policies Egress src dst port \<and> accepts in_cidr policies Ingress dst src port"

section \<open>The policies the operator makes\<close>

definition app_policies :: "project \<Rightarrow> network_isolation_spec \<Rightarrow> network_policy set" where
  "app_policies app network =
     {p. build_default_deny_policy app = Inr p \<or> build_app_ingress_policy app = Inr p
         \<or> build_managed_service_egress_policy app network = Inr p}"

definition tenant_policies :: "tenant_ref \<Rightarrow> network_isolation_spec option \<Rightarrow> network_policy set" where
  "tenant_policies t network =
     {build_tenant_default_deny_policy t, build_allow_same_namespace_policy t network, build_allow_ingress_controller_policy t}"

definition preview_policies :: "string \<Rightarrow> string \<Rightarrow> network_policy set" where
  "preview_policies ns n = {build_preview_default_deny_policy ns n, build_allow_ingress_and_dns_policy ns n}"

definition operator_policies :: "network_policy set" where
  "operator_policies = (\<Union>app network. app_policies app network) \<union> (\<Union>t network. tenant_policies t network)
     \<union> (\<Union>ns n. preview_policies ns n)"

lemmas app_policy_defs = build_default_deny_policy_def build_app_ingress_policy_def build_managed_service_egress_policy_def

lemmas tenant_policy_defs = build_tenant_default_deny_policy_def build_allow_same_namespace_policy_def
  build_allow_ingress_controller_policy_def INGRESS_CONTROLLER_NAMESPACE_LABEL_def

lemmas preview_policy_defs = build_preview_default_deny_policy_def build_allow_ingress_and_dns_policy_def

lemma meta_namespaces [simp]:
  "om_namespace (owned_meta n ns labels owner) = Some ns" "om_namespace (tenant_meta n t) = Some (tenant_namespace t)"
  "om_namespace (preview_meta n ns pn) = Some (preview_namespace_name ns pn)"
  "om_namespace (managed_meta app suffix ns owner) = Some ns"
  by (simp_all add: owned_meta_def tenant_meta_def preview_meta_def managed_meta_def)

text \<open>An end that belongs to the namespace of the policy or to that of the ingress controller.\<close>

definition from_ingress_controller :: "endpoint \<Rightarrow> bool" where
  "from_ingress_controller e \<longleftrightarrow>
     (\<exists>ns ns_labels labels. en_pod e = Some (ns, ns_labels, labels) \<and> ns_labels ''kubernetes.io/metadata.name'' = Some ''ingress-nginx'')"

definition pod_in :: "string \<Rightarrow> endpoint \<Rightarrow> bool" where
  "pod_in ns e \<longleftrightarrow> (\<exists>ns_labels labels. en_pod e = Some (ns, ns_labels, labels))"

definition is_kube_dns :: "endpoint \<Rightarrow> bool" where
  "is_kube_dns e \<longleftrightarrow> (\<exists>ns ns_labels labels. en_pod e = Some (ns, ns_labels, labels)
     \<and> ns_labels ''kubernetes.io/metadata.name'' = Some ''kube-system'' \<and> labels ''k8s-app'' = Some ''kube-dns'')"

lemma selects_empty [simp]: "selects (Some Map.empty) labels"
  by (simp add: selects_def)

lemma selects_one [simp]: "selects (Some [k \<mapsto> v]) labels \<longleftrightarrow> labels k = Some v"
  by (auto simp: selects_def split: if_splits)

lemma peer_simps [simp]:
  "peer_matches in_cidr ns (namespace_peer n) e \<longleftrightarrow>
     (\<exists>ns' ns_labels labels. en_pod e = Some (ns', ns_labels, labels) \<and> ns_labels ''kubernetes.io/metadata.name'' = Some n)"
  "peer_matches in_cidr ns (policy_peer_default\<lparr>pp_pod_selector := Some sel\<rparr>) e \<longleftrightarrow>
     (\<exists>ns_labels labels. en_pod e = Some (ns, ns_labels, labels) \<and> selects (Some sel) labels)"
  "peer_matches in_cidr ns kube_dns_peer e \<longleftrightarrow> is_kube_dns e"
  "peer_matches in_cidr ns (cidr_peer except cidr) e \<longleftrightarrow>
     in_cidr cidr (en_address e) \<and> (\<forall>x \<in> set (unwrap_or [] except). \<not> in_cidr x (en_address e))"
  by (auto simp: peer_matches_def namespace_peer_def kube_dns_peer_def cidr_peer_def policy_peer_default_def is_kube_dns_def
      KUBE_DNS_NAMESPACE_LABEL_def KUBE_DNS_APP_LABEL_def split: option.splits)

text \<open>No ingress rule of the operator admits anything but the own namespace and the ingress controller.\<close>

lemma operator_ingress_rule:
  assumes "p \<in> operator_policies" and "r \<in> set (rules_of Ingress p)"
    and "rule_matches in_cidr (policy_namespace p) r e port"
  shows "pod_in (policy_namespace p) e \<or> from_ingress_controller e"
proof -
  from assms(1) consider app network where "p \<in> app_policies app network" | t network where "p \<in> tenant_policies t network"
    | ns n where "p \<in> preview_policies ns n" by (auto simp: operator_policies_def)
  then show ?thesis
  proof cases
    case 1
    with assms(2,3) show ?thesis
      by (auto simp: app_policies_def app_policy_defs result_bind_Inr rules_of_def rule_matches_def pod_in_def
          from_ingress_controller_def)
  next
    case 2
    with assms(2,3) show ?thesis
      by (auto simp: tenant_policies_def tenant_policy_defs rules_of_def rule_matches_def pod_in_def Let_def
          from_ingress_controller_def)
  next
    case 3
    with assms(2,3) show ?thesis
      by (auto simp: preview_policies_def preview_policy_defs rules_of_def rule_matches_def pod_in_def
          from_ingress_controller_def)
  qed
qed

lemma governs_namespace: "governs d p e \<Longrightarrow> pod_in (policy_namespace p) e"
  by (auto simp: governs_def pod_in_def policy_namespace_def split: option.splits)

lemma pod_in_unique: "pod_in a e \<Longrightarrow> pod_in b e \<Longrightarrow> a = b"
  by (auto simp: pod_in_def)

lemma tenant_governs:
  assumes "p \<in> {build_tenant_default_deny_policy t, build_allow_same_namespace_policy t network}" and "pod_in (tenant_namespace t) e"
  shows "governs d p e"
  using assms by (cases d) (auto simp: governs_def pod_in_def tenant_policy_defs direction_str_def Let_def)

text \<open>What a pod of a tenant accepts, exactly.\<close>

lemma tenant_accepts_ingress:
  assumes "P \<subseteq> operator_policies" and "tenant_policies t network \<subseteq> P" and "pod_in (tenant_namespace t) dst"
  shows "accepts in_cidr P Ingress dst src port \<longleftrightarrow> pod_in (tenant_namespace t) src \<or> from_ingress_controller src"
proof
  let ?deny = "build_tenant_default_deny_policy t"
  have "?deny \<in> P" using assms(2) by (simp add: tenant_policies_def)
  moreover have "governs Ingress ?deny dst" by (rule tenant_governs [where t = t and network = network]) (use assms(3) in simp_all)
  moreover assume "accepts in_cidr P Ingress dst src port"
  ultimately obtain p r where p: "p \<in> P" "governs Ingress p dst" "r \<in> set (rules_of Ingress p)"
    "rule_matches in_cidr (policy_namespace p) r src port" unfolding accepts_def by blast
  then have "policy_namespace p = tenant_namespace t" using governs_namespace assms(3) pod_in_unique by blast
  with operator_ingress_rule [of p r in_cidr src port] p assms(1) show "pod_in (tenant_namespace t) src \<or> from_ingress_controller src"
    by auto
next
  let ?same = "build_allow_same_namespace_policy t network" and ?ctl = "build_allow_ingress_controller_policy t"
  have mem: "?same \<in> P" "?ctl \<in> P" using assms(2) by (simp_all add: tenant_policies_def)
  have gov: "governs Ingress ?same dst" "governs Ingress ?ctl dst"
    using assms(3) by (auto simp: governs_def pod_in_def tenant_policy_defs direction_str_def Let_def)
  assume "pod_in (tenant_namespace t) src \<or> from_ingress_controller src"
  then show "accepts in_cidr P Ingress dst src port"
  proof
    assume "pod_in (tenant_namespace t) src"
    then have "\<exists>r \<in> set (rules_of Ingress ?same). rule_matches in_cidr (policy_namespace ?same) r src port"
      by (auto simp: rules_of_def tenant_policy_defs rule_matches_def Let_def policy_namespace_def pod_in_def)
    with mem gov show ?thesis unfolding accepts_def by blast
  next
    assume "from_ingress_controller src"
    then have "\<exists>r \<in> set (rules_of Ingress ?ctl). rule_matches in_cidr (policy_namespace ?ctl) r src port"
      by (auto simp: rules_of_def tenant_policy_defs rule_matches_def from_ingress_controller_def)
    with mem gov show ?thesis unfolding accepts_def by blast
  qed
qed

lemma tenant_accepts_egress:
  assumes "tenant_policies t network \<subseteq> P" and "pod_in (tenant_namespace t) src" and "pod_in (tenant_namespace t) dst"
  shows "accepts in_cidr P Egress src dst port"
proof -
  let ?same = "build_allow_same_namespace_policy t network"
  have "?same \<in> P" using assms(1) by (simp add: tenant_policies_def)
  moreover have "governs Egress ?same src" by (rule tenant_governs [where t = t and network = network]) (use assms(2) in simp_all)
  moreover have "\<exists>r \<in> set (rules_of Egress ?same). rule_matches in_cidr (policy_namespace ?same) r dst port"
    using assms(3) by (auto simp: rules_of_def tenant_policy_defs rule_matches_def Let_def policy_namespace_def pod_in_def)
  ultimately show ?thesis unfolding accepts_def by blast
qed

section \<open>Properties\<close>

text \<open>
  C20. Tenants are isolated from each other: in a cluster whose policies are the operator's and include
  those of both tenants, a pod in the namespace of one can connect to a pod in the namespace of
  another, on any port, exactly when the two namespaces are the same; and a pod of a tenant accepts
  connections, on any port, exactly from its own namespace and from the namespace of the ingress controller.
\<close>
theorem tenants_isolated:
  assumes "P \<subseteq> operator_policies" and "tenant_policies a network_a \<subseteq> P" and "tenant_policies b network_b \<subseteq> P"
    and "en_pod src = Some (tenant_namespace a, [''kubernetes.io/metadata.name'' \<mapsto> tenant_namespace a], src_labels)"
    and "en_pod dst = Some (tenant_namespace b, [''kubernetes.io/metadata.name'' \<mapsto> tenant_namespace b], dst_labels)"
  shows "(connects in_cidr P src dst port \<longleftrightarrow> tenant_namespace a = tenant_namespace b)
    \<and> (accepts in_cidr P Ingress dst e port \<longleftrightarrow> pod_in (tenant_namespace b) e \<or> from_ingress_controller e)"
proof -
  have src: "pod_in (tenant_namespace a) src" and dst: "pod_in (tenant_namespace b) dst"
    using assms(4,5) by (simp_all add: pod_in_def)
  note ing = tenant_accepts_ingress [OF assms(1,3) dst]
  have "tenant_namespace a \<noteq> ''ingress-nginx''"
    by (simp add: tenant_namespace_def TENANT_NAMESPACE_PREFIX_def split: option.splits)
  then have ctl: "\<not> from_ingress_controller src" using assms(4) by (auto simp: from_ingress_controller_def)
  have "tenant_namespace a = tenant_namespace b" if "connects in_cidr P src dst port"
    using that ing [of in_cidr src port] ctl pod_in_unique [OF src] by (simp add: connects_def)
  moreover have "connects in_cidr P src dst port" if "tenant_namespace a = tenant_namespace b"
    using ing [of in_cidr src port] tenant_accepts_egress [OF assms(2) src, of dst in_cidr port] dst src that
    by (simp add: connects_def)
  ultimately show ?thesis using ing by blast
qed

text \<open>
  C37. The metadata service of the cloud is out of reach: if the pods of an isolated project are governed
  by its own policies with the metadata block on, and otherwise by policies of tenants and of other projects, no pod
  of it connects to an end outside the cluster at the metadata address, whatever egress CIDRs the
  specification allows, except on the DNS ports and only if a DNS CIDR of a governing policy
  contains that address.
\<close>
theorem metadata_service_blocked:
  assumes "P \<subseteq> app_policies app network \<union> (\<Union>t net. tenant_policies t net)
             \<union> (\<Union>other \<in> {other. name_any other \<noteq> name_any app}. \<Union>net. app_policies other net)"
    and "build_default_deny_policy app = Inr deny" and "deny \<in> P" and "ni_block_metadata_service network"
    and "en_pod src = Some (ns, ns_labels, labels)" and "require_namespace app = Inr ns"
    and "labels ''app.kubernetes.io/name'' = Some (name_any app)"
    and "en_pod dst = None" and "in_cidr ''169.254.169.254/32'' (en_address dst)"
    and "connects in_cidr P src dst port"
  shows "port \<in> {(''UDP'', 53), (''TCP'', 53)}
    \<and> (\<exists>cidr. in_cidr cidr (en_address dst)
        \<and> (cidr \<in> set (ni_dns_allow_cidrs network)
           \<or> (\<exists>t net. build_allow_same_namespace_policy t (Some net) \<in> P \<and> cidr \<in> set (ni_dns_allow_cidrs net))))"
proof -
  have "governs Egress deny src"
    using assms(2,5-7) by (auto simp: build_default_deny_policy_def result_bind_Inr governs_def app_selector_def direction_str_def)
  with assms(3,10) obtain p r where p: "p \<in> P" "governs Egress p src" "r \<in> set (rules_of Egress p)"
    "rule_matches in_cidr (policy_namespace p) r dst port"
    unfolding connects_def accepts_def by blast
  have nopod: "\<not> is_kube_dns dst" using assms(8) by (simp add: is_kube_dns_def)
  from p(1) assms(1) consider "p \<in> app_policies app network" | t net where "p \<in> tenant_policies t net"
    | other net where "name_any other \<noteq> name_any app" "p \<in> app_policies other net" by blast
  then show ?thesis
  proof cases
    case 1
    then have e: "rules_of Egress p = dns_egress_rule (ni_dns_allow_cidrs network) # cidr_egress_rules network"
      using p(3) by (auto simp: app_policies_def app_policy_defs result_bind_Inr rules_of_def)
    have "r \<notin> set (cidr_egress_rules network)"
    proof
      assume "r \<in> set (cidr_egress_rules network)"
      with p(4) assms(4,9) show False
        by (auto simp: cidr_egress_rules_def rule_matches_def metadata_except_def split: if_splits)
    qed
    with p(3) e have "r = dns_egress_rule (ni_dns_allow_cidrs network)" by simp
    with p(4) nopod show ?thesis by (auto simp: dns_egress_rule_def rule_matches_def dns_ports_def)
  next
    case 2
    with p(3,4) assms(8) have same: "p = build_allow_same_namespace_policy t net" and r: "r = tenant_dns_egress_rule net"
      by (auto simp: tenant_policies_def tenant_policy_defs rules_of_def rule_matches_def Let_def)
    from p(4) nopod have "port \<in> {(''UDP'', 53), (''TCP'', 53)}"
      "\<exists>n. net = Some n \<and> (\<exists>cidr \<in> set (ni_dns_allow_cidrs n). in_cidr cidr (en_address dst))"
      unfolding r by (cases net; fastforce simp: rule_matches_def tenant_dns_egress_rule_def dns_ports_def)+
    with same p(1) show ?thesis by blast
  next
    case 3
    then have "\<not> governs Egress p src"
      using assms(5,7) by (auto simp: app_policies_def app_policy_defs result_bind_Inr governs_def app_selector_def)
    with p(2) show ?thesis by blast
  qed
qed

text \<open>
  The pods of a preview namespace cannot reach each other: its two policies admit only the ingress
  controller and the cluster DNS. A preview whose overrides give it a database or a cache is built with
  both, in the same namespace, but cannot connect to them unless it is isolated and so has policies of its own.
\<close>
theorem preview_pods_cut_off:
  assumes "en_pod src = Some (preview_namespace_name ns n, [''kubernetes.io/metadata.name'' \<mapsto> preview_namespace_name ns n], src_labels)"
    and "en_pod dst = Some (preview_namespace_name ns n, [''kubernetes.io/metadata.name'' \<mapsto> preview_namespace_name ns n], dst_labels)"
  shows "\<not> connects in_cidr (preview_policies ns n) src dst port"
proof -
  have "last (preview_namespace_name ns n) = CHR ''w''" by (simp add: preview_namespace_name_eq)
  then have kube: "preview_namespace_name ns n \<noteq> ''kube-system''" by auto
  have "governs Egress (build_preview_default_deny_policy ns n) src"
    using assms(1) by (simp add: governs_def preview_policy_defs direction_str_def)
  moreover have "\<not> rule_matches in_cidr k r dst port"
    if "r \<in> set (rules_of Egress p)" "p \<in> preview_policies ns n" for p r k
    using that assms(2) kube by (auto simp: preview_policies_def preview_policy_defs rules_of_def rule_matches_def is_kube_dns_def)
  ultimately have "\<not> accepts in_cidr (preview_policies ns n) Egress src dst port"
    unfolding accepts_def by (auto simp: preview_policies_def)
  then show ?thesis by (simp add: connects_def)
qed

text \<open>
  An isolated project outside a tenant that turns general egress off cannot reach its own database or
  cache: although the header of the module speaks of allowed managed services, the egress policy names
  only the cluster DNS and the DNS CIDRs.
\<close>
theorem isolated_app_cut_off:
  assumes "\<not> ni_allow_egress network" and "require_namespace app = Inr ns" and "owner_reference_of app = Inr owner_ref"
    and "en_pod src = Some (ns, ns_labels, labels)" and "labels ''app.kubernetes.io/name'' = Some (name_any app)"
    and "\<not> is_kube_dns dst" and "\<forall>cidr \<in> set (ni_dns_allow_cidrs network). \<not> in_cidr cidr (en_address dst)"
  shows "\<not> connects in_cidr (app_policies app network) src dst port"
proof -
  obtain deny where deny: "build_default_deny_policy app = Inr deny" using assms(2,3) by (simp add: build_default_deny_policy_def)
  then have "governs Egress deny src"
    using assms(2,4,5) by (auto simp: build_default_deny_policy_def result_bind_Inr governs_def app_selector_def direction_str_def)
  moreover have "\<not> rule_matches in_cidr k r dst port" if "r \<in> set (rules_of Egress p)" "p \<in> app_policies app network" for p r k
    using that assms(1,6,7)
    by (auto simp: app_policies_def app_policy_defs result_bind_Inr rules_of_def rule_matches_def cidr_egress_rules_def dns_egress_rule_def)
  ultimately have "\<not> accepts in_cidr (app_policies app network) Egress src dst port"
    using deny unfolding accepts_def by (auto simp: app_policies_def)
  then show ?thesis by (simp add: connects_def)
qed

section \<open>Witnesses\<close>

definition acme :: tenant_ref where "acme = \<lparr>organization = ''acme'', team = None\<rparr>"
definition globex :: tenant_ref where "globex = \<lparr>organization = ''globex'', team = None\<rparr>"

definition pod_of :: "string \<Rightarrow> string \<Rightarrow> endpoint" where
  "pod_of ns n = \<lparr>en_address = ''10.0.0.1'', en_pod = Some (ns, [''kubernetes.io/metadata.name'' \<mapsto> ns], [''app.kubernetes.io/name'' \<mapsto> n])\<rparr>"

theorem tenants_isolated_witness:
  "\<not> connects (\<lambda>_ _. True) (tenant_policies acme None \<union> tenant_policies globex None)
       (pod_of ''tenant-acme'' ''web'') (pod_of ''tenant-globex'' ''db'') (''TCP'', 5432)
   \<and> connects (\<lambda>_ _. True) (tenant_policies acme None \<union> tenant_policies globex None)
       (pod_of ''tenant-acme'' ''web'') (pod_of ''tenant-acme'' ''db'') (''TCP'', 5432)"
proof -
  let ?P = "tenant_policies acme None \<union> tenant_policies globex None"
  have P: "?P \<subseteq> operator_policies" by (auto simp: operator_policies_def)
  have ns: "tenant_namespace acme = ''tenant-acme''" "tenant_namespace globex = ''tenant-globex''"
    by (simp_all add: tenant_namespace_def acme_def globex_def TENANT_NAMESPACE_PREFIX_def)
  show ?thesis
    using tenants_isolated [OF P, of acme None globex None "pod_of ''tenant-acme'' ''web''" _ "pod_of ''tenant-globex'' ''db''" _
        "\<lambda>_ _. True" "(''TCP'', 5432)"]
      tenants_isolated [OF P, of acme None acme None "pod_of ''tenant-acme'' ''web''" _ "pod_of ''tenant-acme'' ''db''" _
        "\<lambda>_ _. True" "(''TCP'', 5432)"]
    by (simp add: ns pod_of_def)
qed

theorem metadata_service_blocked_witness:
  "\<not> connects (\<lambda>cidr a. cidr = ''0.0.0.0/0'' \<or> cidr = a @ ''/32'') (app_policies sample_project network_isolation_default)
      (pod_of ''prod'' ''shop'') \<lparr>en_address = ''169.254.169.254'', en_pod = None\<rparr> (''TCP'', 80)"
proof
  let ?P = "app_policies sample_project network_isolation_default"
  let ?in = "\<lambda>cidr a. cidr = ''0.0.0.0/0'' \<or> cidr = a @ ''/32''"
  have app: "require_namespace sample_project = Inr ''prod''" "name_any sample_project = ''shop''"
    "\<exists>r. owner_reference_of sample_project = Inr r"
    by (simp_all add: sample_project_def require_namespace_def app_namespace_def ok_or_def name_any_def owner_reference_of_def)
  then obtain deny where deny: "build_default_deny_policy sample_project = Inr deny" by (auto simp: build_default_deny_policy_def)
  assume c: "connects ?in ?P (pod_of ''prod'' ''shop'') \<lparr>en_address = ''169.254.169.254'', en_pod = None\<rparr> (''TCP'', 80)"
  have "(''TCP'', 80 :: nat) \<in> {(''UDP'', 53), (''TCP'', 53)}"
    by (rule conjunct1, rule metadata_service_blocked [where app = sample_project and network = network_isolation_default
          and deny = deny and P = ?P and ns = "''prod''" and ns_labels = "[''kubernetes.io/metadata.name'' \<mapsto> ''prod'']"
          and labels = "[''app.kubernetes.io/name'' \<mapsto> ''shop'']", OF _ deny _ _ _ app(1) _ _ _ c])
       (use deny app(2) in \<open>auto simp: network_isolation_default_def pod_of_def app_policies_def\<close>)
  then show False by simp
qed

end
