(* ===== verification/Webhook.thy ===== *)
theory Webhook
  imports ProjectStatus
begin

text \<open>
  Git webhooks of the dashboard (\<open>dashboard/src/utils/vcs/events.rs\<close>, \<open>signature.rs\<close>,
  \<open>apps/github/services/webhook.rs\<close>): the signature of a delivery, the actions its payload stands for, and the
  names and inputs of an import (\<open>services/import.rs\<close>, \<open>pipeline.rs\<close>). Decoding JSON (\<open>vcs_json\<close>), hex and the
  MAC are arguments.
\<close>

section \<open>Events\<close>

datatype webhook_action =
    BuildTrigger string string
  | PreviewCreate u64 string string
  | PreviewDelete u64
  | TagRelease string string
  | Ignored

record github_push_event =
  ghp_ref_name :: string
  ghp_after :: string

record github_head =
  ghh_ref_name :: string
  ghh_sha :: string

record github_pull_request =
  ghr_head :: github_head

record github_pull_request_event =
  ghe_action :: string
  ghe_number :: u64
  ghe_pull_request :: github_pull_request

record gitlab_push_event =
  glp_ref_name :: string
  glp_after :: string

record gitlab_commit =
  glc_id :: string

record gitlab_merge_request =
  glm_action :: string
  glm_iid :: u64
  glm_source_branch :: string
  glm_last_commit :: gitlab_commit

record gitlab_merge_request_event =
  gle_object_attributes :: gitlab_merge_request

text \<open>\<open>serde_json::from_slice\<close> at each of the payload types; \<open>vj_repository\<close> reads \<open>repository.id\<close>.\<close>

record vcs_json =
  vj_github_push :: "string \<Rightarrow> github_push_event option"
  vj_github_pull_request :: "string \<Rightarrow> github_pull_request_event option"
  vj_gitlab_push :: "string \<Rightarrow> gitlab_push_event option"
  vj_gitlab_merge_request :: "string \<Rightarrow> gitlab_merge_request_event option"
  vj_repository :: "string \<Rightarrow> string + i64"

definition push_action :: "string \<Rightarrow> string \<Rightarrow> webhook_action" where
  "push_action ref_name after =
     (case strip_prefix ref_name ''refs/tags/'' of
        Some tag \<Rightarrow> TagRelease tag after
      | None \<Rightarrow> BuildTrigger (unwrap_or ref_name (strip_prefix ref_name ''refs/heads/'')) after)"

definition parse_gitlab_event :: "vcs_json \<Rightarrow> string \<Rightarrow> string \<Rightarrow> webhook_action" where
  "parse_gitlab_event J event_type payload =
     (if event_type = ''Push Hook'' then
        (case vj_gitlab_push J payload of
           None \<Rightarrow> Ignored
         | Some event \<Rightarrow> push_action (glp_ref_name event) (glp_after event))
      else if event_type = ''Merge Request Hook'' then
        (case vj_gitlab_merge_request J payload of
           None \<Rightarrow> Ignored
         | Some event \<Rightarrow>
             (let attributes = gle_object_attributes event; action = glm_action attributes in
              if action = ''open'' \<or> action = ''update'' \<or> action = ''reopen''
              then PreviewCreate (glm_iid attributes) (glm_source_branch attributes) (glc_id (glm_last_commit attributes))
              else if action = ''close'' \<or> action = ''merge'' then PreviewDelete (glm_iid attributes)
              else Ignored))
      else Ignored)"

definition parse_github_event :: "vcs_json \<Rightarrow> string \<Rightarrow> string \<Rightarrow> webhook_action" where
  "parse_github_event J event_type payload =
     (if event_type = ''push'' then
        (case vj_github_push J payload of
           None \<Rightarrow> Ignored
         | Some event \<Rightarrow> push_action (ghp_ref_name event) (ghp_after event))
      else if event_type = ''pull_request'' then
        (case vj_github_pull_request J payload of
           None \<Rightarrow> Ignored
         | Some event \<Rightarrow>
             (let action = ghe_action event; head = ghr_head (ghe_pull_request event) in
              if action = ''opened'' \<or> action = ''synchronize'' \<or> action = ''reopened''
              then PreviewCreate (ghe_number event) (ghh_ref_name head) (ghh_sha head)
              else if action = ''closed'' then PreviewDelete (ghe_number event)
              else Ignored))
      else Ignored)"

record github_webhook_dispatch =
  gd_repository_id :: i64
  gd_action :: webhook_action

definition parse_github_webhook_dispatch :: "vcs_json \<Rightarrow> string \<Rightarrow> string \<Rightarrow> string + github_webhook_dispatch" where
  "parse_github_webhook_dispatch J event_type payload =
     (case vj_repository J payload of
        Inl e \<Rightarrow> Inl (''GitHub webhook payload must include repository.id: '' @ e)
      | Inr i \<Rightarrow> Inr \<lparr>gd_repository_id = i, gd_action = parse_github_event J event_type payload\<rparr>)"

section \<open>Signatures\<close>

text \<open>\<open>hmac\<close> is HMAC-SHA256; it accepts keys of any length.\<close>

definition verify_github_signature ::
  "(string \<Rightarrow> string option) \<Rightarrow> (string \<Rightarrow> string \<Rightarrow> string) \<Rightarrow> string \<Rightarrow> string \<Rightarrow> string \<Rightarrow> bool" where
  "verify_github_signature hex_decode hmac secret payload signature =
     (case strip_prefix signature ''sha256='' of
        None \<Rightarrow> False
      | Some hex_digest \<Rightarrow>
          (case hex_decode hex_digest of
             None \<Rightarrow> False
           | Some expected_bytes \<Rightarrow> hmac secret payload = expected_bytes))"

definition verify_gitlab_token :: "string \<Rightarrow> string \<Rightarrow> bool" where
  "verify_gitlab_token secret token \<longleftrightarrow> secret = token"

section \<open>Names of an import\<close>

text \<open>\<open>str::chars\<close> of well-formed UTF-8: a continuation byte adds six bits to the code point before it.\<close>

definition utf8_payload :: "nat \<Rightarrow> nat" where
  "utf8_payload b = (if b < 128 then b else if b < 224 then b - 192 else if b < 240 then b - 224 else b - 240)"

fun utf8_from :: "nat \<Rightarrow> nat list \<Rightarrow> nat list" where
  "utf8_from point [] = [point]"
| "utf8_from point (b # bs) =
     (if 128 \<le> b \<and> b < 192 then utf8_from (point * 64 + (b - 128)) bs else point # utf8_from (utf8_payload b) bs)"

definition utf8_chars :: "string \<Rightarrow> nat list" where
  "utf8_chars s = (case map byte s of [] \<Rightarrow> [] | b # bs \<Rightarrow> utf8_from (utf8_payload b) bs)"

definition is_whitespace_point :: "nat \<Rightarrow> bool" where
  "is_whitespace_point n \<longleftrightarrow> 9 \<le> n \<and> n \<le> 13 \<or> n \<in> {0x20, 0x85, 0xA0, 0x1680} \<or> 0x2000 \<le> n \<and> n \<le> 0x200A
     \<or> n \<in> {0x2028, 0x2029, 0x202F, 0x205F, 0x3000}"

definition sanitize_point :: "nat \<Rightarrow> char option" where
  "sanitize_point n =
     (if n < 128 \<and> (is_ascii_lowercase (char_of n) \<or> is_ascii_digit (char_of n)) then Some (char_of n)
      else if n = 45 \<or> n = 95 \<or> n = 46 \<or> is_whitespace_point n then Some (CHR ''-'')
      else None)"

fun sanitize_points :: "nat list \<Rightarrow> string \<Rightarrow> bool \<Rightarrow> string" where
  "sanitize_points [] out previous_hyphen = out"
| "sanitize_points (n # ns) out previous_hyphen =
     (case sanitize_point n of
        None \<Rightarrow> sanitize_points ns out previous_hyphen
      | Some c \<Rightarrow>
          if c = CHR ''-'' \<and> (out = [] \<or> previous_hyphen) then sanitize_points ns out previous_hyphen
          else if length (out @ [c]) = 63 then out @ [c]
          else sanitize_points ns (out @ [c]) (c = CHR ''-''))"

text \<open>\<open>lowercase\<close> is \<open>char::to_lowercase\<close>: the code points of the lower-case mapping of one code point.\<close>

definition sanitize_project_name :: "(nat \<Rightarrow> nat list) \<Rightarrow> string \<Rightarrow> string" where
  "sanitize_project_name lowercase raw =
     (let out = trim_end_matches (CHR ''-'') (sanitize_points (concat (map lowercase (utf8_chars raw))) [] False)
      in if out = [] then ''app'' else out)"

definition validate_project_name :: "string \<Rightarrow> string + string" where
  "validate_project_name name =
     (let trimmed = trim name in
      if trimmed = [] then Inl ''Project name must be 1-63 characters''
      else if 63 < length trimmed then Inl ''Project name must be 1-63 characters''
      else if starts_with trimmed ''-'' \<or> ends_with trimmed ''-''
      then Inl ''Project name must start and end with an alphanumeric character''
      else if \<not> list_all (\<lambda>b. is_ascii_lowercase b \<or> is_ascii_digit b \<or> b = CHR ''-'') trimmed
      then Inl ''Project name must contain only lowercase ASCII letters, digits, and hyphens''
      else Inr trimmed)"

fun contains_whitespace :: "string \<Rightarrow> bool" where
  "contains_whitespace [] = False"
| "contains_whitespace (c # s) = (0 < ws_len (c # s) \<or> contains_whitespace s)"

definition validate_registry :: "string \<Rightarrow> string + string" where
  "validate_registry registry =
     (let trimmed = trim registry in
      if trimmed = [] \<or> 512 < length trimmed then Inl ''Registry image prefix must be 1-512 characters''
      else if contains_whitespace trimmed then Inl ''Registry image prefix must not contain whitespace''
      else Inr (trim_end_matches (CHR '':'') trimmed))"

section \<open>Trimming\<close>

definition is_graphic :: "char \<Rightarrow> bool" where
  "is_graphic c \<longleftrightarrow> 33 \<le> byte c \<and> byte c < 127"

lemma ws_len_graphic: "list_all is_graphic s \<Longrightarrow> ws_len s = 0"
  unfolding ws_len_def
  by (cases s; cases "tl s"; cases "tl (tl s)") (auto simp: is_graphic_def)

lemma trim_graphic: "list_all is_graphic s \<Longrightarrow> trim s = s"
proof -
  assume s: "list_all is_graphic s"
  then have sub: "ws_len t = 0" if "set t \<subseteq> set s" for t using that ws_len_graphic [of t] by (auto simp: list_all_iff)
  have "ws_len_rev (rev s) = 0"
    unfolding ws_len_rev_def using sub [of "take 1 (rev s)"] sub [of "rev (take 2 (rev s))"] sub [of "rev (take 3 (rev s))"]
      set_take_subset [of _ "rev s"] by simp
  then show ?thesis unfolding trim_def trim_end_def using sub [of s] by (simp add: trim_start.simps trim_rev.simps)
qed

lemma ws_len_trim_start: "ws_len (trim_start s) = 0"
proof (induction s rule: trim_start.induct)
  case (1 s)
  then show ?case by (cases "0 < ws_len s") (simp_all add: trim_start.simps [of s])
qed

lemma ws_len_rev_trim_rev: "ws_len_rev (trim_rev s) = 0"
proof (induction s rule: trim_rev.induct)
  case (1 s)
  then show ?case by (cases "0 < ws_len_rev s") (simp_all add: trim_rev.simps [of s])
qed

lemma ws_len_length: "ws_len s \<le> length s"
  unfolding ws_len_def by (cases s; cases "tl s"; cases "tl (tl s)") auto

lemma ws_len_rev_prefix: "0 < ws_len_rev s \<Longrightarrow> 0 < ws_len_rev (s @ t)"
proof -
  have "take k (s @ t) = take k s" if "ws_len (f (take k s)) = k" "\<And>x. length (f x) = length x" for k and f :: "string \<Rightarrow> string"
    using ws_len_length [of "f (take k s)"] that by simp
  from this [of id 1] this [of rev 2] this [of rev 3] show "0 < ws_len_rev s \<Longrightarrow> 0 < ws_len_rev (s @ t)"
    by (auto simp: ws_len_rev_def split: if_splits)
qed

lemma trim_trim [simp]: "trim (trim s) = trim s"
proof -
  let ?e = "trim_end s"
  obtain w where w: "?e = w @ trim s" using trim_start_suffix [of ?e] by (auto simp: trim_def)
  have "ws_len_rev (rev ?e) = 0" unfolding trim_end_def by (simp add: ws_len_rev_trim_rev)
  then have "ws_len_rev (rev (trim s)) = 0" using ws_len_rev_prefix [of "rev (trim s)" "rev w"] w by (metis gr0I less_irrefl rev_append)
  then have "trim_end (trim s) = trim s" unfolding trim_end_def by (simp add: trim_rev.simps [of "rev (trim s)"])
  moreover have "ws_len (trim s) = 0" by (simp add: trim_def ws_len_trim_start)
  ultimately show ?thesis by (simp add: trim_def [of "trim s"] trim_start.simps [of "trim s"])
qed

section \<open>Names are DNS labels\<close>

lemma dns_of_ascii: "is_dns_1123_alphanumeric c \<longleftrightarrow> is_ascii_lowercase c \<or> is_ascii_digit c"
  by (simp add: is_dns_1123_alphanumeric_def)

lemma sanitize_point_dns: "sanitize_point n = Some c \<Longrightarrow> dns_char c"
  by (auto simp: sanitize_point_def dns_char_def dns_of_ascii split: if_splits)

lemma sanitize_points_label:
  assumes "list_all dns_char out" and "length out < 63" and "out \<noteq> [] \<longrightarrow> hd out \<noteq> CHR ''-''"
  shows "list_all dns_char (sanitize_points ns out p) \<and> length (sanitize_points ns out p) \<le> 63
    \<and> (sanitize_points ns out p \<noteq> [] \<longrightarrow> hd (sanitize_points ns out p) \<noteq> CHR ''-'')"
  using assms
proof (induction ns out p rule: sanitize_points.induct)
  case (1 out p)
  then show ?case by simp
next
  case (2 n ns out p)
  show ?case
  proof (cases "sanitize_point n")
    case None
    with 2 show ?thesis by simp
  next
    case (Some c)
    have c: "dns_char c" using sanitize_point_dns [OF Some] .
    have grown: "list_all dns_char (out @ [c])" "out = [] \<longrightarrow> c \<noteq> CHR ''-'' \<Longrightarrow> hd (out @ [c]) \<noteq> CHR ''-''"
      using c 2(4,6) by (auto simp: hd_append)
    show ?thesis
    proof (cases "c = CHR ''-'' \<and> (out = [] \<or> p)")
      case True
      with 2(2) [OF Some True] 2(4-6) Some show ?thesis by simp
    next
      case False
      show ?thesis
      proof (cases "length (out @ [c]) = 63")
        case True
        with grown False Some show ?thesis by auto
      next
        case full: False
        then have "length (out @ [c]) < 63" using 2(5) by simp
        with 2(3) [OF Some False full] grown False Some full show ?thesis by auto
      qed
    qed
  qed
qed

lemma trimmed_label:
  assumes "list_all dns_char s" and "length s \<le> 63" and "s \<noteq> [] \<longrightarrow> hd s \<noteq> CHR ''-''" and "trim_end_matches (CHR ''-'') s \<noteq> []"
  shows "dns_label (trim_end_matches (CHR ''-'') s)"
proof -
  let ?t = "trim_end_matches (CHR ''-'') s"
  obtain u where s: "s = ?t @ u" using trim_end_matches_prefix by blast
  have all: "list_all dns_char ?t" using assms(1) set_trim_end_matches [of "CHR ''-''" s] by (auto simp: list_all_iff)
  have "hd ?t = hd s" using s assms(4) by (metis hd_append2)
  moreover have "s \<noteq> []" using s assms(4) by (metis append_is_Nil_conv)
  ultimately have "hd ?t \<noteq> CHR ''-''" "last ?t \<noteq> CHR ''-''" "length ?t \<le> 63"
    using assms(2,3) last_trim_end_matches [OF assms(4)] length_trim_end_matches [of "CHR ''-''" s] by simp_all
  moreover have "dns_char (hd ?t)" "dns_char (last ?t)" using all assms(4) by (auto simp: list_all_iff)
  ultimately show ?thesis using all assms(4) by (auto simp: dns_label_def dns_char_def)
qed

lemma dns_label_app: "dns_label ''app''"
  by (simp add: dns_label_def dns_char_def dns_of_ascii is_ascii_lowercase_def)

lemma sanitized_label: "dns_label (sanitize_project_name lowercase raw)"
  using sanitize_points_label [of "[]" "concat (map lowercase (utf8_chars raw))" False] trimmed_label dns_label_app
  by (auto simp: sanitize_project_name_def Let_def)

lemma dns_bounds: "starts_with t ''-'' \<longleftrightarrow> t \<noteq> [] \<and> hd t = CHR ''-''" "ends_with t ''-'' \<longleftrightarrow> t \<noteq> [] \<and> last t = CHR ''-''"
  by (cases t; simp add: starts_with_def) (cases t rule: rev_cases; simp add: ends_with_def starts_with_def)

lemma validate_project_name_iff: "validate_project_name name = Inr n \<longleftrightarrow> n = trim name \<and> dns_label n"
proof -
  have "list_all (\<lambda>b. is_ascii_lowercase b \<or> is_ascii_digit b \<or> b = CHR ''-'') t \<longleftrightarrow> list_all dns_char t" for t
    by (simp add: list_all_iff dns_char_def dns_of_ascii disj_assoc)
  moreover have "dns_label t \<longleftrightarrow> t \<noteq> [] \<and> length t \<le> 63 \<and> hd t \<noteq> CHR ''-'' \<and> last t \<noteq> CHR ''-'' \<and> list_all dns_char t" for t
  proof -
    have "\<not> is_dns_1123_alphanumeric (CHR ''-'')" by (simp add: dns_of_ascii is_ascii_lowercase_def is_ascii_digit_def)
    then have c: "is_dns_1123_alphanumeric c \<longleftrightarrow> dns_char c \<and> c \<noteq> CHR ''-''" for c unfolding dns_char_def by blast
    have "list_all dns_char t \<Longrightarrow> t \<noteq> [] \<Longrightarrow> dns_char (hd t) \<and> dns_char (last t)" by (simp add: list_all_iff)
    then show ?thesis unfolding dns_label_def c by blast
  qed
  ultimately show ?thesis
    by (auto simp: validate_project_name_def Let_def dns_bounds split: if_splits)
qed

end
