(* ===== verification/GithubImport.thy ===== *)
theory GithubImport
  imports Webhook SourceBuildProps
begin

text \<open>
  Projects imported from GitHub (\<open>dashboard/src/apps/github/services/import.rs\<close>, \<open>pipeline.rs\<close>, and
  \<open>parse_project_yaml\<close> of \<open>k8s/src/resources.rs\<close>): the manifest of an import, the edits a webhook makes to it, and
  what the operator does with the edited manifest. A manifest is stored as text; reading and printing YAML and the
  derived conversions of \<open>Project\<close> are the argument \<open>yaml_lib\<close>.
\<close>

section \<open>Manifests\<close>

datatype yaml =
    YNull
  | YBool bool
  | YNumber string
  | YString string
  | YSeq "yaml list"
  | YMap "(yaml \<times> yaml) list"
  | YTagged string yaml

record yaml_lib =
  y_from_str :: "string \<Rightarrow> string + yaml"
  y_project :: "yaml \<Rightarrow> string + project"
  y_to_string :: "project \<Rightarrow> string + string"

text \<open>
  \<open>as_mapping_mut\<close> looks through tags. The order in which \<open>Mapping::remove\<close> leaves the entries is not kept: it is
  lost when the annotations are read into their map.
\<close>

fun as_mapping :: "yaml \<Rightarrow> (yaml \<times> yaml) list option" where
  "as_mapping (YMap m) = Some m"
| "as_mapping (YTagged t v) = as_mapping v"
| "as_mapping v = None"

fun put_mapping :: "yaml \<Rightarrow> (yaml \<times> yaml) list \<Rightarrow> yaml" where
  "put_mapping (YMap m) m' = YMap m'"
| "put_mapping (YTagged t v) m' = YTagged t (put_mapping v m')"
| "put_mapping v m' = v"

definition edit_entries ::
  "(string \<times> string) list \<Rightarrow> string list \<Rightarrow> (yaml \<times> yaml) list \<Rightarrow> (yaml \<times> yaml) list" where
  "edit_entries upserts removals m =
     foldl (\<lambda>m (k, v). alist_put (YString k) (YString v) m)
       (foldl (\<lambda>m k. filter (\<lambda>(k', v). k' \<noteq> YString k) m) m removals) upserts"

definition edit_annotations :: "(string \<times> string) list \<Rightarrow> string list \<Rightarrow> yaml \<Rightarrow> string + yaml" where
  "edit_annotations upserts removals value =
     (case Option.bind (as_mapping value) (\<lambda>root. Option.bind (map_of root (YString ''metadata''))
             (\<lambda>metadata. map_option (\<lambda>m. (root, metadata, m)) (as_mapping metadata))) of
        None \<Rightarrow> Inl ''Project metadata must be an object''
      | Some (root, metadata, m) \<Rightarrow>
          (let annotations = unwrap_or (YMap []) (map_of m (YString ''annotations'')) in
           case as_mapping annotations of
             None \<Rightarrow> Inl ''Project metadata.annotations must be an object''
           | Some entries \<Rightarrow>
               (let annotations' = put_mapping annotations (edit_entries upserts removals entries);
                    metadata' = put_mapping metadata (alist_put (YString ''annotations'') annotations' m)
                in Inr (put_mapping value (alist_put (YString ''metadata'') metadata' root)))))"

definition map_error :: "('d \<Rightarrow> 'e) \<Rightarrow> 'd + 'a \<Rightarrow> 'e + 'a" where
  "map_error g r = (case r of Inl e \<Rightarrow> Inl (g e) | Inr a \<Rightarrow> Inr a)"

definition with_annotations ::
  "yaml_lib \<Rightarrow> string \<Rightarrow> (string \<times> string) list \<Rightarrow> string list \<Rightarrow> string + string" where
  "with_annotations Y yaml upserts removals =
     result_bind (map_error (\<lambda>e. ''Invalid Project YAML: '' @ e) (y_from_str Y yaml)) (\<lambda>value.
     result_bind (edit_annotations upserts removals value) (\<lambda>value'.
     result_bind (map_error (\<lambda>e. ''Invalid Project YAML: '' @ e) (y_project Y value')) (\<lambda>app.
     map_error (\<lambda>e. ''Failed to serialize Project manifest: '' @ e) (y_to_string Y app))))"

definition non_empty_branch :: "string \<Rightarrow> string + string" where
  "non_empty_branch branch = (let trimmed = trim branch in if trimmed = [] then Inl ''Branch must be non-empty'' else Inr trimmed)"

definition non_empty_commit_sha :: "string \<Rightarrow> string + string" where
  "non_empty_commit_sha commit_sha =
     (let trimmed = trim commit_sha in if trimmed = [] then Inl ''Commit SHA must be non-empty'' else Inr trimmed)"

definition with_build_trigger :: "yaml_lib \<Rightarrow> string \<Rightarrow> string \<Rightarrow> string + string" where
  "with_build_trigger Y yaml commit_sha =
     result_bind (non_empty_commit_sha commit_sha) (\<lambda>trigger.
     with_annotations Y yaml [(''reinhardt.dev/build-trigger'', trigger)] [])"

definition with_preview_create :: "yaml_lib \<Rightarrow> string \<Rightarrow> u64 \<Rightarrow> string \<Rightarrow> string \<Rightarrow> string + string" where
  "with_preview_create Y yaml pr_number branch commit_sha =
     result_bind (non_empty_branch branch) (\<lambda>branch.
     result_bind (non_empty_commit_sha commit_sha) (\<lambda>commit_sha.
     with_annotations Y yaml
       [(''reinhardt.dev/preview-action'', ''create''), (''reinhardt.dev/pr-number'', show_nat (unat pr_number)),
        (''reinhardt.dev/pr-branch'', branch), (''reinhardt.dev/build-trigger'', commit_sha)] []))"

definition with_preview_delete :: "yaml_lib \<Rightarrow> string \<Rightarrow> u64 \<Rightarrow> string + string" where
  "with_preview_delete Y yaml pr_number =
     with_annotations Y yaml
       [(''reinhardt.dev/preview-action'', ''delete''), (''reinhardt.dev/pr-number'', show_nat (unat pr_number))]
       [''reinhardt.dev/build-trigger'', ''reinhardt.dev/pr-branch'']"

definition apply_webhook_action_to_manifest ::
  "yaml_lib \<Rightarrow> string \<Rightarrow> webhook_action \<Rightarrow> string \<Rightarrow> string + string option" where
  "apply_webhook_action_to_manifest Y yaml action production_branch =
     (case action of
        BuildTrigger branch commit_sha \<Rightarrow>
          if branch = production_branch then result_bind (with_build_trigger Y yaml commit_sha) (\<lambda>t. Inr (Some t)) else Inr None
      | PreviewCreate pr_number branch commit_sha \<Rightarrow>
          result_bind (with_preview_create Y yaml pr_number branch commit_sha) (\<lambda>t. Inr (Some t))
      | PreviewDelete pr_number \<Rightarrow> result_bind (with_preview_delete Y yaml pr_number) (\<lambda>t. Inr (Some t))
      | TagRelease _ _ \<Rightarrow> Inr None
      | Ignored \<Rightarrow> Inr None)"

section \<open>The manifest of an import\<close>

record github_repository =
  ghr_id :: "i64 option"
  ghr_installation :: i64
  ghr_github_repository_id :: i64
  ghr_full_name :: string
  ghr_owner_login :: string
  ghr_name :: string
  ghr_default_branch :: string
  ghr_private :: bool
  ghr_selected :: bool
  ghr_import_claimed_at :: "timestamp option"
  ghr_updated_at :: timestamp

record github_import_spec =
  gis_project_name :: string
  gis_namespace :: string
  gis_repository_url :: string
  gis_branch :: string
  gis_registry :: string
  gis_credentials_secret :: "string option"
  gis_introspect :: "introspect_output option"

definition DEFAULT_NAMESPACE :: string where "DEFAULT_NAMESPACE = ''default''"

definition DEFAULT_PREVIEW_TTL :: string where "DEFAULT_PREVIEW_TTL = ''72h''"

definition default_project_name :: "(nat \<Rightarrow> nat list) \<Rightarrow> github_repository \<Rightarrow> string" where
  "default_project_name lowercase repository = sanitize_project_name lowercase (ghr_name repository)"

definition import_spec_from_repository ::
  "(nat \<Rightarrow> nat list) \<Rightarrow> github_repository \<Rightarrow> string \<Rightarrow> string \<Rightarrow> string + github_import_spec" where
  "import_spec_from_repository lowercase repository project_name registry =
     result_bind (validate_project_name
       (if trim project_name = [] then default_project_name lowercase repository else trim project_name)) (\<lambda>project_name.
     result_bind (validate_registry registry) (\<lambda>registry.
     Inr \<lparr>gis_project_name = project_name, gis_namespace = DEFAULT_NAMESPACE,
       gis_repository_url = ''https://github.com/'' @ ghr_full_name repository @ ''.git'',
       gis_branch = ghr_default_branch repository, gis_registry = registry, gis_credentials_secret = None,
       gis_introspect = None\<rparr>))"

definition enrich_import_spec :: "github_import_spec \<Rightarrow> introspect_output \<Rightarrow> string option \<Rightarrow> github_import_spec" where
  "enrich_import_spec spec introspect credentials_secret =
     spec\<lparr>gis_introspect := Some introspect, gis_credentials_secret := credentials_secret\<rparr>"

text \<open>The object of the JSON literal in \<open>source_project_yaml\<close>, after \<open>serde_json::from_value\<close>.\<close>

definition imported_source :: "github_import_spec \<Rightarrow> source_spec" where
  "imported_source spec =
     \<lparr>src_repository = gis_repository_url spec, src_branch = Some (gis_branch spec), src_provider = Some GitHub,
      src_credentials_secret = gis_credentials_secret spec,
      src_build = Some \<lparr>bsp_dockerfile = None, bsp_context = None, bsp_registry = Some (gis_registry spec), bsp_build_args = []\<rparr>,
      src_webhook = Some \<lparr>wh_enabled = True, wh_events = [Push, PullRequest], wh_secret_ref = None\<rparr>,
      src_preview = Some \<lparr>pv_enabled = True, pv_ttl = Some DEFAULT_PREVIEW_TTL,
        pv_url_template = Some ''pr-{pr_number}.{app}.preview.localhost'',
        pv_overrides = Some \<lparr>po_replicas = Some 1, po_database = Some False, po_cache = Some False\<rparr>, pv_budget = None\<rparr>\<rparr>"

definition imported_project :: "github_import_spec \<Rightarrow> project" where
  "imported_project spec =
     \<lparr>pj_metadata = object_meta_default\<lparr>om_name := Some (gis_project_name spec), om_namespace := Some (gis_namespace spec),
        om_annotations := Some [''reinhardt.dev/build-trigger'' \<mapsto> ''initial'']\<rparr>,
      pj_spec = project_spec_default\<lparr>ps_image := gis_registry spec @ '':pending'', ps_introspect := gis_introspect spec,
        ps_source := Some (imported_source spec)\<rparr>,
      pj_status = None\<rparr>"

definition source_project_yaml :: "yaml_lib \<Rightarrow> github_import_spec \<Rightarrow> string + string" where
  "source_project_yaml Y spec =
     (let app = imported_project spec in
      case validate_project (pj_spec app) of
        Inl errors \<Rightarrow> Inl (''Invalid Project spec: '' @ join ''; '' errors)
      | Inr _ \<Rightarrow> map_error (\<lambda>e. ''Failed to serialize Project manifest: '' @ e) (y_to_string Y app))"

section \<open>The deploy pipeline\<close>

definition github_credentials_secret_name :: "string \<Rightarrow> string" where
  "github_credentials_secret_name project_name = project_name @ ''-github-git-credentials''"

definition credentials_secret_for_repository :: "string \<Rightarrow> bool \<Rightarrow> string option" where
  "credentials_secret_for_repository project_name private =
     (if private then Some (github_credentials_secret_name project_name) else None)"

definition introspect_output_default :: introspect_output where
  "introspect_output_default =
     \<lparr>io_app = \<lparr>am_name = [], am_version = []\<rparr>, io_databases = [], io_routes = [], io_middleware = [],
      io_settings = \<lparr>set_server = server_settings_default, set_security = \<lparr>sec_ssl_redirect = False,
        sec_session_cookie_secure = False, sec_csrf_cookie_secure = False, sec_hsts_enabled = False\<rparr>\<rparr>,
      io_features = \<lparr>fm_declared = [], fm_resolved = [], fm_infrastructure_signals = infra_signals_default\<rparr>\<rparr>"

definition safe_github_import_introspect :: "string \<Rightarrow> introspect_output" where
  "safe_github_import_introspect project_name =
     introspect_output_default\<lparr>io_app := (io_app introspect_output_default)\<lparr>am_name := project_name\<rparr>\<rparr>"

definition run_github_deploy_pipeline :: "string \<Rightarrow> bool \<Rightarrow> string + introspect_output \<times> string option" where
  "run_github_deploy_pipeline project_name private =
     Inr (safe_github_import_introspect project_name, credentials_secret_for_repository project_name private)"

text \<open>The object an import of a repository ends up with, when every step succeeds.\<close>

definition import_manifest ::
  "yaml_lib \<Rightarrow> (nat \<Rightarrow> nat list) \<Rightarrow> github_repository \<Rightarrow> string \<Rightarrow> string \<Rightarrow> string + github_import_spec \<times> string" where
  "import_manifest Y lowercase repository project_name registry =
     result_bind (import_spec_from_repository lowercase repository project_name registry) (\<lambda>spec.
     result_bind (run_github_deploy_pipeline (gis_project_name spec) (ghr_private repository)) (\<lambda>(introspect, credentials).
     let spec = enrich_import_spec spec introspect credentials in
     result_bind (source_project_yaml Y spec) (\<lambda>manifest. Inr (spec, manifest))))"

section \<open>Reading a manifest in the cluster\<close>

datatype manifest_error = Manifest string | MissingName | InvalidManifest string

definition parse_project_yaml :: "yaml_lib \<Rightarrow> string \<Rightarrow> manifest_error + project" where
  "parse_project_yaml Y yaml =
     result_bind (map_error Manifest (result_bind (y_from_str Y yaml) (y_project Y))) (\<lambda>app.
     if unwrap_or [] (om_name (pj_metadata app)) = [] then Inl MissingName
     else (case validate_project (pj_spec app) of
             Inl errors \<Rightarrow> Inl (InvalidManifest (join ''; '' errors))
           | Inr _ \<Rightarrow> Inr app))"

end
