(* ===== verification/Database.thy ===== *)
theory Database
  imports Workload RedisCredentials SourceBuild PreviewNames
begin

text \<open>
  Databases and migrations of the operator: \<open>resources/database.rs\<close>, \<open>inference/database.rs\<close>,
  \<open>inference/secrets.rs\<close> and \<open>resources/migration.rs\<close>. Drawn random indices and key bytes are
  arguments; \<open>base64\<close> is a parameter. The data of a cloud provider object is a \<open>json\<close> value.
\<close>

section \<open>Generated secrets\<close>

definition secret_meta :: "string \<Rightarrow> string \<Rightarrow> string \<Rightarrow> object_meta" where
  "secret_meta n namespace project_name =
     object_meta_default\<lparr>om_name := Some n, om_namespace := Some namespace,
       om_labels := Some (map_of (standard_secret_labels project_name))\<rparr>"

definition build_jwt_secret :: "(string \<Rightarrow> string) \<Rightarrow> string \<Rightarrow> string \<Rightarrow> string \<Rightarrow> secret" where
  "build_jwt_secret base64_encode key_bytes project_name namespace =
     \<lparr>se_metadata = secret_meta (project_name @ ''-jwt-secret'') namespace project_name,
      se_data = Some [(''jwt-secret'', base64_encode key_bytes)], se_string_data = None,
      se_immutable = None, se_type = Some ''Opaque''\<rparr>"

definition build_core_secret_key_secret :: "(string \<Rightarrow> string) \<Rightarrow> string \<Rightarrow> string \<Rightarrow> string \<Rightarrow> secret" where
  "build_core_secret_key_secret base64_encode key_bytes project_name namespace =
     \<lparr>se_metadata = secret_meta (project_name @ ''-core-secret-key'') namespace project_name,
      se_data = Some [(''secret-key'', base64_encode key_bytes)], se_string_data = None,
      se_immutable = None, se_type = Some ''Opaque''\<rparr>"

definition build_db_credentials_secret :: "string \<Rightarrow> string \<Rightarrow> string \<Rightarrow> string \<Rightarrow> string \<Rightarrow> secret" where
  "build_db_credentials_secret project_name namespace user password database =
     \<lparr>se_metadata = secret_meta (project_name @ ''-db-credentials'') namespace project_name,
      se_data = Some [(''POSTGRES_DB'', database), (''POSTGRES_PASSWORD'', password), (''POSTGRES_USER'', user),
        (''password'', password), (''username'', user)],
      se_string_data = None, se_immutable = None, se_type = Some ''Opaque''\<rparr>"

section \<open>The database an introspected project asks for\<close>

definition DB_CHARSET :: string where
  "DB_CHARSET = ''abcdefghijklmnopqrstuvwxyzABCDEFGHIJKLMNOPQRSTUVWXYZ0123456789''"

definition generate_password :: "nat list \<Rightarrow> string" where
  "generate_password draws = map (\<lambda>idx. DB_CHARSET ! idx) draws"

definition sanitize_db_name :: "string \<Rightarrow> string" where
  "sanitize_db_name n =
     (let sanitized = filter (\<lambda>c. is_ascii_alphanumeric c \<or> c = CHR ''_'') (str_replace ''-'' ''_'' n);
          sanitized = (case sanitized of
              [] \<Rightarrow> []
            | c # _ \<Rightarrow> if is_ascii_digit c then CHR ''_'' # sanitized else sanitized)
      in take 63 sanitized)"

definition build_db_secret :: "nat list \<Rightarrow> project \<Rightarrow> operator_error + secret" where
  "build_db_secret draws app =
     (let labels = standard_labels app CompDatabase in
      result_bind (require_namespace app) (\<lambda>namespace.
      result_bind (owner_reference_of app) (\<lambda>owner_ref.
      let project_name = name_any app; user = sanitize_db_name project_name; password = generate_password draws;
          db = user;
          database_url = ''postgresql://'' @ user @ '':'' @ password @ ''@'' @ project_name @ ''-postgresql:5432/'' @ db
      in Inr \<lparr>se_metadata = owned_meta (project_name @ ''-db-credentials'') namespace labels owner_ref,
              se_data = None,
              se_string_data = Some [(''DATABASE_URL'', database_url), (''POSTGRES_DB'', db),
                (''POSTGRES_PASSWORD'', password), (''POSTGRES_USER'', user), (''password'', password),
                (''username'', user)],
              se_immutable = None, se_type = Some ''Opaque''\<rparr>)))"

definition postgresql_container :: "string \<Rightarrow> container" where
  "postgresql_container project_name =
     container_default\<lparr>ct_name := ''postgresql'', ct_image := ''postgres:16-alpine'',
       ct_ports := Some [\<lparr>cp_container_port = 5432, cp_name = Some ''postgresql''\<rparr>],
       ct_env_from := Some [\<lparr>ef_secret = project_name @ ''-db-credentials'', ef_optional = None\<rparr>],
       ct_volume_mounts := Some [volume_mount_default\<lparr>vm_name := ''data'', vm_mount_path := ''/var/lib/postgresql/data''\<rparr>]\<rparr>"

definition build_db_statefulset :: "project \<Rightarrow> operator_error + stateful_set" where
  "build_db_statefulset app =
     (let labels = standard_labels app CompDatabase in
      result_bind (require_namespace app) (\<lambda>namespace.
      result_bind (owner_reference_of app) (\<lambda>owner_ref.
      let sts_name = name_any app @ ''-postgresql'' in
        Inr \<lparr>ss_metadata = owned_meta sts_name namespace labels owner_ref, ss_replicas = Some 1,
             ss_service_name = Some sts_name, ss_selector = Some (selector_labels app CompDatabase),
             ss_template = \<lparr>pt_metadata = Some (object_meta_default\<lparr>om_labels := Some labels\<rparr>),
               pt_spec = Some (pod_spec_default\<lparr>pod_containers := [postgresql_container (name_any app)]\<rparr>)\<rparr>,
             ss_claim_templates = Some [\<lparr>pvc_metadata = object_meta_default\<lparr>om_name := Some ''data''\<rparr>,
               pvc_access_modes = Some [''ReadWriteOnce''], pvc_requests = Some [''storage'' \<mapsto> ''1Gi'']\<rparr>]\<rparr>)))"

definition build_db_service :: "project \<Rightarrow> operator_error + service" where
  "build_db_service app =
     (let labels = standard_labels app CompDatabase in
      result_bind (require_namespace app) (\<lambda>namespace.
      result_bind (owner_reference_of app) (\<lambda>owner_ref.
        Inr \<lparr>svo_metadata = owned_meta (name_any app @ ''-postgresql'') namespace labels owner_ref,
             svo_type = Some ''ClusterIP'', svo_cluster_ip = None, svo_selector = Some (selector_labels app CompDatabase),
             svo_ports = Some [\<lparr>sp_name = Some ''postgresql'', sp_port = 5432, sp_target_port = Some 5432,
               sp_app_protocol = None\<rparr>]\<rparr>)))"

section \<open>Engines and identifiers\<close>

definition AWS_DATABASE_INSTANCE_CLASSES :: "string list" where
  "AWS_DATABASE_INSTANCE_CLASSES = [''db.t3.micro'', ''db.t3.small'', ''db.t3.medium'', ''db.t3.large'', ''db.r5.large'']"

definition GCP_DATABASE_INSTANCE_CLASSES :: "string list" where
  "GCP_DATABASE_INSTANCE_CLASSES = [''db-f1-micro'', ''db-g1-small'', ''db-custom-1-3840'', ''db-custom-2-8192'']"

fun engine_to_string :: "database_engine \<Rightarrow> string option" where
  "engine_to_string Postgresql = Some ''postgres''"
| "engine_to_string Mysql = Some ''mysql''"
| "engine_to_string Sqlite = None"

fun default_engine_version :: "database_engine \<Rightarrow> string" where
  "default_engine_version Postgresql = ''16''"
| "default_engine_version Mysql = ''8.0''"
| "default_engine_version Sqlite = []"

fun max_identifier_len :: "database_engine \<Rightarrow> nat" where
  "max_identifier_len Mysql = 32"
| "max_identifier_len Postgresql = 63"
| "max_identifier_len Sqlite = 63"

text \<open>One character of the result for each character of the name: its leading byte, if that is ASCII.\<close>

definition sanitize_identifier :: "string \<Rightarrow> database_engine \<Rightarrow> string" where
  "sanitize_identifier n engine =
     (let sanitized = map (\<lambda>c. if is_ascii_alphanumeric c then c else CHR ''_'') (utf8_leads n);
          sanitized = (case sanitized of
              [] \<Rightarrow> ''app_'' @ sanitized
            | c # _ \<Rightarrow> if is_ascii_alphabetic c then sanitized else ''app_'' @ sanitized)
      in take (max_identifier_len engine) sanitized)"

definition engine_to_gcp_version :: "database_engine \<Rightarrow> string option \<Rightarrow> string option" where
  "engine_to_gcp_version engine version =
     (case engine of
        Sqlite \<Rightarrow> None
      | Postgresql \<Rightarrow> Some (case version of Some v \<Rightarrow> ''POSTGRES_'' @ str_replace ''.'' ''_'' v | None \<Rightarrow> ''POSTGRES_16'')
      | Mysql \<Rightarrow> Some (case version of Some v \<Rightarrow> ''MYSQL_'' @ str_replace ''.'' ''_'' v | None \<Rightarrow> ''MYSQL_8_0''))"

fun show_platform :: "platform \<Rightarrow> string" where
  "show_platform Aws = ''Aws''"
| "show_platform Gcp = ''Gcp''"
| "show_platform Onpremise = ''Onpremise''"

definition validate_database_for_platform :: "database_spec \<Rightarrow> platform_config \<Rightarrow> operator_error + unit" where
  "validate_database_for_platform db platform =
     (case validate_database db of
        Inl e \<Rightarrow> Inl (DatabaseProvisioning e)
      | Inr _ \<Rightarrow>
          (case db_instance_class db of
             None \<Rightarrow> Inr ()
           | Some instance_class \<Rightarrow>
               (let check = (\<lambda>allowed.
                  if instance_class \<in> set allowed then Inr ()
                  else Inl (DatabaseProvisioning (''database.instance_class '' @ [CHR 0x27] @ instance_class @ [CHR 0x27] @ '' is not allowed for ''
                    @ show_platform (pc_platform platform) @ ''; allowed values: '' @ join '', '' allowed)))
                in case pc_platform platform of
                     Aws \<Rightarrow> check AWS_DATABASE_INSTANCE_CLASSES
                   | Gcp \<Rightarrow> check GCP_DATABASE_INSTANCE_CLASSES
                   | Onpremise \<Rightarrow> Inl (DatabaseProvisioning
                       ''database.instance_class is not supported for onpremise databases''))))"

section \<open>The resources of an explicit database\<close>

datatype database_resource =
    DbStatefulSet stateful_set
  | DbPvc persistent_volume_claim
  | DbService service
  | DbConfigMap config_map
  | DbSecret secret
  | DbDynamic dynamic_object

definition standard_db_labels :: "string \<Rightarrow> label_map" where
  "standard_db_labels project_name =
     [''app.kubernetes.io/name'' \<mapsto> project_name, ''app.kubernetes.io/managed-by'' \<mapsto> ''reinhardt-cloud-operator'',
      ''app.kubernetes.io/component'' \<mapsto> ''database'']"

definition db_selector_labels :: "string \<Rightarrow> label_map" where
  "db_selector_labels project_name =
     [''app.kubernetes.io/name'' \<mapsto> project_name, ''app.kubernetes.io/component'' \<mapsto> ''database'']"

definition legacy_stateful_set_selector_labels :: "string \<Rightarrow> label_map" where
  "legacy_stateful_set_selector_labels project_name = [''app.kubernetes.io/name'' \<mapsto> project_name]"

definition db_meta :: "string \<Rightarrow> string \<Rightarrow> string \<Rightarrow> object_meta" where
  "db_meta n namespace project_name =
     object_meta_default\<lparr>om_name := Some n, om_namespace := Some namespace, om_labels := Some (standard_db_labels project_name)\<rparr>"

definition postgres_container :: "string \<Rightarrow> string \<Rightarrow> container" where
  "postgres_container project_name version_tag =
     container_default\<lparr>ct_name := ''postgres'', ct_image := ''postgres:'' @ version_tag,
       ct_ports := Some [\<lparr>cp_container_port = 5432, cp_name = Some ''postgres''\<rparr>],
       ct_volume_mounts := Some [volume_mount_default\<lparr>vm_name := ''data'', vm_mount_path := ''/var/lib/postgresql/data''\<rparr>],
       ct_env_from := Some [\<lparr>ef_secret = project_name @ ''-db-credentials'', ef_optional = None\<rparr>]\<rparr>"

definition onprem_stateful_set :: "string \<Rightarrow> string \<Rightarrow> string \<Rightarrow> stateful_set" where
  "onprem_stateful_set project_name namespace version_tag =
     \<lparr>ss_metadata = db_meta (project_name @ ''-db'') namespace project_name, ss_replicas = Some 1,
      ss_service_name = Some (project_name @ ''-db''),
      ss_selector = Some (legacy_stateful_set_selector_labels project_name),
      ss_template = \<lparr>pt_metadata = Some (object_meta_default\<lparr>om_labels := Some (standard_db_labels project_name)\<rparr>),
        pt_spec = Some (pod_spec_default\<lparr>pod_containers := [postgres_container project_name version_tag],
          pod_volumes := Some [volume_default\<lparr>vol_name := ''data'', vol_claim := Some (project_name @ ''-db-data'')\<rparr>]\<rparr>)\<rparr>,
      ss_claim_templates = None\<rparr>"

definition onprem_claim :: "string \<Rightarrow> string \<Rightarrow> i32 \<Rightarrow> persistent_volume_claim" where
  "onprem_claim project_name namespace storage_gb =
     \<lparr>pvc_metadata = db_meta (project_name @ ''-db-data'') namespace project_name,
      pvc_access_modes = Some [''ReadWriteOnce''],
      pvc_requests = Some [''storage'' \<mapsto> show_int (sint storage_gb) @ ''Gi'']\<rparr>"

definition onprem_service :: "string \<Rightarrow> string \<Rightarrow> service" where
  "onprem_service project_name namespace =
     \<lparr>svo_metadata = db_meta (project_name @ ''-db'') namespace project_name,
      svo_type = Some ''ClusterIP'', svo_cluster_ip = Some ''None'', svo_selector = Some (db_selector_labels project_name),
      svo_ports = Some [\<lparr>sp_name = Some ''postgres'', sp_port = 5432, sp_target_port = Some 5432, sp_app_protocol = None\<rparr>]\<rparr>"

definition init_sql :: "string \<Rightarrow> string \<Rightarrow> string \<Rightarrow> string" where
  "init_sql db_name db_user db_password =
     ''CREATE DATABASE '' @ db_name @ '';'' @ [CHR 0x0A]
     @ ''CREATE USER '' @ db_user @ '' WITH PASSWORD '' @ [CHR 0x27] @ db_password @ [CHR 0x27] @ '';'' @ [CHR 0x0A]
     @ ''GRANT ALL PRIVILEGES ON DATABASE '' @ db_name @ '' TO '' @ db_user @ '';'' @ [CHR 0x0A]"

definition build_onprem_postgres ::
  "nat list \<Rightarrow> string \<Rightarrow> string \<Rightarrow> database_spec \<Rightarrow> i32 \<Rightarrow> database_resource list" where
  "build_onprem_postgres draws project_name namespace db storage_gb =
     (let sanitized_name = str_replace ''-'' ''_'' project_name;
          db_name = sanitized_name @ ''_db'';
          db_user = sanitized_name;
          db_password = generate_random_password draws
      in [DbStatefulSet (onprem_stateful_set project_name namespace (unwrap_or ''16'' (db_version db))),
          DbPvc (onprem_claim project_name namespace storage_gb),
          DbService (onprem_service project_name namespace),
          DbConfigMap \<lparr>cm_metadata = db_meta (project_name @ ''-db-init'') namespace project_name,
            cm_data = Some [(''init.sql'', init_sql db_name db_user db_password)]\<rparr>,
          DbSecret (build_db_credentials_secret project_name namespace db_user db_password db_name)])"

definition build_aws_rds ::
  "nat list \<Rightarrow> string \<Rightarrow> string \<Rightarrow> database_spec \<Rightarrow> platform_config \<Rightarrow> database_resource list" where
  "build_aws_rds draws project_name namespace db platform =
     (case engine_to_string (db_engine db) of
        None \<Rightarrow> []
      | Some engine \<Rightarrow>
          (let engine_version = unwrap_or (default_engine_version (db_engine db)) (db_version db);
               instance_class = unwrap_or (dd_instance_class (pc_database platform)) (db_instance_class db);
               allocated_storage = unwrap_or (dd_storage_gb (pc_database platform)) (db_storage_gb db);
               master_username = sanitize_identifier project_name (db_engine db);
               db_name = sanitize_identifier (project_name @ ''_db'') (db_engine db);
               password = generate_random_password draws
           in [DbDynamic \<lparr>dy_metadata = db_meta (project_name @ ''-rds'') namespace project_name,
                 dy_api_version = ''rds.services.k8s.aws/v1alpha1'', dy_kind = ''DBInstance'',
                 dy_data = JObject [(''spec'', JObject
                   [(''engine'', JString engine), (''engineVersion'', JString engine_version),
                    (''dbInstanceClass'', JString instance_class), (''allocatedStorage'', JInt (sint allocated_storage)),
                    (''masterUsername'', JString master_username),
                    (''masterUserPassword'', JObject [(''namespace'', JString namespace),
                      (''name'', JString (project_name @ ''-db-credentials'')), (''key'', JString ''password'')]),
                    (''dbName'', JString db_name)])]\<rparr>,
               DbSecret (build_db_credentials_secret project_name namespace master_username password db_name)]))"

definition cloud_sql_object :: "string \<Rightarrow> string \<Rightarrow> string \<Rightarrow> string \<Rightarrow> (string \<times> json) list \<Rightarrow> database_resource" where
  "cloud_sql_object project_name namespace suffix kind spec =
     DbDynamic \<lparr>dy_metadata = db_meta (project_name @ suffix) namespace project_name,
       dy_api_version = ''sql.cnrm.cloud.google.com/v1beta1'', dy_kind = kind,
       dy_data = JObject [(''spec'', JObject spec)]\<rparr>"

definition build_gcp_cloud_sql ::
  "nat list \<Rightarrow> string \<Rightarrow> string \<Rightarrow> database_spec \<Rightarrow> i32 \<Rightarrow> platform_config \<Rightarrow> database_resource list" where
  "build_gcp_cloud_sql draws project_name namespace db storage_gb platform =
     (case engine_to_gcp_version (db_engine db) (db_version db) of
        None \<Rightarrow> []
      | Some database_version \<Rightarrow>
          (let tier = unwrap_or ''db-f1-micro'' (db_instance_class db);
               region = dd_region (pc_database platform);
               db_name = sanitize_identifier (project_name @ ''_db'') (db_engine db);
               instance_ref = (''instanceRef'', JObject [(''name'', JString (project_name @ ''-sql-instance''))]);
               sanitized_user = sanitize_identifier project_name (db_engine db);
               password = generate_random_password draws
           in [cloud_sql_object project_name namespace ''-sql-instance'' ''SQLInstance''
                 [(''databaseVersion'', JString database_version), (''region'', JString region),
                  (''settings'', JObject [(''tier'', JString tier), (''dataDiskSizeGb'', JInt (sint storage_gb)),
                    (''ipConfiguration'', JObject [(''ipv4Enabled'', JBool False)])])],
               cloud_sql_object project_name namespace ''-sql-database'' ''SQLDatabase''
                 [instance_ref, (''charset'', JString ''UTF8''), (''collation'', JString ''en_US.UTF8'')],
               cloud_sql_object project_name namespace ''-sql-user'' ''SQLUser''
                 [instance_ref, (''password'', JObject [(''valueFrom'', JObject [(''secretKeyRef'', JObject
                    [(''name'', JString (project_name @ ''-db-credentials'')), (''key'', JString ''password'')])])])],
               DbSecret (build_db_credentials_secret project_name namespace sanitized_user password db_name)]))"

definition infer_database_resources ::
  "nat list \<Rightarrow> project \<Rightarrow> platform_config \<Rightarrow> operator_error + database_resource list" where
  "infer_database_resources draws app platform =
     (case ps_database (pj_spec app) of
        None \<Rightarrow> Inr []
      | Some db \<Rightarrow>
          result_bind (validate_database_for_platform db platform) (\<lambda>_.
            case app_namespace app of
              None \<Rightarrow> Inr []
            | Some namespace \<Rightarrow>
                (let project_name = name_any app;
                     storage_gb = unwrap_or (dd_storage_gb (pc_database platform)) (db_storage_gb db)
                 in Inr (case pc_platform platform of
                      Onpremise \<Rightarrow> build_onprem_postgres draws project_name namespace db storage_gb
                    | Aws \<Rightarrow> build_aws_rds draws project_name namespace db platform
                    | Gcp \<Rightarrow> build_gcp_cloud_sql draws project_name namespace db storage_gb platform))))"

section \<open>Migrations\<close>

definition MIGRATION_REVISION_LABEL :: string where
  "MIGRATION_REVISION_LABEL = ''paas.reinhardt-cloud.dev/migration-revision''"

definition MIGRATION_REVISION_KEY_ANNOTATION :: string where
  "MIGRATION_REVISION_KEY_ANNOTATION = ''paas.reinhardt-cloud.dev/migration-revision-key''"

definition JOB_NAME_MAX_LEN :: nat where "JOB_NAME_MAX_LEN = 63"

definition REVISION_ID_HEX_LEN :: nat where "REVISION_ID_HEX_LEN = 16"

definition migration_revision_key :: "project \<Rightarrow> string" where
  "migration_revision_key app =
     (let app_version = unwrap_or ''unknown''
            (non_empty (map_option (\<lambda>i. trim (am_version (io_app i))) (ps_introspect (pj_spec app))))
      in ''image='' @ ps_image (pj_spec app) @ '';version='' @ app_version)"

definition migration_revision_id :: "string \<Rightarrow> string" where
  "migration_revision_id revision_key =
     hex_digits REVISION_ID_HEX_LEN (unat (foldl fnv_step 0xcbf29ce484222325 revision_key))"

definition migration_job_name :: "project \<Rightarrow> string \<Rightarrow> string" where
  "migration_job_name app revision_key =
     (let suffix = ''-migrate-'' @ migration_revision_id revision_key;
          max_prefix_len = JOB_NAME_MAX_LEN - length suffix;
          prefix = trim_matches (CHR ''-'') (take_chars max_prefix_len (name_any app));
          prefix = (if prefix = [] then ''project'' else prefix)
      in prefix @ suffix)"

definition default_resources :: "platform_config \<Rightarrow> resource_requirements" where
  "default_resources platform =
     \<lparr>rr_requests = Some [''cpu'' \<mapsto> rd_cpu_request (pc_resources platform),
        ''memory'' \<mapsto> rd_memory_request (pc_resources platform)],
      rr_limits = Some [''cpu'' \<mapsto> rd_cpu_limit (pc_resources platform),
        ''memory'' \<mapsto> rd_memory_limit (pc_resources platform)]\<rparr>"

definition migrate_container :: "project \<Rightarrow> platform_config \<Rightarrow> volume_mount list \<Rightarrow> container" where
  "migrate_container app platform plugin_mounts =
     container_default\<lparr>ct_name := ''migrate'', ct_image := ps_image (pj_spec app),
       ct_command := Some [''manage'', ''migrate''], ct_env := Some (build_application_env_vars app),
       ct_volume_mounts := Some plugin_mounts, ct_resources := Some (default_resources platform),
       ct_security_context := if isolated app then Some build_container_security_context else None\<rparr>"

definition build_migration_job :: "project \<Rightarrow> platform_config \<Rightarrow> string \<Rightarrow> operator_error + job" where
  "build_migration_job app platform revision_key =
     result_bind (require_namespace app) (\<lambda>namespace.
     let labels = (standard_labels app CompMigration)(MIGRATION_REVISION_LABEL \<mapsto> migration_revision_id revision_key) in
     result_bind (owner_reference_of app) (\<lambda>owner_ref.
     let job_name = migration_job_name app revision_key;
         annotations = [MIGRATION_REVISION_KEY_ANNOTATION \<mapsto> revision_key] in
     result_bind (build_plugin_volumes app) (\<lambda>(plugin_volumes, plugin_mounts).
     result_bind (validated_image_pull_secrets app) (\<lambda>pull_secrets.
       Inr \<lparr>jb_metadata = (owned_meta job_name namespace labels owner_ref)\<lparr>om_annotations := Some annotations\<rparr>,
            jb_spec = Some \<lparr>jsp_backoff_limit = Some 3,
              jsp_template = \<lparr>pt_metadata = Some (object_meta_default\<lparr>om_labels := Some labels\<rparr>),
                pt_spec = Some (pod_spec_default\<lparr>pod_restart_policy := Some ''Never'',
                  pod_runtime_class_name := resolve_runtime_class_name app (pc_platform platform),
                  pod_security_context := if isolated app then Some build_pod_security_context else None,
                  pod_containers := [migrate_container app platform plugin_mounts],
                  pod_volumes := Some plugin_volumes, pod_image_pull_secrets := pull_secrets,
                  pod_service_account_name := resolved_sa_name app\<rparr>)\<rparr>\<rparr>,
            jb_status = None\<rparr>))))"

section \<open>Names\<close>

definition sql_char :: "char \<Rightarrow> bool" where
  "sql_char c \<longleftrightarrow> is_ascii_alphanumeric c \<or> c = CHR ''_''"

lemma sql_char_sanitized: "list_all sql_char (map (\<lambda>c. if is_ascii_alphanumeric c then c else CHR ''_'') s)"
  by (induction s) (simp_all add: sql_char_def)

lemma list_all_take: "list_all p xs \<Longrightarrow> list_all p (take n xs)"
  by (auto simp: list_all_iff dest: in_set_takeD)

lemma take_Cons_pos: "0 < n \<Longrightarrow> take n (x # xs) = x # take (n - 1) xs"
  by (cases n) simp_all

text \<open>
  The identifiers the operator hands to a database engine: for AWS and GCP one begins with a letter, has
  only letters, digits and underscores, and is no longer than the engine allows (32 bytes for MySQL,
  63 otherwise); for the PostgreSQL of an introspected project the name has the same characters, does
  not begin with a digit, and has at most 63 bytes.
\<close>
theorem database_identifiers_valid:
  "(\<exists>c cs. sanitize_identifier n engine = c # cs \<and> is_ascii_alphabetic c \<and> list_all sql_char cs)
    \<and> length (sanitize_identifier n engine) \<le> (if engine = Mysql then 32 else 63)
    \<and> list_all sql_char (sanitize_db_name n) \<and> length (sanitize_db_name n) \<le> 63
    \<and> (case sanitize_db_name n of [] \<Rightarrow> True | c # _ \<Rightarrow> \<not> is_ascii_digit c)"
proof -
  let ?s = "map (\<lambda>c. if is_ascii_alphanumeric c then c else CHR ''_'') (utf8_leads n)"
  define s where "s = (case ?s of [] \<Rightarrow> ''app_'' @ ?s | c # _ \<Rightarrow> if is_ascii_alphabetic c then ?s else ''app_'' @ ?s)"
  have l: "0 < max_identifier_len engine" "max_identifier_len engine = (if engine = Mysql then 32 else 63)"
    by (cases engine; simp)+
  have app: "list_all sql_char ''app_''" "is_ascii_alphabetic CHR ''a''" by (simp_all add: sql_char_def str_simps)
  have "\<exists>c cs. s = c # cs \<and> is_ascii_alphabetic c \<and> list_all sql_char cs"
  proof (cases "?s")
    case Nil
    with app show ?thesis unfolding s_def by simp
  next
    case (Cons c cs)
    then have "list_all sql_char (c # cs)" using sql_char_sanitized [of "utf8_leads n"] by metis
    with app show ?thesis unfolding s_def Cons by (cases "is_ascii_alphabetic c") auto
  qed
  then obtain c cs where s: "s = c # cs" "is_ascii_alphabetic c" "list_all sql_char cs" by blast
  have e: "sanitize_identifier n engine = take (max_identifier_len engine) s"
    by (simp add: sanitize_identifier_def s_def Let_def)
  have first: "sanitize_identifier n engine = c # take (max_identifier_len engine - 1) cs"
    unfolding e s(1) by (rule take_Cons_pos [OF l(1)])
  have ident: "\<exists>c cs. sanitize_identifier n engine = c # cs \<and> is_ascii_alphabetic c \<and> list_all sql_char cs"
    by (rule exI [of _ c], rule exI [of _ "take (max_identifier_len engine - 1) cs"])
      (simp only: first s(2) list_all_take [OF s(3)])
  have len: "length (sanitize_identifier n engine) \<le> (if engine = Mysql then 32 else 63)"
    unfolding e using l(2) by simp
  let ?f = "filter (\<lambda>c. is_ascii_alphanumeric c \<or> c = CHR ''_'') (str_replace ''-'' ''_'' n)"
  define f where "f = (case ?f of [] \<Rightarrow> [] | c # _ \<Rightarrow> if is_ascii_digit c then CHR ''_'' # ?f else ?f)"
  have f: "sanitize_db_name n = take 63 f" by (simp add: sanitize_db_name_def f_def Let_def)
  have all: "list_all sql_char ?f" by (simp add: list_all_iff sql_char_def)
  have "\<not> is_ascii_digit CHR ''_''" by (simp add: str_simps)
  with all have fp: "list_all sql_char f \<and> (case f of [] \<Rightarrow> True | c # _ \<Rightarrow> \<not> is_ascii_digit c)"
    unfolding f_def by (cases ?f) (auto simp: sql_char_def)
  then have "case take 63 f of [] \<Rightarrow> True | c # _ \<Rightarrow> \<not> is_ascii_digit c" by (cases f) simp_all
  with ident len fp show ?thesis unfolding f by (simp add: list_all_take)
qed

lemma take_chars_dns: "list_all dns_char s \<Longrightarrow> take_chars n s = take n s"
  by (induction s arbitrary: n) (auto simp: dns_char_not_continuation split: nat.splits)

lemma length_take_chars: "list_all dns_char s \<Longrightarrow> length (take_chars n s) \<le> n"
  by (simp add: take_chars_dns)

lemma length_migration_revision_id [simp]: "length (migration_revision_id key) = 16"
  by (simp add: migration_revision_id_def REVISION_ID_HEX_LEN_def)

definition migration_prefix :: "string \<Rightarrow> string" where
  "migration_prefix n =
     (let prefix = trim_matches (CHR ''-'') (take 38 n) in if prefix = [] then ''project'' else prefix)"

lemma migration_job_name_dns:
  "list_all dns_char (name_any app) \<Longrightarrow>
     migration_job_name app key = migration_prefix (name_any app) @ ''-migrate-'' @ migration_revision_id key"
  by (simp add: migration_job_name_def migration_prefix_def JOB_NAME_MAX_LEN_def take_chars_dns Let_def)


lemma hd_trim_matches: "trim_matches c s \<noteq> [] \<Longrightarrow> hd (trim_matches c s) \<noteq> c"
proof -
  assume n: "trim_matches c s \<noteq> []"
  let ?t = "trim_start_matches c s"
  obtain r where r: "?t = trim_end_matches c ?t @ r" using trim_end_matches_prefix by blast
  from n have m: "trim_end_matches c ?t \<noteq> []" by (simp add: trim_matches_def)
  then have "hd ?t = hd (trim_end_matches c ?t)" by (subst r) simp
  moreover have "?t \<noteq> []" using r m by auto
  ultimately show ?thesis using hd_trim_start_matches unfolding trim_matches_def by metis
qed

lemma length_trim_matches: "length (trim_matches c s) \<le> length s"
  unfolding trim_matches_def trim_start_matches_def
  by (meson length_dropWhile_le length_trim_end_matches order_trans)

lemma migration_prefix_dns:
  assumes "list_all dns_char n"
  shows "list_all dns_char (migration_prefix n) \<and> migration_prefix n \<noteq> []
    \<and> is_dns_1123_alphanumeric (hd (migration_prefix n)) \<and> length (migration_prefix n) \<le> 38"
proof -
  let ?t = "trim_matches (CHR ''-'') (take 38 n)"
  have "list_all dns_char ?t"
    using list_all_take [OF assms, of 38] set_trim_matches [of "CHR ''-''" "take 38 n"]
    unfolding list_all_iff by blast
  moreover from this have "?t \<noteq> [] \<Longrightarrow> is_dns_1123_alphanumeric (hd ?t)"
    using hd_trim_matches [of "CHR ''-''" "take 38 n"] by (cases ?t) (auto simp: dns_char_def)
  moreover have "length ?t \<le> 38" using length_trim_matches [of "CHR ''-''" "take 38 n"] by simp
  ultimately show ?thesis
    by (simp add: migration_prefix_def Let_def dns_char_def is_dns_1123_alphanumeric_def str_simps)
qed

lemma migration_revision_id_dns: "list_all is_dns_1123_alphanumeric (migration_revision_id key)"
  using hex_digits_hex hex_lower_dns by (auto simp: migration_revision_id_def list_all_iff)

text \<open>
  The migration job of a project whose name is a DNS label has a name that is a DNS label, hence at most 63
  bytes; for one project the name is determined by the revision and determines the hash of the
  revision, and two projects get the same job name exactly when the first 38 bytes of their names,
  less the dashes at either end, and the hashes of their revisions agree.
\<close>
theorem migration_job_name_label:
  assumes "list_all dns_char (name_any app)" and "list_all dns_char (name_any other)"
  shows "dns_label (migration_job_name app key)
    \<and> (migration_job_name app key = migration_job_name other key'
         \<longleftrightarrow> migration_prefix (name_any app) = migration_prefix (name_any other)
           \<and> migration_revision_id key = migration_revision_id key')"
proof -
  let ?i = "migration_revision_id key"
  from migration_prefix_dns [OF assms(1)] obtain c cs where
    p: "migration_prefix (name_any app) = c # cs" "list_all dns_char (c # cs)" "is_dns_1123_alphanumeric c" "length (c # cs) \<le> 38"
    by (cases "migration_prefix (name_any app)") auto
  have i: "list_all is_dns_1123_alphanumeric ?i" by (rule migration_revision_id_dns)
  have ne: "?i \<noteq> []" using length_migration_revision_id [of key] by (metis list.size(3) zero_neq_numeral)
  with i have last: "is_dns_1123_alphanumeric (last ?i)" by (simp add: list_all_iff)
  have all: "list_all dns_char ?i" using i by (auto simp: list_all_iff dns_char_def)
  have "list_all dns_char ''-migrate-''" by (simp add: dns_char_def is_dns_1123_alphanumeric_def str_simps)
  with p all ne last have "dns_label ((c # cs) @ ''-migrate-'' @ ?i)"
    by (simp add: dns_label_def)
  moreover have "migration_job_name app key = migration_job_name other key'
      \<longleftrightarrow> migration_prefix (name_any app) = migration_prefix (name_any other) \<and> ?i = migration_revision_id key'"
    unfolding migration_job_name_dns [OF assms(1)] migration_job_name_dns [OF assms(2)]
    unfolding append_assoc [symmetric] by (subst append_eq_append_conv) auto
  ultimately show ?thesis unfolding migration_job_name_dns [OF assms(1)] p(1) by simp
qed

lemma sample_name [simp]: "name_any sample_project = ''shop''"
  by (simp add: sample_project_def name_any_def)

lemma dns_chars_shop: "list_all dns_char ''shop''"
  by (simp add: dns_char_def is_dns_1123_alphanumeric_def str_simps)

theorem migration_job_name_label_witness: "dns_label (migration_job_name sample_project ''image=shop:1'')"
  using migration_job_name_label [of sample_project sample_project] dns_chars_shop by simp


section \<open>What the resources agree on\<close>

lemma injected_env_mem:
  "x \<in> set (auto_env_vars app) \<Longrightarrow> ev_name x \<notin> user_names app \<Longrightarrow> x \<in> set (build_application_env_vars app)"
  unfolding application_env_eq by simp

text \<open>The variables of the database when the user sets none of them.\<close>

definition db_env_default :: "string \<Rightarrow> string \<Rightarrow> k8s_env_var list" where
  "db_env_default project_name host =
     (let sanitized_name = str_replace ''-'' ''_'' project_name in
      [literal_env_var ''REINHARDT_DATABASE_HOST'' host, literal_env_var ''REINHARDT_DATABASE_PORT'' ''5432'',
       literal_env_var ''REINHARDT_DATABASE_NAME'' (sanitized_name @ ''_db''),
       literal_env_var ''REINHARDT_DATABASE_USER'' sanitized_name,
       secret_env_var ''REINHARDT_DATABASE_PASSWORD'' (project_name @ ''-db-credentials'') ''password''])"

lemma show_5432: "show_nat 5432 = ''5432''"
  by (simp add: show_nat.simps digit_char_def char_of_eq_iff)

lemma db_env_default_injected:
  assumes "needs_db_env app" and "user_names app \<inter> set db_env_names = {}"
    and "host = (if ps_database (pj_spec app) \<noteq> None then name_any app @ ''-db'' else name_any app @ ''-postgresql'')"
  shows "set (db_env_default (name_any app) host) \<subseteq> set (build_application_env_vars app)"
proof
  fix x assume x: "x \<in> set (db_env_default (name_any app) host)"
  have n: "map_of (ps_env (pj_spec app)) k = None" if "k \<in> set db_env_names" for k
    unfolding map_of_eq_None_iff using that assms(2) by blast
  note none = n [of "''REINHARDT_DATABASE_HOST''"] n [of "''REINHARDT_DATABASE_NAME''"]
    n [of "''REINHARDT_DATABASE_USER''"] n [of "''REINHARDT_DATABASE_PORT''"]
  have "non_empty None = None" by (simp add: non_empty_def)
  then have "set (db_env_default (name_any app) host)
      \<subseteq> set (build_database_env_vars_from_secret app host (ps_env (pj_spec app)))"
    using none by (simp add: build_database_env_vars_from_secret_def db_env_default_def Let_def db_env_names_def show_5432)
  with x have "x \<in> set (build_database_env_vars_from_secret app host (ps_env (pj_spec app)))" by blast
  then have "x \<in> set (auto_env_vars app)" using assms(1,3) by (simp add: auto_env_vars_def Let_def)
  moreover have "ev_name x \<in> set db_env_names" using x by (auto simp: db_env_default_def Let_def db_env_names_def)
  with assms(2) have "ev_name x \<notin> user_names app" by blast
  ultimately show "x \<in> set (build_application_env_vars app)" by (rule injected_env_mem)
qed

definition stateful_pod :: "stateful_set \<Rightarrow> pod_spec" where
  "stateful_pod ss = unwrap_or pod_spec_default (pt_spec (ss_template ss))"

definition stateful_pod_labels :: "stateful_set \<Rightarrow> label_map" where
  "stateful_pod_labels ss = unwrap_or Map.empty (Option.bind (pt_metadata (ss_template ss)) om_labels)"

text \<open>A service leads to the pods of a stateful set, which are governed by that service and whose data volume is claimed.\<close>

definition database_wired :: "stateful_set \<Rightarrow> service \<Rightarrow> bool" where
  "database_wired ss svc \<longleftrightarrow>
     om_name (svo_metadata svc) = ss_service_name ss \<and> om_namespace (svo_metadata svc) = om_namespace (ss_metadata ss)
     \<and> selects (svo_selector svc) (stateful_pod_labels ss) \<and> selects (ss_selector ss) (stateful_pod_labels ss)
     \<and> (\<forall>p \<in> set (unwrap_or [] (svo_ports svc)). \<exists>t \<in> served_ports (stateful_pod ss). sp_target_port p = Some t)
     \<and> (\<forall>c \<in> set (all_containers (stateful_pod ss)). \<forall>m \<in> set (unwrap_or [] (ct_volume_mounts c)).
          vm_name m \<in> set (volume_names (stateful_pod ss))
            \<union> {n. \<exists>pvc \<in> set (unwrap_or [] (ss_claim_templates ss)). om_name (pvc_metadata pvc) = Some n})"

text \<open>
  C38. An explicit on-premise database, when the user overrides none of its variables: the environment of every
  workload names the service that leads to the database pods, its port, the user and the database that
  the credentials create, and reads the password from the secret the database container is configured
  from; the claim the pod mounts is the claim that is created, with the requested storage.
\<close>
theorem onprem_database_agrees:
  assumes "infer_database_resources draws app platform = Inr rs" and "ps_database (pj_spec app) = Some db"
    and "app_namespace app = Some ns" and "pc_platform platform = Onpremise"
    and "user_names app \<inter> set db_env_names = {}"
  shows "\<exists>ss svc pvc sec host user database.
    {DbStatefulSet ss, DbService svc, DbPvc pvc, DbSecret sec} \<subseteq> set rs
    \<and> database_wired ss svc \<and> om_name (svo_metadata svc) = Some host
    \<and> (\<exists>p \<in> set (unwrap_or [] (svo_ports svc)). sp_port p = 5432)
    \<and> map_of (unwrap_or [] (se_data sec)) ''POSTGRES_USER'' = Some user
    \<and> map_of (unwrap_or [] (se_data sec)) ''POSTGRES_DB'' = Some database
    \<and> map_of (unwrap_or [] (se_data sec)) ''password'' = map_of (unwrap_or [] (se_data sec)) ''POSTGRES_PASSWORD''
    \<and> pod_secrets (stateful_pod ss) = {name_any app @ ''-db-credentials''}
    \<and> om_name (se_metadata sec) = Some (name_any app @ ''-db-credentials'')
    \<and> {literal_env_var ''REINHARDT_DATABASE_HOST'' host, literal_env_var ''REINHARDT_DATABASE_PORT'' ''5432'',
       literal_env_var ''REINHARDT_DATABASE_USER'' user, literal_env_var ''REINHARDT_DATABASE_NAME'' database,
       secret_env_var ''REINHARDT_DATABASE_PASSWORD'' (name_any app @ ''-db-credentials'') ''password''}
      \<subseteq> set (build_application_env_vars app)
    \<and> (\<exists>v \<in> set (unwrap_or [] (pod_volumes (stateful_pod ss))). vol_claim v = om_name (pvc_metadata pvc))
    \<and> pvc_requests pvc = Some [''storage'' \<mapsto>
         show_int (sint (unwrap_or (dd_storage_gb (pc_database platform)) (db_storage_gb db))) @ ''Gi'']"
proof -
  let ?n = "name_any app"
  let ?s = "str_replace ''-'' ''_'' ?n"
  let ?gb = "unwrap_or (dd_storage_gb (pc_database platform)) (db_storage_gb db)"
  let ?pw = "generate_random_password draws"
  let ?ss = "onprem_stateful_set ?n ns (unwrap_or ''16'' (db_version db))"
  have rs: "rs = build_onprem_postgres draws ?n ns db ?gb"
    using assms by (auto simp: infer_database_resources_def result_bind_Inr Let_def)
  have "needs_db_env app" using assms(2) by (simp add: needs_db_env_def)
  from db_env_default_injected [OF this assms(5) refl]
  have env: "set (db_env_default ?n (?n @ ''-db'')) \<subseteq> set (build_application_env_vars app)" using assms(2) by simp
  have wired: "database_wired ?ss (onprem_service ?n ns)"
    by (auto simp: database_wired_def onprem_stateful_set_def onprem_service_def db_meta_def stateful_pod_labels_def
        stateful_pod_def selects_def db_selector_labels_def legacy_stateful_set_selector_labels_def standard_db_labels_def
        postgres_container_def all_containers_def volume_names_def volume_default_def volume_mount_default_def
        served_ports_def split: if_splits)
  have secrets: "pod_secrets (stateful_pod ?ss) = {?n @ ''-db-credentials''}"
    by (auto simp: pod_secrets_def stateful_pod_def onprem_stateful_set_def container_secrets_def postgres_container_def
        volume_default_def)
  show ?thesis
    apply (rule exI [of _ ?ss], rule exI [of _ "onprem_service ?n ns"], rule exI [of _ "onprem_claim ?n ns ?gb"])
    apply (rule exI [of _ "build_db_credentials_secret ?n ns ?s ?pw (?s @ ''_db'')"])
    apply (rule exI [of _ "?n @ ''-db''"], rule exI [of _ ?s], rule exI [of _ "?s @ ''_db''"])
    apply (intro conjI)
    subgoal by (simp add: rs build_onprem_postgres_def Let_def)
    subgoal by (rule wired)
    subgoal by (simp add: onprem_service_def db_meta_def)
    subgoal by (simp add: onprem_service_def)
    subgoal by (simp add: build_db_credentials_secret_def)
    subgoal by (simp add: build_db_credentials_secret_def)
    subgoal by (simp add: build_db_credentials_secret_def)
    subgoal by (rule secrets)
    subgoal by (simp add: build_db_credentials_secret_def secret_meta_def)
    subgoal using env by (simp add: db_env_default_def Let_def)
    subgoal by (simp add: stateful_pod_def onprem_stateful_set_def onprem_claim_def db_meta_def volume_default_def)
    subgoal by (simp add: onprem_claim_def)
    done
qed


definition database_project :: "database_engine \<Rightarrow> project" where
  "database_project engine = sample_project\<lparr>pj_spec := (pj_spec sample_project)\<lparr>
     ps_database := Some \<lparr>db_engine = engine, db_instance_class = None, db_storage_gb = Some 20, db_version = None\<rparr>\<rparr>\<rparr>"

lemma database_project_simps [simp]:
  "name_any (database_project engine) = ''shop''" "app_namespace (database_project engine) = Some ''prod''"
  "ps_env (pj_spec (database_project engine)) = []"
  "ps_database (pj_spec (database_project engine)) = Some \<lparr>db_engine = engine, db_instance_class = None, db_storage_gb = Some 20, db_version = None\<rparr>"
  by (simp_all add: database_project_def sample_project_def name_any_def app_namespace_def project_spec_default_def)

lemma database_project_infer:
  "\<exists>rs. infer_database_resources draws (database_project engine) platform = Inr rs"
  by (simp add: infer_database_resources_def validate_database_for_platform_def validate_database_def
      MAX_DATABASE_STORAGE_GB_def Let_def)

theorem onprem_database_agrees_witness:
  "literal_env_var ''REINHARDT_DATABASE_HOST'' ''shop-db'' \<in> set (build_application_env_vars (database_project Postgresql))"
proof -
  obtain rs where rs: "infer_database_resources (replicate 24 0) (database_project Postgresql) onprem_defaults = Inr rs"
    using database_project_infer by blast
  from rs have r: "rs = build_onprem_postgres (replicate 24 0) ''shop'' ''prod''
      \<lparr>db_engine = Postgresql, db_instance_class = None, db_storage_gb = Some 20, db_version = None\<rparr> 20"
    by (auto simp: infer_database_resources_def result_bind_Inr Let_def onprem_defaults_def)
  obtain svc host where "DbService svc \<in> set rs" "om_name (svo_metadata svc) = Some host"
    "literal_env_var ''REINHARDT_DATABASE_HOST'' host \<in> set (build_application_env_vars (database_project Postgresql))"
    using onprem_database_agrees [OF rs, of _ "''prod''"] by (auto simp: onprem_defaults_def)
  moreover from this(1,2) have "host = ''shop-db''"
    by (simp add: r build_onprem_postgres_def Let_def onprem_service_def db_meta_def)
  ultimately show ?thesis by simp
qed

lemma length_sanitize_db_name: "length (sanitize_db_name n) \<le> Suc (length (str_replace ''-'' ''_'' n))"
proof -
  let ?f = "filter (\<lambda>c. is_ascii_alphanumeric c \<or> c = CHR ''_'') (str_replace ''-'' ''_'' n)"
  have "length ?f \<le> length (str_replace ''-'' ''_'' n)" by (rule length_filter_le)
  moreover have "length (sanitize_db_name n) \<le> Suc (length ?f)"
    by (auto simp: sanitize_db_name_def Let_def split: list.split)
  ultimately show ?thesis by linarith
qed

text \<open>
  C39. The PostgreSQL the operator runs for an introspected project whose user sets none of the database
  variables (a value of the user's replaces the operator's): the service leads to its pods, and the
  environment of the workloads names that service and reads the password from its secret; but the
  database the environment names is not the one the container creates, whatever the project is called.
\<close>
theorem introspected_database_misnamed:
  assumes "build_db_secret draws app = Inr sec" and "build_db_statefulset app = Inr ss" and "build_db_service app = Inr svc"
    and "ps_database (pj_spec app) = None" and "needs_db_env app" and "user_names app \<inter> set db_env_names = {}"
  shows "database_wired ss svc \<and> om_name (svo_metadata svc) = Some (name_any app @ ''-postgresql'')
    \<and> pod_secrets (stateful_pod ss) = {name_any app @ ''-db-credentials''}
    \<and> om_name (se_metadata sec) = Some (name_any app @ ''-db-credentials'')
    \<and> literal_env_var ''REINHARDT_DATABASE_HOST'' (name_any app @ ''-postgresql'') \<in> set (build_application_env_vars app)
    \<and> secret_env_var ''REINHARDT_DATABASE_PASSWORD'' (name_any app @ ''-db-credentials'') ''password''
        \<in> set (build_application_env_vars app)
    \<and> (\<exists>database. literal_env_var ''REINHARDT_DATABASE_NAME'' database \<in> set (build_application_env_vars app)
         \<and> map_of (unwrap_or [] (se_string_data sec)) ''POSTGRES_DB'' \<noteq> Some database)"
proof -
  let ?n = "name_any app"
  obtain ns owner_ref where o: "require_namespace app = Inr ns" "owner_reference_of app = Inr owner_ref"
    using assms(3) by (auto simp: build_db_service_def result_bind_Inr Let_def)
  have wired: "database_wired ss svc"
    using assms(2,3) selects_iff [of app CompDatabase app CompDatabase]
    by (auto simp: build_db_statefulset_def build_db_service_def result_bind_Inr o Let_def database_wired_def owned_meta_def
        stateful_pod_def stateful_pod_labels_def served_ports_def postgresql_container_def all_containers_def
        volume_mount_default_def)
  have secrets: "pod_secrets (stateful_pod ss) = {?n @ ''-db-credentials''}"
    using assms(2) by (auto simp: build_db_statefulset_def result_bind_Inr o Let_def pod_secrets_def stateful_pod_def
        container_secrets_def postgresql_container_def)
  have env: "set (db_env_default ?n (?n @ ''-postgresql'')) \<subseteq> set (build_application_env_vars app)"
    using db_env_default_injected [OF assms(5,6) refl] assms(4) by simp
  have "sanitize_db_name ?n \<noteq> str_replace ''-'' ''_'' ?n @ ''_db''"
    using length_sanitize_db_name [of ?n] by (metis Suc_n_not_le_n length_append list.size(3,4) add_Suc_right
        add.right_neutral le_SucI not_less_eq_eq)
  then have "map_of (unwrap_or [] (se_string_data sec)) ''POSTGRES_DB'' \<noteq> Some (str_replace ''-'' ''_'' ?n @ ''_db'')"
    using assms(1) by (auto simp: build_db_secret_def result_bind_Inr Let_def)
  moreover have "om_name (se_metadata sec) = Some (?n @ ''-db-credentials'')"
    "om_name (svo_metadata svc) = Some (?n @ ''-postgresql'')"
    using assms(1,3) by (auto simp: build_db_secret_def build_db_service_def result_bind_Inr Let_def owned_meta_def)
  ultimately show ?thesis using wired secrets env by (auto simp: db_env_default_def Let_def)
qed

definition introspected_project :: project where
  "introspected_project = sample_project\<lparr>pj_spec := (pj_spec sample_project)\<lparr>
     ps_introspect := Some \<lparr>io_app = \<lparr>am_name = ''shop'', am_version = ''1.0''\<rparr>, io_databases = [], io_routes = [],
       io_middleware = [],
       io_settings = \<lparr>set_server = server_settings_default,
         set_security = \<lparr>sec_ssl_redirect = False, sec_session_cookie_secure = False, sec_csrf_cookie_secure = False,
           sec_hsts_enabled = False\<rparr>\<rparr>,
       io_features = \<lparr>fm_declared = [], fm_resolved = [],
         fm_infrastructure_signals = infra_signals_default\<lparr>sig_database := Some ''postgres''\<rparr>\<rparr>\<rparr>\<rparr>\<rparr>"

lemma introspected_project_simps [simp]:
  "name_any introspected_project = ''shop''" "require_namespace introspected_project = Inr ''prod''"
  "\<exists>r. owner_reference_of introspected_project = Inr r"
  "ps_env (pj_spec introspected_project) = []" "ps_database (pj_spec introspected_project) = None"
  "needs_db_env introspected_project"
  by (simp_all add: introspected_project_def sample_project_def name_any_def require_namespace_def app_namespace_def
      owner_reference_of_def project_spec_default_def needs_db_env_def requires_postgresql_def infra_signals_default_def)

theorem introspected_database_misnamed_witness:
  "\<exists>sec. build_db_secret (replicate 32 0) introspected_project = Inr sec
     \<and> (\<exists>database. literal_env_var ''REINHARDT_DATABASE_NAME'' database \<in> set (build_application_env_vars introspected_project)
         \<and> map_of (unwrap_or [] (se_string_data sec)) ''POSTGRES_DB'' \<noteq> Some database)"
proof -
  obtain r where r: "owner_reference_of introspected_project = Inr r" using introspected_project_simps(3) by blast
  obtain sec where s: "build_db_secret (replicate 32 0) introspected_project = Inr sec"
    by (auto simp: build_db_secret_def r Let_def)
  obtain ss where ss: "build_db_statefulset introspected_project = Inr ss" by (auto simp: build_db_statefulset_def r Let_def)
  obtain svc where svc: "build_db_service introspected_project = Inr svc" by (auto simp: build_db_service_def r Let_def)
  from introspected_database_misnamed [OF s ss svc] s show ?thesis by auto
qed

section \<open>Where the inferred resources live\<close>

fun database_meta :: "database_resource \<Rightarrow> object_meta" where
  "database_meta (DbStatefulSet s) = ss_metadata s"
| "database_meta (DbPvc c) = pvc_metadata c"
| "database_meta (DbService s) = svo_metadata s"
| "database_meta (DbConfigMap c) = cm_metadata c"
| "database_meta (DbSecret s) = se_metadata s"
| "database_meta (DbDynamic d) = dy_metadata d"

definition database_suffixes :: "string list" where
  "database_suffixes = [''-db'', ''-db-data'', ''-db-init'', ''-db-credentials'', ''-rds'', ''-sql-instance'',
     ''-sql-database'', ''-sql-user'']"

definition local_resource :: "string \<Rightarrow> string \<Rightarrow> database_resource \<Rightarrow> bool" where
  "local_resource project_name namespace r \<longleftrightarrow>
     om_namespace (database_meta r) = Some namespace
     \<and> (\<exists>suffix \<in> set database_suffixes. om_name (database_meta r) = Some (project_name @ suffix))
     \<and> is_some_and (om_labels (database_meta r)) (\<lambda>l. l ''app.kubernetes.io/name'' = Some project_name)"

lemma build_resources_local:
  "list_all (local_resource n ns) (build_onprem_postgres draws n ns db gb)"
  "list_all (local_resource n ns) (build_aws_rds draws n ns db platform)"
  "list_all (local_resource n ns) (build_gcp_cloud_sql draws n ns db gb platform)"
  by (auto simp: local_resource_def build_onprem_postgres_def build_aws_rds_def build_gcp_cloud_sql_def Let_def db_meta_def
      onprem_stateful_set_def onprem_claim_def onprem_service_def build_db_credentials_secret_def secret_meta_def
      standard_secret_labels_def standard_db_labels_def database_suffixes_def cloud_sql_object_def split: option.split)

lemma inferred_resources_local:
  assumes "infer_database_resources draws app platform = Inr rs" and "app_namespace app = Some ns"
  shows "list_all (local_resource (name_any app) ns) rs"
  using assms build_resources_local
  by (auto simp: infer_database_resources_def result_bind_Inr Let_def split: option.splits platform.splits)

text \<open>
  What the operator creates for an explicit database: only objects of the project's namespace, named and
  labelled after the project, and one credentials secret; nothing at all exactly for SQLite on a cloud
  platform. The request was within the limits: at most 100 GiB, and an instance class only where the
  platform offers it.
\<close>
theorem inferred_database_confined:
  assumes "infer_database_resources draws app platform = Inr rs" and "ps_database (pj_spec app) = Some db"
    and "app_namespace app = Some ns"
  shows "list_all (local_resource (name_any app) ns) rs
    \<and> (rs = [] \<longleftrightarrow> db_engine db = Sqlite \<and> pc_platform platform \<noteq> Onpremise)
    \<and> (rs \<noteq> [] \<longrightarrow> (\<exists>sec. filter (\<lambda>r. case r of DbSecret _ \<Rightarrow> True | _ \<Rightarrow> False) rs = [DbSecret sec]))
    \<and> (\<forall>gb. db_storage_gb db = Some gb \<longrightarrow> 0 < sint gb \<and> sint gb \<le> 100)
    \<and> (\<forall>c. db_instance_class db = Some c \<longrightarrow>
         pc_platform platform = Aws \<and> c \<in> set AWS_DATABASE_INSTANCE_CLASSES
         \<or> pc_platform platform = Gcp \<and> c \<in> set GCP_DATABASE_INSTANCE_CLASSES)"
proof -
  have valid: "validate_database_for_platform db platform = Inr ()"
    and rs: "rs = (case pc_platform platform of
        Onpremise \<Rightarrow> build_onprem_postgres draws (name_any app) ns db (unwrap_or (dd_storage_gb (pc_database platform)) (db_storage_gb db))
      | Aws \<Rightarrow> build_aws_rds draws (name_any app) ns db platform
      | Gcp \<Rightarrow> build_gcp_cloud_sql draws (name_any app) ns db (unwrap_or (dd_storage_gb (pc_database platform)) (db_storage_gb db)) platform)"
    using assms by (auto simp: infer_database_resources_def result_bind_Inr Let_def)
  have local: "list_all (local_resource (name_any app) ns) rs"
    using assms(1,3) by (rule inferred_resources_local)
  have empty: "rs = [] \<longleftrightarrow> db_engine db = Sqlite \<and> pc_platform platform \<noteq> Onpremise"
    unfolding rs by (cases "pc_platform platform"; cases "db_engine db")
      (simp_all add: build_onprem_postgres_def build_aws_rds_def build_gcp_cloud_sql_def engine_to_gcp_version_def Let_def)
  have one: "rs \<noteq> [] \<longrightarrow> (\<exists>sec. filter (\<lambda>r. case r of DbSecret _ \<Rightarrow> True | _ \<Rightarrow> False) rs = [DbSecret sec])"
    unfolding rs by (cases "pc_platform platform"; cases "db_engine db")
      (simp_all add: build_onprem_postgres_def build_aws_rds_def build_gcp_cloud_sql_def engine_to_gcp_version_def Let_def
        cloud_sql_object_def)
  have limits: "(\<forall>gb. db_storage_gb db = Some gb \<longrightarrow> 0 < sint gb \<and> sint gb \<le> 100)"
    using valid by (auto simp: validate_database_for_platform_def validate_database_def MAX_DATABASE_STORAGE_GB_def
        split: sum.splits if_splits)
  have class_ok: "(\<forall>c. db_instance_class db = Some c \<longrightarrow>
         pc_platform platform = Aws \<and> c \<in> set AWS_DATABASE_INSTANCE_CLASSES
         \<or> pc_platform platform = Gcp \<and> c \<in> set GCP_DATABASE_INSTANCE_CLASSES)"
    using valid by (auto simp: validate_database_for_platform_def Let_def split: sum.splits if_splits platform.splits)
  from local empty one limits class_ok show ?thesis by blast
qed

theorem inferred_database_confined_witness:
  "infer_database_resources draws (database_project Sqlite) aws_defaults = Inr []"
proof -
  obtain rs where rs: "infer_database_resources draws (database_project Sqlite) aws_defaults = Inr rs"
    using database_project_infer by blast
  from inferred_database_confined [OF rs, of _ "''prod''"] rs show ?thesis by (simp add: aws_defaults_def)
qed


section \<open>The migration pod\<close>

definition job_pod :: "job \<Rightarrow> pod_spec" where
  "job_pod j = unwrap_or pod_spec_default (Option.bind (jb_spec j) (\<lambda>s. pt_spec (jsp_template s)))"

text \<open>
  C40. A migration runs like the web container it precedes, with pages or without: the same image, the same
  environment (so the same database and the same secrets, all of them the project's own), the same
  plugin volumes mounted at the same places and the same service account; what pages add to the web
  pod are sidecars, init containers and one volume for the static files, which the migration does not
  have. It passes the restricted profile when the project is isolated, and it is never restarted in
  place.
\<close>
theorem migration_matches_web:
  assumes "build_migration_job app platform key = Inr j" and "build_deployment app pages_config (pc_platform platform) = Inr d"
  shows "\<exists>m w sidecars pv pgv. pod_containers (job_pod j) = [m] \<and> pod_containers (deployment_pod d) = w # sidecars
    \<and> (pages_config = None \<longrightarrow> sidecars = []) \<and> ct_name w = name_any app
    \<and> ct_image m = ct_image w \<and> ct_env m = ct_env w \<and> ct_volume_mounts m = ct_volume_mounts w
    \<and> pod_volumes (job_pod j) = Some pv \<and> pod_volumes (deployment_pod d) = Some (pv @ pgv)
    \<and> map vol_name pgv = (if pages_config = None then [] else [''static-files''])
    \<and> pod_service_account_name (job_pod j) = pod_service_account_name (deployment_pod d)
    \<and> pod_runtime_class_name (job_pod j) = pod_runtime_class_name (deployment_pod d)
    \<and> pod_image_pull_secrets (job_pod j) = pod_image_pull_secrets (deployment_pod d)
    \<and> pod_secrets (job_pod j) \<subseteq> own_secret_names (name_any app)
    \<and> mounts_declared (job_pod j)
    \<and> (ps_isolation (pj_spec app) \<noteq> None \<longrightarrow> restricted_pod (job_pod j))
    \<and> pod_restart_policy (job_pod j) = Some ''Never''
    \<and> om_namespace (jb_metadata j) = om_namespace (dp_metadata d)
    \<and> om_owner_references (jb_metadata j) = om_owner_references (dp_metadata d)"
proof -
  let ?env = "build_application_env_vars app"
  obtain ns port owner_ref pv vm pgv ini extra pr pull where
    d: "require_namespace app = Inr ns" "owner_reference_of app = Inr owner_ref"
       "build_plugin_volumes app = Inr (pv, vm)" "validated_image_pull_secrets app = Inr pull"
    and pg: "pages_parts app pages_config ?env vm = Inr (pgv, ini, extra)"
    and pod: "deployment_pod d = web_pod app (pc_platform platform) ini (web_container app port ?env vm pr # extra) (pv @ pgv) pull"
    and dm: "dp_metadata d = owned_meta (name_any app) ns (standard_labels app CompWeb) owner_ref"
    using assms(2) by (rule build_deployment_Inr) (auto simp: deployment_pod_def)
  have pages: "pages_config = None \<longrightarrow> extra = []" "map vol_name pgv = (if pages_config = None then [] else [''static-files''])"
    using pg by (auto simp: pages_parts_def result_bind_Inr split: option.splits)
  let ?m = "migrate_container app platform vm"
  have job: "job_pod j = pod_spec_default\<lparr>pod_restart_policy := Some ''Never'',
      pod_runtime_class_name := resolve_runtime_class_name app (pc_platform platform),
      pod_security_context := if isolated app then Some build_pod_security_context else None,
      pod_containers := [?m], pod_volumes := Some pv, pod_image_pull_secrets := pull,
      pod_service_account_name := resolved_sa_name app\<rparr>"
    and jm: "om_namespace (jb_metadata j) = Some ns" "om_owner_references (jb_metadata j) = Some [owner_ref]"
    using assms(1) by (auto simp: build_migration_job_def result_bind_Inr d Let_def job_pod_def owned_meta_def)
  have "container_secrets ?m \<subseteq> own_secret_names (name_any app)"
    by (rule container_secrets_env [where env = ?env]) (simp_all add: migrate_container_def env_secrets_own)
  moreover have "\<forall>v \<in> set pv. vol_secret v = None" "map vm_name vm = map vol_name pv"
    using plugin_mounts [OF d(3)] by simp_all
  ultimately have sec: "pod_secrets (job_pod j) \<subseteq> own_secret_names (name_any app)" and mnt: "mounts_declared (job_pod j)"
    unfolding job by (auto simp: pod_secrets_def mounts_declared_def all_containers_def volume_names_def
        migrate_container_def dest!: arg_cong [where f = set])
  have res: "ps_isolation (pj_spec app) \<noteq> None \<longrightarrow> restricted_pod (job_pod j)"
    by (simp add: job isolated_def restricted_pod_def build_pod_security_context_def all_containers_def
        restricted_container_def migrate_container_def build_container_security_context_def)
  show ?thesis
    by (intro exI [of _ ?m] exI [of _ "web_container app port ?env vm pr"] exI [of _ extra] exI [of _ pv] exI [of _ pgv])
      (use sec mnt res jm pages in \<open>simp add: job pod dm owned_meta_def migrate_container_def web_container_def web_pod_def\<close>)
qed

theorem migration_matches_web_witness:
  "\<exists>j. build_migration_job web_project onprem_defaults ''image=shop:1;version=unknown'' = Inr j \<and> restricted_pod (job_pod j)"
proof -
  obtain r where r: "owner_reference_of web_project = Inr r" using web_project_parts(2) by blast
  obtain pv vm where v: "build_plugin_volumes web_project = Inr (pv, vm)" using web_project_volumes by blast
  obtain d where d: "build_deployment web_project None (pc_platform onprem_defaults) = Inr d" using web_project_plain by blast
  obtain j where j: "build_migration_job web_project onprem_defaults ''image=shop:1;version=unknown'' = Inr j"
    by (simp add: build_migration_job_def Let_def r v)
  from migration_matches_web [OF j d] j show ?thesis by (auto simp: web_project_parts)
qed

section \<open>Divergences\<close>

text \<open>On premise the engine is not looked at: a MySQL database is a PostgreSQL server.\<close>

theorem onprem_engine_ignored:
  "infer_database_resources draws (database_project Mysql) onprem_defaults
     = infer_database_resources draws (database_project Postgresql) onprem_defaults
   \<and> (\<exists>ss. DbStatefulSet ss \<in> set (build_onprem_postgres draws ''shop'' ''prod''
         \<lparr>db_engine = Mysql, db_instance_class = None, db_storage_gb = Some 20, db_version = None\<rparr> 20)
       \<and> map ct_image (pod_containers (stateful_pod ss)) = [''postgres:16''])"
  by (simp add: infer_database_resources_def validate_database_for_platform_def validate_database_def Let_def
      onprem_defaults_def build_onprem_postgres_def stateful_pod_def onprem_stateful_set_def postgres_container_def)

text \<open>The user that a cloud database is given is not the user the workloads log in as.\<close>

theorem cloud_database_user_differs:
  "sanitize_identifier ''1shop'' Postgresql = ''app_1shop'' \<and> str_replace ''-'' ''_'' ''1shop'' = ''1shop''"
  by (simp add: sanitize_identifier_def utf8_leads_def str_simps starts_with_def)

text \<open>The init script of every pass holds the password drawn in that pass, which the retained secret does not.\<close>

theorem init_script_password_plain:
  "\<exists>cm sec pw. DbConfigMap cm \<in> set (build_onprem_postgres draws n ns db gb) \<and> DbSecret sec \<in> set (build_onprem_postgres draws n ns db gb)
     \<and> map_of (unwrap_or [] (se_data sec)) ''password'' = Some pw
     \<and> (\<exists>sql. map_of (unwrap_or [] (cm_data cm)) ''init.sql'' = Some sql \<and> str_contains sql pw)"
proof -
  let ?s = "str_replace ''-'' ''_'' n" and ?pw = "generate_random_password draws"
  have "str_contains (init_sql (?s @ ''_db'') ?s ?pw) ?pw"
    unfolding str_contains_iff init_sql_def by (metis append.assoc)
  then show ?thesis
    by (auto simp: build_onprem_postgres_def Let_def build_db_credentials_secret_def)
qed

end
