(* ===== verification/Apply.thy ===== *)
theory Apply
  imports Exposure NetworkPolicies Database
begin

text \<open>
  The reconciliation of a project: \<open>apply\<close> and \<open>reconcile\<close> of the operator's \<open>reconciler.rs\<close>, with the
  helpers that make one request after another. What the code draws, reads from the clock or from its
  environment, and what third-party code renders or parses, is the record \<open>operator_env\<close>.
\<close>

section \<open>The surroundings of the operator\<close>

record preview_config_env =
  pe_ingress_class :: string
  pe_acme_server :: string
  pe_acme_email :: string

definition preview_config_from_env :: "string option \<Rightarrow> string option \<Rightarrow> string option \<Rightarrow> preview_config_env" where
  "preview_config_from_env ingress_class acme_server acme_email =
     \<lparr>pe_ingress_class = unwrap_or ''nginx'' ingress_class,
      pe_acme_server = unwrap_or ''https://acme-v02.api.letsencrypt.org/directory'' acme_server,
      pe_acme_email = unwrap_or [] acme_email\<rparr>"

definition parse_namespace_lifecycle_enabled :: "string option \<Rightarrow> bool" where
  "parse_namespace_lifecycle_enabled value \<longleftrightarrow>
     (case value of None \<Rightarrow> True | Some v \<Rightarrow> v = ''1'' \<or> eq_ignore_ascii_case v ''true'')"

record operator_env =
  oe_platform :: platform_config
  oe_preview :: preview_config_env
  oe_manage_lifecycle :: bool
  oe_host_suffixes :: "string option"
  oe_sha256 :: "string \<Rightarrow> string"
  oe_base64 :: "string \<Rightarrow> string"
  oe_toml :: "plugin_toml_entry list \<Rightarrow> string + string"
  oe_parse_rfc3339 :: "string \<Rightarrow> timestamp option"
  oe_show_error :: "kube_error \<Rightarrow> string"
  oe_redis_draws :: "nat list"
  oe_db_draws :: "nat list"
  oe_core_key :: string
  oe_jwt_key :: string
  oe_clock :: "nat \<Rightarrow> string"
  oe_now :: "nat \<Rightarrow> timestamp"

abbreviation secrets_of :: "'w operator_api \<Rightarrow> 'w secret_api" where
  "secrets_of api \<equiv> secret_api.truncate api"

abbreviation kube_of :: "'w operator_api \<Rightarrow> 'w kube_api" where
  "kube_of api \<equiv> kube_api.truncate api"

section \<open>Single requests\<close>

definition apply_object :: "'w operator_api \<Rightarrow> string \<Rightarrow> string \<Rightarrow> k8s_object \<Rightarrow> ('w, operator_error, unit) kube_op" where
  "apply_object api namespace n obj = op_kube (do_request (ApplyObject namespace n obj) (k_apply api namespace n obj))"

definition create_generated_secret ::
  "'w operator_api \<Rightarrow> operator_env \<Rightarrow> string \<Rightarrow> secret \<Rightarrow> ('w, operator_error, unit) kube_op" where
  "create_generated_secret api env namespace s =
     op_bind (op_try (do_request (CreateSecret namespace s) (k_create_secret api namespace s))) (\<lambda>r.
       case r of Inl e \<Rightarrow> op_throw (SecretGeneration (oe_show_error env e)) | Inr _ \<Rightarrow> op_return ())"

definition read_secret :: "'w operator_api \<Rightarrow> string \<Rightarrow> string \<Rightarrow> ('w, operator_error, secret option) kube_op" where
  "read_secret api namespace n = op_kube (do_request (GetSecret namespace n) (k_get_secret api namespace n))"

definition ensure_deployment_apply_target_is_owned ::
  "'w operator_api \<Rightarrow> project \<Rightarrow> string \<Rightarrow> string \<Rightarrow> ('w, operator_error, unit) kube_op" where
  "ensure_deployment_apply_target_is_owned api app namespace n =
     op_bind (op_try (do_request (GetDeployment namespace n) (k_get_deployment api namespace n))) (\<lambda>r.
       case r of
         Inr None \<Rightarrow> op_return ()
       | Inr (Some existing) \<Rightarrow>
           if existing_resource_is_controlled_by_project (dp_metadata existing) app then op_return ()
           else op_throw (ownership_conflict_error ''Deployment'' namespace n app)
       | Inl e \<Rightarrow> if is_api_code 404 e then op_return () else op_throw (Kube e))"

definition ensure_service_apply_target_is_owned ::
  "'w operator_api \<Rightarrow> project \<Rightarrow> string \<Rightarrow> string \<Rightarrow> ('w, operator_error, unit) kube_op" where
  "ensure_service_apply_target_is_owned api app namespace n =
     op_bind (op_try (do_request (GetMeta ''Service'' namespace n) (k_get_meta api ''Service'' namespace n))) (\<lambda>r.
       case r of
         Inr None \<Rightarrow> op_return ()
       | Inr (Some existing) \<Rightarrow>
           if existing_resource_is_controlled_by_project existing app then op_return ()
           else op_throw (ownership_conflict_error ''Service'' namespace n app)
       | Inl e \<Rightarrow> if is_api_code 404 e then op_return () else op_throw (Kube e))"

definition observed_ready_replicas :: "'w operator_api \<Rightarrow> string \<Rightarrow> string \<Rightarrow> ('w, operator_error, i32) kube_op" where
  "observed_ready_replicas api namespace n =
     op_bind (op_kube (do_request (GetDeployment namespace n) (k_get_deployment api namespace n))) (\<lambda>d.
       op_return (unwrap_or 0 (Option.bind d dp_ready_replicas)))"

section \<open>Namespaces\<close>

definition patch_namespace :: "'w operator_api \<Rightarrow> string \<Rightarrow> label_map \<Rightarrow> ('w, kube_error, unit) kube_op" where
  "patch_namespace api n labels = do_request (PatchNamespace n labels) (k_patch_namespace api n labels)"

definition patch_or_create_namespace :: "'w operator_api \<Rightarrow> string \<Rightarrow> object_meta \<Rightarrow> ('w, operator_error, unit) kube_op" where
  "patch_or_create_namespace api n desired =
     (let labels = unwrap_or Map.empty (om_labels desired) in
      op_bind (op_try (patch_namespace api n labels)) (\<lambda>r.
        case r of
          Inr _ \<Rightarrow> op_return ()
        | Inl e \<Rightarrow>
            if is_api_code 404 e then
              op_bind (op_try (do_request (CreateNamespace n labels) (k_create_namespace api n labels))) (\<lambda>r2.
                case r2 of
                  Inr _ \<Rightarrow> op_return ()
                | Inl e2 \<Rightarrow> if is_api_code 409 e2 then op_kube (patch_namespace api n labels) else op_throw (Kube e2))
            else op_throw (Kube e)))"

definition patch_existing_namespace_labels ::
  "'w operator_api \<Rightarrow> string \<Rightarrow> object_meta \<Rightarrow> ('w, operator_error, unit) kube_op" where
  "patch_existing_namespace_labels api namespace_name desired =
     op_bind (op_try (patch_namespace api namespace_name (unwrap_or Map.empty (om_labels desired)))) (\<lambda>r.
       case r of
         Inr _ \<Rightarrow> op_return ()
       | Inl e \<Rightarrow> if is_api_code 404 e then op_throw (NamespaceNotProvisioned namespace_name) else op_throw (Kube e))"

definition prepare_namespace ::
  "'w operator_api \<Rightarrow> bool \<Rightarrow> string \<Rightarrow> object_meta \<Rightarrow> ('w, operator_error, unit) kube_op" where
  "prepare_namespace api manage_namespace_lifecycle n desired =
     (if manage_namespace_lifecycle then patch_or_create_namespace api n desired
      else patch_existing_namespace_labels api n desired)"

definition apply_policy ::
  "'w operator_api \<Rightarrow> string \<Rightarrow> string \<Rightarrow> network_policy \<Rightarrow> ('w, operator_error, unit) kube_op" where
  "apply_policy api namespace default_name policy =
     apply_object api namespace (unwrap_or default_name (om_name (np_metadata policy))) (ObjNetworkPolicy policy)"

definition reconcile_tenant_resources ::
  "'w operator_api \<Rightarrow> tenant_ref \<Rightarrow> network_isolation_spec option \<Rightarrow> bool \<Rightarrow> ('w, operator_error, unit) kube_op" where
  "reconcile_tenant_resources api tenant network manage_namespace_lifecycle =
     (let namespace_name = tenant_namespace tenant;
          desired_quota = build_default_resource_quota tenant in
      op_bind (prepare_namespace api manage_namespace_lifecycle namespace_name (build_tenant_namespace tenant)) (\<lambda>_.
      op_bind (apply_object api namespace_name (unwrap_or ''tenant-default-quota'' (om_name (rq_metadata desired_quota)))
                 (ObjResourceQuota desired_quota)) (\<lambda>_.
      op_for [build_tenant_default_deny_policy tenant, build_allow_same_namespace_policy tenant network,
              build_allow_ingress_controller_policy tenant] (apply_policy api namespace_name ''tenant-policy''))))"

definition reconcile_preview_namespace ::
  "'w operator_api \<Rightarrow> operator_env \<Rightarrow> string \<Rightarrow> string \<Rightarrow> string option \<Rightarrow> preview_budget option
     \<Rightarrow> ('w, operator_error, unit) kube_op" where
  "reconcile_preview_namespace api env parent_namespace parent_name parent_uid budget =
     (let ns_name = preview_namespace_name parent_namespace parent_name in
      case parent_uid of
        None \<Rightarrow> op_return ()
      | Some uid \<Rightarrow>
          (let quota = build_resource_quota parent_namespace parent_name budget;
               limit_range = build_preview_limit_range parent_namespace parent_name;
               issuer = build_issuer parent_namespace parent_name (pe_acme_server (oe_preview env))
                 (pe_acme_email (oe_preview env)) (pe_ingress_class (oe_preview env)) in
           op_bind (prepare_namespace api (oe_manage_lifecycle env) ns_name
                      (build_preview_namespace parent_namespace parent_name uid)) (\<lambda>_.
           op_bind (apply_object api ns_name (unwrap_or ''preview-default-quota'' (om_name (rq_metadata quota)))
                      (ObjResourceQuota quota)) (\<lambda>_.
           op_bind (apply_object api ns_name (unwrap_or ''preview-default-limits'' (om_name (lr_metadata limit_range)))
                      (ObjLimitRange limit_range)) (\<lambda>_.
           op_bind (op_for [build_preview_default_deny_policy parent_namespace parent_name,
                            build_allow_ingress_and_dns_policy parent_namespace parent_name]
                      (apply_policy api ns_name ''preview-policy'')) (\<lambda>_.
           apply_object api ns_name (unwrap_or ''preview-issuer'' (om_name (is_metadata issuer))) (ObjIssuer issuer)))))))"

definition pss_labels :: label_map where
  "pss_labels =
     [''pod-security.kubernetes.io/enforce'' \<mapsto> ''restricted'',
      ''pod-security.kubernetes.io/enforce-version'' \<mapsto> ''latest'',
      ''pod-security.kubernetes.io/audit'' \<mapsto> ''restricted'',
      ''pod-security.kubernetes.io/warn'' \<mapsto> ''restricted'']"

definition reconcile_pss_labels :: "'w operator_api \<Rightarrow> string \<Rightarrow> ('w, operator_error, unit) kube_op" where
  "reconcile_pss_labels api namespace = op_kube (patch_namespace api namespace pss_labels)"

section \<open>Databases and migrations\<close>

definition reconcile_db_secret ::
  "'w operator_api \<Rightarrow> operator_env \<Rightarrow> project \<Rightarrow> string \<Rightarrow> ('w, operator_error, unit) kube_op" where
  "reconcile_db_secret api env app namespace =
     op_bind (read_secret api namespace (name_any app @ ''-db-credentials'')) (\<lambda>found.
       if found \<noteq> None then op_return ()
       else op_bind (op_lift (build_db_secret (oe_db_draws env) app)) (create_generated_secret api env namespace))"

definition reconcile_db_statefulset :: "'w operator_api \<Rightarrow> project \<Rightarrow> string \<Rightarrow> ('w, operator_error, unit) kube_op" where
  "reconcile_db_statefulset api app namespace =
     op_bind (op_lift (build_db_statefulset app)) (\<lambda>desired.
       apply_object api namespace (name_any app @ ''-postgresql'') (ObjStatefulSet desired))"

definition reconcile_db_service_resource :: "'w operator_api \<Rightarrow> project \<Rightarrow> string \<Rightarrow> ('w, operator_error, unit) kube_op" where
  "reconcile_db_service_resource api app namespace =
     op_bind (op_lift (build_db_service app)) (\<lambda>desired.
       apply_object api namespace (name_any app @ ''-postgresql'') (ObjService desired))"

text \<open>The name comes from the metadata; a missing one is an error naming the kind.\<close>

definition apply_inferred ::
  "'w operator_api \<Rightarrow> string \<Rightarrow> string \<Rightarrow> object_meta \<Rightarrow> k8s_object \<Rightarrow> ('w, operator_error, unit) kube_op" where
  "apply_inferred api namespace kind m obj =
     op_bind (op_lift (ok_or (DatabaseProvisioning (kind @ '' missing name'')) (om_name m))) (\<lambda>n.
       apply_object api namespace n obj)"

definition apply_statefulset :: "'w operator_api \<Rightarrow> string \<Rightarrow> stateful_set \<Rightarrow> ('w, operator_error, unit) kube_op" where
  "apply_statefulset api namespace ss = apply_inferred api namespace ''StatefulSet'' (ss_metadata ss) (ObjStatefulSet ss)"

definition apply_pvc :: "'w operator_api \<Rightarrow> string \<Rightarrow> persistent_volume_claim \<Rightarrow> ('w, operator_error, unit) kube_op" where
  "apply_pvc api namespace pvc = apply_inferred api namespace ''PVC'' (pvc_metadata pvc) (ObjClaim pvc)"

definition apply_configmap :: "'w operator_api \<Rightarrow> string \<Rightarrow> config_map \<Rightarrow> ('w, operator_error, unit) kube_op" where
  "apply_configmap api namespace cm = apply_inferred api namespace ''ConfigMap'' (cm_metadata cm) (ObjConfigMap cm)"

definition apply_db_service :: "'w operator_api \<Rightarrow> string \<Rightarrow> service \<Rightarrow> ('w, operator_error, unit) kube_op" where
  "apply_db_service api namespace svc = apply_inferred api namespace ''Service'' (svo_metadata svc) (ObjService svc)"

definition apply_dynamic :: "'w operator_api \<Rightarrow> string \<Rightarrow> dynamic_object \<Rightarrow> ('w, operator_error, unit) kube_op" where
  "apply_dynamic api namespace obj = apply_inferred api namespace ''DynamicObject'' (dy_metadata obj) (ObjDynamic obj)"

definition apply_db_secret_if_absent :: "'w operator_api \<Rightarrow> string \<Rightarrow> secret \<Rightarrow> ('w, operator_error, unit) kube_op" where
  "apply_db_secret_if_absent api namespace s =
     op_bind (op_lift (ok_or (DatabaseProvisioning ''Secret missing name'') (om_name (se_metadata s)))) (\<lambda>n.
     op_bind (read_secret api namespace n) (\<lambda>found.
       if found \<noteq> None then op_return ()
       else op_bind (op_try (do_request (CreateSecret namespace s) (k_create_secret api namespace s))) (\<lambda>r.
              case r of
                Inr _ \<Rightarrow> op_return ()
              | Inl e \<Rightarrow> if is_api_code 409 e then op_return () else op_throw (Kube e))))"

fun apply_database_resource :: "'w operator_api \<Rightarrow> string \<Rightarrow> database_resource \<Rightarrow> ('w, operator_error, unit) kube_op" where
  "apply_database_resource api namespace (DbStatefulSet ss) = apply_statefulset api namespace ss"
| "apply_database_resource api namespace (DbPvc pvc) = apply_pvc api namespace pvc"
| "apply_database_resource api namespace (DbService svc) = apply_db_service api namespace svc"
| "apply_database_resource api namespace (DbConfigMap cm) = apply_configmap api namespace cm"
| "apply_database_resource api namespace (DbSecret sec) = apply_db_secret_if_absent api namespace sec"
| "apply_database_resource api namespace (DbDynamic obj) = apply_dynamic api namespace obj"

definition provision_database ::
  "'w operator_api \<Rightarrow> operator_env \<Rightarrow> project \<Rightarrow> string \<Rightarrow> ('w, operator_error, unit) kube_op" where
  "provision_database api env app namespace =
     (if ps_database (pj_spec app) \<noteq> None then
        op_bind (op_lift (infer_database_resources (oe_db_draws env) app (oe_platform env))) (\<lambda>resources.
          op_for resources (apply_database_resource api namespace))
      else if should_provision_postgresql app then
        op_bind (reconcile_db_secret api env app namespace) (\<lambda>_.
        op_bind (reconcile_db_statefulset api app namespace) (\<lambda>_.
        reconcile_db_service_resource api app namespace))
      else op_return ())"

definition migration_job_has_stale_redis_credentials :: "job \<Rightarrow> string option \<Rightarrow> bool" where
  "migration_job_has_stale_redis_credentials j redis_provenance \<longleftrightarrow>
     (case redis_provenance of
        None \<Rightarrow> False
      | Some uid \<Rightarrow>
          is_some_and (Option.bind (jb_spec j) (\<lambda>s. stamped_redis_credentials_uid (jsp_template s))) (\<lambda>stamped. stamped \<noteq> uid))"

definition job_condition_is_true :: "job_status option \<Rightarrow> string \<Rightarrow> bool" where
  "job_condition_is_true status condition_type \<longleftrightarrow>
     is_some_and (Option.bind status js_conditions)
       (list_ex (\<lambda>condition. jc_type condition = condition_type \<and> jc_status condition = ''True''))"

definition job_completed :: "job \<Rightarrow> bool" where
  "job_completed existing \<longleftrightarrow>
     0 < sint (unwrap_or 0 (Option.bind (jb_status existing) js_succeeded)) \<or> job_condition_is_true (jb_status existing) ''Complete''"

definition stamp_job :: "string option \<Rightarrow> job \<Rightarrow> job" where
  "stamp_job redis_provenance j =
     (case redis_provenance of
        None \<Rightarrow> j
      | Some uid \<Rightarrow> j\<lparr>jb_spec := map_option (\<lambda>s. s\<lparr>jsp_template := stamp_template uid (jsp_template s)\<rparr>) (jb_spec j)\<rparr>)"

definition reconcile_migration_job_resource ::
  "'w operator_api \<Rightarrow> project \<Rightarrow> string \<Rightarrow> platform_config \<Rightarrow> string option
     \<Rightarrow> ('w, operator_error, migration_gate_state) kube_op" where
  "reconcile_migration_job_resource api app namespace platform redis_provenance =
     (let revision_key = migration_revision_key app;
          job_name = migration_job_name app revision_key in
      op_bind (op_kube (do_request (GetJob namespace job_name) (k_get_job api namespace job_name))) (\<lambda>found.
        case found of
          Some existing \<Rightarrow>
            if job_completed existing then op_return MSucceeded
            else if job_condition_is_true (jb_status existing) ''Failed'' then
              if migration_job_has_stale_redis_credentials existing redis_provenance then
                (let uid = om_uid (jb_metadata existing) in
                 op_bind (op_kube (do_request (DeleteJobOf namespace job_name uid) (k_delete_job_of api namespace job_name uid)))
                   (\<lambda>_. op_return MRunning))
              else op_return MFailed
            else op_return MRunning
        | None \<Rightarrow>
            op_bind (op_lift (build_migration_job app platform revision_key)) (\<lambda>desired.
            let j = stamp_job redis_provenance desired in
            op_bind (op_kube (do_request (CreateJob namespace j) (k_create_job api namespace j))) (\<lambda>_.
            op_return MRunning))))"

section \<open>Workloads\<close>

definition stamp_deployment :: "string option \<Rightarrow> deployment \<Rightarrow> deployment" where
  "stamp_deployment redis_provenance d = (case redis_provenance of None \<Rightarrow> d | Some uid \<Rightarrow> stamp_pod_template uid d)"

definition reconcile_cache_deployment ::
  "'w operator_api \<Rightarrow> project \<Rightarrow> string \<Rightarrow> string option \<Rightarrow> ('w, operator_error, unit) kube_op" where
  "reconcile_cache_deployment api app namespace redis_provenance =
     op_bind (op_lift (build_cache_deployment app)) (\<lambda>desired.
       apply_object api namespace (name_any app @ ''-redis'') (ObjDeployment (stamp_deployment redis_provenance desired)))"

definition reconcile_cache_service_resource :: "'w operator_api \<Rightarrow> project \<Rightarrow> string \<Rightarrow> ('w, operator_error, unit) kube_op" where
  "reconcile_cache_service_resource api app namespace =
     op_bind (op_lift (build_cache_service app)) (\<lambda>desired.
       apply_object api namespace (name_any app @ ''-redis'') (ObjService desired))"

definition reconcile_worker_deployment_resource ::
  "'w operator_api \<Rightarrow> project \<Rightarrow> string \<Rightarrow> platform \<Rightarrow> string option \<Rightarrow> ('w, operator_error, unit) kube_op" where
  "reconcile_worker_deployment_resource api app namespace platform redis_provenance =
     op_bind (op_lift (build_worker_deployment app (Option.bind (ps_worker (pj_spec app)) w_command) platform)) (\<lambda>desired.
       apply_object api namespace (name_any app @ ''-worker'') (ObjDeployment (stamp_deployment redis_provenance desired)))"

definition reconcile_grpc_service :: "'w operator_api \<Rightarrow> project \<Rightarrow> string \<Rightarrow> ('w, operator_error, unit) kube_op" where
  "reconcile_grpc_service api app namespace =
     op_bind (op_lift (build_grpc_service app)) (\<lambda>desired.
       apply_object api namespace (name_any app @ ''-grpc'') (ObjService desired))"

text \<open>The \<open>expect\<close> on the owner of a built service account holds: its builder sets one.\<close>

definition service_account_project_uid :: "object_meta \<Rightarrow> string option" where
  "service_account_project_uid sa =
     Option.bind (om_owner_references sa) (\<lambda>owners. map_option or_uid (find (\<lambda>owner. unwrap_or False (or_controller owner)) owners))"

definition reconcile_service_account ::
  "'w operator_api \<Rightarrow> string \<Rightarrow> string \<Rightarrow> object_meta \<Rightarrow> ('w, operator_error, unit) kube_op" where
  "reconcile_service_account api namespace n sa =
     (let project_uid = unwrap_or [] (service_account_project_uid sa) in
      op_bind (op_kube (do_request (GetMeta ''ServiceAccount'' namespace n) (k_get_meta api ''ServiceAccount'' namespace n))) (\<lambda>found.
        if is_some_and found (\<lambda>existing. \<not> service_account_is_owned_by_uid existing project_uid)
        then op_throw (ServiceAccountOwnership namespace n project_uid)
        else apply_object api namespace n (ObjServiceAccount sa)))"

definition reconcile_storage_sa ::
  "'w operator_api \<Rightarrow> project \<Rightarrow> string \<Rightarrow> object_meta \<Rightarrow> ('w, operator_error, unit) kube_op" where
  "reconcile_storage_sa api app namespace sa =
     reconcile_service_account api namespace (unwrap_or (name_any app @ ''-storage'') (om_name sa)) sa"

definition reconcile_app_service_account ::
  "'w operator_api \<Rightarrow> string \<Rightarrow> object_meta \<Rightarrow> ('w, operator_error, unit) kube_op" where
  "reconcile_app_service_account api namespace sa =
     reconcile_service_account api namespace (unwrap_or [] (om_name sa)) sa"

definition reconcile_mail_secret ::
  "'w operator_api \<Rightarrow> operator_env \<Rightarrow> project \<Rightarrow> string \<Rightarrow> ('w, operator_error, unit) kube_op" where
  "reconcile_mail_secret api env app namespace =
     op_bind (read_secret api namespace (name_any app @ ''-smtp-credentials'')) (\<lambda>found.
       if found \<noteq> None then op_return ()
       else op_bind (op_lift (build_mail_secret app)) (create_generated_secret api env namespace))"

definition reconcile_i18n_configmap :: "'w operator_api \<Rightarrow> project \<Rightarrow> string \<Rightarrow> ('w, operator_error, unit) kube_op" where
  "reconcile_i18n_configmap api app namespace =
     op_bind (op_lift (build_i18n_configmap app)) (\<lambda>desired.
       apply_object api namespace (name_any app @ ''-locales'') (ObjConfigMap desired))"

definition reconcile_network_policies :: "'w operator_api \<Rightarrow> project \<Rightarrow> string \<Rightarrow> ('w, operator_error, unit) kube_op" where
  "reconcile_network_policies api app namespace =
     op_bind (op_lift (build_default_deny_policy app)) (\<lambda>deny.
     op_bind (apply_object api namespace (name_any app @ ''-deny-all'') (ObjNetworkPolicy deny)) (\<lambda>_.
     op_bind (op_lift (build_app_ingress_policy app)) (\<lambda>ingress_policy.
     op_bind (apply_object api namespace (name_any app @ ''-allow-ingress'') (ObjNetworkPolicy ingress_policy)) (\<lambda>_.
     let network_spec = unwrap_or network_isolation_default (Option.bind (ps_isolation (pj_spec app)) iso_network) in
     op_bind (op_lift (build_managed_service_egress_policy app network_spec)) (\<lambda>egress.
     apply_object api namespace (name_any app @ ''-allow-egress'') (ObjNetworkPolicy egress))))))"

definition reconcile_resource_limits ::
  "'w operator_api \<Rightarrow> project \<Rightarrow> string \<Rightarrow> resource_defaults \<Rightarrow> ('w, operator_error, unit) kube_op" where
  "reconcile_resource_limits api app namespace defaults =
     op_bind (op_lift (build_limit_range app defaults)) (\<lambda>lr.
       apply_object api namespace (name_any app @ ''-limits'') (ObjLimitRange lr))"

section \<open>The parts of a pass\<close>

text \<open>The first thing a pass does: a misplaced or malformed tenant is recorded and ends the pass.\<close>

fun operator_tenant_error :: "tenant_error \<Rightarrow> operator_error" where
  "operator_tenant_error (InvalidTenant detail) = EInvalidTenant detail"
| "operator_tenant_error (TenantMismatch expected actual) = ETenantMismatch expected actual"

fun tenant_degraded_reason :: "tenant_error \<Rightarrow> string \<times> string" where
  "tenant_degraded_reason (TenantMismatch expected actual) =
     (''TenantMismatch'', ''metadata.namespace '' @ quoted actual
        @ '' does not match the namespace computed from spec.tenant ('' @ quoted expected @ '')'')"
| "tenant_degraded_reason (InvalidTenant detail) = (''InvalidTenant'', detail)"

definition record_degraded_condition ::
  "'w operator_api \<Rightarrow> string \<Rightarrow> project \<Rightarrow> string \<Rightarrow> string \<Rightarrow> string \<Rightarrow> ('w, operator_error, unit) kube_op" where
  "record_degraded_condition api now app namespace reason message =
     (let payload = build_degraded_status_patch app now reason message in
      op_bind (op_try (do_request (PatchStatus namespace (name_any app) payload)
                 (k_patch_status api namespace (name_any app) payload))) (\<lambda>_. op_return ()))"

definition apply_tenant :: "'w operator_api \<Rightarrow> operator_env \<Rightarrow> project \<Rightarrow> string \<Rightarrow> ('w, operator_error, unit) kube_op" where
  "apply_tenant api env app namespace =
     (case validate_tenant_namespace (ps_tenant (pj_spec app)) namespace of
        Inr (Some _) \<Rightarrow>
          reconcile_tenant_resources api (the (ps_tenant (pj_spec app)))
            (Option.bind (ps_isolation (pj_spec app)) iso_network) (oe_manage_lifecycle env)
      | Inr None \<Rightarrow> op_return ()
      | Inl err \<Rightarrow>
          (case tenant_degraded_reason err of (reason, message) \<Rightarrow>
             op_bind (record_degraded_condition api (oe_clock env 0) app namespace reason message) (\<lambda>_.
             op_throw (operator_tenant_error err))))"

definition needs_redis_sessions :: "project \<Rightarrow> bool" where
  "needs_redis_sessions app \<longleftrightarrow> signalled app requires_redis_sessions"

definition apply_redis ::
  "'w operator_api \<Rightarrow> operator_env \<Rightarrow> project \<Rightarrow> string \<Rightarrow> ('w, operator_error, string option) kube_op" where
  "apply_redis api env app namespace =
     (if should_provision_cache app \<or> needs_redis_sessions app then
        op_bind (reconcile_redis_credentials_secret (secrets_of api) (oe_sha256 env) (oe_redis_draws env) namespace app) (\<lambda>provenance.
        op_bind (roll_redis_credential_consumers (secrets_of api) namespace app provenance) (\<lambda>_.
        op_return (Some provenance)))
      else op_return None)"

text \<open>The signing keys are created once and never replaced; a missing Git secret is only a warning.\<close>

definition create_secret_once ::
  "'w operator_api \<Rightarrow> operator_env \<Rightarrow> string \<Rightarrow> string \<Rightarrow> secret \<Rightarrow> ('w, operator_error, unit) kube_op" where
  "create_secret_once api env namespace n s =
     op_bind (read_secret api namespace n) (\<lambda>found.
       if found \<noteq> None then op_return () else create_generated_secret api env namespace s)"

definition should_warn_missing_credentials :: "project \<Rightarrow> string option" where
  "should_warn_missing_credentials app = Option.bind (ps_source (pj_spec app)) src_credentials_secret"

definition apply_secrets :: "'w operator_api \<Rightarrow> operator_env \<Rightarrow> project \<Rightarrow> string \<Rightarrow> ('w, operator_error, unit) kube_op" where
  "apply_secrets api env app namespace =
     (let n = name_any app in
      op_bind (create_secret_once api env namespace (n @ ''-core-secret-key'')
                 (build_core_secret_key_secret (oe_base64 env) (oe_core_key env) n namespace)) (\<lambda>_.
      op_bind (if is_some_and (ps_auth (pj_spec app)) auth_jwt
               then create_secret_once api env namespace (n @ ''-jwt-secret'')
                      (build_jwt_secret (oe_base64 env) (oe_jwt_key env) n namespace)
               else op_return ()) (\<lambda>_.
      case should_warn_missing_credentials app of
        None \<Rightarrow> op_return ()
      | Some s \<Rightarrow> op_bind (read_secret api namespace s) (\<lambda>_. op_return ()))))"

text \<open>\<open>None\<close> is the panic of the time arithmetic, \<open>Some b\<close> says whether the pass goes on.\<close>

definition apply_previews :: "'w operator_api \<Rightarrow> operator_env \<Rightarrow> project \<Rightarrow> string \<Rightarrow> ('w, operator_error, bool option) kube_op" where
  "apply_previews api env app namespace =
     (let preview_namespace = preview_namespace_name namespace (name_any app);
          enabled = previews_enabled app in
      op_bind (if enabled
               then reconcile_preview_namespace api env namespace (name_any app) (om_uid (pj_metadata app))
                      (Option.bind (preview_config (pj_spec app)) pv_budget)
               else op_return ()) (\<lambda>_.
      op_bind (reconcile_preview_delete_action (kube_of api) namespace preview_namespace (oe_clock env 1) (oe_clock env 2) app) (\<lambda>deleted.
      if deleted then op_return (Some False)
      else if enabled then
        op_bind (reconcile_preview_ttl_cleanup (secrets_of api) (oe_parse_rfc3339 env) (oe_now env) preview_namespace app)
          (\<lambda>r. op_return (map_option (\<lambda>_. True) r))
      else op_return (Some True))))"

definition apply_plugins :: "'w operator_api \<Rightarrow> operator_env \<Rightarrow> project \<Rightarrow> string \<Rightarrow> ('w, operator_error, unit) kube_op" where
  "apply_plugins api env app namespace =
     op_bind (op_lift (build_plugin_configmap (oe_toml env) app)) (\<lambda>plugin_cm.
       case plugin_cm of
         None \<Rightarrow> op_return ()
       | Some cm \<Rightarrow> apply_object api namespace (unwrap_or (name_any app @ ''-dentdelion-plugins'') (om_name (cm_metadata cm))) (ObjConfigMap cm))"

definition apply_security :: "'w operator_api \<Rightarrow> operator_env \<Rightarrow> project \<Rightarrow> string \<Rightarrow> ('w, operator_error, unit) kube_op" where
  "apply_security api env app namespace =
     op_bind (op_lift (build_service_account app)) (\<lambda>workload_sa.
     op_bind (case workload_sa of None \<Rightarrow> op_return () | Some sa \<Rightarrow> reconcile_app_service_account api namespace sa) (\<lambda>_.
     if ps_isolation (pj_spec app) \<noteq> None then
       op_bind (reconcile_network_policies api app namespace) (\<lambda>_.
       op_bind (reconcile_resource_limits api app namespace (pc_resources (oe_platform env))) (\<lambda>_.
       reconcile_pss_labels api namespace))
     else op_return ()))"

definition apply_migration ::
  "'w operator_api \<Rightarrow> operator_env \<Rightarrow> project \<Rightarrow> string \<Rightarrow> string option \<Rightarrow> ('w, operator_error, migration_gate_state) kube_op" where
  "apply_migration api env app namespace redis_provenance =
     op_bind (provision_database api env app namespace) (\<lambda>_.
     if should_provision_postgresql app
     then reconcile_migration_job_resource api app namespace (oe_platform env) redis_provenance
     else op_return NotRequired)"

definition apply_web ::
  "'w operator_api \<Rightarrow> operator_env \<Rightarrow> project \<Rightarrow> string \<Rightarrow> string option \<Rightarrow> ('w, operator_error, unit) kube_op" where
  "apply_web api env app namespace redis_provenance =
     (let n = name_any app; pages_config = resolve_pages_config app in
      op_bind (ensure_deployment_apply_target_is_owned api app namespace n) (\<lambda>_.
      op_bind (op_lift (build_deployment app pages_config (pc_platform (oe_platform env)))) (\<lambda>desired.
      op_bind (apply_object api namespace n (ObjDeployment (stamp_deployment redis_provenance desired))) (\<lambda>_.
      op_bind (ensure_service_apply_target_is_owned api app namespace n) (\<lambda>_.
      op_bind (op_lift (build_service app (pages_config \<noteq> None))) (\<lambda>desired_service.
      op_bind (apply_object api namespace n (ObjService desired_service)) (\<lambda>_.
      apply_ingress api (oe_host_suffixes env) app namespace pages_config)))))))"

definition apply_scaling ::
  "'w operator_api \<Rightarrow> operator_env \<Rightarrow> project \<Rightarrow> string \<Rightarrow> ('w, operator_error, project_condition list) kube_op" where
  "apply_scaling api env app namespace =
     op_bind (op_lift (build_autoscaler app)) (\<lambda>plan.
       case plan of
         None \<Rightarrow> op_return []
       | Some p \<Rightarrow>
           (case p of
              ApplyPlan hpa \<Rightarrow> op_bind (reconcile_hpa api namespace (name_any app) hpa) (\<lambda>_. op_return [])
            | Unsupported reason message \<Rightarrow>
                op_return [build_condition app (oe_clock env 9) AutoscalerReady CondFalse reason message]))"

definition apply_redis_workload ::
  "'w operator_api \<Rightarrow> project \<Rightarrow> string \<Rightarrow> string option \<Rightarrow> ('w, operator_error, unit) kube_op" where
  "apply_redis_workload api app namespace redis_provenance =
     op_bind (reconcile_cache_deployment api app namespace redis_provenance) (\<lambda>_.
     reconcile_cache_service_resource api app namespace)"

definition apply_companions ::
  "'w operator_api \<Rightarrow> operator_env \<Rightarrow> project \<Rightarrow> string \<Rightarrow> string option \<Rightarrow> ('w, operator_error, unit) kube_op" where
  "apply_companions api env app namespace redis_provenance =
     op_bind (if should_provision_cache app then apply_redis_workload api app namespace redis_provenance else op_return ()) (\<lambda>_.
     op_bind (if should_provision_worker app
              then reconcile_worker_deployment_resource api app namespace (pc_platform (oe_platform env)) redis_provenance
              else op_return ()) (\<lambda>_.
     op_bind (if signalled app sig_grpc then reconcile_grpc_service api app namespace else op_return ()) (\<lambda>_.
     op_bind (if should_provision_storage app
              then op_bind (op_lift (build_storage_service_account app
                     (unwrap_or ''pvc'' (Option.bind (ps_introspect (pj_spec app))
                        (\<lambda>i. sig_storage (fm_infrastructure_signals (io_features i))))) None)) (\<lambda>sa.
                   case sa of None \<Rightarrow> op_return () | Some m \<Rightarrow> reconcile_storage_sa api app namespace m)
              else op_return ()) (\<lambda>_.
     op_bind (if should_provision_mail app then reconcile_mail_secret api env app namespace else op_return ()) (\<lambda>_.
     op_bind (if needs_redis_sessions app \<and> \<not> should_provision_cache app
              then apply_redis_workload api app namespace redis_provenance else op_return ()) (\<lambda>_.
     if signalled app sig_i18n then reconcile_i18n_configmap api app namespace else op_return ()))))))"

section \<open>A pass\<close>

text \<open>
  What a pass does before it writes its status: it ends early, it panics, or it has a status to write,
  with the observed replicas and whether the previews are still to be reported.
\<close>

datatype pass_result = Finished action | Panicked | Report project_status i32 bool

definition recorded_status :: "string option \<Rightarrow> project_status \<Rightarrow> project_status" where
  "recorded_status redis_provenance s = (case redis_provenance of None \<Rightarrow> s | Some uid \<Rightarrow> record_provenance uid s)"

definition desired_replicas :: "project \<Rightarrow> i32" where
  "desired_replicas app = unwrap_or 1 (ps_replicas (pj_spec app))"

definition blocked_report ::
  "'w operator_api \<Rightarrow> operator_env \<Rightarrow> project \<Rightarrow> string \<Rightarrow> string option \<Rightarrow> migration_gate_state
     \<Rightarrow> ('w, operator_error, pass_result) kube_op" where
  "blocked_report api env app namespace redis_provenance migration_state =
     op_bind (observed_ready_replicas api namespace (name_any app)) (\<lambda>ready_replicas.
       op_return (Report (recorded_status redis_provenance
           (build_project_status app (oe_clock env 10) False ready_replicas migration_state [])) ready_replicas False))"

definition rollout ::
  "'w operator_api \<Rightarrow> operator_env \<Rightarrow> project \<Rightarrow> string \<Rightarrow> string option \<Rightarrow> migration_gate_state
     \<Rightarrow> ('w, operator_error, pass_result) kube_op" where
  "rollout api env app namespace redis_provenance migration_state =
     op_bind (apply_web api env app namespace redis_provenance) (\<lambda>_.
     op_bind (apply_scaling api env app namespace) (\<lambda>scaling_conditions.
     op_bind (apply_companions api env app namespace redis_provenance) (\<lambda>_.
     op_bind (observed_ready_replicas api namespace (name_any app)) (\<lambda>ready_replicas.
     let ready = (sint ready_replicas \<ge> sint (desired_replicas app)) in
     op_bind (tls_condition api (oe_clock env 11) app namespace) (\<lambda>tls.
     op_bind (autoscaler_condition api (oe_clock env 12) app namespace) (\<lambda>hpa.
     op_return (Report (recorded_status redis_provenance
         (build_project_status app (oe_clock env 13) ready ready_replicas migration_state
            (scaling_conditions @ (case tls of None \<Rightarrow> [] | Some c \<Rightarrow> [c]) @ (case hpa of None \<Rightarrow> [] | Some c \<Rightarrow> [c]))))
       ready_replicas (previews_enabled app))))))))"

definition deploy ::
  "'w operator_api \<Rightarrow> operator_env \<Rightarrow> project \<Rightarrow> string \<Rightarrow> string option \<Rightarrow> ('w, operator_error, pass_result) kube_op" where
  "deploy api env app namespace redis_provenance =
     op_bind (apply_plugins api env app namespace) (\<lambda>_.
     op_bind (apply_security api env app namespace) (\<lambda>_.
     op_bind (apply_migration api env app namespace redis_provenance) (\<lambda>migration_state.
     if migration_state = MRunning \<or> migration_state = MFailed
     then blocked_report api env app namespace redis_provenance migration_state
     else rollout api env app namespace redis_provenance migration_state)))"

definition after_previews ::
  "'w operator_api \<Rightarrow> operator_env \<Rightarrow> project \<Rightarrow> string \<Rightarrow> string option \<Rightarrow> bool option
     \<Rightarrow> ('w, operator_error, pass_result) kube_op" where
  "after_previews api env app namespace redis_provenance previews =
     (case previews of
        None \<Rightarrow> op_return Panicked
      | Some goes_on \<Rightarrow>
          if \<not> goes_on then op_return (Finished AwaitChange)
          else op_bind (source_build_gate (kube_of api) namespace (preview_namespace_name namespace (name_any app))
                          (\<lambda>i. oe_clock env (20 + i)) app) (\<lambda>gate.
               case gate of
                 Stop a \<Rightarrow> op_return (Finished a)
               | Proceed \<Rightarrow> deploy api env app namespace redis_provenance))"

definition apply_requests ::
  "'w operator_api \<Rightarrow> operator_env \<Rightarrow> project \<Rightarrow> string \<Rightarrow> ('w, operator_error, pass_result) kube_op" where
  "apply_requests api env app namespace =
     op_bind (apply_tenant api env app namespace) (\<lambda>_.
     op_bind (apply_redis api env app namespace) (\<lambda>redis_provenance.
     op_bind (apply_secrets api env app namespace) (\<lambda>_.
     op_bind (apply_previews api env app namespace) (\<lambda>previews.
     after_previews api env app namespace redis_provenance previews))))"

section \<open>Writing the status\<close>

definition reconcile_preview_status ::
  "'w operator_api \<Rightarrow> project \<Rightarrow> string \<Rightarrow> string \<Rightarrow> ('w, operator_error, unit) kube_op" where
  "reconcile_preview_status api app parent_namespace preview_namespace =
     (let sel = [(PREVIEW_LABEL_KEY, Some ''true''), (PARENT_APP_LABEL_KEY, Some (name_any app))] in
      op_bind (op_kube (do_request (ListProjects preview_namespace sel) (k_list_projects api preview_namespace sel))) (\<lambda>items.
      let p = build_preview_status_patch (map fst items) in
      op_bind (op_try (do_request (PatchStatus parent_namespace (name_any app) p)
                 (k_patch_status api parent_namespace (name_any app) p))) (\<lambda>_. op_return ())))"

definition app_key :: "project \<Rightarrow> object_key" where
  "app_key app = backoff_key (app_namespace app) (name_any app)"

definition write_report ::
  "'w operator_api \<Rightarrow> project \<Rightarrow> string \<Rightarrow> project_status \<Rightarrow> i32 \<Rightarrow> bool \<Rightarrow> operator_state \<Rightarrow> 'w \<times> kube_log
     \<Rightarrow> (operator_error + action option) \<times> operator_state \<times> 'w \<times> kube_log" where
  "write_report api app namespace status ready_replicas previews ctx s =
     (let p = serialize_status status in
      case op_kube (do_request (PatchStatus namespace (name_any app) p) (k_patch_status api namespace (name_any app) p)) s of
        (Inl e, s') \<Rightarrow> (Inl e, ctx, s')
      | (Inr _, s') \<Rightarrow>
          (let ctx1 = (case st_phase status of
                 Some ph \<Rightarrow> update_managed_apps_gauge (app_key app) (phase_label ph) ctx
               | None \<Rightarrow> ctx) in
           case (if previews
                 then reconcile_preview_status api app namespace (preview_namespace_name namespace (name_any app))
                 else op_return ()) s' of
             (Inl e, s'') \<Rightarrow> (Inl e, ctx1, s'')
           | (Inr _, s'') \<Rightarrow>
               (Inr (Some AwaitChange),
                update_replica_gauges namespace (om_name (pj_metadata app)) ready_replicas (desired_replicas app) ctx1, s'')))"

text \<open>\<open>Inr None\<close> is a panic of the reconciler.\<close>

definition apply_project ::
  "'w operator_api \<Rightarrow> operator_env \<Rightarrow> project \<Rightarrow> string \<Rightarrow> operator_state \<Rightarrow> 'w \<times> kube_log
     \<Rightarrow> (operator_error + action option) \<times> operator_state \<times> 'w \<times> kube_log" where
  "apply_project api env app namespace ctx s =
     (case apply_requests api env app namespace s of
        (Inl e, s') \<Rightarrow> (Inl e, ctx, s')
      | (Inr Panicked, s') \<Rightarrow> (Inr None, ctx, s')
      | (Inr (Finished a), s') \<Rightarrow> (Inr (Some a), ctx, s')
      | (Inr (Report status ready_replicas previews), s') \<Rightarrow>
          write_report api app namespace status ready_replicas previews ctx s')"

section \<open>Reconciliation\<close>

text \<open>
  \<open>finalizer\<close> of kube is a parameter of \<open>reconcile\<close>: it runs one of the two handlers it is given, or none,
  and says which error it met. The counters \<open>reconcile_total\<close> and \<open>reconcile_duration\<close> are not kept.
\<close>

datatype finalizer_event = ApplyEvent project | CleanupEvent project

type_synonym 'w pass = "operator_state \<Rightarrow> 'w \<times> kube_log \<Rightarrow> (operator_error + action option) \<times> operator_state \<times> 'w \<times> kube_log"

type_synonym 'w finalizer = "(finalizer_event \<Rightarrow> 'w pass) \<Rightarrow> operator_state \<Rightarrow> 'w \<times> kube_log
   \<Rightarrow> (dyn_error + action option) \<times> operator_state \<times> 'w \<times> kube_log"

definition handle_event :: "'w operator_api \<Rightarrow> operator_env \<Rightarrow> string \<Rightarrow> finalizer_event \<Rightarrow> 'w pass" where
  "handle_event api env namespace event ctx s =
     (case event of
        ApplyEvent app \<Rightarrow> apply_project api env app namespace ctx s
      | CleanupEvent app \<Rightarrow>
          (case cleanup_project (secrets_of api) (oe_sha256 env) (oe_manage_lifecycle env) namespace app ctx s of
             (Inl e, r) \<Rightarrow> (Inl e, r) | (Inr a, r) \<Rightarrow> (Inr (Some a), r)))"

definition reconcile ::
  "'w operator_api \<Rightarrow> operator_env \<Rightarrow> (string \<Rightarrow> project \<Rightarrow> 'w finalizer) \<Rightarrow> project \<Rightarrow> 'w pass" where
  "reconcile api env finalizer obj ctx s =
     (case app_namespace obj of
        None \<Rightarrow> (Inl (MissingNamespace (name_any obj)), ctx, s)
      | Some namespace \<Rightarrow>
          if namespace = [] then (Inl (MissingNamespace (name_any obj)), ctx, s)
          else (case finalizer namespace obj (handle_event api env namespace) ctx s of
                  (Inl e, ctx', s') \<Rightarrow> (Inl (Finalizer e), ctx', s')
                | (Inr None, ctx', s') \<Rightarrow> (Inr None, ctx', s')
                | (Inr (Some a), ctx', s') \<Rightarrow>
                    (Inr (Some a), ctx'\<lparr>backoff_state := (backoff_state ctx')(app_key obj := None)\<rparr>, s')))"

end
