(* ===== verification/ApplyProps.thy ===== *)
theory ApplyProps
  imports Apply
begin

text \<open>
  Properties of a reconciliation (\<open>Apply\<close>): what it may write, and the order in which it writes: nothing
  before the tenant is verified, no tenant image before the network policies, no rollout before the
  migration has succeeded.
\<close>

section \<open>The reach of a pass\<close>

abbreviation preview_ns :: "project \<Rightarrow> string \<Rightarrow> string" where
  "preview_ns app namespace \<equiv> preview_namespace_name namespace (name_any app)"

definition tenant_object_names :: "string list" where
  "tenant_object_names = [DEFAULT_QUOTA_NAME, DEFAULT_DENY_POLICY_NAME, ALLOW_SAME_NAMESPACE_POLICY_NAME,
     ALLOW_INGRESS_CONTROLLER_POLICY_NAME]"

definition preview_object_names :: "string list" where
  "preview_object_names = [QUOTA_NAME, LIMIT_RANGE_NAME, DEFAULT_DENY_NAME, ALLOW_INGRESS_NAME, ISSUER_NAME]"

definition own_object_name :: "project \<Rightarrow> string \<Rightarrow> bool" where
  "own_object_name app n \<longleftrightarrow>
     of_app (name_any app) n \<or> ps_tenant (pj_spec app) \<noteq> None \<and> n \<in> set tenant_object_names \<or> resolved_sa_name app = Some n"

fun within_reach :: "operator_env \<Rightarrow> project \<Rightarrow> string \<Rightarrow> kube_call \<Rightarrow> bool" where
  "within_reach env app ns (GetJob x n) \<longleftrightarrow> True"
| "within_reach env app ns (ListProjects x s) \<longleftrightarrow> True"
| "within_reach env app ns (GetMeta k x n) \<longleftrightarrow> True"
| "within_reach env app ns (GetSecret x n) \<longleftrightarrow> True"
| "within_reach env app ns (GetDeployment x n) \<longleftrightarrow> True"
| "within_reach env app ns ListIngresses \<longleftrightarrow> True"
| "within_reach env app ns (GetIngress x n) \<longleftrightarrow> True"
| "within_reach env app ns (GetAutoscaler x n) \<longleftrightarrow> True"
| "within_reach env app ns (CreateJob x j) \<longleftrightarrow> x = ns"
| "within_reach env app ns (DeleteJob x n) \<longleftrightarrow> x = ns"
| "within_reach env app ns (DeleteJobOf x n u) \<longleftrightarrow> x = ns \<and> n = migration_job_name app (migration_revision_key app)"
| "within_reach env app ns (PatchStatus x n p) \<longleftrightarrow> x = ns \<and> n = name_any app"
| "within_reach env app ns (PatchStatusAt x n v p) \<longleftrightarrow> x = ns \<and> n = name_any app"
| "within_reach env app ns (PatchProject x n p) \<longleftrightarrow> x = ns \<and> n = name_any app"
| "within_reach env app ns (ApplyProject x n p) \<longleftrightarrow> x = preview_ns app ns"
| "within_reach env app ns (DeleteProject x n u) \<longleftrightarrow> x = preview_ns app ns"
| "within_reach env app ns (CreateSecret x s) \<longleftrightarrow> x = ns \<and> is_some_and (om_name (se_metadata s)) (of_app (name_any app))"
| "within_reach env app ns (PatchSecret x n p) \<longleftrightarrow> x = ns"
| "within_reach env app ns (PatchTemplateAnnotation x n k v) \<longleftrightarrow> x = ns \<and> of_app (name_any app) n"
| "within_reach env app ns (ApplyObject x n obj) \<longleftrightarrow>
     x = ns \<and> own_object_name app n \<or> x = preview_ns app ns \<and> previews_enabled app \<and> n \<in> set preview_object_names"
| "within_reach env app ns (PatchNamespace x labels) \<longleftrightarrow>
     x = ns \<and> (ps_tenant (pj_spec app) \<noteq> None \<or> ps_isolation (pj_spec app) \<noteq> None) \<or> x = preview_ns app ns \<and> previews_enabled app"
| "within_reach env app ns (CreateNamespace x labels) \<longleftrightarrow>
     oe_manage_lifecycle env \<and> (x = ns \<and> ps_tenant (pj_spec app) \<noteq> None \<or> x = preview_ns app ns \<and> previews_enabled app)"
| "within_reach env app ns _ \<longleftrightarrow> False"

text \<open>Requests that start a rollout, and requests that start the migration.\<close>

fun starts_rollout :: "kube_call \<Rightarrow> bool" where
  "starts_rollout (ApplyObject x n (ObjDeployment d)) \<longleftrightarrow> True"
| "starts_rollout (ApplyObject x n (ObjIngress i)) \<longleftrightarrow> True"
| "starts_rollout (ApplyObject x n (ObjAutoscaler h)) \<longleftrightarrow> True"
| "starts_rollout _ \<longleftrightarrow> False"

fun starts_migration :: "kube_call \<Rightarrow> bool" where
  "starts_migration (CreateJob x j) \<longleftrightarrow> list_ex (\<lambda>c. ct_name c = ''migrate'') (pod_containers (job_pod j))"
| "starts_migration _ \<longleftrightarrow> False"

fun rolls_pods :: "kube_call \<Rightarrow> bool" where
  "rolls_pods (PatchTemplateAnnotation x n k v) \<longleftrightarrow> True"
| "rolls_pods _ \<longleftrightarrow> False"

definition redis_call :: "operator_env \<Rightarrow> project \<Rightarrow> string \<Rightarrow> kube_call \<Rightarrow> bool" where
  [simp]: "redis_call env app ns c \<longleftrightarrow> within_reach env app ns c \<and> \<not> starts_rollout c \<and> \<not> starts_migration c"

definition early_call :: "operator_env \<Rightarrow> project \<Rightarrow> string \<Rightarrow> kube_call \<Rightarrow> bool" where
  [simp]: "early_call env app ns c \<longleftrightarrow> redis_call env app ns c \<and> \<not> rolls_pods c"

definition prior_call :: "operator_env \<Rightarrow> project \<Rightarrow> string \<Rightarrow> kube_call \<Rightarrow> bool" where
  [simp]: "prior_call env app ns c \<longleftrightarrow> within_reach env app ns c \<and> \<not> starts_rollout c \<and> \<not> rolls_pods c"

lemma apply_object_only [only_rules]: "\<phi> (ApplyObject namespace n obj) \<Longrightarrow> op_only \<phi> (apply_object api namespace n obj)"
  unfolding apply_object_def by (rule op_only_request)

lemma read_secret_only [only_rules]: "\<phi> (GetSecret namespace n) \<Longrightarrow> op_only \<phi> (read_secret api namespace n)"
  unfolding read_secret_def by (rule op_only_request)

lemma create_generated_secret_only [only_rules]:
  "\<phi> (CreateSecret namespace s) \<Longrightarrow> op_only \<phi> (create_generated_secret api env namespace s)"
  unfolding create_generated_secret_def by (intro only_rules)

lemma prepare_namespace_only [only_rules]:
  "(\<And>labels. \<phi> (PatchNamespace n labels)) \<Longrightarrow> (\<And>labels. lifecycle \<Longrightarrow> \<phi> (CreateNamespace n labels))
     \<Longrightarrow> op_only \<phi> (prepare_namespace api lifecycle n desired)"
  unfolding prepare_namespace_def patch_or_create_namespace_def patch_existing_namespace_labels_def patch_namespace_def Let_def
  by (intro only_rules)

lemma own_names [simp]: "own_object_name app (name_any app)" "own_object_name app (name_any app @ CHR ''-'' # x)"
  by (simp_all add: own_object_name_def)

lemma tenant_reach: "op_only (early_call env app ns) (apply_tenant api env app ns)"
proof -
  have res: "op_only (early_call env app ns) (reconcile_tenant_resources api t network (oe_manage_lifecycle env))"
    if "ps_tenant (pj_spec app) = Some t" "tenant_namespace t = ns" for t network
    using that unfolding reconcile_tenant_resources_def apply_policy_def Let_def
    by (intro only_rules)
      (auto simp: own_object_name_def tenant_object_names_def build_default_resource_quota_def tenant_meta_def
        build_tenant_default_deny_policy_def build_allow_same_namespace_policy_def build_allow_ingress_controller_policy_def Let_def)
  have ten: "\<exists>t. ps_tenant (pj_spec app) = Some t \<and> tenant_namespace t = ns"
    if "validate_tenant_namespace (ps_tenant (pj_spec app)) ns = Inr (Some x)" for x
    using that by (auto simp: validate_tenant_namespace_def Let_def split: option.splits sum.splits if_splits)
  have ok: "op_only (early_call env app ns) (apply_tenant api env app ns)"
    if v: "validate_tenant_namespace (ps_tenant (pj_spec app)) ns = Inr x" for x
  proof (cases x)
    case None
    show ?thesis unfolding apply_tenant_def v sum.case None option.case by (rule op_only_return)
  next
    case (Some e)
    from ten [OF v [unfolded Some]] obtain t where t: "ps_tenant (pj_spec app) = Some t" "tenant_namespace t = ns" by blast
    from res [OF t] show ?thesis by (simp add: apply_tenant_def v Some) (simp add: t(1))
  qed
  have "op_only (early_call env app ns) (apply_tenant api env app ns)"
    if e: "validate_tenant_namespace (ps_tenant (pj_spec app)) ns = Inl err" for err
  proof (cases "tenant_degraded_reason err")
    case (Pair reason message)
    show ?thesis
      unfolding apply_tenant_def e sum.case Pair prod.case record_degraded_condition_def Let_def
      by (intro only_rules) simp
  qed
  with ok show ?thesis by (cases "validate_tenant_namespace (ps_tenant (pj_spec app)) ns") auto
qed

lemma redis_reach: "op_only (redis_call env app ns) (apply_redis api env app ns)"
  unfolding apply_redis_def reconcile_redis_credentials_secret_def adopt_redis_credentials_def create_redis_credentials_def
    enforce_redis_credentials_metadata_def patch_redis_credentials_provenance_def roll_redis_credential_consumers_def
    roll_consumer_def get_secret_def create_secret_def Let_def
  by (intro only_rules)
    (auto simp: build_managed_redis_credentials_secret_def build_redis_credentials_secret_def)

lemma secrets_reach: "op_only (early_call env app ns) (apply_secrets api env app ns)"
  unfolding apply_secrets_def create_secret_once_def Let_def
  by (intro only_rules) (auto simp: build_core_secret_key_secret_def build_jwt_secret_def secret_meta_def)

lemma ttl_loop_reach: "op_only (early_call env app ns) (ttl_loop api parse now (preview_ns app ns) ttl items)"
  by (induction api parse now "preview_ns app ns" ttl items rule: ttl_loop.induct) (auto intro!: only_rules split: option.split)

lemma previews_reach: "op_only (early_call env app ns) (apply_previews api env app ns)"
proof -
  have "op_only (early_call env app ns) (reconcile_preview_namespace api env ns (name_any app) uid budget)"
    if "previews_enabled app" for uid budget
    using that unfolding reconcile_preview_namespace_def apply_policy_def Let_def
    by (intro only_rules)
      (auto simp: preview_object_names_def build_resource_quota_def build_preview_limit_range_def build_issuer_def preview_meta_def
        build_preview_default_deny_policy_def build_allow_ingress_and_dns_policy_def Let_def)
  then show ?thesis
    unfolding apply_previews_def reconcile_preview_delete_action_def clear_preview_build_for_delete_def patch_status_def
      patch_project_def reconcile_preview_ttl_cleanup_def Let_def
    by (intro only_rules ttl_loop_reach) simp_all
qed

lemma op_only_lift_bind: "(\<And>a. r = Inr a \<Longrightarrow> op_only \<phi> (f a)) \<Longrightarrow> op_only \<phi> (op_bind (op_lift r) f)"
  by (cases r) (simp_all add: op_only_throw)

lemma patch_status_only: "\<phi> (PatchStatus ns n p) \<Longrightarrow> op_only \<phi> (patch_status api ns n p)"
  unfolding patch_status_def by (rule op_only_request)

lemma patch_build_status_only:
  "(\<And>p. \<phi> (PatchStatus ns (name_any app) p)) \<Longrightarrow> op_only \<phi> (patch_build_status api ns app now build condition)"
  unfolding patch_build_status_def by (rule patch_status_only)

lemma patch_project_only: "\<phi> (PatchProject ns n p) \<Longrightarrow> op_only \<phi> (patch_project api ns n p)"
  unfolding patch_project_def by (rule op_only_request)

lemma track_job_only:
  assumes "\<And>p. \<phi> (PatchStatus ns (name_any app) p)"
  shows "op_only \<phi> (track_job api ns clock app build live_job)"
proof -
  obtain d x where "build_decision_from_job_state app (clock 3) (clock 4) build (classify_job_state live_job) = (d, x)"
    by (metis surj_pair)
  then show ?thesis
    unfolding track_job_def by (cases x) (auto intro!: only_rules patch_build_status_only assms)
qed

lemma source_build_only:
  assumes "\<And>n. \<phi> (GetJob ns n)" "\<And>b j. build_job_for_status app b = Inr j \<Longrightarrow> \<phi> (CreateJob ns j)"
    and "\<And>p. \<phi> (PatchStatus ns (name_any app) p)" "\<And>p. \<phi> (PatchProject ns (name_any app) p)"
    and "\<And>n p. \<phi> (ApplyProject preview n p)"
  shows "op_only \<phi> (source_build_gate api ns preview clock app)"
proof -
  have new: "op_only \<phi> (op_bind (op_lift (build_job_for_status app b)) (create_job api ns))" for b
    unfolding create_job_def by (intro op_only_lift_bind op_only_request assms)
  have acc: "op_only \<phi> (accept_new_build api ns clock app b)" and miss: "op_only \<phi> (missing_job_failure api ns clock app b)" for b
    unfolding accept_new_build_def missing_job_failure_def clear_build_annotations_def Let_def
    by (intro only_rules patch_build_status_only patch_project_only assms)+
  have "op_only \<phi> (reconcile_source_build api ns clock app)"
    unfolding reconcile_source_build_def clear_build_annotations_def get_job_def Let_def
    by (intro only_rules assms new acc miss track_job_only patch_project_only)
  moreover have "op_only \<phi> (case gate_action d of
      GateContinue \<Rightarrow> op_return Proceed
    | GateRequeue x \<Rightarrow> op_return (Stop (Requeue x))
    | UpdateProductionImage build \<Rightarrow>
        op_bind (patch_project api ns (name_any app) (SetImage (cb_image build))) (\<lambda>_.
        op_bind (mark_build_succeeded api ns (clock 6) (clock 7) app build) (\<lambda>_. op_return (Stop AwaitChange)))
    | UpdatePreview build \<Rightarrow>
        op_bind (reconcile_preview_from_build api preview (clock 6) app build) (\<lambda>_.
        op_bind (mark_build_succeeded api ns (clock 7) (clock 8) app build) (\<lambda>_. op_return (Stop AwaitChange)))
    | GateAwaitChange \<Rightarrow> op_return (Stop AwaitChange))" for d
    unfolding reconcile_preview_from_build_def mark_build_succeeded_def Let_def
    by (cases "gate_action d")
      (simp_all only: source_build_gate_action.case, (intro only_rules patch_build_status_only patch_project_only assms)+)
  ultimately show ?thesis unfolding source_build_gate_def by (rule op_only_bind)
qed

lemma plugins_reach: "op_only (early_call env app ns) (apply_plugins api env app ns)"
proof -
  have "own_object_name app (unwrap_or (name_any app @ ''-dentdelion-plugins'') (om_name (cm_metadata cm)))"
    if "build_plugin_configmap toml app = Inr (Some cm)" for toml cm
    using that by (auto simp: build_plugin_configmap_def result_bind_Inr plugin_configmap_name_def owned_meta_def
        split: option.splits if_splits)
  then show ?thesis
    unfolding apply_plugins_def by (intro op_only_lift_bind only_rules) simp_all
qed

lemma service_account_reach:
  "own_object_name app n \<Longrightarrow> op_only (early_call env app ns) (reconcile_service_account api ns n sa)"
  unfolding reconcile_service_account_def Let_def by (intro only_rules) simp_all

lemma security_reach: "op_only (early_call env app ns) (apply_security api env app ns)"
proof -
  have sa: "own_object_name app (unwrap_or [] (om_name sa))" if "build_service_account app = Inr (Some sa)" for sa
    using that by (auto simp: build_service_account_def result_bind_Inr owned_meta_def own_object_name_def resolved_sa_name_def
        split: option.splits if_splits)
  show ?thesis
    unfolding apply_security_def reconcile_app_service_account_def reconcile_network_policies_def reconcile_resource_limits_def
      reconcile_pss_labels_def patch_namespace_def Let_def
    by (intro op_only_lift_bind only_rules service_account_reach sa) simp_all
qed

lemma apply_inferred_only:
  "om_name m = Some n \<Longrightarrow> \<phi> (ApplyObject ns n obj) \<Longrightarrow> op_only \<phi> (apply_inferred api ns kind m obj)"
  by (simp add: apply_inferred_def apply_object_only)

lemma apply_db_secret_only:
  "om_name (se_metadata s) = Some n \<Longrightarrow> \<phi> (GetSecret ns n) \<Longrightarrow> \<phi> (CreateSecret ns s)
     \<Longrightarrow> op_only \<phi> (apply_db_secret_if_absent api ns s)"
  by (simp add: apply_db_secret_if_absent_def) (intro only_rules)

lemma database_resource_only:
  assumes "om_name (database_meta r) = Some n" and "\<And>obj. \<not> starts_rollout (ApplyObject ns n obj) \<Longrightarrow> \<phi> (ApplyObject ns n obj)" and "\<phi> (GetSecret ns n)"
    and "\<And>s. om_name (se_metadata s) = Some n \<Longrightarrow> \<phi> (CreateSecret ns s)"
  shows "op_only \<phi> (apply_database_resource api ns r)"
  using assms
  by (cases r) (auto simp: apply_statefulset_def apply_pvc_def apply_configmap_def apply_db_service_def apply_dynamic_def
      intro: apply_inferred_only apply_db_secret_only)

lemma database_reach:
  assumes "app_namespace app = Some ns"
  shows "op_only (early_call env app ns) (provision_database api env app ns)"
proof -
  have "op_only (early_call env app ns) (apply_database_resource api ns r)"
    if r: "local_resource (name_any app) ns r" for r
  proof -
    from r obtain n where "om_name (database_meta r) = Some n" "of_app (name_any app) n"
      by (auto simp: local_resource_def database_suffixes_def)
    then show ?thesis by (intro database_resource_only [of r n]) (simp_all add: own_object_name_def)
  qed
  moreover have "list_all (local_resource (name_any app) ns) rs"
    if "infer_database_resources draws app platform = Inr rs" for draws platform rs
    using that assms by (rule inferred_resources_local)
  ultimately show ?thesis
    unfolding provision_database_def reconcile_db_secret_def reconcile_db_statefulset_def reconcile_db_service_resource_def
    by (intro op_only_lift_bind only_rules) (auto simp: list_all_iff build_db_secret_def result_bind_Inr Let_def owned_meta_def)
qed

lemma early_mono:
  "op_only (early_call env app ns) m \<Longrightarrow> op_only (prior_call env app ns) m"
  "op_only (early_call env app ns) m \<Longrightarrow> op_only (within_reach env app ns) m"
  "op_only (prior_call env app ns) m \<Longrightarrow> op_only (within_reach env app ns) m"
  "op_only (redis_call env app ns) m \<Longrightarrow> op_only (within_reach env app ns) m"
  by (erule op_only_mono; simp)+

lemma migration_job_only:
  assumes "\<phi> (GetJob ns (migration_job_name app (migration_revision_key app)))"
    and "\<And>j. \<phi> (CreateJob ns j)" "\<And>u. \<phi> (DeleteJobOf ns (migration_job_name app (migration_revision_key app)) u)"
  shows "op_only \<phi> (reconcile_migration_job_resource api app ns platform p)"
  unfolding reconcile_migration_job_resource_def Let_def by (intro only_rules assms)

lemma migration_reach:
  "app_namespace app = Some ns \<Longrightarrow> op_only (prior_call env app ns) (apply_migration api env app ns p)"
  unfolding apply_migration_def by (intro op_only_bind op_only_if op_only_return early_mono database_reach migration_job_only) simp_all

lemma ingress_reach: "op_only (within_reach env app ns) (apply_ingress api suffixes app ns pages)"
proof -
  have "op_only (within_reach env app ns) (ensure_ingress_host_available api app ns h)" for h
    unfolding ensure_ingress_host_available_def
    by (intro only_rules) (auto split: prod.split intro: only_rules)
  then show ?thesis
    unfolding apply_ingress_def reconcile_ingress_resource_def reconcile_ingress_resource_with_host_def apply_desired_ingress_def
    by (auto split: prod.split intro!: only_rules)
qed

lemma web_reach: "op_only (within_reach env app ns) (apply_web api env app ns p)"
  unfolding apply_web_def ensure_deployment_apply_target_is_owned_def ensure_service_apply_target_is_owned_def Let_def
  by (intro only_rules ingress_reach) simp_all

lemma scaling_reach: "op_only (within_reach env app ns) (apply_scaling api env app ns)"
proof -
  have "op_only (within_reach env app ns) (case plan of
      ApplyPlan hpa \<Rightarrow> op_bind (reconcile_hpa api ns (name_any app) hpa) (\<lambda>_. op_return [])
    | Unsupported reason message \<Rightarrow> op_return [build_condition app now AutoscalerReady CondFalse reason message])" for plan now
    unfolding reconcile_hpa_def by (cases plan) (simp_all only: autoscaler_plan.case, (intro only_rules; simp)+)
  then show ?thesis unfolding apply_scaling_def by (intro only_rules)
qed

lemma storage_sa_name:
  "build_storage_service_account app backend identity = Inr (Some m) \<Longrightarrow> om_name m = Some (name_any app @ ''-storage'')"
  by (auto simp: build_storage_service_account_def result_bind_Inr Let_def owned_meta_def split: option.splits)

lemma companions_reach: "op_only (within_reach env app ns) (apply_companions api env app ns p)"
  unfolding apply_companions_def apply_redis_workload_def reconcile_cache_deployment_def reconcile_cache_service_resource_def
    reconcile_worker_deployment_resource_def reconcile_grpc_service_def reconcile_storage_sa_def reconcile_mail_secret_def
    reconcile_i18n_configmap_def
  by (intro op_only_lift_bind only_rules early_mono(2) [OF service_account_reach])
    (auto simp: storage_sa_name build_mail_secret_def result_bind_Inr owned_meta_def)

lemma conditions_reach:
  "op_only (within_reach env app ns) (tls_condition api now app ns)"
  "op_only (within_reach env app ns) (autoscaler_condition api now app ns)"
  unfolding tls_condition_def autoscaler_condition_def Let_def by (intro only_rules; simp)+

lemma observed_reach: "op_only (within_reach env app ns) (observed_ready_replicas api ns n)"
  unfolding observed_ready_replicas_def by (intro only_rules) simp

lemma rollout_reach: "op_only (within_reach env app ns) (rollout api env app ns p m)"
  unfolding rollout_def Let_def
  by (intro op_only_bind op_only_return web_reach scaling_reach companions_reach observed_reach conditions_reach)

lemma deploy_reach: "app_namespace app = Some ns \<Longrightarrow> op_only (within_reach env app ns) (deploy api env app ns p)"
  unfolding deploy_def blocked_report_def
  using early_mono(2) [OF plugins_reach] early_mono(2) [OF security_reach] early_mono(3) [OF migration_reach]
  by (intro op_only_bind op_only_if op_only_return rollout_reach observed_reach)



section \<open>From requests to passes\<close>

text \<open>The requests of a pass are those of \<open>apply_requests\<close>, then reads and writes of a status.\<close>

lemma report_requests:
  assumes "write_report api app ns status ready previews ctx (w, l) = (r, ctx', w', l')"
  shows "\<exists>k. l' = l @ k \<and> (\<forall>c \<in> set k. (\<exists>p. fst c = PatchStatus ns (name_any app) p) \<or> (\<exists>sel. fst c = ListProjects (preview_ns app ns) sel))"
proof -
  let ?\<phi> = "\<lambda>c. (\<exists>p. c = PatchStatus ns (name_any app) p) \<or> (\<exists>sel. c = ListProjects (preview_ns app ns) sel)"
  let ?report = "op_kube (do_request (PatchStatus ns (name_any app) (serialize_status status))
    (k_patch_status api ns (name_any app) (serialize_status status)))"
  let ?rest = "if previews then reconcile_preview_status api app ns (preview_ns app ns) else op_return ()"
  have ran: "\<exists>r'. op_bind ?report (\<lambda>_. ?rest) (w, l) = (r', w', l')"
    using assms by (auto simp: write_report_def Let_def op_bind_def split: prod.splits sum.splits)
  have "op_only ?\<phi> (reconcile_preview_status api app ns (preview_ns app ns))"
    unfolding reconcile_preview_status_def Let_def by (intro only_rules) auto
  moreover have "op_only ?\<phi> ?report" by (intro only_rules) auto
  ultimately have "op_only ?\<phi> (op_bind ?report (\<lambda>_. ?rest))" by (intro op_only_bind op_only_if op_only_return)
  with ran show ?thesis unfolding op_only_def log_of_def by (metis snd_conv)
qed

lemma apply_project_log:
  assumes "apply_project api env app ns ctx (w, l) = (r, ctx', w', lg)"
  obtains res w1 l1 k where "apply_requests api env app ns (w, l) = (res, w1, l1)" "lg = l1 @ k"
    "\<forall>c \<in> set k. (\<exists>p. fst c = PatchStatus ns (name_any app) p) \<or> (\<exists>sel. fst c = ListProjects (preview_ns app ns) sel)"
proof -
  obtain res w1 l1 where run: "apply_requests api env app ns (w, l) = (res, w1, l1)" by (metis surj_pair)
  show ?thesis
  proof (cases "\<exists>status ready previews. res = Inr (Report status ready previews)")
    case False
    then have "lg = l1 @ []" using assms run by (cases res) (auto simp: apply_project_def split: pass_result.splits)
    with run show ?thesis using that by (metis empty_iff list.set(1))
  next
    case True
    then obtain status ready previews where "res = Inr (Report status ready previews)" by blast
    then have "write_report api app ns status ready previews ctx (w1, l1) = (r, ctx', w', lg)"
      using assms by (simp add: apply_project_def run)
    from report_requests [OF this] run that show ?thesis by blast
  qed
qed

section \<open>Order\<close>

text \<open>\<open>guarded safe danger l\<close>: before every dangerous request of the log the log was already safe.\<close>

definition guarded :: "(kube_log \<Rightarrow> bool) \<Rightarrow> (kube_call \<Rightarrow> bool) \<Rightarrow> kube_log \<Rightarrow> bool" where
  "guarded safe danger l \<longleftrightarrow> (\<forall>a c b. l = a @ c # b \<longrightarrow> danger (fst c) \<longrightarrow> safe a)"

lemma guarded_Nil: "guarded safe danger []"
  by (simp add: guarded_def)

lemma guarded_append:
  assumes "guarded safe danger l" and "(\<forall>c \<in> set k. \<not> danger (fst c)) \<or> safe l"
    and "\<And>a b. safe a \<Longrightarrow> safe (a @ b)"
  shows "guarded safe danger (l @ k)"
  unfolding guarded_def
proof (intro allI impI)
  fix a c b assume e: "l @ k = a @ c # b" and d: "danger (fst c)"
  show "safe a"
  proof (cases "length a < length l")
    case True
    with e have "l = a @ c # take (length l - Suc (length a)) b"
      by (smt (verit) append_eq_append_conv_if append_eq_conv_conj Cons_nth_drop_Suc drop_Suc_Cons take_Suc_Cons
          take_append diff_is_0_eq less_imp_le_nat take_all_iff append_Nil2 take_eq_Nil Suc_diff_Suc)
    with assms(1) d show ?thesis unfolding guarded_def by blast
  next
    case False
    with e obtain r where r: "a = l @ r" "k = r @ c # b" by (auto simp: append_eq_append_conv2)
    with d assms(2) have "safe l" by auto
    with assms(3) r(1) show ?thesis by simp
  qed
qed

lemma op_holds_conj: "op_holds l m P \<Longrightarrow> op_holds l m Q \<Longrightarrow> op_holds l m (\<lambda>r l'. P r l' \<and> Q r l')"
  by (simp add: op_holds_def)

lemma op_only_holds: "op_only \<phi> m \<Longrightarrow> op_holds l m (\<lambda>r l'. \<exists>k. l' = l @ k \<and> (\<forall>c \<in> set k. \<phi> (fst c)))"
  by (simp add: op_only_def op_holds_def)

lemma op_only_guarded:
  assumes "op_only \<phi> m" and "\<And>c. \<phi> c \<Longrightarrow> \<not> danger c" and "guarded safe danger l" and "\<And>a b. safe a \<Longrightarrow> safe (a @ b)"
  shows "op_holds l m (\<lambda>r l'. guarded safe danger l')"
proof (rule op_holds_mono [OF op_only_holds [OF assms(1)]])
  fix r l' assume "\<exists>k. l' = l @ k \<and> (\<forall>c \<in> set k. \<phi> (fst c))"
  with assms(2) show "guarded safe danger l'" using guarded_append [OF assms(3) _ assms(4)] by blast
qed

lemma safe_guarded:
  assumes "op_only \<phi> m" and "safe l" and "guarded safe danger l" and "\<And>a b. safe a \<Longrightarrow> safe (a @ b)"
  shows "op_holds l m (\<lambda>r l'. guarded safe danger l')"
proof (rule op_holds_mono [OF op_only_holds [OF assms(1)]])
  fix r l' assume "\<exists>k. l' = l @ k \<and> (\<forall>c \<in> set k. \<phi> (fst c))"
  with assms(2) show "guarded safe danger l'" using guarded_append [OF assms(3) _ assms(4)] by blast
qed

text \<open>The isolation of a project: its three network policies, its limits and the labels of its namespace are in place.\<close>

definition secured :: "operator_env \<Rightarrow> project \<Rightarrow> string \<Rightarrow> kube_log \<Rightarrow> bool" where
  "secured env app ns l \<longleftrightarrow>
     (\<exists>deny ingress egress limits network.
        build_default_deny_policy app = Inr deny \<and> build_app_ingress_policy app = Inr ingress
        \<and> network = unwrap_or network_isolation_default (Option.bind (ps_isolation (pj_spec app)) iso_network)
        \<and> build_managed_service_egress_policy app network = Inr egress
        \<and> build_limit_range app (pc_resources (oe_platform env)) = Inr limits
        \<and> {(ApplyObject ns (name_any app @ ''-deny-all'') (ObjNetworkPolicy deny), True),
           (ApplyObject ns (name_any app @ ''-allow-ingress'') (ObjNetworkPolicy ingress), True),
           (ApplyObject ns (name_any app @ ''-allow-egress'') (ObjNetworkPolicy egress), True),
           (ApplyObject ns (name_any app @ ''-limits'') (ObjLimitRange limits), True),
           (PatchNamespace ns pss_labels, True)} \<subseteq> set l)"

lemma secured_append: "secured env app ns a \<Longrightarrow> secured env app ns (a @ b)"
  unfolding secured_def by (elim exE) (intro exI, auto)

lemma security_secures:
  assumes "ps_isolation (pj_spec app) \<noteq> None"
  shows "op_holds l (apply_security api env app ns) (\<lambda>r l'. \<forall>x. r = Inr x \<longrightarrow> secured env app ns l')"
proof -
  let ?isolate = "op_bind (reconcile_network_policies api app ns) (\<lambda>_.
       op_bind (reconcile_resource_limits api app ns (pc_resources (oe_platform env))) (\<lambda>_.
       reconcile_pss_labels api ns))"
  have iso: "op_holds l ?isolate (\<lambda>r l'. \<forall>x. r = Inr x \<longrightarrow> secured env app ns l')" for l
    unfolding reconcile_network_policies_def reconcile_resource_limits_def reconcile_pss_labels_def patch_namespace_def
      apply_object_def Let_def
    by (rule op_rules | simp)+ (auto simp: secured_def)
  have eq: "apply_security api env app ns = op_bind (op_bind (op_lift (build_service_account app))
     (\<lambda>workload_sa. case workload_sa of None \<Rightarrow> op_return () | Some sa \<Rightarrow> reconcile_app_service_account api ns sa)) (\<lambda>_. ?isolate)"
    using assms by (simp add: apply_security_def)
  show ?thesis
    unfolding eq by (rule op_holds_bind [of _ _ "\<lambda>_ _. True"], simp add: op_holds_def, simp, rule iso)
qed

text \<open>What precedes the deployment makes no dangerous request.\<close>

lemma kaniko_not_migration: "build_job_for_status app b = Inr j \<Longrightarrow> \<not> starts_migration (CreateJob x j)"
  by (auto simp: build_job_for_status_def build_kaniko_job_def build_kaniko_job_for_branch_def result_bind_Inr job_pod_def
      Let_def split: option.splits if_splits build_target_kind.splits)

lemma early_bind:
  assumes "op_only (early_call env app ns) m" and "\<And>c. early_call env app ns c \<Longrightarrow> \<not> danger c"
    and "\<And>a b. safe a \<Longrightarrow> safe (a @ b)" and "guarded safe danger l"
    and "\<And>a l'. guarded safe danger l' \<Longrightarrow> op_holds l' (f a) (\<lambda>r l. guarded safe danger l)"
  shows "op_holds l (op_bind m f) (\<lambda>r l. guarded safe danger l)"
  by (rule op_holds_bind [OF op_only_guarded [OF assms(1,2,4,3)]]) (simp_all add: assms(5))

lemma apply_guarded:
  assumes early: "\<And>c. early_call env app ns c \<Longrightarrow> \<not> danger c" and mono: "\<And>a b. safe a \<Longrightarrow> safe (a @ b)"
    and redis: "\<And>l. guarded safe danger l \<Longrightarrow> op_holds l (apply_redis api env app ns) (\<lambda>r l. guarded safe danger l)"
    and deploys: "\<And>p l. guarded safe danger l \<Longrightarrow> op_holds l (deploy api env app ns p) (\<lambda>r l. guarded safe danger l)"
  shows "op_holds [] (apply_requests api env app ns) (\<lambda>r l. guarded safe danger l)"
proof -
  have bind: "op_holds l (op_bind m f) (\<lambda>r l. guarded safe danger l)"
    if "op_only (early_call env app ns) m" "guarded safe danger l"
      "\<And>a l'. guarded safe danger l' \<Longrightarrow> op_holds l' (f a) (\<lambda>r l. guarded safe danger l)"
    for l and m :: "('a, operator_error, 'c) kube_op" and f :: "'c \<Rightarrow> ('a, operator_error, 'b) kube_op"
    by (rule early_bind [OF that(1) _ _ that(2,3)]) (use early mono in blast)+
  have gate: "op_only (early_call env app ns) (source_build_gate (kube_of api) ns (preview_ns app ns) (\<lambda>i. oe_clock env (20 + i)) app)"
    by (rule source_build_only) (simp_all add: kaniko_not_migration [simplified])
  have "op_holds l (case g of Stop a \<Rightarrow> op_return (Finished a) | Proceed \<Rightarrow> deploy api env app ns p) (\<lambda>r l. guarded safe danger l)"
    if "guarded safe danger l" for g p l
    using that deploys by (cases g) (simp_all only: gate_result.case op_holds_return)
  then have "op_holds l (after_previews api env app ns p r) (\<lambda>r l. guarded safe danger l)" if "guarded safe danger l" for p r l
    using that unfolding after_previews_def
    by (cases r) (auto simp only: option.case intro!: op_holds_return op_holds_if bind [OF gate])
  then show ?thesis
    unfolding apply_requests_def
    by (intro bind [OF tenant_reach] op_holds_bind [OF redis] bind [OF secrets_reach] bind [OF previews_reach] guarded_Nil)
qed

lemma pass_guarded:
  assumes "op_holds [] (apply_requests api env app ns) (\<lambda>r l. guarded safe danger l)"
    and "apply_project api env app ns ctx (w, []) = (r, ctx', w', lg)"
    and "\<And>n p. \<not> danger (PatchStatus ns n p)" and "\<And>x s. \<not> danger (ListProjects x s)"
    and "\<And>a b. safe a \<Longrightarrow> safe (a @ b)"
  shows "guarded safe danger lg"
proof -
  obtain res w1 l1 k where run: "apply_requests api env app ns (w, []) = (res, w1, l1)" and lg: "lg = l1 @ k"
    and k: "\<forall>c \<in> set k. (\<exists>p. fst c = PatchStatus ns (name_any app) p) \<or> (\<exists>sel. fst c = ListProjects (preview_ns app ns) sel)"
    using assms(2) by (rule apply_project_log)
  have "\<forall>c \<in> set k. \<not> danger (fst c)" using k assms(3,4) by force
  with guarded_append [OF op_holdsD [OF assms(1) run] _ assms(5)] show ?thesis unfolding lg by blast
qed

text \<open>
  C8. The order of a pass over an isolated project: before a migration job is created, and before a deployment, an
  Ingress or an autoscaler is applied, the API server has accepted the three network policies of the
  project, its limits and the restricted labels of its namespace, in the same pass.
\<close>
theorem isolation_precedes_tenant_code:
  assumes "ps_isolation (pj_spec app) \<noteq> None" and "app_namespace app = Some ns"
    and "apply_project api env app ns ctx (w, []) = (r, ctx', w', lg)"
    and "lg = before @ (c, accepted) # after" and "starts_rollout c \<or> starts_migration c"
  shows "secured env app ns before"
proof -
  let ?danger = "\<lambda>c. starts_rollout c \<or> starts_migration c"
  let ?Q = "\<lambda>r l. guarded (secured env app ns) ?danger l"
  have "op_holds l (deploy api env app ns p) ?Q" if l: "guarded (secured env app ns) ?danger l" for l p
  proof -
    let ?rest = "op_bind (apply_migration api env app ns p) (\<lambda>m.
      if m = MRunning \<or> m = MFailed then blocked_report api env app ns p m else rollout api env app ns p m)"
    have rest: "op_only (within_reach env app ns) ?rest"
      unfolding blocked_report_def
      by (intro op_only_bind op_only_if op_only_return early_mono(3) [OF migration_reach] rollout_reach observed_reach assms(2))
    have sec: "op_holds l (apply_security api env app ns) (\<lambda>r l'. ?Q r l' \<and> (\<forall>x. r = Inr x \<longrightarrow> secured env app ns l'))"
      if "guarded (secured env app ns) ?danger l" for l
      by (rule op_holds_conj [OF op_only_guarded [OF security_reach _ that secured_append] security_secures [OF assms(1)]]) auto
    have "op_holds l (op_bind (apply_security api env app ns) (\<lambda>_. ?rest)) ?Q" if "guarded (secured env app ns) ?danger l" for l
      by (rule op_holds_bind [OF sec [OF that]]) (auto intro!: safe_guarded [OF rest] secured_append)
    then show ?thesis
      unfolding deploy_def by (intro early_bind [OF plugins_reach] l secured_append) auto
  qed
  then have "op_holds [] (apply_requests api env app ns) ?Q"
    by (intro apply_guarded secured_append op_only_guarded [OF redis_reach]) auto
  from pass_guarded [OF this assms(3)] have "guarded (secured env app ns) ?danger lg" by (simp add: secured_append)
  with assms(4,5) show ?thesis unfolding guarded_def by (metis fst_conv)
qed

section \<open>The migration gate\<close>

lemma op_holds_runs: "(\<And>w. op_runs (w, l) m (\<lambda>r w l'. Q r l')) \<Longrightarrow> op_holds l m Q"
  unfolding op_holds_def op_runs_def log_of_def by (metis (mono_tags, lifting) case_prod_beta)

text \<open>The answers of the API server about the migration job of a project never show a completed job.\<close>

definition never_migrated :: "'w operator_api \<Rightarrow> project \<Rightarrow> string \<Rightarrow> bool" where
  "never_migrated api app ns \<longleftrightarrow>
     (\<forall>w j w'. k_get_job api ns (migration_job_name app (migration_revision_key app)) w = (Inr (Some j), w') \<longrightarrow> \<not> job_completed j)"

lemma migration_unfinished:
  assumes "never_migrated api app ns"
  shows "op_holds l (reconcile_migration_job_resource api app ns platform p) (\<lambda>r l'. \<forall>m. r = Inr m \<longrightarrow> m = MRunning \<or> m = MFailed)"
proof (rule op_holds_runs)
  fix w
  show "op_runs (w, l) (reconcile_migration_job_resource api app ns platform p)
    (\<lambda>r w l'. \<forall>m. r = Inr m \<longrightarrow> m = MRunning \<or> m = MFailed)"
    unfolding reconcile_migration_job_resource_def Let_def
    by (rule run_rules | simp)+ (use assms in \<open>auto simp: never_migrated_def op_runs_def op_bind_def op_map_err_def do_request_def split: prod.splits sum.splits\<close>)
qed

lemma deploy_blocked:
  assumes ns: "app_namespace app = Some ns" and "should_provision_postgresql app" and "never_migrated api app ns"
    and l: "guarded (\<lambda>_. False) starts_rollout l"
  shows "op_holds l (deploy api env app ns p) (\<lambda>r l. guarded (\<lambda>_. False) starts_rollout l)"
proof -
  let ?Q = "\<lambda>r l. guarded (\<lambda>_. False) starts_rollout l"
  let ?rest = "op_bind (apply_migration api env app ns p) (\<lambda>m.
    if m = MRunning \<or> m = MFailed then blocked_report api env app ns p m else rollout api env app ns p m)"
  have state: "op_holds l (apply_migration api env app ns p) (\<lambda>r l'. \<forall>m. r = Inr m \<longrightarrow> m = MRunning \<or> m = MFailed)" for l
    using assms(2) unfolding apply_migration_def
    by (simp, intro op_holds_bind [of _ _ "\<lambda>_ _. True"] migration_unfinished assms(3)) (simp_all add: op_holds_def)
  have prior: "op_holds l (apply_migration api env app ns p) ?Q" if "?Q r l" for l and r :: nat
    by (rule op_only_guarded [OF migration_reach [OF ns]]) (use that in auto)
  have blocked: "op_holds l (blocked_report api env app ns p m) ?Q" if "?Q r l" for l m and r :: nat
    unfolding blocked_report_def observed_ready_replicas_def
    by (rule op_only_guarded [of "\<lambda>c. \<exists>x n. c = GetDeployment x n"], intro only_rules) (use that in auto)
  have "op_holds l ?rest ?Q" if l: "?Q r l" for l and r :: nat
    by (rule op_holds_bind [OF op_holds_conj [OF prior [OF l] state]]) (auto intro!: blocked)
  then show ?thesis
    unfolding deploy_def
    by (intro early_bind [OF plugins_reach] early_bind [OF security_reach] l) auto
qed

text \<open>
  C7. The migration gate: while the API server does not show a completed migration job for the current image
  and version of a project with a PostgreSQL database, no pass over the project applies a deployment, an
  Ingress or an autoscaler, whatever else the server answers.
\<close>
theorem migration_gates_rollout:
  assumes "app_namespace app = Some ns" and "should_provision_postgresql app" and "never_migrated api app ns"
    and "apply_project api env app ns ctx (w, []) = (r, ctx', w', lg)" and "c \<in> set lg"
  shows "\<not> starts_rollout (fst c)"
proof -
  have "op_holds [] (apply_requests api env app ns) (\<lambda>r l. guarded (\<lambda>_. False) starts_rollout l)"
    by (rule apply_guarded) (auto intro: deploy_blocked [OF assms(1,2,3)] op_only_guarded [OF redis_reach])
  from pass_guarded [OF this assms(4)] have "guarded (\<lambda>_. False) starts_rollout lg" by simp
  moreover obtain a b where "lg = a @ c # b" using assms(5) by (meson split_list)
  ultimately show ?thesis unfolding guarded_def by blast
qed

section \<open>Misplaced projects\<close>

text \<open>
  C19. A project whose tenant is malformed, or whose namespace is not that of its tenant: the pass makes one request,
  the record of the failure in the status of the project, and ends with that error, which the controller
  does not retry.
\<close>
theorem misplaced_project_untouched:
  assumes "validate_tenant_namespace (ps_tenant (pj_spec app)) ns = Inl err"
  shows "\<exists>accepted w'. apply_project api env app ns ctx (w, []) =
      (Inl (operator_tenant_error err), ctx, w',
       [(PatchStatus ns (name_any app) (build_degraded_status_patch app (oe_clock env 0)
           (fst (tenant_degraded_reason err)) (snd (tenant_degraded_reason err))), accepted)])
    \<and> backoff_class (Finalizer (OwnError (operator_tenant_error err))) = Permanent"
proof -
  obtain reason message where d: "tenant_degraded_reason err = (reason, message)" by (metis surj_pair)
  let ?p = "build_degraded_status_patch app (oe_clock env 0) reason message"
  obtain q w' where q: "k_patch_status api ns (name_any app) ?p w = (q, w')" by (metis surj_pair)
  have "apply_project api env app ns ctx (w, []) =
      (Inl (operator_tenant_error err), ctx, w', [(PatchStatus ns (name_any app) ?p, \<not> isl q)])"
    by (simp add: apply_project_def apply_requests_def apply_tenant_def assms d record_degraded_condition_def Let_def
        op_bind_def op_try_def do_request_def q)
  moreover have "backoff_class (Finalizer (OwnError (operator_tenant_error err))) = Permanent"
    by (cases err) (simp_all add: backoff_class.simps)
  ultimately show ?thesis unfolding d by auto
qed

section \<open>Somebody else's deployment\<close>

definition owned_elsewhere :: "'w operator_api \<Rightarrow> project \<Rightarrow> string \<Rightarrow> bool" where
  "owned_elsewhere api app ns \<longleftrightarrow>
     (\<forall>w q w'. k_get_deployment api ns (name_any app) w = (q, w') \<longrightarrow>
        (\<exists>d. q = Inr (Some d) \<and> \<not> existing_resource_is_controlled_by_project (dp_metadata d) app))"

definition touches_deployment :: "string \<Rightarrow> string \<Rightarrow> kube_call \<Rightarrow> bool" where
  "touches_deployment ns n c \<longleftrightarrow> starts_rollout c \<or> (\<exists>k v. c = PatchTemplateAnnotation ns n k v)"

lemma secrets_of_deployments [simp]: "k_get_deployment (secrets_of api) = k_get_deployment api"
  by (simp add: secret_api.defs)

lemma foreign_get:
  assumes "owned_elsewhere api app ns"
  obtains d w' where "k_get_deployment api ns (name_any app) w = (Inr (Some d), w')"
    "\<not> existing_resource_is_controlled_by_project (dp_metadata d) app"
proof -
  obtain q w' where "k_get_deployment api ns (name_any app) w = (q, w')" by (metis surj_pair)
  with assms that show ?thesis unfolding owned_elsewhere_def by blast
qed

lemma foreign_not_rolled:
  assumes "owned_elsewhere api app ns"
  shows "op_holds l (roll_consumer (secrets_of api) ns app uid (name_any app)) (\<lambda>r l'. l' = l @ [(GetDeployment ns (name_any app), True)])"
  unfolding op_holds_def log_of_def
proof
  fix w
  obtain d w' where g: "k_get_deployment api ns (name_any app) w = (Inr (Some d), w')"
    "\<not> existing_resource_is_controlled_by_project (dp_metadata d) app" using foreign_get [OF assms] .
  then show "snd (snd (roll_consumer (secrets_of api) ns app uid (name_any app) (w, l))) = l @ [(GetDeployment ns (name_any app), True)]"
    by (simp add: roll_consumer_def op_bind_def op_map_err_def do_request_def)
qed

lemma foreign_not_applied:
  assumes "owned_elsewhere api app ns"
  shows "op_holds l (apply_web api env app ns p) (\<lambda>r l'. isl r \<and> l' = l @ [(GetDeployment ns (name_any app), True)])"
  unfolding op_holds_def log_of_def
proof
  fix w
  obtain d w' where g: "k_get_deployment api ns (name_any app) w = (Inr (Some d), w')"
    "\<not> existing_resource_is_controlled_by_project (dp_metadata d) app" using foreign_get [OF assms] .
  then have "apply_web api env app ns p (w, l) = (Inl (ownership_conflict_error ''Deployment'' ns (name_any app) app), w',
      l @ [(GetDeployment ns (name_any app), True)])"
    by (simp add: apply_web_def ensure_deployment_apply_target_is_owned_def Let_def op_bind_def op_try_def do_request_def)
  then show "isl (fst (apply_web api env app ns p (w, l)))
      \<and> snd (snd (apply_web api env app ns p (w, l))) = l @ [(GetDeployment ns (name_any app), True)]" by simp
qed

lemma no_touch_append:
  "guarded (\<lambda>_. False) danger l \<Longrightarrow> (\<And>c. \<phi> c \<Longrightarrow> \<not> danger c) \<Longrightarrow> op_only \<phi> m \<Longrightarrow> op_holds l m (\<lambda>r l. guarded (\<lambda>_. False) danger l)"
  by (rule op_only_guarded [of \<phi>]) auto

lemma redis_keeps_foreign:
  assumes "owned_elsewhere api app ns" and l: "guarded (\<lambda>_. False) (touches_deployment ns (name_any app)) l"
  shows "op_holds l (apply_redis api env app ns) (\<lambda>r l. guarded (\<lambda>_. False) (touches_deployment ns (name_any app)) l)"
proof -
  let ?danger = "touches_deployment ns (name_any app)"
  let ?Q = "\<lambda>r l. guarded (\<lambda>_. False) ?danger l"
  have secret_part: "op_only (\<lambda>c. \<not> ?danger c) (reconcile_redis_credentials_secret (secrets_of api) sha draws ns app)" for sha draws
    unfolding reconcile_redis_credentials_secret_def adopt_redis_credentials_def create_redis_credentials_def
      enforce_redis_credentials_metadata_def patch_redis_credentials_provenance_def get_secret_def create_secret_def Let_def
    by (intro only_rules) (simp_all add: touches_deployment_def)
  have others: "op_only (\<lambda>c. \<not> ?danger c) (roll_consumer (secrets_of api) ns app uid (name_any app @ x))" if "x \<noteq> []" for uid x
    unfolding roll_consumer_def using that by (intro only_rules) (simp_all add: touches_deployment_def)
  have own: "op_holds l (roll_consumer (secrets_of api) ns app uid (name_any app)) ?Q" if "?Q r l" for uid l and r :: nat
  proof (rule op_holds_mono [OF foreign_not_rolled [OF assms(1)]])
    fix r l' assume "l' = l @ [(GetDeployment ns (name_any app), True)]"
    then show "?Q r l'" using guarded_append [OF that, of "[(GetDeployment ns (name_any app), True)]"]
      by (simp add: touches_deployment_def)
  qed
  have roll: "op_holds l (roll_redis_credential_consumers (secrets_of api) ns app uid) ?Q" if "?Q r l" for uid l and r :: nat
    unfolding roll_redis_credential_consumers_def
    by (rule op_holds_bind [OF own [OF that]], simp)
       (rule op_holds_bind [OF no_touch_append [OF _ _ others]], auto intro!: no_touch_append [OF _ _ others])
  show ?thesis
    unfolding apply_redis_def using l
    by (auto intro!: op_holds_return op_holds_bind [OF no_touch_append [OF l _ secret_part]] op_holds_bind [OF roll])
qed

text \<open>
  C17. A deployment of the name of a project that another owner controls is left alone: as long as the API server
  shows it, no pass over the project applies a deployment, an Ingress or an autoscaler, and none rolls
  the pods of that deployment.
\<close>
theorem foreign_deployment_kept:
  assumes "app_namespace app = Some ns" and "owned_elsewhere api app ns"
    and "apply_project api env app ns ctx (w, []) = (r, ctx', w', lg)" and "c \<in> set lg"
  shows "\<not> touches_deployment ns (name_any app) (fst c)"
proof -
  let ?danger = "touches_deployment ns (name_any app)"
  let ?Q = "\<lambda>r l. guarded (\<lambda>_. False) ?danger l"
  have rolls: "\<not> rolls_pods c \<Longrightarrow> \<not> starts_rollout c \<Longrightarrow> \<not> ?danger c" for c
    by (auto simp: touches_deployment_def)
  have early: "early_call env app ns c \<Longrightarrow> \<not> ?danger c" "prior_call env app ns c \<Longrightarrow> \<not> ?danger c" for c
    using rolls by auto
  have roll: "op_holds l (rollout api env app ns p m) ?Q" if "?Q r l" for l p m and r :: nat
    unfolding rollout_def
  proof (rule op_holds_bind [OF foreign_not_applied [OF assms(2)]])
    fix e l' assume "isl (Inl e :: operator_error + unit) \<and> l' = l @ [(GetDeployment ns (name_any app), True)]"
    then show "?Q (Inl e :: operator_error + pass_result) l'"
      using guarded_append [OF that, of "[(GetDeployment ns (name_any app), True)]"] by (simp add: touches_deployment_def)
  qed simp
  have blocked: "op_holds l (blocked_report api env app ns p m) ?Q" if "?Q r l" for l p m and r :: nat
    unfolding blocked_report_def observed_ready_replicas_def
    by (rule no_touch_append [of _ _ "\<lambda>c. \<exists>x n. c = GetDeployment x n", OF that], force simp: touches_deployment_def, intro only_rules) blast
  have "op_holds l (deploy api env app ns p) ?Q" if "?Q r l" for l p and r :: nat
    unfolding deploy_def
    by (intro early_bind [OF plugins_reach] early_bind [OF security_reach] early(1) that op_holds_if
          op_holds_bind [OF op_only_guarded [OF migration_reach [OF assms(1)] early(2)]] blocked roll) auto
  then have "op_holds [] (apply_requests api env app ns) ?Q"
    by (intro apply_guarded early(1) redis_keeps_foreign [OF assms(2)]) auto
  from pass_guarded [OF this assms(3)] have "guarded (\<lambda>_. False) ?danger lg" by (simp add: touches_deployment_def)
  moreover obtain a b where "lg = a @ c # b" using assms(4) by (meson split_list)
  ultimately show ?thesis unfolding guarded_def by blast
qed

section \<open>Redis credentials\<close>

text \<open>The pods that an object or a job starts carry the identifier of the credentials they read.\<close>

definition stamped_with :: "string \<Rightarrow> kube_call \<Rightarrow> bool" where
  "stamped_with uid c \<longleftrightarrow>
     (\<forall>x n d. c = ApplyObject x n (ObjDeployment d) \<longrightarrow>
        Option.bind (dp_spec d) (\<lambda>s. stamped_redis_credentials_uid (ds_template s)) = Some uid)
     \<and> (\<forall>x j. c = CreateJob x j \<longrightarrow> starts_migration c \<longrightarrow>
          Option.bind (jb_spec j) (\<lambda>s. stamped_redis_credentials_uid (jsp_template s)) = Some uid)"


lemma stamped_template [simp]: "stamped_redis_credentials_uid (stamp_template uid t) = Some uid"
  by (simp add: stamped_redis_credentials_uid_def stamp_template_def Let_def)




lemma stamped_simps [simp]:
  "stamped_with uid (GetDeployment x n)" "stamped_with uid (GetMeta k x n)" "stamped_with uid ListIngresses"
  "stamped_with uid (GetIngress x n)" "stamped_with uid (GetAutoscaler x n)" "stamped_with uid (GetSecret x n)"
  "stamped_with uid (GetJob x n)" "stamped_with uid (DeleteJobOf x n u)" "stamped_with uid (CreateSecret x s)"
  "stamped_with uid (ApplyObject x n (ObjService svc))" "stamped_with uid (ApplyObject x n (ObjIngress i))"
  "stamped_with uid (ApplyObject x n (ObjAutoscaler h))" "stamped_with uid (ApplyObject x n (ObjConfigMap cm))"
  "stamped_with uid (ApplyObject x n (ObjServiceAccount m))"
  by (simp_all add: stamped_with_def)











section \<open>Two gaps\<close>

text \<open>
  The apply of the web deployment asks first whether an existing one belongs to the project. The apply of the worker
  deployment does not: it is the only request, made whatever carries that name.
\<close>

lemma worker_applied_unchecked:
  "op_only (\<lambda>c. \<exists>d. c = ApplyObject ns (name_any app @ ''-worker'') (ObjDeployment d))
     (reconcile_worker_deployment_resource api app ns platform p)"
  unfolding reconcile_worker_deployment_resource_def by (intro only_rules) simp

text \<open>
  Two projects of a namespace whose names agree on the characters that fit, and which run the same image and version,
  share one migration job: the completed job of the first opens the gate of the second, whose database was not migrated.
\<close>

lemma neighbours_share_migration:
  assumes "migration_revision_key app = migration_revision_key other"
    and "take_chars 38 (name_any app) = take_chars 38 (name_any other)"
    and "k_get_job api ns (migration_job_name other (migration_revision_key other)) w = (Inr (Some j), w')"
    and "job_completed j"
  shows "reconcile_migration_job_resource api app ns platform p (w, l)
    = (Inr MSucceeded, w', l @ [(GetJob ns (migration_job_name other (migration_revision_key other)), True)])"
proof -
  have "JOB_NAME_MAX_LEN - length (''-migrate-'' @ migration_revision_id (migration_revision_key other)) = 38"
    by (simp add: JOB_NAME_MAX_LEN_def migration_revision_id_def REVISION_ID_HEX_LEN_def)
  then have "migration_job_name app (migration_revision_key app) = migration_job_name other (migration_revision_key other)"
    using assms(1,2) by (simp add: migration_job_name_def Let_def)
  then show ?thesis
    using assms(3,4) by (simp add: reconcile_migration_job_resource_def Let_def op_bind_def op_map_err_def do_request_def)
qed

section \<open>Witnesses\<close>

definition still_api :: "(string \<Rightarrow> job option) \<Rightarrow> (string \<Rightarrow> deployment option) \<Rightarrow> unit operator_api" where
  "still_api jobs deployments =
     \<lparr>k_get_job = \<lambda>_ n w. (Inr (jobs n), w), k_create_job = \<lambda>_ j w. (Inr j, w), k_delete_job = \<lambda>_ _ w. (Inr (), w),
      k_patch_status = \<lambda>_ _ _ w. (Inr (), w), k_patch_project = \<lambda>_ _ _ w. (Inr (), w),
      k_apply_project = \<lambda>_ _ _ w. (Inr (), w), k_list_projects = \<lambda>_ _ w. (Inr [], w),
      k_delete_project = \<lambda>_ _ _ w. (Inr (), w), k_get_namespace = \<lambda>_ w. (Inr None, w),
      k_delete_namespace = \<lambda>_ _ w. (Inr (), w), k_get_meta = \<lambda>_ _ _ w. (Inr None, w),
      k_delete_meta = \<lambda>_ _ _ _ w. (Inr (), w), k_list_jobs = \<lambda>_ _ w. (Inr [], w),
      k_patch_status_at = \<lambda>_ _ _ _ w. (Inr (), w), k_get_secret = \<lambda>_ _ w. (Inr None, w),
      k_create_secret = \<lambda>_ s w. (Inr (s\<lparr>se_metadata := (se_metadata s)\<lparr>om_uid := Some ''u2''\<rparr>\<rparr>), w),
      k_patch_secret = \<lambda>_ _ _ w. (Inr (), w), k_delete_secret = \<lambda>_ _ _ w. (Inr (), w),
      k_get_deployment = \<lambda>_ n w. (Inr (deployments n), w), k_patch_template_annotation = \<lambda>_ _ _ _ w. (Inr (), w),
      k_apply = \<lambda>_ _ _ w. (Inr (), w), k_list_ingresses = \<lambda>w. (Inr [], w), k_get_ingress = \<lambda>_ _ w. (Inr None, w),
      k_get_autoscaler = \<lambda>_ _ w. (Inr None, w), k_patch_namespace = \<lambda>_ _ w. (Inr (), w),
      k_create_namespace = \<lambda>_ _ w. (Inr (), w), k_delete_job_of = \<lambda>_ _ _ w. (Inr (), w)\<rparr>"

lemma still_simps [simp]:
  "k_get_job (still_api jobs ds) ns n w = (Inr (jobs n), w)" "k_create_job (still_api jobs ds) ns j w = (Inr j, w)"
  "k_patch_status (still_api jobs ds) ns n p w = (Inr (), w)" "k_get_meta (still_api jobs ds) k ns n w = (Inr None, w)"
  "k_get_secret (still_api jobs ds) ns n w = (Inr None, w)"
  "k_create_secret (still_api jobs ds) ns s w = (Inr (s\<lparr>se_metadata := (se_metadata s)\<lparr>om_uid := Some ''u2''\<rparr>\<rparr>), w)"
  "k_get_deployment (still_api jobs ds) ns n w = (Inr (ds n), w)"
  "k_apply (still_api jobs ds) ns n obj w = (Inr (), w)" "k_patch_namespace (still_api jobs ds) n l w = (Inr (), w)"
  by (simp_all add: still_api_def)

text \<open>An operator on premises, with its default settings; the digest and the encodings are concrete functions.\<close>

definition still_env :: operator_env where
  "still_env = \<lparr>oe_platform = onprem_defaults, oe_preview = preview_config_from_env None None None, oe_manage_lifecycle = False,
     oe_host_suffixes = None, oe_sha256 = id, oe_base64 = id, oe_toml = \<lambda>_. Inr [], oe_parse_rfc3339 = \<lambda>_. None,
     oe_show_error = \<lambda>_. ''refused'', oe_redis_draws = replicate 32 7, oe_db_draws = replicate 32 7, oe_core_key = ''k1'',
     oe_jwt_key = ''k2'', oe_clock = \<lambda>_. ''2025-01-01T00:00:00Z'', oe_now = \<lambda>_. 0\<rparr>"

definition idle_operator :: operator_state where
  "idle_operator = \<lparr>backoff_state = \<lambda>_. None, phase_state = \<lambda>_. None, managed_apps = \<lambda>_. 0, requeue_total = \<lambda>_. 0,
     managed_apps_ready_replicas = \<lambda>_. None, managed_apps_desired_replicas = \<lambda>_. None\<rparr>"

text \<open>A project without a tenant, Redis, JWT, source or annotations.\<close>

definition plain :: "project \<Rightarrow> bool" where
  "plain app \<longleftrightarrow> ps_tenant (pj_spec app) = None \<and> \<not> should_provision_cache app \<and> \<not> needs_redis_sessions app
     \<and> ps_auth (pj_spec app) = None \<and> ps_source (pj_spec app) = None \<and> om_annotations (pj_metadata app) = None \<and> pj_status app = None"

lemma plain_front:
  assumes "plain app"
  shows "apply_requests (still_api jobs ds) env app ns ((), l) = deploy (still_api jobs ds) env app ns None
    ((), l @ [(GetSecret ns (name_any app @ ''-core-secret-key''), True),
      (CreateSecret ns (build_core_secret_key_secret (oe_base64 env) (oe_core_key env) (name_any app) ns), True)])"
proof -
  have gate: "source_build_gate (kube_of (still_api jobs ds)) ns p clock app s = (Inr Proceed, s)" for p clock s
    using assms by (cases s) (simp add: plain_def source_build_gate_def reconcile_source_build_def ignored_preview_request_def
        annotation_value_def derive_new_build_status_def should_build_from_source_def blocking_failed_build_status_def
        active_build_status_def app_build_def filter_option_def op_bind_def)
  show ?thesis
    using assms
    by (simp add: plain_def apply_requests_def apply_tenant_def validate_tenant_namespace_def apply_redis_def apply_secrets_def
        create_secret_once_def read_secret_def create_generated_secret_def should_warn_missing_credentials_def apply_previews_def
        previews_enabled_def reconcile_preview_delete_action_def annotation_value_def after_previews_def gate Let_def
        op_bind_def op_map_err_def op_try_def do_request_def)
qed

definition isolated_project :: project where
  "isolated_project = sample_project\<lparr>pj_spec := (pj_spec sample_project)\<lparr>
     ps_isolation := Some \<lparr>iso_level = Sandbox, iso_network = None, iso_runtime_class_override = None\<rparr>\<rparr>\<rparr>"

lemma isolated_project_simps [simp]:
  "plain isolated_project" "name_any isolated_project = ''shop''" "app_namespace isolated_project = Some ''prod''"
  "require_namespace isolated_project = Inr ''prod''" "\<exists>r. owner_reference_of isolated_project = Inr r"
  "ps_isolation (pj_spec isolated_project) = Some \<lparr>iso_level = Sandbox, iso_network = None, iso_runtime_class_override = None\<rparr>"
  "ps_plugins (pj_spec isolated_project) = None" "ps_service_account (pj_spec isolated_project) = None"
  "\<not> should_provision_postgresql isolated_project" "ps_database (pj_spec isolated_project) = None"
  by (simp_all add: isolated_project_def sample_project_def name_any_def app_namespace_def require_namespace_def
      owner_reference_of_def project_spec_default_def plain_def should_provision_cache_def needs_redis_sessions_def signalled_def
      should_provision_postgresql_def object_meta_default_def)

lemma isolated_parts:
  "resolve_pages_config isolated_project = None" "build_plugin_configmap toml isolated_project = Inr None"
  "build_service_account isolated_project = Inr None" "resolve_ingress_config isolated_project = None"
  "ps_services (pj_spec isolated_project) = None" "build_autoscaler isolated_project = Inr None"
  "ps_scale (pj_spec isolated_project) = None" "previews_enabled isolated_project = False"
  "should_provision_worker isolated_project = False" "should_provision_storage isolated_project = False"
  "should_provision_mail isolated_project = False" "signalled isolated_project f = False"
  "should_provision_cache isolated_project = False" "needs_redis_sessions isolated_project = False"
  by (simp_all add: resolve_pages_config_def should_enable_pages_def build_plugin_configmap_def build_service_account_def
      resolve_ingress_config_def build_autoscaler_def previews_enabled_def isolated_project_def sample_project_def
      project_spec_default_def signalled_def should_provision_worker_def should_provision_storage_def should_provision_mail_def
      should_provision_cache_def needs_redis_sessions_def)

lemma isolated_builds:
  "\<exists>d. build_deployment isolated_project None platform = Inr d" "\<exists>s. build_service isolated_project False = Inr s"
  "\<exists>x. build_default_deny_policy isolated_project = Inr x" "\<exists>x. build_app_ingress_policy isolated_project = Inr x"
  "\<exists>x. build_managed_service_egress_policy isolated_project n = Inr x" "\<exists>x. build_limit_range isolated_project lr = Inr x"
proof -
  obtain r where r: "owner_reference_of isolated_project = Inr r" using isolated_project_simps(5) by blast
  have v: "build_plugin_volumes isolated_project = Inr ([], [])" by (simp add: build_plugin_volumes_def)
  have p: "build_main_container_probe isolated_project port = Inr None" "validated_image_pull_secrets isolated_project = Inr None" for port
    by (simp_all add: build_main_container_probe_def validated_image_pull_secrets_def isolated_project_def sample_project_def
        project_spec_default_def)
  show "\<exists>d. build_deployment isolated_project None platform = Inr d"
    by (simp add: build_deployment_def Let_def r v p isolated_parts validate_port_8000 pages_parts_def)
  show "\<exists>s. build_service isolated_project False = Inr s"
    by (simp add: build_service_def Let_def r isolated_parts validate_port_8000)
  show "\<exists>x. build_default_deny_policy isolated_project = Inr x" "\<exists>x. build_app_ingress_policy isolated_project = Inr x"
    "\<exists>x. build_managed_service_egress_policy isolated_project n = Inr x" "\<exists>x. build_limit_range isolated_project lr = Inr x"
    by (simp_all add: build_default_deny_policy_def build_app_ingress_policy_def build_managed_service_egress_policy_def
        build_limit_range_def r)
qed

text \<open>A whole pass over the isolated project when the server accepts everything.\<close>

lemma isolated_pass:
  "\<exists>d before after. fst (apply_project (still_api jobs (\<lambda>_. None)) env isolated_project ''prod'' ctx ((), [])) = Inr (Some AwaitChange)
     \<and> snd (snd (snd (apply_project (still_api jobs (\<lambda>_. None)) env isolated_project ''prod'' ctx ((), []))))
        = before @ (ApplyObject ''prod'' ''shop'' (ObjDeployment d), True) # after"
proof -
  obtain d s deny ingress egress limits where b: "build_deployment isolated_project None (pc_platform (oe_platform env)) = Inr d"
    "build_service isolated_project False = Inr s" "build_default_deny_policy isolated_project = Inr deny"
    "build_app_ingress_policy isolated_project = Inr ingress"
    "build_managed_service_egress_policy isolated_project network_isolation_default = Inr egress"
    "build_limit_range isolated_project (pc_resources (oe_platform env)) = Inr limits"
    using isolated_builds by metis
  let ?l = "[(GetSecret ''prod'' ''shop-core-secret-key'', True),
      (CreateSecret ''prod'' (build_core_secret_key_secret (oe_base64 env) (oe_core_key env) ''shop'' ''prod''), True)]"
  let ?before = "?l @ [(ApplyObject ''prod'' ''shop-deny-all'' (ObjNetworkPolicy deny), True),
     (ApplyObject ''prod'' ''shop-allow-ingress'' (ObjNetworkPolicy ingress), True),
     (ApplyObject ''prod'' ''shop-allow-egress'' (ObjNetworkPolicy egress), True),
     (ApplyObject ''prod'' ''shop-limits'' (ObjLimitRange limits), True), (PatchNamespace ''prod'' pss_labels, True),
     (GetDeployment ''prod'' ''shop'', True)]"
  let ?after = "[(GetMeta ''Service'' ''prod'' ''shop'', True), (ApplyObject ''prod'' ''shop'' (ObjService s), True),
     (GetDeployment ''prod'' ''shop'', True)]"
  have "\<exists>st. deploy (still_api jobs (\<lambda>_. None)) env isolated_project ''prod'' None ((), ?l)
      = (Inr (Report st 0 False), (), ?before @ (ApplyObject ''prod'' ''shop'' (ObjDeployment d), True) # ?after)"
    by (simp add: deploy_def apply_plugins_def isolated_parts apply_security_def reconcile_network_policies_def
        reconcile_resource_limits_def reconcile_pss_labels_def patch_namespace_def apply_migration_def provision_database_def
        rollout_def apply_web_def ensure_deployment_apply_target_is_owned_def ensure_service_apply_target_is_owned_def
        apply_ingress_def apply_scaling_def apply_companions_def observed_ready_replicas_def tls_condition_def
        autoscaler_condition_def b apply_object_def stamp_deployment_def Let_def op_bind_def op_map_err_def op_try_def do_request_def)
  then obtain st where st: "deploy (still_api jobs (\<lambda>_. None)) env isolated_project ''prod'' None ((), ?l)
      = (Inr (Report st 0 False), (), ?before @ (ApplyObject ''prod'' ''shop'' (ObjDeployment d), True) # ?after)" by blast
  have "apply_requests (still_api jobs (\<lambda>_. None)) env isolated_project ''prod'' ((), [])
      = (Inr (Report st 0 False), (), ?before @ (ApplyObject ''prod'' ''shop'' (ObjDeployment d), True) # ?after)"
    using plain_front [of isolated_project jobs "\<lambda>_. None" env "''prod''" "[]"] st by simp
  then show ?thesis
    by (simp add: apply_project_def write_report_def Let_def op_map_err_def do_request_def)
      (intro exI [of _ d] exI [of _ ?before] exI; simp)
qed

lemma run_parts: "x = (fst x, fst (snd x), fst (snd (snd x)), snd (snd (snd x)))"
  by simp


theorem isolation_precedes_tenant_code_witness:
  "\<exists>d before after. snd (snd (snd (apply_project (still_api (\<lambda>_. None) (\<lambda>_. None)) still_env isolated_project ''prod'' idle_operator ((), []))))
       = before @ (ApplyObject ''prod'' ''shop'' (ObjDeployment d), True) # after
     \<and> secured still_env isolated_project ''prod'' before"
proof -
  obtain d before after where lg: "snd (snd (snd (apply_project (still_api (\<lambda>_. None) (\<lambda>_. None)) still_env isolated_project ''prod'' idle_operator ((), []))))
      = before @ (ApplyObject ''prod'' ''shop'' (ObjDeployment d), True) # after"
    using isolated_pass [of "\<lambda>_. None" still_env idle_operator] by blast
  from isolation_precedes_tenant_code [OF _ _ run_parts lg] lg show ?thesis by auto
qed

lemma introspected_plain: "plain introspected_project" "app_namespace introspected_project = Some ''prod''"
  "should_provision_postgresql introspected_project"
  by (simp_all add: plain_def introspected_project_def sample_project_def project_spec_default_def should_provision_cache_def
      needs_redis_sessions_def signalled_def requires_cache_def requires_redis_sessions_def infra_signals_default_def
      object_meta_default_def app_namespace_def should_provision_postgresql_def requires_postgresql_def)

lemma plain_pass_reads:
  assumes "plain app" and "app_namespace app = Some ns"
  shows "(GetSecret ns (name_any app @ ''-core-secret-key''), True)
    \<in> set (snd (snd (snd (apply_project (still_api jobs ds) env app ns ctx ((), [])))))"
proof -
  let ?api = "still_api jobs ds"
  let ?k = "[(GetSecret ns (name_any app @ ''-core-secret-key''), True),
      (CreateSecret ns (build_core_secret_key_secret (oe_base64 env) (oe_core_key env) (name_any app) ns), True)]"
  obtain res w1 l1 k where run: "apply_requests ?api env app ns ((), []) = (res, w1, l1)"
    and lg: "snd (snd (snd (apply_project ?api env app ns ctx ((), [])))) = l1 @ k"
    by (rule apply_project_log [OF run_parts])
  from run have d: "deploy ?api env app ns None ((), [] @ ?k) = (res, w1, l1)" unfolding plain_front [OF assms(1)] .
  obtain k' where "log_of (deploy ?api env app ns None ((), [] @ ?k)) = ([] @ ?k) @ k'"
    using deploy_reach [OF assms(2), of env ?api None] unfolding op_only_def by blast
  then have "l1 = ?k @ k'" unfolding d log_of_def by simp
  then show ?thesis unfolding lg by simp
qed

theorem migration_gates_rollout_witness:
  "\<exists>c \<in> set (snd (snd (snd (apply_project (still_api (\<lambda>_. None) (\<lambda>_. None)) still_env introspected_project ''prod'' idle_operator ((), []))))).
     \<not> starts_rollout (fst c)"
proof -
  have n: "never_migrated (still_api (\<lambda>_. None) (\<lambda>_. None)) introspected_project ''prod''" by (simp add: never_migrated_def)
  let ?c = "(GetSecret ''prod'' (name_any introspected_project @ ''-core-secret-key''), True)"
  show ?thesis
  proof (rule bexI)
    show "\<not> starts_rollout (fst ?c)"
      by (rule migration_gates_rollout [OF introspected_plain(2,3) n run_parts plain_pass_reads [OF introspected_plain(1,2)]])
    show "?c \<in> set (snd (snd (snd (apply_project (still_api (\<lambda>_. None) (\<lambda>_. None)) still_env introspected_project ''prod'' idle_operator ((), [])))))"
      by (rule plain_pass_reads [OF introspected_plain(1,2)])
  qed
qed

definition misplaced_project :: project where
  "misplaced_project = sample_project\<lparr>pj_spec := (pj_spec sample_project)\<lparr>ps_tenant := Some acme\<rparr>\<rparr>"

lemma misplaced_tenant:
  "validate_tenant_namespace (ps_tenant (pj_spec misplaced_project)) ''prod'' = Inl (TenantMismatch ''tenant-acme'' ''prod'')"
proof -
  have "dns_label ''acme''" "dns_label ''tenant-acme''"
    by (simp_all add: dns_label_def dns_char_def is_dns_1123_alphanumeric_def str_simps)
  then have "validate_tenant acme = Inr ()"
    by (simp add: validate_tenant_def acme_def tenant_namespace_def TENANT_NAMESPACE_PREFIX_def
        validate_dns_1123_label_iff [THEN iffD2] Let_def)
  then show ?thesis
    by (simp add: misplaced_project_def validate_tenant_namespace_def acme_def tenant_namespace_def TENANT_NAMESPACE_PREFIX_def)
qed

theorem misplaced_project_untouched_witness:
  "\<exists>s. apply_project (still_api (\<lambda>_. None) (\<lambda>_. None)) still_env misplaced_project ''prod'' idle_operator ((), [])
     = (Inl (ETenantMismatch ''tenant-acme'' ''prod''), idle_operator, s)"
  using misplaced_project_untouched [OF misplaced_tenant, of "still_api (\<lambda>_. None) (\<lambda>_. None)" still_env idle_operator "()"]
  by (simp only: operator_tenant_error.simps) blast

definition foreign_deployment :: deployment where
  "foreign_deployment = \<lparr>dp_metadata = object_meta_default\<lparr>om_name := Some ''shop''\<rparr>, dp_spec = None, dp_ready_replicas = None\<rparr>"

theorem foreign_deployment_kept_witness:
  "\<exists>c \<in> set (snd (snd (snd (apply_project (still_api (\<lambda>_. None) (\<lambda>_. Some foreign_deployment)) still_env isolated_project ''prod'' idle_operator ((), []))))).
     \<not> touches_deployment ''prod'' (name_any isolated_project) (fst c)"
proof -
  have o: "owned_elsewhere (still_api (\<lambda>_. None) (\<lambda>_. Some foreign_deployment)) isolated_project ''prod''"
    by (simp add: owned_elsewhere_def existing_resource_is_controlled_by_project_def foreign_deployment_def object_meta_default_def
        split: option.split)
  let ?c = "(GetSecret ''prod'' (name_any isolated_project @ ''-core-secret-key''), True)"
  show ?thesis
  proof (rule bexI)
    show "\<not> touches_deployment ''prod'' (name_any isolated_project) (fst ?c)"
      by (rule foreign_deployment_kept [OF isolated_project_simps(3) o run_parts plain_pass_reads [OF isolated_project_simps(1,3)]])
    show "?c \<in> set (snd (snd (snd (apply_project (still_api (\<lambda>_. None) (\<lambda>_. Some foreign_deployment)) still_env isolated_project ''prod'' idle_operator ((), [])))))"
      by (rule plain_pass_reads [OF isolated_project_simps(1,3)])
  qed
qed

text \<open>A project with a cache and no credentials secret yet: the pass creates one and applies the web deployment.\<close>

definition cached_project :: project where
  "cached_project = sample_project\<lparr>pj_spec := (pj_spec sample_project)\<lparr>
     ps_cache := Some \<lparr>cache_backend = Redis, cache_instance_type = None\<rparr>\<rparr>\<rparr>"

lemma cached_parts [simp]:
  "should_provision_cache cached_project" "name_any cached_project = ''shop''" "app_namespace cached_project = Some ''prod''"
  "ps_tenant (pj_spec cached_project) = None"
  "ps_auth (pj_spec cached_project) = None" "ps_source (pj_spec cached_project) = None" "om_annotations (pj_metadata cached_project) = None"
  "pj_status cached_project = None" "om_resource_version (pj_metadata cached_project) = None"
  "ps_plugins (pj_spec cached_project) = None" "ps_isolation (pj_spec cached_project) = None"
  "build_plugin_configmap toml cached_project = Inr None" "build_service_account cached_project = Inr None"
  "previews_enabled cached_project = False" "ps_database (pj_spec cached_project) = None" "\<not> should_provision_postgresql cached_project"
  "resolve_pages_config cached_project = None"
  by (simp_all add: cached_project_def sample_project_def project_spec_default_def should_provision_cache_def name_any_def
      app_namespace_def validate_tenant_namespace_def object_meta_default_def build_plugin_configmap_def build_service_account_def
      previews_enabled_def should_provision_postgresql_def signalled_def resolve_pages_config_def should_enable_pages_def)







end
