(* ===== verification/WebhookProps.thy ===== *)
theory WebhookProps
  imports GithubImport ApplyProps
begin

text \<open>
  From a webhook to a build. What reading and printing YAML must do is \<open>yaml_faithful\<close>; then the manifests of a
  history of webhooks are those of projects, each the one before with its annotations edited, and the operator's
  reading of those annotations decides what is built.
\<close>

section \<open>Reading annotations\<close>

fun yaml_text :: "yaml \<Rightarrow> string option" where
  "yaml_text (YString s) = Some s"
| "yaml_text v = None"

definition string_entries :: "(yaml \<times> yaml) list \<Rightarrow> bool" where
  "string_entries a \<longleftrightarrow> list_all (\<lambda>(k, v). yaml_text k \<noteq> None \<and> yaml_text v \<noteq> None) a"

definition entry_map :: "(yaml \<times> yaml) list \<Rightarrow> label_map" where
  "entry_map a k = Option.bind (map_of a (YString k)) yaml_text"

definition metadata_entries :: "yaml \<Rightarrow> (yaml \<times> yaml) list option" where
  "metadata_entries v = Option.bind (as_mapping v) (\<lambda>root. Option.bind (map_of root (YString ''metadata'')) as_mapping)"

definition read_annotations :: "yaml \<Rightarrow> label_map option option" where
  "read_annotations v = Option.bind (metadata_entries v) (\<lambda>m.
     case map_of m (YString ''annotations'') of
       None \<Rightarrow> Some None
     | Some w \<Rightarrow> Option.bind (as_mapping w) (\<lambda>a. if string_entries a then Some (Some (entry_map a)) else None))"

text \<open>
  What \<open>serde_yaml\<close> and the derived conversions of \<open>Project\<close> do: a printed project reads back as itself, its annotations
  being a mapping of strings, or absent; \<open>metadata.annotations\<close> is what is read into the annotations; and nothing else
  of a project depends on it.
\<close>

definition yaml_faithful :: "yaml_lib \<Rightarrow> bool" where
  "yaml_faithful Y \<longleftrightarrow>
     (\<forall>p s. y_to_string Y p = Inr s \<longrightarrow> (\<exists>v. y_from_str Y s = Inr v \<and> y_project Y v = Inr p \<and> read_annotations v \<noteq> None))
   \<and> (\<forall>v p a. y_project Y v = Inr p \<longrightarrow> read_annotations v = Some a \<longrightarrow> om_annotations (pj_metadata p) = a)
   \<and> (\<forall>v p upserts removals v' p'. y_project Y v = Inr p \<longrightarrow> edit_annotations upserts removals v = Inr v' \<longrightarrow> y_project Y v' = Inr p'
        \<longrightarrow> p' = p\<lparr>pj_metadata := (pj_metadata p)\<lparr>om_annotations := om_annotations (pj_metadata p')\<rparr>\<rparr>)"

definition edit_map :: "(string \<times> string) list \<Rightarrow> string list \<Rightarrow> label_map \<Rightarrow> label_map" where
  "edit_map upserts removals m = foldl (\<lambda>m (k, v). m(k \<mapsto> v)) (foldl (\<lambda>m k. m(k := None)) m removals) upserts"

definition annotate :: "(string \<times> string) list \<Rightarrow> string list \<Rightarrow> project \<Rightarrow> project" where
  "annotate upserts removals p =
     p\<lparr>pj_metadata := (pj_metadata p)\<lparr>om_annotations :=
       Some (edit_map upserts removals (unwrap_or Map.empty (om_annotations (pj_metadata p))))\<rparr>\<rparr>"

lemma as_mapping_put [simp]: "as_mapping v = Some m \<Longrightarrow> as_mapping (put_mapping v m') = Some m'"
  by (induction v rule: as_mapping.induct) auto

lemma alist_put_set: "set (alist_put k v m) \<subseteq> insert (k, v) (set m)"
  by (induction k v m rule: alist_put.induct) auto

lemma removed_entries:
  "string_entries m \<Longrightarrow> string_entries (foldl (\<lambda>m k. filter (\<lambda>(k', v). k' \<noteq> YString k) m) m ks)
     \<and> entry_map (foldl (\<lambda>m k. filter (\<lambda>(k', v). k' \<noteq> YString k) m) m ks) = foldl (\<lambda>m k. m(k := None)) (entry_map m) ks"
proof (induction ks arbitrary: m)
  case Nil
  then show ?case by simp
next
  case (Cons k ks)
  let ?m = "filter (\<lambda>(k', v). k' \<noteq> YString k) m"
  have "string_entries ?m" using Cons.prems by (auto simp: string_entries_def list_all_iff)
  moreover have "entry_map ?m = (entry_map m)(k := None)"
    by (induction m) (auto simp: entry_map_def fun_eq_iff)
  ultimately show ?case using Cons.IH [of ?m] by simp
qed

lemma upserted_entries:
  "string_entries m \<Longrightarrow> string_entries (foldl (\<lambda>m (k, v). alist_put (YString k) (YString v) m) m kvs)
     \<and> entry_map (foldl (\<lambda>m (k, v). alist_put (YString k) (YString v) m) m kvs) = foldl (\<lambda>m (k, v). m(k \<mapsto> v)) (entry_map m) kvs"
proof (induction kvs arbitrary: m)
  case Nil
  then show ?case by simp
next
  case (Cons kv kvs)
  obtain k v where kv: "kv = (k, v)" by (cases kv)
  let ?m = "alist_put (YString k) (YString v) m"
  have "string_entries ?m" using Cons.prems alist_put_set [of "YString k" "YString v" m]
    by (auto simp: string_entries_def list_all_iff)
  moreover have "entry_map ?m = (entry_map m)(k \<mapsto> v)" by (simp add: entry_map_def fun_eq_iff)
  ultimately show ?case using Cons.IH [of ?m] by (simp add: kv)
qed

lemma edit_entries_map:
  "string_entries m \<Longrightarrow> string_entries (edit_entries upserts removals m)
     \<and> entry_map (edit_entries upserts removals m) = edit_map upserts removals (entry_map m)"
  unfolding edit_entries_def edit_map_def using removed_entries upserted_entries by simp

lemma edit_read:
  assumes "read_annotations v = Some a"
  shows "\<exists>v'. edit_annotations upserts removals v = Inr v'
    \<and> read_annotations v' = Some (Some (edit_map upserts removals (unwrap_or Map.empty a)))"
proof -
  obtain root metadata m where parts: "as_mapping v = Some root" "map_of root (YString ''metadata'') = Some metadata"
    "as_mapping metadata = Some m"
    using assms unfolding read_annotations_def metadata_entries_def by (auto simp: bind_eq_Some_conv)
  let ?w = "unwrap_or (YMap []) (map_of m (YString ''annotations''))"
  obtain e where e: "as_mapping ?w = Some e" "string_entries e" "entry_map e = unwrap_or Map.empty a"
    using assms parts unfolding read_annotations_def metadata_entries_def
    by (cases "map_of m (YString ''annotations'')")
      (auto simp: bind_eq_Some_conv unwrap_or_def string_entries_def entry_map_def fun_eq_iff split: if_splits)
  let ?v = "put_mapping v (alist_put (YString ''metadata'')
    (put_mapping metadata (alist_put (YString ''annotations'') (put_mapping ?w (edit_entries upserts removals e)) m)) root)"
  have "edit_annotations upserts removals v = Inr ?v"
    by (simp add: edit_annotations_def parts e(1) Let_def)
  moreover have "read_annotations ?v = Some (Some (edit_map upserts removals (unwrap_or Map.empty a)))"
    using edit_entries_map [OF e(2)] parts e(1,3) by (simp add: read_annotations_def metadata_entries_def)
  ultimately show ?thesis by blast
qed

lemma map_error_Inr [simp]: "map_error g r = Inr a \<longleftrightarrow> r = Inr a" "map_error g (Inr a) = Inr a"
  by (cases r; simp add: map_error_def) (simp add: map_error_def)

lemma with_annotations_text:
  assumes "yaml_faithful Y" and "y_to_string Y p = Inr s" and "with_annotations Y s upserts removals = Inr s'"
  shows "y_to_string Y (annotate upserts removals p) = Inr s'"
proof -
  obtain v a where v: "y_from_str Y s = Inr v" "y_project Y v = Inr p" "read_annotations v = Some a"
    using assms(1,2) unfolding yaml_faithful_def by blast
  have a: "om_annotations (pj_metadata p) = a" using assms(1) v unfolding yaml_faithful_def by blast
  obtain v' where v': "edit_annotations upserts removals v = Inr v'"
    "read_annotations v' = Some (Some (edit_map upserts removals (unwrap_or Map.empty a)))"
    using edit_read [OF v(3)] by blast
  obtain p' where p': "y_project Y v' = Inr p'" "y_to_string Y p' = Inr s'"
    using assms(3) by (auto simp: with_annotations_def v(1) v'(1) result_bind_Inr)
  have "om_annotations (pj_metadata p') = Some (edit_map upserts removals (unwrap_or Map.empty a))"
    using assms(1) p'(1) v'(2) unfolding yaml_faithful_def by blast
  moreover have "p' = p\<lparr>pj_metadata := (pj_metadata p)\<lparr>om_annotations := om_annotations (pj_metadata p')\<rparr>\<rparr>"
    using assms(1) v(2) v'(1) p'(1) unfolding yaml_faithful_def by blast
  ultimately have "p' = annotate upserts removals p" by (simp add: annotate_def a)
  with p'(2) show ?thesis by simp
qed

section \<open>Histories of webhooks\<close>

fun requested :: "webhook_action \<Rightarrow> project \<Rightarrow> project" where
  "requested (BuildTrigger branch sha) = annotate [(BUILD_TRIGGER_ANNOTATION, trim sha)] []"
| "requested (PreviewCreate n branch sha) = annotate
     [(PREVIEW_ACTION_ANNOTATION, ''create''), (PR_NUMBER_ANNOTATION, show_nat (unat n)),
      (PR_BRANCH_ANNOTATION, trim branch), (BUILD_TRIGGER_ANNOTATION, trim sha)] []"
| "requested (PreviewDelete n) = annotate
     [(PREVIEW_ACTION_ANNOTATION, ''delete''), (PR_NUMBER_ANNOTATION, show_nat (unat n))]
     [BUILD_TRIGGER_ANNOTATION, PR_BRANCH_ANNOTATION]"
| "requested a = id"

lemmas annotation_names = BUILD_TRIGGER_ANNOTATION_def PREVIEW_ACTION_ANNOTATION_def PR_NUMBER_ANNOTATION_def PR_BRANCH_ANNOTATION_def

lemma webhook_text:
  assumes "yaml_faithful Y" and "y_to_string Y p = Inr s" and "apply_webhook_action_to_manifest Y s a branch = Inr (Some t)"
  shows "y_to_string Y (requested a p) = Inr t"
  using assms(3) with_annotations_text [OF assms(1,2)]
  by (cases a) (auto simp: apply_webhook_action_to_manifest_def with_build_trigger_def with_preview_create_def
      with_preview_delete_def non_empty_branch_def non_empty_commit_sha_def result_bind_Inr Let_def annotation_names
      split: if_splits)

lemma webhook_accepts:
  "apply_webhook_action_to_manifest Y s a branch = Inr (Some t) \<Longrightarrow> a = PreviewCreate n b sha \<Longrightarrow> trim b \<noteq> []"
  by (auto simp: apply_webhook_action_to_manifest_def with_preview_create_def non_empty_branch_def result_bind_Inr Let_def
      split: if_splits)

text \<open>The manifests that are stored one after another; deliveries that are rejected or ignored store nothing.\<close>

inductive webhook_history :: "yaml_lib \<Rightarrow> string \<Rightarrow> string \<Rightarrow> webhook_action list \<Rightarrow> string \<Rightarrow> bool"
  for Y production_branch s0 where
  imported: "webhook_history Y production_branch s0 [] s0"
| accepted: "webhook_history Y production_branch s0 acts s \<Longrightarrow> apply_webhook_action_to_manifest Y s a production_branch = Inr (Some t)
     \<Longrightarrow> webhook_history Y production_branch s0 (acts @ [a]) t"

fun is_pull_request :: "webhook_action \<Rightarrow> bool" where
  "is_pull_request (PreviewCreate n b sha) = True"
| "is_pull_request (PreviewDelete n) = True"
| "is_pull_request a = False"

definition last_pull_request :: "webhook_action list \<Rightarrow> webhook_action option" where
  "last_pull_request acts = find is_pull_request (rev acts)"

fun trigger_step :: "string option \<Rightarrow> webhook_action \<Rightarrow> string option" where
  "trigger_step t (BuildTrigger b sha) = Some (trim sha)"
| "trigger_step t (PreviewCreate n b sha) = Some (trim sha)"
| "trigger_step t (PreviewDelete n) = None"
| "trigger_step t a = t"

definition last_trigger :: "webhook_action list \<Rightarrow> string option" where
  "last_trigger acts = foldl trigger_step (Some ''initial'') acts"

fun reads_request :: "project \<Rightarrow> webhook_action option \<Rightarrow> bool" where
  "reads_request p None \<longleftrightarrow> annotation_value p PREVIEW_ACTION_ANNOTATION = None \<and> annotation_value p PR_BRANCH_ANNOTATION = None"
| "reads_request p (Some (PreviewCreate n b sha)) \<longleftrightarrow> annotation_value p PREVIEW_ACTION_ANNOTATION = Some ''create''
     \<and> annotation_value p PR_NUMBER_ANNOTATION = Some (show_nat (unat n)) \<and> annotation_value p PR_BRANCH_ANNOTATION = Some (trim b)
     \<and> trim b \<noteq> []"
| "reads_request p (Some (PreviewDelete n)) \<longleftrightarrow> annotation_value p PREVIEW_ACTION_ANNOTATION = Some ''delete''
     \<and> annotation_value p PR_NUMBER_ANNOTATION = Some (show_nat (unat n))"
| "reads_request p (Some a) \<longleftrightarrow> False"

lemma annotation_value_annotate:
  "annotation_value (annotate upserts removals p) k = edit_map upserts removals (annotation_value p) k"
proof -
  have u: "unwrap_or Map.empty (om_annotations (pj_metadata p)) = annotation_value p"
    by (rule ext, cases "om_annotations (pj_metadata p)") (simp_all add: annotation_value_def)
  have "annotation_value (annotate upserts removals p) k
      = edit_map upserts removals (unwrap_or Map.empty (om_annotations (pj_metadata p))) k"
    by (simp add: annotation_value_def annotate_def)
  then show ?thesis unfolding u .
qed

lemma annotate_frame [simp]: "pj_spec (annotate upserts removals p) = pj_spec p"
  "om_name (pj_metadata (annotate upserts removals p)) = om_name (pj_metadata p)"
  "name_any (annotate upserts removals p) = name_any p"
  by (simp_all add: annotate_def name_any_def split: option.split)

lemma requested_frame [simp]: "pj_spec (requested a p) = pj_spec p"
  "om_name (pj_metadata (requested a p)) = om_name (pj_metadata p)" "name_any (requested a p) = name_any p"
  by (cases a, simp_all)+

lemma reads_cong:
  assumes "reads_request p q" and "\<And>k. k \<in> {PREVIEW_ACTION_ANNOTATION, PR_NUMBER_ANNOTATION, PR_BRANCH_ANNOTATION} \<Longrightarrow>
    annotation_value p' k = annotation_value p k"
  shows "reads_request p' q"
  using assms by (cases "(p, q)" rule: reads_request.cases) simp_all

lemma requested_reads:
  assumes "reads_request p q" and "\<And>n b sha. a = PreviewCreate n b sha \<Longrightarrow> trim b \<noteq> []"
  shows "reads_request (requested a p) (if is_pull_request a then Some a else q)"
    and "annotation_value (requested a p) BUILD_TRIGGER_ANNOTATION = trigger_step (annotation_value p BUILD_TRIGGER_ANNOTATION) a"
proof -
  have "reads_request (requested (BuildTrigger b sha) p) q" for b sha
    by (rule reads_cong [OF assms(1)]) (auto simp: annotation_value_annotate edit_map_def annotation_names)
  then show "reads_request (requested a p) (if is_pull_request a then Some a else q)"
    using assms by (cases a) (simp_all add: annotation_value_annotate edit_map_def annotation_names)
  show "annotation_value (requested a p) BUILD_TRIGGER_ANNOTATION = trigger_step (annotation_value p BUILD_TRIGGER_ANNOTATION) a"
    by (cases a) (simp_all add: annotation_value_annotate edit_map_def annotation_names)
qed

lemma imported_reads: "reads_request (imported_project spec) None"
  "annotation_value (imported_project spec) BUILD_TRIGGER_ANNOTATION = Some ''initial''"
  by (simp_all add: imported_project_def annotation_value_def annotation_names)

lemma history_manifest:
  assumes "yaml_faithful Y" and "webhook_history Y branch s0 acts s" and "y_to_string Y (imported_project spec) = Inr s0"
  shows "\<exists>p. y_to_string Y p = Inr s \<and> pj_spec p = pj_spec (imported_project spec) \<and> name_any p = gis_project_name spec
    \<and> reads_request p (last_pull_request acts) \<and> annotation_value p BUILD_TRIGGER_ANNOTATION = last_trigger acts"
  using assms(2)
proof induction
  case imported
  show ?case using assms(3) imported_reads [of spec]
    by (intro exI [of _ "imported_project spec"])
      (simp add: last_pull_request_def last_trigger_def imported_project_def name_any_def)
next
  case (accepted acts s a t)
  then obtain p where p: "y_to_string Y p = Inr s" "pj_spec p = pj_spec (imported_project spec)" "name_any p = gis_project_name spec"
    "reads_request p (last_pull_request acts)" "annotation_value p BUILD_TRIGGER_ANNOTATION = last_trigger acts" by blast
  have "reads_request (requested a p) (last_pull_request (acts @ [a]))"
    using requested_reads(1) [OF p(4), of a] webhook_accepts [OF accepted(2)]
    by (cases "is_pull_request a") (simp_all add: last_pull_request_def)
  moreover have "annotation_value (requested a p) BUILD_TRIGGER_ANNOTATION = last_trigger (acts @ [a])"
    using requested_reads(2) [OF p(4), of a] webhook_accepts [OF accepted(2)] by (simp add: last_trigger_def p(5))
  ultimately show ?case using webhook_text [OF assms(1) p(1) accepted(2)] p(2,3)
    by (intro exI [of _ "requested a p"]) simp
qed

section \<open>What the operator builds\<close>

definition shows_manifest :: "project \<Rightarrow> project \<Rightarrow> bool" where
  "shows_manifest app p \<longleftrightarrow> name_any app = name_any p \<and> pj_spec app = pj_spec p
     \<and> (\<forall>k \<in> {BUILD_TRIGGER_ANNOTATION, PREVIEW_ACTION_ANNOTATION, PR_NUMBER_ANNOTATION, PR_BRANCH_ANNOTATION}.
          annotation_value app k = annotation_value p k)"

lemma shows_manifest_refl: "shows_manifest p p"
  by (simp add: shows_manifest_def)

lemma shows_request: "shows_manifest app p \<Longrightarrow> reads_request p q \<Longrightarrow> reads_request app q"
  by (rule reads_cong [of p q app]) (auto simp: shows_manifest_def)

lemma printed_text:
  assumes "yaml_faithful Y" and "y_to_string Y p = Inr s" and "parse_project_yaml Y s = Inr p'"
  shows "p' = p"
proof -
  obtain v where "y_from_str Y s = Inr v" "y_project Y v = Inr p" using assms(1,2) unfolding yaml_faithful_def by blast
  then show ?thesis using assms(3) by (auto simp: parse_project_yaml_def result_bind_Inr split: if_splits sum.splits)
qed

lemma source_text: "source_project_yaml Y spec = Inr s \<Longrightarrow> y_to_string Y (imported_project spec) = Inr s"
  by (simp add: source_project_yaml_def Let_def split: sum.splits)

lemma applied_manifest:
  assumes "yaml_faithful Y" and "source_project_yaml Y spec = Inr s0" and "webhook_history Y branch s0 acts s"
    and "parse_project_yaml Y s = Inr p"
  shows "pj_spec p = pj_spec (imported_project spec)" and "name_any p = gis_project_name spec"
    and "reads_request p (last_pull_request acts)" and "annotation_value p BUILD_TRIGGER_ANNOTATION = last_trigger acts"
  using history_manifest [OF assms(1,3) source_text [OF assms(2)]] printed_text [OF assms(1) _ assms(4)] by blast+

lemma trigger_survives:
  "(\<And>n. last_pull_request acts \<noteq> Some (PreviewDelete n)) \<Longrightarrow> last_trigger acts \<noteq> None"
proof (induction acts rule: rev_induct)
  case Nil
  show ?case by (simp add: last_trigger_def)
next
  case (snoc a acts)
  then show ?case by (cases a) (auto simp: last_pull_request_def last_trigger_def)
qed

lemma last_pull_request_kind: "last_pull_request acts = Some a \<Longrightarrow> is_pull_request a"
  by (auto simp: last_pull_request_def find_Some_iff)

lemma imported_previews: "pj_spec app = pj_spec (imported_project spec) \<Longrightarrow> previews_enabled app"
  "pj_spec app = pj_spec (imported_project spec) \<Longrightarrow> ps_source (pj_spec app) = Some (imported_source spec)"
  by (simp_all add: previews_enabled_def imported_project_def imported_source_def)

lemma derived_build:
  assumes "pj_spec app = pj_spec (imported_project spec)" and "annotation_value app BUILD_TRIGGER_ANNOTATION = Some t"
  shows "reads_request app None \<Longrightarrow> \<exists>b. derive_new_build_status app now = Inr (Some b) \<and> cb_target b = Production
      \<and> cb_trigger b = t \<and> cb_branch b = Some (gis_branch spec)"
    and "reads_request app (Some (PreviewCreate n branch sha)) \<Longrightarrow> trim (show_nat (unat n)) \<noteq> [] \<Longrightarrow>
      \<exists>b. derive_new_build_status app now = Inr (Some b) \<and> cb_target b = Preview \<and> cb_trigger b = t
        \<and> cb_pr_number b = Some (show_nat (unat n)) \<and> cb_branch b = Some (trim branch)"
  using assms(2) imported_previews [OF assms(1)]
  by (simp_all add: derive_new_build_status_def should_build_from_source_def disabled_preview_build_requested_def
      malformed_preview_build_requested_def preview_pr_number_def preview_action_pr_number_def preview_build_action_def
      filter_option_def built_image_reference_def imported_source_def Let_def result_bind_def)

lemma delete_action_stops:
  assumes "annotation_value app PREVIEW_ACTION_ANNOTATION = Some ''delete''" and "annotation_value app PR_NUMBER_ANNOTATION = Some n"
  shows "op_holds l (reconcile_preview_delete_action api ns pns now1 now2 app) (\<lambda>r l'. isl r
    \<or> r = Inr True \<and> (\<exists>ok. (DeleteProject pns (preview_project_name (name_any app) n) None, ok) \<in> set l'))"
proof -
  let ?Q = "\<lambda>r l'. isl r \<or> r = Inr True \<and> (\<exists>ok. (DeleteProject pns (preview_project_name (name_any app) n) None, ok) \<in> set l')"
  have rest: "op_holds l' (op_bind (op_try (do_request (DeleteProject pns (preview_project_name (name_any app) n) None)
        (k_delete_project api pns (preview_project_name (name_any app) n) None))) (\<lambda>deleted.
      op_bind (case deleted of Inr _ \<Rightarrow> op_return () | Inl e \<Rightarrow> if is_api_code 404 e then op_return () else op_throw (Kube e)) (\<lambda>_.
      op_bind (patch_project api ns (name_any app) ClearBuildAnnotations) (\<lambda>_. op_return True)))) ?Q" for l'
    unfolding patch_project_def by (intro op_rules) auto
  have "op_holds l (clear_preview_build_for_delete api ns now1 now2 app n (preview_project_name (name_any app) n)) (\<lambda>r l'. True)"
    by (simp add: op_holds_def)
  from op_holds_bind [OF this _ rest] show ?thesis
    unfolding reconcile_preview_delete_action_def using assms by (simp add: Let_def)
qed

text \<open>
  C1. From webhooks to builds: an imported project and any history of accepted webhooks; the cluster shows the
  manifest that was applied last. What the operator makes of it is decided by the last pull-request event, however
  long ago: without one a push is built for production, at the commit pushed last; after the opening of a pull request
  every later push, also to the production branch, is built as a preview of that pull request, from its branch; and
  after the closing of one every later push only asks for that preview to be deleted again.
\<close>
theorem last_pull_request_decides_build:
  assumes "yaml_faithful Y" and "source_project_yaml Y spec = Inr s0" and "webhook_history Y (gis_branch spec) s0 acts s"
    and "parse_project_yaml Y s = Inr p" and "shows_manifest app p"
  shows "case last_pull_request acts of
      None \<Rightarrow> \<exists>b. derive_new_build_status app now = Inr (Some b) \<and> cb_target b = Production
        \<and> last_trigger acts = Some (cb_trigger b) \<and> cb_branch b = Some (gis_branch spec)
    | Some (PreviewCreate n branch sha) \<Rightarrow> \<exists>b. derive_new_build_status app now = Inr (Some b) \<and> cb_target b = Preview
        \<and> last_trigger acts = Some (cb_trigger b) \<and> cb_pr_number b = Some (show_nat (unat n)) \<and> cb_branch b = Some (trim branch)
    | Some (PreviewDelete n) \<Rightarrow> op_holds l (reconcile_preview_delete_action api ns pns now1 now2 app) (\<lambda>r l'. isl r
        \<or> r = Inr True \<and> (\<exists>ok. (DeleteProject pns (preview_project_name (gis_project_name spec) (show_nat (unat n))) None, ok) \<in> set l'))
    | _ \<Rightarrow> False"
proof -
  note manifest = applied_manifest [OF assms(1-4)]
  have spec: "pj_spec app = pj_spec (imported_project spec)" and name: "name_any app = gis_project_name spec"
    and trigger: "annotation_value app BUILD_TRIGGER_ANNOTATION = last_trigger acts"
    using assms(5) manifest by (auto simp: shows_manifest_def)
  have reads: "reads_request app (last_pull_request acts)" by (rule shows_request [OF assms(5) manifest(3)])
  have digits: "list_all is_graphic (show_nat k)" for k
    using show_nat_all_digits [of k] by (auto simp: list_all_iff is_ascii_digit_def is_graphic_def)
  have number: "trim (show_nat k) \<noteq> []" for k
    unfolding trim_graphic [OF digits] by (subst show_nat.simps) simp
  show ?thesis
  proof (cases "last_pull_request acts")
    case None
    then obtain t where t: "last_trigger acts = Some t" using trigger_survives [of acts] by auto
    from derived_build(1) [OF spec, of t now] reads trigger None t show ?thesis by auto
  next
    case (Some a)
    show ?thesis
    proof (cases a)
      case (PreviewCreate n branch sha)
      then obtain t where t: "last_trigger acts = Some t" using trigger_survives [of acts] Some by auto
      from derived_build(2) [OF spec, of t n branch sha now] reads trigger Some PreviewCreate t number show ?thesis by auto
    next
      case (PreviewDelete n)
      then show ?thesis using Some reads delete_action_stops [of app "show_nat (unat n)"] by (simp add: name)
    qed (use last_pull_request_kind [OF Some] in simp_all)
  qed
qed

text \<open>
  C28. A webhook never changes the specification of an imported project: every manifest that is applied names the
  image the import began with, \<open>registry:pending\<close>, so each webhook takes the place of the image the operator had
  recorded for the last successful build, and a deployment built from it runs that image.
\<close>
theorem webhooks_restore_pending_image:
  assumes "yaml_faithful Y" and "source_project_yaml Y spec = Inr s0" and "webhook_history Y (gis_branch spec) s0 acts s"
    and "parse_project_yaml Y s = Inr p"
  shows "ps_image (pj_spec p) = gis_registry spec @ '':pending''
    \<and> (build_deployment p pages platform = Inr d \<longrightarrow> ct_image (hd (pod_containers (deployment_pod d))) = gis_registry spec @ '':pending'')"
proof -
  have i: "ps_image (pj_spec p) = gis_registry spec @ '':pending''"
    using applied_manifest(1) [OF assms] by (simp add: imported_project_def)
  moreover have "ct_image (hd (pod_containers (deployment_pod d))) = ps_image (pj_spec p)" if "build_deployment p pages platform = Inr d"
    using that by (auto simp: build_deployment_def Let_def result_bind_Inr deployment_pod_def web_pod_def web_container_def)
  ultimately show ?thesis by simp
qed

text \<open>
  C27. The import of a private repository names a credentials secret that the operator never accepts for the project, so
  no pass of the operator, whatever the server answers and whatever webhooks follow, creates a build job for it.
\<close>
theorem private_import_never_builds:
  assumes "yaml_faithful Y" and "import_manifest Y lowercase repository project_name registry = Inr (spec, s0)"
    and "ghr_private repository" and "webhook_history Y (gis_branch spec) s0 acts s" and "parse_project_yaml Y s = Inr p"
    and "shows_manifest app p"
  shows "op_only (\<lambda>c. \<nexists>j. c = CreateJob ns j) (source_build_gate api ns pns clock app)"
proof -
  have s0: "source_project_yaml Y spec = Inr s0"
    and credentials: "gis_credentials_secret spec = Some (gis_project_name spec @ ''-github-git-credentials'')"
    using assms(2,3) by (auto simp: import_manifest_def result_bind_Inr run_github_deploy_pipeline_def enrich_import_spec_def
        credentials_secret_for_repository_def github_credentials_secret_name_def Let_def)
  note manifest = applied_manifest [OF assms(1) s0 assms(4,5)]
  have source: "ps_source (pj_spec app) = Some (imported_source spec)" and name: "name_any app = gis_project_name spec"
    using imported_previews(2) [of app spec] manifest assms(6) by (auto simp: shows_manifest_def)
  have "isl (validate_credentials_secret_name app (gis_project_name spec @ ''-github-git-credentials''))"
    by (simp add: validate_credentials_secret_name_def expected_credentials_secret_name_def name)
  then have "isl (build_kaniko_job_for_branch app tag b)" for tag b
    by (cases "build_kaniko_job_for_branch app tag b")
      (auto simp: build_kaniko_job_for_branch_def source imported_source_def credentials result_bind_Inr)
  then have "build_kaniko_job_for_branch app tag b \<noteq> Inr j" for tag b j by (metis sum.disc(2))
  then have "build_job_for_status app b \<noteq> Inr j" for b j
    by (cases "cb_target b") (simp_all add: build_job_for_status_def build_kaniko_job_def)
  then show ?thesis by (intro source_build_only) auto
qed

section \<open>Witnesses\<close>

text \<open>
  A YAML library that prints the manifests of one history, of a private repository: the import, a pull request, and a
  push to the production branch. It reads the annotations of any document.
\<close>

definition shop_spec :: github_import_spec where
  "shop_spec = \<lparr>gis_project_name = ''shop'', gis_namespace = ''default'', gis_repository_url = ''https://github.com/o/shop.git'',
     gis_branch = ''main'', gis_registry = ''r/shop'', gis_credentials_secret = Some ''shop-github-git-credentials'',
     gis_introspect = Some (safe_github_import_introspect ''shop'')\<rparr>"

definition shop_events :: "webhook_action list" where
  "shop_events = [PreviewCreate 7 ''topic'' ''c1'', BuildTrigger ''main'' ''c2'']"

definition shop_annotations :: "nat \<Rightarrow> (string \<times> string) list" where
  "shop_annotations i =
     (if i = 0 then [(''reinhardt.dev/build-trigger'', ''initial'')]
      else [(''reinhardt.dev/build-trigger'', if i = 1 then ''c1'' else ''c2''), (''reinhardt.dev/preview-action'', ''create''),
        (''reinhardt.dev/pr-number'', show_nat 7), (''reinhardt.dev/pr-branch'', ''topic'')])"

definition shop_manifest :: "nat \<Rightarrow> project" where
  "shop_manifest i = (imported_project shop_spec)\<lparr>pj_metadata := (pj_metadata (imported_project shop_spec))
     \<lparr>om_annotations := Some (map_of (shop_annotations i))\<rparr>\<rparr>"

definition shop_document :: "nat \<Rightarrow> yaml" where
  "shop_document i = YMap [(YString ''metadata'', YMap [(YString ''annotations'',
     YMap (map (\<lambda>(k, v). (YString k, YString v)) (shop_annotations i)))])]"

definition shop_yaml :: yaml_lib where
  "shop_yaml = \<lparr>y_from_str = \<lambda>s. if s = ''0'' then Inr (shop_document 0) else if s = ''1'' then Inr (shop_document 1)
       else if s = ''2'' then Inr (shop_document 2) else Inl ''syntax'',
     y_project = \<lambda>v. (case read_annotations v of None \<Rightarrow> Inl ''annotations''
       | Some a \<Rightarrow> Inr ((imported_project shop_spec)\<lparr>pj_metadata := (pj_metadata (imported_project shop_spec))\<lparr>om_annotations := a\<rparr>\<rparr>)),
     y_to_string = \<lambda>p. if p = shop_manifest 0 then Inr ''0'' else if p = shop_manifest 1 then Inr ''1''
       else if p = shop_manifest 2 then Inr ''2'' else Inl ''unknown''\<rparr>"

lemma shop_entries: "string_entries (map (\<lambda>(k, v). (YString k, YString v)) a)"
  "entry_map (map (\<lambda>(k, v). (YString k, YString v)) a) = map_of a"
  by (induction a) (auto simp: string_entries_def entry_map_def fun_eq_iff)

lemma shop_reads: "read_annotations (shop_document i) = Some (Some (map_of (shop_annotations i)))"
  by (simp add: read_annotations_def metadata_entries_def shop_document_def shop_entries)

lemma shop_project: "y_project shop_yaml (shop_document i) = Inr (shop_manifest i)"
  by (simp add: shop_yaml_def shop_reads shop_manifest_def)

lemma shop_faithful: "yaml_faithful shop_yaml"
proof -
  have printed: "\<exists>v. y_from_str shop_yaml s = Inr v \<and> y_project shop_yaml v = Inr p \<and> read_annotations v \<noteq> None"
    if "y_to_string shop_yaml p = Inr s" for p s
  proof -
    from that have "p = shop_manifest 0 \<and> s = ''0'' \<or> p = shop_manifest 1 \<and> s = ''1'' \<or> p = shop_manifest 2 \<and> s = ''2''"
      unfolding shop_yaml_def yaml_lib.select_convs by (metis Inr_inject sum.simps(4))
    moreover have "y_from_str shop_yaml ''0'' = Inr (shop_document 0)" "y_from_str shop_yaml ''1'' = Inr (shop_document 1)"
      "y_from_str shop_yaml ''2'' = Inr (shop_document 2)" by (simp_all add: shop_yaml_def)
    ultimately obtain i where "p = shop_manifest i" "y_from_str shop_yaml s = Inr (shop_document i)" by metis
    then show ?thesis using shop_project [of i] shop_reads [of i] by simp
  qed
  have read: "om_annotations (pj_metadata p) = a" if "y_project shop_yaml v = Inr p" "read_annotations v = Some a" for v p a
    using that by (auto simp: shop_yaml_def)
  have frame: "p' = p\<lparr>pj_metadata := (pj_metadata p)\<lparr>om_annotations := om_annotations (pj_metadata p')\<rparr>\<rparr>"
    if "y_project shop_yaml v = Inr p" "y_project shop_yaml v' = Inr p'" for v v' p p'
    using that by (auto simp: shop_yaml_def split: option.splits)
  show ?thesis unfolding yaml_faithful_def using printed read frame by blast
qed

lemma shop_manifests_differ: "shop_manifest 1 \<noteq> shop_manifest 0" "shop_manifest 2 \<noteq> shop_manifest 0" "shop_manifest 2 \<noteq> shop_manifest 1"
proof -
  have "annotation_value (shop_manifest 0) BUILD_TRIGGER_ANNOTATION = Some ''initial''"
    "annotation_value (shop_manifest 1) BUILD_TRIGGER_ANNOTATION = Some ''c1''"
    "annotation_value (shop_manifest 2) BUILD_TRIGGER_ANNOTATION = Some ''c2''"
    by (simp_all add: shop_manifest_def shop_annotations_def annotation_value_def annotation_names)
  then show "shop_manifest 1 \<noteq> shop_manifest 0" "shop_manifest 2 \<noteq> shop_manifest 0" "shop_manifest 2 \<noteq> shop_manifest 1"
    by auto
qed

lemma shop_texts: "y_to_string shop_yaml (shop_manifest 0) = Inr ''0''" "y_to_string shop_yaml (shop_manifest 1) = Inr ''1''"
  "y_to_string shop_yaml (shop_manifest 2) = Inr ''2''" "y_from_str shop_yaml ''0'' = Inr (shop_document 0)"
  "y_from_str shop_yaml ''1'' = Inr (shop_document 1)" "y_from_str shop_yaml ''2'' = Inr (shop_document 2)"
  using shop_manifests_differ by (simp_all add: shop_yaml_def)

lemma shop_imported: "imported_project shop_spec = shop_manifest 0"
  by (simp add: shop_manifest_def imported_project_def shop_annotations_def)

lemma shop_valid: "validate_project (pj_spec (shop_manifest i)) = Inr ()"
  by (simp add: shop_manifest_def imported_project_def validate_project_def project_spec_default_def imported_source_def shop_spec_def
      validate_source_def validate_build_def validate_webhook_def validate_preview_def finish_def err_if_def on_some_def errs_of_def
      DEFAULT_PREVIEW_TTL_def)

lemma shop_parsed: "parse_project_yaml shop_yaml ''2'' = Inr (shop_manifest 2)"
proof -
  have "unwrap_or [] (om_name (pj_metadata (shop_manifest 2))) = ''shop''"
    by (simp add: shop_manifest_def imported_project_def shop_spec_def object_meta_default_def)
  then show ?thesis by (simp add: parse_project_yaml_def shop_texts shop_project shop_valid result_bind_def)
qed

lemma shop_source: "source_project_yaml shop_yaml shop_spec = Inr ''0''"
  by (simp add: source_project_yaml_def Let_def shop_imported shop_valid shop_texts)

lemma shop_trims: "trim ''topic'' = ''topic''" "trim ''c1'' = ''c1''" "trim ''c2'' = ''c2''"
  by (simp_all add: trim_graphic is_graphic_def)

lemma shop_edits:
  "edit_annotations [(''reinhardt.dev/preview-action'', ''create''), (''reinhardt.dev/pr-number'', show_nat 7),
     (''reinhardt.dev/pr-branch'', ''topic''), (''reinhardt.dev/build-trigger'', ''c1'')] [] (shop_document 0)
   = Inr (shop_document 1)"
  "edit_annotations [(''reinhardt.dev/build-trigger'', ''c2'')] [] (shop_document 1) = Inr (shop_document 2)"
  by (simp_all add: edit_annotations_def shop_document_def shop_annotations_def edit_entries_def Let_def)

lemma shop_history: "webhook_history shop_yaml ''main'' ''0'' shop_events ''2''"
proof -
  have "with_annotations shop_yaml ''0'' [(''reinhardt.dev/preview-action'', ''create''), (''reinhardt.dev/pr-number'', show_nat 7),
      (''reinhardt.dev/pr-branch'', ''topic''), (''reinhardt.dev/build-trigger'', ''c1'')] [] = Inr ''1''"
    by (simp only: with_annotations_def shop_texts shop_edits shop_project result_bind_simps map_error_Inr)
  then have "apply_webhook_action_to_manifest shop_yaml ''0'' (PreviewCreate 7 ''topic'' ''c1'') ''main'' = Inr (Some ''1'')"
    by (simp add: apply_webhook_action_to_manifest_def with_preview_create_def non_empty_branch_def non_empty_commit_sha_def
        shop_trims result_bind_def)
  then have one: "webhook_history shop_yaml ''main'' ''0'' ([] @ [PreviewCreate 7 ''topic'' ''c1'']) ''1''"
    by (rule accepted [OF imported])
  have "with_annotations shop_yaml ''1'' [(''reinhardt.dev/build-trigger'', ''c2'')] [] = Inr ''2''"
    by (simp only: with_annotations_def shop_texts shop_edits shop_project result_bind_simps map_error_Inr)
  then have "apply_webhook_action_to_manifest shop_yaml ''1'' (BuildTrigger ''main'' ''c2'') ''main'' = Inr (Some ''2'')"
    by (simp add: apply_webhook_action_to_manifest_def with_build_trigger_def non_empty_commit_sha_def shop_trims result_bind_def)
  from accepted [OF one this] show ?thesis by (simp add: shop_events_def)
qed

lemma shop_branch: "gis_branch shop_spec = ''main''"
  by (simp add: shop_spec_def)

lemma shop_last: "last_pull_request shop_events = Some (PreviewCreate 7 ''topic'' ''c1'')" "last_trigger shop_events = Some ''c2''"
  by (simp_all add: last_pull_request_def last_trigger_def shop_events_def shop_trims)

lemma shop_run: "webhook_history shop_yaml (gis_branch shop_spec) ''0'' shop_events ''2''"
  unfolding shop_branch by (rule shop_history)

theorem last_pull_request_decides_build_witness:
  "\<exists>b. derive_new_build_status (shop_manifest 2) ''now'' = Inr (Some b) \<and> cb_target b = Preview \<and> cb_trigger b = ''c2''
     \<and> cb_branch b = Some ''topic''"
proof -
  note h = last_pull_request_decides_build [OF shop_faithful shop_source shop_run shop_parsed shows_manifest_refl]
  from h [where now = "''now''"] obtain b where "derive_new_build_status (shop_manifest 2) ''now'' = Inr (Some b)"
    "cb_target b = Preview" "Some ''c2'' = Some (cb_trigger b)" "cb_branch b = Some ''topic''"
    unfolding shop_last option.case webhook_action.case shop_trims by (elim exE conjE)
  then show ?thesis by simp
qed

lemma shop_registry: "gis_registry shop_spec = ''r/shop''"
  by (simp add: shop_spec_def)

theorem webhooks_restore_pending_image_witness:
  "ps_image (pj_spec (shop_manifest 2)) = ''r/shop'' @ '':pending''"
  using webhooks_restore_pending_image [OF shop_faithful shop_source shop_run shop_parsed] unfolding shop_registry by blast

definition shop_repository :: github_repository where
  "shop_repository = \<lparr>ghr_id = Some 1, ghr_installation = 1, ghr_github_repository_id = 9, ghr_full_name = ''o/shop'',
     ghr_owner_login = ''o'', ghr_name = ''shop'', ghr_default_branch = ''main'', ghr_private = True, ghr_selected = False,
     ghr_import_claimed_at = None, ghr_updated_at = 0\<rparr>"

lemma shop_import: "import_manifest shop_yaml (\<lambda>n. [n]) shop_repository ''shop'' ''r/shop'' = Inr (shop_spec, ''0'')"
proof -
  have "dns_label ''shop''" by (simp add: dns_label_def dns_char_def dns_of_ascii is_ascii_lowercase_def)
  moreover have t: "trim ''shop'' = ''shop''" "trim ''r/shop'' = ''r/shop''" by (simp_all add: trim_graphic is_graphic_def)
  ultimately have n: "validate_project_name ''shop'' = Inr ''shop''" by (simp add: validate_project_name_iff)
  have "\<not> contains_whitespace ''r/shop''" by (simp add: ws_len_graphic is_graphic_def)
  then have r: "validate_registry ''r/shop'' = Inr ''r/shop''" by (simp add: validate_registry_def t trim_end_matches_def)
  have s: "enrich_import_spec \<lparr>gis_project_name = ''shop'', gis_namespace = ''default'',
      gis_repository_url = ''https://github.com/o/shop.git'', gis_branch = ''main'', gis_registry = ''r/shop'',
      gis_credentials_secret = None, gis_introspect = None\<rparr> (safe_github_import_introspect ''shop'')
      (Some ''shop-github-git-credentials'') = shop_spec"
    by (simp add: enrich_import_spec_def shop_spec_def)
  show ?thesis
    by (simp add: import_manifest_def import_spec_from_repository_def t n r shop_repository_def DEFAULT_NAMESPACE_def
        run_github_deploy_pipeline_def credentials_secret_for_repository_def github_credentials_secret_name_def Let_def
        result_bind_def s [simplified] shop_source)
qed

theorem private_import_never_builds_witness:
  "op_only (\<lambda>c. \<nexists>j. c = CreateJob ''default'' j)
     (source_build_gate (kube_of (still_api (\<lambda>_. None) (\<lambda>_. None))) ''default'' ''p'' (\<lambda>_. ''now'') (shop_manifest 2))"
proof (rule private_import_never_builds [OF shop_faithful shop_import _ _ shop_parsed shows_manifest_refl])
  show "ghr_private shop_repository" by (simp add: shop_repository_def)
  show "webhook_history shop_yaml (gis_branch shop_spec) ''0'' shop_events ''2''" unfolding shop_branch by (rule shop_history)
qed

end
