(* ===== verification/Spec2Isabelle.thy ===== *)
theory Spec2Isabelle
  imports LogBuffer TelemetryLog BuildService Plugins ProjectValidation AgentService Backoff SourceBuildRun Exposure NetworkPolicies WebhookProps
begin

text \<open>
  A verification development for Reinhardt Cloud, a platform-as-a-service on Kubernetes written in
  Rust. It follows the crates under \<open>src/crates/reinhardt-cloud-*\<close> (\<open>types\<close>, \<open>core\<close>, \<open>telemetry\<close>,
  \<open>grpc\<close>, \<open>operator\<close>, \<open>k8s\<close>) and the GitHub integration of \<open>src/dashboard\<close>; names of files below are relative to the \<open>src\<close> directory of the crate.

  The parts and how they interact. Users describe an application in a \<open>Project\<close> resource. The
  operator reconciles it: it validates the specification and the tenant, creates credentials, builds
  the image from source with Kaniko jobs, rolls the workload out, keeps a status object, manages the
  preview environments of pull requests and cleans up when the project is deleted. Agents in member
  clusters connect to the control plane over gRPC; interceptors check their tokens, the cluster agent
  service binds each stream to the cluster of its token in the agent registry, and commands are routed
  through that registry. Local builds, logs and plugins are services of the control plane.

  Conventions. Strings are byte sequences in UTF-8 and characters above 127 are written out where the
  code looks at characters; machine integers are words; times are nanoseconds as integers, or the
  RFC 3339 strings the code stores; errors are values of a sum type and a panic is its own value.
  Third-party code is an argument: \<open>jsonwebtoken\<close> (\<open>jwt_lib\<close>, with the laws a proof needs as
  hypotheses), UUID and RFC 3339 parsing, clocks, random draws, SHA-256, and the Kubernetes API, a
  record of functions on an arbitrary world that may answer anything (\<open>kube_api\<close>, \<open>secret_api\<close> in
  theory Kube). A theorem about the operator's requests holds for every such server unless it names
  what it needs of it.

  Theories, from the bottom.
  \<^item> Prelude: lists, options, results, strings, words; the collections the proofs share.
  \<^item> Domain (types: \<open>agent.rs\<close>, \<open>build.rs\<close>, \<open>log.rs\<close>; core: \<open>error.rs\<close>), Pagination (\<open>pagination.rs\<close>).
  \<^item> LogContract, LogBuffer (core \<open>services/log\<close>): the bounded buffer with its live tail against the
    contract of a log; TelemetryLog (telemetry \<open>log_service\<close>) instantiates the same contract.
  \<^item> BuildService (core \<open>services/build/local.rs\<close>): handlers and pipeline as atomic steps of a
    transition system; a pipeline takes at most 23 steps.
  \<^item> Plugins (core \<open>plugin\<close>): registration and hooks.
  \<^item> Validation (\<open>validation.rs\<close>, \<open>crd/tenant.rs\<close>), Infrastructure (\<open>crd/infrastructure.rs\<close>, core
    \<open>infrastructure_derivation.rs\<close>), Cidr (\<open>crd/isolation.rs\<close>), ProjectSpec and ProjectValidation (the
    other files of \<open>crd\<close>): the specification and all its validators.
  \<^item> RegistryContract, AgentRegistry (grpc \<open>registry.rs\<close>), Interceptor (\<open>interceptor.rs\<close>,
    \<open>agent_claims.rs\<close>, core \<open>auth.rs\<close>), AgentService (\<open>services/cluster_agent.rs\<close>): connections, tokens and
    streams; the tasks of a stream are a step relation that interleaves with every other operation.
    Generations are 64-bit, so statements about reconnects assume fewer than \<open>2 ^ 64\<close> registrations.
  \<^item> Backoff (operator \<open>error.rs\<close> and the error policy and gauges of \<open>reconciler.rs\<close>); attempt counters
    are 32-bit, so the statements are about fewer than \<open>2 ^ 32\<close> failures in a row.
  \<^item> ProjectStatus (\<open>crd/status.rs\<close>, \<open>build_status\<close> and the patches of \<open>reconciler.rs\<close>).
  \<^item> Resources (\<open>resources.rs\<close>, \<open>resources/labels.rs\<close>, \<open>preview.rs\<close>, \<open>preview_namespace.rs\<close>) and
    PreviewNames: names, labels, ownership and specifications of previews.
  \<^item> Requests: programs that send requests to an arbitrary world and keep a log of them, with three
    program logics: \<open>op_holds\<close> (what the log and the result satisfy whatever is answered), \<open>op_runs\<close> (from
    a given state of the world) and \<open>op_only\<close> (which requests a program can send). Kube: the requests of
    the operator to the Kubernetes API.
  \<^item> SourceBuild, SourceBuildProps, SourceBuildRun (\<open>source_build.rs\<close>, \<open>resources/source.rs\<close>, the gate of
    \<open>apply\<close>): triggers, jobs, build status, one pass of the build controller and the gate.
  \<^item> RedisCredentials (\<open>inference/secrets.rs\<close>, the Redis functions of \<open>reconciler.rs\<close>): creation with a
    committed digest, adoption, retention; the histories include tenants who rewrite secrets. Passwords
    are 32 draws and lengths are encoded in 64 bits.
  \<^item> Cleanup (\<open>cleanup\<close> and the functions it calls in \<open>reconciler.rs\<close>).
  \<^item> Objects: the fields of Kubernetes objects that the builders set. EnvVars (\<open>inference/env_vars.rs\<close>):
    the environment of a workload and the secrets it can read. Workload (\<open>resources/deployment.rs\<close>,
    \<open>service.rs\<close>, \<open>worker.rs\<close>, \<open>cache.rs\<close>, \<open>plugins.rs\<close>, \<open>security\<close> and their kin, \<open>inference/platform.rs\<close>,
    \<open>pages.rs\<close>): pods, services, service accounts and pages. Database (\<open>inference/database.rs\<close>,
    \<open>resources/database.rs\<close>, \<open>migration.rs\<close>, \<open>inference/secrets.rs\<close>): databases, their secrets and the
    migration job.
  \<^item> Exposure (\<open>resources/ingress.rs\<close>, \<open>autoscaler.rs\<close> and the host checks of \<open>reconciler.rs\<close>);
    NetworkPolicies (\<open>resources/tenant.rs\<close>, \<open>preview_namespace.rs\<close>, \<open>security/network_policy.rs\<close>): the
    policies with the meaning Kubernetes documents, and which connections they allow together.
  \<^item> Apply (\<open>apply\<close>, \<open>reconcile\<close> and the functions they call in \<open>reconciler.rs\<close>): one pass over a project,
    every request in order, against an arbitrary API server; the finalizer of kube is an argument.
    ApplyProps: which requests a pass can send, what must have been accepted before tenant code
    starts, and what stops a rollout.
  \<^item> Webhook (\<open>utils/vcs\<close>, \<open>apps/github/services/webhook.rs\<close> and the names of \<open>import.rs\<close>, below
    \<open>src/dashboard/src\<close>): events, signatures and names. GithubImport (\<open>services/import.rs\<close>, \<open>pipeline.rs\<close>,
    k8s \<open>resources.rs\<close>): the manifest of an imported repository, the annotations a webhook puts on it,
    and how the cluster reads it; \<open>serde_yaml\<close> is an argument, \<open>yaml_faithful\<close> what is relied on.
    WebhookProps: any history of webhooks, together with what the operator then does.
  \<^item> This theory: what holds of tokens, interceptor, service and registry together.

  What the groups of lemmas show is stated before each property: validators and name functions are
  characterised exactly or shown to keep their outputs in a safe language; the registry, the builds,
  the status and the secrets keep invariants over all interleavings; the request programs of the
  operator send only requests in their scope, in the order that makes interrupted passes repeatable.

  Not modelled. Kubernetes client wrappers, process set-up, telemetry exporters and the web front end
  are input and output of libraries; in the operator the watch loop of kube-rs, tracing, counters and
  durations. Of the control plane, the remaining gRPC services and the Loki backend; the command line
  client; and the other services of the dashboard are left for later, in this order.
\<close>

section \<open>From the token to the registry\<close>

definition agent_connect ::
  "jwt_lib \<Rightarrow> string \<Rightarrow> token_validator option \<Rightarrow> string \<Rightarrow> (string \<Rightarrow> string + uuid)
     \<Rightarrow> (pb_timestamp option \<Rightarrow> timestamp) \<Rightarrow> timestamp \<Rightarrow> 'tx \<Rightarrow> grpc_request
     \<Rightarrow> (string + pb_event option) list \<Rightarrow> 'tx agent_registry \<Rightarrow> (status + agent_stream) \<times> 'tx agent_registry" where
  "agent_connect J secret validator path parse ts now tx request items r =
     (case agent_jwt_interceptor J secret validator (record_path path request) of
        Inl e \<Rightarrow> (Inl e, r)
      | Inr request' \<Rightarrow> grpc_agent_stream parse ts now tx request' items r)"

lemma grpc_agent_stream_Inr:
  assumes "grpc_agent_stream parse ts now tx request items r = (Inr st, r')"
  shows "\<exists>claims c. rq_agent_claims request = Some claims \<and> parse (ac_cluster_id claims) = Inr (st_cluster st)
    \<and> agents r' = (agents r)(st_agent st \<mapsto> c) \<and> conn_cluster_id c = Some (st_cluster st)
    \<and> conn_generation c = st_generation st"
proof (cases "authenticated_cluster_id parse request")
  case (Inl e)
  with assms show ?thesis by (simp add: grpc_agent_stream_def)
next
  case (Inr cl)
  then obtain claims where "rq_agent_claims request = Some claims" "parse (ac_cluster_id claims) = Inr cl"
    by (auto simp: authenticated_cluster_id_def result_bind_Inr ok_or_def split: option.splits sum.splits)
  moreover have "\<exists>c. agents r' = (agents r)(st_agent st \<mapsto> c) \<and> conn_cluster_id c = Some cl
    \<and> conn_generation c = st_generation st \<and> st_cluster st = cl"
    using assms Inr
    by (fastforce simp: grpc_agent_stream_def agent_stream_authenticated_def register_with_cluster_def Let_def
        split: sum.splits option.splits agent_event.splits if_splits prod.splits)
  ultimately show ?thesis by auto
qed

text \<open>
  C3. From the token to the registry: if a token issued for a cluster opens a stream, whatever
  identifiers the peer announces and whatever claims the request carried before, the agent is
  bound to the cluster the token was issued for, and no entry of another agent changes.
\<close>
theorem issued_token_binds_its_cluster:
  assumes "jwt_faithful J" and "\<forall>u. parse (fmt u) = Inr u"
    and "create_agent_token J lo hi issued (fmt cluster) secret hours = Some (Inr token)"
    and "rq_authorization request = Some (''Bearer '' @ token)"
    and "agent_connect J secret validator path parse ts now tx request items r = (Inr st, r')"
  shows "st_cluster st = cluster \<and> is_agent_path path
    \<and> (\<exists>c. agents r' = (agents r)(st_agent st \<mapsto> c) \<and> conn_cluster_id c = Some cluster
         \<and> conn_generation c = st_generation st)"
proof -
  from assms(5) obtain request' where i: "agent_jwt_interceptor J secret validator (record_path path request) = Inr request'"
    and g: "grpc_agent_stream parse ts now tx request' items r = (Inr st, r')"
    by (auto simp: agent_connect_def split: sum.splits)
  from i assms(4) obtain claims where cl: "validate_agent_token J secret validator token = Inr claims"
    "rq_agent_claims request' = Some claims" "is_agent_path path"
    by (auto simp: agent_jwt_interceptor_Inr record_path_def)
  from validate_agent_token_Inr [OF cl(1)] have "verify_agent_token J token secret = Inr claims" by simp
  from verify_created_agent_token [OF assms(1,3) this] have "ac_cluster_id claims = fmt cluster" by simp
  with grpc_agent_stream_Inr [OF g] cl(2) assms(2) have "st_cluster st = cluster" by auto
  with grpc_agent_stream_Inr [OF g] cl(3) show ?thesis by auto
qed

definition sample_fmt :: "uuid \<Rightarrow> string" where
  "sample_fmt u = CHR ''c'' # show_nat (unat u)"

definition sample_parse :: "string \<Rightarrow> string + uuid" where
  "sample_parse s = (case s of [] \<Rightarrow> Inl ''empty''
     | c # ds \<Rightarrow> Inr (of_nat (digits_value 10 (map (\<lambda>d. byte d - 48) ds))))"

lemma sample_parse_fmt: "sample_parse (sample_fmt u) = Inr u"
  by (simp add: sample_parse_def sample_fmt_def digits_show_nat)

theorem issued_token_binds_its_cluster_witness:
  "\<exists>st r'. agent_connect sample_jwt ''s'' None ''/reinhardt.cloud.cluster_agent.AgentService/AgentStream''
       sample_parse (\<lambda>_. 0) 5 () (sample_request_with ''tok'') [Inr (Some (PbConnected ''a7'' ''prod'' None))]
       agent_registry_new = (Inr st, r')
     \<and> st_cluster st = 1 \<and> st_agent st = 7"
proof -
  let ?path = "''/reinhardt.cloud.cluster_agent.AgentService/AgentStream''"
  have f: "jwt_faithful sample_jwt"
    by (auto simp: jwt_faithful_def sample_jwt_def split: if_splits)
  have fmt: "sample_fmt 1 = ''c1''" 
    by (simp add: sample_fmt_def show_nat.simps digit_char_def byte_eq_iff del: of_char_eq_iff)
  have tok: "create_agent_token sample_jwt 0 (10 ^ 20) 0 (sample_fmt 1) ''s'' 1 = Some (Inr ''tok'')"
    by (simp add: fmt create_agent_token_def agent_claims_new_def expiry_def sample_jwt_def sample_agent_claims_def)
  have parse: "sample_parse ''c1'' = Inr 1" using sample_parse_fmt [of 1] fmt by simp
  have parse7: "sample_parse ''a7'' = Inr 7"
    by (simp add: sample_parse_def digits_value_def)
  obtain st r' where c: "agent_connect sample_jwt ''s'' None ?path sample_parse (\<lambda>_. 0) 5 ()
      (sample_request_with ''tok'') [Inr (Some (PbConnected ''a7'' ''prod'' None))] agent_registry_new = (Inr st, r')"
    and st: "st_agent st = 7"
    by (simp add: agent_connect_def agent_jwt_interceptor_def record_path_def is_agent_path_def
        AGENT_PATH_PREFIXES_def LOG_SERVICE_PUSH_LOGS_PATH_def starts_with_def bearer_def
        sample_request_with_def strip_prefix_def validate_agent_token_def sample_jwt_verify
        grpc_agent_stream_def authenticated_cluster_id_def sample_agent_claims_def parse
        agent_stream_authenticated_def register_with_cluster_def agent_registry_new_def parse7 Let_def)
  from issued_token_binds_its_cluster [where fmt = sample_fmt, OF f _ tok _ c] sample_parse_fmt st c show ?thesis
    by (auto simp: sample_request_with_def)
qed

end
